(* ===== verification/Nx_Prelude.thy ===== *)
theory Nx_Prelude
  imports Main "HOL-Library.Word"
begin

unbundle bit_operations_syntax

text \<open>
  Shared vocabulary of the development: the machine integers of the C and C++ sources as
  words, the outcomes of an operation that C leaves undefined, the little-endian object
  representation of an integer, and the generic lemmas on lists, words and powers of two
  that several components use.
\<close>

section \<open>Machine integers and pointers\<close>

type_synonym u8 = "8 word"
type_synonym u16 = "16 word"
type_synonym u32 = "32 word"
type_synonym u64 = "64 word"

text \<open>
  The library is built for 64-bit hosts and devices: \<open>size_t\<close>, \<open>uintptr_t\<close>,
  \<open>iree_host_size_t\<close> and \<open>iree_device_size_t\<close> are 64 bits wide. A pointer is its
  address, 0 being \<open>nullptr\<close>.
\<close>

type_synonym iree_host_size_t = u64
type_synonym iree_device_size_t = u64
type_synonym ptr = u64

abbreviation (input) nullptr :: ptr where
  "nullptr \<equiv> 0"

section \<open>Undefined behaviour as a value\<close>

text \<open>
  Where the C abstract machine gives no meaning to an operation, or where the code throws or
  asserts, the model returns the reason on the left of a sum.
\<close>

datatype c_error =
    OutOfBounds
  | NullDeref
  | UninitRead
  | DivByZero
  | SignedOverflow
  | BadShift
  | BadBuiltin
  | BadAlloc
  | BadOptionalAccess
  | UseAfterFree
  | AssertFailed
  | Diverges
  | Thrown string

type_synonym 'a res = "c_error + 'a"

definition bind_res :: "'a res \<Rightarrow> ('a \<Rightarrow> 'b res) \<Rightarrow> 'b res" where
  "bind_res m f = (case m of Inl e \<Rightarrow> Inl e | Inr x \<Rightarrow> f x)"

lemma bind_res_simps [simp]:
  "bind_res (Inl e) f = Inl e"
  "bind_res (Inr x) f = f x"
  by (simp_all add: bind_res_def)

lemma bind_res_eq_Inr:
  "bind_res m f = Inr y \<longleftrightarrow> (\<exists>x. m = Inr x \<and> f x = Inr y)"
  by (cases m) simp_all

lemma bind_res_assoc: "bind_res (bind_res m f) g = bind_res m (\<lambda>x. bind_res (f x) g)"
  by (cases m) simp_all

section \<open>Computations that change state and may fail\<close>

type_synonym ('s, 'a) sm = "'s \<Rightarrow> ('a \<times> 's) res"

definition ret_sm :: "'a \<Rightarrow> ('s, 'a) sm" where
  "ret_sm x s = Inr (x, s)"

definition fail_sm :: "c_error \<Rightarrow> ('s, 'a) sm" where
  "fail_sm e s = Inl e"

definition bind_sm :: "('s, 'a) sm \<Rightarrow> ('a \<Rightarrow> ('s, 'b) sm) \<Rightarrow> ('s, 'b) sm" where
  "bind_sm m f s = (case m s of Inl e \<Rightarrow> Inl e | Inr (x, s') \<Rightarrow> f x s')"

definition lift_sm :: "'a res \<Rightarrow> ('s, 'a) sm" where
  "lift_sm r s = (case r of Inl e \<Rightarrow> Inl e | Inr x \<Rightarrow> Inr (x, s))"

definition gets_sm :: "('s \<Rightarrow> 'a) \<Rightarrow> ('s, 'a) sm" where
  "gets_sm f s = Inr (f s, s)"

definition modify_sm :: "('s \<Rightarrow> 's) \<Rightarrow> ('s, unit) sm" where
  "modify_sm f s = Inr ((), f s)"

text \<open>Running a computation once per element of a list, left to right, collecting results.\<close>

fun mapM_sm :: "('a \<Rightarrow> ('s, 'b) sm) \<Rightarrow> 'a list \<Rightarrow> ('s, 'b list) sm" where
  "mapM_sm f [] = ret_sm []"
| "mapM_sm f (x # xs) = bind_sm (f x) (\<lambda>y. bind_sm (mapM_sm f xs) (\<lambda>ys. ret_sm (y # ys)))"

lemma sm_simps [simp]:
  "bind_sm (ret_sm x) f s = f x s"
  "bind_sm (fail_sm e) f2 s = Inl e"
  "bind_sm (gets_sm g) f3 s = f3 (g s) s"
  "bind_sm (modify_sm h) f4 s = f4 () (h s)"
  "bind_sm (lift_sm (Inr y)) f5 s = f5 y s"
  "bind_sm (lift_sm (Inl e)) f6 s = Inl e"
  "bind_sm (bind_sm m f7) f8 s = bind_sm m (\<lambda>z. bind_sm (f7 z) f8) s"
  by (auto simp: bind_sm_def ret_sm_def fail_sm_def gets_sm_def modify_sm_def lift_sm_def
      split: sum.split)

lemma sm_run_simps [simp]:
  "ret_sm x s = Inr (x, s)"
  "fail_sm e s = Inl e"
  "gets_sm g s = Inr (g s, s)"
  "modify_sm h s = Inr ((), h s)"
  "lift_sm (Inr y) s = Inr (y, s)"
  "lift_sm (Inl e) s = Inl e"
  by (simp_all add: ret_sm_def fail_sm_def gets_sm_def modify_sm_def lift_sm_def)

lemma bind_sm_eq_Inr:
  "bind_sm m f s = Inr r \<longleftrightarrow> (\<exists>x s'. m s = Inr (x, s') \<and> f x s' = Inr r)"
  by (auto simp: bind_sm_def split: sum.splits)

lemma bind_lift_eq_Inr:
  "bind_sm (lift_sm r) f s = Inr q \<longleftrightarrow> (\<exists>x. r = Inr x \<and> f x s = Inr q)"
  by (cases r) simp_all

lemma lift_sm_eq_Inr: "lift_sm r s = Inr (x, s') \<longleftrightarrow> r = Inr x \<and> s' = s"
  by (cases r) auto

lemma bind_sm_Inr: "m s = Inr (x, s') \<Longrightarrow> bind_sm m f s = f x s'"
  by (simp add: bind_sm_def)

lemma bind_sm_Inl: "m s = Inl e \<Longrightarrow> bind_sm m f s = Inl e"
  by (simp add: bind_sm_def)

lemma length_mapM_sm: "mapM_sm f xs s = Inr (ys, s') \<Longrightarrow> length ys = length xs"
  by (induction xs arbitrary: ys s s') (auto simp: bind_sm_eq_Inr)

section \<open>Collections of simplification rules\<close>

named_theorems c_defs "definitions of the straight-line helpers that proofs unfold"
named_theorems width_simps "sizes of encoded objects"

section \<open>Lists\<close>

lemma take_length_append [simp]: "length xs = n \<Longrightarrow> take n (xs @ ys) = xs"
  by simp

lemma drop_length_append [simp]: "length xs = n \<Longrightarrow> drop n (xs @ ys) = ys"
  by simp

lemma list_update_same_value: "xs ! p = x \<Longrightarrow> xs = xs[p := x]"
  by auto

lemma upt_Cons_Suc: "n # [Suc n ..< n + Suc m] = [n ..< n + Suc m]"
  by (rule upt_conv_Cons [symmetric]) simp

lemma upt_glue: "[a ..< a + b] @ [a + b ..< a + (b + c)] = [a ..< a + (b + c)]"
  using upt_add_eq_append [of a "a + b" c] by (simp add: add.assoc)

text \<open>Reading and writing a run of bytes of a memory block, with the range check written out.\<close>

definition read_bytes :: "u8 list \<Rightarrow> nat \<Rightarrow> nat \<Rightarrow> u8 list res" where
  "read_bytes m off n =
     (if off + n \<le> length m then Inr (take n (drop off m)) else Inl OutOfBounds)"

definition write_bytes :: "u8 list \<Rightarrow> nat \<Rightarrow> u8 list \<Rightarrow> u8 list res" where
  "write_bytes m off bs =
     (if off + length bs \<le> length m then Inr (take off m @ bs @ drop (off + length bs) m)
      else Inl OutOfBounds)"

lemma read_bytes_append:
  "length xs = off \<Longrightarrow> length ys = n \<Longrightarrow> read_bytes (xs @ ys @ zs) off n = Inr ys"
  by (simp add: read_bytes_def)

lemma length_read_bytes: "read_bytes m off n = Inr bs \<Longrightarrow> length bs = n"
  by (auto simp: read_bytes_def split: if_splits)

lemma length_write_bytes: "write_bytes m off bs = Inr m' \<Longrightarrow> length m' = length m"
  by (auto simp: write_bytes_def split: if_splits)

lemma read_write_bytes_same:
  "write_bytes m off bs = Inr m' \<Longrightarrow> read_bytes m' off (length bs) = Inr bs"
  by (auto simp: write_bytes_def read_bytes_def split: if_splits)

lemma read_write_bytes_other:
  assumes "write_bytes m off bs = Inr m'"
    and "off' + n \<le> off \<or> off + length bs \<le> off'"
  shows "read_bytes m' off' n = read_bytes m off' n"
proof -
  from assms(1) have le: "off + length bs \<le> length m"
    and m': "m' = take off m @ bs @ drop (off + length bs) m"
    by (auto simp: write_bytes_def split: if_splits)
  have len: "length m' = length m"
    using le m' by simp
  show ?thesis
  proof (cases "off' + n \<le> length m")
    case False
    then show ?thesis by (simp add: read_bytes_def len)
  next
    case True
    have "take n (drop off' m') = take n (drop off' m)"
    proof (rule nth_equalityI)
      show "length (take n (drop off' m')) = length (take n (drop off' m))"
        by (simp add: len)
    next
      fix i
      assume "i < length (take n (drop off' m'))"
      then show "take n (drop off' m') ! i = take n (drop off' m) ! i"
        using assms(2) le True by (auto simp: m' nth_append)
    qed
    then show ?thesis using True by (simp add: read_bytes_def len)
  qed
qed

section \<open>Little-endian object representation\<close>

text \<open>
  The sources store an integer by copying its object representation (\<open>memcpy\<close> from its
  address); every target of the library is little-endian, so the representation lists the
  bytes from the least significant one.
\<close>

fun le_bytes :: "nat \<Rightarrow> 'a::len word \<Rightarrow> u8 list" where
  "le_bytes 0 w = []"
| "le_bytes (Suc n) w = ucast w # le_bytes n (drop_bit 8 w)"

fun of_le :: "u8 list \<Rightarrow> 'a::len word" where
  "of_le [] = 0"
| "of_le (b # bs) = ucast b OR push_bit 8 (of_le bs)"

lemma length_le_bytes [simp, width_simps]: "length (le_bytes n w) = n"
  by (induction n arbitrary: w) simp_all

lemma le_bytes_numeral:
  "le_bytes (numeral k) w = ucast w # le_bytes (pred_numeral k) (drop_bit 8 w)"
  by (simp add: numeral_eq_Suc)

lemma of_le_le_bytes_take: "of_le (le_bytes n w) = take_bit (8 * n) w"
proof (induction n arbitrary: w)
  case 0
  then show ?case by simp
next
  case (Suc n)
  have "ucast (ucast w :: u8) OR push_bit 8 (take_bit (8 * n) (drop_bit 8 w))
      = take_bit (8 * Suc n) w"
    by (rule bit_word_eqI)
      (auto simp: bit_simps not_less le_less_trans)
  then show ?case by (simp add: Suc)
qed

lemma of_le_le_bytes: "LENGTH('a) \<le> 8 * n \<Longrightarrow> of_le (le_bytes n w) = (w :: 'a::len word)"
  by (simp add: of_le_le_bytes_take take_bit_word_eq_self)

lemma le_bytes_inj:
  "LENGTH('a) \<le> 8 * n \<Longrightarrow> le_bytes n v = le_bytes n w \<longleftrightarrow> v = (w :: 'a::len word)"
  by (metis of_le_le_bytes)

lemma of_nat_word_inj:
  "m < 2 ^ LENGTH('a) \<Longrightarrow> n < 2 ^ LENGTH('a) \<Longrightarrow> (of_nat m :: 'a::len word) = of_nat n \<longleftrightarrow> m = n"
  by (metis unat_of_nat mod_less)

lemma le_bytes_of_le:
  "8 * length bs \<le> LENGTH('a) \<Longrightarrow> le_bytes (length bs) (of_le bs :: 'a::len word) = bs"
proof (induction bs)
  case Nil
  then show ?case by simp
next
  case (Cons b bs)
  let ?r = "of_le bs :: 'a word"
  have low: "(ucast (ucast b OR push_bit 8 ?r) :: u8) = b"
    by (rule bit_word_eqI) (use Cons.prems in \<open>auto simp: bit_simps\<close>)
  have "bit ?r n \<Longrightarrow> n < 8 * length bs" for n
  proof -
    assume "bit ?r n"
    moreover have "?r = take_bit (8 * length bs) ?r"
      using Cons by (simp add: of_le_le_bytes_take [symmetric])
    ultimately show "n < 8 * length bs"
      by (metis bit_take_bit_iff)
  qed
  then have small: "bit ?r n \<Longrightarrow> n < LENGTH('a) - 8" for n
    using Cons.prems by fastforce
  have high: "drop_bit 8 (ucast b OR push_bit 8 ?r) = ?r"
  proof (rule bit_word_eqI)
    fix n
    assume n: "n < LENGTH('a)"
    then show "bit (drop_bit 8 (ucast b OR push_bit 8 ?r)) n = bit ?r n"
      using small [of n] by (auto simp: bit_simps dest: bit_imp_le_length)
  qed
  have IH: "le_bytes (length bs) ?r = bs"
    using Cons by simp
  show ?case
    by (simp only: list.size add_Suc_right add_0_right of_le.simps le_bytes.simps low high IH)
qed

section \<open>Powers of two and masks\<close>

lemma unat_pow2 [simp]: "k < LENGTH('a) \<Longrightarrow> unat (2 ^ k :: 'a::len word) = 2 ^ k"
proof -
  assume k: "k < LENGTH('a)"
  have "unat (of_nat (2 ^ k) :: 'a word) = 2 ^ k mod 2 ^ LENGTH('a)"
    by (rule unat_of_nat)
  with k show ?thesis by simp
qed

lemma pow2_minus_1_mask: "(2 ^ k - 1 :: 'a::len word) = mask k"
  by (simp add: mask_eq_exp_minus_1)

lemma and_not_mask_push_drop: "w AND NOT (mask k) = push_bit k (drop_bit k (w :: 'a::len word))"
  by (rule bit_word_eqI) (auto simp: bit_simps)

lemma unat_and_not_mask:
  "unat (w AND NOT (mask k) :: 'a::len word) = unat w div 2 ^ k * 2 ^ k"
proof -
  have "unat (push_bit k (drop_bit k w)) = unat (of_nat (unat w div 2 ^ k * 2 ^ k) :: 'a word)"
    by (simp add: push_bit_eq_mult unat_drop_bit_eq [symmetric] drop_bit_eq_div [symmetric])
  also have "\<dots> = unat w div 2 ^ k * 2 ^ k"
  proof -
    have "unat w div 2 ^ k * 2 ^ k \<le> unat w" by simp
    also have "unat w < 2 ^ LENGTH('a)" by simp
    finally show ?thesis by (simp only: unat_of_nat mod_less)
  qed
  finally show ?thesis by (simp add: and_not_mask_push_drop)
qed

lemma and_minus_one_eq_0_iff:
  fixes v :: "'a::len word"
  assumes "v \<noteq> 0"
  shows "v AND (v - 1) = 0 \<longleftrightarrow> (\<exists>k < LENGTH('a). v = 2 ^ k)"
proof
  assume z: "v AND (v - 1) = 0"
  have n0: "0 < unat v" using assms by (simp add: unat_gt_0)
  obtain k where k: "2 ^ k \<le> unat v" "unat v < 2 ^ Suc k"
    using ex_power_ivl1 [of 2 "unat v"] n0 by auto
  have kl: "k < LENGTH('a)"
    using k(1) unsigned_less [of v, where ?'a = nat] power_less_imp_less_exp [of "2::nat" k "LENGTH('a)"]
    by linarith
  have pred: "unat (v - 1) = unat v - 1"
    using n0 by (simp add: unat_minus_one assms)
  have "unat v = 2 ^ k"
  proof (rule ccontr)
    assume "unat v \<noteq> 2 ^ k"
    then have "2 ^ k \<le> unat v - 1" "unat v - 1 < 2 ^ Suc k" using k by auto
    then have "unat v div 2 ^ k = 1" "unat (v - 1) div 2 ^ k = 1"
      using k pred by (simp_all add: div_nat_eqI)
    then have "bit (unat v) k" "bit (unat (v - 1)) k"
      by (simp_all add: bit_iff_odd)
    then have "bit (v AND (v - 1)) k" by (simp add: bit_simps)
    with z show False by simp
  qed
  then have "v = 2 ^ k"
    using kl by (simp add: word_unat_eq_iff)
  with kl show "\<exists>k < LENGTH('a). v = 2 ^ k" by auto
next
  assume "\<exists>k < LENGTH('a). v = 2 ^ k"
  then obtain k where "k < LENGTH('a)" "v = 2 ^ k" by blast
  then show "v AND (v - 1) = 0"
    by (intro bit_word_eqI) (auto simp: pow2_minus_1_mask bit_simps)
qed

end
