(* ===== verification/Iree_Alignment.thy ===== *)
theory Iree_Alignment
  imports Nx_Prelude
begin

unbundle bit_operations_syntax

text \<open>
  \<open>iree/base/alignment.h\<close>: rounding to power-of-two alignments, ceiling and floor division,
  greatest common divisor, page ranges, and the alignment-safe little-endian loads and
  stores. The functions for host sizes, device sizes and \<open>uint64_t\<close> have the same body; a
  locale states the rounding contract once and each of the three is an interpretation.
\<close>

section \<open>Definitions\<close>

subsection \<open>Rounding\<close>

definition iree_host_align :: "iree_host_size_t \<Rightarrow> iree_host_size_t \<Rightarrow> iree_host_size_t" where
  "iree_host_align v alignment = (v + (alignment - 1)) AND NOT (alignment - 1)"

definition iree_host_size_is_power_of_two :: "iree_host_size_t \<Rightarrow> bool" where
  "iree_host_size_is_power_of_two v \<longleftrightarrow> v \<noteq> 0 \<and> (v AND (v - 1)) = 0"

definition iree_host_size_has_alignment :: "iree_host_size_t \<Rightarrow> iree_host_size_t \<Rightarrow> bool" where
  "iree_host_size_has_alignment v alignment \<longleftrightarrow> iree_host_align v alignment = v"

definition iree_device_align ::
  "iree_device_size_t \<Rightarrow> iree_device_size_t \<Rightarrow> iree_device_size_t" where
  "iree_device_align v alignment = (v + (alignment - 1)) AND NOT (alignment - 1)"

definition iree_device_size_is_power_of_two :: "iree_device_size_t \<Rightarrow> bool" where
  "iree_device_size_is_power_of_two v \<longleftrightarrow> v \<noteq> 0 \<and> (v AND (v - 1)) = 0"

definition iree_device_size_has_alignment ::
  "iree_device_size_t \<Rightarrow> iree_device_size_t \<Rightarrow> bool" where
  "iree_device_size_has_alignment v alignment \<longleftrightarrow> iree_device_align v alignment = v"

definition iree_is_power_of_two_uint64 :: "u64 \<Rightarrow> bool" where
  "iree_is_power_of_two_uint64 v \<longleftrightarrow> v \<noteq> 0 \<and> (v AND (v - 1)) = 0"

definition iree_align_uint64 :: "u64 \<Rightarrow> u64 \<Rightarrow> u64" where
  "iree_align_uint64 v alignment = (v + (alignment - 1)) AND NOT (alignment - 1)"

subsection \<open>Division, greatest common divisor\<close>

text \<open>
  The C expressions are written for signed operands; at an unsigned type \<open>lhs > 0\<close> is
  \<open>lhs \<noteq> 0\<close>, \<open>lhs < 0\<close> is false and the constant \<open>-1\<close> is the largest value. A
  division by 0 is undefined behaviour.
\<close>

definition c_udiv :: "u64 \<Rightarrow> u64 \<Rightarrow> u64 res" where
  "c_udiv a b = (if b = 0 then Inl DivByZero else Inr (a div b))"

definition iree_host_size_ceil_div ::
  "iree_host_size_t \<Rightarrow> iree_host_size_t \<Rightarrow> iree_host_size_t res" where
  "iree_host_size_ceil_div lhs rhs =
     (if lhs \<noteq> 0 \<and> (lhs > 0) = (rhs > 0)
      then bind_res (c_udiv (lhs + (if rhs > 0 then -1 else 1)) rhs) (\<lambda>q. Inr (q + 1))
      else bind_res (c_udiv (- lhs) rhs) (\<lambda>q. Inr (- q)))"

definition iree_host_size_floor_div ::
  "iree_host_size_t \<Rightarrow> iree_host_size_t \<Rightarrow> iree_host_size_t res" where
  "iree_host_size_floor_div lhs rhs =
     (if lhs \<noteq> 0 \<and> (lhs < 0) \<noteq> (rhs < 0)
      then bind_res (c_udiv (- lhs + (if rhs < 0 then 1 else -1)) rhs) (\<lambda>q. Inr (- q - 1))
      else c_udiv lhs rhs)"

definition iree_device_size_ceil_div ::
  "iree_device_size_t \<Rightarrow> iree_device_size_t \<Rightarrow> iree_device_size_t res" where
  "iree_device_size_ceil_div lhs rhs =
     (if lhs \<noteq> 0 \<and> (lhs > 0) = (rhs > 0)
      then bind_res (c_udiv (lhs + (if rhs > 0 then -1 else 1)) rhs) (\<lambda>q. Inr (q + 1))
      else bind_res (c_udiv (- lhs) rhs) (\<lambda>q. Inr (- q)))"

definition iree_device_size_floor_div ::
  "iree_device_size_t \<Rightarrow> iree_device_size_t \<Rightarrow> iree_device_size_t res" where
  "iree_device_size_floor_div lhs rhs =
     (if lhs \<noteq> 0 \<and> (lhs < 0) \<noteq> (rhs < 0)
      then bind_res (c_udiv (- lhs + (if rhs < 0 then 1 else -1)) rhs) (\<lambda>q. Inr (- q - 1))
      else c_udiv lhs rhs)"

function iree_device_size_gcd ::
  "iree_device_size_t \<Rightarrow> iree_device_size_t \<Rightarrow> iree_device_size_t" where
  "iree_device_size_gcd a b = (if b = 0 then a else iree_device_size_gcd b (a mod b))"
  by pat_completeness auto
termination
  by (relation "measure (\<lambda>(a, b). unat b)")
    (auto simp: unat_mod unat_gt_0 intro: mod_less_divisor)

declare iree_device_size_gcd.simps [simp del]

definition iree_device_size_lcm ::
  "iree_device_size_t \<Rightarrow> iree_device_size_t \<Rightarrow> iree_device_size_t res" where
  "iree_device_size_lcm a b =
     bind_res (c_udiv b (iree_device_size_gcd a b)) (\<lambda>q. Inr (a * q))"

subsection \<open>Byte and page ranges\<close>

record iree_byte_range_t =
  br_offset :: iree_host_size_t
  br_length :: iree_host_size_t

record iree_page_range_t =
  pr_offset :: iree_host_size_t
  pr_length :: iree_host_size_t

definition iree_page_align_start :: "u64 \<Rightarrow> iree_host_size_t \<Rightarrow> u64" where
  "iree_page_align_start addr page_alignment = addr AND NOT (page_alignment - 1)"

definition iree_page_align_end :: "u64 \<Rightarrow> iree_host_size_t \<Rightarrow> u64" where
  "iree_page_align_end addr page_alignment =
     iree_page_align_start (addr + (page_alignment - 1)) page_alignment"

definition iree_min :: "u64 \<Rightarrow> u64 \<Rightarrow> u64" where
  "iree_min lhs rhs = (if lhs \<le> rhs then lhs else rhs)"

definition iree_max :: "u64 \<Rightarrow> u64 \<Rightarrow> u64" where
  "iree_max lhs rhs = (if lhs \<le> rhs then rhs else lhs)"

definition iree_page_range_union ::
  "iree_page_range_t \<Rightarrow> iree_page_range_t \<Rightarrow> iree_page_range_t" where
  "iree_page_range_union a b =
     (let start = iree_min (pr_offset a) (pr_offset b);
          end = iree_max (pr_offset a + pr_length a) (pr_offset b + pr_length b)
      in \<lparr>pr_offset = start, pr_length = end - start\<rparr>)"

definition iree_align_byte_range_to_pages ::
  "iree_byte_range_t \<Rightarrow> iree_host_size_t \<Rightarrow> iree_page_range_t" where
  "iree_align_byte_range_to_pages byte_range page_alignment =
     \<lparr>pr_offset = iree_host_align (br_offset byte_range) page_alignment,
      pr_length = iree_host_align (br_length byte_range) page_alignment\<rparr>"

definition iree_page_align_range ::
  "u64 \<Rightarrow> iree_byte_range_t \<Rightarrow> iree_host_size_t \<Rightarrow> u64 \<times> iree_host_size_t" where
  "iree_page_align_range base_address byte_range page_alignment =
     (let range_start =
            iree_page_align_start (base_address + br_offset byte_range) page_alignment;
          range_end =
            iree_page_align_end (base_address + br_offset byte_range + br_length byte_range)
              page_alignment
      in (range_start, range_end - range_start))"

subsection \<open>Alignment-safe loads and stores\<close>

text \<open>
  The byte-wise variants the header selects where unaligned accesses are not available. A
  pointer into memory is a block of bytes and an offset; the index macros map a
  little-endian byte index to the host order.
\<close>

datatype endianness = IREE_ENDIANNESS_LITTLE | IREE_ENDIANNESS_BIG

fun IREE_LE_IDX_2 :: "endianness \<Rightarrow> nat \<Rightarrow> nat" where
  "IREE_LE_IDX_2 IREE_ENDIANNESS_LITTLE i = i"
| "IREE_LE_IDX_2 IREE_ENDIANNESS_BIG i = 1 - i"

fun IREE_LE_IDX_4 :: "endianness \<Rightarrow> nat \<Rightarrow> nat" where
  "IREE_LE_IDX_4 IREE_ENDIANNESS_LITTLE i = i"
| "IREE_LE_IDX_4 IREE_ENDIANNESS_BIG i = 3 - i"

fun IREE_LE_IDX_8 :: "endianness \<Rightarrow> nat \<Rightarrow> nat" where
  "IREE_LE_IDX_8 IREE_ENDIANNESS_LITTLE i = i"
| "IREE_LE_IDX_8 IREE_ENDIANNESS_BIG i = 7 - i"

definition iree_unaligned_load_le_u8 :: "u8 list \<Rightarrow> nat \<Rightarrow> u8 res" where
  "iree_unaligned_load_le_u8 m p = (if p + 1 \<le> length m then Inr (m ! p) else Inl OutOfBounds)"

definition iree_unaligned_store_le_u8 :: "u8 list \<Rightarrow> nat \<Rightarrow> u8 \<Rightarrow> u8 list res" where
  "iree_unaligned_store_le_u8 m p v =
     (if p + 1 \<le> length m then Inr (m[p := v]) else Inl OutOfBounds)"

definition iree_unaligned_load_le_u16 :: "endianness \<Rightarrow> u8 list \<Rightarrow> nat \<Rightarrow> u16 res" where
  "iree_unaligned_load_le_u16 e m p =
     (if p + 2 \<le> length m
      then Inr (ucast (m ! (p + IREE_LE_IDX_2 e 0)) OR
                push_bit 8 (ucast (m ! (p + IREE_LE_IDX_2 e 1))))
      else Inl OutOfBounds)"

definition iree_unaligned_store_le_u16 :: "endianness \<Rightarrow> u8 list \<Rightarrow> nat \<Rightarrow> u16 \<Rightarrow> u8 list res" where
  "iree_unaligned_store_le_u16 e m p v =
     (if p + 2 \<le> length m
      then Inr (m[p + IREE_LE_IDX_2 e 0 := ucast v,
                  p + IREE_LE_IDX_2 e 1 := ucast (drop_bit 8 v)])
      else Inl OutOfBounds)"

definition iree_unaligned_load_le_u32 :: "endianness \<Rightarrow> u8 list \<Rightarrow> nat \<Rightarrow> u32 res" where
  "iree_unaligned_load_le_u32 e m p =
     (if p + 4 \<le> length m
      then Inr (ucast (m ! (p + IREE_LE_IDX_4 e 0)) OR
                push_bit 8 (ucast (m ! (p + IREE_LE_IDX_4 e 1))) OR
                push_bit 16 (ucast (m ! (p + IREE_LE_IDX_4 e 2))) OR
                push_bit 24 (ucast (m ! (p + IREE_LE_IDX_4 e 3))))
      else Inl OutOfBounds)"

definition iree_unaligned_store_le_u32 :: "endianness \<Rightarrow> u8 list \<Rightarrow> nat \<Rightarrow> u32 \<Rightarrow> u8 list res" where
  "iree_unaligned_store_le_u32 e m p v =
     (if p + 4 \<le> length m
      then Inr (m[p + IREE_LE_IDX_4 e 0 := ucast v,
                  p + IREE_LE_IDX_4 e 1 := ucast (drop_bit 8 v),
                  p + IREE_LE_IDX_4 e 2 := ucast (drop_bit 16 v),
                  p + IREE_LE_IDX_4 e 3 := ucast (drop_bit 24 v)])
      else Inl OutOfBounds)"

definition iree_unaligned_load_le_u64 :: "endianness \<Rightarrow> u8 list \<Rightarrow> nat \<Rightarrow> u64 res" where
  "iree_unaligned_load_le_u64 e m p =
     (if p + 8 \<le> length m
      then Inr (ucast (m ! (p + IREE_LE_IDX_8 e 0)) OR
                push_bit 8 (ucast (m ! (p + IREE_LE_IDX_8 e 1))) OR
                push_bit 16 (ucast (m ! (p + IREE_LE_IDX_8 e 2))) OR
                push_bit 24 (ucast (m ! (p + IREE_LE_IDX_8 e 3))) OR
                push_bit 32 (ucast (m ! (p + IREE_LE_IDX_8 e 4))) OR
                push_bit 40 (ucast (m ! (p + IREE_LE_IDX_8 e 5))) OR
                push_bit 48 (ucast (m ! (p + IREE_LE_IDX_8 e 6))) OR
                push_bit 56 (ucast (m ! (p + IREE_LE_IDX_8 e 7))))
      else Inl OutOfBounds)"

definition iree_unaligned_store_le_u64 :: "endianness \<Rightarrow> u8 list \<Rightarrow> nat \<Rightarrow> u64 \<Rightarrow> u8 list res" where
  "iree_unaligned_store_le_u64 e m p v =
     (if p + 8 \<le> length m
      then Inr (m[p + IREE_LE_IDX_8 e 0 := ucast v,
                  p + IREE_LE_IDX_8 e 1 := ucast (drop_bit 8 v),
                  p + IREE_LE_IDX_8 e 2 := ucast (drop_bit 16 v),
                  p + IREE_LE_IDX_8 e 3 := ucast (drop_bit 24 v),
                  p + IREE_LE_IDX_8 e 4 := ucast (drop_bit 32 v),
                  p + IREE_LE_IDX_8 e 5 := ucast (drop_bit 40 v),
                  p + IREE_LE_IDX_8 e 6 := ucast (drop_bit 48 v),
                  p + IREE_LE_IDX_8 e 7 := ucast (drop_bit 56 v)])
      else Inl OutOfBounds)"

section \<open>Power-of-two tests\<close>

lemma power_of_two_iffs:
  "iree_host_size_is_power_of_two v \<longleftrightarrow> (\<exists>k < 64. v = 2 ^ k)"
  "iree_device_size_is_power_of_two v \<longleftrightarrow> (\<exists>k < 64. v = 2 ^ k)"
  "iree_is_power_of_two_uint64 v \<longleftrightarrow> (\<exists>k < 64. v = 2 ^ k)"
proof -
  have "(v \<noteq> 0 \<and> v AND (v - 1) = 0) \<longleftrightarrow> (\<exists>k < 64. v = 2 ^ k)"
  proof (cases "v = 0")
    case True
    have "(0 :: u64) \<noteq> 2 ^ k" if "k < 64" for k
      using that by (simp add: word_unat_eq_iff)
    with True show ?thesis by auto
  next
    case False
    then show ?thesis by (simp add: and_minus_one_eq_0_iff)
  qed
  then show "iree_host_size_is_power_of_two v \<longleftrightarrow> (\<exists>k < 64. v = 2 ^ k)"
    "iree_device_size_is_power_of_two v \<longleftrightarrow> (\<exists>k < 64. v = 2 ^ k)"
    "iree_is_power_of_two_uint64 v \<longleftrightarrow> (\<exists>k < 64. v = 2 ^ k)"
    by (simp_all add: iree_host_size_is_power_of_two_def iree_device_size_is_power_of_two_def
        iree_is_power_of_two_uint64_def)
qed

section \<open>The rounding contract\<close>

lemma unat_align_body:
  fixes v :: u64
  assumes "k < 64" and "unat v + (2 ^ k - 1) < 2 ^ 64"
  shows "unat ((v + (2 ^ k - 1)) AND NOT (2 ^ k - 1)) = (unat v + (2 ^ k - 1)) div 2 ^ k * 2 ^ k"
proof -
  have "unat (2 ^ k - 1 :: u64) = 2 ^ k - 1"
    using assms(1) by (simp add: unat_minus_one word_unat_eq_iff)
  then have "unat (v + (2 ^ k - 1)) = unat v + (2 ^ k - 1)"
    using assms(2) by (simp add: unat_plus_if')
  then show ?thesis
    by (simp add: pow2_minus_1_mask unat_and_not_mask)
qed

text \<open>
  What a client of one of the three rounding routines relies on: the power-of-two test
  decides powers of two, and rounding without overflow is rounding of naturals. The laws
  below are what allocation and packing code uses.
\<close>

locale pow2_rounding =
  fixes align :: "u64 \<Rightarrow> u64 \<Rightarrow> u64"
    and is_pow2 :: "u64 \<Rightarrow> bool"
  assumes is_pow2_iff: "is_pow2 a \<longleftrightarrow> (\<exists>k < 64. a = 2 ^ k)"
    and unat_align_pow2:
      "k < 64 \<Longrightarrow> unat v + (2 ^ k - 1) < 2 ^ 64 \<Longrightarrow>
        unat (align v (2 ^ k)) = (unat v + (2 ^ k - 1)) div 2 ^ k * 2 ^ k"
begin

lemma unat_align:
  assumes "is_pow2 a" and "unat v + (unat a - 1) < 2 ^ 64"
  shows "unat (align v a) = (unat v + (unat a - 1)) div unat a * unat a"
proof -
  obtain k where "k < 64" "a = 2 ^ k" using assms(1) is_pow2_iff by auto
  then show ?thesis using unat_align_pow2 [of k v] assms(2) by simp
qed

lemma align_dvd:
  assumes "is_pow2 a" and "unat v + (unat a - 1) < 2 ^ 64"
  shows "unat a dvd unat (align v a)"
  using unat_align [OF assms] by simp

lemma align_bounds:
  assumes "is_pow2 a" and "unat v + (unat a - 1) < 2 ^ 64"
  shows "unat v \<le> unat (align v a) \<and> unat (align v a) < unat v + unat a"
proof -
  have "0 < unat a" using assms(1) is_pow2_iff by auto
  then show ?thesis
    using unat_align [OF assms] div_mult_mod_eq [of "unat v + (unat a - 1)" "unat a"]
      mod_less_divisor [of "unat a" "unat v + (unat a - 1)"] by linarith
qed

lemma align_least:
  assumes "is_pow2 a" and "unat v + (unat a - 1) < 2 ^ 64"
    and "unat a dvd m" and "unat v \<le> m"
  shows "unat (align v a) \<le> m"
proof -
  have a0: "0 < unat a" using assms(1) is_pow2_iff by auto
  obtain q where q: "m = unat a * q" using assms(3) by blast
  have "(unat v + (unat a - 1)) div unat a \<le> q"
  proof -
    have "unat v + (unat a - 1) < unat a * Suc q"
      using a0 assms(4) q by simp
    then have "(unat v + (unat a - 1)) div unat a < Suc q"
      by (simp add: less_mult_imp_div_less mult.commute)
    then show ?thesis by simp
  qed
  then show ?thesis
    unfolding unat_align [OF assms(1,2)] q mult.commute [of "unat a" q] by (rule mult_le_mono1)
qed

lemma align_fixed_iff:
  assumes "is_pow2 a" and "unat v + (unat a - 1) < 2 ^ 64"
  shows "align v a = v \<longleftrightarrow> unat a dvd unat v"
proof
  assume "align v a = v"
  then show "unat a dvd unat v" using align_dvd [OF assms] by simp
next
  assume "unat a dvd unat v"
  then have "unat (align v a) \<le> unat v" using align_least [OF assms] by simp
  then show "align v a = v"
    using align_bounds [OF assms] by (simp add: word_unat_eq_iff)
qed

end

interpretation host: pow2_rounding iree_host_align iree_host_size_is_power_of_two
  by unfold_locales (simp_all add: power_of_two_iffs iree_host_align_def unat_align_body)

interpretation device: pow2_rounding iree_device_align iree_device_size_is_power_of_two
  by unfold_locales (simp_all add: power_of_two_iffs iree_device_align_def unat_align_body)

interpretation u64: pow2_rounding iree_align_uint64 iree_is_power_of_two_uint64
  by unfold_locales (simp_all add: power_of_two_iffs iree_align_uint64_def unat_align_body)

lemma iree_host_size_has_alignment_iff:
  assumes "iree_host_size_is_power_of_two a" and "unat v + (unat a - 1) < 2 ^ 64"
  shows "iree_host_size_has_alignment v a \<longleftrightarrow> unat a dvd unat v"
  using host.align_fixed_iff [OF assms] by (simp add: iree_host_size_has_alignment_def)

lemma iree_device_size_has_alignment_iff:
  assumes "iree_device_size_is_power_of_two a" and "unat v + (unat a - 1) < 2 ^ 64"
  shows "iree_device_size_has_alignment v a \<longleftrightarrow> unat a dvd unat v"
  using device.align_fixed_iff [OF assms] by (simp add: iree_device_size_has_alignment_def)

section \<open>Division and divisors\<close>

lemma unat_ceil_div:
  fixes lhs rhs :: u64
  assumes "lhs \<noteq> 0" and "rhs \<noteq> 0"
  shows "unat ((lhs + -1) div rhs + 1) = (unat lhs + unat rhs - 1) div unat rhs"
proof -
  have l: "unat (lhs - 1) = unat lhs - 1" using assms(1) unat_minus_one [of lhs] by simp
  have "unat ((lhs + -1) div rhs) = (unat lhs - 1) div unat rhs"
    by (simp add: unat_div l)
  moreover have "(unat lhs - 1) div unat rhs + 1 < 2 ^ 64"
  proof -
    have "(unat lhs - 1) div unat rhs \<le> unat lhs - 1" by (rule div_le_dividend)
    moreover have "unat lhs < 2 ^ 64" using unsigned_less [of lhs, where ?'a = nat] by simp
    moreover have "0 < unat lhs" using assms(1) by (simp add: unat_gt_0)
    ultimately show ?thesis by linarith
  qed
  ultimately have "unat ((lhs + -1) div rhs + 1) = (unat lhs - 1) div unat rhs + 1"
    by (simp add: unat_plus_if')
  also have "\<dots> = (unat lhs - 1 + unat rhs) div unat rhs"
    using assms(2) unat_gt_0 [of rhs] by (simp add: div_add_self2)
  also have "unat lhs - 1 + unat rhs = unat lhs + unat rhs - 1"
    using assms(1) by (simp add: unat_gt_0 Suc_leI)
  finally show ?thesis .
qed

lemma iree_host_size_ceil_div_eq:
  assumes "rhs \<noteq> 0"
  shows "\<exists>q. iree_host_size_ceil_div lhs rhs = Inr q \<and>
    unat q = (unat lhs + unat rhs - 1) div unat rhs"
proof (cases "lhs = 0")
  case True
  then show ?thesis
    using assms unat_gt_0 [of rhs]
    by (simp add: iree_host_size_ceil_div_def c_udiv_def word_gt_0 div_less)
next
  case False
  then show ?thesis
    using assms unat_ceil_div [of lhs rhs]
    by (simp add: iree_host_size_ceil_div_def c_udiv_def word_gt_0)
qed

lemma iree_device_size_ceil_div_host: "iree_device_size_ceil_div = iree_host_size_ceil_div"
  by (simp add: fun_eq_iff iree_device_size_ceil_div_def iree_host_size_ceil_div_def)

lemma floor_div_eq:
  assumes "rhs \<noteq> 0"
  shows "iree_host_size_floor_div lhs rhs = Inr (lhs div rhs)"
    and "iree_device_size_floor_div lhs rhs = Inr (lhs div rhs)"
  using assms
  by (simp_all add: iree_host_size_floor_div_def iree_device_size_floor_div_def c_udiv_def)

lemma unat_iree_device_size_gcd: "unat (iree_device_size_gcd a b) = gcd (unat a) (unat b)"
proof (induction a b rule: iree_device_size_gcd.induct)
  case (1 a b)
  show ?case
  proof (cases "b = 0")
    case True
    then show ?thesis by (simp add: iree_device_size_gcd.simps [of a 0])
  next
    case False
    have "unat (iree_device_size_gcd a b) = gcd (unat b) (unat a mod unat b)"
      using 1 False by (simp add: iree_device_size_gcd.simps [of a b] unat_mod)
    then show ?thesis by (simp add: gcd.commute [of "unat b"] flip: gcd_red_nat)
  qed
qed

lemma iree_device_size_lcm_eq:
  assumes "a \<noteq> 0 \<or> b \<noteq> 0" and "lcm (unat a) (unat b) < 2 ^ 64"
  shows "\<exists>m. iree_device_size_lcm a b = Inr m \<and> unat m = lcm (unat a) (unat b)"
proof -
  let ?g = "iree_device_size_gcd a b"
  have g0: "?g \<noteq> 0"
    using assms(1) unat_iree_device_size_gcd [of a b] by (auto simp: unat_eq_0)
  have "unat a * (unat b div gcd (unat a) (unat b)) = lcm (unat a) (unat b)"
    by (simp add: lcm_nat_def div_mult_swap)
  moreover have "unat (b div ?g) = unat b div gcd (unat a) (unat b)"
    by (simp only: unat_div unat_iree_device_size_gcd)
  ultimately have "unat (a * (b div ?g)) = lcm (unat a) (unat b)"
    using assms(2) unat_mult_lem [of a "b div ?g"] by simp
  then show ?thesis
    using g0 by (simp add: iree_device_size_lcm_def c_udiv_def)
qed

section \<open>Page ranges\<close>

lemma unat_iree_page_align_start:
  assumes "iree_host_size_is_power_of_two a"
  shows "unat (iree_page_align_start addr a) = unat addr div unat a * unat a"
proof -
  obtain k where "k < 64" "a = 2 ^ k" using assms power_of_two_iffs by blast
  then show ?thesis
    by (simp add: iree_page_align_start_def pow2_minus_1_mask unat_and_not_mask)
qed

lemma iree_page_align_end_host_align:
  "iree_page_align_end addr a = iree_host_align addr a"
  by (simp add: iree_page_align_end_def iree_page_align_start_def iree_host_align_def)

text \<open>The page range computed for a byte range covers it, starts and ends on a page.\<close>

lemma iree_page_align_range_covers:
  assumes a: "iree_host_size_is_power_of_two a"
    and fits: "unat base + unat (br_offset r) + unat (br_length r) + (unat a - 1) < 2 ^ 64"
    and res: "iree_page_align_range base r a = (start, len)"
  shows "unat a dvd unat start \<and> unat a dvd unat len \<and>
    unat start \<le> unat base + unat (br_offset r) \<and>
    unat base + unat (br_offset r) + unat (br_length r) \<le> unat start + unat len"
proof -
  let ?s = "base + br_offset r" and ?e = "base + br_offset r + br_length r"
  have us: "unat ?s = unat base + unat (br_offset r)"
    using fits by (simp add: unat_plus_if')
  have ue: "unat ?e = unat base + unat (br_offset r) + unat (br_length r)"
    using fits us by (simp add: unat_plus_if' [of ?s])
  have start: "start = iree_page_align_start ?s a"
    and len: "len = iree_host_align ?e a - start"
    using res by (auto simp: iree_page_align_range_def Let_def iree_page_align_end_host_align)
  have bound: "unat ?e + (unat a - 1) < 2 ^ 64" using fits ue by simp
  have low: "unat start \<le> unat ?s" "unat a dvd unat start"
    by (simp_all add: start unat_iree_page_align_start [OF a])
  have high: "unat ?e \<le> unat (iree_host_align ?e a)" "unat a dvd unat (iree_host_align ?e a)"
    using host.align_bounds [OF a bound] host.align_dvd [OF a bound] by simp_all
  have le: "unat start \<le> unat (iree_host_align ?e a)"
    using low(1) high(1) us ue by linarith
  then have ul: "unat len = unat (iree_host_align ?e a) - unat start"
    by (simp add: len unat_sub_if')
  show ?thesis
    using low high le us ue by (simp add: ul dvd_diff_nat)
qed

lemma iree_page_range_union_extents:
  assumes "unat (pr_offset a) + unat (pr_length a) < 2 ^ 64"
    and "unat (pr_offset b) + unat (pr_length b) < 2 ^ 64"
  shows "unat (pr_offset (iree_page_range_union a b)) =
      min (unat (pr_offset a)) (unat (pr_offset b))"
    and "unat (pr_offset (iree_page_range_union a b)) +
        unat (pr_length (iree_page_range_union a b)) =
      max (unat (pr_offset a) + unat (pr_length a)) (unat (pr_offset b) + unat (pr_length b))"
proof -
  have e: "unat (pr_offset a + pr_length a) = unat (pr_offset a) + unat (pr_length a)"
    "unat (pr_offset b + pr_length b) = unat (pr_offset b) + unat (pr_length b)"
    using assms by (simp_all add: unat_plus_if')
  show "unat (pr_offset (iree_page_range_union a b)) =
      min (unat (pr_offset a)) (unat (pr_offset b))"
    by (simp add: iree_page_range_union_def Let_def iree_min_def word_le_nat_alt min_def)
  show "unat (pr_offset (iree_page_range_union a b)) +
        unat (pr_length (iree_page_range_union a b)) =
      max (unat (pr_offset a) + unat (pr_length a)) (unat (pr_offset b) + unat (pr_length b))"
    using e by (auto simp: iree_page_range_union_def Let_def iree_min_def iree_max_def
        word_le_nat_alt unat_sub_if' max_def)
qed

section \<open>Loads and stores\<close>

text \<open>
  The contract of an alignment-safe access: a store succeeds exactly inside the block, is
  read back by the matching load and leaves every byte outside its width alone; a load
  depends on the bytes of its width only.
\<close>

locale byte_codec =
  fixes load :: "u8 list \<Rightarrow> nat \<Rightarrow> 'v res"
    and store :: "u8 list \<Rightarrow> nat \<Rightarrow> 'v \<Rightarrow> u8 list res"
    and width :: nat
  assumes store_ok_iff: "(\<exists>m'. store m p v = Inr m') \<longleftrightarrow> p + width \<le> length m"
    and store_length: "store m p v = Inr m' \<Longrightarrow> length m' = length m"
    and store_frame: "store m p v = Inr m' \<Longrightarrow> i < p \<or> p + width \<le> i \<Longrightarrow> m' ! i = m ! i"
    and load_store: "store m p v = Inr m' \<Longrightarrow> load m' p = Inr v"
    and load_cong: "length m' = length m \<Longrightarrow> (\<And>i. i < width \<Longrightarrow> m' ! (p + i) = m ! (p + i)) \<Longrightarrow>
      load m' p = load m p"
begin

lemma load_store_other:
  assumes "store m p v = Inr m'" and "q + width \<le> p \<or> p + width \<le> q"
  shows "load m' q = load m q"
  by (rule load_cong)
    (use assms store_length store_frame [OF assms(1)] in auto)

lemma store_swap:
  assumes "store m p v = Inr m1" and "store m1 q w = Inr m2"
    and "q + width \<le> p \<or> p + width \<le> q"
  shows "load m2 p = Inr v \<and> load m2 q = Inr w"
proof -
  have "load m2 p = load m1 p"
    using assms(2,3) by (intro load_store_other) auto
  then show ?thesis
    using load_store [OF assms(1)] load_store [OF assms(2)] by simp
qed

end

lemmas le_idx_simps = IREE_LE_IDX_2.simps IREE_LE_IDX_4.simps IREE_LE_IDX_8.simps

lemma word16_of_bytes:
  fixes v :: u16
  shows "ucast (ucast v :: u8) OR push_bit 8 (ucast (ucast (drop_bit 8 v) :: u8)) = v"
  by (rule bit_word_eqI) (auto simp: bit_simps)

lemma word32_of_bytes:
  fixes v :: u32
  shows "ucast (ucast v :: u8) OR push_bit 8 (ucast (ucast (drop_bit 8 v) :: u8)) OR
    push_bit 16 (ucast (ucast (drop_bit 16 v) :: u8)) OR
    push_bit 24 (ucast (ucast (drop_bit 24 v) :: u8)) = v"
  using of_le_le_bytes [of 4 v] by (simp add: push_bit_or le_bytes_numeral)

lemma word64_of_bytes:
  fixes v :: u64
  shows "ucast (ucast v :: u8) OR push_bit 8 (ucast (ucast (drop_bit 8 v) :: u8)) OR
    push_bit 16 (ucast (ucast (drop_bit 16 v) :: u8)) OR
    push_bit 24 (ucast (ucast (drop_bit 24 v) :: u8)) OR
    push_bit 32 (ucast (ucast (drop_bit 32 v) :: u8)) OR
    push_bit 40 (ucast (ucast (drop_bit 40 v) :: u8)) OR
    push_bit 48 (ucast (ucast (drop_bit 48 v) :: u8)) OR
    push_bit 56 (ucast (ucast (drop_bit 56 v) :: u8)) = v"
  using of_le_le_bytes [of 8 v] by (simp add: push_bit_or le_bytes_numeral)

interpretation le_u8: byte_codec iree_unaligned_load_le_u8 iree_unaligned_store_le_u8 1
  by unfold_locales
    (auto simp: iree_unaligned_load_le_u8_def iree_unaligned_store_le_u8_def split: if_splits)

interpretation le_u16: byte_codec "iree_unaligned_load_le_u16 e" "iree_unaligned_store_le_u16 e" 2
  for e
proof unfold_locales
  fix m m' :: "u8 list" and p v
  assume "iree_unaligned_store_le_u16 e m p v = Inr m'"
  then show "iree_unaligned_load_le_u16 e m' p = Inr v"
    by (cases e) (auto simp: iree_unaligned_load_le_u16_def iree_unaligned_store_le_u16_def
        word16_of_bytes split: if_splits)
next
  fix m m' :: "u8 list" and p
  assume "length m' = length m" and "\<And>i. i < 2 \<Longrightarrow> m' ! (p + i) = m ! (p + i)"
  from this(1) this(2) [of 0] this(2) [of 1]
  show "iree_unaligned_load_le_u16 e m' p = iree_unaligned_load_le_u16 e m p"
    by (cases e) (simp_all add: iree_unaligned_load_le_u16_def)
qed (cases e; auto simp: iree_unaligned_store_le_u16_def split: if_splits)+

interpretation le_u32: byte_codec "iree_unaligned_load_le_u32 e" "iree_unaligned_store_le_u32 e" 4
  for e
proof unfold_locales
  fix m m' :: "u8 list" and p v
  assume "iree_unaligned_store_le_u32 e m p v = Inr m'"
  then show "iree_unaligned_load_le_u32 e m' p = Inr v"
    by (cases e) (auto simp: iree_unaligned_load_le_u32_def iree_unaligned_store_le_u32_def
        word32_of_bytes split: if_splits)
next
  fix m m' :: "u8 list" and p
  assume "length m' = length m" and "\<And>i. i < 4 \<Longrightarrow> m' ! (p + i) = m ! (p + i)"
  from this(1) this(2) [of 0] this(2) [of 1] this(2) [of 2] this(2) [of 3]
  show "iree_unaligned_load_le_u32 e m' p = iree_unaligned_load_le_u32 e m p"
    by (cases e) (simp_all add: iree_unaligned_load_le_u32_def)
qed (cases e; auto simp: iree_unaligned_store_le_u32_def split: if_splits)+

interpretation le_u64: byte_codec "iree_unaligned_load_le_u64 e" "iree_unaligned_store_le_u64 e" 8
  for e
proof unfold_locales
  fix m m' :: "u8 list" and p v
  assume "iree_unaligned_store_le_u64 e m p v = Inr m'"
  then show "iree_unaligned_load_le_u64 e m' p = Inr v"
    by (cases e) (auto simp: iree_unaligned_load_le_u64_def iree_unaligned_store_le_u64_def
        word64_of_bytes split: if_splits)
next
  fix m m' :: "u8 list" and p
  assume "length m' = length m" and "\<And>i. i < 8 \<Longrightarrow> m' ! (p + i) = m ! (p + i)"
  from this(1) this(2) [of 0] this(2) [of 1] this(2) [of 2] this(2) [of 3]
    this(2) [of 4] this(2) [of 5] this(2) [of 6] this(2) [of 7]
  show "iree_unaligned_load_le_u64 e m' p = iree_unaligned_load_le_u64 e m p"
    by (cases e) (simp_all add: iree_unaligned_load_le_u64_def)
qed (cases e; auto simp: iree_unaligned_store_le_u64_def split: if_splits)+

section \<open>Properties\<close>

text \<open>
  Aligning to a power of two gives the least multiple of the alignment that is not below the
  value, and the page-aligned version of a byte range covers the range with whole pages.
\<close>

theorem alignment_least_and_covering:
  assumes "iree_host_size_is_power_of_two a"
  shows "(unat v + (unat a - 1) < 2 ^ 64 \<longrightarrow>
      unat a dvd unat (iree_host_align v a) \<and> unat v \<le> unat (iree_host_align v a) \<and>
      (\<forall>m. unat a dvd m \<and> unat v \<le> m \<longrightarrow> unat (iree_host_align v a) \<le> m)) \<and>
    (unat base + unat (br_offset r) + unat (br_length r) + (unat a - 1) < 2 ^ 64 \<and>
      iree_page_align_range base r a = (start, len) \<longrightarrow>
      unat a dvd unat start \<and> unat a dvd unat len \<and> unat start \<le> unat base + unat (br_offset r) \<and>
      unat base + unat (br_offset r) + unat (br_length r) \<le> unat start + unat len)"
  using host.align_dvd [OF assms] host.align_bounds [OF assms] host.align_least [OF assms]
    iree_page_align_range_covers [OF assms] by blast

theorem alignment_least_and_covering_witness:
  "unat (16 :: u64) dvd unat (iree_host_align 37 16) \<and> unat (37 :: u64) \<le> unat (iree_host_align 37 16) \<and>
    unat (iree_host_align 37 16) \<le> 48"
proof -
  have "iree_host_size_is_power_of_two 16" by (simp add: iree_host_size_is_power_of_two_def)
  from alignment_least_and_covering [OF this, of 37] show ?thesis by (auto dest!: spec [of _ 48])
qed

text \<open>
  The alignment-safe little-endian accesses round trip at every width: what a store writes the
  matching load reads back, and loads of other, disjoint positions are unaffected.
\<close>

theorem unaligned_access_round_trip:
  "(iree_unaligned_store_le_u16 e m p v16 = Inr m' \<longrightarrow> iree_unaligned_load_le_u16 e m' p = Inr v16 \<and>
     (q + 2 \<le> p \<or> p + 2 \<le> q \<longrightarrow> iree_unaligned_load_le_u16 e m' q = iree_unaligned_load_le_u16 e m q)) \<and>
   (iree_unaligned_store_le_u32 e m p v32 = Inr m' \<longrightarrow> iree_unaligned_load_le_u32 e m' p = Inr v32 \<and>
     (q + 4 \<le> p \<or> p + 4 \<le> q \<longrightarrow> iree_unaligned_load_le_u32 e m' q = iree_unaligned_load_le_u32 e m q)) \<and>
   (iree_unaligned_store_le_u64 e m p v64 = Inr m' \<longrightarrow> iree_unaligned_load_le_u64 e m' p = Inr v64 \<and>
     (q + 8 \<le> p \<or> p + 8 \<le> q \<longrightarrow> iree_unaligned_load_le_u64 e m' q = iree_unaligned_load_le_u64 e m q)) \<and>
   (p + 8 \<le> length m \<longrightarrow> (\<exists>m'. iree_unaligned_store_le_u64 e m p v64 = Inr m'))"
  using le_u16.load_store [of e m p v16 m'] le_u16.load_store_other [of e m p v16 m' q]
    le_u32.load_store [of e m p v32 m'] le_u32.load_store_other [of e m p v32 m' q]
    le_u64.load_store [of e m p v64 m'] le_u64.load_store_other [of e m p v64 m' q]
    le_u64.store_ok_iff [of e m p v64]
  by auto

theorem unaligned_access_round_trip_witness:
  "iree_unaligned_store_le_u16 IREE_ENDIANNESS_LITTLE [9, 9, 9] 1 0x0201 = Inr [9, 1, 2] \<and>
   iree_unaligned_load_le_u16 IREE_ENDIANNESS_LITTLE [9, 1, 2] 1 = Inr 0x0201"
proof -
  have "iree_unaligned_store_le_u16 IREE_ENDIANNESS_LITTLE [9, 9, 9] 1 0x0201 = Inr [9, 1, 2]"
    by (simp add: iree_unaligned_store_le_u16_def)
  then show ?thesis using unaligned_access_round_trip by blast
qed

end
