(* ===== verification/Iree_Math.thy ===== *)
theory Iree_Math
  imports Nx_Prelude
begin

unbundle bit_operations_syntax

text \<open>
  \<open>iree/base/internal/math.h\<close>: rotations, bit scanning, population count, rounding to a power
  of two, and the conversions between \<open>float\<close> and the narrow floating-point formats. A float is
  its bit pattern. Where the header selects a compiler builtin, the branch for GCC-compatible
  compilers on x86 is modelled, and for counting trailing zeros the portable branch as well.
\<close>

section \<open>Definitions\<close>

subsection \<open>Shifts and rotations\<close>

definition iree_shr_u64 :: "u64 \<Rightarrow> u64 \<Rightarrow> u64" where
  "iree_shr_u64 v shamt = (if shamt < 64 then drop_bit (unat shamt) v else 0)"

definition iree_math_rotl_u64 :: "u64 \<Rightarrow> u32 \<Rightarrow> u64" where
  "iree_math_rotl_u64 n c =
     (let c = c AND 63
      in if c = 0 then n else push_bit (unat c) n OR drop_bit (unat (64 - c)) n)"

definition iree_math_rotr_u64 :: "u64 \<Rightarrow> u32 \<Rightarrow> u64" where
  "iree_math_rotr_u64 n c =
     (let c = c AND 63
      in if c = 0 then n else drop_bit (unat c) n OR push_bit (unat (- c AND 63)) n)"

subsection \<open>Bit scanning and counting\<close>

text \<open>
  \<open>__builtin_clz\<close> and \<open>__builtin_ctz\<close>: the number of zeros above the highest and below the
  lowest set bit. Their result for zero is undefined; the leading-zero functions test for it.
\<close>

definition builtin_clz :: "'a::len word \<Rightarrow> nat" where
  "builtin_clz n = length (takeWhile (\<lambda>i. \<not> bit n i) (rev [0..<LENGTH('a)]))"

definition builtin_ctz :: "'a::len word \<Rightarrow> nat res" where
  "builtin_ctz n =
     (if n = 0 then Inl BadBuiltin
      else Inr (length (takeWhile (\<lambda>i. \<not> bit n i) [0..<LENGTH('a)])))"

definition iree_math_count_leading_zeros_u32 :: "u32 \<Rightarrow> nat" where
  "iree_math_count_leading_zeros_u32 n = (if n = 0 then 32 else builtin_clz n)"

definition iree_math_count_leading_zeros_u64 :: "u64 \<Rightarrow> nat" where
  "iree_math_count_leading_zeros_u64 n = (if n = 0 then 64 else builtin_clz n)"

definition iree_math_count_trailing_zeros_u32 :: "u32 \<Rightarrow> nat res" where
  "iree_math_count_trailing_zeros_u32 n = builtin_ctz n"

definition count_trailing_zeros_portable_u32 :: "u32 \<Rightarrow> int" where
  "count_trailing_zeros_portable_u32 n0 =
     (let c = 31;
          n = n0 AND (NOT n0 + 1);
          c = (if n AND 0x0000FFFF \<noteq> 0 then c - 16 else c);
          c = (if n AND 0x00FF00FF \<noteq> 0 then c - 8 else c);
          c = (if n AND 0x0F0F0F0F \<noteq> 0 then c - 4 else c);
          c = (if n AND 0x33333333 \<noteq> 0 then c - 2 else c);
          c = (if n AND 0x55555555 \<noteq> 0 then c - 1 else c)
      in c)"

definition iree_math_count_trailing_zeros_u64 :: "u64 \<Rightarrow> nat res" where
  "iree_math_count_trailing_zeros_u64 n = builtin_ctz n"

definition count_trailing_zeros_portable_u64 :: "u64 \<Rightarrow> int" where
  "count_trailing_zeros_portable_u64 n0 =
     (let c = 63;
          n = n0 AND (NOT n0 + 1);
          c = (if n AND 0x00000000FFFFFFFF \<noteq> 0 then c - 32 else c);
          c = (if n AND 0x0000FFFF0000FFFF \<noteq> 0 then c - 16 else c);
          c = (if n AND 0x00FF00FF00FF00FF \<noteq> 0 then c - 8 else c);
          c = (if n AND 0x0F0F0F0F0F0F0F0F \<noteq> 0 then c - 4 else c);
          c = (if n AND 0x3333333333333333 \<noteq> 0 then c - 2 else c);
          c = (if n AND 0x5555555555555555 \<noteq> 0 then c - 1 else c)
      in c)"

definition iree_math_count_ones_u32 :: "u32 \<Rightarrow> u32" where
  "iree_math_count_ones_u32 n0 =
     (let n = n0 - (drop_bit 1 n0 AND 0x55555555);
          n = (drop_bit 2 n AND 0x33333333) + (n AND 0x33333333)
      in drop_bit 24 (((n + drop_bit 4 n) AND 0x0F0F0F0F) * 0x01010101))"

definition iree_math_count_ones_u64 :: "u64 \<Rightarrow> u32" where
  "iree_math_count_ones_u64 n =
     iree_math_count_ones_u32 (ucast (drop_bit 32 n)) +
     iree_math_count_ones_u32 (ucast (n AND 0xFFFFFFFF))"

subsection \<open>Rounding up to a power of two\<close>

definition iree_math_round_up_to_pow2_u32 :: "u32 \<Rightarrow> u32" where
  "iree_math_round_up_to_pow2_u32 n =
     (let n = n - 1;
          n = n OR drop_bit 1 n;
          n = n OR drop_bit 2 n;
          n = n OR drop_bit 4 n;
          n = n OR drop_bit 8 n;
          n = n OR drop_bit 16 n
      in n + 1)"

definition iree_math_round_up_to_pow2_u64 :: "u64 \<Rightarrow> u64" where
  "iree_math_round_up_to_pow2_u64 n =
     (let n = n - 1;
          n = n OR drop_bit 1 n;
          n = n OR drop_bit 2 n;
          n = n OR drop_bit 4 n;
          n = n OR drop_bit 8 n;
          n = n OR drop_bit 16 n;
          n = n OR drop_bit 32 n
      in n + 1)"

subsection \<open>Narrow floating-point formats\<close>

text \<open>
  \<open>IREE_MATH_FP_FORMAT_CONSTANTS\<close>: masks, shifts and the exponent bias of a format with the
  given numbers of exponent and mantissa bits.
\<close>

record fp_format =
  exp_bits :: nat
  mantissa_bits :: nat

definition fp_sign_shift :: "fp_format \<Rightarrow> nat" where
  "fp_sign_shift f = exp_bits f + mantissa_bits f"

definition fp_sign_mask :: "fp_format \<Rightarrow> u32" where
  "fp_sign_mask f = push_bit (fp_sign_shift f) 1"

definition fp_mantissa_mask :: "fp_format \<Rightarrow> u32" where
  "fp_mantissa_mask f = push_bit (mantissa_bits f) 1 - 1"

definition fp_exp_mask :: "fp_format \<Rightarrow> u32" where
  "fp_exp_mask f = push_bit (fp_sign_shift f) 1 - push_bit (mantissa_bits f) 1"

definition fp_exp_bias :: "fp_format \<Rightarrow> int" where
  "fp_exp_bias f = 2 ^ (exp_bits f - 1) - 1"

definition f32_format :: fp_format where
  "f32_format = \<lparr>exp_bits = 8, mantissa_bits = 23\<rparr>"

text \<open>A non-negative integer below \<open>2 ^ 24\<close> as a float: the conversion is exact.\<close>

definition f32_of_u24 :: "u32 \<Rightarrow> u32" where
  "f32_of_u24 k =
     (if k = 0 then 0
      else let p = 31 - iree_math_count_leading_zeros_u32 k
           in push_bit 23 (of_nat (127 + p)) OR (push_bit (23 - p) k AND fp_mantissa_mask f32_format))"

text \<open>A left shift of a negative \<open>int\<close> is undefined.\<close>

definition c_shl_int :: "int \<Rightarrow> nat \<Rightarrow> u32 res" where
  "c_shl_int x n = (if x < 0 then Inl BadShift else Inr (word_of_int (x * 2 ^ n)))"

definition iree_math_make_f32_from_bits :: "u32 \<Rightarrow> fp_format \<Rightarrow> bool \<Rightarrow> u32 res" where
  "iree_math_make_f32_from_bits src f have_infinity =
     (let src_sign = src AND fp_sign_mask f;
          f32_sign = push_bit (31 - fp_sign_shift f) src_sign;
          src_exp = src AND fp_exp_mask f;
          src_mantissa = src AND fp_mantissa_mask f
      in if src_exp = fp_exp_mask f
         then if \<not> have_infinity \<and> src_mantissa \<noteq> fp_mantissa_mask f
              then Inr ((if src_sign \<noteq> 0 then 0x80000000 else 0) OR
                     f32_of_u24 (2 * push_bit (exp_bits f) 1 *
                       (push_bit (mantissa_bits f) 1 + src_mantissa)))
              else Inr (f32_sign OR fp_exp_mask f32_format OR
                     (if src_mantissa \<noteq> 0 then fp_mantissa_mask f32_format else 0))
         else if src_exp = 0 then Inr f32_sign
         else let arithmetic_src_exp = uint (drop_bit (mantissa_bits f) src_exp);
                  arithmetic_f32_exp = arithmetic_src_exp + 2 ^ 7 - 2 ^ (exp_bits f - 1)
              in bind_res (c_shl_int arithmetic_f32_exp 23) (\<lambda>f32_exp.
                 Inr (f32_sign OR f32_exp OR push_bit (23 - mantissa_bits f) src_mantissa)))"

definition iree_math_truncate_f32_to_bits_rounding_to_nearest_even ::
  "u32 \<Rightarrow> fp_format \<Rightarrow> bool \<Rightarrow> u32 res" where
  "iree_math_truncate_f32_to_bits_rounding_to_nearest_even u32_value f have_infinity =
     (let f32_sign = u32_value AND fp_sign_mask f32_format;
          dst_sign = drop_bit (31 - fp_sign_shift f) f32_sign;
          f32_exp = u32_value AND fp_exp_mask f32_format;
          f32_mantissa = u32_value AND fp_mantissa_mask f32_format
      in if f32_exp \<ge> fp_exp_mask f32_format
         then Inr (dst_sign OR fp_exp_mask f OR
                (if f32_mantissa \<noteq> 0 \<or> \<not> have_infinity then fp_mantissa_mask f else 0))
         else if f32_exp = 0 then Inr dst_sign
         else let arithmetic_exp = uint (drop_bit 23 f32_exp) - 127
              in if arithmetic_exp > 2 ^ (exp_bits f - 1) - of_bool have_infinity
                 then Inr (dst_sign OR fp_exp_mask f OR
                        (if \<not> have_infinity then fp_mantissa_mask f else 0))
                 else if arithmetic_exp < - (2 ^ (exp_bits f - 1)) then Inr dst_sign
                 else let even_bit = push_bit (23 - mantissa_bits f) (1 :: u32);
                          odd_bit = drop_bit 1 even_bit;
                          biased = f32_mantissa +
                            (if f32_mantissa AND even_bit \<noteq> 0 then odd_bit else odd_bit - 1);
                          carry = biased > fp_mantissa_mask f32_format;
                          biased = (if carry then 0 else biased);
                          arithmetic_exp = (if carry then arithmetic_exp + 1 else arithmetic_exp)
                      in if \<not> have_infinity \<and> arithmetic_exp > 2 ^ (exp_bits f - 1)
                         then Inr (dst_sign OR fp_exp_mask f OR fp_mantissa_mask f)
                         else bind_res (c_shl_int (arithmetic_exp + fp_exp_bias f) (mantissa_bits f))
                                (\<lambda>dst_exp.
                                Inr (dst_sign OR dst_exp OR drop_bit (23 - mantissa_bits f) biased)))"

definition f16_format :: fp_format where "f16_format = \<lparr>exp_bits = 5, mantissa_bits = 10\<rparr>"
definition bf16_format :: fp_format where "bf16_format = \<lparr>exp_bits = 8, mantissa_bits = 7\<rparr>"
definition f8e5m2_format :: fp_format where "f8e5m2_format = \<lparr>exp_bits = 5, mantissa_bits = 2\<rparr>"
definition f8e4m3_format :: fp_format where "f8e4m3_format = \<lparr>exp_bits = 4, mantissa_bits = 3\<rparr>"

text \<open>The helpers the macro \<open>IREE_MATH_MAKE_FLOAT_TYPE_HELPERS\<close> generates for each format.\<close>

definition iree_math_f16_to_f32 :: "u16 \<Rightarrow> u32 res" where
  "iree_math_f16_to_f32 src = iree_math_make_f32_from_bits (ucast src) f16_format True"

definition iree_math_f32_to_f16 :: "u32 \<Rightarrow> u16 res" where
  "iree_math_f32_to_f16 v =
     bind_res (iree_math_truncate_f32_to_bits_rounding_to_nearest_even v f16_format True) (\<lambda>b. Inr (ucast b))"

definition iree_math_round_to_nearest_f16 :: "u32 \<Rightarrow> u32 res" where
  "iree_math_round_to_nearest_f16 v = bind_res (iree_math_f32_to_f16 v) iree_math_f16_to_f32"

definition iree_math_bf16_to_f32 :: "u16 \<Rightarrow> u32 res" where
  "iree_math_bf16_to_f32 src = iree_math_make_f32_from_bits (ucast src) bf16_format True"

definition iree_math_f32_to_bf16 :: "u32 \<Rightarrow> u16 res" where
  "iree_math_f32_to_bf16 v =
     bind_res (iree_math_truncate_f32_to_bits_rounding_to_nearest_even v bf16_format True) (\<lambda>b. Inr (ucast b))"

definition iree_math_f8e5m2_to_f32 :: "u8 \<Rightarrow> u32 res" where
  "iree_math_f8e5m2_to_f32 src = iree_math_make_f32_from_bits (ucast src) f8e5m2_format True"

definition iree_math_f32_to_f8e5m2 :: "u32 \<Rightarrow> u8 res" where
  "iree_math_f32_to_f8e5m2 v =
     bind_res (iree_math_truncate_f32_to_bits_rounding_to_nearest_even v f8e5m2_format True) (\<lambda>b. Inr (ucast b))"

definition iree_math_f8e4m3_to_f32 :: "u8 \<Rightarrow> u32 res" where
  "iree_math_f8e4m3_to_f32 src = iree_math_make_f32_from_bits (ucast src) f8e4m3_format False"

definition iree_math_f32_to_f8e4m3 :: "u32 \<Rightarrow> u8 res" where
  "iree_math_f32_to_f8e4m3 v =
     bind_res (iree_math_truncate_f32_to_bits_rounding_to_nearest_even v f8e4m3_format False) (\<lambda>b. Inr (ucast b))"

lemmas fp_defs [c_defs] =
  fp_sign_shift_def fp_sign_mask_def fp_mantissa_mask_def fp_exp_mask_def fp_exp_bias_def
  f32_format_def f16_format_def bf16_format_def f8e5m2_format_def f8e4m3_format_def
  iree_math_make_f32_from_bits_def iree_math_truncate_f32_to_bits_rounding_to_nearest_even_def
  iree_math_f16_to_f32_def iree_math_f32_to_f16_def iree_math_round_to_nearest_f16_def
  iree_math_bf16_to_f32_def iree_math_f32_to_bf16_def iree_math_f8e5m2_to_f32_def
  iree_math_f32_to_f8e5m2_def iree_math_f8e4m3_to_f32_def iree_math_f32_to_f8e4m3_def c_shl_int_def

section \<open>Rotations\<close>

lemma and_63_less: "unat (c AND 63 :: u32) < 64"
proof -
  have "c AND 63 = take_bit 6 c" by (simp add: take_bit_eq_mask mask_eq_exp_minus_1)
  then have "unat (c AND 63) = take_bit 6 (unat c)" by (simp add: unsigned_take_bit_eq)
  then show ?thesis using take_bit_nat_less_exp [of 6 "unat c"] by simp
qed
lemma unat_minus_64: 
  assumes "unat (x :: u32) < 64"
  shows "unat (64 - x) = 64 - unat x"
  using assms by (simp add: unat_sub word_le_nat_alt)
lemma and_mask_nat_63: "n AND 63 = n mod (64 :: nat)"
  using take_bit_eq_mask [of 6 n] by (simp add: take_bit_eq_mod mask_eq_exp_minus_1)

lemma unat_neg_and_63:
  assumes "0 < unat (x :: u32)" "unat x < 64"
  shows "unat (- x AND 63) = 64 - unat x"
proof -
  have x: "x \<noteq> 0" using assms by auto
  have "unat (- x) = 2 ^ 32 - unat x" using x unat_sub_if' [of 0 x] by (simp add: unat_gt_0)
  moreover have "unat (- x AND 63) = unat (- x) AND 63"
    by (simp add: unsigned_and_eq)
  ultimately have "unat (- x AND 63) = (2 ^ 32 - unat x) mod 64"
    using and_mask_nat_63 by simp
  also have "(2 ^ 32 - unat x) mod 64 = 64 - unat x"
  proof -
    have "2 ^ 32 - unat x = (64 - unat x) + 64 * (2 ^ 26 - 1)" using assms by simp
    then show ?thesis using assms by (metis mod_less mod_mult_self2 diff_less zero_less_numeral)
  qed
  finally show ?thesis .
qed

lemma rotr_rotl_u64: "iree_math_rotr_u64 (iree_math_rotl_u64 n c) c = n"
proof (cases "c AND 63 = 0")
  case True
  then show ?thesis by (simp add: iree_math_rotr_u64_def iree_math_rotl_u64_def)
next
  case False
  define k where "k = unat (c AND 63)"
  have k: "0 < k" "k < 64" using False and_63_less [of c] by (auto simp: k_def unat_gt_0)
  have l: "unat (64 - (c AND 63)) = 64 - k" "unat (- (c AND 63) AND 63) = 64 - k"
    using k by (simp_all add: k_def unat_minus_64 unat_neg_and_63)
  show ?thesis
  proof (rule bit_word_eqI)
    fix i :: nat
    assume "i < LENGTH(64)"
    moreover have "64 + (i + k - 64) - k = i" if "\<not> i + k < 64" using that by simp
    ultimately show "bit (iree_math_rotr_u64 (iree_math_rotl_u64 n c) c) i = bit n i"
      using False k
      by (cases "i + k < 64") (auto simp: iree_math_rotr_u64_def iree_math_rotl_u64_def Let_def l bit_simps
          simp flip: k_def)
  qed
qed

section \<open>Trailing zeros\<close>

lemma isolate_lowest_bit:
  fixes n :: "'a::len word"
  assumes "bit n k" and low: "\<And>i. i < k \<Longrightarrow> \<not> bit n i"
  shows "n AND (NOT n + 1) = push_bit k 1"
proof -
  define b where "b = n AND NOT (push_bit k 1)"
  have k: "k < LENGTH('a)" using assms(1) bit_imp_le_length by blast
  have n: "n = b OR push_bit k 1"
    by (rule bit_word_eqI) (use assms in \<open>auto simp: b_def bit_simps\<close>)
  have "b AND push_bit k 1 = 0"
    by (rule bit_word_eqI) (auto simp: b_def bit_simps)
  then have "n = b + push_bit k 1" unfolding n by (simp add: disjunctive_add_eq_or)
  then have "n - 1 = b + mask k" by (simp add: mask_eq_exp_minus_1 push_bit_eq_mult)
  moreover have "b AND mask k = 0"
    by (rule bit_word_eqI) (auto simp: b_def bit_simps dest: low)
  ultimately have "n - 1 = b OR mask k" by (simp add: disjunctive_add_eq_or)
  then have m: "NOT n + 1 = NOT (b OR mask k)"
    by (metis minus_eq_not_minus_1 minus_eq_not_plus_1)
  show ?thesis unfolding m
    by (rule bit_word_eqI) (use assms in \<open>auto simp: b_def bit_simps\<close>)
qed
lemma lowest_bit_exists:
  fixes n :: "'a::len word"
  assumes "n \<noteq> 0"
  obtains k where "k < LENGTH('a)" "bit n k" "\<And>i. i < k \<Longrightarrow> \<not> bit n i"
proof -
  obtain j where "bit n j" using assms by (auto simp: bit_eq_iff)
  define k where "k = (LEAST k. bit n k)"
  have "bit n k" unfolding k_def by (rule LeastI) (fact \<open>bit n j\<close>)
  moreover have "\<not> bit n i" if "i < k" for i using that not_less_Least k_def by blast
  moreover have "k < LENGTH('a)" using \<open>bit n k\<close> bit_imp_le_length by blast
  ultimately show thesis using that by blast
qed

lemma builtin_ctz_lowest:
  fixes n :: "'a::len word"
  assumes "k < LENGTH('a)" "bit n k" "\<And>i. i < k \<Longrightarrow> \<not> bit n i"
  shows "builtin_ctz n = Inr k"
proof -
  have "[0..<LENGTH('a)] = [0..<k] @ k # [Suc k..<LENGTH('a)]"
    using assms(1) upt_add_eq_append [of 0 k "LENGTH('a) - k"] by (simp add: upt_conv_Cons)
  then have "takeWhile (\<lambda>i. \<not> bit n i) [0..<LENGTH('a)] = [0..<k]"
    using assms by (simp add: takeWhile_append)
  then show ?thesis using assms(2) by (auto simp: builtin_ctz_def)
qed

lemma push_bit_1_and_eq_0_iff [simp]:
  fixes m :: "'a::len word"
  shows "push_bit k 1 AND m = 0 \<longleftrightarrow> \<not> bit m k"
proof
  assume "push_bit k 1 AND m = 0"
  then have "\<not> bit (push_bit k 1 AND m) k" by simp
  then show "\<not> bit m k" using bit_imp_le_length by (auto simp: bit_simps)
next
  assume "\<not> bit m k"
  then show "push_bit k 1 AND m = 0" by (intro bit_word_eqI) (auto simp: bit_simps)
qed

lemma upt_32: "[0..<32] =
    [0, 1, 2, 3, 4, 5, 6, 7, 8, 9, 10, 11, 12, 13, 14, 15, 16, 17, 18, 19, 20, 21, 22, 23, 24,
      25, 26, 27, 28, 29, 30, 31]"
  by code_simp

lemma upt_64: "[0..<64] =
    [0, 1, 2, 3, 4, 5, 6, 7, 8, 9, 10, 11, 12, 13, 14, 15, 16, 17, 18, 19, 20, 21, 22, 23, 24,
      25, 26, 27, 28, 29, 30, 31, 32, 33, 34, 35, 36, 37, 38, 39, 40, 41, 42, 43, 44, 45, 46,
      47, 48, 49, 50, 51, 52, 53, 54, 55, 56, 57, 58, 59, 60, 61, 62, 63]"
  by code_simp

lemma portable_ctz_u32:
  assumes "k < 32" "bit n k" "\<And>i. i < k \<Longrightarrow> \<not> bit n i"
  shows "count_trailing_zeros_portable_u32 n = int k"
proof -
  have iso: "n AND (NOT n + 1) = push_bit k 1" using assms by (intro isolate_lowest_bit)
  have "k \<in> set [0..<32]" using assms(1) by simp
  then show ?thesis
    unfolding count_trailing_zeros_portable_u32_def Let_def iso push_bit_1_and_eq_0_iff
    by (simp only: upt_32 set_simps insert_iff empty_iff) (elim disjE; simp)
qed

lemma portable_ctz_u64:
  assumes "k < 64" "bit n k" "\<And>i. i < k \<Longrightarrow> \<not> bit n i"
  shows "count_trailing_zeros_portable_u64 n = int k"
proof -
  have iso: "n AND (NOT n + 1) = push_bit k 1" using assms by (intro isolate_lowest_bit)
  have "k \<in> set [0..<64]" using assms(1) by simp
  then show ?thesis
    unfolding count_trailing_zeros_portable_u64_def Let_def iso push_bit_1_and_eq_0_iff
    by (simp only: upt_64 set_simps insert_iff empty_iff) (elim disjE; simp)
qed

lemma ctz_portable_eq_builtin:
  "iree_math_count_trailing_zeros_u32 n = Inr k \<Longrightarrow> count_trailing_zeros_portable_u32 n = int k"
  "iree_math_count_trailing_zeros_u64 n' = Inr k \<Longrightarrow> count_trailing_zeros_portable_u64 n' = int k"
proof -
  assume a: "iree_math_count_trailing_zeros_u32 n = Inr k"
  then have "n \<noteq> 0" by (auto simp: iree_math_count_trailing_zeros_u32_def builtin_ctz_def)
  then obtain j where j: "j < LENGTH(32)" "bit n j" "\<And>i. i < j \<Longrightarrow> \<not> bit n i"
    by (rule lowest_bit_exists) blast
  have "j = k" using a builtin_ctz_lowest [OF j] by (simp add: iree_math_count_trailing_zeros_u32_def)
  then show "count_trailing_zeros_portable_u32 n = int k" using portable_ctz_u32 [of j n] j by simp
next
  assume a: "iree_math_count_trailing_zeros_u64 n' = Inr k"
  then have "n' \<noteq> 0" by (auto simp: iree_math_count_trailing_zeros_u64_def builtin_ctz_def)
  then obtain j where j: "j < LENGTH(64)" "bit n' j" "\<And>i. i < j \<Longrightarrow> \<not> bit n' i"
    by (rule lowest_bit_exists) blast
  have "j = k" using a builtin_ctz_lowest [OF j] by (simp add: iree_math_count_trailing_zeros_u64_def)
  then show "count_trailing_zeros_portable_u64 n' = int k" using portable_ctz_u64 [of j n'] j by simp
qed

section \<open>Rounding up to a power of two\<close>

text \<open>\<open>smeared a x y\<close>: bit \<open>i\<close> of \<open>x\<close> is set when one of the \<open>a\<close> bits of \<open>y\<close> from \<open>i\<close> up is.\<close>

definition smeared :: "nat \<Rightarrow> 'a::len word \<Rightarrow> 'a word \<Rightarrow> bool" where
  "smeared a x y \<longleftrightarrow> (\<forall>i. bit x i \<longleftrightarrow> (\<exists>j < a. bit y (i + j)))"

lemma smeared_1: "smeared 1 y y"
  by (simp add: smeared_def)

lemma smeared_double:
  assumes "smeared a x y"
  shows "smeared (a + a) (x OR drop_bit a x) y"
  unfolding smeared_def
proof (intro allI)
  fix i
  have "bit (x OR drop_bit a x) i \<longleftrightarrow> (\<exists>j < a. bit y (i + j)) \<or> (\<exists>j < a. bit y (i + (a + j)))"
    using assms by (simp add: smeared_def bit_simps ac_simps)
  also have "\<dots> \<longleftrightarrow> (\<exists>j < a + a. bit y (i + j))"
  proof
    assume "\<exists>j < a + a. bit y (i + j)"
    then obtain j where "j < a + a" "bit y (i + j)" by blast
    then show "(\<exists>j < a. bit y (i + j)) \<or> (\<exists>j < a. bit y (i + (a + j)))"
      by (cases "j < a") (blast, auto intro!: disjI2 exI [of _ "j - a"])
  next
    assume "(\<exists>j < a. bit y (i + j)) \<or> (\<exists>j < a. bit y (i + (a + j)))"
    then show "\<exists>j < a + a. bit y (i + j)" using trans_less_add1 nat_add_left_cancel_less by blast
  qed
  finally show "bit (x OR drop_bit a x) i \<longleftrightarrow> (\<exists>j < a + a. bit y (i + j))" .
qed

lemma bit_word_iff_nat: "bit (y :: 'a::len word) j \<longleftrightarrow> odd (unat y div 2 ^ j)"
  by (metis bit_iff_odd bit_unsigned_iff possible_bit_nat)

lemma smeared_full_mask:
  fixes x y :: "'a::len word"
  assumes s: "smeared LENGTH('a) x y" and m: "unat y < 2 ^ m" "\<And>k. unat y < 2 ^ k \<Longrightarrow> m \<le> k"
  shows "x = mask m"
proof (rule bit_word_eqI)
  fix i assume i: "i < LENGTH('a)"
  have hi: "\<not> bit y j" if "m \<le> j" for j
  proof -
    have "(2 :: nat) ^ m \<le> 2 ^ j" using that by simp
    then have "unat y div 2 ^ j = 0" using m(1) by (intro div_less) linarith
    then show ?thesis by (simp add: bit_word_iff_nat)
  qed
  have top: "bit y (m - 1)" if "0 < m"
  proof -
    have "2 ^ (m - 1) \<le> unat y" using m(2) [of "m - 1"] that by (meson diff_less leD leI zero_less_one)
    moreover have "unat y < 2 * 2 ^ (m - 1)" using m(1) that by (simp flip: power_Suc)
    ultimately have "unat y div 2 ^ (m - 1) = 1" by (intro div_nat_eqI) auto
    then show ?thesis by (simp add: bit_word_iff_nat)
  qed
  show "bit x i = bit (mask m :: 'a word) i"
  proof (cases "i < m")
    case True
    then have "bit y (i + (m - 1 - i))" using top by simp
    moreover have "m - 1 - i < LENGTH('a)" using top bit_imp_le_length [of y "m - 1"] True by linarith
    ultimately show ?thesis using s True i by (auto simp: smeared_def bit_simps)
  next
    case False
    then show ?thesis using s hi by (auto simp: smeared_def bit_simps)
  qed
qed

lemma least_pow2_above:
  obtains m where "n < 2 ^ m" "\<And>k. (n :: nat) < 2 ^ k \<Longrightarrow> m \<le> k"
proof -
  have "n < 2 ^ (LEAST m. n < 2 ^ m)" by (rule LeastI [of _ n]) (rule less_exp)
  then show thesis by (rule that) (rule Least_le)
qed

lemma smeared_step:
  assumes "smeared a x y" "b = a + a"
  shows "smeared b (x OR drop_bit a x) y"
  using smeared_double [OF assms(1)] assms(2) by simp

lemma round_up_smeared_u32: "smeared 32 (iree_math_round_up_to_pow2_u32 n - 1) (n - 1)"
  unfolding iree_math_round_up_to_pow2_u32_def Let_def add_diff_cancel_right'
  by (rule smeared_step [where a = 16], rule smeared_step [where a = 8],
      rule smeared_step [where a = 4], rule smeared_step [where a = 2],
      rule smeared_step [where a = 1], rule smeared_1, simp_all)

lemma round_up_smeared_u64: "smeared 64 (iree_math_round_up_to_pow2_u64 n - 1) (n - 1)"
  unfolding iree_math_round_up_to_pow2_u64_def Let_def add_diff_cancel_right'
  by (rule smeared_step [where a = 32], rule smeared_step [where a = 16],
      rule smeared_step [where a = 8], rule smeared_step [where a = 4],
      rule smeared_step [where a = 2], rule smeared_step [where a = 1], rule smeared_1, simp_all)

lemma mask_plus_1_least:
  fixes n r :: "'a::len word"
  assumes "smeared LENGTH('a) (r - 1) (n - 1)" "0 < unat n" "unat n \<le> 2 ^ (LENGTH('a) - 1)"
  shows "\<exists>m. unat r = 2 ^ m \<and> unat n \<le> 2 ^ m \<and> (\<forall>k. unat n \<le> 2 ^ k \<longrightarrow> m \<le> k)"
proof -
  obtain m where m: "unat (n - 1) < 2 ^ m" "\<And>k. unat (n - 1) < 2 ^ k \<Longrightarrow> m \<le> k"
    by (rule least_pow2_above [of "unat (n - 1)"]) blast
  have n1: "unat (n - 1) = unat n - 1" using assms(2) by (simp add: unat_minus_one unat_gt_0)
  have m': "unat (n - 1) < 2 ^ k \<longleftrightarrow> unat n \<le> 2 ^ k" for k
    unfolding n1 using assms(2) by linarith
  have "m \<le> LENGTH('a) - 1" using m(2) m' assms(3) by blast
  then have ml: "m < LENGTH('a)" by (metis Suc_le_lessD Suc_pred' le_imp_less_Suc len_gt_0)
  have "r - 1 = mask m" using smeared_full_mask [OF assms(1)] m by blast
  then have "r = 2 ^ m" by (simp add: mask_eq_exp_minus_1)
  then have "r = word_of_nat (2 ^ m)" by simp
  then have "unat r = 2 ^ m" using ml by (simp only: unat_of_nat) simp
  then show ?thesis using m m' by blast
qed

lemma mask_plus_1_wraps:
  fixes n r :: "'a::len word"
  assumes "smeared LENGTH('a) (r - 1) (n - 1)" "2 ^ (LENGTH('a) - 1) \<le> unat (n - 1)"
  shows "r = 0"
proof -
  have "LENGTH('a) \<le> k" if "unat (n - 1) < 2 ^ k" for k
  proof -
    have "(2 :: nat) ^ (LENGTH('a) - 1) < 2 ^ k" using that assms(2) by linarith
    then show ?thesis by simp
  qed
  then have "r - 1 = mask LENGTH('a)"
    using smeared_full_mask [OF assms(1), of "LENGTH('a)"] by (simp add: unsigned_less)
  then show ?thesis by (simp add: mask_eq_exp_minus_1)
qed

lemma unat_pred_large:
  fixes n :: "'a::len word"
  assumes "n = 0 \<or> m < unat n" "m < 2 ^ LENGTH('a)"
  shows "m \<le> unat (n - 1)"
proof (cases "n = 0")
  case True
  then show ?thesis using assms(2) by (simp add: unsigned_minus_1_eq_mask mask_eq_exp_minus_1)
next
  case False
  then show ?thesis using assms(1) by (simp add: unat_minus_one)
qed

section \<open>Narrow floating-point formats\<close>

lemma and_field_mask:
  "w AND push_bit a (mask b) = push_bit a (take_bit b (drop_bit a w))" for w :: "'a::len word"
  by (rule bit_word_eqI) (auto simp: bit_simps)

lemma uint_take_bit_word_less: "b < 32 \<Longrightarrow> uint (take_bit b (w :: u32)) < 2 ^ b"
  by (simp add: unsigned_take_bit_eq)

lemma fp_masks:
  "fp_mantissa_mask f = mask (mantissa_bits f)"
  "fp_exp_mask f = push_bit (mantissa_bits f) (mask (exp_bits f))"
  by (simp_all add: fp_mantissa_mask_def fp_exp_mask_def fp_sign_shift_def
      push_bit_eq_mult mask_eq_exp_minus_1 power_add algebra_simps)

text \<open>The three fields of a bit pattern and the pattern they make up.\<close>

definition fp_exp :: "fp_format \<Rightarrow> u32 \<Rightarrow> u32" where
  "fp_exp f w = take_bit (exp_bits f) (drop_bit (mantissa_bits f) w)"

definition fp_mantissa :: "fp_format \<Rightarrow> u32 \<Rightarrow> u32" where
  "fp_mantissa f w = take_bit (mantissa_bits f) w"

definition fp_sign :: "fp_format \<Rightarrow> u32 \<Rightarrow> u32" where
  "fp_sign f w = of_bool (bit w (fp_sign_shift f))"

definition fp_pack :: "fp_format \<Rightarrow> u32 \<Rightarrow> u32 \<Rightarrow> u32 \<Rightarrow> u32" where
  "fp_pack f s e m = push_bit (fp_sign_shift f) s OR push_bit (mantissa_bits f) e OR m"

lemma fp_fields:
  "w AND fp_exp_mask f = push_bit (mantissa_bits f) (fp_exp f w)"
  "w AND fp_mantissa_mask f = fp_mantissa f w"
  "w AND fp_sign_mask f = push_bit (fp_sign_shift f) (fp_sign f w)"
proof -
  show "w AND fp_exp_mask f = push_bit (mantissa_bits f) (fp_exp f w)"
    unfolding fp_masks fp_exp_def by (rule and_field_mask)
  show "w AND fp_mantissa_mask f = fp_mantissa f w"
    unfolding fp_masks fp_mantissa_def by (simp add: take_bit_eq_mask)
  show "w AND fp_sign_mask f = push_bit (fp_sign_shift f) (fp_sign f w)"
    by (rule bit_word_eqI) (auto simp: fp_sign_mask_def fp_sign_def bit_simps)
qed

locale float_format =
  fixes f :: fp_format
  assumes mantissa: "1 \<le> mantissa_bits f" "mantissa_bits f \<le> 23"
    and exp: "2 \<le> exp_bits f" "exp_bits f \<le> 8"
begin

lemma pack_fields:
  assumes "take_bit (Suc (fp_sign_shift f)) w = w"
  shows "fp_pack f (fp_sign f w) (fp_exp f w) (fp_mantissa f w) = w"
proof (rule bit_word_eqI)
  fix i assume "i < LENGTH(32)"
  have "bit w i \<Longrightarrow> i \<le> fp_sign_shift f"
    using assms by (metis bit_take_bit_iff less_Suc_eq_le)
  then show "bit (fp_pack f (fp_sign f w) (fp_exp f w) (fp_mantissa f w)) i = bit w i"
    using mantissa exp \<open>i < LENGTH(32)\<close>
    by (cases "i < fp_sign_shift f"; cases "i < mantissa_bits f")
      (auto simp: fp_pack_def fp_sign_def fp_exp_def fp_mantissa_def fp_sign_shift_def bit_simps)
qed

lemma widened_fields:
  assumes "take_bit 8 e = e" "take_bit (mantissa_bits f) m = m" "s = of_bool b"
    and "w = push_bit 31 s OR push_bit 23 e OR push_bit (23 - mantissa_bits f) m"
  shows "fp_sign f32_format w = s" "fp_exp f32_format w = e"
    "fp_mantissa f32_format w = push_bit (23 - mantissa_bits f) m"
proof -
  have e: "\<not> bit e i" if "8 \<le> i" for i
    using that assms(1) by (metis bit_take_bit_iff leD)
  have m: "\<not> bit m i" if "mantissa_bits f \<le> i" for i
    using that assms(2) by (metis bit_take_bit_iff leD)
  note w = assms(3,4)
  show "fp_sign f32_format w = s"
    using mantissa by (simp add: w e m fp_sign_def fp_sign_shift_def f32_format_def bit_simps)
  show "fp_exp f32_format w = e"
  proof (rule bit_word_eqI)
    fix i assume "i < LENGTH(32)"
    then show "bit (fp_exp f32_format w) i = bit e i"
      using mantissa
      by (cases "i < 8") (simp_all add: w e m fp_exp_def f32_format_def bit_simps)
  qed
  show "fp_mantissa f32_format w = push_bit (23 - mantissa_bits f) m"
  proof (rule bit_word_eqI)
    fix i assume "i < LENGTH(32)"
    then show "bit (fp_mantissa f32_format w) i = bit (push_bit (23 - mantissa_bits f) m) i"
      using mantissa
      by (cases "i < 23") (auto simp: w e m fp_mantissa_def f32_format_def bit_simps)
  qed
qed

lemma unshift:
  assumes "take_bit k x = x" "a + k \<le> 32"
  shows "drop_bit a (push_bit a x) = (x :: u32)"
proof (rule bit_word_eqI)
  fix i assume "i < LENGTH(32)"
  have "bit x i \<Longrightarrow> i < k" using assms(1) by (metis bit_take_bit_iff)
  then show "bit (drop_bit a (push_bit a x)) i = bit x i"
    using assms(2) by (auto simp: bit_simps)
qed

lemma exp_field:
  "take_bit (exp_bits f) (fp_exp f w) = fp_exp f w"
  "drop_bit (mantissa_bits f) (push_bit (mantissa_bits f) (fp_exp f w)) = fp_exp f w"
  "push_bit (mantissa_bits f) (fp_exp f w) = 0 \<longleftrightarrow> fp_exp f w = 0"
  "push_bit (mantissa_bits f) (fp_exp f w) = fp_exp_mask f \<longleftrightarrow> fp_exp f w = mask (exp_bits f)"
proof -
  have s: "mantissa_bits f + exp_bits f \<le> 32" using mantissa exp by linarith
  show t: "take_bit (exp_bits f) (fp_exp f w) = fp_exp f w" by (simp add: fp_exp_def)
  show u: "drop_bit (mantissa_bits f) (push_bit (mantissa_bits f) (fp_exp f w)) = fp_exp f w"
    by (rule unshift [OF t s])
  show "push_bit (mantissa_bits f) (fp_exp f w) = 0 \<longleftrightarrow> fp_exp f w = 0" using u by auto
  have "drop_bit (mantissa_bits f) (push_bit (mantissa_bits f) (mask (exp_bits f) :: u32)) =
      mask (exp_bits f)"
    by (rule unshift [OF _ s]) (simp add: take_bit_of_mask)
  then show "push_bit (mantissa_bits f) (fp_exp f w) = fp_exp_mask f \<longleftrightarrow>
      fp_exp f w = mask (exp_bits f)"
    unfolding fp_masks using u by auto
qed

lemma exp_less: "uint (fp_exp f w) < 2 ^ exp_bits f"
  using exp by (simp add: fp_exp_def uint_take_bit_word_less)

lemma uint_exp_mask: "uint (mask (exp_bits f) :: u32) = 2 ^ exp_bits f - 1"
proof -
  have "uint (mask (exp_bits f) :: u32) = mask (exp_bits f)"
    by (rule bit_eqI) (use exp in \<open>auto simp: bit_simps\<close>)
  then show ?thesis by (simp add: mask_eq_exp_minus_1)
qed

lemma make_f32_normal:
  assumes "fp_exp f w \<noteq> 0" "fp_exp f w \<noteq> mask (exp_bits f)"
  defines "e \<equiv> uint (fp_exp f w) + 2 ^ 7 - 2 ^ (exp_bits f - 1)"
  shows "iree_math_make_f32_from_bits w f h =
      Inr (push_bit 31 (fp_sign f w) OR push_bit 23 (word_of_int e) OR
           push_bit (23 - mantissa_bits f) (fp_mantissa f w))"
    and "0 < e" "e < 255"
proof -
  have h: "(2 :: int) ^ (exp_bits f - 1) \<le> 2 ^ 7" using exp by (intro power_increasing) auto
  moreover have "0 < uint (fp_exp f w)" using assms(1) by (simp add: order_less_le word_uint_eq_iff)
  ultimately show pos: "0 < e" unfolding e_def by linarith
  have "uint (fp_exp f w) \<noteq> 2 ^ exp_bits f - 1"
    using assms(2) uint_exp_mask by (simp add: word_uint_eq_iff)
  moreover have "(2 :: int) ^ exp_bits f = 2 * 2 ^ (exp_bits f - 1)"
    using exp by (simp flip: power_Suc)
  ultimately show "e < 255" unfolding e_def using h exp_less [of w] by simp
  have "push_bit (31 - fp_sign_shift f) (push_bit (fp_sign_shift f) (fp_sign f w)) =
      push_bit 31 (fp_sign f w)"
    using mantissa exp by (simp add: fp_sign_shift_def)
  then show "iree_math_make_f32_from_bits w f h =
      Inr (push_bit 31 (fp_sign f w) OR push_bit 23 (word_of_int e) OR
           push_bit (23 - mantissa_bits f) (fp_mantissa f w))"
    using assms(1,2) pos
    unfolding iree_math_make_f32_from_bits_def Let_def fp_fields exp_field e_def
    by (simp add: c_shl_int_def push_bit_eq_mult)
qed

end

interpretation f32: float_format f32_format
  by unfold_locales (simp_all add: f32_format_def)

lemma f32_format_sel [simp]: "exp_bits f32_format = 8" "mantissa_bits f32_format = 23"
  "fp_sign_shift f32_format = 31" "fp_exp_bias f32_format = 127"
  by (simp_all add: f32_format_def fp_sign_shift_def fp_exp_bias_def)

locale narrow_float = float_format +
  assumes narrow: "mantissa_bits f < 23"
begin

text \<open>Adding the rounding bias does not disturb a mantissa that fits.\<close>

lemma rounding_bias:
  assumes "take_bit (mantissa_bits f) m = m" "take_bit (23 - mantissa_bits f) r = r"
  defines "b \<equiv> push_bit (23 - mantissa_bits f) m + r"
  shows "\<not> fp_mantissa_mask f32_format < b" "drop_bit (23 - mantissa_bits f) b = m"
proof -
  have m: "bit m i \<Longrightarrow> i < mantissa_bits f" and r: "bit r i \<Longrightarrow> i < 23 - mantissa_bits f" for i
    using assms(1,2) by (metis bit_take_bit_iff)+
  have "push_bit (23 - mantissa_bits f) m AND r = 0"
    by (rule bit_word_eqI) (auto simp: bit_simps dest: r)
  then have b: "b = push_bit (23 - mantissa_bits f) m OR r"
    unfolding b_def by (rule disjunctive_add_eq_or)
  have "take_bit 23 b = b"
    unfolding b using narrow by (intro bit_word_eqI) (auto simp: bit_simps dest: m r)
  then show "\<not> fp_mantissa_mask f32_format < b"
    by (metis f32_format_sel(2) fp_masks(1) leD word_and_le1 word_and_le2 take_bit_eq_mask)
  show "drop_bit (23 - mantissa_bits f) b = m"
    unfolding b
  proof (rule bit_word_eqI)
    fix i assume "i < LENGTH(32)"
    have "\<not> bit r (23 - mantissa_bits f + i)" using r by force
    then show "bit (drop_bit (23 - mantissa_bits f) (push_bit (23 - mantissa_bits f) m OR r)) i = bit m i"
      using m [of i] narrow \<open>i < LENGTH(32)\<close> by (auto simp: bit_simps)
  qed
qed

text \<open>The two biases, half a unit in the last place and one less, are below that unit.\<close>

lemma bias_fits:
  "take_bit (23 - mantissa_bits f) (drop_bit 1 (push_bit (23 - mantissa_bits f) 1)) =
     (drop_bit 1 (push_bit (23 - mantissa_bits f) 1) :: u32)"
  "take_bit (23 - mantissa_bits f) (drop_bit 1 (push_bit (23 - mantissa_bits f) 1) - 1) =
     (drop_bit 1 (push_bit (23 - mantissa_bits f) 1) - 1 :: u32)"
proof -
  define d where "d = 22 - mantissa_bits f"
  have d: "23 - mantissa_bits f = Suc d" "d < 23" using narrow by (simp_all add: d_def)
  have o: "drop_bit 1 (push_bit (Suc d) 1) = (push_bit d 1 :: u32)"
    using d(2) by (intro bit_word_eqI) (auto simp: bit_simps)
  have o1: "(push_bit d 1 - 1 :: u32) = mask d" by (simp add: mask_eq_exp_minus_1 push_bit_eq_mult)
  show "take_bit (23 - mantissa_bits f) (drop_bit 1 (push_bit (23 - mantissa_bits f) 1)) =
     (drop_bit 1 (push_bit (23 - mantissa_bits f) 1) :: u32)"
    unfolding d o by (rule bit_word_eqI) (auto simp: bit_simps)
  show "take_bit (23 - mantissa_bits f) (drop_bit 1 (push_bit (23 - mantissa_bits f) 1) - 1) =
     (drop_bit 1 (push_bit (23 - mantissa_bits f) 1) - 1 :: u32)"
    unfolding d o o1 by (rule bit_word_eqI) (auto simp: bit_simps)
qed

lemma truncate_normal:
  assumes s: "fp_sign f32_format v = s"
    and e: "uint (fp_exp f32_format v) = x + 2 ^ 7 - 2 ^ (exp_bits f - 1)" "0 < x" "x < 2 ^ exp_bits f - 1"
    and m: "fp_mantissa f32_format v = push_bit (23 - mantissa_bits f) m" "take_bit (mantissa_bits f) m = m"
  shows "iree_math_truncate_f32_to_bits_rounding_to_nearest_even v f h =
      Inr (fp_pack f s (word_of_int x) m)"
proof -
  let ?E = "fp_exp f32_format v" and ?d = "23 - mantissa_bits f"
  let ?H = "2 ^ (exp_bits f - 1) :: int"
  have h: "?H \<le> 2 ^ 7" "2 ^ exp_bits f = 2 * ?H" "2 \<le> ?H"
    using exp power_increasing [of "exp_bits f - 1" 7 "2 :: int"]
      power_increasing [of 1 "exp_bits f - 1" "2 :: int"] by (simp_all flip: power_Suc)
  have E: "0 < uint ?E" "uint ?E < 255" using e h by simp_all
  then have "?E \<noteq> 0" "?E \<noteq> mask 8" using f32.uint_exp_mask by auto
  then have c: "push_bit 23 ?E \<noteq> 0" "push_bit 23 ?E \<noteq> fp_exp_mask f32_format"
    using f32.exp_field(3,4) [of v] by simp_all
  have c': "\<not> fp_exp_mask f32_format \<le> push_bit 23 ?E"
    using c(2) fp_fields(1) [of v f32_format] word_and_le1 by (metis f32_format_sel(2) order_antisym)
  have d: "drop_bit 23 (push_bit 23 ?E) = ?E" using f32.exp_field(2) [of v] by simp
  have a: "uint ?E - 127 = x + 1 - ?H" using e(1) by simp
  have ds: "drop_bit (31 - fp_sign_shift f) (push_bit 31 s) = push_bit (fp_sign_shift f) s"
    using mantissa exp unfolding s [symmetric]
    by (intro bit_word_eqI) (auto simp: fp_sign_def fp_sign_shift_def bit_simps)
  note r = rounding_bias [OF m(2) bias_fits(1)] rounding_bias [OF m(2) bias_fits(2)]
  show ?thesis
    unfolding iree_math_truncate_f32_to_bits_rounding_to_nearest_even_def Let_def fp_fields
      f32_format_sel d a s m(1) ds
    using c' c(1) e h r
    by (simp add: c_shl_int_def fp_exp_bias_def fp_pack_def push_bit_eq_mult)
qed

lemma round_trip_normal:
  assumes w: "take_bit (Suc (fp_sign_shift f)) w = w"
    and n: "fp_exp f w \<noteq> 0" "fp_exp f w \<noteq> mask (exp_bits f)"
    and v: "iree_math_make_f32_from_bits w f h = Inr v"
  shows "iree_math_truncate_f32_to_bits_rounding_to_nearest_even v f h = Inr w"
proof -
  define e where "e = uint (fp_exp f w) + 2 ^ 7 - 2 ^ (exp_bits f - 1)"
  note mk = make_f32_normal [OF n, folded e_def]
  have ve: "v = push_bit 31 (fp_sign f w) OR push_bit 23 (word_of_int e) OR
      push_bit (23 - mantissa_bits f) (fp_mantissa f w)"
    using v mk(1) [of h] by simp
  have ue: "uint (word_of_int e :: u32) = e" using mk(2,3) by (simp add: uint_word_of_int)
  have te: "take_bit 8 (word_of_int e :: u32) = word_of_int e"
    using mk(2,3) by (simp add: word_uint_eq_iff ue unsigned_take_bit_eq take_bit_int_eq_self)
  have tm: "take_bit (mantissa_bits f) (fp_mantissa f w) = fp_mantissa f w"
    by (simp add: fp_mantissa_def)
  note fl = widened_fields [OF te tm fp_sign_def ve]
  have x: "0 < uint (fp_exp f w)" "uint (fp_exp f w) < 2 ^ exp_bits f - 1"
    using n exp_less [of w] uint_exp_mask
    by (auto simp: order_less_le word_uint_eq_iff)
  have "uint (fp_exp f32_format v) = uint (fp_exp f w) + 2 ^ 7 - 2 ^ (exp_bits f - 1)"
    using fl(2) ue by (simp add: e_def)
  from truncate_normal [OF fl(1) this x fl(3) tm]
  show ?thesis by (simp add: pack_fields [OF w])
qed

end

interpretation f16: narrow_float f16_format
  by unfold_locales (simp_all add: f16_format_def)

interpretation bf16: narrow_float bf16_format
  by unfold_locales (simp_all add: bf16_format_def)

interpretation f8e5m2: narrow_float f8e5m2_format
  by unfold_locales (simp_all add: f8e5m2_format_def)

interpretation f8e4m3: narrow_float f8e4m3_format
  by unfold_locales (simp_all add: f8e4m3_format_def)

lemma narrow_format_sel [simp]:
  "exp_bits f16_format = 5" "mantissa_bits f16_format = 10" "fp_sign_shift f16_format = 15"
  "exp_bits bf16_format = 8" "mantissa_bits bf16_format = 7" "fp_sign_shift bf16_format = 15"
  by (simp_all add: f16_format_def bf16_format_def fp_sign_shift_def)

lemma ucast_u16_fits: "take_bit (Suc 15) (ucast (x :: u16) :: u32) = ucast x"
  by (rule bit_word_eqI) (auto simp: bit_simps dest: bit_imp_le_length)

lemma ucast_u16_u32_u16: "ucast (ucast (x :: u16) :: u32) = x"
  by (rule bit_word_eqI) (auto simp: bit_simps)

lemma f16_round_trip_normal:
  assumes "fp_exp f16_format (ucast x) \<noteq> 0" "fp_exp f16_format (ucast x) \<noteq> 31"
    and "iree_math_f16_to_f32 x = Inr v"
  shows "iree_math_f32_to_f16 v = Inr x"
  using f16.round_trip_normal [of "ucast x" True v] assms ucast_u16_fits [of x]
  by (simp add: iree_math_f16_to_f32_def iree_math_f32_to_f16_def mask_eq_exp_minus_1 ucast_u16_u32_u16)

lemma bf16_round_trip_normal:
  assumes "fp_exp bf16_format (ucast x) \<noteq> 0" "fp_exp bf16_format (ucast x) \<noteq> 255"
    and "iree_math_bf16_to_f32 x = Inr v"
  shows "iree_math_f32_to_bf16 v = Inr x"
  using bf16.round_trip_normal [of "ucast x" True v] assms ucast_u16_fits [of x]
  by (simp add: iree_math_bf16_to_f32_def iree_math_f32_to_bf16_def mask_eq_exp_minus_1 ucast_u16_u32_u16)

text \<open>\<open>2 ^ -16\<close> is below the smallest normal \<open>f16\<close> but is not flushed: its exponent is shifted as a negative number.\<close>

lemma f32_to_f16_underflow: "iree_math_f32_to_f16 0x37800000 = Inl BadShift"
  by (simp add: fp_defs)

lemma f32_to_f16_examples:
  "iree_math_f32_to_f16 0x3F800000 = Inr 0x3C00"
  "iree_math_f32_to_f16 0x477FF000 = Inr 0x7C00"
  "iree_math_f32_to_f16 0x7FC00000 = Inr 0x7FFF"
  by (simp_all add: fp_defs)

section \<open>Properties\<close>

text \<open>
  Rounding up to a power of two: for a value from 1 to \<open>2 ^ 31\<close> (\<open>2 ^ 63\<close> in the 64-bit version)
  the result is the least power of two that is not below it; for 0 and for larger values the
  result is 0.
\<close>

theorem round_up_to_pow2_least:
  "(0 < unat n \<and> unat n \<le> 2 ^ 31 \<longrightarrow>
     (\<exists>m. unat (iree_math_round_up_to_pow2_u32 n) = 2 ^ m \<and> unat n \<le> 2 ^ m \<and>
       (\<forall>k. unat n \<le> 2 ^ k \<longrightarrow> m \<le> k))) \<and>
   (0 < unat n' \<and> unat n' \<le> 2 ^ 63 \<longrightarrow>
     (\<exists>m. unat (iree_math_round_up_to_pow2_u64 n') = 2 ^ m \<and> unat n' \<le> 2 ^ m \<and>
       (\<forall>k. unat n' \<le> 2 ^ k \<longrightarrow> m \<le> k))) \<and>
   (n = 0 \<or> 2 ^ 31 < unat n \<longrightarrow> iree_math_round_up_to_pow2_u32 n = 0) \<and>
   (n' = 0 \<or> 2 ^ 63 < unat n' \<longrightarrow> iree_math_round_up_to_pow2_u64 n' = 0)"
proof (intro conjI impI)
  assume "0 < unat n \<and> unat n \<le> 2 ^ 31"
  then show "\<exists>m. unat (iree_math_round_up_to_pow2_u32 n) = 2 ^ m \<and> unat n \<le> 2 ^ m \<and>
      (\<forall>k. unat n \<le> 2 ^ k \<longrightarrow> m \<le> k)"
    using mask_plus_1_least [of "iree_math_round_up_to_pow2_u32 n" n] round_up_smeared_u32 [of n] by simp
next
  assume "0 < unat n' \<and> unat n' \<le> 2 ^ 63"
  then show "\<exists>m. unat (iree_math_round_up_to_pow2_u64 n') = 2 ^ m \<and> unat n' \<le> 2 ^ m \<and>
      (\<forall>k. unat n' \<le> 2 ^ k \<longrightarrow> m \<le> k)"
    using mask_plus_1_least [of "iree_math_round_up_to_pow2_u64 n'" n'] round_up_smeared_u64 [of n'] by simp
next
  assume "n = 0 \<or> 2 ^ 31 < unat n"
  then have "2 ^ 31 \<le> unat (n - 1)" by (rule unat_pred_large) simp
  then show "iree_math_round_up_to_pow2_u32 n = 0"
    using mask_plus_1_wraps [of "iree_math_round_up_to_pow2_u32 n" n] round_up_smeared_u32 [of n] by simp
next
  assume "n' = 0 \<or> 2 ^ 63 < unat n'"
  then have "2 ^ 63 \<le> unat (n' - 1)" by (rule unat_pred_large) simp
  then show "iree_math_round_up_to_pow2_u64 n' = 0"
    using mask_plus_1_wraps [of "iree_math_round_up_to_pow2_u64 n'" n'] round_up_smeared_u64 [of n'] by simp
qed

theorem round_up_to_pow2_least_witness:
  "\<exists>m. unat (iree_math_round_up_to_pow2_u32 37) = 2 ^ m \<and> 37 \<le> (2 :: nat) ^ m \<and> m \<le> 6"
  using round_up_to_pow2_least [where n = 37 and n' = 0] by (auto dest!: spec [of _ 6])

text \<open>
  The portable loop-free count of trailing zeros gives the result of the compiler builtin for
  every non-zero value, in both widths.
\<close>

theorem count_trailing_zeros_portable_correct:
  "(n \<noteq> 0 \<longrightarrow>
     (\<exists>k < 32. iree_math_count_trailing_zeros_u32 n = Inr k \<and> count_trailing_zeros_portable_u32 n = int k)) \<and>
   (n' \<noteq> 0 \<longrightarrow>
     (\<exists>k < 64. iree_math_count_trailing_zeros_u64 n' = Inr k \<and> count_trailing_zeros_portable_u64 n' = int k))"
proof (intro conjI impI)
  assume "n \<noteq> 0"
  then obtain k where k: "k < LENGTH(32)" "bit n k" "\<And>i. i < k \<Longrightarrow> \<not> bit n i"
    by (rule lowest_bit_exists) blast
  then show "\<exists>k < 32. iree_math_count_trailing_zeros_u32 n = Inr k \<and> count_trailing_zeros_portable_u32 n = int k"
    using builtin_ctz_lowest [OF k] portable_ctz_u32 [of k n]
    by (auto simp: iree_math_count_trailing_zeros_u32_def)
next
  assume "n' \<noteq> 0"
  then obtain k where k: "k < LENGTH(64)" "bit n' k" "\<And>i. i < k \<Longrightarrow> \<not> bit n' i"
    by (rule lowest_bit_exists) blast
  then show "\<exists>k < 64. iree_math_count_trailing_zeros_u64 n' = Inr k \<and> count_trailing_zeros_portable_u64 n' = int k"
    using builtin_ctz_lowest [OF k] portable_ctz_u64 [of k n']
    by (auto simp: iree_math_count_trailing_zeros_u64_def)
qed

theorem count_trailing_zeros_portable_correct_witness:
  "\<exists>k < 32. iree_math_count_trailing_zeros_u32 40 = Inr k \<and> count_trailing_zeros_portable_u32 40 = int k"
  using count_trailing_zeros_portable_correct [where n = 40 and n' = 0] by simp

text \<open>
  A normal number of the 16-bit formats is unchanged by widening it to \<open>float\<close> and rounding it
  back: the conversions are defined and inverse there.
\<close>

theorem narrow_float_round_trip:
  "(fp_exp f16_format (ucast x) \<notin> {0, 31} \<longrightarrow>
     (\<exists>v. iree_math_f16_to_f32 x = Inr v \<and> iree_math_f32_to_f16 v = Inr x)) \<and>
   (fp_exp bf16_format (ucast x) \<notin> {0, 255} \<longrightarrow>
     (\<exists>v. iree_math_bf16_to_f32 x = Inr v \<and> iree_math_f32_to_bf16 v = Inr x))"
proof (intro conjI impI)
  assume a: "fp_exp f16_format (ucast x) \<notin> {0, 31}"
  have "\<exists>v. iree_math_f16_to_f32 x = Inr v"
    using f16.make_f32_normal(1) [of "ucast x" True] a
    by (simp add: iree_math_f16_to_f32_def mask_eq_exp_minus_1)
  then show "\<exists>v. iree_math_f16_to_f32 x = Inr v \<and> iree_math_f32_to_f16 v = Inr x"
    using f16_round_trip_normal [of x] a by auto
next
  assume a: "fp_exp bf16_format (ucast x) \<notin> {0, 255}"
  have "\<exists>v. iree_math_bf16_to_f32 x = Inr v"
    using bf16.make_f32_normal(1) [of "ucast x" True] a
    by (simp add: iree_math_bf16_to_f32_def mask_eq_exp_minus_1)
  then show "\<exists>v. iree_math_bf16_to_f32 x = Inr v \<and> iree_math_f32_to_bf16 v = Inr x"
    using bf16_round_trip_normal [of x] a by auto
qed

theorem narrow_float_round_trip_witness:
  "\<exists>v. iree_math_f16_to_f32 0x3C01 = Inr v \<and> iree_math_f32_to_f16 v = Inr 0x3C01"
  using narrow_float_round_trip [of "0x3C01"] by (simp add: fp_exp_def)

end
