(* ===== verification/Iree_Prng.thy ===== *)
theory Iree_Prng
  imports Iree_Math
begin

text \<open>
  \<open>iree/base/internal/prng.h\<close>: the SplitMix64, xoroshiro128 and MiniLcg generators. A generator that
  updates its state through a pointer returns the value and the new state. The vector instructions
  used for MiniLcg on 64-bit ARM are given lane by lane.
\<close>

section \<open>SplitMix64\<close>

type_synonym iree_prng_splitmix64_state_t = u64

definition iree_prng_splitmix64_initialize :: "u64 \<Rightarrow> iree_prng_splitmix64_state_t" where
  "iree_prng_splitmix64_initialize seed = seed"

definition iree_prng_splitmix64_next ::
  "iree_prng_splitmix64_state_t \<Rightarrow> u64 \<times> iree_prng_splitmix64_state_t" where
  "iree_prng_splitmix64_next state =
     (let state = state + 0x9E3779B97F4A7C15;
          z = state;
          z = (z XOR drop_bit 30 z) * 0xBF58476D1CE4E5B9;
          z = (z XOR drop_bit 27 z) * 0x94D049BB133111EB
      in (z XOR drop_bit 31 z, state))"

section \<open>Xoroshiro128\<close>

record iree_prng_xoroshiro128_state_t =
  xo_value0 :: u64
  xo_value1 :: u64

definition iree_prng_xoroshiro128_initialize :: "u64 \<Rightarrow> iree_prng_xoroshiro128_state_t" where
  "iree_prng_xoroshiro128_initialize seed =
     (let (value0, seed) = iree_prng_splitmix64_next seed;
          (value1, seed) = iree_prng_splitmix64_next seed
      in if value0 = 0 \<and> value1 = 0 then \<lparr>xo_value0 = 1, xo_value1 = value1\<rparr>
         else \<lparr>xo_value0 = value0, xo_value1 = value1\<rparr>)"

definition xoroshiro128_update :: "iree_prng_xoroshiro128_state_t \<Rightarrow> iree_prng_xoroshiro128_state_t" where
  "xoroshiro128_update state =
     (let s0 = xo_value0 state; s1 = xo_value1 state; s1 = s1 XOR s0
      in \<lparr>xo_value0 = iree_math_rotl_u64 s0 24 XOR s1 XOR push_bit 16 s1,
          xo_value1 = iree_math_rotl_u64 s1 37\<rparr>)"

definition iree_prng_xoroshiro128plus_next_uint60 ::
  "iree_prng_xoroshiro128_state_t \<Rightarrow> u64 \<times> iree_prng_xoroshiro128_state_t" where
  "iree_prng_xoroshiro128plus_next_uint60 state =
     (xo_value0 state + xo_value1 state, xoroshiro128_update state)"

definition iree_prng_xoroshiro128plus_next_bool ::
  "iree_prng_xoroshiro128_state_t \<Rightarrow> bool \<times> iree_prng_xoroshiro128_state_t" where
  "iree_prng_xoroshiro128plus_next_bool state =
     (let (v, state) = iree_prng_xoroshiro128plus_next_uint60 state
      in (drop_bit (64 - 1) v \<noteq> 0, state))"

definition iree_prng_xoroshiro128plus_next_uint8 ::
  "iree_prng_xoroshiro128_state_t \<Rightarrow> u8 \<times> iree_prng_xoroshiro128_state_t" where
  "iree_prng_xoroshiro128plus_next_uint8 state =
     (let (v, state) = iree_prng_xoroshiro128plus_next_uint60 state
      in (ucast (drop_bit (64 - 8) v), state))"

definition iree_prng_xoroshiro128plus_next_uint32 ::
  "iree_prng_xoroshiro128_state_t \<Rightarrow> u32 \<times> iree_prng_xoroshiro128_state_t" where
  "iree_prng_xoroshiro128plus_next_uint32 state =
     (let (v, state) = iree_prng_xoroshiro128plus_next_uint60 state
      in (ucast (drop_bit (64 - 32) v), state))"

definition iree_prng_xoroshiro128starstar_next_uint64 ::
  "iree_prng_xoroshiro128_state_t \<Rightarrow> u64 \<times> iree_prng_xoroshiro128_state_t" where
  "iree_prng_xoroshiro128starstar_next_uint64 state =
     (iree_math_rotl_u64 (xo_value0 state * 5) 7 * 9, xoroshiro128_update state)"

section \<open>MiniLcg\<close>

record iree_prng_minilcg128_state_t =
  lcg_value :: "u8 list"
  lcg_remaining :: "8 word"

definition IREE_PRNG_MINILCG_INIT_MUL_CONSTANT :: u8 where
  "IREE_PRNG_MINILCG_INIT_MUL_CONSTANT = 13"

definition IREE_PRNG_MINILCG_INIT_ADD_CONSTANT :: u8 where
  "IREE_PRNG_MINILCG_INIT_ADD_CONSTANT = 47"

definition IREE_PRNG_MINILCG_NEXT_MUL_CONSTANT :: u8 where
  "IREE_PRNG_MINILCG_NEXT_MUL_CONSTANT = 37"

definition IREE_PRNG_MINILCG_NEXT_ADD_CONSTANT :: u8 where
  "IREE_PRNG_MINILCG_NEXT_ADD_CONSTANT = 47"

fun minilcg128_fill :: "nat \<Rightarrow> u8 \<Rightarrow> u8 list" where
  "minilcg128_fill 0 value = []"
| "minilcg128_fill (Suc n) value =
     value # minilcg128_fill n (value * IREE_PRNG_MINILCG_INIT_MUL_CONSTANT + IREE_PRNG_MINILCG_INIT_ADD_CONSTANT)"

definition iree_prng_minilcg128_initialize :: "u64 \<Rightarrow> iree_prng_minilcg128_state_t" where
  "iree_prng_minilcg128_initialize seed =
     (let value = ucast ((seed XOR 11400714819323198485) AND 0xFF)
      in \<lparr>lcg_value = minilcg128_fill 16 value, lcg_remaining = 16\<rparr>)"

definition minilcg128_refill :: "u8 list \<Rightarrow> u8 list" where
  "minilcg128_refill value =
     map (\<lambda>v. v * IREE_PRNG_MINILCG_NEXT_MUL_CONSTANT + IREE_PRNG_MINILCG_NEXT_ADD_CONSTANT) value"

text \<open>\<open>vmlaq_u8(a, b, c)\<close> is \<open>a + b * c\<close> in each of the sixteen lanes.\<close>

definition minilcg128_refill_neon :: "u8 list \<Rightarrow> u8 list" where
  "minilcg128_refill_neon value =
     (let kmul = replicate 16 IREE_PRNG_MINILCG_NEXT_MUL_CONSTANT;
          kadd = replicate 16 IREE_PRNG_MINILCG_NEXT_ADD_CONSTANT
      in map2 (+) kadd (map2 (*) kmul value))"

text \<open>The index is computed in \<open>int\<close> from the signed counter.\<close>

definition iree_prng_minilcg128_next_uint8 ::
  "iree_prng_minilcg128_state_t \<Rightarrow> (u8 \<times> iree_prng_minilcg128_state_t) res" where
  "iree_prng_minilcg128_next_uint8 state =
     (let state = state\<lparr>lcg_remaining := lcg_remaining state - 1\<rparr>;
          state = (if sint (lcg_remaining state) < 0
                   then \<lparr>lcg_value = minilcg128_refill (lcg_value state), lcg_remaining = 15\<rparr>
                   else state);
          i = 16 - sint (lcg_remaining state) - 1
      in if 0 \<le> i \<and> i < int (length (lcg_value state))
         then Inr (lcg_value state ! nat i, state) else Inl OutOfBounds)"

section \<open>SplitMix64 visits every value once\<close>

lemma xor_drop_bit_inj:
  fixes z w :: "'a::len word"
  assumes "z XOR drop_bit k z = w XOR drop_bit k w" "0 < k"
  shows "z = w"
proof -
  let ?d = "z XOR w"
  have "bit ?d i = bit (drop_bit k ?d) i" for i
    using arg_cong [OF assms(1), of "\<lambda>x. bit x i"] by (auto simp: bit_xor_iff bit_drop_bit_eq)
  then have "?d = drop_bit k ?d" by (simp add: bit_eq_iff)
  then have "?d = drop_bit (n * k) ?d" for n
    by (induction n) (simp, metis drop_bit_drop_bit mult_Suc)
  then have "bit ?d i = bit ?d (i + LENGTH('a) * k)" for i
    by (metis add.commute bit_drop_bit_eq comp_apply)
  moreover have "\<not> bit ?d (i + LENGTH('a) * k)" for i
    using assms(2) by (metis bit_imp_le_length linorder_not_less mult.right_neutral mult_le_mono2 Suc_leI One_nat_def trans_le_add2)
  ultimately have "?d = 0" by (simp add: bit_eq_iff)
  then show ?thesis by (metis xor.assoc xor.right_neutral xor_self_eq)
qed

lemma mult_unit_inj: "(a :: 'a::len word) * c = b * c \<Longrightarrow> c * c' = 1 \<Longrightarrow> a = b"
  by (metis mult.assoc mult.right_neutral)

lemma splitmix64_next_inj:
  assumes "fst (iree_prng_splitmix64_next a) = fst (iree_prng_splitmix64_next b)"
  shows "a = b"
proof -
  let ?g = "0x9E3779B97F4A7C15 :: u64"
  let ?m1 = "\<lambda>z :: u64. (z XOR drop_bit 30 z) * 0xBF58476D1CE4E5B9"
  let ?m2 = "\<lambda>z :: u64. (z XOR drop_bit 27 z) * 0x94D049BB133111EB"
  have "?m2 (?m1 (a + ?g)) XOR drop_bit 31 (?m2 (?m1 (a + ?g))) =
      ?m2 (?m1 (b + ?g)) XOR drop_bit 31 (?m2 (?m1 (b + ?g)))"
    using assms by (simp add: iree_prng_splitmix64_next_def Let_def)
  then have "?m2 (?m1 (a + ?g)) = ?m2 (?m1 (b + ?g))" by (rule xor_drop_bit_inj) simp
  then have "?m1 (a + ?g) XOR drop_bit 27 (?m1 (a + ?g)) = ?m1 (b + ?g) XOR drop_bit 27 (?m1 (b + ?g))"
    by (rule mult_unit_inj [where c' = "0x319642b2d24d8ec3"]) simp
  then have "?m1 (a + ?g) = ?m1 (b + ?g)" by (rule xor_drop_bit_inj) simp
  then have "(a + ?g) XOR drop_bit 30 (a + ?g) = (b + ?g) XOR drop_bit 30 (b + ?g)"
    by (rule mult_unit_inj [where c' = "0x96de1b173f119089"]) simp
  then have "a + ?g = b + ?g" by (rule xor_drop_bit_inj) simp
  then show ?thesis by simp
qed

definition splitmix64_output :: "u64 \<Rightarrow> nat \<Rightarrow> u64" where
  "splitmix64_output seed n =
     fst (iree_prng_splitmix64_next (((\<lambda>s. snd (iree_prng_splitmix64_next s)) ^^ n)
       (iree_prng_splitmix64_initialize seed)))"

lemma splitmix64_state:
  "((\<lambda>s. snd (iree_prng_splitmix64_next s)) ^^ n) seed = seed + of_nat n * 0x9E3779B97F4A7C15"
  by (induction n) (simp_all add: iree_prng_splitmix64_next_def Let_def algebra_simps)

lemma splitmix64_output_inj: "inj_on (splitmix64_output seed) {..<2 ^ 64}"
proof (rule inj_onI)
  fix n m :: nat
  assume b: "n \<in> {..<2 ^ 64}" "m \<in> {..<2 ^ 64}" and e: "splitmix64_output seed n = splitmix64_output seed m"
  have "of_nat n * 0x9E3779B97F4A7C15 = of_nat m * (0x9E3779B97F4A7C15 :: u64)"
    using splitmix64_next_inj [of "seed + of_nat n * 0x9E3779B97F4A7C15" "seed + of_nat m * 0x9E3779B97F4A7C15"] e
    by (simp add: splitmix64_output_def splitmix64_state iree_prng_splitmix64_initialize_def)
  then have "(of_nat n :: u64) = of_nat m"
    by (rule mult_unit_inj [where c' = "0xf1de83e19937733d"]) simp
  then have "unat (of_nat n :: u64) = unat (of_nat m :: u64)" by simp
  then show "n = m" using b by (simp add: unat_of_nat)
qed

lemma splitmix64_output_bij: "bij_betw (splitmix64_output seed) {..<2 ^ 64} UNIV"
proof -
  have "card (splitmix64_output seed ` {..<2 ^ 64}) = card (UNIV :: u64 set)"
    using card_image [OF splitmix64_output_inj] by (simp add: card_word)
  then have "splitmix64_output seed ` {..<2 ^ 64} = UNIV"
    by (intro card_subset_eq) simp_all
  then show ?thesis using splitmix64_output_inj by (simp add: bij_betw_def)
qed

section \<open>The state of xoroshiro128 is never zero\<close>

definition xo_nonzero :: "iree_prng_xoroshiro128_state_t \<Rightarrow> bool" where
  "xo_nonzero state \<longleftrightarrow> xo_value0 state \<noteq> 0 \<or> xo_value1 state \<noteq> 0"

lemma xoroshiro128_initialize_nonzero: "xo_nonzero (iree_prng_xoroshiro128_initialize seed)"
  by (auto simp: iree_prng_xoroshiro128_initialize_def xo_nonzero_def Let_def case_prod_beta)

lemma rotl_u64_inj: "iree_math_rotl_u64 a c = iree_math_rotl_u64 b c \<Longrightarrow> a = b"
  by (metis rotr_rotl_u64)

lemma rotl_u64_zero: "iree_math_rotl_u64 0 c = 0"
  by (simp add: iree_math_rotl_u64_def Let_def)

lemma xor_right_cancel: "(a :: 'a::len word) XOR c = b XOR c \<Longrightarrow> a = b"
  by (metis xor.assoc xor.right_neutral xor_self_eq)

lemma xoroshiro128_update_inj:
  assumes "xoroshiro128_update a = xoroshiro128_update b"
  shows "a = b"
proof -
  let ?s = "\<lambda>x. xo_value1 x XOR xo_value0 x"
  have u: "xo_value1 (xoroshiro128_update a) = xo_value1 (xoroshiro128_update b)"
    "xo_value0 (xoroshiro128_update a) = xo_value0 (xoroshiro128_update b)"
    using assms by simp_all
  have s: "?s a = ?s b"
    by (rule rotl_u64_inj [of _ 37]) (use u(1) in \<open>simp add: xoroshiro128_update_def Let_def\<close>)
  have "iree_math_rotl_u64 (xo_value0 a) 24 XOR ?s a XOR push_bit 16 (?s a) =
      iree_math_rotl_u64 (xo_value0 b) 24 XOR ?s a XOR push_bit 16 (?s a)"
    using u(2) by (simp only: xoroshiro128_update_def Let_def iree_prng_xoroshiro128_state_t.simps s)
  then have v0: "xo_value0 a = xo_value0 b"
    using xor_right_cancel rotl_u64_inj by blast
  then have "xo_value1 a = xo_value1 b" using s xor_right_cancel [of "xo_value1 a" "xo_value0 a"] by simp
  then show ?thesis using v0 by simp
qed

lemma xoroshiro128_update_nonzero: "xo_nonzero s \<Longrightarrow> xo_nonzero (xoroshiro128_update s)"
proof -
  have "xoroshiro128_update \<lparr>xo_value0 = 0, xo_value1 = 0\<rparr> = \<lparr>xo_value0 = 0, xo_value1 = 0\<rparr>"
    by (simp add: xoroshiro128_update_def rotl_u64_zero)
  then show "xo_nonzero s \<Longrightarrow> xo_nonzero (xoroshiro128_update s)"
    using xoroshiro128_update_inj [of s "\<lparr>xo_value0 = 0, xo_value1 = 0\<rparr>"]
    by (auto simp: xo_nonzero_def intro!: iree_prng_xoroshiro128_state_t.equality)
qed

section \<open>MiniLcg reads inside its block\<close>

definition lcg_ok :: "iree_prng_minilcg128_state_t \<Rightarrow> bool" where
  "lcg_ok state \<longleftrightarrow> length (lcg_value state) = 16 \<and> unat (lcg_remaining state) \<le> 16"

lemma length_minilcg128_fill [simp]: "length (minilcg128_fill n v) = n"
  by (induction n arbitrary: v) simp_all

lemma minilcg128_initialize_ok: "lcg_ok (iree_prng_minilcg128_initialize seed)"
  by (simp add: iree_prng_minilcg128_initialize_def lcg_ok_def Let_def)

lemma minilcg128_refill_neon_eq:
  "length value = 16 \<Longrightarrow> minilcg128_refill_neon value = minilcg128_refill value"
  by (rule nth_equalityI) (simp_all add: minilcg128_refill_neon_def minilcg128_refill_def Let_def algebra_simps)

lemma minilcg128_next_refill:
  assumes "lcg_ok s" "lcg_remaining s = 0"
  shows "iree_prng_minilcg128_next_uint8 s =
    Inr (minilcg128_refill (lcg_value s) ! 0, \<lparr>lcg_value = minilcg128_refill (lcg_value s), lcg_remaining = 15\<rparr>)"
  using assms by (simp add: iree_prng_minilcg128_next_uint8_def Let_def lcg_ok_def minilcg128_refill_def)

lemma minilcg128_next_value:
  assumes "lcg_ok s" "lcg_remaining s = of_nat (Suc r)" "r < 16"
  shows "iree_prng_minilcg128_next_uint8 s =
    Inr (lcg_value s ! (15 - r), s\<lparr>lcg_remaining := of_nat r\<rparr>)"
proof -
  have "lcg_remaining s - 1 = of_nat r" using assms(2) by simp
  moreover have "sint (of_nat r :: 8 word) = int r"
    using assms(3) by (simp add: signed_of_nat signed_take_bit_int_eq_self)
  moreover have "nat (15 - int r) = 15 - r" by simp
  ultimately show ?thesis
    using assms(1,3) by (simp add: iree_prng_minilcg128_next_uint8_def Let_def lcg_ok_def)
qed

lemma minilcg128_next_ok:
  assumes "lcg_ok s"
  shows "\<exists>v s'. iree_prng_minilcg128_next_uint8 s = Inr (v, s') \<and> lcg_ok s'"
proof (cases "lcg_remaining s = 0")
  case True
  then show ?thesis
    using minilcg128_next_refill [OF assms] assms by (simp add: lcg_ok_def minilcg128_refill_def)
next
  case False
  then obtain r where r: "unat (lcg_remaining s) = Suc r" using not0_implies_Suc unat_eq_zero by blast
  have "lcg_remaining s = of_nat (Suc r)" using r by (metis of_nat_unat ucast_id)
  moreover have "r < 16" using assms r by (simp add: lcg_ok_def)
  ultimately show ?thesis
    using minilcg128_next_value [OF assms] assms by (simp add: lcg_ok_def unat_of_nat)
qed

text \<open>Drawing \<open>n\<close> values.\<close>

fun minilcg128_draw :: "nat \<Rightarrow> iree_prng_minilcg128_state_t \<Rightarrow> u8 list res" where
  "minilcg128_draw 0 state = Inr []"
| "minilcg128_draw (Suc n) state =
     bind_res (iree_prng_minilcg128_next_uint8 state) (\<lambda>(v, state).
     bind_res (minilcg128_draw n state) (\<lambda>vs. Inr (v # vs)))"

lemma minilcg128_draw_ok: "lcg_ok s \<Longrightarrow> \<exists>vs. minilcg128_draw n s = Inr vs \<and> length vs = n"
proof (induction n arbitrary: s)
  case (Suc n)
  then obtain v s' where "iree_prng_minilcg128_next_uint8 s = Inr (v, s')" "lcg_ok s'"
    using minilcg128_next_ok by blast
  then show ?case using Suc.IH [of s'] by auto
qed simp

section \<open>Properties\<close>

text \<open>
  The generators for every seed: over a period of \<open>2 ^ 64\<close> steps SplitMix64 yields every 64-bit
  value exactly once; xoroshiro128 never reaches the all-zero state, from which it could only yield
  zeros; MiniLcg yields any number of values without reading outside its block.
\<close>

theorem generators_sound:
  "bij_betw (splitmix64_output seed) {..<2 ^ 64} UNIV \<and>
   (xoroshiro128_update ^^ n) (iree_prng_xoroshiro128_initialize seed) \<noteq> \<lparr>xo_value0 = 0, xo_value1 = 0\<rparr> \<and>
   (\<exists>vs. minilcg128_draw n (iree_prng_minilcg128_initialize seed) = Inr vs \<and> length vs = n)"
proof -
  have "xo_nonzero ((xoroshiro128_update ^^ n) (iree_prng_xoroshiro128_initialize seed))"
    by (induction n) (simp_all add: xoroshiro128_initialize_nonzero xoroshiro128_update_nonzero)
  then have "(xoroshiro128_update ^^ n) (iree_prng_xoroshiro128_initialize seed) \<noteq> \<lparr>xo_value0 = 0, xo_value1 = 0\<rparr>"
    by (auto simp: xo_nonzero_def)
  then show ?thesis
    using splitmix64_output_bij minilcg128_draw_ok [OF minilcg128_initialize_ok] by blast
qed

end
