(* ===== verification/Intrusive_List.thy ===== *)
theory Intrusive_List
  imports Nx_Prelude
begin

text \<open>
  \<open>iree/hal/drivers/vulkan/util/intrusive_list.h\<close>: a doubly linked list whose links are embedded in
  the elements. The heap maps the address of a link to its two pointers; the list object holds the
  first and last link and a count. Elements are addressed by the pointer to the containing object,
  \<open>kOffset\<close> bytes below the link. Assertions are compiled out, so an operation outside its
  precondition runs as written. The hooks for added and removed items are empty for lists of raw
  pointers. Sorting is in \<open>Intrusive_Sort\<close>.
\<close>

section \<open>Definitions\<close>

record IntrusiveListLink =
  lprev :: ptr
  lnext :: ptr

type_synonym link_heap = "ptr \<rightharpoonup> IntrusiveListLink"

record IntrusiveListBase =
  lhead :: ptr
  ltail :: ptr
  lcount :: u64

record list_state = IntrusiveListBase +
  links :: link_heap

definition LinkToT :: "u64 \<Rightarrow> ptr \<Rightarrow> ptr" where
  "LinkToT kOffset link = (if link \<noteq> nullptr then link - kOffset else nullptr)"

definition TToLink :: "u64 \<Rightarrow> ptr \<Rightarrow> ptr" where
  "TToLink kOffset v = (if v \<noteq> nullptr then v + kOffset else nullptr)"

text \<open>Reading and writing the fields of a link through its pointer.\<close>

definition get_link :: "ptr \<Rightarrow> (list_state, IntrusiveListLink) sm" where
  "get_link l s = (case links s l of None \<Rightarrow> Inl NullDeref | Some k \<Rightarrow> Inr (k, s))"

definition set_next :: "ptr \<Rightarrow> ptr \<Rightarrow> (list_state, unit) sm" where
  "set_next l v = bind_sm (get_link l) (\<lambda>k. modify_sm (\<lambda>s. s\<lparr>links := (links s)(l \<mapsto> k\<lparr>lnext := v\<rparr>)\<rparr>))"

definition set_prev :: "ptr \<Rightarrow> ptr \<Rightarrow> (list_state, unit) sm" where
  "set_prev l v = bind_sm (get_link l) (\<lambda>k. modify_sm (\<lambda>s. s\<lparr>links := (links s)(l \<mapsto> k\<lparr>lprev := v\<rparr>)\<rparr>))"

definition when_sm :: "bool \<Rightarrow> ('s, unit) sm \<Rightarrow> ('s, unit) sm" where
  "when_sm b m = (if b then m else ret_sm ())"

definition list_empty :: "'a IntrusiveListBase_scheme \<Rightarrow> bool" where
  "list_empty s \<longleftrightarrow> lhead s = nullptr"




definition next_item :: "u64 \<Rightarrow> ptr \<Rightarrow> (list_state, ptr) sm" where
  "next_item kOffset v =
     (if v = nullptr then ret_sm nullptr
      else bind_sm (get_link (TToLink kOffset v)) (\<lambda>k. ret_sm (LinkToT kOffset (lnext k))))"

definition previous_item :: "u64 \<Rightarrow> ptr \<Rightarrow> (list_state, ptr) sm" where
  "previous_item kOffset v =
     (if v = nullptr then ret_sm nullptr
      else bind_sm (get_link (TToLink kOffset v)) (\<lambda>k. ret_sm (LinkToT kOffset (lprev k))))"










text \<open>Merging takes the other list object and gives it back emptied; both use the same links.\<close>

definition merge_from :: "IntrusiveListBase \<Rightarrow> (list_state, IntrusiveListBase) sm" where
  "merge_from other_list =
     bind_sm (gets_sm ltail) (\<lambda>t.
     bind_sm (when_sm (t \<noteq> nullptr) (set_next t (lhead other_list))) (\<lambda>_.
     bind_sm (when_sm (lhead other_list \<noteq> nullptr) (set_prev (lhead other_list) t)) (\<lambda>_.
     bind_sm (modify_sm (\<lambda>s. s\<lparr>lhead := (if lhead s = nullptr then lhead other_list else lhead s),
       ltail := ltail other_list, lcount := lcount s + lcount other_list\<rparr>)) (\<lambda>_.
     ret_sm \<lparr>lhead = nullptr, ltail = nullptr, lcount = 0\<rparr>))))"

fun clear_loop :: "nat \<Rightarrow> ptr \<Rightarrow> (list_state, unit) sm" where
  "clear_loop 0 link = fail_sm Diverges"
| "clear_loop (Suc n) link =
     (if link = nullptr then ret_sm ()
      else bind_sm (get_link link) (\<lambda>k.
           bind_sm (set_next link nullptr) (\<lambda>_.
           bind_sm (set_prev link nullptr) (\<lambda>_. clear_loop n (lnext k)))))"

definition clear :: "nat \<Rightarrow> (list_state, unit) sm" where
  "clear fuel =
     bind_sm (gets_sm lhead) (\<lambda>h. bind_sm (clear_loop fuel h) (\<lambda>_.
     modify_sm (\<lambda>s. s\<lparr>lhead := nullptr, ltail := nullptr, lcount := 0\<rparr>)))"

text \<open>Iterators, forward and backward.\<close>

definition iterator_next :: "bool \<Rightarrow> ptr \<Rightarrow> (list_state, ptr) sm" where
  "iterator_next kForward current =
     (if current = nullptr then ret_sm nullptr
      else bind_sm (get_link current) (\<lambda>k. ret_sm (if kForward then lnext k else lprev k)))"

definition iterator_prev :: "bool \<Rightarrow> ptr \<Rightarrow> (list_state, ptr) sm" where
  "iterator_prev kForward current =
     (if current = nullptr then ret_sm nullptr
      else bind_sm (get_link current) (\<lambda>k. ret_sm (if kForward then lprev k else lnext k)))"

section \<open>The list a state represents\<close>

abbreviation (input) first_link :: "ptr list \<Rightarrow> ptr \<Rightarrow> ptr" where
  "first_link xs q \<equiv> (if xs = [] then q else hd xs)"

abbreviation (input) last_link :: "ptr list \<Rightarrow> ptr \<Rightarrow> ptr" where
  "last_link xs p \<equiv> (if xs = [] then p else last xs)"

text \<open>The links \<open>xs\<close> are chained in both directions, between \<open>p\<close> before and \<open>q\<close> after them.\<close>

fun chain :: "link_heap \<Rightarrow> ptr \<Rightarrow> ptr list \<Rightarrow> ptr \<Rightarrow> bool" where
  "chain h p [] q \<longleftrightarrow> True"
| "chain h p (x # xs) q \<longleftrightarrow> h x = Some \<lparr>lprev = p, lnext = first_link xs q\<rparr> \<and> chain h x xs q"

lemma chain_append:
  "chain h p (xs @ ys) q \<longleftrightarrow> chain h p xs (first_link ys q) \<and> chain h (last_link xs p) ys q"
  by (induction xs arbitrary: p) auto

lemma chain_frame: "x \<notin> set xs \<Longrightarrow> chain (h(x \<mapsto> k)) p xs q = chain h p xs q"
  by (induction xs arbitrary: p) auto

lemma chain_dom: "chain h p xs q \<Longrightarrow> x \<in> set xs \<Longrightarrow> x \<in> dom h"
  by (induction xs arbitrary: p) auto

lemma chain_set_prev:
  "chain h p (x # xs) q \<Longrightarrow> x \<notin> set xs \<Longrightarrow> h x = Some k \<Longrightarrow> chain (h(x \<mapsto> k\<lparr>lprev := p'\<rparr>)) p' (x # xs) q"
  by (auto simp: chain_frame)

lemma chain_set_next:
  assumes "chain h p (xs @ [x]) q" "x \<notin> set xs" "h x = Some k"
  shows "chain (h(x \<mapsto> k\<lparr>lnext := q'\<rparr>)) p (xs @ [x]) q'"
  using assms by (auto simp: chain_append chain_frame)

text \<open>
  A state represents the list \<open>xs\<close> of links when they are chained from \<open>nullptr\<close> to \<open>nullptr\<close>, the list
  object points to the first and the last one and counts them, and every other link is unused.
\<close>

definition represents :: "list_state \<Rightarrow> ptr list \<Rightarrow> bool" where
  "represents s xs \<longleftrightarrow>
     chain (links s) nullptr xs nullptr \<and> distinct xs \<and>
     lhead s = first_link xs nullptr \<and> ltail s = last_link xs nullptr \<and>
     lcount s = of_nat (length xs) \<and> links s nullptr = None \<and>
     (\<forall>l. l \<notin> set xs \<longrightarrow> links s l \<in> {None, Some \<lparr>lprev = nullptr, lnext = nullptr\<rparr>})"

lemmas link_ops = get_link_def set_next_def set_prev_def when_sm_def bind_sm_def

lemma represents_not_null: "represents s xs \<Longrightarrow> nullptr \<notin> set xs"
  unfolding represents_def using chain_dom by fastforce



lemma represents_last: "represents s xs \<Longrightarrow> xs \<noteq> [] \<Longrightarrow> last xs \<noteq> nullptr \<and> hd xs \<noteq> nullptr"
  using represents_not_null last_in_set hd_in_set by metis

section \<open>Operations on the represented list\<close>










lemma clear_loop_chain:
  assumes "chain (links s) p xs nullptr" "nullptr \<notin> set xs" "distinct xs" "length xs < n"
  shows "\<exists>h. clear_loop n (first_link xs nullptr) s = Inr ((), s\<lparr>links := h\<rparr>) \<and>
    (\<forall>l. h l = (if l \<in> set xs then Some \<lparr>lprev = nullptr, lnext = nullptr\<rparr> else links s l))"
  using assms
proof (induction n arbitrary: p xs s)
  case 0
  then show ?case by simp
next
  case (Suc n)
  show ?case
  proof (cases xs)
    case Nil
    then show ?thesis by (auto intro!: exI [of _ "links s"])
  next
    case (Cons x ys)
    let ?s = "s\<lparr>links := (links s)(x \<mapsto> \<lparr>lprev = nullptr, lnext = nullptr\<rparr>)\<rparr>"
    have "chain (links ?s) x ys nullptr" using Suc.prems by (simp add: Cons chain_frame)
    from Suc.IH [OF this] obtain h where
      "clear_loop n (first_link ys nullptr) ?s = Inr ((), ?s\<lparr>links := h\<rparr>)"
      "\<forall>l. h l = (if l \<in> set ys then Some \<lparr>lprev = nullptr, lnext = nullptr\<rparr> else links ?s l)"
      using Suc.prems by (auto simp: Cons)
    then show ?thesis
      using Suc.prems by (auto simp: Cons link_ops intro!: exI [of _ h])
  qed
qed

lemma clear_represents:
  assumes r: "represents s xs" and "length xs < fuel"
  shows "\<exists>s'. clear fuel s = Inr ((), s') \<and> represents s' []"
proof -
  obtain h where h: "clear_loop fuel (first_link xs nullptr) s = Inr ((), s\<lparr>links := h\<rparr>)"
    "\<forall>l. h l = (if l \<in> set xs then Some \<lparr>lprev = nullptr, lnext = nullptr\<rparr> else links s l)"
    using clear_loop_chain [of s nullptr xs fuel] r represents_not_null [OF r] assms(2)
    by (auto simp: represents_def)
  then show ?thesis
    using r represents_not_null [OF r] by (auto simp: clear_def represents_def bind_sm_def)
qed

section \<open>Merging\<close>

text \<open>Merging a list that is not empty appends it.\<close>

lemma merge_from_appends:
  assumes c: "chain (links s) nullptr xs nullptr" "lhead s = first_link xs nullptr"
      "ltail s = last_link xs nullptr" "lcount s = of_nat (length xs)"
    and o: "chain (links s) nullptr ys nullptr" "ys \<noteq> []" "distinct (xs @ ys)" "nullptr \<notin> set (xs @ ys)"
  shows "\<exists>s'. merge_from \<lparr>lhead = hd ys, ltail = last ys, lcount = of_nat (length ys)\<rparr> s =
      Inr (\<lparr>lhead = nullptr, ltail = nullptr, lcount = 0\<rparr>, s') \<and>
    chain (links s') nullptr (xs @ ys) nullptr \<and> lhead s' = hd (xs @ ys) \<and>
    ltail s' = last (xs @ ys) \<and> lcount s' = of_nat (length (xs @ ys))"
proof -
  obtain y ys' where ys: "ys = y # ys'" using o(2) by (cases ys) auto
  show ?thesis
  proof (cases xs rule: rev_cases)
    case Nil
    then show ?thesis using c o by (auto simp: merge_from_def link_ops ys chain_frame)
  next
    case (snoc xs' x)
    have "hd (xs' @ [x]) \<noteq> nullptr" using o(4) hd_in_set [of "xs' @ [x]"] by (auto simp: snoc)
    then show ?thesis
      using c o by (auto simp: merge_from_def link_ops ys snoc chain_append chain_frame hd_append)
  qed
qed

text \<open>Merging an empty list into one that is not empty loses the pointer to the last link.\<close>

lemma merge_from_empty:
  assumes "represents s xs" "xs \<noteq> []"
  shows "\<exists>s'. merge_from \<lparr>lhead = nullptr, ltail = nullptr, lcount = 0\<rparr> s =
      Inr (\<lparr>lhead = nullptr, ltail = nullptr, lcount = 0\<rparr>, s') \<and>
    lhead s' = hd xs \<and> ltail s' = nullptr \<and> (\<nexists>ys. represents s' ys)"
proof -
  obtain ys x where xs: "xs = ys @ [x]" using assms(2) by (cases xs rule: rev_cases) auto
  have nn: "hd xs \<noteq> nullptr" "x \<noteq> nullptr" using represents_last [OF assms] by (simp_all add: xs)
  have "\<exists>s'. merge_from \<lparr>lhead = nullptr, ltail = nullptr, lcount = 0\<rparr> s =
      Inr (\<lparr>lhead = nullptr, ltail = nullptr, lcount = 0\<rparr>, s') \<and> lhead s' = hd xs \<and> ltail s' = nullptr"
    using assms nn by (auto simp: merge_from_def link_ops xs represents_def chain_append)
  moreover have "\<not> represents s' zs" if "lhead s' = hd xs" "ltail s' = nullptr" for s' zs
  proof
    assume z: "represents s' zs"
    then have "zs \<noteq> []" using that(1) nn(1) by (auto simp: represents_def)
    then show False using z that(2) represents_last [OF z] by (simp add: represents_def)
  qed
  ultimately show ?thesis by blast
qed

section \<open>Refinement of sequences\<close>

























section \<open>Properties\<close>



end
