(* ===== verification/Intrusive_Sort.thy ===== *)
theory Intrusive_Sort
  imports Intrusive_List "HOL-Library.Multiset"
begin

text \<open>
  \<open>IntrusiveListBase::sort\<close>, the bottom-up merge sort of \<open>intrusive_list.h\<close>, which rearranges the
  links in place. Runs of \<open>in_size\<close> elements are merged pairwise in one pass over the list, and passes
  are repeated with doubled runs until a pass needs a single merge. The comparison function is a
  parameter. The counters are \<open>int\<close>: \<open>merge_count\<close> and \<open>in_size\<close> overflow above \<open>INT_MAX\<close>; the sizes
  of the two runs stay between 0 and \<open>in_size\<close>. The two outer loops follow pointers and take fuel.
\<close>

section \<open>Definitions\<close>

text \<open>The size of the first run and the start of the second, with \<open>in_size - i\<close> steps left.\<close>

fun split_loop :: "nat \<Rightarrow> ptr \<Rightarrow> nat \<Rightarrow> (list_state, nat \<times> ptr) sm" where
  "split_loop 0 q p_size = ret_sm (p_size, q)"
| "split_loop (Suc i) q p_size =
     bind_sm (get_link q) (\<lambda>k.
     if lnext k = nullptr then ret_sm (p_size + 1, lnext k)
     else split_loop i (lnext k) (p_size + 1))"

definition append_merged :: "ptr \<Rightarrow> ptr \<Rightarrow> (list_state, unit) sm" where
  "append_merged e tail =
     bind_sm (if tail \<noteq> nullptr then set_next tail e else modify_sm (\<lambda>s. s\<lparr>lhead := e\<rparr>)) (\<lambda>_.
     set_prev e tail)"

text \<open>
  One iteration takes the next element from the first or the second run; the result is the start
  of what follows the second run and the last element merged.
\<close>

function merge_loop ::
  "(ptr \<Rightarrow> ptr \<Rightarrow> bool) \<Rightarrow> u64 \<Rightarrow> ptr \<Rightarrow> nat \<Rightarrow> ptr \<Rightarrow> nat \<Rightarrow> ptr \<Rightarrow> (list_state, ptr \<times> ptr) sm" where
  "merge_loop compare_fn kOffset p p_size q q_size tail =
     (if p_size > 0 \<or> (q_size > 0 \<and> q \<noteq> nullptr)
      then if p_size = 0
           then bind_sm (get_link q) (\<lambda>k. bind_sm (append_merged q tail) (\<lambda>_.
                merge_loop compare_fn kOffset p p_size (lnext k) (q_size - 1) q))
           else if q_size = 0 \<or> q = nullptr
           then bind_sm (get_link p) (\<lambda>k. bind_sm (append_merged p tail) (\<lambda>_.
                merge_loop compare_fn kOffset (lnext k) (p_size - 1) q q_size p))
           else if compare_fn (LinkToT kOffset p) (LinkToT kOffset q)
           then bind_sm (get_link p) (\<lambda>k. bind_sm (append_merged p tail) (\<lambda>_.
                merge_loop compare_fn kOffset (lnext k) (p_size - 1) q q_size p))
           else bind_sm (get_link q) (\<lambda>k. bind_sm (append_merged q tail) (\<lambda>_.
                merge_loop compare_fn kOffset p p_size (lnext k) (q_size - 1) q))
      else ret_sm (q, tail))"
  by pat_completeness auto
termination
  by (relation "measure (\<lambda>(_, _, _, p_size, _, q_size, _). p_size + q_size)") auto

declare merge_loop.simps [simp del]

fun merge_runs ::
  "nat \<Rightarrow> (ptr \<Rightarrow> ptr \<Rightarrow> bool) \<Rightarrow> u64 \<Rightarrow> nat \<Rightarrow> ptr \<Rightarrow> ptr \<Rightarrow> nat \<Rightarrow> (list_state, ptr \<times> nat) sm" where
  "merge_runs 0 compare_fn kOffset in_size p tail merge_count = fail_sm Diverges"
| "merge_runs (Suc n) compare_fn kOffset in_size p tail merge_count =
     (if merge_count + 1 < 2 ^ 31
      then bind_sm (split_loop in_size p 0) (\<lambda>(p_size, q).
           bind_sm (merge_loop compare_fn kOffset p p_size q in_size tail) (\<lambda>(q, tail).
           if q \<noteq> nullptr then merge_runs n compare_fn kOffset in_size q tail (merge_count + 1)
           else ret_sm (tail, merge_count + 1)))
      else fail_sm SignedOverflow)"

fun sort_loop ::
  "nat \<Rightarrow> nat \<Rightarrow> (ptr \<Rightarrow> ptr \<Rightarrow> bool) \<Rightarrow> u64 \<Rightarrow> nat \<Rightarrow> (list_state, unit) sm" where
  "sort_loop 0 fuel compare_fn kOffset in_size = fail_sm Diverges"
| "sort_loop (Suc n) fuel compare_fn kOffset in_size =
     bind_sm (gets_sm lhead) (\<lambda>p.
     bind_sm (modify_sm (\<lambda>s. s\<lparr>lhead := nullptr, ltail := nullptr\<rparr>)) (\<lambda>_.
     bind_sm (merge_runs fuel compare_fn kOffset in_size p nullptr 0) (\<lambda>(tail, merge_count).
     bind_sm (set_next tail nullptr) (\<lambda>_.
     if merge_count \<le> 1 then modify_sm (\<lambda>s. s\<lparr>ltail := tail\<rparr>)
     else if in_size * 2 < 2 ^ 31 then sort_loop n fuel compare_fn kOffset (in_size * 2)
     else fail_sm SignedOverflow))))"

definition list_sort :: "nat \<Rightarrow> u64 \<Rightarrow> (ptr \<Rightarrow> ptr \<Rightarrow> bool) \<Rightarrow> (list_state, unit) sm" where
  "list_sort fuel kOffset compare_fn =
     bind_sm (gets_sm list_empty) (\<lambda>e.
     if e then ret_sm () else sort_loop fuel fuel compare_fn kOffset 1)"

declare sort_loop.simps [simp del]

section \<open>The algorithm on lists\<close>

fun merge_by :: "('a \<Rightarrow> 'a \<Rightarrow> bool) \<Rightarrow> 'a list \<Rightarrow> 'a list \<Rightarrow> 'a list" where
  "merge_by cmp [] ys = ys"
| "merge_by cmp xs [] = xs"
| "merge_by cmp (x # xs) (y # ys) =
     (if cmp x y then x # merge_by cmp xs (y # ys) else y # merge_by cmp (x # xs) ys)"

function merge_pass :: "('a \<Rightarrow> 'a \<Rightarrow> bool) \<Rightarrow> nat \<Rightarrow> 'a list \<Rightarrow> 'a list" where
  "merge_pass cmp k xs =
     (if k = 0 \<or> xs = [] then xs
      else merge_by cmp (take k xs) (take k (drop k xs)) @ merge_pass cmp k (drop (2 * k) xs))"
  by pat_completeness auto
termination
  by (relation "measure (\<lambda>(_, _, xs). length xs)") auto

declare merge_pass.simps [simp del]

lemma merge_by_Nil2 [simp]: "merge_by cmp xs [] = xs"
  by (cases xs) simp_all

lemma mset_merge_by [simp]: "mset (merge_by cmp xs ys) = mset xs + mset ys"
  by (induction cmp xs ys rule: merge_by.induct) simp_all

lemma set_merge_by [simp]: "set (merge_by cmp xs ys) = set xs \<union> set ys"
  by (metis mset_merge_by set_mset_mset set_mset_union)

lemma length_merge_by [simp]: "length (merge_by cmp xs ys) = length xs + length ys"
  by (metis mset_merge_by size_mset size_union)

lemma take_drop_take: "take k xs @ take k (drop k xs) @ drop (2 * k) xs = xs"
  by (metis append_take_drop_id drop_drop mult_2)

lemma mset_merge_pass [simp]: "mset (merge_pass cmp k xs) = mset xs"
proof (induction cmp k xs rule: merge_pass.induct)
  case (1 cmp k xs)
  show ?case
  proof (cases "k = 0 \<or> xs = []")
    case False
    then have "mset (merge_pass cmp k xs) = mset (take k xs @ take k (drop k xs) @ drop (2 * k) xs)"
      by (subst merge_pass.simps) (simp add: 1)
    then show ?thesis by (simp add: take_drop_take)
  qed (simp add: merge_pass.simps)
qed

lemma length_merge_pass [simp]: "length (merge_pass cmp k xs) = length xs"
  using mset_merge_pass [of cmp k xs] by (metis size_mset)

text \<open>
  What the comparison function decides: an order \<open>le\<close> that both of its answers respect. A reflexive
  comparison is its own order; for a strict one, as \<open>std::sort\<close> takes, it is the negated converse.
\<close>

definition compares :: "('a \<Rightarrow> 'a \<Rightarrow> bool) \<Rightarrow> ('a \<Rightarrow> 'a \<Rightarrow> bool) \<Rightarrow> bool" where
  "compares cmp le \<longleftrightarrow> (\<forall>a b. (cmp a b \<longrightarrow> le a b) \<and> (\<not> cmp a b \<longrightarrow> le b a)) \<and> transp le"

lemma sorted_merge_by:
  assumes "compares cmp le" "sorted_wrt le xs" "sorted_wrt le ys"
  shows "sorted_wrt le (merge_by cmp xs ys)"
  using assms
proof (induction cmp xs ys rule: merge_by.induct)
  case (3 cmp x xs y ys)
  have tr: "le a b \<Longrightarrow> le b c \<Longrightarrow> le a c" for a b c
    using "3.prems"(1) by (auto simp: compares_def dest: transpD)
  have "cmp x y \<Longrightarrow> le x y" "\<not> cmp x y \<Longrightarrow> le y x"
    using "3.prems"(1) by (auto simp: compares_def)
  then show ?case
    using "3.IH" "3.prems" by (auto intro: tr)
qed simp_all

definition sorted_runs :: "('a \<Rightarrow> 'a \<Rightarrow> bool) \<Rightarrow> nat \<Rightarrow> 'a list \<Rightarrow> bool" where
  "sorted_runs le k xs \<longleftrightarrow> (\<forall>i. sorted_wrt le (take k (drop (i * k) xs)))"

lemma sorted_runs_one [simp]: "sorted_runs le 1 xs"
proof -
  have "sorted_wrt le (take 1 ys)" for ys :: "'a list" by (cases ys) simp_all
  then show ?thesis by (simp add: sorted_runs_def)
qed

lemma sorted_runs_drop: "sorted_runs le k xs \<Longrightarrow> sorted_runs le k (drop (j * k) xs)"
  unfolding sorted_runs_def by (metis drop_drop distrib_right)

lemma sorted_merge_pass:
  assumes "compares cmp le" "sorted_runs le k xs" "k > 0"
  shows "sorted_runs le (2 * k) (merge_pass cmp k xs)"
  using assms
proof (induction cmp k xs rule: merge_pass.induct)
  case (1 cmp k xs)
  show ?case
  proof (cases "xs = []")
    case True
    then show ?thesis by (simp add: merge_pass.simps sorted_runs_def)
  next
    case False
    let ?m = "merge_by cmp (take k xs) (take k (drop k xs))"
    let ?r = "merge_pass cmp k (drop (2 * k) xs)"
    have r: "sorted_runs le (2 * k) ?r"
      using 1 False sorted_runs_drop [of le k xs 2] by simp
    have "sorted_wrt le (take k xs)" "sorted_wrt le (take k (drop k xs))"
      using "1.prems"(2) spec [of "\<lambda>i. sorted_wrt le (take k (drop (i * k) xs))" 0]
        spec [of "\<lambda>i. sorted_wrt le (take k (drop (i * k) xs))" 1]
      by (simp_all add: sorted_runs_def)
    then have m: "sorted_wrt le ?m" using sorted_merge_by "1.prems"(1) by blast
    have len: "length ?m = min (2 * k) (length xs)" by simp
    have e: "merge_pass cmp k xs = ?m @ ?r"
      using False "1.prems"(3) by (simp add: merge_pass.simps [of cmp k xs])
    have "sorted_wrt le (take (2 * k) (drop (i * (2 * k)) (?m @ ?r)))" for i
    proof (cases "length xs < 2 * k")
      case True
      then have "?r = []" by (simp add: merge_pass.simps)
      then show ?thesis using m sorted_wrt_take sorted_wrt_drop by auto
    next
      case False
      then have len: "length ?m = 2 * k" using len by simp
      show ?thesis
      proof (cases i)
        case 0
        then show ?thesis using m len by simp
      next
        case (Suc j)
        have "drop (i * (2 * k)) (?m @ ?r) = drop (j * (2 * k)) ?r"
          using len Suc by simp
        then show ?thesis using r by (simp only: sorted_runs_def)
      qed
    qed
    then show ?thesis by (simp add: e sorted_runs_def)
  qed
qed

section \<open>The algorithm on links\<close>

text \<open>A path of \<open>next\<close> pointers through \<open>xs\<close> to \<open>q\<close>; the \<open>prev\<close> pointers do not matter.\<close>

fun npath :: "link_heap \<Rightarrow> ptr list \<Rightarrow> ptr \<Rightarrow> bool" where
  "npath h [] q \<longleftrightarrow> True"
| "npath h (x # xs) q \<longleftrightarrow> (\<exists>k. h x = Some k \<and> lnext k = first_link xs q) \<and> npath h xs q"

lemma npath_cong: "(\<And>x. x \<in> set xs \<Longrightarrow> h' x = h x) \<Longrightarrow> npath h' xs q = npath h xs q"
  by (induction xs) auto

lemma npath_append: "npath h (xs @ ys) q \<longleftrightarrow> npath h xs (first_link ys q) \<and> npath h ys q"
  by (induction xs) auto

lemma npath_dom: "npath h xs q \<Longrightarrow> x \<in> set xs \<Longrightarrow> h x \<noteq> None"
  by (induction xs) auto

lemma npath_no_null: "npath h xs q \<Longrightarrow> h x = None \<Longrightarrow> x \<notin> set xs"
  using npath_dom by blast

lemma npath_drop: "npath h xs q \<Longrightarrow> npath h (drop n xs) q"
  by (metis append_take_drop_id npath_append)

lemma chain_npath: "chain h p xs q \<Longrightarrow> npath h xs q"
  by (induction xs arbitrary: p) auto

lemma chain_cong: "(\<And>x. x \<in> set xs \<Longrightarrow> h' x = h x) \<Longrightarrow> chain h' p xs q = chain h p xs q"
  by (induction xs arbitrary: p) auto

lemma split_loop_eq:
  assumes "npath (links s) xs nullptr" "links s nullptr = None" "xs \<noteq> []"
  shows "split_loop i (hd xs) c s = Inr ((c + min i (length xs), first_link (drop i xs) nullptr), s)"
  using assms
proof (induction i arbitrary: xs c)
  case (Suc i)
  then obtain x ys k where xs: "xs = x # ys" "links s x = Some k" "lnext k = first_link ys nullptr"
    by (cases xs) auto
  have "hd ys \<noteq> nullptr" if "ys \<noteq> []"
    using Suc.prems npath_dom [of "links s" ys nullptr "hd ys"] that xs by auto
  then show ?case
    using Suc xs by (auto simp: bind_sm_def get_link_def)
qed simp

text \<open>
  The state of a pass: the links \<open>ms\<close> are merged, except that the last one still has its old
  successor; \<open>ps\<close> is what is left of the first run and \<open>qs\<close> the links from the second run on.
\<close>

definition merging :: "list_state \<Rightarrow> ptr list \<Rightarrow> ptr list \<Rightarrow> ptr list \<Rightarrow> bool" where
  "merging s ms ps qs \<longleftrightarrow>
     (\<exists>x. chain (links s) nullptr ms x) \<and> lhead s = first_link ms nullptr \<and>
     (\<exists>r. npath (links s) ps r) \<and> npath (links s) qs nullptr \<and>
     distinct (ms @ ps @ qs) \<and> links s nullptr = None"

definition same_outside :: "ptr set \<Rightarrow> list_state \<Rightarrow> list_state \<Rightarrow> bool" where
  "same_outside A s s' \<longleftrightarrow>
     (\<forall>l. l \<notin> A \<longrightarrow> links s' l = links s l) \<and> lcount s' = lcount s \<and> ltail s' = ltail s"

lemma same_outside_refl [simp]: "same_outside A s s"
  by (simp add: same_outside_def)

lemma same_outside_trans:
  "same_outside A s s' \<Longrightarrow> same_outside B s' s'' \<Longrightarrow> A \<subseteq> C \<Longrightarrow> B \<subseteq> C \<Longrightarrow> same_outside C s s''"
  unfolding same_outside_def by (metis subsetD)

lemma merging_not_null: "merging s ms ps qs \<Longrightarrow> nullptr \<notin> set (ms @ ps @ qs)"
  unfolding merging_def by (auto dest: npath_no_null dest!: chain_npath)

lemma append_merged_chain:
  assumes "chain (links s) nullptr ms x" "distinct ms" "e \<notin> set ms" "links s e = Some k"
    "lhead s = first_link ms nullptr" "nullptr \<notin> set ms"
  shows "\<exists>s'. append_merged e (last_link ms nullptr) s = Inr ((), s') \<and>
    chain (links s') nullptr (ms @ [e]) (lnext k) \<and> lhead s' = hd (ms @ [e]) \<and>
    same_outside (set (ms @ [e])) s s'"
proof (cases ms rule: rev_cases)
  case Nil
  then show ?thesis
    using assms by (simp add: append_merged_def link_ops same_outside_def)
next
  case (snoc ns m)
  then obtain j where j: "links s m = Some j" "m \<noteq> nullptr" "m \<noteq> e" "m \<notin> set ns" "e \<notin> set ns"
    using assms by (auto simp: chain_append)
  let ?s = "s\<lparr>links := (links s)(m \<mapsto> j\<lparr>lnext := e\<rparr>, e \<mapsto> k\<lparr>lprev := m\<rparr>)\<rparr>"
  have "append_merged e (last_link ms nullptr) s = Inr ((), ?s)"
    using j assms(4) by (simp add: append_merged_def link_ops snoc)
  moreover have "chain (links ?s) nullptr (ms @ [e]) (lnext k)"
    using assms(1) j by (simp add: snoc chain_append chain_frame)
  moreover have "lhead ?s = hd (ms @ [e])"
    using assms(5) snoc by (simp add: hd_append)
  ultimately show ?thesis
    by (auto simp: same_outside_def snoc intro!: exI [of _ ?s])
qed

text \<open>Taking the next element from either run.\<close>

lemma take_next:
  assumes "merging s ms ps qs" "e # rest = ps \<and> ps' = rest \<and> qs' = qs \<or> e # rest = qs \<and> qs' = rest \<and> ps' = ps"
  shows "\<exists>k s'. links s e = Some k \<and> (rest \<noteq> [] \<or> e # rest = qs \<longrightarrow> lnext k = first_link rest nullptr) \<and>
    append_merged e (last_link ms nullptr) s = Inr ((), s') \<and> merging s' (ms @ [e]) ps' qs' \<and>
    same_outside (set (ms @ [e])) s s'"
proof -
  obtain k where k: "links s e = Some k" "rest \<noteq> [] \<or> e # rest = qs \<longrightarrow> lnext k = first_link rest nullptr"
    using assms by (fastforce simp: merging_def)
  have e: "e \<notin> set ms" "set (ms @ [e]) \<inter> set (ps' @ qs') = {}" "distinct ((ms @ [e]) @ ps' @ qs')"
    "e \<noteq> nullptr"
    using assms merging_not_null [OF assms(1)] by (auto simp: merging_def)
  obtain x where "chain (links s) nullptr ms x" using assms(1) by (auto simp: merging_def)
  then obtain s' where s': "append_merged e (last_link ms nullptr) s = Inr ((), s')"
    "chain (links s') nullptr (ms @ [e]) (lnext k)" "lhead s' = hd (ms @ [e])"
    "same_outside (set (ms @ [e])) s s'"
    using append_merged_chain [of s ms x e k] assms(1) e(1) k(1) merging_not_null [OF assms(1)]
    by (auto simp: merging_def)
  have "npath (links s') zs r = npath (links s) zs r" if "set zs \<subseteq> set (ps' @ qs')" for zs r
  proof (rule npath_cong)
    fix l assume "l \<in> set zs"
    then have "l \<notin> set (ms @ [e])" using that e(2) by blast
    then show "links s' l = links s l" using s'(4) by (simp add: same_outside_def)
  qed
  moreover have "\<exists>r. npath (links s) ps' r" "npath (links s) qs' nullptr"
    using assms by (auto simp: merging_def)
  moreover have "links s' nullptr = None"
    using s'(4) e(4) assms(1) merging_not_null [OF assms(1)] by (auto simp: same_outside_def merging_def)
  ultimately have "merging s' (ms @ [e]) ps' qs'"
    using s'(2,3) e(3) by (auto simp: merging_def)
  then show ?thesis using k s' by blast
qed

abbreviation (input) link_cmp :: "(ptr \<Rightarrow> ptr \<Rightarrow> bool) \<Rightarrow> u64 \<Rightarrow> ptr \<Rightarrow> ptr \<Rightarrow> bool" where
  "link_cmp cmp off a b \<equiv> cmp (LinkToT off a) (LinkToT off b)"

lemma merge_loop_correct:
  assumes "merging s ms ps qs" "ps \<noteq> [] \<longrightarrow> p = hd ps"
  shows "\<exists>s' ns. ns = ms @ merge_by (link_cmp cmp off) ps (take n qs) \<and>
    merge_loop cmp off p (length ps) (first_link qs nullptr) n (last_link ms nullptr) s =
      Inr ((first_link (drop n qs) nullptr, last_link ns nullptr), s') \<and>
    merging s' ns [] (drop n qs) \<and> same_outside (set ns) s s'"
  using assms
proof (induction "length ps + n" arbitrary: s ms ps qs n p rule: less_induct)
  case less
  have from_p: ?case if ps: "ps = x # xs" and
    m: "merge_by (link_cmp cmp off) ps (take n qs) = x # merge_by (link_cmp cmp off) xs (take n qs)" and
    c: "n = 0 \<or> qs = [] \<or> link_cmp cmp off x (hd qs)" for x xs
  proof -
    obtain k s1 where k: "links s x = Some k" "xs \<noteq> [] \<longrightarrow> lnext k = hd xs"
      and s1: "append_merged x (last_link ms nullptr) s = Inr ((), s1)" "merging s1 (ms @ [x]) xs qs"
        "same_outside (set (ms @ [x])) s s1"
      using take_next [OF less.prems(1), of x xs xs qs] ps by auto
    obtain s' where s': "merge_loop cmp off (lnext k) (length xs) (first_link qs nullptr) n x s1 =
        Inr ((first_link (drop n qs) nullptr,
          last_link (ms @ x # merge_by (link_cmp cmp off) xs (take n qs)) nullptr), s')"
      "merging s' (ms @ x # merge_by (link_cmp cmp off) xs (take n qs)) [] (drop n qs)"
      "same_outside (set (ms @ x # merge_by (link_cmp cmp off) xs (take n qs))) s1 s'"
      using less.hyps [of xs n s1 "ms @ [x]" qs "lnext k"] s1(2) k(2) ps by auto
    have "merge_loop cmp off p (length ps) (first_link qs nullptr) n (last_link ms nullptr) s =
        merge_loop cmp off (lnext k) (length xs) (first_link qs nullptr) n x s1"
      using k(1) s1(1) c less.prems(2) ps
      by (subst merge_loop.simps) (auto simp: bind_sm_def get_link_def)
    moreover have "same_outside (set (ms @ x # merge_by (link_cmp cmp off) xs (take n qs))) s s'"
      by (rule same_outside_trans [OF s1(3) s'(3)]) auto
    ultimately show ?thesis
      using s'(1,2) by (simp only: m) blast
  qed
  have from_q: ?case if qs: "qs = y # ys" and n: "n = Suc j" and
    m: "merge_by (link_cmp cmp off) ps (take n qs) = y # merge_by (link_cmp cmp off) ps (take j ys)" and
    c: "ps = [] \<or> \<not> link_cmp cmp off (hd ps) y" for y ys j
  proof -
    have y: "y \<noteq> nullptr" using merging_not_null [OF less.prems(1)] qs by auto
    obtain k s1 where k: "links s y = Some k" "lnext k = first_link ys nullptr"
      and s1: "append_merged y (last_link ms nullptr) s = Inr ((), s1)" "merging s1 (ms @ [y]) ps ys"
        "same_outside (set (ms @ [y])) s s1"
      using take_next [OF less.prems(1), of y ys ps ys] qs by auto
    obtain s' where s': "merge_loop cmp off p (length ps) (first_link ys nullptr) j y s1 =
        Inr ((first_link (drop j ys) nullptr,
          last_link (ms @ y # merge_by (link_cmp cmp off) ps (take j ys)) nullptr), s')"
      "merging s' (ms @ y # merge_by (link_cmp cmp off) ps (take j ys)) [] (drop j ys)"
      "same_outside (set (ms @ y # merge_by (link_cmp cmp off) ps (take j ys))) s1 s'"
      using less.hyps [of ps j s1 "ms @ [y]" ys p] s1(2) less.prems(2) n by auto
    have "merge_loop cmp off p (length ps) (first_link qs nullptr) n (last_link ms nullptr) s =
        merge_loop cmp off p (length ps) (first_link ys nullptr) j y s1"
      using k s1(1) c less.prems(2) qs n y
      by (subst merge_loop.simps) (auto simp: bind_sm_def get_link_def)
    moreover have "same_outside (set (ms @ y # merge_by (link_cmp cmp off) ps (take j ys))) s s'"
      by (rule same_outside_trans [OF s1(3) s'(3)]) auto
    moreover have "drop n qs = drop j ys" using qs n by simp
    ultimately show ?thesis
      using s'(1,2) by (simp only: m) blast
  qed
  show ?case
  proof (cases ps)
    case Nil
    show ?thesis
    proof (cases "n = 0 \<or> qs = []")
      case True
      then show ?thesis
        using less.prems(1) Nil by (auto simp: merge_loop.simps intro!: exI [of _ s])
    next
      case False
      then obtain y ys j where "qs = y # ys" "n = Suc j" by (metis neq_Nil_conv not0_implies_Suc)
      then show ?thesis using from_q Nil by simp
    qed
  next
    case (Cons x xs)
    show ?thesis
    proof (cases "n = 0 \<or> qs = []")
      case True
      then show ?thesis using from_p [OF Cons] Cons by auto
    next
      case False
      then obtain y ys j where "qs = y # ys" "n = Suc j" by (metis neq_Nil_conv not0_implies_Suc)
      then show ?thesis using from_p [OF Cons] from_q Cons by (cases "link_cmp cmp off x y") auto
    qed
  qed
qed

lemma merging_split: "merging s ms [] xs \<Longrightarrow> merging s ms (take k xs) (drop k xs)"
  unfolding merging_def by (metis append_Nil append_take_drop_id npath_append)

lemma merge_runs_correct:
  assumes "merging s ms [] xs" "xs \<noteq> []" "length xs \<le> n" "k > 0" "mc + length xs < 2 ^ 31"
  shows "\<exists>s' ns c. ns = ms @ merge_pass (link_cmp cmp off) k xs \<and>
    merge_runs n cmp off k (hd xs) (last_link ms nullptr) mc s = Inr ((last_link ns nullptr, mc + c), s') \<and>
    1 \<le> c \<and> (c \<le> 1 \<longleftrightarrow> length xs \<le> 2 * k) \<and> merging s' ns [] [] \<and> same_outside (set ns) s s'"
  using assms
proof (induction n arbitrary: s ms xs mc)
  case (Suc n)
  let ?c = "link_cmp cmp off" and ?ys = "drop (2 * k) xs"
  let ?m = "ms @ merge_by ?c (take k xs) (take k (drop k xs))"
  have e: "ms @ merge_pass ?c k xs = ?m @ merge_pass ?c k ?ys"
    using Suc.prems by (simp add: merge_pass.simps [of ?c k xs])
  have hd: "hd (take k xs) = hd xs" "take k xs \<noteq> []" using Suc.prems by auto
  have mc: "mc + 1 < 2 ^ 31" using Suc.prems(2,5) by (cases xs) auto
  have split: "split_loop k (hd xs) 0 s = Inr ((length (take k xs), first_link (drop k xs) nullptr), s)"
    using split_loop_eq [of s xs k 0] Suc.prems by (simp add: merging_def min.commute)
  obtain s1 where s1: "merge_loop cmp off (hd xs) (length (take k xs)) (first_link (drop k xs) nullptr) k
      (last_link ms nullptr) s = Inr ((first_link ?ys nullptr, last_link ?m nullptr), s1)"
    "merging s1 ?m [] ?ys" "same_outside (set ?m) s s1"
    using merge_loop_correct [OF merging_split [OF Suc.prems(1), of k], of "hd xs" cmp off k] hd
    by (auto simp: mult_2)
  have run: "merge_runs (Suc n) cmp off k (hd xs) (last_link ms nullptr) mc s =
      (if first_link ?ys nullptr \<noteq> nullptr
       then merge_runs n cmp off k (first_link ?ys nullptr) (last_link ?m nullptr) (mc + 1) s1
       else Inr ((last_link ?m nullptr, mc + 1), s1))"
    by (simp only: merge_runs.simps mc if_True case_prod_conv
        bind_sm_Inr [where m = "split_loop k (hd xs) 0" and s = s, OF split]
        bind_sm_Inr [where m = "merge_loop cmp off (hd xs) (length (take k xs))
          (first_link (drop k xs) nullptr) k (last_link ms nullptr)" and s = s, OF s1(1)]) simp
  show ?case
  proof (cases "?ys = []")
    case True
    then have "ms @ merge_pass ?c k xs = ?m" using e by (simp add: merge_pass.simps)
    then show ?thesis using run s1 True by (auto intro!: exI [of _ s1])
  next
    case False
    then have y: "hd ?ys \<noteq> nullptr" "length ?ys \<le> n" "mc + 1 + length ?ys < 2 ^ 31"
      using merging_not_null [OF s1(2)] hd_in_set [of ?ys] Suc.prems(3-5) by force+
    obtain s' c where s': "merge_runs n cmp off k (hd ?ys) (last_link ?m nullptr) (mc + 1) s1 =
        Inr ((last_link (?m @ merge_pass ?c k ?ys) nullptr, mc + 1 + c), s')" "1 \<le> c"
      "merging s' (?m @ merge_pass ?c k ?ys) [] []" "same_outside (set (?m @ merge_pass ?c k ?ys)) s1 s'"
      using Suc.IH [OF s1(2) False y(2) \<open>k > 0\<close> y(3)] by blast
    have "same_outside (set (?m @ merge_pass ?c k ?ys)) s s'"
      by (rule same_outside_trans [OF s1(3) s'(4)]) auto
    moreover have "merge_runs (Suc n) cmp off k (hd xs) (last_link ms nullptr) mc s =
        Inr ((last_link (?m @ merge_pass ?c k ?ys) nullptr, mc + (1 + c)), s')"
      using run s'(1) False y(1) by simp
    moreover have "1 \<le> 1 + c" "1 + c \<le> 1 \<longleftrightarrow> length xs \<le> 2 * k" using s'(2) False by auto
    ultimately show ?thesis using s'(3) unfolding e by blast
  qed
qed simp

text \<open>Between passes everything but the pointer to the last link is as in a represented list.\<close>

definition threaded :: "list_state \<Rightarrow> ptr list \<Rightarrow> bool" where
  "threaded s xs \<longleftrightarrow>
     chain (links s) nullptr xs nullptr \<and> distinct xs \<and> lhead s = first_link xs nullptr \<and>
     lcount s = of_nat (length xs) \<and> links s nullptr = None \<and>
     (\<forall>l. l \<notin> set xs \<longrightarrow> links s l \<in> {None, Some \<lparr>lprev = nullptr, lnext = nullptr\<rparr>})"

lemma represents_threaded: "represents s xs \<longleftrightarrow> threaded s xs \<and> ltail s = last_link xs nullptr"
  by (auto simp: represents_def threaded_def)

text \<open>One pass, up to the test whether it was the last.\<close>

lemma pass_correct:
  assumes "threaded s xs" "xs \<noteq> []" "length xs \<le> fuel" "k > 0" "length xs < 2 ^ 31"
  shows "\<exists>s1 s2 c. merge_runs fuel cmp off k (lhead s) nullptr 0 (s\<lparr>lhead := nullptr, ltail := nullptr\<rparr>) =
      Inr ((last (merge_pass (link_cmp cmp off) k xs), c), s1) \<and>
    set_next (last (merge_pass (link_cmp cmp off) k xs)) nullptr s1 = Inr ((), s2) \<and>
    (c \<le> 1 \<longleftrightarrow> length xs \<le> 2 * k) \<and> threaded s2 (merge_pass (link_cmp cmp off) k xs)"
proof -
  let ?ys = "merge_pass (link_cmp cmp off) k xs"
  let ?s = "s\<lparr>lhead := nullptr, ltail := nullptr\<rparr>"
  have "merging ?s [] [] xs"
    using assms(1) chain_npath by (auto simp: merging_def threaded_def)
  then obtain s1 c where s1: "merge_runs fuel cmp off k (hd xs) nullptr 0 ?s = Inr ((last_link ?ys nullptr, c), s1)"
    "c \<le> 1 \<longleftrightarrow> length xs \<le> 2 * k" "merging s1 ?ys [] []" "same_outside (set ?ys) ?s s1"
    using merge_runs_correct [of ?s "[]" xs fuel k 0 cmp off] assms(2-5) by auto
  have ys: "?ys \<noteq> []" "set ?ys = set xs" "length ?ys = length xs"
    using assms(2) mset_merge_pass [of "link_cmp cmp off" k xs]
    by (metis length_0_conv length_merge_pass, metis set_mset_mset, simp)
  obtain x where x: "chain (links s1) nullptr ?ys x" "distinct ?ys" using s1(3) by (auto simp: merging_def)
  obtain ns e where ns: "?ys = ns @ [e]" using ys(1) by (metis rev_exhaust)
  then obtain j where j: "links s1 e = Some j" "e \<notin> set ns" using x by (auto simp: chain_append)
  let ?s2 = "s1\<lparr>links := (links s1)(e \<mapsto> j\<lparr>lnext := nullptr\<rparr>)\<rparr>"
  have "set_next e nullptr s1 = Inr ((), ?s2)" using j by (simp add: link_ops)
  moreover have "chain (links ?s2) nullptr ?ys nullptr"
    using chain_set_next [of "links s1" nullptr ns e x j nullptr] x(1) j ns by simp
  moreover have "links ?s2 l = links s l" if "l \<notin> set xs" for l
    using that s1(4) ys(2) ns by (auto simp: same_outside_def)
  ultimately have "threaded ?s2 ?ys"
    using assms(1) s1(3,4) x(2) ys ns merging_not_null [OF s1(3)]
    by (auto simp: threaded_def merging_def same_outside_def)
  moreover have "lhead s = hd xs" using assms(1,2) by (simp add: threaded_def)
  ultimately show ?thesis
    using s1(1,2) \<open>set_next e nullptr s1 = Inr ((), ?s2)\<close> ns ys(1) by auto
qed

lemma sort_loop_correct:
  assumes "threaded s xs" "xs \<noteq> []" "length xs \<le> fuel" "length xs < 2 ^ 31" "k > 0"
    "length xs \<le> 2 * k + n" "sorted_runs le k xs" and cmp: "compares (link_cmp cmp off) le"
  shows "\<exists>s' ys. sort_loop (Suc n) fuel cmp off k s = Inr ((), s') \<and> represents s' ys \<and>
    mset ys = mset xs \<and> sorted_wrt le ys"
  using assms(1-7)
proof (induction "length xs - 2 * k" arbitrary: s xs k n rule: less_induct)
  case less
  let ?ys = "merge_pass (link_cmp cmp off) k xs"
  obtain s1 s2 c where p: "merge_runs fuel cmp off k (lhead s) nullptr 0 (s\<lparr>lhead := nullptr, ltail := nullptr\<rparr>) =
      Inr ((last ?ys, c), s1)" "set_next (last ?ys) nullptr s1 = Inr ((), s2)"
    "c \<le> 1 \<longleftrightarrow> length xs \<le> 2 * k" "threaded s2 ?ys"
    using pass_correct [OF less.prems(1-3,5,4)] by blast
  have ys: "?ys \<noteq> []" "length ?ys = length xs"
    using less.prems(2) by (metis length_0_conv length_merge_pass) simp
  have runs: "sorted_runs le (2 * k) ?ys"
    using sorted_merge_pass [OF cmp less.prems(7,5)] .
  have run: "sort_loop (Suc n) fuel cmp off k s =
      (if c \<le> 1 then Inr ((), s2\<lparr>ltail := last ?ys\<rparr>)
       else if k * 2 < 2 ^ 31 then sort_loop n fuel cmp off (k * 2) s2 else Inl SignedOverflow)"
    using p(1,2) by (simp add: bind_sm_def sort_loop.simps)
  show ?case
  proof (cases "length xs \<le> 2 * k")
    case True
    then have "sorted_wrt le ?ys"
      using runs spec [of "\<lambda>i. sorted_wrt le (take (2 * k) (drop (i * (2 * k)) ?ys))" 0]
      by (simp add: sorted_runs_def)
    moreover have "represents (s2\<lparr>ltail := last ?ys\<rparr>) ?ys"
      using p(4) ys(1) by (simp add: represents_threaded threaded_def)
    ultimately show ?thesis using run p(3) True by auto
  next
    case False
    then obtain m where n: "n = Suc m" "length xs \<le> 2 * (2 * k) + m"
      using less.prems(5,6) by (cases n) auto
    have dec: "length ?ys - 2 * (2 * k) < length xs - 2 * k" "2 * k > 0"
      using ys(2) False less.prems(5) by auto
    obtain s' zs where s': "sort_loop n fuel cmp off (2 * k) s2 = Inr ((), s')" "represents s' zs"
      "mset zs = mset ?ys" "sorted_wrt le zs"
      using less.hyps [OF dec(1) p(4) ys(1) _ _ dec(2) _ runs, of m] less.prems(3,4) n ys(2) by auto
    have c: "\<not> c \<le> 1" "k * 2 < 2 ^ 31" using p(3) False less.prems(4) by auto
    have "sort_loop (Suc n) fuel cmp off k s = Inr ((), s')"
      using s'(1) c by (simp only: run if_False if_True mult.commute [of k])
    then show ?thesis using s'(2-4) mset_merge_pass by metis
  qed
qed

lemma list_sort_represents:
  assumes "represents s xs" "length xs \<le> fuel" "0 < fuel" "length xs < 2 ^ 31"
    and cmp: "compares (link_cmp cmp off) le"
  shows "\<exists>s' ys. list_sort fuel off cmp s = Inr ((), s') \<and> represents s' ys \<and>
    mset ys = mset xs \<and> sorted_wrt le ys"
proof (cases "xs = []")
  case True
  then show ?thesis
    using assms(1) by (auto simp: list_sort_def list_empty_def represents_def)
next
  case False
  obtain m where m: "fuel = Suc m" using assms(3) by (cases fuel) auto
  have ne: "\<not> list_empty s"
    using assms(1) False represents_last [OF assms(1)] by (simp add: list_empty_def represents_def)
  have th: "threaded s xs" using assms(1) by (simp add: represents_threaded)
  have "list_sort fuel off cmp s = sort_loop (Suc m) fuel cmp off 1 s"
    using ne by (simp only: list_sort_def sm_simps if_False m)
  then show ?thesis
    using sort_loop_correct [OF th False assms(2,4) _ _ sorted_runs_one cmp, of m] assms(2) m
    by simp
qed

text \<open>
  C23. Sorting an intrusive list ends, and leaves a well-formed list of the same elements in the order
  of the comparison function, for a reflexive comparison as well as for a strict one.
\<close>

theorem sort_correct:
  assumes "represents s xs" "length xs < 2 ^ 31" "length xs < fuel" "compares compare_fn le"
  shows "\<exists>s' ys. list_sort fuel kOffset compare_fn s = Inr ((), s') \<and> represents s' ys \<and>
    mset ys = mset xs \<and> sorted_wrt le (map (LinkToT kOffset) ys)"
proof -
  let ?le = "\<lambda>a b. le (LinkToT kOffset a) (LinkToT kOffset b)"
  have "compares (link_cmp compare_fn kOffset) ?le"
    using assms(4) by (auto simp: compares_def transp_def)
  then show ?thesis
    using list_sort_represents [of s xs fuel compare_fn kOffset ?le] assms(1-3)
    by (auto simp: sorted_wrt_map)
qed

theorem sort_correct_witness:
  "\<exists>s' ys. list_sort 4 8 (<)
      \<lparr>lhead = 40, ltail = 24, lcount = 3, links = (\<lambda>_. None)(40 \<mapsto> \<lparr>lprev = 0, lnext = 56\<rparr>,
        56 \<mapsto> \<lparr>lprev = 40, lnext = 24\<rparr>, 24 \<mapsto> \<lparr>lprev = 56, lnext = 0\<rparr>)\<rparr> = Inr ((), s') \<and>
    represents s' ys \<and> mset ys = mset [40, 56, 24] \<and> sorted_wrt (\<le>) (map (LinkToT 8) ys)"
proof (rule sort_correct)
  show "compares ((<) :: ptr \<Rightarrow> ptr \<Rightarrow> bool) (\<le>)"
    by (auto simp: compares_def)
qed (simp_all add: represents_def)

end
