(* ===== verification/Ref_Ptr.thy ===== *)
theory Ref_Ptr
  imports Nx_Prelude
begin

text \<open>
  \<open>iree/hal/drivers/vulkan/util/ref_ptr.h\<close>: the intrusive reference-counted pointer and the base class
  of reference-counted objects. \<open>ref_ptr\<close> is a template over the type of object, of which it uses
  \<open>ref_ptr_add_ref\<close> and \<open>ref_ptr_release_ref\<close>: its operations take these two as arguments, and a locale
  states what they promise. \<open>RefObject\<close> provides them with a 32-bit atomic counter embedded in the
  object. The variables of type \<open>ref_ptr\<close> are numbered in the order of their construction; a
  destructed one is \<open>None\<close>. Logging in verbose builds is not modelled.
\<close>

section \<open>RefObject\<close>

text \<open>
  The counters of the live objects, and the log of the objects deleted. An atomic counter wraps
  around without undefined behaviour.
\<close>

record ref_objects =
  counters :: "ptr \<rightharpoonup> 32 word"
  deleted :: "ptr list"

definition ref_ptr_add_ref :: "ptr \<Rightarrow> (ref_objects, unit) sm" where
  "ref_ptr_add_ref p s =
     (case counters s p of
        None \<Rightarrow> Inl UseAfterFree
      | Some c \<Rightarrow> Inr ((), s\<lparr>counters := (counters s)(p \<mapsto> c + 1)\<rparr>))"

definition ref_ptr_destroy_ref :: "ptr \<Rightarrow> (ref_objects, unit) sm" where
  "ref_ptr_destroy_ref p =
     modify_sm (\<lambda>s. s\<lparr>counters := (counters s)(p := None), deleted := deleted s @ [p]\<rparr>)"

definition delete_thunk_Delete :: "ptr \<Rightarrow> (ref_objects, unit) sm" where
  "delete_thunk_Delete p s =
     (case counters s p of
        None \<Rightarrow> Inl UseAfterFree
      | Some previous_count \<Rightarrow>
          (let s = s\<lparr>counters := (counters s)(p \<mapsto> previous_count - 1)\<rparr>
           in if previous_count = 1 then ref_ptr_destroy_ref p s else Inr ((), s)))"

definition ref_ptr_release_ref :: "ptr \<Rightarrow> (ref_objects, unit) sm" where
  "ref_ptr_release_ref p = delete_thunk_Delete p"

text \<open>Construction at the address \<open>p\<close>: the counter starts at zero and the constructor adds a reference.\<close>

definition RefObject :: "ptr \<Rightarrow> (ref_objects, unit) sm" where
  "RefObject p = bind_sm (modify_sm (\<lambda>s. s\<lparr>counters := (counters s)(p \<mapsto> 0)\<rparr>)) (\<lambda>_. ref_ptr_add_ref p)"

section \<open>ref_ptr\<close>

record 's ref_state =
  objs :: 's
  px :: "ptr option list"

definition on_objs :: "('s, 'a) sm \<Rightarrow> ('s ref_state, 'a) sm" where
  "on_objs m s = (case m (objs s) of Inl e \<Rightarrow> Inl e | Inr (x, o') \<Rightarrow> Inr (x, s\<lparr>objs := o'\<rparr>))"

definition get_px :: "nat \<Rightarrow> ('s ref_state, ptr) sm" where
  "get_px i s =
     (if i < length (px s)
      then case px s ! i of None \<Rightarrow> Inl UseAfterFree | Some p \<Rightarrow> Inr (p, s)
      else Inl OutOfBounds)"

definition set_px :: "nat \<Rightarrow> ptr option \<Rightarrow> ('s ref_state, unit) sm" where
  "set_px i v = modify_sm (\<lambda>s. s\<lparr>px := (px s)[i := v]\<rparr>)"

definition unless_null :: "ptr \<Rightarrow> (ptr \<Rightarrow> ('s, unit) sm) \<Rightarrow> ('s ref_state, unit) sm" where
  "unless_null p m = (if p \<noteq> nullptr then on_objs (m p) else ret_sm ())"

text \<open>Construction from a raw pointer, whose reference the new variable takes over.\<close>

definition ref_ptr_construct :: "ptr \<Rightarrow> ('s ref_state, unit) sm" where
  "ref_ptr_construct p = modify_sm (\<lambda>s. s\<lparr>px := px s @ [Some p]\<rparr>)"

definition ref_ptr_destruct :: "(ptr \<Rightarrow> ('s, unit) sm) \<Rightarrow> nat \<Rightarrow> ('s ref_state, unit) sm" where
  "ref_ptr_destruct release_ref i =
     bind_sm (get_px i) (\<lambda>p. bind_sm (unless_null p release_ref) (\<lambda>_. set_px i None))"

definition ref_ptr_release :: "nat \<Rightarrow> ('s ref_state, ptr) sm" where
  "ref_ptr_release i =
     bind_sm (get_px i) (\<lambda>p. bind_sm (set_px i (Some nullptr)) (\<lambda>_. ret_sm p))"

definition ref_ptr_move_construct :: "nat \<Rightarrow> ('s ref_state, unit) sm" where
  "ref_ptr_move_construct rhs = bind_sm (ref_ptr_release rhs) ref_ptr_construct"

definition ref_ptr_move_assign ::
  "(ptr \<Rightarrow> ('s, unit) sm) \<Rightarrow> nat \<Rightarrow> nat \<Rightarrow> ('s ref_state, unit) sm" where
  "ref_ptr_move_assign release_ref this rhs =
     bind_sm (get_px this) (\<lambda>p. bind_sm (get_px rhs) (\<lambda>q.
     if p \<noteq> q
     then bind_sm (unless_null p release_ref) (\<lambda>_.
          bind_sm (ref_ptr_release rhs) (\<lambda>q. set_px this (Some q)))
     else ret_sm ()))"

definition ref_ptr_reset :: "(ptr \<Rightarrow> ('s, unit) sm) \<Rightarrow> nat \<Rightarrow> ('s ref_state, unit) sm" where
  "ref_ptr_reset release_ref i =
     bind_sm (get_px i) (\<lambda>p.
     if p \<noteq> nullptr
     then bind_sm (on_objs (release_ref p)) (\<lambda>_. set_px i (Some nullptr))
     else ret_sm ())"

definition ref_ptr_assign :: "(ptr \<Rightarrow> ('s, unit) sm) \<Rightarrow> nat \<Rightarrow> ptr \<Rightarrow> ('s ref_state, unit) sm" where
  "ref_ptr_assign release_ref i v =
     bind_sm (ref_ptr_reset release_ref i) (\<lambda>_. set_px i (Some v))"

definition ref_ptr_swap :: "nat \<Rightarrow> nat \<Rightarrow> ('s ref_state, unit) sm" where
  "ref_ptr_swap i j =
     bind_sm (get_px i) (\<lambda>p. bind_sm (get_px j) (\<lambda>q.
     bind_sm (set_px i (Some q)) (\<lambda>_. set_px j (Some p))))"

definition make_ref :: "(ptr \<Rightarrow> ('s, unit) sm) \<Rightarrow> ptr \<Rightarrow> ('s ref_state, unit) sm" where
  "make_ref create p = bind_sm (on_objs (create p)) (\<lambda>_. ref_ptr_construct p)"

definition assign_ref :: "ptr \<Rightarrow> ('s ref_state, unit) sm" where
  "assign_ref value = ref_ptr_construct value"

definition add_ref_raw :: "(ptr \<Rightarrow> ('s, unit) sm) \<Rightarrow> ptr \<Rightarrow> ('s ref_state, unit) sm" where
  "add_ref_raw add_ref value = bind_sm (unless_null value add_ref) (\<lambda>_. ref_ptr_construct value)"

definition add_ref_var :: "(ptr \<Rightarrow> ('s, unit) sm) \<Rightarrow> nat \<Rightarrow> ('s ref_state, unit) sm" where
  "add_ref_var add_ref i =
     bind_sm (get_px i) (\<lambda>p. bind_sm (unless_null p add_ref) (\<lambda>_. ref_ptr_construct p))"

definition ref_ptr_eq :: "nat \<Rightarrow> nat \<Rightarrow> ('s ref_state, bool) sm" where
  "ref_ptr_eq i j = bind_sm (get_px i) (\<lambda>a. bind_sm (get_px j) (\<lambda>b. ret_sm (a = b)))"

definition ref_ptr_less :: "nat \<Rightarrow> nat \<Rightarrow> ('s ref_state, bool) sm" where
  "ref_ptr_less i j = bind_sm (get_px i) (\<lambda>a. bind_sm (get_px j) (\<lambda>b. ret_sm (a < b)))"

text \<open>The operations a program performs; \<open>AddReference\<close> and \<open>ReleaseReference\<close> act on raw pointers.\<close>

datatype ref_op =
    MakeRef ptr
  | AssignRef ptr
  | AddRefRaw ptr
  | AddRefVar nat
  | Destruct nat
  | MoveConstruct nat
  | MoveAssign nat nat
  | Reset nat
  | Release nat
  | Assign nat ptr
  | Swap nat nat
  | AddReference ptr
  | ReleaseReference ptr

fun ref_exec ::
  "(ptr \<Rightarrow> ('s, unit) sm) \<Rightarrow> (ptr \<Rightarrow> ('s, unit) sm) \<Rightarrow> (ptr \<Rightarrow> ('s, unit) sm) \<Rightarrow> ref_op \<Rightarrow>
   ('s ref_state, unit) sm" where
  "ref_exec create add_ref release_ref (MakeRef p) = make_ref create p"
| "ref_exec create add_ref release_ref (AssignRef p) = assign_ref p"
| "ref_exec create add_ref release_ref (AddRefRaw p) = add_ref_raw add_ref p"
| "ref_exec create add_ref release_ref (AddRefVar i) = add_ref_var add_ref i"
| "ref_exec create add_ref release_ref (Destruct i) = ref_ptr_destruct release_ref i"
| "ref_exec create add_ref release_ref (MoveConstruct i) = ref_ptr_move_construct i"
| "ref_exec create add_ref release_ref (MoveAssign i j) = ref_ptr_move_assign release_ref i j"
| "ref_exec create add_ref release_ref (Reset i) = ref_ptr_reset release_ref i"
| "ref_exec create add_ref release_ref (Release i) = bind_sm (ref_ptr_release i) (\<lambda>_. ret_sm ())"
| "ref_exec create add_ref release_ref (Assign i p) = ref_ptr_assign release_ref i p"
| "ref_exec create add_ref release_ref (Swap i j) = ref_ptr_swap i j"
| "ref_exec create add_ref release_ref (AddReference p) = on_objs (add_ref p)"
| "ref_exec create add_ref release_ref (ReleaseReference p) = on_objs (release_ref p)"

section \<open>Ownership\<close>

text \<open>
  The references to an object are those held by variables and the raw ones the program has to give
  back, which it keeps track of in \<open>raw\<close>. An operation is legal when the variables it uses are alive,
  a raw reference it consumes is owned, a reference is added only to a live object and an object is
  created at a free address.
\<close>

definition owners :: "'s ref_state \<Rightarrow> (ptr \<Rightarrow> nat) \<Rightarrow> ptr \<Rightarrow> nat" where
  "owners s raw p = count_list (px s) (Some p) + raw p"

definition var_ok :: "'s ref_state \<Rightarrow> nat \<Rightarrow> bool" where
  "var_ok s i \<longleftrightarrow> i < length (px s) \<and> px s ! i \<noteq> None"

abbreviation var_px :: "'s ref_state \<Rightarrow> nat \<Rightarrow> ptr" where
  "var_px s i \<equiv> the (px s ! i)"

fun ref_legal :: "nat \<Rightarrow> 's ref_state \<Rightarrow> (ptr \<Rightarrow> nat) \<Rightarrow> ref_op \<Rightarrow> bool" where
  "ref_legal m s raw (MakeRef p) \<longleftrightarrow> p \<noteq> nullptr \<and> owners s raw p = 0"
| "ref_legal m s raw (AssignRef p) \<longleftrightarrow> p = nullptr \<or> raw p > 0"
| "ref_legal m s raw (AddRefRaw p) \<longleftrightarrow> p = nullptr \<or> (owners s raw p > 0 \<and> owners s raw p < m)"
| "ref_legal m s raw (AddRefVar i) \<longleftrightarrow> var_ok s i \<and> owners s raw (var_px s i) < m"
| "ref_legal m s raw (Destruct i) \<longleftrightarrow> var_ok s i"
| "ref_legal m s raw (MoveConstruct i) \<longleftrightarrow> var_ok s i"
| "ref_legal m s raw (MoveAssign i j) \<longleftrightarrow> var_ok s i \<and> var_ok s j"
| "ref_legal m s raw (Reset i) \<longleftrightarrow> var_ok s i"
| "ref_legal m s raw (Release i) \<longleftrightarrow> var_ok s i"
| "ref_legal m s raw (Assign i p) \<longleftrightarrow> var_ok s i \<and> (p = nullptr \<or> raw p > 0)"
| "ref_legal m s raw (Swap i j) \<longleftrightarrow> var_ok s i \<and> var_ok s j"
| "ref_legal m s raw (AddReference p) \<longleftrightarrow> p \<noteq> nullptr \<and> owners s raw p > 0 \<and> owners s raw p < m"
| "ref_legal m s raw (ReleaseReference p) \<longleftrightarrow> p \<noteq> nullptr \<and> raw p > 0"

fun raw_after :: "'s ref_state \<Rightarrow> (ptr \<Rightarrow> nat) \<Rightarrow> ref_op \<Rightarrow> ptr \<Rightarrow> nat" where
  "raw_after s raw (AssignRef p) = raw(p := raw p - 1)"
| "raw_after s raw (Assign i p) = raw(p := raw p - 1)"
| "raw_after s raw (Release i) = raw(var_px s i := raw (var_px s i) + 1)"
| "raw_after s raw (AddReference p) = raw(p := raw p + 1)"
| "raw_after s raw (ReleaseReference p) = raw(p := raw p - 1)"
| "raw_after s raw op = raw"

lemma count_list_update:
  assumes "i < length xs"
  shows "count_list (xs[i := y]) z + (if xs ! i = z then 1 else 0) =
    count_list xs z + (if y = z then 1 else (0 :: nat))"
  using assms
proof (induction xs arbitrary: i)
  case (Cons x xs)
  show ?case
  proof (cases i)
    case (Suc j)
    then show ?thesis using Cons.IH [of j] Cons.prems by (auto split: if_splits)
  qed simp
qed simp

lemma get_px_ok: "var_ok s i \<Longrightarrow> get_px i s = Inr (var_px s i, s)"
  by (auto simp: get_px_def var_ok_def)

lemma bind_get_px: "var_ok s i \<Longrightarrow> bind_sm (get_px i) f s = f (var_px s i) s"
  by (simp add: bind_sm_def get_px_ok)

lemma var_ok_objs [simp]: "var_ok (s\<lparr>objs := w\<rparr>) i = var_ok s i"
  by (simp add: var_ok_def)

lemma bind_ref_ptr_release:
  "var_ok s i \<Longrightarrow> bind_sm (ref_ptr_release i) f s = f (var_px s i) (s\<lparr>px := (px s)[i := Some nullptr]\<rparr>)"
  by (simp add: ref_ptr_release_def bind_get_px set_px_def)

lemma var_px_owned: "var_ok s i \<Longrightarrow> owners s raw (var_px s i) > 0"
proof -
  assume "var_ok s i"
  then have "Some (var_px s i) \<in> set (px s)"
    by (auto simp: var_ok_def in_set_conv_nth intro!: exI [of _ i])
  then show ?thesis using count_list_0_iff [of "px s" "Some (var_px s i)"] by (simp add: owners_def)
qed

lemma owners_set:
  assumes "var_ok s i" "px s' = (px s)[i := v]"
  shows "owners s' raw p + (if var_px s i = p then 1 else 0) = owners s raw p + (if v = Some p then 1 else 0)"
  using assms count_list_update [of i "px s" v "Some p"]
  by (auto simp: owners_def var_ok_def split: if_splits)

lemma owners_append:
  "px s' = px s @ [Some q] \<Longrightarrow> owners s' raw p = owners s raw p + (if q = p then 1 else 0)"
  by (simp add: owners_def)

section \<open>What ref_ptr relies on, and what it gives\<close>

text \<open>
  The interface of a counted type: how many references each object has (none when it is not alive),
  and how often it was deleted, in the states that are \<open>ok\<close>. At most \<open>max_refs\<close> references can be
  counted.
\<close>

locale ref_counted =
  fixes create add_ref release_ref :: "ptr \<Rightarrow> ('s, unit) sm"
    and refs :: "'s \<Rightarrow> ptr \<Rightarrow> nat" and deletions :: "'s \<Rightarrow> ptr \<Rightarrow> nat" and max_refs :: nat
    and ok :: "'s \<Rightarrow> bool"
  assumes create_law: "ok s \<Longrightarrow> p \<noteq> nullptr \<Longrightarrow> refs s p = 0 \<Longrightarrow>
      \<exists>s'. create p s = Inr ((), s') \<and> ok s' \<and> refs s' = (refs s)(p := 1) \<and> deletions s' = deletions s"
    and add_law: "ok s \<Longrightarrow> p \<noteq> nullptr \<Longrightarrow> 0 < refs s p \<Longrightarrow> refs s p < max_refs \<Longrightarrow>
      \<exists>s'. add_ref p s = Inr ((), s') \<and> ok s' \<and> refs s' = (refs s)(p := refs s p + 1) \<and> deletions s' = deletions s"
    and release_law: "ok s \<Longrightarrow> p \<noteq> nullptr \<Longrightarrow> 0 < refs s p \<Longrightarrow>
      \<exists>s'. release_ref p s = Inr ((), s') \<and> ok s' \<and> refs s' = (refs s)(p := refs s p - 1) \<and>
        deletions s' = (deletions s)(p := deletions s p + (if refs s p = 1 then 1 else 0))"
begin

text \<open>How often an object was created at \<open>p\<close>.\<close>

definition created :: "'s \<Rightarrow> ptr \<Rightarrow> nat" where
  "created s p = deletions s p + (if refs s p > 0 then 1 else 0)"

definition balanced :: "'s ref_state \<Rightarrow> (ptr \<Rightarrow> nat) \<Rightarrow> bool" where
  "balanced s raw \<longleftrightarrow> ok (objs s) \<and> (\<forall>p. p \<noteq> nullptr \<longrightarrow> refs (objs s) p = owners s raw p)"

text \<open>
  What an operation leaves: balanced again, and one more creation exactly at the address of a new
  object.
\<close>

definition good_step :: "'s ref_state \<Rightarrow> ptr option \<Rightarrow> 's ref_state \<Rightarrow> (ptr \<Rightarrow> nat) \<Rightarrow> bool" where
  "good_step s new s' raw' \<longleftrightarrow> balanced s' raw' \<and>
     (\<forall>p. p \<noteq> nullptr \<longrightarrow> created (objs s') p = created (objs s) p + (if new = Some p then 1 else 0))"

lemma keep_step:
  assumes "balanced s raw" "objs s' = objs s" "\<And>p. p \<noteq> nullptr \<Longrightarrow> owners s' raw' p = owners s raw p"
  shows "good_step s None s' raw'"
  using assms by (simp add: good_step_def balanced_def)

lemma release_step:
  assumes "balanced s raw" "p \<noteq> nullptr" "0 < owners s raw p"
  shows "\<exists>o'. release_ref p (objs s) = Inr ((), o') \<and>
    (\<forall>s' raw'. objs s' = o' \<longrightarrow> (\<forall>q. q \<noteq> nullptr \<longrightarrow> owners s' raw' q + (if q = p then 1 else 0) = owners s raw q) \<longrightarrow>
      good_step s None s' raw')"
proof -
  have ok: "ok (objs s)" using assms by (simp add: balanced_def)
  have "0 < refs (objs s) p" using assms by (simp add: balanced_def)
  with ok obtain o' where o': "release_ref p (objs s) = Inr ((), o')"
    "refs o' = (refs (objs s))(p := refs (objs s) p - 1)"
    "deletions o' = (deletions (objs s))(p := deletions (objs s) p + (if refs (objs s) p = 1 then 1 else 0))"
    "ok o'"
    using release_law assms(2) by blast
  have "good_step s None s' raw'" if "objs s' = o'"
    "\<And>q. q \<noteq> nullptr \<Longrightarrow> owners s' raw' q + (if q = p then 1 else 0) = owners s raw q" for s' raw'
    unfolding good_step_def balanced_def
  proof (intro conjI allI impI)
    fix q :: ptr assume q: "q \<noteq> nullptr"
    then show "refs (objs s') q = owners s' raw' q"
      using that(1) that(2) [OF q] o'(2) assms(1) by (cases "q = p") (simp_all add: balanced_def)
    show "created (objs s') q = created (objs s) q + (if None = Some q then 1 else 0)"
      using that(1) o'(2,3) \<open>0 < refs (objs s) p\<close> by (cases "q = p") (simp_all add: created_def)
  next
    show "ok (objs s')" using that(1) o'(4) by simp
  qed
  then show ?thesis using o'(1) by blast
qed

lemma add_step:
  assumes "balanced s raw" "p \<noteq> nullptr" "0 < owners s raw p" "owners s raw p < max_refs"
  shows "\<exists>o'. add_ref p (objs s) = Inr ((), o') \<and>
    (\<forall>s' raw'. objs s' = o' \<longrightarrow> (\<forall>q. q \<noteq> nullptr \<longrightarrow> owners s' raw' q = owners s raw q + (if q = p then 1 else 0)) \<longrightarrow>
      good_step s None s' raw')"
proof -
  have "ok (objs s)" "0 < refs (objs s) p" "refs (objs s) p < max_refs"
    using assms by (simp_all add: balanced_def)
  then obtain o' where "add_ref p (objs s) = Inr ((), o')"
    "refs o' = (refs (objs s))(p := refs (objs s) p + 1)" "deletions o' = deletions (objs s)" "ok o'"
    using add_law assms(2) by blast
  then show ?thesis
    using assms(1) \<open>0 < refs (objs s) p\<close> by (auto simp: good_step_def balanced_def created_def)
qed

lemma create_step:
  assumes "balanced s raw" "p \<noteq> nullptr" "owners s raw p = 0"
  shows "\<exists>o'. create p (objs s) = Inr ((), o') \<and>
    (\<forall>s' raw'. objs s' = o' \<longrightarrow> (\<forall>q. q \<noteq> nullptr \<longrightarrow> owners s' raw' q = owners s raw q + (if q = p then 1 else 0)) \<longrightarrow>
      good_step s (Some p) s' raw')"
proof -
  have "ok (objs s)" "refs (objs s) p = 0" using assms by (simp_all add: balanced_def)
  then obtain o' where "create p (objs s) = Inr ((), o')"
    "refs o' = (refs (objs s))(p := 1)" "deletions o' = deletions (objs s)" "ok o'"
    using create_law assms(2) by blast
  then show ?thesis
    using assms(1) \<open>refs (objs s) p = 0\<close> by (auto simp: good_step_def balanced_def created_def)
qed

lemma step_release_px:
  assumes b: "balanced s raw" and v: "var_ok s i" "var_px s i \<noteq> nullptr"
  shows "\<exists>o'. on_objs (release_ref (var_px s i)) s = Inr ((), s\<lparr>objs := o'\<rparr>) \<and>
    good_step s None (s\<lparr>objs := o', px := (px s)[i := None]\<rparr>) raw \<and>
    good_step s None (s\<lparr>objs := o', px := (px s)[i := Some nullptr]\<rparr>) raw"
proof -
  obtain o' where o': "release_ref (var_px s i) (objs s) = Inr ((), o')"
    "\<And>s' raw'. objs s' = o' \<Longrightarrow> (\<And>q. q \<noteq> nullptr \<Longrightarrow>
      owners s' raw' q + (if q = var_px s i then 1 else 0) = owners s raw q) \<Longrightarrow> good_step s None s' raw'"
    using release_step [OF b v(2) var_px_owned [OF v(1)]] by blast
  have "owners (s\<lparr>objs := o', px := (px s)[i := w]\<rparr>) raw q + (if q = var_px s i then 1 else 0) = owners s raw q"
    if "w = None \<or> w = Some nullptr" "q \<noteq> nullptr" for w q
    using owners_set [OF v(1), of "s\<lparr>objs := o', px := (px s)[i := w]\<rparr>" w raw q] that
    by (auto split: if_splits)
  then have "good_step s None (s\<lparr>objs := o', px := (px s)[i := w]\<rparr>) raw"
    if "w = None \<or> w = Some nullptr" for w
    using o'(2) that by simp
  then show ?thesis using o'(1) by (auto simp: on_objs_def)
qed

lemma good_step_refl: "balanced s raw \<Longrightarrow> good_step s None s raw"
  by (simp add: good_step_def)

lemma good_step_trans:
  "good_step s new s1 raw1 \<Longrightarrow> good_step s1 None s2 raw2 \<Longrightarrow> good_step s new s2 raw2"
  by (simp add: good_step_def)

text \<open>Releasing what a variable holds, when it holds something, leaves it empty.\<close>

lemma step_clear_px:
  assumes b: "balanced s raw" and v: "var_ok s i"
  shows "\<exists>s1. (\<forall>f. bind_sm (unless_null (var_px s i) release_ref) f s = f () (s\<lparr>objs := objs s1\<rparr>)) \<and>
    good_step s None s1 raw \<and> good_step s None (s1\<lparr>px := (px s)[i := None]\<rparr>) raw \<and>
    px s1 = (px s)[i := Some nullptr] \<and> s1 = s\<lparr>objs := objs s1, px := px s1\<rparr>"
proof (cases "var_px s i = nullptr")
  case True
  then have "px s ! i = Some nullptr" using v by (auto simp: var_ok_def)
  then have p: "(px s)[i := Some nullptr] = px s" by (metis list_update_id)
  have "good_step s None (s\<lparr>px := (px s)[i := None]\<rparr>) raw"
  proof (rule keep_step [OF b])
    fix q :: ptr assume "q \<noteq> nullptr"
    then show "owners (s\<lparr>px := (px s)[i := None]\<rparr>) raw q = owners s raw q"
      using owners_set [OF v, of "s\<lparr>px := (px s)[i := None]\<rparr>" None raw q] True by simp
  qed simp
  then show ?thesis
    using True p good_step_refl [OF b] by (intro exI [of _ s]) (simp add: unless_null_def)
next
  case False
  then obtain o' where "on_objs (release_ref (var_px s i)) s = Inr ((), s\<lparr>objs := o'\<rparr>)"
    "good_step s None (s\<lparr>objs := o', px := (px s)[i := None]\<rparr>) raw"
    "good_step s None (s\<lparr>objs := o', px := (px s)[i := Some nullptr]\<rparr>) raw"
    using step_release_px [OF b v] by blast
  then show ?thesis
    using False by (intro exI [of _ "s\<lparr>objs := o', px := (px s)[i := Some nullptr]\<rparr>"])
      (simp add: unless_null_def bind_sm_def)
qed

lemma step_put_px:
  assumes "balanced s raw" "var_ok s i" "var_px s i = nullptr" "px s' = (px s)[i := Some p]" "objs s' = objs s"
    "p = nullptr \<or> raw p > 0"
  shows "good_step s None s' (raw(p := raw p - 1))"
proof (rule keep_step [OF assms(1,5)])
  fix q :: ptr assume "q \<noteq> nullptr"
  then show "owners s' (raw(p := raw p - 1)) q = owners s raw q"
    using owners_set [OF assms(2,4), of raw q] assms(3,6) by (auto simp: owners_def split: if_splits)
qed

lemma step_take_px:
  assumes "balanced s raw" "var_ok s i" "px s' = (px s)[i := Some nullptr]" "objs s' = objs s"
  shows "good_step s None s' (raw(var_px s i := raw (var_px s i) + 1))"
proof (rule keep_step [OF assms(1,4)])
  fix q :: ptr assume "q \<noteq> nullptr"
  then show "owners s' (raw(var_px s i := raw (var_px s i) + 1)) q = owners s raw q"
    using owners_set [OF assms(2,3), of raw q] by (auto simp: owners_def split: if_splits)
qed

lemma step_append_px:
  assumes "balanced s raw" "px s' = px s @ [Some p]" "objs s' = objs s" "p = nullptr \<or> raw p > 0"
  shows "good_step s None s' (raw(p := raw p - 1))"
proof (rule keep_step [OF assms(1,3)])
  fix q :: ptr assume "q \<noteq> nullptr"
  then show "owners s' (raw(p := raw p - 1)) q = owners s raw q"
    using owners_append [OF assms(2), of raw q] assms(4) by (auto simp: owners_def)
qed

lemma step_add_append:
  assumes b: "balanced s raw" and p: "p = nullptr \<or> (0 < owners s raw p \<and> owners s raw p < max_refs)"
  shows "\<exists>s'. bind_sm (unless_null p add_ref) (\<lambda>_. ref_ptr_construct p) s = Inr ((), s') \<and> good_step s None s' raw"
proof (cases "p = nullptr")
  case True
  have "good_step s None (s\<lparr>px := px s @ [Some p]\<rparr>) raw"
    by (rule keep_step [OF b]) (simp_all add: owners_def True)
  then show ?thesis using True by (simp add: unless_null_def ref_ptr_construct_def)
next
  case False
  then have "0 < owners s raw p" "owners s raw p < max_refs" using p by auto
  from add_step [OF b False this] obtain o' where "add_ref p (objs s) = Inr ((), o')"
    "\<And>s' raw'. objs s' = o' \<Longrightarrow> (\<And>q. q \<noteq> nullptr \<Longrightarrow>
      owners s' raw' q = owners s raw q + (if q = p then 1 else 0)) \<Longrightarrow> good_step s None s' raw'"
    by blast
  then show ?thesis
    using False by (auto simp: unless_null_def ref_ptr_construct_def on_objs_def bind_sm_def owners_def)
qed

abbreviation (input) new_object :: "ref_op \<Rightarrow> ptr option" where
  "new_object op \<equiv> (case op of MakeRef p \<Rightarrow> Some p | _ \<Rightarrow> None)"

lemma var_ok_update: "var_ok s i \<Longrightarrow> px s' = (px s)[i := Some p] \<Longrightarrow> var_ok s' i \<and> var_px s' i = p"
  by (simp add: var_ok_def)

lemma exec_move_assign:
  assumes b: "balanced s raw" and v: "var_ok s i" "var_ok s j" and ne: "var_px s i \<noteq> var_px s j"
  shows "\<exists>s'. ref_ptr_move_assign release_ref i j s = Inr ((), s') \<and> good_step s None s' raw"
proof -
  let ?q = "var_px s j"
  have ij: "i \<noteq> j" using ne by auto
  obtain s1 where s1: "\<And>f :: unit \<Rightarrow> ('s ref_state, unit) sm. bind_sm (unless_null (var_px s i) release_ref) f s = f () (s\<lparr>objs := objs s1\<rparr>)"
    "good_step s None s1 raw" "px s1 = (px s)[i := Some nullptr]"
    using step_clear_px [OF b v(1)] by blast
  have b1: "balanced s1 raw" using s1(2) by (simp add: good_step_def)
  have v1: "var_ok s1 i" "var_px s1 i = nullptr" "var_ok s1 j" "var_px s1 j = ?q"
    using v ij s1(3) by (auto simp: var_ok_def)
  let ?s2 = "s1\<lparr>px := (px s1)[j := Some nullptr]\<rparr>"
  have s2: "good_step s1 None ?s2 (raw(?q := raw ?q + 1))"
    using step_take_px [OF b1 v1(3)] v1(4) by simp
  let ?s3 = "s\<lparr>objs := objs s1, px := (px s)[j := Some nullptr, i := Some ?q]\<rparr>"
  have "px ?s3 = (px ?s2)[i := Some ?q]"
    using ij s1(3) by (simp add: list_update_swap [of i j])
  then have "good_step ?s2 None ?s3 ((raw(?q := raw ?q + 1))(?q := (raw(?q := raw ?q + 1)) ?q - 1))"
    using step_put_px [of ?s2 "raw(?q := raw ?q + 1)" i ?s3 ?q] s2 v1 ij
    by (simp add: good_step_def var_ok_def)
  then have "good_step s None ?s3 raw"
    using good_step_trans [OF good_step_trans [OF s1(2) s2]] by simp
  moreover have "ref_ptr_move_assign release_ref i j s = Inr ((), ?s3)"
    using v ne by (simp add: ref_ptr_move_assign_def bind_get_px s1(1) bind_ref_ptr_release set_px_def)
  ultimately show ?thesis by blast
qed

lemma exec_reset:
  assumes b: "balanced s raw" and v: "var_ok s i"
  shows "\<exists>s1. ref_ptr_reset release_ref i s = Inr ((), s1) \<and> good_step s None s1 raw \<and>
    px s1 = (px s)[i := Some nullptr]"
proof (cases "var_px s i = nullptr")
  case True
  then have "px s ! i = Some nullptr" using v by (auto simp: var_ok_def)
  then have "(px s)[i := Some nullptr] = px s" by (metis list_update_id)
  then show ?thesis using True good_step_refl [OF b] v by (simp add: ref_ptr_reset_def bind_get_px)
next
  case False
  then show ?thesis
    using step_release_px [OF b v] v by (auto simp: ref_ptr_reset_def bind_get_px set_px_def bind_sm_def [of "on_objs m" for m])
qed

lemma exec_make:
  assumes b: "balanced s raw" and p: "p \<noteq> nullptr" "owners s raw p = 0"
  shows "\<exists>s'. make_ref create p s = Inr ((), s') \<and> good_step s (Some p) s' raw"
proof -
  from create_step [OF b p] obtain o' where "create p (objs s) = Inr ((), o')"
    "\<And>s' raw'. objs s' = o' \<Longrightarrow> (\<And>q. q \<noteq> nullptr \<Longrightarrow>
      owners s' raw' q = owners s raw q + (if q = p then 1 else 0)) \<Longrightarrow> good_step s (Some p) s' raw'"
    by blast
  then show ?thesis
    by (auto simp: make_ref_def ref_ptr_construct_def on_objs_def bind_sm_def owners_def)
qed

lemma exec_destruct:
  assumes b: "balanced s raw" and v: "var_ok s i"
  shows "\<exists>s'. ref_ptr_destruct release_ref i s = Inr ((), s') \<and> good_step s None s' raw"
proof -
  obtain s1 where s1: "\<And>f :: unit \<Rightarrow> ('s ref_state, unit) sm. bind_sm (unless_null (var_px s i) release_ref) f s = f () (s\<lparr>objs := objs s1\<rparr>)"
    "good_step s None (s1\<lparr>px := (px s)[i := None]\<rparr>) raw" "s1 = s\<lparr>objs := objs s1, px := px s1\<rparr>"
    using step_clear_px [OF b v] by blast
  have e: "s1\<lparr>px := (px s)[i := None]\<rparr> = s\<lparr>objs := objs s1, px := (px s)[i := None]\<rparr>"
    by (subst s1(3)) simp
  have "good_step s None (s\<lparr>objs := objs s1, px := (px s)[i := None]\<rparr>) raw"
    using s1(2) unfolding e .
  then show ?thesis
    using v by (simp add: ref_ptr_destruct_def bind_get_px s1(1) set_px_def)
qed

lemma exec_move_construct:
  assumes b: "balanced s raw" and v: "var_ok s i"
  shows "\<exists>s'. ref_ptr_move_construct i s = Inr ((), s') \<and> good_step s None s' raw"
proof -
  let ?q = "var_px s i" and ?s1 = "s\<lparr>px := (px s)[i := Some nullptr]\<rparr>"
  have s1: "good_step s None ?s1 (raw(?q := raw ?q + 1))" using step_take_px [OF b v] by simp
  then have "good_step ?s1 None (?s1\<lparr>px := px ?s1 @ [Some ?q]\<rparr>)
      ((raw(?q := raw ?q + 1))(?q := (raw(?q := raw ?q + 1)) ?q - 1))"
    by (intro step_append_px) (simp_all add: good_step_def)
  then show ?thesis
    using good_step_trans [OF s1] v
    by (simp add: ref_ptr_move_construct_def bind_ref_ptr_release ref_ptr_construct_def)
qed

lemma exec_assign:
  assumes b: "balanced s raw" and v: "var_ok s i" "p = nullptr \<or> raw p > 0"
  shows "\<exists>s'. ref_ptr_assign release_ref i p s = Inr ((), s') \<and> good_step s None s' (raw(p := raw p - 1))"
proof -
  obtain s1 where s1: "ref_ptr_reset release_ref i s = Inr ((), s1)" "good_step s None s1 raw"
    "px s1 = (px s)[i := Some nullptr]"
    using exec_reset [OF b v(1)] by blast
  have "good_step s1 None (s1\<lparr>px := (px s1)[i := Some p]\<rparr>) (raw(p := raw p - 1))"
    using s1(2) v var_ok_update [OF v(1) s1(3)] by (intro step_put_px) (simp_all add: good_step_def)
  then show ?thesis
    using good_step_trans [OF s1(2)] s1(1) by (simp add: ref_ptr_assign_def bind_sm_def set_px_def)
qed

lemma exec_swap:
  assumes b: "balanced s raw" and v: "var_ok s i" "var_ok s j"
  shows "\<exists>s'. ref_ptr_swap i j s = Inr ((), s') \<and> good_step s None s' raw"
proof -
  let ?s1 = "s\<lparr>px := (px s)[i := Some (var_px s j)]\<rparr>"
  let ?s2 = "s\<lparr>px := (px s)[i := Some (var_px s j), j := Some (var_px s i)]\<rparr>"
  have "good_step s None ?s2 raw"
  proof (rule keep_step [OF b])
    fix q :: ptr
    have "var_ok ?s1 j" "var_px ?s1 j = var_px s j" using v by (auto simp: var_ok_def nth_list_update)
    then show "owners ?s2 raw q = owners s raw q"
      using owners_set [OF v(1), of ?s1 "Some (var_px s j)" raw q]
        owners_set [of ?s1 j ?s2 "Some (var_px s i)" raw q] by auto
  qed simp
  then show ?thesis using v by (simp add: ref_ptr_swap_def bind_get_px set_px_def)
qed

lemma exec_raw:
  assumes b: "balanced s raw" and p: "p \<noteq> nullptr"
  shows "0 < owners s raw p \<Longrightarrow> owners s raw p < max_refs \<Longrightarrow>
      \<exists>s'. on_objs (add_ref p) s = Inr ((), s') \<and> good_step s None s' (raw(p := raw p + 1))"
    and "0 < raw p \<Longrightarrow>
      \<exists>s'. on_objs (release_ref p) s = Inr ((), s') \<and> good_step s None s' (raw(p := raw p - 1))"
proof -
  assume "0 < owners s raw p" "owners s raw p < max_refs"
  from add_step [OF b p this] obtain o' where "add_ref p (objs s) = Inr ((), o')"
    "\<And>s' raw'. objs s' = o' \<Longrightarrow> (\<And>q. q \<noteq> nullptr \<Longrightarrow>
      owners s' raw' q = owners s raw q + (if q = p then 1 else 0)) \<Longrightarrow> good_step s None s' raw'"
    by blast
  then show "\<exists>s'. on_objs (add_ref p) s = Inr ((), s') \<and> good_step s None s' (raw(p := raw p + 1))"
    by (simp add: on_objs_def owners_def)
next
  assume r: "0 < raw p"
  then have "0 < owners s raw p" by (simp add: owners_def)
  from release_step [OF b p this] obtain o' where "release_ref p (objs s) = Inr ((), o')"
    "\<And>s' raw'. objs s' = o' \<Longrightarrow> (\<And>q. q \<noteq> nullptr \<Longrightarrow>
      owners s' raw' q + (if q = p then 1 else 0) = owners s raw q) \<Longrightarrow> good_step s None s' raw'"
    by blast
  then show "\<exists>s'. on_objs (release_ref p) s = Inr ((), s') \<and> good_step s None s' (raw(p := raw p - 1))"
    using r by (simp add: on_objs_def owners_def)
qed

lemma exec_good:
  assumes b: "balanced s raw" and l: "ref_legal max_refs s raw op"
  shows "\<exists>s'. ref_exec create add_ref release_ref op s = Inr ((), s') \<and>
    good_step s (new_object op) s' (raw_after s raw op)"
proof (cases op)
  case (MakeRef p)
  then show ?thesis using exec_make [OF b] l by simp
next
  case (AssignRef p)
  then show ?thesis
    using step_append_px [OF b, of "s\<lparr>px := px s @ [Some p]\<rparr>" p] l
    by (simp add: assign_ref_def ref_ptr_construct_def)
next
  case (AddRefRaw p)
  then show ?thesis using step_add_append [OF b, of p] l by (simp add: add_ref_raw_def)
next
  case (AddRefVar i)
  then show ?thesis
    using step_add_append [OF b, of "var_px s i"] var_px_owned [of s i raw] l
    by (simp add: add_ref_var_def bind_get_px)
next
  case (MoveAssign i j)
  then show ?thesis
    using exec_move_assign [OF b] good_step_refl [OF b] l
    by (cases "var_px s i = var_px s j") (simp_all add: ref_ptr_move_assign_def bind_get_px)
next
  case (Reset i)
  then show ?thesis using exec_reset [OF b, of i] l by auto
next
  case (Release i)
  then show ?thesis
    using step_take_px [OF b, of i] l by (simp add: bind_ref_ptr_release)
next
  case (AddReference p)
  then show ?thesis using exec_raw(1) [OF b] l by simp
next
  case (ReleaseReference p)
  then show ?thesis using exec_raw(2) [OF b] l by simp
qed (use l exec_destruct [OF b] exec_move_construct [OF b] exec_assign [OF b] exec_swap [OF b] in simp_all)

end

section \<open>RefObject as a counted type\<close>

definition object_refs :: "ref_objects \<Rightarrow> ptr \<Rightarrow> nat" where
  "object_refs s p = (case counters s p of None \<Rightarrow> 0 | Some c \<Rightarrow> unat c)"

definition object_deletions :: "ref_objects \<Rightarrow> ptr \<Rightarrow> nat" where
  "object_deletions s p = count_list (deleted s) p"

definition max_object_refs :: nat where
  "max_object_refs = 2 ^ 32 - 1"

lemma unat_inc_ref: "unat (c :: 32 word) < max_object_refs \<Longrightarrow> unat (c + 1) = unat c + 1"
  by (simp add: max_object_refs_def unat_word_ariths)

lemma unat_dec_ref: "0 < unat (c :: 32 word) \<Longrightarrow> unat (c - 1) = unat c - 1"
  by (simp add: unat_gt_0 unat_minus_one)

text \<open>A live object has a reference.\<close>

definition objects_ok :: "ref_objects \<Rightarrow> bool" where
  "objects_ok s \<longleftrightarrow> (\<forall>p. counters s p \<noteq> Some 0)"

interpretation object: ref_counted RefObject ref_ptr_add_ref ref_ptr_release_ref
  object_refs object_deletions max_object_refs objects_ok
proof
  show "\<exists>s'. RefObject p s = Inr ((), s') \<and> objects_ok s' \<and> object_refs s' = (object_refs s)(p := 1) \<and>
      object_deletions s' = object_deletions s" if "objects_ok s" for s p
    using that by (auto simp: RefObject_def ref_ptr_add_ref_def object_refs_def object_deletions_def objects_ok_def)
  show "\<exists>s'. ref_ptr_add_ref p s = Inr ((), s') \<and> objects_ok s' \<and>
      object_refs s' = (object_refs s)(p := object_refs s p + 1) \<and> object_deletions s' = object_deletions s"
    if inv: "objects_ok s" and pos: "0 < object_refs s p" "object_refs s p < max_object_refs" for s p
  proof -
    obtain c where c: "counters s p = Some c" "unat c < max_object_refs"
      using pos by (auto simp: object_refs_def split: option.splits)
    then have "c + 1 \<noteq> 0" using unat_inc_ref [of c] by auto
    then show ?thesis
      using c inv by (auto simp: ref_ptr_add_ref_def object_refs_def object_deletions_def unat_inc_ref objects_ok_def)
  qed
  show "\<exists>s'. ref_ptr_release_ref p s = Inr ((), s') \<and> objects_ok s' \<and>
      object_refs s' = (object_refs s)(p := object_refs s p - 1) \<and>
      object_deletions s' =
        (object_deletions s)(p := object_deletions s p + (if object_refs s p = 1 then 1 else 0))"
    if inv: "objects_ok s" and pos: "0 < object_refs s p" for s p
  proof -
    obtain c where c: "counters s p = Some c" "0 < unat c"
      using pos by (auto simp: object_refs_def split: option.splits)
    have "c = 1 \<longleftrightarrow> unat c = 1" using word_unat_eq_iff [of c 1] by simp
    then show ?thesis
      using c inv by (cases "c = 1") (auto simp: ref_ptr_release_ref_def delete_thunk_Delete_def Let_def
          ref_ptr_destroy_ref_def object_refs_def object_deletions_def unat_dec_ref objects_ok_def)
  qed
qed

text \<open>The states a program reaches by legal operations, with the raw references it then owns.\<close>

definition ref_start :: "ref_objects ref_state" where
  "ref_start = \<lparr>objs = \<lparr>counters = (\<lambda>_. None), deleted = []\<rparr>, px = []\<rparr>"

abbreviation (input) object_exec :: "ref_op \<Rightarrow> (ref_objects ref_state, unit) sm" where
  "object_exec \<equiv> ref_exec RefObject ref_ptr_add_ref ref_ptr_release_ref"

inductive ref_steps :: "ref_op list \<Rightarrow> ref_objects ref_state \<Rightarrow> (ptr \<Rightarrow> nat) \<Rightarrow> bool" where
  steps_start: "ref_steps [] ref_start (\<lambda>_. 0)"
| steps_op: "ref_steps ops s raw \<Longrightarrow> ref_legal max_object_refs s raw op \<Longrightarrow>
    object_exec op s = Inr ((), s') \<Longrightarrow> ref_steps (ops @ [op]) s' (raw_after s raw op)"

lemma ref_steps_invariant:
  assumes "ref_steps ops s raw"
  shows "object.balanced s raw \<and>
    (\<forall>p. p \<noteq> nullptr \<longrightarrow> object.created (objs s) p = count_list ops (MakeRef p))"
  using assms
proof (induction rule: ref_steps.induct)
  case steps_start
  then show ?case
    unfolding object.balanced_def object.created_def
    by (simp add: ref_start_def object_refs_def object_deletions_def owners_def objects_ok_def)
next
  case (steps_op ops s raw op s')
  then have g: "object.good_step s (case op of MakeRef p \<Rightarrow> Some p | _ \<Rightarrow> None) s' (raw_after s raw op)"
    using object.exec_good [of s raw op] by auto
  have "count_list (ops @ [op]) (MakeRef p) =
      count_list ops (MakeRef p) + (if (case op of MakeRef p \<Rightarrow> Some p | _ \<Rightarrow> None) = Some p then 1 else 0)" for p
    by (cases op) auto
  then show ?case
    using g steps_op.IH unfolding object.good_step_def by simp
qed

section \<open>Draining\<close>

text \<open>
  The references still to be given back: the variables that are alive and the raw references to
  objects. Each \<open>Destruct\<close> and each \<open>ReleaseReference\<close> gives back one.
\<close>

definition live_vars :: "ref_objects ref_state \<Rightarrow> nat" where
  "live_vars s = length (filter (\<lambda>v. v \<noteq> None) (px s))"

definition raw_objects :: "(ptr \<Rightarrow> nat) \<Rightarrow> ptr set" where
  "raw_objects raw = {p. p \<noteq> nullptr \<and> raw p > 0}"

definition raw_total :: "(ptr \<Rightarrow> nat) \<Rightarrow> nat" where
  "raw_total raw = (\<Sum>p \<in> raw_objects raw. raw p)"

text \<open>Addresses are machine words, so only finitely many of them can be owned.\<close>

lemma finite_raw_objects [simp]: "finite (raw_objects raw)"
  by (rule finite_subset [OF subset_UNIV]) simp

fun gives_back :: "ref_op \<Rightarrow> bool" where
  "gives_back (Destruct i) = True"
| "gives_back (ReleaseReference p) = True"
| "gives_back _ = False"

lemma live_vars_destruct:
  assumes "var_ok s i"
  shows "live_vars (s\<lparr>px := (px s)[i := None]\<rparr>) + 1 = live_vars s"
proof -
  have i: "i < length (px s)" "px s ! i \<noteq> None" using assms by (simp_all add: var_ok_def)
  have "px s = take i (px s) @ px s ! i # drop (Suc i) (px s)" using i by (simp add: id_take_nth_drop)
  then have "live_vars s = length (filter (\<lambda>v. v \<noteq> None) (take i (px s) @ px s ! i # drop (Suc i) (px s)))"
    by (simp add: live_vars_def)
  then show ?thesis using i by (simp add: live_vars_def upd_conv_take_nth_drop)
qed

lemma raw_total_release:
  assumes "p \<noteq> nullptr" "0 < raw p"
  shows "raw_total (raw(p := raw p - 1)) + 1 = raw_total raw"
proof -
  have p: "p \<in> raw_objects raw" using assms by (simp add: raw_objects_def)
  have "raw_total (raw(p := raw p - 1)) = (\<Sum>q \<in> raw_objects raw. (raw(p := raw p - 1)) q)"
    unfolding raw_total_def by (rule sum.mono_neutral_left) (auto simp: raw_objects_def)
  also have "\<dots> = (raw p - 1) + (\<Sum>q \<in> raw_objects raw - {p}. raw q)"
    using p by (subst sum.remove [OF _ p]) (auto intro: sum.cong)
  finally show ?thesis
    using assms sum.remove [OF finite_raw_objects p, of raw] by (simp add: raw_total_def)
qed

lemma destruct_px:
  assumes "var_ok s i" "ref_ptr_destruct rel i s = Inr ((), s')"
  shows "px s' = (px s)[i := None]"
  using assms by (auto simp: ref_ptr_destruct_def bind_get_px unless_null_def on_objs_def bind_sm_eq_Inr
      set_px_def split: if_splits sum.splits)

lemma release_px:
  "on_objs (rel p) s = Inr ((), s') \<Longrightarrow> px s' = px s"
  by (auto simp: on_objs_def split: sum.splits)

lemma drained_no_owner:
  assumes "live_vars s = 0" "raw_total raw = 0" "p \<noteq> nullptr"
  shows "owners s raw p = 0"
proof -
  have "Some p \<notin> set (px s)" using assms(1) by (auto simp: live_vars_def filter_empty_conv)
  moreover have "raw p = 0"
    using assms(2,3) unfolding raw_total_def by (auto simp: raw_objects_def sum_eq_0_iff)
  ultimately show ?thesis by (simp add: owners_def count_list_0_iff)
qed

lemma gives_back_step:
  assumes s: "ref_steps ops s raw" and "0 < live_vars s + raw_total raw"
  shows "\<exists>op s'. gives_back op \<and> ref_steps (ops @ [op]) s' (raw_after s raw op) \<and>
    live_vars s' + raw_total (raw_after s raw op) + 1 = live_vars s + raw_total raw"
proof -
  have exec: "\<exists>s'. object_exec op s = Inr ((), s')" if "ref_legal max_object_refs s raw op" for op
    using object.exec_good ref_steps_invariant [OF s] that by blast
  show ?thesis
  proof (cases "live_vars s = 0")
    case False
    then obtain v where "v \<in> set (px s)" "v \<noteq> None" by (auto simp: live_vars_def filter_empty_conv)
    then obtain i where i: "var_ok s i" by (auto simp: var_ok_def in_set_conv_nth)
    then obtain s' where s': "object_exec (Destruct i) s = Inr ((), s')"
      using exec [of "Destruct i"] by auto
    have "live_vars s' + 1 = live_vars s"
      using destruct_px [OF i] s' live_vars_destruct [OF i] by (simp add: live_vars_def)
    then show ?thesis using steps_op [OF s _ s'] i by (intro exI [of _ "Destruct i"] exI [of _ s']) simp
  next
    case True
    then have "raw_objects raw \<noteq> {}" using assms(2) unfolding raw_total_def by auto
    then obtain p where p: "p \<noteq> nullptr" "0 < raw p" by (auto simp: raw_objects_def)
    then obtain s' where s': "object_exec (ReleaseReference p) s = Inr ((), s')"
      using exec [of "ReleaseReference p"] by auto
    then have "live_vars s' = live_vars s" using release_px by (fastforce simp: live_vars_def)
    then show ?thesis
      using steps_op [OF s _ s'] p raw_total_release [of p raw]
      by (intro exI [of _ "ReleaseReference p"] exI [of _ s']) simp
  qed
qed

lemma drains:
  "ref_steps ops s raw \<Longrightarrow> \<exists>ops' s' raw'. (\<forall>op \<in> set ops'. gives_back op) \<and>
     length ops' = live_vars s + raw_total raw \<and> ref_steps (ops @ ops') s' raw' \<and>
     live_vars s' = 0 \<and> raw_total raw' = 0"
proof (induction "live_vars s + raw_total raw" arbitrary: ops s raw)
  case 0
  then show ?case by (intro exI [of _ "[]"] exI [of _ s] exI [of _ raw]) simp
next
  case (Suc n)
  have "0 < live_vars s + raw_total raw" using Suc.hyps(2) by linarith
  then obtain op s1 where op: "gives_back op"
    "ref_steps (ops @ [op]) s1 (raw_after s raw op)"
    "live_vars s1 + raw_total (raw_after s raw op) + 1 = live_vars s + raw_total raw"
    using gives_back_step [OF Suc.prems] by metis
  then have "n = live_vars s1 + raw_total (raw_after s raw op)" using Suc.hyps(2) by simp
  from Suc.hyps(1) [OF this op(2)] obtain ops' s' raw' where r: "\<forall>op \<in> set ops'. gives_back op"
    "length ops' = live_vars s1 + raw_total (raw_after s raw op)"
    "ref_steps ((ops @ [op]) @ ops') s' raw'" "live_vars s' = 0" "raw_total raw' = 0" by blast
  then show ?case using op by (intro exI [of _ "op # ops'"] exI [of _ s'] exI [of _ raw']) simp
qed

section \<open>Properties\<close>

text \<open>
  C19. Reference counting is exact: in every state a program reaches by legal operations on
  \<open>ref_ptr\<close> variables and raw references, the counter of an object equals the number of variables
  and raw references that own it, the object is alive exactly while it has an owner, it was deleted
  once for every time it was created and is no longer alive, and every legal operation succeeds.
\<close>

theorem ref_ptr_ownership:
  assumes "ref_steps ops s raw" and "p \<noteq> nullptr"
  shows "(counters (objs s) p = None \<longleftrightarrow> owners s raw p = 0) \<and>
    (\<forall>c. counters (objs s) p = Some c \<longrightarrow> unat c = owners s raw p) \<and>
    count_list (deleted (objs s)) p + (if owners s raw p > 0 then 1 else 0) = count_list ops (MakeRef p) \<and>
    (\<forall>op. ref_legal max_object_refs s raw op \<longrightarrow> (\<exists>s'. object_exec op s = Inr ((), s')))"
proof -
  have inv: "object.balanced s raw" "object.created (objs s) p = count_list ops (MakeRef p)"
    using ref_steps_invariant [OF assms(1)] assms(2) by auto
  have r: "object_refs (objs s) p = owners s raw p" "objects_ok (objs s)"
    using inv(1) assms(2) by (simp_all add: object.balanced_def)
  have "counters (objs s) p = None \<longleftrightarrow> owners s raw p = 0"
  proof (cases "counters (objs s) p")
    case (Some c)
    then have "unat c \<noteq> 0" using r(2) by (auto simp: objects_ok_def unat_eq_zero)
    then show ?thesis using Some r(1) by (simp add: object_refs_def)
  qed (use r(1) in \<open>simp add: object_refs_def\<close>)
  moreover have "\<forall>c. counters (objs s) p = Some c \<longrightarrow> unat c = owners s raw p"
    using r(1) by (auto simp: object_refs_def)
  moreover have "count_list (deleted (objs s)) p + (if owners s raw p > 0 then 1 else 0) = count_list ops (MakeRef p)"
    using inv(2) r(1) by (simp add: object.created_def object_deletions_def)
  ultimately show ?thesis
    using object.exec_good [OF inv(1)] by blast
qed

theorem ref_ptr_ownership_witness:
  "\<exists>s raw. ref_steps [MakeRef 8, AddRefVar 0, Reset 0] s raw \<and>
    counters (objs s) 8 = Some 1 \<and> owners s raw 8 = 1 \<and> count_list (deleted (objs s)) 8 = 0"
proof -
  have start: "ref_steps [] ref_start (\<lambda>_. 0)" by (rule steps_start)
  let ?s1 = "\<lparr>objs = \<lparr>counters = (\<lambda>_. None)(8 \<mapsto> 1), deleted = []\<rparr>, px = [Some 8]\<rparr>"
  let ?s2 = "\<lparr>objs = \<lparr>counters = (\<lambda>_. None)(8 \<mapsto> 2), deleted = []\<rparr>, px = [Some 8, Some 8]\<rparr>"
  let ?s3 = "\<lparr>objs = \<lparr>counters = (\<lambda>_. None)(8 \<mapsto> 1), deleted = []\<rparr>, px = [Some 0, Some 8]\<rparr>"
  have "ref_steps ([] @ [MakeRef 8]) ?s1 (raw_after ref_start (\<lambda>_. 0) (MakeRef 8))"
    by (rule steps_op [OF start]) (simp_all add: ref_start_def owners_def make_ref_def on_objs_def RefObject_def
        ref_ptr_add_ref_def ref_ptr_construct_def bind_sm_def)
  then have "ref_steps ([MakeRef 8] @ [AddRefVar 0]) ?s2 (raw_after ?s1 (\<lambda>_. 0) (AddRefVar 0))"
    by (intro steps_op) (simp_all add: owners_def var_ok_def max_object_refs_def add_ref_var_def unless_null_def
        on_objs_def get_px_def ref_ptr_add_ref_def ref_ptr_construct_def bind_sm_def)
  then have s3: "ref_steps ([MakeRef 8, AddRefVar 0] @ [Reset 0]) ?s3 (raw_after ?s2 (\<lambda>_. 0) (Reset 0))"
    by (intro steps_op) (simp_all add: var_ok_def ref_ptr_reset_def on_objs_def get_px_def set_px_def
        ref_ptr_release_ref_def delete_thunk_Delete_def bind_sm_def)
  then show ?thesis
    using ref_ptr_ownership [OF s3, of 8]
    by (intro exI [of _ ?s3] exI [of _ "\<lambda>_. 0"]) (simp add: owners_def)
qed

text \<open>
  C20. Nothing leaks: from every state a program reaches, as many steps as there are live variables and
  raw references, each the destruction of a variable or the release of a raw reference, lead to a
  state without live objects, in which every object was deleted as often as it was created.
\<close>

theorem ref_ptr_drains:
  assumes "ref_steps ops s raw"
  shows "\<exists>ops' s' raw'. length ops' = live_vars s + raw_total raw \<and> list_all gives_back ops' \<and>
    ref_steps (ops @ ops') s' raw' \<and>
    (\<forall>p. p \<noteq> nullptr \<longrightarrow>
       counters (objs s') p = None \<and> count_list (deleted (objs s')) p = count_list ops (MakeRef p))"
proof -
  obtain ops' s' raw' where r: "\<forall>op \<in> set ops'. gives_back op"
    "length ops' = live_vars s + raw_total raw" "ref_steps (ops @ ops') s' raw'"
    "live_vars s' = 0" "raw_total raw' = 0"
    using drains [OF assms] by blast
  have inv: "object.balanced s' raw'"
    "p \<noteq> nullptr \<Longrightarrow> object.created (objs s') p = count_list (ops @ ops') (MakeRef p)" for p
    using ref_steps_invariant [OF r(3)] by auto
  have "counters (objs s') p = None \<and> count_list (deleted (objs s')) p = count_list ops (MakeRef p)"
    if p: "p \<noteq> nullptr" for p
  proof -
    have o: "object_refs (objs s') p = 0" "objects_ok (objs s')"
      using inv(1) p drained_no_owner [OF r(4,5) p] by (simp_all add: object.balanced_def)
    then have "counters (objs s') p = None"
      by (auto simp: object_refs_def objects_ok_def unat_eq_zero split: option.splits)
    moreover have "count_list ops' (MakeRef p) = 0" using r(1) by (auto simp: count_list_0_iff)
    ultimately show ?thesis using inv(2) [OF p] o(1) by (simp add: object.created_def object_deletions_def)
  qed
  then show ?thesis using r by (metis list_all_iff)
qed

theorem ref_ptr_drains_witness:
  "\<exists>ops' s' raw'. length ops' = 1 \<and> list_all gives_back ops' \<and> ref_steps ([MakeRef 8] @ ops') s' raw' \<and>
    counters (objs s') 8 = None \<and> count_list (deleted (objs s')) 8 = 1"
proof -
  let ?s1 = "\<lparr>objs = \<lparr>counters = (\<lambda>_. None)(8 \<mapsto> 1), deleted = []\<rparr>, px = [Some 8]\<rparr>"
  have "ref_steps ([] @ [MakeRef 8]) ?s1 (raw_after ref_start (\<lambda>_. 0) (MakeRef 8))"
    by (rule steps_op [OF steps_start]) (simp_all add: ref_start_def owners_def make_ref_def on_objs_def
        RefObject_def ref_ptr_add_ref_def ref_ptr_construct_def bind_sm_def)
  then have s1: "ref_steps [MakeRef 8] ?s1 (\<lambda>_. 0)" by simp
  have "live_vars ?s1 + raw_total (\<lambda>_. 0) = 1" by (simp add: live_vars_def raw_total_def)
  then obtain ops' s' raw' where r: "length ops' = 1" "list_all gives_back ops'"
    "ref_steps ([MakeRef 8] @ ops') s' raw'"
    "\<forall>p. p \<noteq> nullptr \<longrightarrow>
       counters (objs s') p = None \<and> count_list (deleted (objs s')) p = count_list [MakeRef 8] (MakeRef p)"
    using ref_ptr_drains [OF s1] by auto
  have "(8 :: ptr) \<noteq> nullptr" by simp
  with r(4) have "counters (objs s') 8 = None" "count_list (deleted (objs s')) 8 = 1" by auto
  then show ?thesis using r by blast
qed

end
