(* ===== verification/Uk_Common.thy ===== *)
theory Uk_Common
  imports Iree_Math "HOL-Library.Signed_Division"
begin

text \<open>
  \<open>iree/builtins/ukernel/common.h\<close>: the stand-alone helpers of the microkernels. Element types packed in
  8 bits and tuples of them, conversions of sizes, the replacements of \<open>memcpy\<close> and \<open>memset\<close>,
  logarithms, and the conversions between \<open>float\<close> and the 16-bit formats, which the header says are
  adapted from \<open>base/internal/math.h\<close> (theory \<open>Iree_Math\<close>) and which are compared with it here.
  \<open>iree_uk_index_t\<close> is a 64-bit signed integer, represented by its value. The build option
  \<open>IREE_UK_ENABLE_ASSERTS\<close> is the argument \<open>asserts\<close> of the functions that assert; a failed assertion,
  which hands over to a function of the embedding code, is the outcome \<open>AssertFailed\<close>. The
  detection of compilers and architectures and the prefetch hints have no counterpart.
\<close>

section \<open>Assertions, ranges and indices\<close>

definition IREE_UK_ASSERT :: "bool \<Rightarrow> bool \<Rightarrow> unit res" where
  "IREE_UK_ASSERT asserts cond = (if asserts \<and> \<not> cond then Inl AssertFailed else Inr ())"

text \<open>The macro at the type \<open>iree_uk_index_t\<close>; a shift by the width of the type is undefined.\<close>

definition IREE_UK_VALUE_IN_UNSIGNED_INT_RANGE :: "int \<Rightarrow> nat \<Rightarrow> bool res" where
  "IREE_UK_VALUE_IN_UNSIGNED_INT_RANGE val bit_count =
     (if val < 0 then Inr False
      else if 64 \<le> bit_count then Inl BadShift
      else Inr (drop_bit bit_count val = 0))"

definition iree_uk_all_bits_set :: "u64 \<Rightarrow> u64 \<Rightarrow> bool" where
  "iree_uk_all_bits_set val required_bits \<longleftrightarrow> val AND required_bits = required_bits"

type_synonym iree_uk_index_t = int

definition iree_uk_index_swap :: "iree_uk_index_t \<Rightarrow> iree_uk_index_t \<Rightarrow> iree_uk_index_t \<times> iree_uk_index_t" where
  "iree_uk_index_swap a b = (let t = a; a = b; b = t in (a, b))"

definition iree_uk_index_min :: "iree_uk_index_t \<Rightarrow> iree_uk_index_t \<Rightarrow> iree_uk_index_t" where
  "iree_uk_index_min a b = (if a \<le> b then a else b)"

definition iree_uk_index_max :: "iree_uk_index_t \<Rightarrow> iree_uk_index_t \<Rightarrow> iree_uk_index_t" where
  "iree_uk_index_max a b = (if b \<le> a then a else b)"

definition iree_uk_index_clamp ::
  "iree_uk_index_t \<Rightarrow> iree_uk_index_t \<Rightarrow> iree_uk_index_t \<Rightarrow> iree_uk_index_t" where
  "iree_uk_index_clamp val mn mx = iree_uk_index_min mx (iree_uk_index_max mn val)"

section \<open>Element types\<close>

type_synonym iree_uk_type_t = u8

definition IREE_UK_TYPE_CATEGORY_MASK :: u8 where "IREE_UK_TYPE_CATEGORY_MASK = 0xF0"
definition IREE_UK_TYPE_CATEGORY_NONE :: u8 where "IREE_UK_TYPE_CATEGORY_NONE = 0x00"
definition IREE_UK_TYPE_CATEGORY_OPAQUE :: u8 where "IREE_UK_TYPE_CATEGORY_OPAQUE = 0x10"
definition IREE_UK_TYPE_CATEGORY_INTEGER_SIGNLESS :: u8 where
  "IREE_UK_TYPE_CATEGORY_INTEGER_SIGNLESS = 0x20"
definition IREE_UK_TYPE_CATEGORY_INTEGER_SIGNED :: u8 where
  "IREE_UK_TYPE_CATEGORY_INTEGER_SIGNED = 0x30"
definition IREE_UK_TYPE_CATEGORY_INTEGER_UNSIGNED :: u8 where
  "IREE_UK_TYPE_CATEGORY_INTEGER_UNSIGNED = 0x40"
definition IREE_UK_TYPE_CATEGORY_FLOAT_BRAIN :: u8 where "IREE_UK_TYPE_CATEGORY_FLOAT_BRAIN = 0xE0"
definition IREE_UK_TYPE_CATEGORY_FLOAT_IEEE :: u8 where "IREE_UK_TYPE_CATEGORY_FLOAT_IEEE = 0xF0"
definition IREE_UK_TYPE_BIT_COUNT_LOG2_MASK :: u8 where "IREE_UK_TYPE_BIT_COUNT_LOG2_MASK = 0x07"

lemmas uk_masks [c_defs] =
  IREE_UK_TYPE_CATEGORY_MASK_def IREE_UK_TYPE_BIT_COUNT_LOG2_MASK_def IREE_UK_TYPE_CATEGORY_NONE_def
  IREE_UK_TYPE_CATEGORY_OPAQUE_def IREE_UK_TYPE_CATEGORY_INTEGER_SIGNLESS_def
  IREE_UK_TYPE_CATEGORY_INTEGER_SIGNED_def IREE_UK_TYPE_CATEGORY_INTEGER_UNSIGNED_def
  IREE_UK_TYPE_CATEGORY_FLOAT_BRAIN_def IREE_UK_TYPE_CATEGORY_FLOAT_IEEE_def

text \<open>The enumeration of the element types: the name of the enumerator and its value.\<close>

definition iree_uk_types :: "(string \<times> iree_uk_type_t) list" where
  "iree_uk_types =
     [(''NONE'', IREE_UK_TYPE_CATEGORY_NONE OR 0),
      (''OPAQUE_8'', IREE_UK_TYPE_CATEGORY_OPAQUE OR 3),
      (''OPAQUE_16'', IREE_UK_TYPE_CATEGORY_OPAQUE OR 4),
      (''OPAQUE_32'', IREE_UK_TYPE_CATEGORY_OPAQUE OR 5),
      (''OPAQUE_64'', IREE_UK_TYPE_CATEGORY_OPAQUE OR 6),
      (''INT_4'', IREE_UK_TYPE_CATEGORY_INTEGER_SIGNLESS OR 2),
      (''INT_8'', IREE_UK_TYPE_CATEGORY_INTEGER_SIGNLESS OR 3),
      (''INT_16'', IREE_UK_TYPE_CATEGORY_INTEGER_SIGNLESS OR 4),
      (''INT_32'', IREE_UK_TYPE_CATEGORY_INTEGER_SIGNLESS OR 5),
      (''INT_64'', IREE_UK_TYPE_CATEGORY_INTEGER_SIGNLESS OR 6),
      (''SINT_4'', IREE_UK_TYPE_CATEGORY_INTEGER_SIGNED OR 2),
      (''SINT_8'', IREE_UK_TYPE_CATEGORY_INTEGER_SIGNED OR 3),
      (''SINT_16'', IREE_UK_TYPE_CATEGORY_INTEGER_SIGNED OR 4),
      (''SINT_32'', IREE_UK_TYPE_CATEGORY_INTEGER_SIGNED OR 5),
      (''SINT_64'', IREE_UK_TYPE_CATEGORY_INTEGER_SIGNED OR 6),
      (''UINT_4'', IREE_UK_TYPE_CATEGORY_INTEGER_UNSIGNED OR 2),
      (''UINT_8'', IREE_UK_TYPE_CATEGORY_INTEGER_UNSIGNED OR 3),
      (''UINT_16'', IREE_UK_TYPE_CATEGORY_INTEGER_UNSIGNED OR 4),
      (''UINT_32'', IREE_UK_TYPE_CATEGORY_INTEGER_UNSIGNED OR 5),
      (''UINT_64'', IREE_UK_TYPE_CATEGORY_INTEGER_UNSIGNED OR 6),
      (''FLOAT_16'', IREE_UK_TYPE_CATEGORY_FLOAT_IEEE OR 4),
      (''FLOAT_32'', IREE_UK_TYPE_CATEGORY_FLOAT_IEEE OR 5),
      (''FLOAT_64'', IREE_UK_TYPE_CATEGORY_FLOAT_IEEE OR 6),
      (''BFLOAT_16'', IREE_UK_TYPE_CATEGORY_FLOAT_BRAIN OR 4)]"

definition iree_uk_type_category :: "iree_uk_type_t \<Rightarrow> u8" where
  "iree_uk_type_category t = t AND IREE_UK_TYPE_CATEGORY_MASK"

definition iree_uk_type_bit_count_log2 :: "iree_uk_type_t \<Rightarrow> int" where
  "iree_uk_type_bit_count_log2 t = uint (t AND IREE_UK_TYPE_BIT_COUNT_LOG2_MASK)"

definition iree_uk_type_mutate_category :: "iree_uk_type_t \<Rightarrow> u8 \<Rightarrow> u8" where
  "iree_uk_type_mutate_category t new_category =
     new_category OR word_of_int (iree_uk_type_bit_count_log2 t)"

definition iree_uk_type_is_integer :: "iree_uk_type_t \<Rightarrow> bool" where
  "iree_uk_type_is_integer t =
     (let c = iree_uk_type_category t
      in c = IREE_UK_TYPE_CATEGORY_INTEGER_SIGNLESS \<or> c = IREE_UK_TYPE_CATEGORY_INTEGER_SIGNED \<or>
         c = IREE_UK_TYPE_CATEGORY_INTEGER_UNSIGNED)"

definition iree_uk_integer_type_as_signless :: "bool \<Rightarrow> iree_uk_type_t \<Rightarrow> u8 res" where
  "iree_uk_integer_type_as_signless asserts t =
     bind_res (IREE_UK_ASSERT asserts (iree_uk_type_is_integer t)) (\<lambda>_.
     Inr (iree_uk_type_mutate_category t IREE_UK_TYPE_CATEGORY_INTEGER_SIGNLESS))"

definition iree_uk_integer_type_as_signed :: "bool \<Rightarrow> iree_uk_type_t \<Rightarrow> u8 res" where
  "iree_uk_integer_type_as_signed asserts t =
     bind_res (IREE_UK_ASSERT asserts (iree_uk_type_is_integer t)) (\<lambda>_.
     Inr (iree_uk_type_mutate_category t IREE_UK_TYPE_CATEGORY_INTEGER_SIGNED))"

definition iree_uk_integer_type_as_unsigned :: "bool \<Rightarrow> iree_uk_type_t \<Rightarrow> u8 res" where
  "iree_uk_integer_type_as_unsigned asserts t =
     bind_res (IREE_UK_ASSERT asserts (iree_uk_type_is_integer t)) (\<lambda>_.
     Inr (iree_uk_type_mutate_category t IREE_UK_TYPE_CATEGORY_INTEGER_UNSIGNED))"

text \<open>The result is negative for a type of less than 8 bits when assertions are disabled.\<close>

definition iree_uk_type_size_log2 :: "bool \<Rightarrow> iree_uk_type_t \<Rightarrow> int res" where
  "iree_uk_type_size_log2 asserts t =
     (let bit_count_log2 = iree_uk_type_bit_count_log2 t
      in bind_res (IREE_UK_ASSERT asserts (3 \<le> bit_count_log2)) (\<lambda>_. Inr (bit_count_log2 - 3)))"

text \<open>\<open>1 << n\<close> for an \<open>int\<close>, undefined when \<open>n\<close> is negative or the result does not fit.\<close>

definition c_one_shl :: "int \<Rightarrow> int res" where
  "c_one_shl n = (if 0 \<le> n \<and> n < 31 then Inr (2 ^ nat n) else Inl BadShift)"

definition iree_uk_type_bit_count :: "iree_uk_type_t \<Rightarrow> int res" where
  "iree_uk_type_bit_count t = c_one_shl (iree_uk_type_bit_count_log2 t)"

definition iree_uk_type_size :: "bool \<Rightarrow> iree_uk_type_t \<Rightarrow> int res" where
  "iree_uk_type_size asserts t = bind_res (iree_uk_type_size_log2 asserts t) c_one_shl"

definition iree_uk_bits_to_bytes_rounding_up :: "iree_uk_index_t \<Rightarrow> iree_uk_index_t res" where
  "iree_uk_bits_to_bytes_rounding_up bits =
     (if bits + 7 \<ge> 2 ^ 63 then Inl SignedOverflow else Inr ((bits + 7) sdiv 8))"

definition iree_uk_bits_to_bytes_exact :: "bool \<Rightarrow> iree_uk_index_t \<Rightarrow> iree_uk_index_t res" where
  "iree_uk_bits_to_bytes_exact asserts bits =
     bind_res (IREE_UK_ASSERT asserts (bits smod 8 = 0)) (\<lambda>_. Inr (bits sdiv 8))"

section \<open>Tuples of types\<close>

text \<open>The arithmetic of the macros is that of \<open>int\<close>, into which the types are promoted.\<close>

definition IREE_UK_TIE_2_TYPES :: "int \<Rightarrow> int \<Rightarrow> int" where
  "IREE_UK_TIE_2_TYPES T0 T1 = T0 + push_bit 8 T1"

definition IREE_UK_TIE_3_TYPES :: "int \<Rightarrow> int \<Rightarrow> int \<Rightarrow> int" where
  "IREE_UK_TIE_3_TYPES T0 T1 T2 = T0 + push_bit 8 T1 + push_bit 16 T2"

definition iree_uk_tie_2_types :: "iree_uk_type_t \<Rightarrow> iree_uk_type_t \<Rightarrow> u32" where
  "iree_uk_tie_2_types t0 t1 = word_of_int (IREE_UK_TIE_2_TYPES (uint t0) (uint t1))"

definition iree_uk_tie_3_types :: "iree_uk_type_t \<Rightarrow> iree_uk_type_t \<Rightarrow> iree_uk_type_t \<Rightarrow> u32" where
  "iree_uk_tie_3_types t0 t1 t2 = word_of_int (IREE_UK_TIE_3_TYPES (uint t0) (uint t1) (uint t2))"

definition iree_uk_untie_type :: "int \<Rightarrow> u32 \<Rightarrow> iree_uk_type_t res" where
  "iree_uk_untie_type pos w =
     (if 0 \<le> 8 * pos \<and> 8 * pos < 32 then Inr (ucast (drop_bit (nat (8 * pos)) w AND 0xFF))
      else Inl BadShift)"

section \<open>memcpy and memset\<close>

text \<open>
  The loops of the replacements. Source and destination are distinct objects (both pointers are
  \<open>restrict\<close>); an access past the end of either is \<open>OutOfBounds\<close>.
\<close>

function uk_memcpy_loop :: "u8 list \<Rightarrow> u8 list \<Rightarrow> iree_uk_index_t \<Rightarrow> iree_uk_index_t \<Rightarrow> u8 list res" where
  "uk_memcpy_loop dst src sz i =
     (if i < sz
      then if nat i < length dst \<and> nat i < length src
           then uk_memcpy_loop (dst[nat i := src ! nat i]) src sz (i + 1)
           else Inl OutOfBounds
      else Inr dst)"
  by pat_completeness auto
termination by (relation "measure (\<lambda>(dst, src, sz, i). nat (sz - i))") auto

definition iree_uk_memcpy :: "u8 list \<Rightarrow> u8 list \<Rightarrow> iree_uk_index_t \<Rightarrow> u8 list res" where
  "iree_uk_memcpy dst src sz = uk_memcpy_loop dst src sz 0"

function uk_memset_loop :: "u8 list \<Rightarrow> int \<Rightarrow> iree_uk_index_t \<Rightarrow> iree_uk_index_t \<Rightarrow> u8 list res" where
  "uk_memset_loop buf val n i =
     (if i < n
      then if nat i < length buf
           then uk_memset_loop (buf[nat i := word_of_int val]) val n (i + 1)
           else Inl OutOfBounds
      else Inr buf)"
  by pat_completeness auto
termination by (relation "measure (\<lambda>(buf, val, n, i). nat (n - i))") auto

definition iree_uk_memset :: "u8 list \<Rightarrow> int \<Rightarrow> iree_uk_index_t \<Rightarrow> u8 list res" where
  "iree_uk_memset buf val n = uk_memset_loop buf val n 0"

declare uk_memcpy_loop.simps [simp del] uk_memset_loop.simps [simp del]

section \<open>Logarithms\<close>

text \<open>The built-in is undefined for 0, which is handled before it.\<close>

definition iree_uk_count_leading_zeros_u32 :: "u32 \<Rightarrow> int" where
  "iree_uk_count_leading_zeros_u32 n = (if n = 0 then 32 else int (builtin_clz n))"

definition iree_uk_is_po2_u32 :: "u32 \<Rightarrow> bool" where
  "iree_uk_is_po2_u32 n \<longleftrightarrow> \<not> (n AND (n - 1) \<noteq> 0)"

definition iree_uk_floor_log2_u32 :: "u32 \<Rightarrow> int" where
  "iree_uk_floor_log2_u32 n = 31 - iree_uk_count_leading_zeros_u32 n"

definition iree_uk_po2_log2_u32 :: "bool \<Rightarrow> u32 \<Rightarrow> int res" where
  "iree_uk_po2_log2_u32 asserts n =
     bind_res (IREE_UK_ASSERT asserts (iree_uk_is_po2_u32 n)) (\<lambda>_. Inr (iree_uk_floor_log2_u32 n))"

definition iree_uk_ceil_log2_u32 :: "u32 \<Rightarrow> int" where
  "iree_uk_ceil_log2_u32 n = (if n \<le> 1 then 0 else 1 + iree_uk_floor_log2_u32 (n - 1))"

section \<open>Conversions of floating-point formats\<close>

definition IREE_UK_FP_FORMAT_CONSTANTS :: "nat \<Rightarrow> nat \<Rightarrow> fp_format" where
  "IREE_UK_FP_FORMAT_CONSTANTS bits ebits = \<lparr>exp_bits = ebits, mantissa_bits = bits - 1 - ebits\<rparr>"

definition iree_uk_generic_fp16_to_f32 :: "u16 \<Rightarrow> nat \<Rightarrow> u32 res" where
  "iree_uk_generic_fp16_to_f32 f16_value ebits =
     (let f16 = IREE_UK_FP_FORMAT_CONSTANTS 16 ebits;
          f32 = IREE_UK_FP_FORMAT_CONSTANTS 32 8;
          v = ucast f16_value;
          f16_sign = v AND fp_sign_mask f16;
          f32_sign = push_bit (fp_sign_shift f32 - fp_sign_shift f16) f16_sign;
          f16_exp = v AND fp_exp_mask f16;
          f16_mantissa = v AND fp_mantissa_mask f16
      in if f16_exp = fp_exp_mask f16
         then Inr (f32_sign OR fp_exp_mask f32 OR (if f16_mantissa \<noteq> 0 then fp_mantissa_mask f32 else 0))
         else if f16_exp = 0 then Inr (f32_sign OR 0 OR 0)
         else let arithmetic_f16_exp = uint (drop_bit (mantissa_bits f16) f16_exp);
                  arithmetic_f32_exp =
                    arithmetic_f16_exp + 2 ^ (exp_bits f32 - 1) - 2 ^ (exp_bits f16 - 1)
              in bind_res (c_shl_int arithmetic_f32_exp (mantissa_bits f32)) (\<lambda>f32_exp.
                 Inr (f32_sign OR f32_exp OR
                      push_bit (mantissa_bits f32 - mantissa_bits f16) f16_mantissa)))"

definition iree_uk_f32_to_generic_fp16 :: "u32 \<Rightarrow> nat \<Rightarrow> u16 res" where
  "iree_uk_f32_to_generic_fp16 u32_value ebits =
     (let f16 = IREE_UK_FP_FORMAT_CONSTANTS 16 ebits;
          f32 = IREE_UK_FP_FORMAT_CONSTANTS 32 8;
          f32_sign = u32_value AND fp_sign_mask f32;
          f16_sign = drop_bit (fp_sign_shift f32 - fp_sign_shift f16) f32_sign;
          f32_exp = u32_value AND fp_exp_mask f32;
          f32_mantissa = u32_value AND fp_mantissa_mask f32
      in if f32_exp = fp_exp_mask f32
         then Inr (ucast (f16_sign OR fp_exp_mask f16 OR
                (if f32_mantissa \<noteq> 0 then fp_mantissa_mask f16 else 0)))
         else if f32_exp = 0 then Inr (ucast (f16_sign OR 0 OR 0))
         else let arithmetic_exp = uint (drop_bit (mantissa_bits f32) f32_exp) - 2 ^ (exp_bits f32 - 1)
              in if arithmetic_exp \<ge> 2 ^ (exp_bits f16 - 1) then Inr (ucast (f16_sign OR fp_exp_mask f16 OR 0))
                 else if arithmetic_exp < - (2 ^ (exp_bits f16 - 1)) then Inr (ucast (f16_sign OR 0 OR 0))
                 else let even_bit = push_bit (mantissa_bits f32 - mantissa_bits f16) (1 :: u32);
                          odd_bit = drop_bit 1 even_bit;
                          biased = f32_mantissa +
                            (if f32_mantissa AND even_bit \<noteq> 0 then odd_bit else odd_bit - 1);
                          carry = biased > fp_mantissa_mask f32;
                          biased = (if carry then 0 else biased);
                          arithmetic_exp = (if carry then arithmetic_exp + 1 else arithmetic_exp)
                      in bind_res (c_shl_int (arithmetic_exp + 2 ^ (exp_bits f16 - 1)) (mantissa_bits f16))
                           (\<lambda>f16_exp. Inr (ucast (f16_sign OR f16_exp OR
                              drop_bit (mantissa_bits f32 - mantissa_bits f16) biased))))"

definition iree_uk_f16_to_f32 :: "u16 \<Rightarrow> u32 res" where
  "iree_uk_f16_to_f32 f16_value = iree_uk_generic_fp16_to_f32 f16_value 5"

definition iree_uk_f32_to_f16 :: "u32 \<Rightarrow> u16 res" where
  "iree_uk_f32_to_f16 v = iree_uk_f32_to_generic_fp16 v 5"

definition iree_uk_bf16_to_f32 :: "u16 \<Rightarrow> u32 res" where
  "iree_uk_bf16_to_f32 bf16_value = iree_uk_generic_fp16_to_f32 bf16_value 8"

definition iree_uk_f32_to_bf16 :: "u32 \<Rightarrow> u16 res" where
  "iree_uk_f32_to_bf16 v = iree_uk_f32_to_generic_fp16 v 8"

section \<open>Index helpers and memory loops\<close>

lemma index_clamp_within:
  "mn \<le> mx \<Longrightarrow> mn \<le> iree_uk_index_clamp v mn mx \<and> iree_uk_index_clamp v mn mx \<le> mx"
  "mn \<le> v \<Longrightarrow> v \<le> mx \<Longrightarrow> iree_uk_index_clamp v mn mx = v"
  by (simp_all add: iree_uk_index_clamp_def iree_uk_index_min_def iree_uk_index_max_def)

lemma index_clamp_empty_range: "mx < mn \<Longrightarrow> iree_uk_index_clamp v mn mx = mx"
  by (simp add: iree_uk_index_clamp_def iree_uk_index_min_def iree_uk_index_max_def)

lemma uk_memcpy_loop_copies:
  "k \<le> m \<Longrightarrow>
     uk_memcpy_loop dst src (int m) (int k) =
       (if k = m \<or> m \<le> length dst \<and> m \<le> length src
        then Inr (take k dst @ take (m - k) (drop k src) @ drop m dst) else Inl OutOfBounds)"
proof (induction "m - k" arbitrary: k dst)
  case 0
  then show ?case by (simp add: uk_memcpy_loop.simps)
next
  case (Suc d)
  then have k: "k < m" "d = m - Suc k" by simp_all
  show ?case
  proof (cases "k < length dst \<and> k < length src")
    case False
    then show ?thesis using k by (subst uk_memcpy_loop.simps) auto
  next
    case True
    have step: "uk_memcpy_loop dst src (int m) (int k) =
        uk_memcpy_loop (dst[k := src ! k]) src (int m) (int (Suc k))"
      using k True by (subst uk_memcpy_loop.simps) (simp add: add.commute)
    have "take (m - k) (drop k src) = src ! k # take (m - Suc k) (drop (Suc k) src)"
      using True k by (metis Cons_nth_drop_Suc Suc_diff_Suc take_Suc_Cons)
    moreover have "take (Suc k) (dst[k := src ! k]) = take k dst @ [src ! k]"
      using True by (simp add: take_Suc_conv_app_nth)
    moreover have "drop m (dst[k := src ! k]) = drop m dst" using k by simp
    ultimately show ?thesis
      unfolding step using Suc.hyps(1) [of "Suc k" "dst[k := src ! k]"] k True by auto
  qed
qed

lemma memcpy_spec:
  "0 \<le> sz \<Longrightarrow> iree_uk_memcpy dst src sz =
     (if nat sz \<le> length dst \<and> nat sz \<le> length src
      then Inr (take (nat sz) src @ drop (nat sz) dst) else Inl OutOfBounds)"
  "sz < 0 \<Longrightarrow> iree_uk_memcpy dst src sz = Inr dst"
  using uk_memcpy_loop_copies [of 0 "nat sz" dst src]
  by (auto simp: iree_uk_memcpy_def uk_memcpy_loop.simps)

lemma uk_memset_loop_fills:
  "k \<le> m \<Longrightarrow>
     uk_memset_loop buf v (int m) (int k) =
       (if k = m \<or> m \<le> length buf
        then Inr (take k buf @ replicate (m - k) (word_of_int v) @ drop m buf) else Inl OutOfBounds)"
proof (induction "m - k" arbitrary: k buf)
  case 0
  then show ?case by (simp add: uk_memset_loop.simps)
next
  case (Suc d)
  then have k: "k < m" "d = m - Suc k" by simp_all
  show ?case
  proof (cases "k < length buf")
    case False
    then show ?thesis using k by (subst uk_memset_loop.simps) auto
  next
    case True
    let ?b = "buf[k := word_of_int v]"
    have step: "uk_memset_loop buf v (int m) (int k) = uk_memset_loop ?b v (int m) (int (Suc k))"
      using k True by (subst uk_memset_loop.simps) (simp add: add.commute)
    have "replicate (m - k) (word_of_int v :: u8) = word_of_int v # replicate (m - Suc k) (word_of_int v)"
      using k by (metis Suc_diff_Suc replicate_Suc)
    moreover have "take (Suc k) ?b = take k buf @ [word_of_int v]"
      using True by (simp add: take_Suc_conv_app_nth)
    moreover have "drop m ?b = drop m buf" using k by simp
    ultimately show ?thesis
      unfolding step using Suc.hyps(1) [of "Suc k" ?b] k True by auto
  qed
qed

lemma memset_spec:
  "0 \<le> n \<Longrightarrow> iree_uk_memset buf v n =
     (if nat n \<le> length buf then Inr (replicate (nat n) (word_of_int v) @ drop (nat n) buf)
      else Inl OutOfBounds)"
  using uk_memset_loop_fills [of 0 "nat n" buf v] by (auto simp: iree_uk_memset_def uk_memset_loop.simps)

section \<open>Logarithms\<close>

lemma highest_bit_exists:
  assumes "(n :: 'a::len word) \<noteq> 0"
  obtains k where "k < LENGTH('a)" "bit n k" "\<And>i. k < i \<Longrightarrow> \<not> bit n i"
proof -
  obtain j where j: "bit n j" using assms by (metis bit_eqI bit_0_eq bot_apply bot_bool_def)
  let ?k = "GREATEST i. bit n i"
  have b: "\<forall>i. bit n i \<longrightarrow> i \<le> LENGTH('a)" by (auto dest: bit_imp_le_length)
  have "bit n ?k" by (rule GreatestI_nat [of _ j "LENGTH('a)"]) (use j b in auto)
  moreover have "i \<le> ?k" if "bit n i" for i by (rule Greatest_le_nat [of _ i "LENGTH('a)"]) (use that b in auto)
  ultimately show thesis
    by (intro that [of ?k]) (auto dest: bit_imp_le_length simp: not_le [symmetric])
qed

lemma builtin_clz_highest:
  assumes "k < LENGTH('a)" "bit n k" "\<And>i. k < i \<Longrightarrow> \<not> bit n i"
  shows "builtin_clz (n :: 'a::len word) = LENGTH('a) - 1 - k"
proof -
  obtain d where d: "LENGTH('a) = k + Suc d" using assms(1) by (metis less_imp_Suc_add add_Suc_right)
  have "[0..<LENGTH('a)] = [0..<k] @ k # [Suc k..<LENGTH('a)]"
    unfolding d using upt_add_eq_append [of 0 k "Suc d"] upt_Cons_Suc [of k d] by simp
  then have "takeWhile (\<lambda>i. \<not> bit n i) (rev [0..<LENGTH('a)]) = rev [Suc k..<LENGTH('a)]"
    using assms(2,3) by (simp add: takeWhile_append)
  then show ?thesis by (simp add: builtin_clz_def)
qed

lemma highest_bit_bounds:
  assumes "bit n k" "\<And>i. k < i \<Longrightarrow> \<not> bit n i"
  shows "2 ^ k \<le> unat (n :: 'a::len word)" "unat n < 2 ^ Suc k"
proof -
  have "n = take_bit (Suc k) n"
    using assms(2) by (intro bit_word_eqI) (use not_less_eq in \<open>auto simp: bit_simps\<close>)
  then have "unat n = take_bit (Suc k) (unat n)" by (metis unsigned_take_bit_eq)
  then show "unat n < 2 ^ Suc k" by (metis take_bit_nat_less_exp)
  have "odd (unat n div 2 ^ k)" using assms(1) by (simp add: bit_word_iff_nat)
  then show "2 ^ k \<le> unat n" by (metis div_less even_zero linorder_not_less)
qed

lemma floor_log2_bounds:
  assumes "n \<noteq> 0"
  shows "\<exists>k < 32. iree_uk_floor_log2_u32 n = int k \<and> 2 ^ k \<le> unat n \<and> unat n < 2 ^ Suc k"
proof -
  obtain k where k: "k < LENGTH(32)" "bit n k" "\<And>i. k < i \<Longrightarrow> \<not> bit n i"
    by (rule highest_bit_exists [OF assms]) blast
  have "iree_uk_floor_log2_u32 n = int k"
    using builtin_clz_highest [OF k] k(1) assms
    by (simp add: iree_uk_floor_log2_u32_def iree_uk_count_leading_zeros_u32_def)
  then show ?thesis using highest_bit_bounds [OF k(2,3)] k(1) by auto
qed

lemma floor_log2_zero: "iree_uk_floor_log2_u32 0 = -1"
  by (simp add: iree_uk_floor_log2_u32_def iree_uk_count_leading_zeros_u32_def)

lemma ceil_log2_least:
  "\<exists>k \<le> 32. iree_uk_ceil_log2_u32 n = int k \<and> unat n \<le> 2 ^ k \<and> (\<forall>j. unat n \<le> 2 ^ j \<longrightarrow> k \<le> j)"
proof (cases "n \<le> 1")
  case True
  then have "unat n \<le> 1" by (simp add: word_le_nat_alt)
  then show ?thesis using True by (intro exI [of _ 0]) (simp add: iree_uk_ceil_log2_u32_def)
next
  case False
  then have u: "1 < unat n" by (simp add: word_le_nat_alt)
  then have "n \<noteq> 0" by auto
  then have n1: "unat (n - 1) = unat n - 1" by (simp add: unat_minus_one)
  then have "n - 1 \<noteq> 0" using u by (metis unat_0 zero_less_diff less_numeral_extra(3))
  then obtain k where k: "k < 32" "iree_uk_floor_log2_u32 (n - 1) = int k"
      "2 ^ k \<le> unat n - 1" "unat n - 1 < 2 ^ Suc k"
    using floor_log2_bounds [of "n - 1"] n1 by auto
  have "Suc k \<le> j" if "unat n \<le> 2 ^ j" for j
  proof -
    have "(2 :: nat) ^ k < 2 ^ j" using k(3) u that by linarith
    then show ?thesis by simp
  qed
  then show ?thesis
    using False k u by (intro exI [of _ "Suc k"]) (auto simp: iree_uk_ceil_log2_u32_def)
qed

lemma is_po2_iff: "iree_uk_is_po2_u32 n \<longleftrightarrow> n = 0 \<or> (\<exists>k < 32. n = 2 ^ k)"
  using and_minus_one_eq_0_iff [of n] by (auto simp: iree_uk_is_po2_u32_def)

section \<open>Comparison with the conversions of the base library\<close>

lemma uk_formats [simp]:
  "IREE_UK_FP_FORMAT_CONSTANTS 32 8 = f32_format"
  "IREE_UK_FP_FORMAT_CONSTANTS 16 5 = f16_format"
  "IREE_UK_FP_FORMAT_CONSTANTS 16 8 = bf16_format"
  by (simp_all add: IREE_UK_FP_FORMAT_CONSTANTS_def f32_format_def f16_format_def bf16_format_def)

lemma uk_widening_same:
  "iree_uk_f16_to_f32 x = iree_math_f16_to_f32 x"
  "iree_uk_bf16_to_f32 x = iree_math_bf16_to_f32 x"
  by (simp_all add: iree_uk_f16_to_f32_def iree_math_f16_to_f32_def iree_uk_bf16_to_f32_def
      iree_math_bf16_to_f32_def iree_uk_generic_fp16_to_f32_def iree_math_make_f32_from_bits_def Let_def)

lemma f32_exp_cases:
  "fp_exp_mask f32_format \<le> push_bit 23 (fp_exp f32_format v) \<longleftrightarrow> uint (fp_exp f32_format v) = 255"
  "push_bit 23 (fp_exp f32_format v) = fp_exp_mask f32_format \<longleftrightarrow> uint (fp_exp f32_format v) = 255"
  "push_bit 23 (fp_exp f32_format v) = 0 \<longleftrightarrow> uint (fp_exp f32_format v) = 0"
  "drop_bit 23 (push_bit 23 (fp_exp f32_format v)) = fp_exp f32_format v"
proof -
  note e = f32.exp_field [of v] f32.uint_exp_mask
  show d: "drop_bit 23 (push_bit 23 (fp_exp f32_format v)) = fp_exp f32_format v" using e by simp
  show i: "push_bit 23 (fp_exp f32_format v) = fp_exp_mask f32_format \<longleftrightarrow> uint (fp_exp f32_format v) = 255"
    using e by (simp add: word_uint_eq_iff)
  show "push_bit 23 (fp_exp f32_format v) = 0 \<longleftrightarrow> uint (fp_exp f32_format v) = 0"
    using e by (simp add: word_uint_eq_iff)
  show "fp_exp_mask f32_format \<le> push_bit 23 (fp_exp f32_format v) \<longleftrightarrow> uint (fp_exp f32_format v) = 255"
    using i fp_fields(1) [of v f32_format] word_and_le1 [of v "fp_exp_mask f32_format"]
    by (metis f32_format_sel(2) order_antisym order_refl)
qed

lemma uk_narrowing_generic:
  assumes f: "IREE_UK_FP_FORMAT_CONSTANTS 16 eb = f" "exp_bits f = eb" "eb \<le> 8" "1 \<le> eb"
    and v: "uint (fp_exp f32_format v) = 255 \<or>
      uint (fp_exp f32_format v) \<notin> {127 - 2 ^ (eb - 1), 127 + 2 ^ (eb - 1)}"
  shows "iree_uk_f32_to_generic_fp16 v eb =
     bind_res (iree_math_truncate_f32_to_bits_rounding_to_nearest_even v f True) (\<lambda>b. Inr (ucast b))"
proof -
  let ?E = "uint (fp_exp f32_format v)" and ?H = "2 ^ (eb - 1) :: int"
  consider "?E = 255" | "?E = 0" "?E \<noteq> 255" | "?E \<noteq> 0" "?E \<noteq> 255" by blast
  then show ?thesis
  proof cases
    case 1
    then show ?thesis
      unfolding iree_uk_f32_to_generic_fp16_def f uk_formats
        iree_math_truncate_f32_to_bits_rounding_to_nearest_even_def Let_def fp_fields
        f32_format_sel f32_exp_cases by simp
  next
    case 2
    then show ?thesis
      unfolding iree_uk_f32_to_generic_fp16_def f uk_formats
        iree_math_truncate_f32_to_bits_rounding_to_nearest_even_def Let_def fp_fields
        f32_format_sel f32_exp_cases by simp
  next
    case 3
    then have ne: "?E \<noteq> 127 - ?H" "?E \<noteq> 127 + ?H" using v by auto
    have b: "fp_exp_bias f = 2 ^ (eb - Suc 0) - 1" using f(2) by (simp add: fp_exp_bias_def)
    have h: "(0 :: int) < 2 ^ (eb - Suc 0)" by simp
    consider "127 + ?H < ?E" | "?E < 127 - ?H" "\<not> 126 + ?H < ?E"
      | "127 - ?H < ?E" "?E < 127 + ?H" using ne h by fastforce
    then show ?thesis
      unfolding iree_uk_f32_to_generic_fp16_def f uk_formats
        iree_math_truncate_f32_to_bits_rounding_to_nearest_even_def Let_def fp_fields
        f32_format_sel f32_exp_cases
      using 3 by cases (auto simp: f(2) b bind_res_assoc algebra_simps)
  qed
qed


text \<open>The results in the two binades where the exponent is rounded off by one.\<close>

lemma uk_f16_underflow:
  "uint (fp_exp f32_format v) = 111 \<Longrightarrow>
     iree_uk_f32_to_f16 v = Inr (push_bit 15 (of_bool (bit v 31)))"
  unfolding iree_uk_f32_to_f16_def iree_uk_f32_to_generic_fp16_def uk_formats Let_def fp_fields
    f32_format_sel f32_exp_cases
  by (simp add: fp_sign_def)

definition f16_rounding_bias :: "u32 \<Rightarrow> u32" where
  "f16_rounding_bias m = (if bit m 13 then 0x1000 else 0xFFF)"

lemma and_8192_iff: "(x :: u32) AND 8192 = 0 \<longleftrightarrow> \<not> bit x 13"
  using push_bit_1_and_eq_0_iff [of 13 x] by (simp add: and.commute)

lemma uk_f16_overflow_binade:
  assumes E: "uint (fp_exp f32_format v) = 143"
  defines "m \<equiv> fp_mantissa f32_format v"
  shows "iree_uk_f32_to_f16 v =
      Inr (if 0x7FFFFF < m + f16_rounding_bias m then 0x8000
           else push_bit 15 (of_bool (bit v 31)) OR 0x7C00 OR ucast (drop_bit 13 (m + f16_rounding_bias m)))"
proof -
  have k: "fp_mantissa_mask f32_format = 0x7FFFFF" by (simp add: fp_mantissa_mask_def)
  have c: "(ucast (push_bit 15 (of_bool (bit v 31)) OR (0x8000 :: u32)) :: u16) = 0x8000"
    by (cases "bit v 31") simp_all
  have s: "drop_bit 16 (push_bit 31 (of_bool (bit v 31) :: u32)) = push_bit 15 (of_bool (bit v 31))"
    by (cases "bit v 31") simp_all
  show ?thesis
    unfolding iree_uk_f32_to_f16_def iree_uk_f32_to_generic_fp16_def uk_formats Let_def fp_fields
      f32_format_sel f32_exp_cases narrow_format_sel E m_def [symmetric] k fp_sign_def
    using c by (simp add: f16_rounding_bias_def c_shl_int_def and_8192_iff s unsigned_or_eq
        unsigned_push_bit_eq)
qed

lemma math_f16_overflow_binade:
  "uint (fp_exp f32_format v) = 143 \<Longrightarrow>
     iree_math_f32_to_f16 v = Inr (push_bit 15 (of_bool (bit v 31)) OR 0x7C00)"
  unfolding iree_math_f32_to_f16_def iree_math_truncate_f32_to_bits_rounding_to_nearest_even_def
    Let_def fp_fields f32_format_sel f32_exp_cases narrow_format_sel
  by (cases "bit v 31") (simp_all add: fp_sign_def fp_exp_mask_def)

text \<open>The conversions of the microkernels never shift a negative exponent.\<close>

lemma uk_narrowing_total: "\<exists>w. iree_uk_f32_to_generic_fp16 v eb = Inr w"
  unfolding iree_uk_f32_to_generic_fp16_def Let_def
  by (auto simp: IREE_UK_FP_FORMAT_CONSTANTS_def c_shl_int_def)

lemma f32_mantissa_less: "unat (fp_mantissa f32_format v) < 0x800000"
proof -
  have "unat (take_bit 23 v) < 2 ^ 23" by (simp only: unsigned_take_bit_eq) (rule take_bit_nat_less_exp)
  then show ?thesis by (simp add: fp_mantissa_def)
qed

lemma rounded_mantissa:
  fixes m :: u32
  assumes "unat m < 0x800000"
  defines "r \<equiv> m + f16_rounding_bias m"
  shows "0x7FFFFF < r \<longleftrightarrow> 0x7FF000 \<le> unat m"
    and "\<not> 0x7FFFFF < r \<Longrightarrow> unat (drop_bit 13 r) < 0x400"
    and "drop_bit 13 r = 0 \<longleftrightarrow> unat m \<le> 0x1000"
proof -
  have b: "bit m 13 \<longleftrightarrow> odd (unat m div 8192)" by (simp add: bit_word_iff_nat)
  have ub: "unat (f16_rounding_bias m) = (if bit m 13 then 4096 else 4095)"
    by (simp add: f16_rounding_bias_def)
  then have u: "unat r = unat m + (if bit m 13 then 4096 else 4095)"
  proof -
    have "unat m + unat (f16_rounding_bias m) < 2 ^ LENGTH(32)" using assms(1) ub by simp
    then have "unat r = unat m + unat (f16_rounding_bias m)" unfolding r_def by (simp only: unat_add_lem)
    then show ?thesis by (simp only: ub)
  qed
  show c: "0x7FFFFF < r \<longleftrightarrow> 0x7FF000 \<le> unat m"
  proof (cases "unat m div 8192 = 1023")
    case True
    then show ?thesis unfolding word_less_nat_alt u b by auto
  next
    case False
    then have "unat m div 8192 < 1023" using assms(1) by (simp add: less_mult_imp_div_less)
    then have "unat m < 8380416" by (simp add: div_less_iff_less_mult)
    then show ?thesis unfolding word_less_nat_alt u by simp
  qed
  have d: "unat (drop_bit 13 r) = unat r div 8192"
    unfolding unat_drop_bit_eq by (simp add: drop_bit_eq_div)
  show "\<not> 0x7FFFFF < r \<Longrightarrow> unat (drop_bit 13 r) < 0x400"
    unfolding d word_less_nat_alt by simp
  have "drop_bit 13 r = 0 \<longleftrightarrow> unat r div 8192 = 0" by (simp only: word_unat_eq_iff d unat_0)
  also have "\<dots> \<longleftrightarrow> unat m \<le> 0x1000"
  proof (cases "unat m < 8192")
    case True
    then show ?thesis unfolding u b by auto
  next
    case False
    then show ?thesis unfolding u by (simp add: div_eq_0_iff)
  qed
  finally show "drop_bit 13 r = 0 \<longleftrightarrow> unat m \<le> 0x1000" .
qed

section \<open>Element types and tuples\<close>

lemma mutate_category_fields:
  assumes "c AND IREE_UK_TYPE_CATEGORY_MASK = c"
  shows "iree_uk_type_category (iree_uk_type_mutate_category t c) = c"
    and "iree_uk_type_bit_count_log2 (iree_uk_type_mutate_category t c) = iree_uk_type_bit_count_log2 t"
proof -
  have m: "(0xF0 :: u8) = push_bit 4 (mask 4)" "(0x07 :: u8) = mask 3"
    by (simp_all add: mask_eq_exp_minus_1)
  have c: "4 \<le> k" if "bit c k" for k
  proof -
    have "bit (c AND push_bit 4 (mask 4)) k" using assms that unfolding uk_masks m by simp
    then show ?thesis by (simp add: bit_simps)
  qed
  have w: "iree_uk_type_mutate_category t c = c OR (t AND 0x07)"
    by (simp add: iree_uk_type_mutate_category_def iree_uk_type_bit_count_log2_def uk_masks)
  show "iree_uk_type_category (iree_uk_type_mutate_category t c) = c"
    unfolding iree_uk_type_category_def w uk_masks m
    by (rule bit_word_eqI) (auto simp: bit_simps dest: c)
  have "(c OR (t AND mask 3)) AND mask 3 = t AND mask 3"
    by (rule bit_word_eqI) (auto simp: bit_simps dest: c)
  then show "iree_uk_type_bit_count_log2 (iree_uk_type_mutate_category t c) = iree_uk_type_bit_count_log2 t"
    unfolding iree_uk_type_bit_count_log2_def w uk_masks m by simp
qed

lemma integer_categories:
  "IREE_UK_TYPE_CATEGORY_INTEGER_SIGNLESS AND IREE_UK_TYPE_CATEGORY_MASK = IREE_UK_TYPE_CATEGORY_INTEGER_SIGNLESS"
  "IREE_UK_TYPE_CATEGORY_INTEGER_SIGNED AND IREE_UK_TYPE_CATEGORY_MASK = IREE_UK_TYPE_CATEGORY_INTEGER_SIGNED"
  "IREE_UK_TYPE_CATEGORY_INTEGER_UNSIGNED AND IREE_UK_TYPE_CATEGORY_MASK = IREE_UK_TYPE_CATEGORY_INTEGER_UNSIGNED"
  by (simp_all add: uk_masks)

lemma integer_type_conversions:
  assumes "iree_uk_type_is_integer t"
  shows "\<exists>t'. iree_uk_integer_type_as_signless a t = Inr t' \<and> iree_uk_type_is_integer t' \<and>
      iree_uk_type_category t' = IREE_UK_TYPE_CATEGORY_INTEGER_SIGNLESS \<and>
      iree_uk_type_bit_count_log2 t' = iree_uk_type_bit_count_log2 t"
    and "\<exists>t'. iree_uk_integer_type_as_signed a t = Inr t' \<and> iree_uk_type_is_integer t' \<and>
      iree_uk_type_category t' = IREE_UK_TYPE_CATEGORY_INTEGER_SIGNED \<and>
      iree_uk_type_bit_count_log2 t' = iree_uk_type_bit_count_log2 t"
    and "\<exists>t'. iree_uk_integer_type_as_unsigned a t = Inr t' \<and> iree_uk_type_is_integer t' \<and>
      iree_uk_type_category t' = IREE_UK_TYPE_CATEGORY_INTEGER_UNSIGNED \<and>
      iree_uk_type_bit_count_log2 t' = iree_uk_type_bit_count_log2 t"
  using assms mutate_category_fields integer_categories
  by (simp_all add: iree_uk_integer_type_as_signless_def iree_uk_integer_type_as_signed_def
      iree_uk_integer_type_as_unsigned_def IREE_UK_ASSERT_def iree_uk_type_is_integer_def Let_def)

lemma type_conversion_asserts:
  "\<not> iree_uk_type_is_integer t \<Longrightarrow> iree_uk_integer_type_as_signed True t = Inl AssertFailed"
  by (simp add: iree_uk_integer_type_as_signed_def IREE_UK_ASSERT_def)

text \<open>The type of an enumerator determines its size; types of less than a byte have none.\<close>

lemma type_size_of_bits:
  "3 \<le> iree_uk_type_bit_count_log2 t \<Longrightarrow>
     \<exists>n. iree_uk_type_size a t = Inr n \<and> iree_uk_type_bit_count t = Inr (8 * n)"
proof -
  assume g: "3 \<le> iree_uk_type_bit_count_log2 t"
  have "iree_uk_type_bit_count_log2 t < 8"
    using word_and_le1 [of t 7] by (simp add: iree_uk_type_bit_count_log2_def uk_masks word_le_def)
  moreover have "(2 :: int) ^ nat b = 8 * 2 ^ nat (b - 3)" if "3 \<le> b" for b
  proof -
    have "nat b = 3 + nat (b - 3)" using that by simp
    then show ?thesis by (simp only: power_add) simp
  qed
  ultimately show ?thesis using g
    by (simp add: iree_uk_type_size_def iree_uk_type_size_log2_def iree_uk_type_bit_count_def
        IREE_UK_ASSERT_def c_one_shl_def Let_def)
qed

lemma type_size_sub_byte:
  "iree_uk_type_bit_count_log2 t < 3 \<Longrightarrow>
     iree_uk_type_size True t = Inl AssertFailed \<and> iree_uk_type_size False t = Inl BadShift"
  by (simp add: iree_uk_type_size_def iree_uk_type_size_log2_def IREE_UK_ASSERT_def c_one_shl_def Let_def)

lemma bits_to_bytes:
  assumes "0 \<le> bits" "bits + 7 < 2 ^ 63"
  shows "iree_uk_bits_to_bytes_rounding_up bits = Inr ((bits + 7) div 8)"
    and "iree_uk_bits_to_bytes_exact True bits = (if 8 dvd bits then Inr (bits div 8) else Inl AssertFailed)"
  using assms by (auto simp: sgn_if iree_uk_bits_to_bytes_rounding_up_def iree_uk_bits_to_bytes_exact_def
      IREE_UK_ASSERT_def signed_divide_int_def signed_modulo_int_def mod_eq_0_iff_dvd)

lemma tied_types:
  "iree_uk_tie_3_types t0 t1 t2 = ucast t0 OR push_bit 8 (ucast t1) OR push_bit 16 (ucast t2)"
  "iree_uk_tie_2_types t0 t1 = ucast t0 OR push_bit 8 (ucast t1)"
proof -
  have "(ucast t0 :: u32) AND push_bit 8 (ucast t1) = 0"
    by (rule bit_word_eqI) (auto simp: bit_simps dest: bit_imp_le_length)
  then have a: "(ucast t0 :: u32) + push_bit 8 (ucast t1) = ucast t0 OR push_bit 8 (ucast t1)"
    by (rule disjunctive_add_eq_or)
  have "((ucast t0 :: u32) OR push_bit 8 (ucast t1)) AND push_bit 16 (ucast t2) = 0"
    by (rule bit_word_eqI) (auto simp: bit_simps dest: bit_imp_le_length)
  then have b: "((ucast t0 :: u32) OR push_bit 8 (ucast t1)) + push_bit 16 (ucast t2) =
      (ucast t0 OR push_bit 8 (ucast t1)) OR push_bit 16 (ucast t2)"
    by (rule disjunctive_add_eq_or)
  have w: "word_of_int (uint t) = (ucast t :: u32)" for t :: u8 by simp
  show "iree_uk_tie_2_types t0 t1 = ucast t0 OR push_bit 8 (ucast t1)"
    unfolding iree_uk_tie_2_types_def IREE_UK_TIE_2_TYPES_def a [symmetric] by (simp add: push_bit_eq_mult)
  show "iree_uk_tie_3_types t0 t1 t2 = ucast t0 OR push_bit 8 (ucast t1) OR push_bit 16 (ucast t2)"
    unfolding iree_uk_tie_3_types_def IREE_UK_TIE_3_TYPES_def
    using a b by (simp add: push_bit_eq_mult or.assoc)
qed

lemma untie_tied:
  "iree_uk_untie_type 0 (iree_uk_tie_3_types t0 t1 t2) = Inr t0"
  "iree_uk_untie_type 1 (iree_uk_tie_3_types t0 t1 t2) = Inr t1"
  "iree_uk_untie_type 2 (iree_uk_tie_3_types t0 t1 t2) = Inr t2"
  "iree_uk_untie_type 0 (iree_uk_tie_2_types t0 t1) = Inr t0"
  "iree_uk_untie_type 1 (iree_uk_tie_2_types t0 t1) = Inr t1"
proof -
  have low: "(ucast (w AND 0xFF :: u32) :: u8) = ucast w" for w
  proof -
    have "(0xFF :: u32) = mask 8" by (simp add: mask_eq_exp_minus_1)
    then show ?thesis by (intro bit_word_eqI) (simp only: bit_simps, auto)
  qed
  have "(ucast (ucast t0 OR push_bit 8 (ucast t1) OR push_bit 16 (ucast t2) :: u32) :: u8) = t0"
    "(ucast (drop_bit 8 (ucast t0 OR push_bit 8 (ucast t1) OR push_bit 16 (ucast t2) :: u32)) :: u8) = t1"
    "(ucast (drop_bit 16 (ucast t0 OR push_bit 8 (ucast t1) OR push_bit 16 (ucast t2) :: u32)) :: u8) = t2"
    "(ucast (ucast t0 OR push_bit 8 (ucast t1) :: u32) :: u8) = t0"
    "(ucast (drop_bit 8 (ucast t0 OR push_bit 8 (ucast t1) :: u32)) :: u8) = t1"
    by (rule bit_word_eqI; auto simp: bit_simps dest: bit_imp_le_length)+
  then show "iree_uk_untie_type 0 (iree_uk_tie_3_types t0 t1 t2) = Inr t0"
    "iree_uk_untie_type 1 (iree_uk_tie_3_types t0 t1 t2) = Inr t1"
    "iree_uk_untie_type 2 (iree_uk_tie_3_types t0 t1 t2) = Inr t2"
    "iree_uk_untie_type 0 (iree_uk_tie_2_types t0 t1) = Inr t0"
    "iree_uk_untie_type 1 (iree_uk_tie_2_types t0 t1) = Inr t1"
    unfolding iree_uk_untie_type_def tied_types low by simp_all
qed

section \<open>Properties\<close>

text \<open>
  The conversions of the microkernels are always defined. Widening agrees with the base library
  on every bit pattern of both 16-bit formats, and so does rounding to \<open>bfloat16\<close>. Rounding to
  \<open>f16\<close> agrees unless the exponent field of the argument is 111 or 143, the two binades where
  the microkernels compare the exponent with a bias that is one too large.
\<close>

theorem uk_conversions_agree:
  "iree_uk_f16_to_f32 x = iree_math_f16_to_f32 x \<and>
   iree_uk_bf16_to_f32 x = iree_math_bf16_to_f32 x \<and>
   (\<exists>w. iree_uk_f32_to_bf16 v = Inr w \<and> iree_math_f32_to_bf16 v = Inr w) \<and>
   (\<exists>w. iree_uk_f32_to_f16 v = Inr w \<and>
      (uint (fp_exp f32_format v) \<in> {111, 143} \<or> iree_math_f32_to_f16 v = Inr w))"
proof (intro conjI)
  show "iree_uk_f16_to_f32 x = iree_math_f16_to_f32 x" "iree_uk_bf16_to_f32 x = iree_math_bf16_to_f32 x"
    by (rule uk_widening_same)+
  have range: "uint (fp_exp f32_format v) \<noteq> -1" "uint (fp_exp f32_format v) < 256"
    using f32.exp_less [of v] uint_ge_0 [of "fp_exp f32_format v"] by (linarith, simp)
  have "iree_uk_f32_to_bf16 v = iree_math_f32_to_bf16 v"
    unfolding iree_uk_f32_to_bf16_def iree_math_f32_to_bf16_def
    by (rule uk_narrowing_generic) (use range in auto)
  then show "\<exists>w. iree_uk_f32_to_bf16 v = Inr w \<and> iree_math_f32_to_bf16 v = Inr w"
    using uk_narrowing_total [of v 8] by (auto simp: iree_uk_f32_to_bf16_def)
  obtain w where w: "iree_uk_f32_to_f16 v = Inr w"
    using uk_narrowing_total [of v 5] by (auto simp: iree_uk_f32_to_f16_def)
  have "iree_uk_f32_to_f16 v = iree_math_f32_to_f16 v" if "uint (fp_exp f32_format v) \<notin> {111, 143}"
    unfolding iree_uk_f32_to_f16_def iree_math_f32_to_f16_def
    by (rule uk_narrowing_generic) (use that in auto)
  then show "\<exists>w. iree_uk_f32_to_f16 v = Inr w \<and>
      (uint (fp_exp f32_format v) \<in> {111, 143} \<or> iree_math_f32_to_f16 v = Inr w)"
    using w by metis
qed

text \<open>
  A \<open>float\<close> from \<open>2 ^ 16\<close> up to \<open>2 ^ 17\<close> is too large for \<open>f16\<close>, and the base library rounds it
  to an infinity. The microkernels do so only when the mantissa is at most \<open>0x1000\<close>; above, they
  return a NaN, and from \<open>0x7FF000\<close> on a negative zero, whatever the sign of the argument.
\<close>

theorem uk_f16_overflow_not_infinity:
  assumes "uint (fp_exp f32_format v) = 143"
  defines "m \<equiv> unat (fp_mantissa f32_format v)"
  shows "\<exists>w inf. iree_uk_f32_to_f16 v = Inr w \<and> iree_math_f32_to_f16 v = Inr inf \<and>
     inf = push_bit 15 (of_bool (bit v 31)) OR 0x7C00 \<and>
     (w = inf \<longleftrightarrow> m \<le> 0x1000) \<and>
     (w AND 0x7C00 = 0x7C00 \<and> w AND 0x3FF \<noteq> 0 \<longleftrightarrow> 0x1000 < m \<and> m < 0x7FF000) \<and>
     (w = 0x8000 \<longleftrightarrow> 0x7FF000 \<le> m)"
proof -
  let ?m = "fp_mantissa f32_format v" and ?s = "push_bit 15 (of_bool (bit v 31)) :: u16"
  let ?r = "?m + f16_rounding_bias ?m"
  note r = rounded_mantissa [OF f32_mantissa_less, of v]
  note w = uk_f16_overflow_binade [OF assms(1)] and i = math_f16_overflow_binade [OF assms(1)]
  show ?thesis
  proof (cases "0x7FF000 \<le> m")
    case True
    then show ?thesis using w i r(1) by (cases "bit v 31") (simp_all add: m_def)
  next
    case False
    then have q: "unat (drop_bit 13 ?r) < 0x400" using r(1,2) by (simp add: m_def)
    define f :: u16 where "f = ucast (drop_bit 13 ?r)"
    have "unat f = unat (drop_bit 13 ?r)"
      unfolding f_def using q by (simp add: unsigned_ucast_eq take_bit_nat_eq_self)
    then have f: "f = 0 \<longleftrightarrow> m \<le> 0x1000" "unat f < 2 ^ 10"
      using q r(3) by (simp_all add: word_unat_eq_iff m_def)
    have "take_bit 10 f = f"
      using f(2) by (simp add: word_unat_eq_iff unsigned_take_bit_eq take_bit_nat_eq_self)
    then have bf: "bit f k \<Longrightarrow> k < 10" for k by (metis bit_take_bit_iff)
    let ?w = "?s OR 0x7C00 OR f"
    have w': "iree_uk_f32_to_f16 v = Inr ?w" using w r(1) False by (simp add: m_def f_def)
    have e: "(0x7C00 :: u16) = push_bit 10 (mask 5)" "(0x3FF :: u16) = mask 10"
      by (simp_all add: mask_eq_exp_minus_1)
    have "?w AND 0x7C00 = 0x7C00" "?w AND 0x3FF = f"
      unfolding e by (rule bit_word_eqI; auto simp: bit_simps dest: bf)+
    moreover have "bit ?w 10" unfolding e by (simp add: bit_simps)
    then have "?w \<noteq> 0x8000" by auto
    moreover have "?w = ?s OR 0x7C00 \<longleftrightarrow> f = 0"
      using \<open>?w AND 0x3FF = f\<close> by (cases "bit v 31") auto
    ultimately show ?thesis using w' i f(1) False by (intro exI [of _ ?w] exI [of _ "?s OR 0x7C00"]) auto
  qed
qed

text \<open>98304, which is below the largest multiple of the unit in this binade.\<close>

theorem uk_f16_overflow_not_infinity_witness:
  "\<exists>w inf. iree_uk_f32_to_f16 0x47C00000 = Inr w \<and> iree_math_f32_to_f16 0x47C00000 = Inr inf \<and>
     w \<noteq> inf \<and> w AND 0x7C00 = 0x7C00 \<and> w AND 0x3FF \<noteq> 0"
  using uk_f16_overflow_not_infinity [of "0x47C00000"]
  by (auto simp: fp_exp_def fp_mantissa_def)

end
