(* ===== verification/Iree_Status.thy ===== *)
theory Iree_Status
  imports Nx_Prelude
begin

unbundle bit_operations_syntax

text \<open>
  \<open>iree/base/status.h\<close>: the status codes, their packing into the low five bits of a
  pointer-sized \<open>iree_status_t\<close>, and the tests on it. The payload bits hold a pointer the
  library owns; nothing here looks at them.
\<close>

section \<open>Definitions\<close>

type_synonym iree_status_t = u64

datatype iree_status_code_t =
    IREE_STATUS_OK
  | IREE_STATUS_CANCELLED
  | IREE_STATUS_UNKNOWN
  | IREE_STATUS_INVALID_ARGUMENT
  | IREE_STATUS_DEADLINE_EXCEEDED
  | IREE_STATUS_NOT_FOUND
  | IREE_STATUS_ALREADY_EXISTS
  | IREE_STATUS_PERMISSION_DENIED
  | IREE_STATUS_RESOURCE_EXHAUSTED
  | IREE_STATUS_FAILED_PRECONDITION
  | IREE_STATUS_ABORTED
  | IREE_STATUS_OUT_OF_RANGE
  | IREE_STATUS_UNIMPLEMENTED
  | IREE_STATUS_INTERNAL
  | IREE_STATUS_UNAVAILABLE
  | IREE_STATUS_DATA_LOSS
  | IREE_STATUS_UNAUTHENTICATED
  | IREE_STATUS_DEFERRED

fun iree_status_code_value :: "iree_status_code_t \<Rightarrow> u64" where
  "iree_status_code_value IREE_STATUS_OK = 0"
| "iree_status_code_value IREE_STATUS_CANCELLED = 1"
| "iree_status_code_value IREE_STATUS_UNKNOWN = 2"
| "iree_status_code_value IREE_STATUS_INVALID_ARGUMENT = 3"
| "iree_status_code_value IREE_STATUS_DEADLINE_EXCEEDED = 4"
| "iree_status_code_value IREE_STATUS_NOT_FOUND = 5"
| "iree_status_code_value IREE_STATUS_ALREADY_EXISTS = 6"
| "iree_status_code_value IREE_STATUS_PERMISSION_DENIED = 7"
| "iree_status_code_value IREE_STATUS_RESOURCE_EXHAUSTED = 8"
| "iree_status_code_value IREE_STATUS_FAILED_PRECONDITION = 9"
| "iree_status_code_value IREE_STATUS_ABORTED = 10"
| "iree_status_code_value IREE_STATUS_OUT_OF_RANGE = 11"
| "iree_status_code_value IREE_STATUS_UNIMPLEMENTED = 12"
| "iree_status_code_value IREE_STATUS_INTERNAL = 13"
| "iree_status_code_value IREE_STATUS_UNAVAILABLE = 14"
| "iree_status_code_value IREE_STATUS_DATA_LOSS = 15"
| "iree_status_code_value IREE_STATUS_UNAUTHENTICATED = 16"
| "iree_status_code_value IREE_STATUS_DEFERRED = 17"

definition IREE_STATUS_CODE_MASK :: u64 where
  "IREE_STATUS_CODE_MASK = 0x1F"

definition iree_status_from_code :: "u64 \<Rightarrow> iree_status_t" where
  "iree_status_from_code code = code AND IREE_STATUS_CODE_MASK"

definition iree_ok_status :: iree_status_t where
  "iree_ok_status = iree_status_from_code (iree_status_code_value IREE_STATUS_OK)"

definition iree_status_code :: "iree_status_t \<Rightarrow> u64" where
  "iree_status_code v = v AND IREE_STATUS_CODE_MASK"

definition iree_status_is_ok :: "iree_status_t \<Rightarrow> bool" where
  "iree_status_is_ok v \<longleftrightarrow> v = iree_status_code_value IREE_STATUS_OK"

definition iree_status_is_cancelled :: "iree_status_t \<Rightarrow> bool" where
  "iree_status_is_cancelled v \<longleftrightarrow> iree_status_code v = iree_status_code_value IREE_STATUS_CANCELLED"

definition iree_status_is_unknown :: "iree_status_t \<Rightarrow> bool" where
  "iree_status_is_unknown v \<longleftrightarrow> iree_status_code v = iree_status_code_value IREE_STATUS_UNKNOWN"

definition iree_status_is_invalid_argument :: "iree_status_t \<Rightarrow> bool" where
  "iree_status_is_invalid_argument v \<longleftrightarrow> iree_status_code v = iree_status_code_value IREE_STATUS_INVALID_ARGUMENT"

definition iree_status_is_deadline_exceeded :: "iree_status_t \<Rightarrow> bool" where
  "iree_status_is_deadline_exceeded v \<longleftrightarrow> iree_status_code v = iree_status_code_value IREE_STATUS_DEADLINE_EXCEEDED"

definition iree_status_is_not_found :: "iree_status_t \<Rightarrow> bool" where
  "iree_status_is_not_found v \<longleftrightarrow> iree_status_code v = iree_status_code_value IREE_STATUS_NOT_FOUND"

definition iree_status_is_already_exists :: "iree_status_t \<Rightarrow> bool" where
  "iree_status_is_already_exists v \<longleftrightarrow> iree_status_code v = iree_status_code_value IREE_STATUS_ALREADY_EXISTS"

definition iree_status_is_permission_denied :: "iree_status_t \<Rightarrow> bool" where
  "iree_status_is_permission_denied v \<longleftrightarrow> iree_status_code v = iree_status_code_value IREE_STATUS_PERMISSION_DENIED"

definition iree_status_is_resource_exhausted :: "iree_status_t \<Rightarrow> bool" where
  "iree_status_is_resource_exhausted v \<longleftrightarrow> iree_status_code v = iree_status_code_value IREE_STATUS_RESOURCE_EXHAUSTED"

definition iree_status_is_failed_precondition :: "iree_status_t \<Rightarrow> bool" where
  "iree_status_is_failed_precondition v \<longleftrightarrow> iree_status_code v = iree_status_code_value IREE_STATUS_FAILED_PRECONDITION"

definition iree_status_is_aborted :: "iree_status_t \<Rightarrow> bool" where
  "iree_status_is_aborted v \<longleftrightarrow> iree_status_code v = iree_status_code_value IREE_STATUS_ABORTED"

definition iree_status_is_out_of_range :: "iree_status_t \<Rightarrow> bool" where
  "iree_status_is_out_of_range v \<longleftrightarrow> iree_status_code v = iree_status_code_value IREE_STATUS_OUT_OF_RANGE"

definition iree_status_is_unimplemented :: "iree_status_t \<Rightarrow> bool" where
  "iree_status_is_unimplemented v \<longleftrightarrow> iree_status_code v = iree_status_code_value IREE_STATUS_UNIMPLEMENTED"

definition iree_status_is_internal :: "iree_status_t \<Rightarrow> bool" where
  "iree_status_is_internal v \<longleftrightarrow> iree_status_code v = iree_status_code_value IREE_STATUS_INTERNAL"

definition iree_status_is_unavailable :: "iree_status_t \<Rightarrow> bool" where
  "iree_status_is_unavailable v \<longleftrightarrow> iree_status_code v = iree_status_code_value IREE_STATUS_UNAVAILABLE"

definition iree_status_is_data_loss :: "iree_status_t \<Rightarrow> bool" where
  "iree_status_is_data_loss v \<longleftrightarrow> iree_status_code v = iree_status_code_value IREE_STATUS_DATA_LOSS"

definition iree_status_is_unauthenticated :: "iree_status_t \<Rightarrow> bool" where
  "iree_status_is_unauthenticated v \<longleftrightarrow> iree_status_code v = iree_status_code_value IREE_STATUS_UNAUTHENTICATED"

definition iree_status_is_deferred :: "iree_status_t \<Rightarrow> bool" where
  "iree_status_is_deferred v \<longleftrightarrow> iree_status_code v = iree_status_code_value IREE_STATUS_DEFERRED"

lemmas iree_status_is_defs [c_defs] =
  iree_status_is_cancelled_def iree_status_is_unknown_def iree_status_is_invalid_argument_def iree_status_is_deadline_exceeded_def iree_status_is_not_found_def iree_status_is_already_exists_def iree_status_is_permission_denied_def iree_status_is_resource_exhausted_def iree_status_is_failed_precondition_def iree_status_is_aborted_def iree_status_is_out_of_range_def iree_status_is_unimplemented_def iree_status_is_internal_def iree_status_is_unavailable_def iree_status_is_data_loss_def iree_status_is_unauthenticated_def iree_status_is_deferred_def

lemmas iree_status_masks [c_defs] =
  iree_status_from_code_def iree_status_code_def IREE_STATUS_CODE_MASK_def

section \<open>Packing of codes\<close>

lemma iree_status_is_ok_iff [simp]: "iree_status_is_ok v \<longleftrightarrow> v = 0"
  by (simp add: iree_status_is_ok_def)

lemma iree_ok_status_0 [simp]: "iree_ok_status = 0"
  by (simp add: iree_ok_status_def iree_status_from_code_def)

lemma status_code_value_masked [simp]:
  "iree_status_code_value c AND 0x1F = iree_status_code_value c"
  by (cases c) simp_all

lemma status_code_value_inj: "iree_status_code_value c = iree_status_code_value d \<longleftrightarrow> c = d"
  by (cases c; cases d) simp_all

lemma status_code_from_code:
  "iree_status_code (iree_status_from_code (iree_status_code_value c)) = iree_status_code_value c"
  by (simp add: c_defs)

text \<open>
  A status built from a code other than \<open>OK\<close> is never mistaken for success, whatever payload
  bits are set above the code.
\<close>

lemma status_with_payload_not_ok:
  assumes "c \<noteq> IREE_STATUS_OK" and "iree_status_code s = iree_status_code_value c"
  shows "\<not> iree_status_is_ok s"
  using assms by (cases c) (auto simp: c_defs)

end
