(* ===== verification/Status_Cc.thy ===== *)
theory Status_Cc
  imports Iree_Status
begin

unbundle bit_operations_syntax

text \<open>
  \<open>iree/base/status_cc.h\<close>: the C++ classes \<open>Status\<close>, which owns the storage of an \<open>iree_status_t\<close>, and
  \<open>StatusOr<T>\<close>, which holds a value or a status. Methods are functions of the value of the object they
  act on. The storage of a status is managed by functions of the library that are not part of the repository:
  they are the fields of \<open>status_library\<close>. The class templates that only select overloads at compile time
  are not modelled, nor are the copying members of \<open>StatusOr<T>\<close>: they would copy a \<open>const Status\<close>, which
  has no copy constructor, so no program can use them.
\<close>

section \<open>Statuses\<close>

record 'w status_library =
  status_free :: "iree_status_t \<Rightarrow> ('w, unit) sm"
  status_ignore :: "iree_status_t \<Rightarrow> ('w, iree_status_t) sm"
  status_allocate :: "u64 \<Rightarrow> string option \<Rightarrow> u32 \<Rightarrow> string \<Rightarrow> ('w, iree_status_t) sm"
  status_format :: "iree_status_t \<Rightarrow> nat \<Rightarrow> bool \<times> nat \<times> string"

text \<open>\<open>iree_status_abort\<close> does not return.\<close>

definition status_abort :: "iree_status_t \<Rightarrow> ('w, 'a) sm" where
  "status_abort v = fail_sm (Thrown ''abort'')"

record SourceLocation =
  loc_line :: u32
  loc_file_name :: "string option"

definition SourceLocation_default :: SourceLocation where
  "SourceLocation_default = \<lparr>loc_line = 0, loc_file_name = None\<rparr>"

text \<open>\<open>StatusCode\<close> has the enumerators of \<open>iree_status_code_t\<close>.\<close>

type_synonym StatusCode = iree_status_code_t

abbreviation code_status :: "StatusCode \<Rightarrow> iree_status_t" where
  "code_status c \<equiv> iree_status_from_code (iree_status_code_value c)"

text \<open>\<open>status_impl::exchange\<close> on an \<open>iree_status_t\<close>: the old value and the new one.\<close>

definition exchange_raw :: "iree_status_t \<Rightarrow> iree_status_t \<Rightarrow> iree_status_t \<times> iree_status_t" where
  "exchange_raw obj new_value = (obj, new_value)"

definition Status_default :: iree_status_t where
  "Status_default = iree_ok_status"

text \<open>Construction from a C status and from another \<open>Status\<close>: the new value and what is left behind.\<close>

definition Status_take :: "iree_status_t \<Rightarrow> iree_status_t \<times> iree_status_t" where
  "Status_take status = exchange_raw status (iree_status_from_code (iree_status_code status))"

definition Status_move :: "iree_status_t \<Rightarrow> iree_status_t \<times> iree_status_t" where
  "Status_move other = exchange_raw other (iree_status_from_code (iree_status_code other))"

definition ignore_if_set :: "'w status_library \<Rightarrow> iree_status_t \<Rightarrow> ('w, unit) sm" where
  "ignore_if_set lib v = (if v \<noteq> 0 then bind_sm (status_ignore lib v) (\<lambda>_. ret_sm ()) else ret_sm ())"

text \<open>The two objects are different here; assigning one to itself does nothing.\<close>

definition Status_move_assign ::
  "'w status_library \<Rightarrow> iree_status_t \<Rightarrow> iree_status_t \<Rightarrow> ('w, iree_status_t \<times> iree_status_t) sm" where
  "Status_move_assign lib this other =
     bind_sm (ignore_if_set lib this) (\<lambda>_.
     ret_sm (exchange_raw other (iree_status_from_code (iree_status_code other))))"

definition Status_from_code :: "StatusCode \<Rightarrow> iree_status_t" where
  "Status_from_code c = code_status c"

definition Status_assign_code :: "'w status_library \<Rightarrow> iree_status_t \<Rightarrow> u64 \<Rightarrow> ('w, iree_status_t) sm" where
  "Status_assign_code lib this c =
     bind_sm (ignore_if_set lib this) (\<lambda>_. ret_sm (iree_status_from_code c))"

definition Status_with_message :: "'w status_library \<Rightarrow> StatusCode \<Rightarrow> string option \<Rightarrow> ('w, iree_status_t) sm" where
  "Status_with_message lib c message =
     (if c \<noteq> IREE_STATUS_OK
      then case message of
             None \<Rightarrow> ret_sm (code_status c)
           | Some m \<Rightarrow> if m = '''' then ret_sm (code_status c)
                       else status_allocate lib (iree_status_code_value c) None 0 m
      else ret_sm Status_default)"

definition Status_with_location ::
  "'w status_library \<Rightarrow> StatusCode \<Rightarrow> SourceLocation \<Rightarrow> string \<Rightarrow> ('w, iree_status_t) sm" where
  "Status_with_location lib c location message =
     (if c \<noteq> IREE_STATUS_OK
      then status_allocate lib (iree_status_code_value c) (loc_file_name location) (loc_line location) message
      else ret_sm Status_default)"

definition Status_destroy :: "'w status_library \<Rightarrow> iree_status_t \<Rightarrow> ('w, unit) sm" where
  "Status_destroy lib this =
     (if this AND NOT IREE_STATUS_CODE_MASK \<noteq> 0 then status_free lib this else ret_sm ())"

definition Status_ok :: "iree_status_t \<Rightarrow> bool" where
  "Status_ok this = iree_status_is_ok this"

definition Status_code :: "iree_status_t \<Rightarrow> u64" where
  "Status_code this = iree_status_code this"

text \<open>
  \<open>status_format\<close> gives its result, the length it stores and the characters it writes, which do
  not go beyond the capacity; the string has the length of the first call.
\<close>

definition Status_ToString :: "'w status_library \<Rightarrow> iree_status_t \<Rightarrow> string" where
  "Status_ToString lib status =
     (if iree_status_is_ok status then ''OK''
      else let (ok, buffer_length, _) = status_format lib status 0
           in if \<not> ok then ''<!>''
              else let (ok, _, written) = status_format lib status (buffer_length + 1)
                   in if \<not> ok then ''<!>''
                      else take buffer_length (written @ replicate buffer_length (CHR 0x00)))"

definition Status_IgnoreError :: "'w status_library \<Rightarrow> iree_status_t \<Rightarrow> ('w, iree_status_t) sm" where
  "Status_IgnoreError lib this = status_ignore lib this"

text \<open>\<open>operator iree_status_t() &&\<close> and \<open>release()\<close>: the status given away and what is left.\<close>

definition Status_to_c :: "iree_status_t \<Rightarrow> iree_status_t \<times> iree_status_t" where
  "Status_to_c this = exchange_raw this (iree_status_from_code (iree_status_code this))"

definition Status_get :: "iree_status_t \<Rightarrow> iree_status_t" where
  "Status_get this = this"

definition Status_release :: "iree_status_t \<Rightarrow> iree_status_t \<times> iree_status_t" where
  "Status_release this = exchange_raw this iree_ok_status"

definition Status_eq :: "iree_status_t \<Rightarrow> iree_status_t \<Rightarrow> bool" where
  "Status_eq lhs rhs \<longleftrightarrow> Status_code lhs = Status_code rhs"

definition Status_eq_code :: "iree_status_t \<Rightarrow> StatusCode \<Rightarrow> bool" where
  "Status_eq_code lhs rhs \<longleftrightarrow> Status_code lhs = iree_status_code_value rhs"

definition OkStatus :: iree_status_t where
  "OkStatus = Status_default"

definition IsOk_Status :: "iree_status_t \<Rightarrow> bool" where
  "IsOk_Status status \<longleftrightarrow> Status_code status = iree_status_code_value IREE_STATUS_OK"

definition IsOk_c :: "iree_status_t \<Rightarrow> bool" where
  "IsOk_c status = iree_status_is_ok status"

text \<open>
  \<open>status_impl::exchange(status, status.code())\<close> on a \<open>Status\<close>: a move, then the assignment of the code that
  was read before.
\<close>

definition Status_exchange ::
  "'w status_library \<Rightarrow> iree_status_t \<Rightarrow> ('w, iree_status_t \<times> iree_status_t) sm" where
  "Status_exchange lib obj =
     (let code = Status_code obj;
          (old_value, obj) = Status_move obj
      in bind_sm (Status_assign_code lib obj code) (\<lambda>obj. ret_sm (old_value, obj)))"

section \<open>StatusOr\<close>

text \<open>
  The two unions: the status is always an object, the value is one while it is \<open>Some\<close>. Constructing a value
  over another one and destroying or reading one that does not exist are undefined behaviour.
\<close>

record 't status_or =
  so_status :: iree_status_t
  so_data :: "'t option"

text \<open>Storage for a new object, whose members are still to be constructed.\<close>

definition raw_status_or :: "'t status_or" where
  "raw_status_or = \<lparr>so_status = 0, so_data = None\<rparr>"

definition so_ok :: "'t status_or \<Rightarrow> bool" where
  "so_ok so = Status_ok (so_status so)"

definition MakeValue :: "'t status_or \<Rightarrow> 't \<Rightarrow> 't status_or res" where
  "MakeValue so t = (if so_data so = None then Inr (so\<lparr>so_data := Some t\<rparr>) else Inl (Thrown ''constructed twice''))"

definition destroy_data :: "'t status_or \<Rightarrow> 't status_or res" where
  "destroy_data so = (if so_data so = None then Inl UseAfterFree else Inr (so\<lparr>so_data := None\<rparr>))"

definition MakeStatus :: "'t status_or \<Rightarrow> iree_status_t \<Rightarrow> 't status_or" where
  "MakeStatus so status = so\<lparr>so_status := status\<rparr>"

definition read_data :: "'t status_or \<Rightarrow> 't res" where
  "read_data so = (case so_data so of None \<Rightarrow> Inl UseAfterFree | Some t \<Rightarrow> Inr t)"

definition so_Clear :: "'t status_or \<Rightarrow> 't status_or res" where
  "so_Clear so = (if so_ok so then destroy_data so else Inr so)"

definition so_EnsureOk :: "'t status_or \<Rightarrow> ('w, unit) sm" where
  "so_EnsureOk so = (if \<not> so_ok so then status_abort (Status_get (so_status so)) else ret_sm ())"

definition so_EnsureNotOk :: "'t status_or \<Rightarrow> ('w, unit) sm" where
  "so_EnsureNotOk so =
     (if so_ok so then status_abort (code_status IREE_STATUS_FAILED_PRECONDITION) else ret_sm ())"

text \<open>\<open>mv\<close> is the state in which moving from a value leaves it. The results are the new object and the old one.\<close>

definition so_move_construct ::
  "'w status_library \<Rightarrow> ('t \<Rightarrow> 't) \<Rightarrow> 't status_or \<Rightarrow> ('w, 't status_or \<times> 't status_or) sm" where
  "so_move_construct lib mv other =
     (if so_ok other
      then bind_sm (lift_sm (read_data other)) (\<lambda>t.
           bind_sm (lift_sm (MakeValue raw_status_or t)) (\<lambda>so.
           ret_sm (MakeStatus so Status_default, other\<lparr>so_data := Some (mv t)\<rparr>)))
      else bind_sm (Status_exchange lib (so_status other)) (\<lambda>(old, left).
           ret_sm (MakeStatus raw_status_or old, other\<lparr>so_status := left\<rparr>)))"

text \<open>Construction from a \<open>T\<close>, in place or not, and from a status.\<close>

definition so_from_value :: "'t \<Rightarrow> 't status_or res" where
  "so_from_value t = bind_res (MakeValue raw_status_or t) (\<lambda>so. Inr (MakeStatus so Status_default))"

definition so_from_status ::
  "'w status_library \<Rightarrow> iree_status_t \<Rightarrow> ('w, 't status_or \<times> iree_status_t) sm" where
  "so_from_status lib status =
     bind_sm (Status_exchange lib status) (\<lambda>(old, left).
     let so = MakeStatus raw_status_or old
     in bind_sm (so_EnsureNotOk so) (\<lambda>_. ret_sm (so, left)))"

definition so_default :: "'w status_library \<Rightarrow> ('w, 't status_or) sm" where
  "so_default lib =
     bind_sm (Status_with_message lib IREE_STATUS_UNKNOWN (Some '''')) (\<lambda>status.
     bind_sm (so_from_status lib status) (\<lambda>(so, left).
     bind_sm (Status_destroy lib left) (\<lambda>_. ret_sm so)))"

text \<open>\<open>StatusOr(iree_status_t&&)\<close>: the temporary \<open>Status\<close> is destroyed after the construction.\<close>

definition so_take :: "'w status_library \<Rightarrow> iree_status_t \<Rightarrow> ('w, 't status_or \<times> iree_status_t) sm" where
  "so_take lib status =
     (let (old, left) = exchange_raw status (iree_status_from_code (iree_status_code status));
          (temporary, _) = Status_take old
      in bind_sm (so_from_status lib temporary) (\<lambda>(so, temporary).
         bind_sm (Status_destroy lib temporary) (\<lambda>_. ret_sm (so, left))))"

definition so_Assign_value :: "'w status_library \<Rightarrow> 't status_or \<Rightarrow> 't \<Rightarrow> ('w, 't status_or) sm" where
  "so_Assign_value lib so t =
     (if so_ok so
      then bind_sm (lift_sm (destroy_data so)) (\<lambda>so. lift_sm (MakeValue so t))
      else bind_sm (lift_sm (MakeValue so t)) (\<lambda>so.
           bind_sm (Status_assign_code lib (so_status so) (iree_status_code_value IREE_STATUS_OK)) (\<lambda>status.
           ret_sm (so\<lparr>so_status := status\<rparr>))))"

definition so_Assign_status ::
  "'w status_library \<Rightarrow> 't status_or \<Rightarrow> iree_status_t \<Rightarrow> ('w, 't status_or \<times> iree_status_t) sm" where
  "so_Assign_status lib so status =
     bind_sm (lift_sm (so_Clear so)) (\<lambda>so.
     bind_sm (Status_exchange lib status) (\<lambda>(old, left).
     bind_sm (Status_move_assign lib (so_status so) old) (\<lambda>(new, temporary).
     bind_sm (Status_destroy lib temporary) (\<lambda>_.
     let so = so\<lparr>so_status := new\<rparr>
     in bind_sm (so_EnsureNotOk so) (\<lambda>_. ret_sm (so, left))))))"

text \<open>Again for two different objects.\<close>

definition so_move_assign ::
  "'w status_library \<Rightarrow> ('t \<Rightarrow> 't) \<Rightarrow> 't status_or \<Rightarrow> 't status_or \<Rightarrow> ('w, 't status_or \<times> 't status_or) sm" where
  "so_move_assign lib mv this other =
     (if so_ok other
      then bind_sm (lift_sm (read_data other)) (\<lambda>t.
           bind_sm (so_Assign_value lib this t) (\<lambda>this. ret_sm (this, other\<lparr>so_data := Some (mv t)\<rparr>)))
      else bind_sm (Status_exchange lib (so_status other)) (\<lambda>(old, left).
           bind_sm (so_Assign_status lib this old) (\<lambda>(this, temporary).
           bind_sm (Status_destroy lib temporary) (\<lambda>_.
           ret_sm (this, other\<lparr>so_status := left\<rparr>)))))"

definition so_destroy :: "'w status_library \<Rightarrow> 't status_or \<Rightarrow> ('w, unit) sm" where
  "so_destroy lib so =
     (if so_ok so
      then bind_sm (Status_destroy lib (so_status so)) (\<lambda>_.
           bind_sm (lift_sm (destroy_data so)) (\<lambda>_. ret_sm ()))
      else Status_destroy lib (so_status so))"

text \<open>\<open>value()\<close>, \<open>operator*\<close> and \<open>operator->\<close> are the same.\<close>

definition so_value :: "'t status_or \<Rightarrow> ('w, 't) sm" where
  "so_value so = bind_sm (so_EnsureOk so) (\<lambda>_. lift_sm (read_data so))"

definition so_value_or :: "'t status_or \<Rightarrow> 't \<Rightarrow> 't res" where
  "so_value_or so default_value = (if so_ok so then read_data so else Inr default_value)"

text \<open>\<open>status() &&\<close>: the status given away and the object.\<close>

definition so_status_rvalue :: "'w status_library \<Rightarrow> 't status_or \<Rightarrow> ('w, iree_status_t \<times> 't status_or) sm" where
  "so_status_rvalue lib so =
     (if so_ok so then ret_sm (OkStatus, so)
      else bind_sm (Status_exchange lib (so_status so)) (\<lambda>(old, left). ret_sm (old, so\<lparr>so_status := left\<rparr>)))"

text \<open>
  \<open>IREE_ASSIGN_OR_RETURN\<close>: \<open>Inl\<close> is the status returned from the function, after the destructor of the
  variable that holds the result.
\<close>

definition ASSIGN_OR_RETURN :: "'w status_library \<Rightarrow> ('t \<Rightarrow> 't) \<Rightarrow> 't status_or \<Rightarrow> ('w, iree_status_t + 't) sm" where
  "ASSIGN_OR_RETURN lib mv statusor =
     (if \<not> so_ok statusor
      then bind_sm (so_status_rvalue lib statusor) (\<lambda>(status, statusor).
           bind_sm (so_destroy lib statusor) (\<lambda>_. ret_sm (Inl status)))
      else bind_sm (so_value statusor) (\<lambda>t.
           bind_sm (so_destroy lib (statusor\<lparr>so_data := Some (mv t)\<rparr>)) (\<lambda>_. ret_sm (Inr t))))"

section \<open>Programs\<close>

text \<open>
  The objects of a program: C statuses it owns, \<open>Status\<close> and \<open>StatusOr<T>\<close> variables, numbered in the
  order of their construction.
\<close>

datatype 't cc_object = ORaw iree_status_t | OStatus iree_status_t | OStatusOr "'t status_or" | ODead

record ('w, 't) cc_objects =
  cw :: 'w
  cobjs :: "'t cc_object list"

definition on_cw :: "('w, 'a) sm \<Rightarrow> (('w, 't) cc_objects, 'a) sm" where
  "on_cw m s = (case m (cw s) of Inl e \<Rightarrow> Inl e | Inr (x, w) \<Rightarrow> Inr (x, s\<lparr>cw := w\<rparr>))"

definition get_obj :: "nat \<Rightarrow> (('w, 't) cc_objects, 't cc_object) sm" where
  "get_obj i s = (if i < length (cobjs s) then Inr (cobjs s ! i, s) else Inl OutOfBounds)"

definition set_obj :: "nat \<Rightarrow> 't cc_object \<Rightarrow> (('w, 't) cc_objects, unit) sm" where
  "set_obj i v = modify_sm (\<lambda>s. s\<lparr>cobjs := (cobjs s)[i := v]\<rparr>)"

definition add_obj :: "'t cc_object \<Rightarrow> (('w, 't) cc_objects, unit) sm" where
  "add_obj v = modify_sm (\<lambda>s. s\<lparr>cobjs := cobjs s @ [v]\<rparr>)"

definition bad_object :: "('s, 'a) sm" where
  "bad_object = fail_sm (Thrown ''ill typed'')"

definition get_raw :: "nat \<Rightarrow> (('w, 't) cc_objects, iree_status_t) sm" where
  "get_raw i = bind_sm (get_obj i) (\<lambda>x. case x of ORaw v \<Rightarrow> ret_sm v | _ \<Rightarrow> bad_object)"

definition get_status :: "nat \<Rightarrow> (('w, 't) cc_objects, iree_status_t) sm" where
  "get_status i = bind_sm (get_obj i) (\<lambda>x. case x of OStatus v \<Rightarrow> ret_sm v | _ \<Rightarrow> bad_object)"

definition get_so :: "nat \<Rightarrow> (('w, 't) cc_objects, 't status_or) sm" where
  "get_so i = bind_sm (get_obj i) (\<lambda>x. case x of OStatusOr so \<Rightarrow> ret_sm so | _ \<Rightarrow> bad_object)"

datatype 't cc_op =
    CallC StatusCode string
  | NewStatus
  | NewCode StatusCode
  | NewMessage StatusCode "string option"
  | NewLocation StatusCode SourceLocation string
  | TakeStatus nat
  | MoveStatus nat
  | AssignStatus nat nat
  | AssignCode nat StatusCode
  | IgnoreError nat
  | ToC nat
  | ReleaseStatus nat
  | NewSo
  | SoFromValue 't
  | SoFromStatus nat
  | SoTake nat
  | SoMove nat
  | SoMoveAssign nat nat
  | SoAssignValue nat 't
  | SoAssignStatus nat nat
  | SoStatus nat
  | SoValue nat
  | Destroy nat

text \<open>\<open>CallC\<close> is a C function that returns an error, and destroying a C status is \<open>iree_status_ignore\<close>.\<close>

fun status_exec :: "'w status_library \<Rightarrow> ('t \<Rightarrow> 't) \<Rightarrow> 't cc_op \<Rightarrow> (('w, 't) cc_objects, unit) sm" where
  "status_exec lib mv (CallC c m) =
     bind_sm (on_cw (Status_with_location lib c SourceLocation_default m)) (\<lambda>v. add_obj (ORaw v))"
| "status_exec lib mv NewStatus = add_obj (OStatus Status_default)"
| "status_exec lib mv (NewCode c) = add_obj (OStatus (Status_from_code c))"
| "status_exec lib mv (NewMessage c m) = bind_sm (on_cw (Status_with_message lib c m)) (\<lambda>v. add_obj (OStatus v))"
| "status_exec lib mv (NewLocation c l m) =
     bind_sm (on_cw (Status_with_location lib c l m)) (\<lambda>v. add_obj (OStatus v))"
| "status_exec lib mv (TakeStatus i) =
     bind_sm (get_raw i) (\<lambda>v. let (new, left) = Status_take v
       in bind_sm (set_obj i (ORaw left)) (\<lambda>_. add_obj (OStatus new)))"
| "status_exec lib mv (MoveStatus i) =
     bind_sm (get_status i) (\<lambda>v. let (new, left) = Status_move v
       in bind_sm (set_obj i (OStatus left)) (\<lambda>_. add_obj (OStatus new)))"
| "status_exec lib mv (AssignStatus i j) =
     bind_sm (get_status i) (\<lambda>v. bind_sm (get_status j) (\<lambda>w.
     if i \<noteq> j
     then bind_sm (on_cw (Status_move_assign lib v w)) (\<lambda>(new, left).
          bind_sm (set_obj i (OStatus new)) (\<lambda>_. set_obj j (OStatus left)))
     else ret_sm ()))"
| "status_exec lib mv (AssignCode i c) =
     bind_sm (get_status i) (\<lambda>v.
     bind_sm (on_cw (Status_assign_code lib v (iree_status_code_value c))) (\<lambda>v. set_obj i (OStatus v)))"
| "status_exec lib mv (IgnoreError i) =
     bind_sm (get_status i) (\<lambda>v. bind_sm (on_cw (Status_IgnoreError lib v)) (\<lambda>v. set_obj i (OStatus v)))"
| "status_exec lib mv (ToC i) =
     bind_sm (get_status i) (\<lambda>v. let (out, left) = Status_to_c v
       in bind_sm (set_obj i (OStatus left)) (\<lambda>_. add_obj (ORaw out)))"
| "status_exec lib mv (ReleaseStatus i) =
     bind_sm (get_status i) (\<lambda>v. let (out, left) = Status_release v
       in bind_sm (set_obj i (OStatus left)) (\<lambda>_. add_obj (ORaw out)))"
| "status_exec lib mv NewSo = bind_sm (on_cw (so_default lib)) (\<lambda>so. add_obj (OStatusOr so))"
| "status_exec lib mv (SoFromValue t) = bind_sm (lift_sm (so_from_value t)) (\<lambda>so. add_obj (OStatusOr so))"
| "status_exec lib mv (SoFromStatus i) =
     bind_sm (get_status i) (\<lambda>v. bind_sm (on_cw (so_from_status lib v)) (\<lambda>(so, left).
     bind_sm (set_obj i (OStatus left)) (\<lambda>_. add_obj (OStatusOr so))))"
| "status_exec lib mv (SoTake i) =
     bind_sm (get_raw i) (\<lambda>v. bind_sm (on_cw (so_take lib v)) (\<lambda>(so, left).
     bind_sm (set_obj i (ORaw left)) (\<lambda>_. add_obj (OStatusOr so))))"
| "status_exec lib mv (SoMove i) =
     bind_sm (get_so i) (\<lambda>so. bind_sm (on_cw (so_move_construct lib mv so)) (\<lambda>(new, left).
     bind_sm (set_obj i (OStatusOr left)) (\<lambda>_. add_obj (OStatusOr new))))"
| "status_exec lib mv (SoMoveAssign i j) =
     bind_sm (get_so i) (\<lambda>this. bind_sm (get_so j) (\<lambda>other.
     if i \<noteq> j
     then bind_sm (on_cw (so_move_assign lib mv this other)) (\<lambda>(new, left).
          bind_sm (set_obj i (OStatusOr new)) (\<lambda>_. set_obj j (OStatusOr left)))
     else ret_sm ()))"
| "status_exec lib mv (SoAssignValue i t) =
     bind_sm (get_so i) (\<lambda>so. bind_sm (on_cw (so_Assign_value lib so t)) (\<lambda>so. set_obj i (OStatusOr so)))"
| "status_exec lib mv (SoAssignStatus i j) =
     bind_sm (get_so i) (\<lambda>so. bind_sm (get_status j) (\<lambda>v.
     bind_sm (on_cw (so_Assign_status lib so v)) (\<lambda>(so, left).
     bind_sm (set_obj i (OStatusOr so)) (\<lambda>_. set_obj j (OStatus left)))))"
| "status_exec lib mv (SoStatus i) =
     bind_sm (get_so i) (\<lambda>so. bind_sm (on_cw (so_status_rvalue lib so)) (\<lambda>(v, so).
     bind_sm (set_obj i (OStatusOr so)) (\<lambda>_. add_obj (OStatus v))))"
| "status_exec lib mv (SoValue i) =
     bind_sm (get_so i) (\<lambda>so. bind_sm (on_cw (so_value so)) (\<lambda>_. ret_sm ()))"
| "status_exec lib mv (Destroy i) =
     bind_sm (get_obj i) (\<lambda>x.
     bind_sm (on_cw (case x of
         ORaw v \<Rightarrow> bind_sm (status_ignore lib v) (\<lambda>_. ret_sm ())
       | OStatus v \<Rightarrow> Status_destroy lib v
       | OStatusOr so \<Rightarrow> so_destroy lib so
       | ODead \<Rightarrow> bad_object)) (\<lambda>_.
     set_obj i ODead))"

text \<open>The objects an operation names have to be of the right kind and alive.\<close>

definition is_raw :: "('w, 't) cc_objects \<Rightarrow> nat \<Rightarrow> bool" where
  "is_raw s i \<longleftrightarrow> i < length (cobjs s) \<and> (case cobjs s ! i of ORaw v \<Rightarrow> True | _ \<Rightarrow> False)"

definition is_status :: "('w, 't) cc_objects \<Rightarrow> nat \<Rightarrow> bool" where
  "is_status s i \<longleftrightarrow> i < length (cobjs s) \<and> (case cobjs s ! i of OStatus v \<Rightarrow> True | _ \<Rightarrow> False)"

definition is_so :: "('w, 't) cc_objects \<Rightarrow> nat \<Rightarrow> bool" where
  "is_so s i \<longleftrightarrow> i < length (cobjs s) \<and> (case cobjs s ! i of OStatusOr v \<Rightarrow> True | _ \<Rightarrow> False)"

fun op_legal :: "('w, 't) cc_objects \<Rightarrow> 't cc_op \<Rightarrow> bool" where
  "op_legal s (TakeStatus i) = is_raw s i"
| "op_legal s (MoveStatus i) = is_status s i"
| "op_legal s (AssignStatus i j) \<longleftrightarrow> is_status s i \<and> is_status s j"
| "op_legal s (AssignCode i c) = is_status s i"
| "op_legal s (IgnoreError i) = is_status s i"
| "op_legal s (ToC i) = is_status s i"
| "op_legal s (ReleaseStatus i) = is_status s i"
| "op_legal s (SoFromStatus i) = is_status s i"
| "op_legal s (SoTake i) = is_raw s i"
| "op_legal s (SoMove i) = is_so s i"
| "op_legal s (SoMoveAssign i j) \<longleftrightarrow> is_so s i \<and> is_so s j"
| "op_legal s (SoAssignValue i t) = is_so s i"
| "op_legal s (SoAssignStatus i j) \<longleftrightarrow> is_so s i \<and> is_status s j"
| "op_legal s (SoStatus i) = is_so s i"
| "op_legal s (SoValue i) = is_so s i"
| "op_legal s (Destroy i) \<longleftrightarrow> i < length (cobjs s) \<and> cobjs s ! i \<noteq> ODead"
| "op_legal s _ = True"

text \<open>When the program is meant to abort: an \<open>OK\<close> status where an error is required, and a value of an error.\<close>

definition obj_status :: "('w, 't) cc_objects \<Rightarrow> nat \<Rightarrow> iree_status_t" where
  "obj_status s i = (case cobjs s ! i of ORaw v \<Rightarrow> v | OStatus v \<Rightarrow> v | OStatusOr so \<Rightarrow> so_status so | ODead \<Rightarrow> 0)"

fun op_aborts :: "('w, 't) cc_objects \<Rightarrow> 't cc_op \<Rightarrow> bool" where
  "op_aborts s (SoFromStatus i) = iree_status_is_ok (obj_status s i)"
| "op_aborts s (SoTake i) = iree_status_is_ok (obj_status s i)"
| "op_aborts s (SoAssignStatus i j) = iree_status_is_ok (obj_status s j)"
| "op_aborts s (SoValue i) \<longleftrightarrow> \<not> iree_status_is_ok (obj_status s i)"
| "op_aborts s _ = False"

section \<open>A library that records\<close>

datatype status_event = StatusAlloc ptr | StatusFree ptr

definition payload :: "iree_status_t \<Rightarrow> ptr" where
  "payload v = v AND NOT IREE_STATUS_CODE_MASK"

text \<open>
  Allocation takes the address from \<open>addresses\<close>, aligned so that the code fits below it; 0 is a failed
  allocation, which leaves the code alone.
\<close>

definition recording_statuses :: "(status_event list \<Rightarrow> ptr) \<Rightarrow> status_event list status_library" where
  "recording_statuses addresses =
     (let free = (\<lambda>v log. if payload v = 0 then log else log @ [StatusFree (payload v)])
      in \<lparr>status_free = (\<lambda>v log. Inr ((), free v log)),
          status_ignore = (\<lambda>v log. Inr (iree_ok_status, free v log)),
          status_allocate = (\<lambda>c f l m log.
            let a = payload (addresses log)
            in Inr (a OR iree_status_from_code c, if a = 0 then log else log @ [StatusAlloc a])),
          status_format = (\<lambda>v n. (True, 0, ''''))\<rparr>)"

definition allocated_minus_freed :: "status_event list \<Rightarrow> ptr \<Rightarrow> int" where
  "allocated_minus_freed log a = int (count_list log (StatusAlloc a)) - int (count_list log (StatusFree a))"

definition owns :: "iree_status_t \<Rightarrow> ptr \<Rightarrow> int" where
  "owns v a = (if payload v = a then 1 else 0)"

fun object_owns :: "'t cc_object \<Rightarrow> ptr \<Rightarrow> int" where
  "object_owns (ORaw v) a = owns v a"
| "object_owns (OStatus v) a = owns v a"
| "object_owns (OStatusOr so) a = owns (so_status so) a"
| "object_owns ODead a = 0"

text \<open>Only an error has a payload, and the value of a \<open>StatusOr<T>\<close> exists exactly when its status is \<open>OK\<close>.\<close>

definition status_valid :: "iree_status_t \<Rightarrow> bool" where
  "status_valid v \<longleftrightarrow> v = 0 \<or> iree_status_code v \<noteq> 0"

fun object_ok :: "'t cc_object \<Rightarrow> bool" where
  "object_ok (ORaw v) = status_valid v"
| "object_ok (OStatus v) = status_valid v"
| "object_ok (OStatusOr so) \<longleftrightarrow> status_valid (so_status so) \<and> (so_ok so \<longleftrightarrow> so_data so \<noteq> None)"
| "object_ok ODead = True"

definition objects_inv :: "(status_event list, 't) cc_objects \<Rightarrow> bool" where
  "objects_inv s \<longleftrightarrow> list_all object_ok (cobjs s) \<and>
     (\<forall>a. a \<noteq> 0 \<longrightarrow> allocated_minus_freed (cw s) a = sum_list (map (\<lambda>x. object_owns x a) (cobjs s)))"

section \<open>Running with the recording library\<close>

definition frees :: "iree_status_t \<Rightarrow> status_event list" where
  "frees v = (if payload v = 0 then [] else [StatusFree (payload v)])"

lemma library_ignore [simp]: "status_ignore (recording_statuses ad) v log = Inr (0, log @ frees v)"
  and library_free [simp]: "status_free (recording_statuses ad) v log = Inr ((), log @ frees v)"
  and library_allocate [simp]: "status_allocate (recording_statuses ad) c f l m log =
    Inr (payload (ad log) OR iree_status_from_code c,
      if payload (ad log) = 0 then log else log @ [StatusAlloc (payload (ad log))])"
  by (simp_all add: recording_statuses_def frees_def Let_def)

lemma payload_0 [simp]: "payload 0 = 0"
  by (simp add: payload_def)

lemma payload_from_code [simp]: "payload (iree_status_from_code c) = 0"
  unfolding payload_def iree_status_from_code_def by (rule bit_word_eqI) (auto simp: bit_simps)

lemma payload_allocated [simp]: "payload (payload x OR iree_status_from_code c) = payload x"
  unfolding payload_def iree_status_from_code_def by (rule bit_word_eqI) (auto simp: bit_simps)

lemma frees_none [simp]: "frees 0 = []" "frees (iree_status_from_code c) = []"
  by (simp_all add: frees_def)

lemma owns_none [simp]: "a \<noteq> 0 \<Longrightarrow> owns 0 a = 0" "a \<noteq> 0 \<Longrightarrow> owns (iree_status_from_code c) a = 0"
  by (simp_all add: owns_def)

lemma amf_frees [simp]: "a \<noteq> 0 \<Longrightarrow> allocated_minus_freed (log @ frees v) a = allocated_minus_freed log a - owns v a"
  by (auto simp: allocated_minus_freed_def frees_def owns_def)

lemma amf_alloc [simp]:
  "allocated_minus_freed (log @ [StatusAlloc p]) a = allocated_minus_freed log a + (if p = a then 1 else 0)"
  by (simp add: allocated_minus_freed_def)

lemma owns_allocated:
  "owns (payload x OR iree_status_from_code c) a = (if payload x = a then 1 else 0)"
  by (simp add: owns_def)

lemma library_ignore_if_set [simp]: "ignore_if_set (recording_statuses ad) v log = Inr ((), log @ frees v)"
  by (simp add: ignore_if_set_def bind_sm_def)

lemma library_destroy [simp]: "Status_destroy (recording_statuses ad) v log = Inr ((), log @ frees v)"
  by (simp add: Status_destroy_def payload_def [symmetric] frees_def)

lemma library_assign_code [simp]:
  "Status_assign_code (recording_statuses ad) v c log = Inr (iree_status_from_code c, log @ frees v)"
  by (simp add: Status_assign_code_def bind_sm_def)

lemma library_move_assign [simp]:
  "Status_move_assign (recording_statuses ad) v w log =
     Inr ((w, iree_status_from_code (iree_status_code w)), log @ frees v)"
  by (simp add: Status_move_assign_def exchange_raw_def bind_sm_def)

lemma library_exchange [simp]:
  "Status_exchange (recording_statuses ad) v log = Inr ((v, iree_status_from_code (iree_status_code v)), log)"
  by (simp add: Status_exchange_def Status_move_def exchange_raw_def Status_code_def bind_sm_def)

text \<open>Codes.\<close>

lemma code_of_code [simp]: "iree_status_code (iree_status_from_code c) = c AND IREE_STATUS_CODE_MASK"
  by (simp add: iree_status_code_def iree_status_from_code_def ac_simps)

lemma left_status_code [simp]:
  "iree_status_from_code (iree_status_code v) = iree_status_code v"
  "iree_status_code v AND IREE_STATUS_CODE_MASK = iree_status_code v"
  by (simp_all add: iree_status_code_def iree_status_from_code_def ac_simps)

lemma code_code [simp]: "iree_status_code (iree_status_code v) = iree_status_code v"
  by (simp add: iree_status_code_def ac_simps)

lemma payload_code [simp]: "payload (iree_status_code v) = 0"
  using payload_from_code [of "iree_status_code v"] by simp

lemma owns_code [simp]: "a \<noteq> 0 \<Longrightarrow> owns (iree_status_code v) a = 0"
  by (simp add: owns_def)

lemma frees_code [simp]: "frees (iree_status_code v) = []"
  by (simp add: frees_def)

lemma code_0 [simp]: "iree_status_code 0 = 0"
  by (simp add: iree_status_code_def)

lemma valid_none [simp]: "status_valid 0"
  by (simp add: status_valid_def)

lemma valid_left [simp]: "status_valid v \<Longrightarrow> status_valid (iree_status_code v)"
  by (simp add: status_valid_def iree_status_code_def)

lemma left_ok: "status_valid v \<Longrightarrow> iree_status_code v = 0 \<longleftrightarrow> v = 0"
  by (auto simp: status_valid_def iree_status_code_def)

lemma code_value_0: "iree_status_code_value c = 0 \<longleftrightarrow> c = IREE_STATUS_OK"
  by (cases c) simp_all

lemma code_status_value: "code_status c = iree_status_code_value c"
  by (simp add: iree_status_from_code_def IREE_STATUS_CODE_MASK_def)

lemma valid_code [simp]: "status_valid (code_status c)"
  by (simp add: status_valid_def code_status_value iree_status_code_def IREE_STATUS_CODE_MASK_def)

lemma valid_allocated: "c \<noteq> IREE_STATUS_OK \<Longrightarrow> status_valid (payload x OR code_status c)"
proof -
  assume "c \<noteq> IREE_STATUS_OK"
  moreover have "iree_status_code (payload x OR code_status c) = code_status c"
    unfolding payload_def iree_status_code_def iree_status_from_code_def by (rule bit_word_eqI) (auto simp: bit_simps)
  ultimately show ?thesis by (simp add: status_valid_def code_status_value code_value_0)
qed

section \<open>Every operation keeps the books\<close>

lemma sum_list_update_int:
  "i < length xs \<Longrightarrow> sum_list (map f (xs[i := y])) = sum_list (map f xs) + f y - (f (xs ! i) :: int)"
proof (induction xs arbitrary: i)
  case (Cons x xs)
  then show ?case by (cases i) simp_all
qed simp

lemma list_all_update: "list_all P xs \<Longrightarrow> P y \<Longrightarrow> list_all P (xs[i := y])"
  unfolding list_all_iff using set_update_subset_insert by fastforce

lemma object_ok_nth: "objects_inv s \<Longrightarrow> i < length (cobjs s) \<Longrightarrow> object_ok (cobjs s ! i)"
  by (simp add: objects_inv_def list_all_iff)

text \<open>An object is added, replaced, both, or two are replaced.\<close>

lemma inv_add:
  assumes "objects_inv s" "object_ok x"
    and "\<And>a. a \<noteq> 0 \<Longrightarrow> allocated_minus_freed log a = allocated_minus_freed (cw s) a + object_owns x a"
  shows "objects_inv (s\<lparr>cw := log, cobjs := cobjs s @ [x]\<rparr>)"
  using assms by (simp add: objects_inv_def)

lemma inv_set:
  assumes "objects_inv s" "i < length (cobjs s)" "object_ok x"
    and "\<And>a. a \<noteq> 0 \<Longrightarrow> allocated_minus_freed log a + object_owns (cobjs s ! i) a =
      allocated_minus_freed (cw s) a + object_owns x a"
  shows "objects_inv (s\<lparr>cw := log, cobjs := (cobjs s)[i := x]\<rparr>)"
  unfolding objects_inv_def
proof (intro conjI allI impI)
  show "list_all object_ok (cobjs (s\<lparr>cw := log, cobjs := (cobjs s)[i := x]\<rparr>))"
    using assms(1,3) by (simp add: objects_inv_def list_all_update)
  fix a :: ptr assume "a \<noteq> 0"
  then show "allocated_minus_freed (cw (s\<lparr>cw := log, cobjs := (cobjs s)[i := x]\<rparr>)) a =
      sum_list (map (\<lambda>x. object_owns x a) (cobjs (s\<lparr>cw := log, cobjs := (cobjs s)[i := x]\<rparr>)))"
    using assms(1,2) assms(4) [of a] by (simp add: objects_inv_def sum_list_update_int)
qed

lemma inv_set_add:
  assumes "objects_inv s" "i < length (cobjs s)" "object_ok x" "object_ok y"
    and "\<And>a. a \<noteq> 0 \<Longrightarrow> allocated_minus_freed log a + object_owns (cobjs s ! i) a =
      allocated_minus_freed (cw s) a + object_owns x a + object_owns y a"
  shows "objects_inv (s\<lparr>cw := log, cobjs := (cobjs s)[i := x] @ [y]\<rparr>)"
  unfolding objects_inv_def
proof (intro conjI allI impI)
  show "list_all object_ok (cobjs (s\<lparr>cw := log, cobjs := (cobjs s)[i := x] @ [y]\<rparr>))"
    using assms(1,3,4) by (simp add: objects_inv_def list_all_update)
  fix a :: ptr assume "a \<noteq> 0"
  then show "allocated_minus_freed (cw (s\<lparr>cw := log, cobjs := (cobjs s)[i := x] @ [y]\<rparr>)) a =
      sum_list (map (\<lambda>x. object_owns x a) (cobjs (s\<lparr>cw := log, cobjs := (cobjs s)[i := x] @ [y]\<rparr>)))"
    using assms(1,2) assms(5) [of a] by (simp add: objects_inv_def sum_list_update_int)
qed

lemma inv_set_set:
  assumes "objects_inv s" "i < length (cobjs s)" "j < length (cobjs s)" "i \<noteq> j" "object_ok x" "object_ok y"
    and "\<And>a. a \<noteq> 0 \<Longrightarrow> allocated_minus_freed log a + object_owns (cobjs s ! i) a + object_owns (cobjs s ! j) a =
      allocated_minus_freed (cw s) a + object_owns x a + object_owns y a"
  shows "objects_inv (s\<lparr>cw := log, cobjs := (cobjs s)[i := x, j := y]\<rparr>)"
  unfolding objects_inv_def
proof (intro conjI allI impI)
  show "list_all object_ok (cobjs (s\<lparr>cw := log, cobjs := (cobjs s)[i := x, j := y]\<rparr>))"
    using assms(1,5,6) by (simp add: objects_inv_def list_all_update)
  fix a :: ptr assume "a \<noteq> 0"
  then show "allocated_minus_freed (cw (s\<lparr>cw := log, cobjs := (cobjs s)[i := x, j := y]\<rparr>)) a =
      sum_list (map (\<lambda>x. object_owns x a) (cobjs (s\<lparr>cw := log, cobjs := (cobjs s)[i := x, j := y]\<rparr>)))"
    using assms(1-4) assms(7) [of a] by (simp add: objects_inv_def sum_list_update_int)
qed

text \<open>What the methods do, as one equation each.\<close>

lemmas status_methods =
  Status_take_def Status_move_def Status_to_c_def Status_release_def exchange_raw_def Status_default_def
  Status_from_code_def Status_with_message_def Status_with_location_def Status_IgnoreError_def

lemmas so_methods =
  so_ok_def Status_ok_def MakeValue_def MakeStatus_def raw_status_or_def read_data_def destroy_data_def so_Clear_def
  so_EnsureOk_def so_EnsureNotOk_def status_abort_def OkStatus_def Status_default_def

lemmas object_access =
  get_raw_def get_status_def get_so_def get_obj_def set_obj_def add_obj_def on_cw_def bind_sm_def

lemma so_from_status_run:
  "so_from_status (recording_statuses ad) v log =
     (if v = 0 then Inl (Thrown ''abort'') else Inr ((\<lparr>so_status = v, so_data = None\<rparr>, iree_status_code v), log))"
  by (simp add: so_from_status_def bind_sm_def so_methods Let_def)

lemma so_take_run:
  "so_take (recording_statuses ad) v log =
     (if v = 0 then Inl (Thrown ''abort'') else Inr ((\<lparr>so_status = v, so_data = None\<rparr>, iree_status_code v), log))"
  by (simp add: so_take_def so_from_status_run bind_sm_def status_methods)

lemma so_default_run:
  "so_default (recording_statuses ad) log = Inr (\<lparr>so_status = code_status IREE_STATUS_UNKNOWN, so_data = None\<rparr>, log)"
proof -
  have "code_status IREE_STATUS_UNKNOWN \<noteq> 0" unfolding code_status_value by simp
  then show ?thesis
    by (simp add: so_default_def so_from_status_run bind_sm_def status_methods del: code_of_code iree_status_code_value.simps)
qed

lemma so_move_construct_run:
  assumes "object_ok (OStatusOr so)"
  shows "so_move_construct (recording_statuses ad) mv so log =
    Inr (if so_status so = 0 then (\<lparr>so_status = 0, so_data = so_data so\<rparr>, so\<lparr>so_data := map_option mv (so_data so)\<rparr>)
         else (\<lparr>so_status = so_status so, so_data = None\<rparr>, so\<lparr>so_status := iree_status_code (so_status so)\<rparr>), log)"
  using assms by (cases "so_data so") (auto simp: so_move_construct_def bind_sm_def so_methods)

lemma so_Assign_value_run:
  assumes "object_ok (OStatusOr so)"
  shows "so_Assign_value (recording_statuses ad) so t log =
    Inr (\<lparr>so_status = 0, so_data = Some t\<rparr>, log @ frees (so_status so))"
  using assms by (cases so) (auto simp: so_Assign_value_def bind_sm_def so_methods iree_status_from_code_def)

lemma so_Assign_status_run:
  assumes "object_ok (OStatusOr so)"
  shows "so_Assign_status (recording_statuses ad) so v log =
    (if v = 0 then Inl (Thrown ''abort'')
     else Inr ((\<lparr>so_status = v, so_data = None\<rparr>, iree_status_code v), log @ frees (so_status so)))"
  using assms
  by (cases so) (auto simp: so_Assign_status_def bind_sm_def so_methods)

lemma so_move_assign_run:
  assumes "object_ok (OStatusOr this)" "object_ok (OStatusOr other)"
  shows "so_move_assign (recording_statuses ad) mv this other log =
    Inr (if so_status other = 0
         then (\<lparr>so_status = 0, so_data = so_data other\<rparr>, other\<lparr>so_data := map_option mv (so_data other)\<rparr>)
         else (\<lparr>so_status = so_status other, so_data = None\<rparr>,
               other\<lparr>so_status := iree_status_code (so_status other)\<rparr>), log @ frees (so_status this))"
  using assms
  by (cases "so_data other")
    (auto simp: so_move_assign_def so_Assign_value_run so_Assign_status_run bind_sm_def so_ok_def Status_ok_def read_data_def)

lemma so_status_rvalue_run:
  "so_status_rvalue (recording_statuses ad) so log =
     Inr ((so_status so, so\<lparr>so_status := iree_status_code (so_status so)\<rparr>), log)"
  by (cases so) (auto simp: so_status_rvalue_def bind_sm_def so_methods)

lemma so_destroy_run:
  assumes "object_ok (OStatusOr so)"
  shows "so_destroy (recording_statuses ad) so log = Inr ((), log @ frees (so_status so))"
  using assms by (auto simp: so_destroy_def bind_sm_def so_methods)

lemmas run_methods =
  so_from_status_run so_take_run so_default_run so_move_construct_run so_Assign_value_run so_Assign_status_run
  so_move_assign_run so_status_rvalue_run so_destroy_run

lemma is_kinds:
  "is_raw s i \<longleftrightarrow> i < length (cobjs s) \<and> (\<exists>v. cobjs s ! i = ORaw v)"
  "is_status s i \<longleftrightarrow> i < length (cobjs s) \<and> (\<exists>v. cobjs s ! i = OStatus v)"
  "is_so s i \<longleftrightarrow> i < length (cobjs s) \<and> (\<exists>so. cobjs s ! i = OStatusOr so)"
  by (auto simp: is_raw_def is_status_def is_so_def split: cc_object.splits)

text \<open>The outcome that is claimed of every operation.\<close>

definition kept :: "(status_event list \<Rightarrow> ptr) \<Rightarrow> ('t \<Rightarrow> 't) \<Rightarrow> (status_event list, 't) cc_objects \<Rightarrow> 't cc_op \<Rightarrow> bool" where
  "kept ad mv s op \<longleftrightarrow>
     (if op_aborts s op then status_exec (recording_statuses ad) mv op s = Inl (Thrown ''abort'')
      else \<exists>s'. status_exec (recording_statuses ad) mv op s = Inr ((), s') \<and> objects_inv s')"

lemma kept_new:
  assumes "objects_inv s"
  shows "kept ad mv s (CallC c m)" "kept ad mv s NewStatus" "kept ad mv s (NewCode c)" "kept ad mv s (NewMessage c msg)"
    "kept ad mv s (NewLocation c l m)" "kept ad mv s NewSo" "kept ad mv s (SoFromValue t)"
proof -
  have add: "object_ok x \<Longrightarrow> (\<And>a. a \<noteq> 0 \<Longrightarrow> object_owns x a = 0) \<Longrightarrow> objects_inv (s\<lparr>cobjs := cobjs s @ [x]\<rparr>)" for x
    using inv_add [OF assms, of x "cw s"] by simp
  have alloc: "objects_inv (s\<lparr>cw := if payload (ad (cw s)) = 0 then cw s else cw s @ [StatusAlloc (payload (ad (cw s)))],
      cobjs := cobjs s @ [x]\<rparr>)"
    if "object_ok x" "\<And>a. object_owns x a = owns (payload (ad (cw s)) OR code_status c) a" for x
    using inv_add [OF assms, of x] that by (simp add: owns_allocated)
  show "kept ad mv s (CallC c m)" "kept ad mv s (NewLocation c l m)" "kept ad mv s (NewMessage c msg)"
    using alloc [of "ORaw _"] alloc [of "OStatus _"] add [of "ORaw 0"] add [of "OStatus 0"] add [of "OStatus (code_status c)"]
    by (auto simp: kept_def object_access status_methods valid_allocated split: option.split)
  have unknown: "code_status IREE_STATUS_UNKNOWN \<noteq> 0" unfolding code_status_value by simp
  show "kept ad mv s NewStatus" "kept ad mv s (NewCode c)" "kept ad mv s NewSo" "kept ad mv s (SoFromValue t)"
    using add [of "OStatus 0"] add [of "OStatus (code_status c)"]
      add [of "OStatusOr \<lparr>so_status = code_status IREE_STATUS_UNKNOWN, so_data = None\<rparr>"]
      add [of "OStatusOr \<lparr>so_status = 0, so_data = Some t\<rparr>"]
    by (simp_all add: kept_def object_access status_methods so_default_run so_from_value_def so_methods unknown
        del: iree_status_code_value.simps)
qed


lemma kept_status:
  assumes "objects_inv s" "i < length (cobjs s)" "cobjs s ! i = OStatus v"
  shows "kept ad mv s (MoveStatus i)" "kept ad mv s (AssignCode i c)" "kept ad mv s (IgnoreError i)" "kept ad mv s (ToC i)"
    "kept ad mv s (ReleaseStatus i)" "kept ad mv s (SoFromStatus i)"
proof -
  have v: "status_valid v" using object_ok_nth [OF assms(1,2)] assms(3) by simp
  have set: "objects_inv (s\<lparr>cw := cw s @ frees v, cobjs := (cobjs s)[i := OStatus w]\<rparr>)"
    if "status_valid w" "\<And>a. a \<noteq> 0 \<Longrightarrow> owns w a = 0" for w
    using inv_set [OF assms(1,2), of "OStatus w"] that assms(3) by simp
  have set_add: "objects_inv (s\<lparr>cobjs := (cobjs s)[i := OStatus w] @ [y]\<rparr>)"
    if "status_valid w" "object_ok y" "\<And>a. a \<noteq> 0 \<Longrightarrow> owns w a = 0" "\<And>a. a \<noteq> 0 \<Longrightarrow> object_owns y a = owns v a" for w y
    using inv_set_add [OF assms(1,2), of "OStatus w" y "cw s"] that assms(3) by simp
  show "kept ad mv s (MoveStatus i)" "kept ad mv s (ToC i)" "kept ad mv s (ReleaseStatus i)"
    "kept ad mv s (SoFromStatus i)"
    using v assms(2,3) set_add
    by (simp_all add: kept_def object_access status_methods so_from_status_run obj_status_def so_ok_def Status_ok_def)
  show "kept ad mv s (AssignCode i c)" "kept ad mv s (IgnoreError i)"
    using set [of "code_status c"] set [of 0] assms(2,3)
    by (simp_all add: kept_def object_access status_methods)
qed

lemma kept_raw:
  assumes "objects_inv s" "i < length (cobjs s)" "cobjs s ! i = ORaw v"
  shows "kept ad mv s (TakeStatus i)" "kept ad mv s (SoTake i)"
proof -
  have v: "status_valid v" using object_ok_nth [OF assms(1,2)] assms(3) by simp
  have "objects_inv (s\<lparr>cobjs := (cobjs s)[i := ORaw (iree_status_code v)] @ [y]\<rparr>)"
    if "object_ok y" "\<And>a. a \<noteq> 0 \<Longrightarrow> object_owns y a = owns v a" for y
    using inv_set_add [OF assms(1,2), of "ORaw (iree_status_code v)" y "cw s"] that assms(3) v by simp
  then show "kept ad mv s (TakeStatus i)" "kept ad mv s (SoTake i)"
    using v assms(2,3)
    by (simp_all add: kept_def object_access status_methods so_take_run obj_status_def so_ok_def Status_ok_def)
qed

lemma kept_assign:
  assumes "objects_inv s" "i < length (cobjs s)" "cobjs s ! i = OStatus v" "j < length (cobjs s)" "cobjs s ! j = OStatus w"
  shows "kept ad mv s (AssignStatus i j)"
proof (cases "i = j")
  case True
  then show ?thesis using assms by (simp add: kept_def object_access)
next
  case False
  have w: "status_valid w" using object_ok_nth [OF assms(1,4)] assms(5) by simp
  have "objects_inv (s\<lparr>cw := cw s @ frees v, cobjs := (cobjs s)[i := OStatus w, j := OStatus (iree_status_code w)]\<rparr>)"
    using w assms False by (intro inv_set_set) simp_all
  then show ?thesis using assms False by (simp add: kept_def object_access)
qed

lemma kept_so:
  assumes "objects_inv s" "i < length (cobjs s)" "cobjs s ! i = OStatusOr so"
  shows "kept ad mv s (SoMove i)" "kept ad mv s (SoAssignValue i t)" "kept ad mv s (SoStatus i)" "kept ad mv s (SoValue i)"
proof -
  have ok: "object_ok (OStatusOr so)" using object_ok_nth [OF assms(1,2)] assms(3) by simp
  have set_add: "objects_inv (s\<lparr>cobjs := (cobjs s)[i := OStatusOr left] @ [y]\<rparr>)"
    if "object_ok (OStatusOr left)" "object_ok y"
      "\<And>a. a \<noteq> 0 \<Longrightarrow> owns (so_status so) a = owns (so_status left) a + object_owns y a" for left y
    using inv_set_add [OF assms(1,2), of "OStatusOr left" y "cw s"] that assms(3) by simp
  show "kept ad mv s (SoMove i)" "kept ad mv s (SoStatus i)"
    using ok assms(2,3) left_ok [of "so_status so"]
    by (auto simp: kept_def object_access so_move_construct_run so_status_rvalue_run so_ok_def Status_ok_def intro!: set_add)
  have "objects_inv (s\<lparr>cw := cw s @ frees (so_status so),
      cobjs := (cobjs s)[i := OStatusOr \<lparr>so_status = 0, so_data = Some t\<rparr>]\<rparr>)"
    using assms by (intro inv_set) (simp_all add: so_ok_def Status_ok_def)
  then show "kept ad mv s (SoAssignValue i t)"
    using ok assms(2,3) by (simp add: kept_def object_access so_Assign_value_run del: object_ok.simps)
  show "kept ad mv s (SoValue i)"
    using ok assms by (auto simp: kept_def object_access so_value_def so_methods obj_status_def)
qed

lemma kept_so_assign:
  assumes "objects_inv s" "i < length (cobjs s)" "cobjs s ! i = OStatusOr so" "j < length (cobjs s)"
  shows "cobjs s ! j = OStatusOr so' \<Longrightarrow> kept ad mv s (SoMoveAssign i j)"
    and "cobjs s ! j = OStatus v \<Longrightarrow> kept ad mv s (SoAssignStatus i j)"
proof -
  have ok: "object_ok (OStatusOr so)" using object_ok_nth [OF assms(1,2)] assms(3) by simp
  have set_set: "objects_inv (s\<lparr>cw := cw s @ frees (so_status so), cobjs := (cobjs s)[i := OStatusOr x, j := y]\<rparr>)"
    if "i \<noteq> j" "object_ok (OStatusOr x)" "object_ok y"
      "\<And>a. a \<noteq> 0 \<Longrightarrow> object_owns (cobjs s ! j) a = owns (so_status x) a + object_owns y a" for x y
    using inv_set_set [OF assms(1,2,4), of "OStatusOr x" y] that assms(3) by simp
  show "kept ad mv s (SoMoveAssign i j)" if j: "cobjs s ! j = OStatusOr so'"
  proof (cases "i = j")
    case True
    then show ?thesis using assms by (simp add: kept_def object_access)
  next
    case False
    have ok': "object_ok (OStatusOr so')" using object_ok_nth [OF assms(1,4)] j by simp
    then show ?thesis
      using ok assms(2-4) j False left_ok [of "so_status so'"]
      by (auto simp: kept_def object_access so_move_assign_run so_ok_def Status_ok_def intro!: set_set)
  qed
  show "kept ad mv s (SoAssignStatus i j)" if j: "cobjs s ! j = OStatus v"
  proof -
    have "i \<noteq> j" "status_valid v" using assms(3) j object_ok_nth [OF assms(1,4)] by auto
    then show ?thesis
      using ok assms(2-4) j set_set [of "\<lparr>so_status = v, so_data = None\<rparr>" "OStatus (iree_status_code v)"]
      by (simp add: kept_def object_access so_Assign_status_run obj_status_def so_ok_def Status_ok_def)
  qed
qed

lemma kept_destroy:
  assumes "objects_inv s" "i < length (cobjs s)" "cobjs s ! i \<noteq> ODead"
  shows "kept ad mv s (Destroy i)"
proof -
  have ok: "object_ok (cobjs s ! i)" using object_ok_nth [OF assms(1,2)] .
  have "objects_inv (s\<lparr>cw := cw s @ frees v, cobjs := (cobjs s)[i := ODead]\<rparr>)"
    if "\<And>a. object_owns (cobjs s ! i) a = owns v a" for v
    using inv_set [OF assms(1,2), of ODead] that by simp
  then show ?thesis
    using ok assms(2,3)
    by (cases "cobjs s ! i") (simp_all add: kept_def object_access so_destroy_run del: object_ok.simps(3))
qed

lemma exec_kept:
  assumes "objects_inv s" "op_legal s op"
  shows "kept ad mv s op"
  using assms
  by (cases op) (auto simp: is_kinds kept_new kept_status kept_raw kept_assign kept_so kept_so_assign kept_destroy)

section \<open>Properties\<close>

inductive status_steps ::
  "(status_event list \<Rightarrow> ptr) \<Rightarrow> ('t \<Rightarrow> 't) \<Rightarrow> 't cc_op list \<Rightarrow> (status_event list, 't) cc_objects \<Rightarrow> bool"
  for ad mv where
  status_start: "status_steps ad mv [] \<lparr>cw = [], cobjs = []\<rparr>"
| status_step: "status_steps ad mv ops s \<Longrightarrow> op_legal s op \<Longrightarrow>
    status_exec (recording_statuses ad) mv op s = Inr ((), s') \<Longrightarrow> status_steps ad mv (ops @ [op]) s'"

lemma steps_inv: "status_steps ad mv ops s \<Longrightarrow> objects_inv s"
proof (induction rule: status_steps.induct)
  case status_start
  then show ?case by (simp add: objects_inv_def allocated_minus_freed_def)
next
  case (status_step ops s op s')
  then show ?case using exec_kept [of s op ad mv] by (auto simp: kept_def split: if_splits)
qed

text \<open>
  C10. \<open>Status\<close> and \<open>StatusOr<T>\<close> own what they hold. In every state a program reaches, the storage of a status was
  freed exactly as often as it was allocated, except for what one object still owns; when no object is left,
  nothing is. The value of a \<open>StatusOr<T>\<close> exists exactly while its status is \<open>OK\<close>. Every legal operation
  succeeds, without destroying or reading a value that does not exist, or ends in the documented abort.
\<close>

theorem statuses_are_owned_once:
  assumes "status_steps ad mv ops s"
  shows "(\<forall>a. a \<noteq> 0 \<longrightarrow>
       int (count_list (cw s) (StatusAlloc a)) =
       int (count_list (cw s) (StatusFree a)) + sum_list (map (\<lambda>x. object_owns x a) (cobjs s))) \<and>
    (\<forall>i so. i < length (cobjs s) \<longrightarrow> cobjs s ! i = OStatusOr so \<longrightarrow> (so_ok so \<longleftrightarrow> so_data so \<noteq> None)) \<and>
    (\<forall>op. op_legal s op \<longrightarrow>
       (if op_aborts s op then status_exec (recording_statuses ad) mv op s = Inl (Thrown ''abort'')
        else \<exists>s'. status_exec (recording_statuses ad) mv op s = Inr ((), s')))"
proof -
  have inv: "objects_inv s" by (rule steps_inv [OF assms])
  have "so_ok so \<longleftrightarrow> so_data so \<noteq> None" if "i < length (cobjs s)" "cobjs s ! i = OStatusOr so" for i so
    using object_ok_nth [OF inv that(1)] that(2) by simp
  moreover have "if op_aborts s op then status_exec (recording_statuses ad) mv op s = Inl (Thrown ''abort'')
      else \<exists>s'. status_exec (recording_statuses ad) mv op s = Inr ((), s')" if "op_legal s op" for op
    using exec_kept [OF inv that, of ad mv] by (auto simp: kept_def split: if_splits)
  ultimately show ?thesis using inv by (auto simp: objects_inv_def allocated_minus_freed_def)
qed

text \<open>An error of a C function, taken by a \<open>Status\<close>, moved into a \<open>StatusOr<T>\<close>, which is destroyed.\<close>

theorem statuses_are_owned_once_witness:
  "\<exists>s. status_steps (\<lambda>_. 0x40) id [CallC IREE_STATUS_INTERNAL ''x'', TakeStatus 0, SoFromStatus 1, Destroy 2] (s :: (status_event list, nat) cc_objects) \<and>
    cw s = [StatusAlloc 0x40, StatusFree 0x40] \<and>
    int (count_list (cw s) (StatusAlloc 0x40)) =
      int (count_list (cw s) (StatusFree 0x40)) + sum_list (map (\<lambda>x. object_owns x 0x40) (cobjs s))"
proof -
  let ?ad = "\<lambda>_ :: status_event list. 0x40 :: ptr"
  let ?mv = "id :: nat \<Rightarrow> nat"
  have p: "payload 0x40 = 0x40" "payload 0x4D = 0x40" "iree_status_code 0x4D = 13" "iree_status_from_code 13 = 13"
    by (simp_all add: payload_def iree_status_code_def iree_status_from_code_def IREE_STATUS_CODE_MASK_def)
  let ?s1 = "\<lparr>cw = [StatusAlloc 0x40], cobjs = [ORaw 0x4D]\<rparr> :: (status_event list, nat) cc_objects"
  let ?s2 = "\<lparr>cw = [StatusAlloc 0x40], cobjs = [ORaw 13, OStatus 0x4D]\<rparr> :: (status_event list, nat) cc_objects"
  let ?s3 = "\<lparr>cw = [StatusAlloc 0x40], cobjs = [ORaw 13, OStatus 13, OStatusOr \<lparr>so_status = 0x4D, so_data = None\<rparr>]\<rparr> :: (status_event list, nat) cc_objects"
  let ?s4 = "\<lparr>cw = [StatusAlloc 0x40, StatusFree 0x40], cobjs = [ORaw 13, OStatus 13, ODead]\<rparr> :: (status_event list, nat) cc_objects"
  have s1: "status_steps ?ad ?mv ([] @ [CallC IREE_STATUS_INTERNAL ''x'']) ?s1"
    by (rule status_step [OF status_start]) (simp_all add: object_access status_methods p)
  have s2: "status_steps ?ad ?mv (([] @ [CallC IREE_STATUS_INTERNAL ''x'']) @ [TakeStatus 0]) ?s2"
    by (rule status_step [OF s1]) (simp_all add: is_kinds object_access status_methods p)
  have s3: "status_steps ?ad ?mv ((([] @ [CallC IREE_STATUS_INTERNAL ''x'']) @ [TakeStatus 0]) @ [SoFromStatus 1]) ?s3"
    by (rule status_step [OF s2]) (simp_all add: is_kinds object_access so_from_status_run p)
  have s4: "status_steps ?ad ?mv (((([] @ [CallC IREE_STATUS_INTERNAL ''x'']) @ [TakeStatus 0]) @ [SoFromStatus 1]) @ [Destroy 2]) ?s4"
    by (rule status_step [OF s3]) (simp_all add: object_access so_destroy_run so_ok_def Status_ok_def frees_def p status_valid_def)
  have "(0x40 :: ptr) \<noteq> 0" by simp
  then show ?thesis
    using s4 statuses_are_owned_once [OF s4, THEN conjunct1, rule_format, of "0x40"]
    by (intro exI [of _ ?s4]) simp
qed

end
