(* ===== verification/Vm_Ops.thy ===== *)
theory Vm_Ops
  imports Iree_Math "HOL-Library.Signed_Division"
begin

unbundle bit_operations_syntax

text \<open>
  The scalar kernels of \<open>iree/vm/ops.h\<close>. A signed or unsigned register value is the word that
  holds it; signed arithmetic reads it with \<open>sint\<close>. The header leaves overflow, division by zero
  and shifts of negative values undefined, so those kernels return a \<open>res\<close>. A \<open>float\<close> or
  \<open>double\<close> is its bit pattern; comparisons, minimum, maximum, negation, absolute value and
  bitcasts work on the pattern. Floating-point arithmetic, rounding and the \<open>libm\<close> functions are
  in \<open>Vm_Float_Ops\<close>.
\<close>

section \<open>Definitions\<close>

type_synonym i32 = u32
type_synonym i64 = u64
type_synonym f32 = u32
type_synonym f64 = u64

subsection \<open>Signed arithmetic of C\<close>

definition s_fits :: "'a::len itself \<Rightarrow> int \<Rightarrow> bool" where
  "s_fits _ r \<longleftrightarrow> - (2 ^ (LENGTH('a) - 1)) \<le> r \<and> r < 2 ^ (LENGTH('a) - 1)"

definition s_result :: "int \<Rightarrow> 'a::len word res" where
  "s_result r = (if s_fits TYPE('a) r then Inr (word_of_int r) else Inl SignedOverflow)"

definition s_div :: "'a::len word \<Rightarrow> 'a word \<Rightarrow> 'a word res" where
  "s_div a b = (if b = 0 then Inl DivByZero else s_result (sint a sdiv sint b))"

text \<open>\<open>a % b\<close> is undefined whenever \<open>a / b\<close> is.\<close>

definition s_rem :: "'a::len word \<Rightarrow> 'a word \<Rightarrow> 'a word res" where
  "s_rem a b = bind_res (s_div a b) (\<lambda>_. s_result (sint a smod sint b))"

definition u_div :: "'a::len word \<Rightarrow> 'a word \<Rightarrow> 'a word res" where
  "u_div a b = (if b = 0 then Inl DivByZero else Inr (a div b))"

definition u_rem :: "'a::len word \<Rightarrow> 'a word \<Rightarrow> 'a word res" where
  "u_rem a b = (if b = 0 then Inl DivByZero else Inr (a mod b))"

definition s_shl :: "'a::len word \<Rightarrow> nat \<Rightarrow> 'a word res" where
  "s_shl a n = (if sint a < 0 then Inl BadShift else s_result (sint a * 2 ^ n))"

definition c_bool :: "bool \<Rightarrow> i32" where
  "c_bool b = (if b then 1 else 0)"

subsection \<open>Integer kernels\<close>

text \<open>32-bit integers.\<close>

definition vm_select_i32 :: "i32 \<Rightarrow> i32 \<Rightarrow> i32 \<Rightarrow> i32" where
  "vm_select_i32 condition true_value false_value = (if condition \<noteq> 0 then true_value else false_value)"

definition vm_add_i32 :: "i32 \<Rightarrow> i32 \<Rightarrow> i32 res" where
  "vm_add_i32 lhs rhs = s_result (sint lhs + sint rhs)"

definition vm_sub_i32 :: "i32 \<Rightarrow> i32 \<Rightarrow> i32 res" where
  "vm_sub_i32 lhs rhs = s_result (sint lhs - sint rhs)"

definition vm_mul_i32 :: "i32 \<Rightarrow> i32 \<Rightarrow> i32 res" where
  "vm_mul_i32 lhs rhs = s_result (sint lhs * sint rhs)"

definition vm_div_i32s :: "i32 \<Rightarrow> i32 \<Rightarrow> i32 res" where
  "vm_div_i32s lhs rhs = s_div lhs rhs"

definition vm_div_i32u :: "i32 \<Rightarrow> i32 \<Rightarrow> i32 res" where
  "vm_div_i32u lhs rhs = u_div lhs rhs"

definition vm_rem_i32s :: "i32 \<Rightarrow> i32 \<Rightarrow> i32 res" where
  "vm_rem_i32s lhs rhs = s_rem lhs rhs"

definition vm_rem_i32u :: "i32 \<Rightarrow> i32 \<Rightarrow> i32 res" where
  "vm_rem_i32u lhs rhs = u_rem lhs rhs"

definition vm_fma_i32 :: "i32 \<Rightarrow> i32 \<Rightarrow> i32 \<Rightarrow> i32 res" where
  "vm_fma_i32 a b c = bind_res (s_result (sint a * sint b)) (\<lambda>m. s_result (sint (m :: i32) + sint c))"

definition vm_abs_i32 :: "i32 \<Rightarrow> i32 res" where
  "vm_abs_i32 operand = s_result \<bar>sint operand\<bar>"

definition vm_min_i32s :: "i32 \<Rightarrow> i32 \<Rightarrow> i32" where
  "vm_min_i32s lhs rhs = (if sint rhs < sint lhs then rhs else lhs)"

definition vm_min_i32u :: "i32 \<Rightarrow> i32 \<Rightarrow> i32" where
  "vm_min_i32u lhs rhs = (if rhs < lhs then rhs else lhs)"

definition vm_max_i32s :: "i32 \<Rightarrow> i32 \<Rightarrow> i32" where
  "vm_max_i32s lhs rhs = (if sint lhs < sint rhs then rhs else lhs)"

definition vm_max_i32u :: "i32 \<Rightarrow> i32 \<Rightarrow> i32" where
  "vm_max_i32u lhs rhs = (if lhs < rhs then rhs else lhs)"

definition vm_not_i32 :: "i32 \<Rightarrow> i32" where
  "vm_not_i32 operand = NOT operand"

definition vm_and_i32 :: "i32 \<Rightarrow> i32 \<Rightarrow> i32" where
  "vm_and_i32 lhs rhs = lhs AND rhs"

definition vm_or_i32 :: "i32 \<Rightarrow> i32 \<Rightarrow> i32" where
  "vm_or_i32 lhs rhs = lhs OR rhs"

definition vm_xor_i32 :: "i32 \<Rightarrow> i32 \<Rightarrow> i32" where
  "vm_xor_i32 lhs rhs = lhs XOR rhs"

definition vm_ctlz_i32 :: "i32 \<Rightarrow> i32" where
  "vm_ctlz_i32 operand = of_nat (iree_math_count_leading_zeros_u32 operand)"

definition vm_trunc_i32i8 :: "i32 \<Rightarrow> i32" where
  "vm_trunc_i32i8 operand = ucast (ucast operand :: u8)"

definition vm_trunc_i32i16 :: "i32 \<Rightarrow> i32" where
  "vm_trunc_i32i16 operand = ucast (ucast operand :: u16)"

definition vm_ext_i8i32s :: "i32 \<Rightarrow> i32" where
  "vm_ext_i8i32s operand = scast (ucast operand :: u8)"

definition vm_ext_i8i32u :: "i32 \<Rightarrow> i32" where
  "vm_ext_i8i32u operand = ucast (ucast operand :: u8)"

definition vm_ext_i16i32s :: "i32 \<Rightarrow> i32" where
  "vm_ext_i16i32s operand = scast (ucast operand :: u16)"

definition vm_ext_i16i32u :: "i32 \<Rightarrow> i32" where
  "vm_ext_i16i32u operand = ucast (ucast operand :: u16)"

definition vm_shl_i32 :: "i32 \<Rightarrow> i32 \<Rightarrow> i32 res" where
  "vm_shl_i32 operand amount = s_shl operand (unat (amount AND 0x1F))"

definition vm_shr_i32s :: "i32 \<Rightarrow> i32 \<Rightarrow> i32" where
  "vm_shr_i32s operand amount = signed_drop_bit (unat (amount AND 0x1F)) operand"

definition vm_shr_i32u :: "i32 \<Rightarrow> i32 \<Rightarrow> i32" where
  "vm_shr_i32u operand amount = drop_bit (unat (amount AND 0x1F)) operand"

definition vm_cmp_eq_i32 :: "i32 \<Rightarrow> i32 \<Rightarrow> i32" where
  "vm_cmp_eq_i32 lhs rhs = c_bool (lhs = rhs)"

definition vm_cmp_ne_i32 :: "i32 \<Rightarrow> i32 \<Rightarrow> i32" where
  "vm_cmp_ne_i32 lhs rhs = c_bool (lhs \<noteq> rhs)"

definition vm_cmp_lt_i32s :: "i32 \<Rightarrow> i32 \<Rightarrow> i32" where
  "vm_cmp_lt_i32s lhs rhs = c_bool (sint lhs < sint rhs)"

definition vm_cmp_lt_i32u :: "i32 \<Rightarrow> i32 \<Rightarrow> i32" where
  "vm_cmp_lt_i32u lhs rhs = c_bool (lhs < rhs)"

definition vm_cmp_nz_i32 :: "i32 \<Rightarrow> i32" where
  "vm_cmp_nz_i32 operand = c_bool (operand \<noteq> 0)"

text \<open>64-bit integers.\<close>

definition vm_select_i64 :: "i32 \<Rightarrow> i64 \<Rightarrow> i64 \<Rightarrow> i64" where
  "vm_select_i64 condition true_value false_value = (if condition \<noteq> 0 then true_value else false_value)"

definition vm_add_i64 :: "i64 \<Rightarrow> i64 \<Rightarrow> i64 res" where
  "vm_add_i64 lhs rhs = s_result (sint lhs + sint rhs)"

definition vm_sub_i64 :: "i64 \<Rightarrow> i64 \<Rightarrow> i64 res" where
  "vm_sub_i64 lhs rhs = s_result (sint lhs - sint rhs)"

definition vm_mul_i64 :: "i64 \<Rightarrow> i64 \<Rightarrow> i64 res" where
  "vm_mul_i64 lhs rhs = s_result (sint lhs * sint rhs)"

definition vm_div_i64s :: "i64 \<Rightarrow> i64 \<Rightarrow> i64 res" where
  "vm_div_i64s lhs rhs = s_div lhs rhs"

definition vm_div_i64u :: "i64 \<Rightarrow> i64 \<Rightarrow> i64 res" where
  "vm_div_i64u lhs rhs = u_div lhs rhs"

definition vm_rem_i64s :: "i64 \<Rightarrow> i64 \<Rightarrow> i64 res" where
  "vm_rem_i64s lhs rhs = s_rem lhs rhs"

definition vm_rem_i64u :: "i64 \<Rightarrow> i64 \<Rightarrow> i64 res" where
  "vm_rem_i64u lhs rhs = u_rem lhs rhs"

definition vm_fma_i64 :: "i64 \<Rightarrow> i64 \<Rightarrow> i64 \<Rightarrow> i64 res" where
  "vm_fma_i64 a b c = bind_res (s_result (sint a * sint b)) (\<lambda>m. s_result (sint (m :: i64) + sint c))"

definition vm_abs_i64 :: "i64 \<Rightarrow> i64 res" where
  "vm_abs_i64 operand = s_result \<bar>sint operand\<bar>"

definition vm_min_i64s :: "i64 \<Rightarrow> i64 \<Rightarrow> i64" where
  "vm_min_i64s lhs rhs = (if sint rhs < sint lhs then rhs else lhs)"

definition vm_min_i64u :: "i64 \<Rightarrow> i64 \<Rightarrow> i64" where
  "vm_min_i64u lhs rhs = (if rhs < lhs then rhs else lhs)"

definition vm_max_i64s :: "i64 \<Rightarrow> i64 \<Rightarrow> i64" where
  "vm_max_i64s lhs rhs = (if sint lhs < sint rhs then rhs else lhs)"

definition vm_max_i64u :: "i64 \<Rightarrow> i64 \<Rightarrow> i64" where
  "vm_max_i64u lhs rhs = (if lhs < rhs then rhs else lhs)"

definition vm_not_i64 :: "i64 \<Rightarrow> i64" where
  "vm_not_i64 operand = NOT operand"

definition vm_and_i64 :: "i64 \<Rightarrow> i64 \<Rightarrow> i64" where
  "vm_and_i64 lhs rhs = lhs AND rhs"

definition vm_or_i64 :: "i64 \<Rightarrow> i64 \<Rightarrow> i64" where
  "vm_or_i64 lhs rhs = lhs OR rhs"

definition vm_xor_i64 :: "i64 \<Rightarrow> i64 \<Rightarrow> i64" where
  "vm_xor_i64 lhs rhs = lhs XOR rhs"

definition vm_ctlz_i64 :: "i64 \<Rightarrow> i64" where
  "vm_ctlz_i64 operand = of_nat (iree_math_count_leading_zeros_u64 operand)"

definition vm_trunc_i64i32 :: "i64 \<Rightarrow> i32" where
  "vm_trunc_i64i32 operand = ucast operand"

definition vm_ext_i32i64s :: "i32 \<Rightarrow> i64" where
  "vm_ext_i32i64s operand = scast operand"

definition vm_ext_i32i64u :: "i32 \<Rightarrow> i64" where
  "vm_ext_i32i64u operand = ucast operand"

definition vm_shl_i64 :: "i64 \<Rightarrow> i32 \<Rightarrow> i64 res" where
  "vm_shl_i64 operand amount = s_shl operand (unat (amount AND 0x3F))"

definition vm_shr_i64s :: "i64 \<Rightarrow> i32 \<Rightarrow> i64" where
  "vm_shr_i64s operand amount = signed_drop_bit (unat (amount AND 0x3F)) operand"

definition vm_shr_i64u :: "i64 \<Rightarrow> i32 \<Rightarrow> i64" where
  "vm_shr_i64u operand amount = drop_bit (unat (amount AND 0x3F)) operand"

definition vm_cmp_eq_i64 :: "i64 \<Rightarrow> i64 \<Rightarrow> i32" where
  "vm_cmp_eq_i64 lhs rhs = c_bool (lhs = rhs)"

definition vm_cmp_ne_i64 :: "i64 \<Rightarrow> i64 \<Rightarrow> i32" where
  "vm_cmp_ne_i64 lhs rhs = c_bool (lhs \<noteq> rhs)"

definition vm_cmp_lt_i64s :: "i64 \<Rightarrow> i64 \<Rightarrow> i32" where
  "vm_cmp_lt_i64s lhs rhs = c_bool (sint lhs < sint rhs)"

definition vm_cmp_lt_i64u :: "i64 \<Rightarrow> i64 \<Rightarrow> i32" where
  "vm_cmp_lt_i64u lhs rhs = c_bool (lhs < rhs)"

definition vm_cmp_nz_i64 :: "i64 \<Rightarrow> i32" where
  "vm_cmp_nz_i64 operand = c_bool (operand \<noteq> 0)"

text \<open>
  References: \<open>iree_vm_ref_equal\<close> is library code; it is a parameter here. A reference is given by
  its object pointer and whatever else the library compares.
\<close>

record 'r vm_ref =
  ref_ptr :: ptr
  ref_rest :: 'r

definition vm_cmp_eq_ref :: "('r vm_ref \<Rightarrow> 'r vm_ref \<Rightarrow> bool) \<Rightarrow> 'r vm_ref \<Rightarrow> 'r vm_ref \<Rightarrow> i32" where
  "vm_cmp_eq_ref ref_equal lhs rhs = c_bool (ref_equal lhs rhs)"

definition vm_cmp_ne_ref :: "('r vm_ref \<Rightarrow> 'r vm_ref \<Rightarrow> bool) \<Rightarrow> 'r vm_ref \<Rightarrow> 'r vm_ref \<Rightarrow> i32" where
  "vm_cmp_ne_ref ref_equal lhs rhs = c_bool (\<not> ref_equal lhs rhs)"

definition vm_cmp_nz_ref :: "'r vm_ref \<Rightarrow> i32" where
  "vm_cmp_nz_ref operand = c_bool (ref_ptr operand \<noteq> nullptr)"

subsection \<open>Floating-point kernels on bit patterns\<close>

text \<open>
  The magnitude of a pattern is everything below its sign bit. A pattern is a NaN when its
  magnitude exceeds that of infinity; otherwise patterns are ordered by their signed magnitude.
\<close>

definition f_magnitude :: "'a::len word \<Rightarrow> 'a word" where
  "f_magnitude x = take_bit (LENGTH('a) - 1) x"

definition f_key :: "'a::len word \<Rightarrow> int" where
  "f_key x = (if bit x (LENGTH('a) - 1) then - uint (f_magnitude x) else uint (f_magnitude x))"

definition f_isnan :: "'a::len word \<Rightarrow> 'a word \<Rightarrow> bool" where
  "f_isnan inf_bits x \<longleftrightarrow> inf_bits < f_magnitude x"

definition f_unordered :: "'a::len word \<Rightarrow> 'a word \<Rightarrow> 'a word \<Rightarrow> bool" where
  "f_unordered inf_bits x y \<longleftrightarrow> f_isnan inf_bits x \<or> f_isnan inf_bits y"

definition f_eq :: "'a::len word \<Rightarrow> 'a word \<Rightarrow> 'a word \<Rightarrow> bool" where
  "f_eq inf_bits x y \<longleftrightarrow> \<not> f_unordered inf_bits x y \<and> f_key x = f_key y"

definition f_less :: "'a::len word \<Rightarrow> 'a word \<Rightarrow> 'a word \<Rightarrow> bool" where
  "f_less inf_bits x y \<longleftrightarrow> \<not> f_unordered inf_bits x y \<and> f_key x < f_key y"

definition f_lesseq :: "'a::len word \<Rightarrow> 'a word \<Rightarrow> 'a word \<Rightarrow> bool" where
  "f_lesseq inf_bits x y \<longleftrightarrow> \<not> f_unordered inf_bits x y \<and> f_key x \<le> f_key y"

definition f32_inf :: f32 where "f32_inf = 0x7F800000"
definition f64_inf :: f64 where "f64_inf = 0x7FF0000000000000"

definition vm_select_f32 :: "i32 \<Rightarrow> f32 \<Rightarrow> f32 \<Rightarrow> f32" where
  "vm_select_f32 condition true_value false_value = (if condition \<noteq> 0 then true_value else false_value)"

definition vm_abs_f32 :: "f32 \<Rightarrow> f32" where
  "vm_abs_f32 operand = f_magnitude operand"

definition vm_neg_f32 :: "f32 \<Rightarrow> f32" where
  "vm_neg_f32 operand = flip_bit 31 operand"

definition vm_min_f32 :: "f32 \<Rightarrow> f32 \<Rightarrow> f32" where
  "vm_min_f32 lhs rhs = (if f_less f32_inf rhs lhs then rhs else lhs)"

definition vm_max_f32 :: "f32 \<Rightarrow> f32 \<Rightarrow> f32" where
  "vm_max_f32 lhs rhs = (if f_less f32_inf lhs rhs then rhs else lhs)"

definition vm_bitcast_i32f32 :: "i32 \<Rightarrow> f32" where
  "vm_bitcast_i32f32 operand = operand"

definition vm_bitcast_f32i32 :: "f32 \<Rightarrow> i32" where
  "vm_bitcast_f32i32 operand = operand"

definition vm_cmp_eq_f32o :: "f32 \<Rightarrow> f32 \<Rightarrow> i32" where
  "vm_cmp_eq_f32o lhs rhs = c_bool (f_eq f32_inf lhs rhs)"

definition vm_cmp_eq_f32u :: "f32 \<Rightarrow> f32 \<Rightarrow> i32" where
  "vm_cmp_eq_f32u lhs rhs = c_bool (f_unordered f32_inf lhs rhs \<or> f_eq f32_inf lhs rhs)"

definition vm_cmp_ne_f32o :: "f32 \<Rightarrow> f32 \<Rightarrow> i32" where
  "vm_cmp_ne_f32o lhs rhs = c_bool (\<not> f_eq f32_inf lhs rhs)"

definition vm_cmp_ne_f32u :: "f32 \<Rightarrow> f32 \<Rightarrow> i32" where
  "vm_cmp_ne_f32u lhs rhs = c_bool (f_unordered f32_inf lhs rhs \<or> \<not> f_eq f32_inf lhs rhs)"

definition vm_cmp_lt_f32o :: "f32 \<Rightarrow> f32 \<Rightarrow> i32" where
  "vm_cmp_lt_f32o lhs rhs = c_bool (f_less f32_inf lhs rhs)"

definition vm_cmp_lt_f32u :: "f32 \<Rightarrow> f32 \<Rightarrow> i32" where
  "vm_cmp_lt_f32u lhs rhs = c_bool (f_unordered f32_inf lhs rhs \<or> f_less f32_inf lhs rhs)"

definition vm_cmp_lte_f32o :: "f32 \<Rightarrow> f32 \<Rightarrow> i32" where
  "vm_cmp_lte_f32o lhs rhs = c_bool (f_lesseq f32_inf lhs rhs)"

definition vm_cmp_lte_f32u :: "f32 \<Rightarrow> f32 \<Rightarrow> i32" where
  "vm_cmp_lte_f32u lhs rhs = c_bool (f_unordered f32_inf lhs rhs \<or> f_lesseq f32_inf lhs rhs)"

definition vm_cmp_nan_f32 :: "f32 \<Rightarrow> i32" where
  "vm_cmp_nan_f32 operand = c_bool (f_isnan f32_inf operand)"

definition vm_select_f64 :: "i32 \<Rightarrow> f64 \<Rightarrow> f64 \<Rightarrow> f64" where
  "vm_select_f64 condition true_value false_value = (if condition \<noteq> 0 then true_value else false_value)"

definition vm_abs_f64 :: "f64 \<Rightarrow> f64" where
  "vm_abs_f64 operand = f_magnitude operand"

definition vm_neg_f64 :: "f64 \<Rightarrow> f64" where
  "vm_neg_f64 operand = flip_bit 63 operand"

definition vm_min_f64 :: "f64 \<Rightarrow> f64 \<Rightarrow> f64" where
  "vm_min_f64 lhs rhs = (if f_less f64_inf rhs lhs then rhs else lhs)"

definition vm_max_f64 :: "f64 \<Rightarrow> f64 \<Rightarrow> f64" where
  "vm_max_f64 lhs rhs = (if f_less f64_inf lhs rhs then rhs else lhs)"

definition vm_bitcast_i64f64 :: "i64 \<Rightarrow> f64" where
  "vm_bitcast_i64f64 operand = operand"

definition vm_bitcast_f64i64 :: "f64 \<Rightarrow> i64" where
  "vm_bitcast_f64i64 operand = operand"

definition vm_cmp_eq_f64o :: "f64 \<Rightarrow> f64 \<Rightarrow> i32" where
  "vm_cmp_eq_f64o lhs rhs = c_bool (f_eq f64_inf lhs rhs)"

definition vm_cmp_eq_f64u :: "f64 \<Rightarrow> f64 \<Rightarrow> i32" where
  "vm_cmp_eq_f64u lhs rhs = c_bool (f_unordered f64_inf lhs rhs \<or> f_eq f64_inf lhs rhs)"

definition vm_cmp_ne_f64o :: "f64 \<Rightarrow> f64 \<Rightarrow> i32" where
  "vm_cmp_ne_f64o lhs rhs = c_bool (\<not> f_eq f64_inf lhs rhs)"

definition vm_cmp_ne_f64u :: "f64 \<Rightarrow> f64 \<Rightarrow> i32" where
  "vm_cmp_ne_f64u lhs rhs = c_bool (f_unordered f64_inf lhs rhs \<or> \<not> f_eq f64_inf lhs rhs)"

definition vm_cmp_lt_f64o :: "f64 \<Rightarrow> f64 \<Rightarrow> i32" where
  "vm_cmp_lt_f64o lhs rhs = c_bool (f_less f64_inf lhs rhs)"

definition vm_cmp_lt_f64u :: "f64 \<Rightarrow> f64 \<Rightarrow> i32" where
  "vm_cmp_lt_f64u lhs rhs = c_bool (f_unordered f64_inf lhs rhs \<or> f_less f64_inf lhs rhs)"

definition vm_cmp_lte_f64o :: "f64 \<Rightarrow> f64 \<Rightarrow> i32" where
  "vm_cmp_lte_f64o lhs rhs = c_bool (f_lesseq f64_inf lhs rhs)"

definition vm_cmp_lte_f64u :: "f64 \<Rightarrow> f64 \<Rightarrow> i32" where
  "vm_cmp_lte_f64u lhs rhs = c_bool (f_unordered f64_inf lhs rhs \<or> f_lesseq f64_inf lhs rhs)"

definition vm_cmp_nan_f64 :: "f64 \<Rightarrow> i32" where
  "vm_cmp_nan_f64 operand = c_bool (f_isnan f64_inf operand)"

section \<open>Signed arithmetic\<close>

lemma sint_fits: "s_fits TYPE('a) (sint (w :: 'a::len word))"
  using sint_ge [of w] sint_lt [of w] by (simp add: s_fits_def)

lemma sint_of_int_fits: "s_fits TYPE('a) r \<Longrightarrow> sint (word_of_int r :: 'a::len word) = r"
  by (simp add: s_fits_def sint_sbintrunc' signed_take_bit_int_eq_self)

lemma s_result_Inr_iff: "s_result r = Inr (w :: 'a::len word) \<longleftrightarrow> sint w = r"
  by (auto simp: s_result_def sint_of_int_fits sint_fits)

lemma s_result_Inl_iff:
  "s_result r = (Inl e :: 'a::len word res) \<longleftrightarrow> e = SignedOverflow \<and> \<not> s_fits TYPE('a) r"
  by (auto simp: s_result_def)

lemma sint_eq_0_iff: "sint (w :: 'a::len word) = 0 \<longleftrightarrow> w = 0"
  by (metis sint_0 signed_word_eqI)

text \<open>Division truncates towards zero; the remainder has the sign of the dividend.\<close>

lemma smod_bounds:
  fixes a b :: int
  assumes "b \<noteq> 0"
  shows "\<bar>a smod b\<bar> < \<bar>b\<bar>" "a smod b = 0 \<or> sgn (a smod b) = sgn a" "\<bar>a smod b\<bar> \<le> \<bar>a\<bar>"
proof -
  have m: "0 \<le> \<bar>a\<bar> mod \<bar>b\<bar>" "\<bar>a\<bar> mod \<bar>b\<bar> < \<bar>b\<bar>" using assms by simp_all
  then show "\<bar>a smod b\<bar> < \<bar>b\<bar>" by (auto simp: signed_modulo_int_def abs_mult abs_sgn_eq)
  show "a smod b = 0 \<or> sgn (a smod b) = sgn a"
    using m by (auto simp: signed_modulo_int_def sgn_mult sgn_if)
  have "\<bar>a\<bar> mod \<bar>b\<bar> \<le> \<bar>a\<bar>" using assms by (simp add: zmod_le_nonneg_dividend)
  then show "\<bar>a smod b\<bar> \<le> \<bar>a\<bar>" using m(1) by (auto simp: signed_modulo_int_def abs_mult abs_sgn_eq)
qed

lemma s_fits_between:
  assumes "s_fits TYPE('a::len) a" "0 \<le> x \<and> x \<le> a \<or> a \<le> x \<and> x \<le> 0"
  shows "s_fits TYPE('a) x"
proof -
  have "(0 :: int) < 2 ^ (LENGTH('a) - 1)" by simp
  then show ?thesis using assms unfolding s_fits_def by linarith
qed

text \<open>The contract shared by the 32-bit and the 64-bit kernels.\<close>

locale vm_signed_int =
  fixes add sub mul divs rems :: "'a::len word \<Rightarrow> 'a word \<Rightarrow> 'a word res"
  assumes add_iff: "add a b = Inr r \<longleftrightarrow> sint r = sint a + sint b"
    and sub_iff: "sub a b = Inr r \<longleftrightarrow> sint r = sint a - sint b"
    and mul_iff: "mul a b = Inr r \<longleftrightarrow> sint r = sint a * sint b"
    and div_iff: "divs a b = Inr r \<longleftrightarrow> b \<noteq> 0 \<and> sint r = sint a sdiv sint b"
    and rem_iff: "rems a b = Inr r \<longleftrightarrow> (\<exists>q. divs a b = Inr q) \<and> sint r = sint a smod sint b"
begin

lemma add_sub_cancel: "add a b = Inr s \<Longrightarrow> sub s b = Inr a"
  by (simp add: add_iff sub_iff)

lemma fits_defined: "s_fits TYPE('a) x \<Longrightarrow> \<exists>r :: 'a word. sint r = x"
  using sint_of_int_fits by blast

lemma div_mul_rem:
  assumes q: "divs a b = Inr q"
  shows "\<exists>r m. rems a b = Inr r \<and> mul q b = Inr m \<and> add m r = Inr a \<and>
    \<bar>sint r\<bar> < \<bar>sint b\<bar> \<and> (r = 0 \<or> sgn (sint r) = sgn (sint a))"
proof -
  have b: "sint b \<noteq> 0" and sq: "sint q = sint a sdiv sint b"
    using q by (simp_all add: div_iff sint_eq_0_iff)
  note sm = smod_bounds [OF b, of "sint a"]
  have e: "sint q * sint b = sint a - sint a smod sint b" unfolding sq by (simp add: minus_smod_eq_sdiv_mult)
  have "0 \<le> sint a smod sint b \<and> sint a smod sint b \<le> sint a \<or>
      sint a \<le> sint a smod sint b \<and> sint a smod sint b \<le> 0"
    using sm(2,3) by (auto simp: sgn_if split: if_splits)
  then have f: "s_fits TYPE('a) (sint a smod sint b)" "s_fits TYPE('a) (sint q * sint b)"
    unfolding e by (auto intro!: s_fits_between [OF sint_fits [of a]])
  obtain r m :: "'a word" where "sint r = sint a smod sint b" "sint m = sint q * sint b"
    using fits_defined [OF f(1)] fits_defined [OF f(2)] by blast
  then show ?thesis
    using q e sm
    by (intro exI [of _ r] exI [of _ m]) (simp add: rem_iff mul_iff add_iff flip: sint_eq_0_iff)
qed

end

lemma s_div_Inr_iff: "s_div a b = Inr r \<longleftrightarrow> b \<noteq> 0 \<and> sint r = sint a sdiv sint b"
  by (simp add: s_div_def s_result_Inr_iff)

lemma s_rem_Inr_iff:
  "s_rem a b = Inr r \<longleftrightarrow> (\<exists>q. s_div a b = Inr q) \<and> sint r = sint a smod sint b"
  by (simp add: s_rem_def bind_res_eq_Inr s_result_Inr_iff)

interpretation i32: vm_signed_int vm_add_i32 vm_sub_i32 vm_mul_i32 vm_div_i32s vm_rem_i32s
  by unfold_locales (simp_all add: vm_add_i32_def vm_sub_i32_def vm_mul_i32_def vm_div_i32s_def
      vm_rem_i32s_def s_result_Inr_iff s_div_Inr_iff s_rem_Inr_iff)

interpretation i64: vm_signed_int vm_add_i64 vm_sub_i64 vm_mul_i64 vm_div_i64s vm_rem_i64s
  by unfold_locales (simp_all add: vm_add_i64_def vm_sub_i64_def vm_mul_i64_def vm_div_i64s_def
      vm_rem_i64s_def s_result_Inr_iff s_div_Inr_iff s_rem_Inr_iff)

text \<open>Division is undefined for a zero divisor and for the one quotient that does not fit.\<close>

lemma s_div_fits:
  fixes a b :: "'a::len word"
  assumes "b \<noteq> 0"
  shows "s_fits TYPE('a) (sint a sdiv sint b) \<longleftrightarrow> \<not> (sint a = - (2 ^ (LENGTH('a) - 1)) \<and> sint b = - 1)"
proof -
  let ?M = "2 ^ (LENGTH('a) - 1) :: int"
  have r: "- \<bar>sint a\<bar> \<le> sint a sdiv sint b" "sint a sdiv sint b \<le> \<bar>sint a\<bar>"
    using sdiv_int_range [of "sint a" "sint b"] by auto
  have a: "- ?M \<le> sint a" "sint a < ?M" using sint_ge [of a] sint_lt [of a] by auto
  show ?thesis
  proof (cases "sint b = - 1")
    case True
    then show ?thesis using a by (auto simp: s_fits_def)
  next
    case False
    have "sint a sdiv sint b \<noteq> - sint a \<or> sint a = 0"
      using False int_sdiv_negated_is_minus1 [of "sint a" "sint b"] by blast
    then have "- ?M \<le> sint a sdiv sint b \<and> sint a sdiv sint b < ?M" using r a by linarith
    then have "s_fits TYPE('a) (sint a sdiv sint b)" by (simp add: s_fits_def)
    then show ?thesis using False by simp
  qed
qed

section \<open>Shifts, casts and comparisons\<close>

lemma vm_shl_i32_iff:
  "vm_shl_i32 a n = Inr r \<longleftrightarrow> 0 \<le> sint a \<and> sint r = sint a * 2 ^ unat (n AND 0x1F)"
  by (auto simp: vm_shl_i32_def s_shl_def s_result_Inr_iff)

lemma vm_shl_i64_iff:
  "vm_shl_i64 a n = Inr r \<longleftrightarrow> 0 \<le> sint a \<and> sint r = sint a * 2 ^ unat (n AND 0x3F)"
  by (auto simp: vm_shl_i64_def s_shl_def s_result_Inr_iff)

lemma vm_shr_values:
  "sint (vm_shr_i32s a n) = sint a div 2 ^ unat (n AND 0x1F)"
  "unat (vm_shr_i32u a n) = unat a div 2 ^ unat (n AND 0x1F)"
  "sint (vm_shr_i64s b n) = sint b div 2 ^ unat (n AND 0x3F)"
  "unat (vm_shr_i64u b n) = unat b div 2 ^ unat (n AND 0x3F)"
  by (simp_all add: vm_shr_i32s_def vm_shr_i32u_def vm_shr_i64s_def vm_shr_i64u_def
      sint_signed_drop_bit_eq unat_drop_bit_eq flip: drop_bit_eq_div)

lemma c_bool_eq [simp]: "c_bool b = 1 \<longleftrightarrow> b" "c_bool b = 0 \<longleftrightarrow> \<not> b"
  by (simp_all add: c_bool_def)

section \<open>Floating-point comparisons\<close>

text \<open>Two ordered patterns compare in exactly one way; a NaN compares with nothing.\<close>

lemma f_compare_cases:
  "f_unordered i x y \<or> f_less i x y \<or> f_eq i x y \<or> f_less i y x"
  "f_eq i x y \<Longrightarrow> \<not> f_less i x y \<and> \<not> f_less i y x"
  "f_less i x y \<Longrightarrow> \<not> f_less i y x"
  "f_lesseq i x y \<longleftrightarrow> f_less i x y \<or> f_eq i x y"
  by (auto simp: f_unordered_def f_less_def f_eq_def f_lesseq_def)

lemma f_less_trans: "f_less i x y \<Longrightarrow> f_less i y z \<Longrightarrow> f_less i x z"
  by (auto simp: f_less_def f_unordered_def)

lemma cmp_ne_ordered_is_unordered:
  "vm_cmp_ne_f32o x y = vm_cmp_ne_f32u x y" "vm_cmp_ne_f64o v w = vm_cmp_ne_f64u v w"
  by (auto simp: vm_cmp_ne_f32o_def vm_cmp_ne_f32u_def vm_cmp_ne_f64o_def vm_cmp_ne_f64u_def f_eq_def)

section \<open>Properties\<close>

text \<open>
  Signed division, remainder, multiplication and addition fit together: unless the divisor is
  zero or the quotient overflows, the remainder is defined, smaller than the divisor and has the
  sign of the dividend, and quotient times divisor plus remainder gives the dividend back without
  overflow. Division is undefined exactly in the two other cases.
\<close>

theorem vm_signed_division:
  "(b \<noteq> 0 \<and> \<not> (sint a = - (2 ^ 31) \<and> sint b = - 1) \<longrightarrow>
     (\<exists>q r m. vm_div_i32s a b = Inr q \<and> vm_rem_i32s a b = Inr r \<and> vm_mul_i32 q b = Inr m \<and>
        vm_add_i32 m r = Inr a \<and> \<bar>sint r\<bar> < \<bar>sint b\<bar> \<and> (r = 0 \<or> sgn (sint r) = sgn (sint a)))) \<and>
   (d \<noteq> 0 \<and> \<not> (sint c = - (2 ^ 63) \<and> sint d = - 1) \<longrightarrow>
     (\<exists>q r m. vm_div_i64s c d = Inr q \<and> vm_rem_i64s c d = Inr r \<and> vm_mul_i64 q d = Inr m \<and>
        vm_add_i64 m r = Inr c \<and> \<bar>sint r\<bar> < \<bar>sint d\<bar> \<and> (r = 0 \<or> sgn (sint r) = sgn (sint c)))) \<and>
   vm_div_i32s a 0 = Inl DivByZero \<and>
   (sint a = - (2 ^ 31) \<longrightarrow> vm_div_i32s a (- 1) = Inl SignedOverflow \<and> vm_rem_i32s a (- 1) = Inl SignedOverflow)"
proof (intro conjI impI)
  assume "b \<noteq> 0 \<and> \<not> (sint a = - (2 ^ 31) \<and> sint b = - 1)"
  then obtain q where "vm_div_i32s a b = Inr q"
    using s_div_fits [of b a] by (auto simp: vm_div_i32s_def s_div_def s_result_def)
  then show "\<exists>q r m. vm_div_i32s a b = Inr q \<and> vm_rem_i32s a b = Inr r \<and> vm_mul_i32 q b = Inr m \<and>
      vm_add_i32 m r = Inr a \<and> \<bar>sint r\<bar> < \<bar>sint b\<bar> \<and> (r = 0 \<or> sgn (sint r) = sgn (sint a))"
    using i32.div_mul_rem [of a b q] by blast
next
  assume "d \<noteq> 0 \<and> \<not> (sint c = - (2 ^ 63) \<and> sint d = - 1)"
  then obtain q where "vm_div_i64s c d = Inr q"
    using s_div_fits [of d c] by (auto simp: vm_div_i64s_def s_div_def s_result_def)
  then show "\<exists>q r m. vm_div_i64s c d = Inr q \<and> vm_rem_i64s c d = Inr r \<and> vm_mul_i64 q d = Inr m \<and>
      vm_add_i64 m r = Inr c \<and> \<bar>sint r\<bar> < \<bar>sint d\<bar> \<and> (r = 0 \<or> sgn (sint r) = sgn (sint c))"
    using i64.div_mul_rem [of c d q] by blast
next
  show "vm_div_i32s a 0 = Inl DivByZero" by (simp add: vm_div_i32s_def s_div_def)
next
  assume "sint a = - (2 ^ 31)"
  then have "s_div a (- 1) = Inl SignedOverflow"
    by (simp add: s_div_def s_result_def s_fits_def)
  then show "vm_div_i32s a (- 1) = Inl SignedOverflow" "vm_rem_i32s a (- 1) = Inl SignedOverflow"
    by (simp_all add: vm_div_i32s_def vm_rem_i32s_def s_rem_def)
qed

theorem vm_signed_division_witness:
  "\<exists>q r m. vm_div_i32s 7 2 = Inr q \<and> vm_rem_i32s 7 2 = Inr r \<and> vm_mul_i32 q 2 = Inr m \<and>
     vm_add_i32 m r = Inr 7 \<and> \<bar>sint r\<bar> < \<bar>sint (2 :: i32)\<bar> \<and> (r = 0 \<or> sgn (sint r) = sgn (sint (7 :: i32)))"
  using vm_signed_division [of 2 7 1 1] by simp

text \<open>
  The ordered not-equal comparison of floats does not test for NaNs: it equals the unordered
  one, so it answers 1 when an operand is a NaN, unlike the ordered equal and less-than
  comparisons, which answer 0.
\<close>

lemma ordered_not_equal_accepts_nan:
  "vm_cmp_ne_f32o x y = vm_cmp_ne_f32u x y \<and> vm_cmp_ne_f64o v w = vm_cmp_ne_f64u v w \<and>
   (vm_cmp_nan_f32 x = 1 \<longrightarrow>
     vm_cmp_ne_f32o x y = 1 \<and> vm_cmp_eq_f32o x y = 0 \<and> vm_cmp_lt_f32o x y = 0 \<and> vm_cmp_lte_f32o x y = 0)"
  using cmp_ne_ordered_is_unordered(1) [of x y] cmp_ne_ordered_is_unordered(2) [of v w]
  by (auto simp: vm_cmp_nan_f32_def vm_cmp_ne_f32o_def vm_cmp_eq_f32o_def vm_cmp_lt_f32o_def
      vm_cmp_lte_f32o_def f_eq_def f_less_def f_lesseq_def f_unordered_def)

end
