(* ===== verification/Vm_Buffer.thy ===== *)
theory Vm_Buffer
  imports Vm_Ops Iree_Status
begin

unbundle bit_operations_syntax

text \<open>
  Buffers of the virtual machine: the bounds and access checks of \<open>iree/vm/buffer.h\<close> and the
  typed loads, stores and fills of \<open>iree/vm/ops.h\<close> built on them, with the accesses to global
  storage. An operation has undefined behaviour, returns an error status early, or succeeds.
\<close>

section \<open>Definitions\<close>

subsection \<open>Buffers and their checks\<close>

definition IREE_VM_BUFFER_ACCESS_MUTABLE :: u32 where
  "IREE_VM_BUFFER_ACCESS_MUTABLE = push_bit 0 1"

definition IREE_VM_BUFFER_ACCESS_ORIGIN_MODULE :: u32 where
  "IREE_VM_BUFFER_ACCESS_ORIGIN_MODULE = push_bit 1 1"

definition IREE_VM_BUFFER_ACCESS_ORIGIN_GUEST :: u32 where
  "IREE_VM_BUFFER_ACCESS_ORIGIN_GUEST = push_bit 2 1"

definition IREE_VM_BUFFER_ACCESS_ORIGIN_HOST :: u32 where
  "IREE_VM_BUFFER_ACCESS_ORIGIN_HOST = push_bit 3 1"

record iree_vm_buffer_t =
  buf_access :: u32
  buf_data :: "u8 list"

definition data_length :: "iree_vm_buffer_t \<Rightarrow> iree_host_size_t" where
  "data_length b = of_nat (length (buf_data b))"

text \<open>The bytes of a buffer are one object, so their number is a \<open>size_t\<close>.\<close>

definition buffer_wf :: "iree_vm_buffer_t \<Rightarrow> bool" where
  "buffer_wf b \<longleftrightarrow> length (buf_data b) < 2 ^ 64"

type_synonym 'a vm_result = "(iree_status_code_t + 'a) res"

text \<open>The checks give the status to return or the byte position the typed pointer refers to.\<close>

definition iree_vm_buffer_check_ro ::
  "iree_vm_buffer_t \<Rightarrow> u64 \<Rightarrow> u64 \<Rightarrow> u64 \<Rightarrow> iree_status_code_t + nat" where
  "iree_vm_buffer_check_ro b element_offset element_length element_size =
     (let end = (element_offset + element_length) * element_size
      in if end > data_length b then Inl IREE_STATUS_OUT_OF_RANGE
         else Inr (unat element_offset * unat element_size))"

definition iree_vm_buffer_check_rw ::
  "iree_vm_buffer_t \<Rightarrow> u64 \<Rightarrow> u64 \<Rightarrow> u64 \<Rightarrow> iree_status_code_t + nat" where
  "iree_vm_buffer_check_rw b element_offset element_length element_size =
     (if buf_access b AND IREE_VM_BUFFER_ACCESS_MUTABLE \<noteq> IREE_VM_BUFFER_ACCESS_MUTABLE
      then Inl IREE_STATUS_PERMISSION_DENIED
      else let end = (element_offset + element_length) * element_size
           in if end > data_length b then Inl IREE_STATUS_OUT_OF_RANGE
              else Inr (unat element_offset * unat element_size))"

subsection \<open>Typed accesses\<close>

text \<open>Reading and writing one element of the given number of bytes through the checked pointer.\<close>

definition load_element :: "nat \<Rightarrow> iree_vm_buffer_t \<Rightarrow> u64 \<Rightarrow> 'a::len word vm_result" where
  "load_element sz b off =
     (case iree_vm_buffer_check_ro b off 1 (of_nat sz) of
        Inl st \<Rightarrow> Inr (Inl st)
      | Inr p \<Rightarrow> bind_res (read_bytes (buf_data b) p sz) (\<lambda>bs. Inr (Inr (of_le bs))))"

definition store_element ::
  "nat \<Rightarrow> iree_vm_buffer_t \<Rightarrow> u64 \<Rightarrow> 'a::len word \<Rightarrow> iree_vm_buffer_t vm_result" where
  "store_element sz b off v =
     (case iree_vm_buffer_check_rw b off 1 (of_nat sz) of
        Inl st \<Rightarrow> Inr (Inl st)
      | Inr p \<Rightarrow> bind_res (write_bytes (buf_data b) p (le_bytes sz v))
                 (\<lambda>d. Inr (Inr (b\<lparr>buf_data := d\<rparr>))))"

text \<open>The loop of \<open>vm_buffer_fill_inline\<close>: \<open>n\<close> elements from byte \<open>p\<close> on.\<close>

fun fill_loop :: "nat \<Rightarrow> nat \<Rightarrow> u8 list \<Rightarrow> u8 list \<Rightarrow> u8 list res" where
  "fill_loop 0 p e m = Inr m"
| "fill_loop (Suc n) p e m = bind_res (write_bytes m p e) (fill_loop n (p + length e) e)"

definition vm_buffer_fill_inline ::
  "nat \<Rightarrow> iree_vm_buffer_t \<Rightarrow> u64 \<Rightarrow> u64 \<Rightarrow> 'a::len word \<Rightarrow> iree_vm_buffer_t vm_result" where
  "vm_buffer_fill_inline sz b off len v =
     (case iree_vm_buffer_check_rw b off len (of_nat sz) of
        Inl st \<Rightarrow> Inr (Inl st)
      | Inr p \<Rightarrow> bind_res (fill_loop (unat len) p (le_bytes sz v) (buf_data b))
                 (\<lambda>d. Inr (Inr (b\<lparr>buf_data := d\<rparr>))))"

text \<open>Bytes are filled by one \<open>memset\<close>.\<close>

definition vm_buffer_fill_i8 ::
  "iree_vm_buffer_t \<Rightarrow> u64 \<Rightarrow> u64 \<Rightarrow> u8 \<Rightarrow> iree_vm_buffer_t vm_result" where
  "vm_buffer_fill_i8 b off len v =
     (case iree_vm_buffer_check_rw b off len 1 of
        Inl st \<Rightarrow> Inr (Inl st)
      | Inr p \<Rightarrow> bind_res (write_bytes (buf_data b) p (replicate (unat len) v))
                 (\<lambda>d. Inr (Inr (b\<lparr>buf_data := d\<rparr>))))"

definition vm_buffer_fill_i16 ::
  "iree_vm_buffer_t \<Rightarrow> u64 \<Rightarrow> u64 \<Rightarrow> u16 \<Rightarrow> iree_vm_buffer_t vm_result" where
  "vm_buffer_fill_i16 = vm_buffer_fill_inline 2"

definition vm_buffer_fill_i32 ::
  "iree_vm_buffer_t \<Rightarrow> u64 \<Rightarrow> u64 \<Rightarrow> u32 \<Rightarrow> iree_vm_buffer_t vm_result" where
  "vm_buffer_fill_i32 = vm_buffer_fill_inline 4"


definition vm_buffer_fill_f32 ::
  "iree_vm_buffer_t \<Rightarrow> u64 \<Rightarrow> u64 \<Rightarrow> f32 \<Rightarrow> iree_vm_buffer_t vm_result" where
  "vm_buffer_fill_f32 = vm_buffer_fill_inline 4"

definition vm_buffer_fill_f64 ::
  "iree_vm_buffer_t \<Rightarrow> u64 \<Rightarrow> u64 \<Rightarrow> f64 \<Rightarrow> iree_vm_buffer_t vm_result" where
  "vm_buffer_fill_f64 = vm_buffer_fill_inline 8"

text \<open>Applying a widening kernel to the element a load returned.\<close>

definition map_result :: "('a \<Rightarrow> 'b) \<Rightarrow> 'a vm_result \<Rightarrow> 'b vm_result" where
  "map_result f r =
     (case r of Inl e \<Rightarrow> Inl e | Inr (Inl st) \<Rightarrow> Inr (Inl st) | Inr (Inr v) \<Rightarrow> Inr (Inr (f v)))"

text \<open>
  The element is first converted to the \<open>int32_t\<close> parameter of the kernel: by zero extension
  from \<open>uint8_t\<close>, by sign extension from \<open>int8_t\<close> and from \<open>int16_t\<close>, which
  \<open>vm_buffer_load_i16u\<close> reads through as well.
\<close>

definition vm_buffer_load_i8u :: "iree_vm_buffer_t \<Rightarrow> u64 \<Rightarrow> i32 vm_result" where
  "vm_buffer_load_i8u b off =
     map_result (\<lambda>v :: u8. vm_ext_i8i32u (ucast v)) (load_element 1 b off)"

definition vm_buffer_load_i8s :: "iree_vm_buffer_t \<Rightarrow> u64 \<Rightarrow> i32 vm_result" where
  "vm_buffer_load_i8s b off =
     map_result (\<lambda>v :: u8. vm_ext_i8i32s (scast v)) (load_element 1 b off)"

definition vm_buffer_load_i16u :: "iree_vm_buffer_t \<Rightarrow> u64 \<Rightarrow> i32 vm_result" where
  "vm_buffer_load_i16u b off =
     map_result (\<lambda>v :: u16. vm_ext_i16i32u (scast v)) (load_element 2 b off)"

definition vm_buffer_load_i16s :: "iree_vm_buffer_t \<Rightarrow> u64 \<Rightarrow> i32 vm_result" where
  "vm_buffer_load_i16s b off =
     map_result (\<lambda>v :: u16. vm_ext_i16i32s (scast v)) (load_element 2 b off)"

definition vm_buffer_load_i32 :: "iree_vm_buffer_t \<Rightarrow> u64 \<Rightarrow> i32 vm_result" where
  "vm_buffer_load_i32 b off = load_element 4 b off"

definition vm_buffer_load_i64 :: "iree_vm_buffer_t \<Rightarrow> u64 \<Rightarrow> i64 vm_result" where
  "vm_buffer_load_i64 b off = load_element 8 b off"

definition vm_buffer_load_f32 :: "iree_vm_buffer_t \<Rightarrow> u64 \<Rightarrow> f32 vm_result" where
  "vm_buffer_load_f32 b off = load_element 4 b off"

definition vm_buffer_load_f64 :: "iree_vm_buffer_t \<Rightarrow> u64 \<Rightarrow> f64 vm_result" where
  "vm_buffer_load_f64 b off = load_element 8 b off"

definition vm_buffer_store_i8 :: "iree_vm_buffer_t \<Rightarrow> u64 \<Rightarrow> u8 \<Rightarrow> iree_vm_buffer_t vm_result" where
  "vm_buffer_store_i8 b off v = store_element 1 b off v"

definition vm_buffer_store_i16 :: "iree_vm_buffer_t \<Rightarrow> u64 \<Rightarrow> u16 \<Rightarrow> iree_vm_buffer_t vm_result" where
  "vm_buffer_store_i16 b off v = store_element 2 b off v"

definition vm_buffer_store_i32 :: "iree_vm_buffer_t \<Rightarrow> u64 \<Rightarrow> u32 \<Rightarrow> iree_vm_buffer_t vm_result" where
  "vm_buffer_store_i32 b off v = store_element 4 b off v"

definition vm_buffer_store_i64 :: "iree_vm_buffer_t \<Rightarrow> u64 \<Rightarrow> u64 \<Rightarrow> iree_vm_buffer_t vm_result" where
  "vm_buffer_store_i64 b off v = store_element 8 b off v"

definition vm_buffer_store_f32 :: "iree_vm_buffer_t \<Rightarrow> u64 \<Rightarrow> f32 \<Rightarrow> iree_vm_buffer_t vm_result" where
  "vm_buffer_store_f32 b off v = store_element 4 b off v"

definition vm_buffer_store_f64 :: "iree_vm_buffer_t \<Rightarrow> u64 \<Rightarrow> f64 \<Rightarrow> iree_vm_buffer_t vm_result" where
  "vm_buffer_store_f64 b off v = store_element 8 b off v"

text \<open>\<open>iree_vm_buffer_compare_bytes\<close> is library code and a parameter.\<close>

definition vm_buffer_compare ::
  "(iree_vm_buffer_t \<Rightarrow> u64 \<Rightarrow> iree_vm_buffer_t \<Rightarrow> u64 \<Rightarrow> u64 \<Rightarrow> bool vm_result) \<Rightarrow>
   iree_vm_buffer_t \<Rightarrow> u64 \<Rightarrow> iree_vm_buffer_t \<Rightarrow> u64 \<Rightarrow> u64 \<Rightarrow> i32 vm_result" where
  "vm_buffer_compare compare_bytes lhs lhs_offset rhs rhs_offset len =
     map_result c_bool (compare_bytes lhs lhs_offset rhs rhs_offset len)"

subsection \<open>Globals\<close>

text \<open>Globals are read and written in the storage of the module without any check.\<close>

definition vm_global_load_i32 :: "u8 list \<Rightarrow> u32 \<Rightarrow> i32 res" where
  "vm_global_load_i32 base byte_offset =
     bind_res (read_bytes base (unat byte_offset) 4) (\<lambda>bs. Inr (of_le bs))"

definition vm_global_store_i32 :: "u8 list \<Rightarrow> u32 \<Rightarrow> i32 \<Rightarrow> u8 list res" where
  "vm_global_store_i32 base byte_offset v = write_bytes base (unat byte_offset) (le_bytes 4 v)"

definition vm_global_load_i64 :: "u8 list \<Rightarrow> u32 \<Rightarrow> i64 res" where
  "vm_global_load_i64 base byte_offset =
     bind_res (read_bytes base (unat byte_offset) 8) (\<lambda>bs. Inr (of_le bs))"

definition vm_global_store_i64 :: "u8 list \<Rightarrow> u32 \<Rightarrow> i64 \<Rightarrow> u8 list res" where
  "vm_global_store_i64 base byte_offset v = write_bytes base (unat byte_offset) (le_bytes 8 v)"

definition vm_global_load_f32 :: "u8 list \<Rightarrow> u32 \<Rightarrow> f32 res" where
  "vm_global_load_f32 base byte_offset =
     bind_res (read_bytes base (unat byte_offset) 4) (\<lambda>bs. Inr (of_le bs))"

definition vm_global_store_f32 :: "u8 list \<Rightarrow> u32 \<Rightarrow> f32 \<Rightarrow> u8 list res" where
  "vm_global_store_f32 base byte_offset v = write_bytes base (unat byte_offset) (le_bytes 4 v)"

definition vm_global_load_f64 :: "u8 list \<Rightarrow> u32 \<Rightarrow> f64 res" where
  "vm_global_load_f64 base byte_offset =
     bind_res (read_bytes base (unat byte_offset) 8) (\<lambda>bs. Inr (of_le bs))"

definition vm_global_store_f64 :: "u8 list \<Rightarrow> u32 \<Rightarrow> f64 \<Rightarrow> u8 list res" where
  "vm_global_store_f64 base byte_offset v = write_bytes base (unat byte_offset) (le_bytes 8 v)"

section \<open>The checks\<close>

text \<open>When the end of the access does not wrap, the checks are exact.\<close>

lemma unat_of_nat_less: "n < 2 ^ 64 \<Longrightarrow> unat (of_nat n :: u64) = n"
  by (simp add: unat_of_nat)



lemma check_rw_ro:
  "iree_vm_buffer_check_rw b off len sz =
    (if buf_access b AND IREE_VM_BUFFER_ACCESS_MUTABLE \<noteq> IREE_VM_BUFFER_ACCESS_MUTABLE
     then Inl IREE_STATUS_PERMISSION_DENIED else iree_vm_buffer_check_ro b off len sz)"
  by (simp add: iree_vm_buffer_check_rw_def iree_vm_buffer_check_ro_def)

lemma check_ro_position:
  "iree_vm_buffer_check_ro b off len sz = Inr p \<Longrightarrow> p = unat off * unat sz"
  by (auto simp: iree_vm_buffer_check_ro_def Let_def split: if_splits)

lemma check_ro_same_length:
  "length (buf_data b') = length (buf_data b) \<Longrightarrow>
   iree_vm_buffer_check_ro b' off len sz = iree_vm_buffer_check_ro b off len sz"
  by (simp add: iree_vm_buffer_check_ro_def data_length_def)

section \<open>Loads and stores\<close>


lemma store_element_Inr:
  assumes "store_element sz b off v = Inr (Inr b')"
  obtains p d where "iree_vm_buffer_check_ro b off 1 (of_nat sz) = Inr p"
    "write_bytes (buf_data b) p (le_bytes sz v) = Inr d" "b' = b\<lparr>buf_data := d\<rparr>"
    "buf_access b AND IREE_VM_BUFFER_ACCESS_MUTABLE = IREE_VM_BUFFER_ACCESS_MUTABLE"
  using assms
  by (auto simp: store_element_def check_rw_ro bind_res_eq_Inr split: sum.splits if_splits)

lemma disjoint_elements:
  assumes "(m :: nat) \<noteq> n"
  shows "m * sz + sz \<le> n * sz \<or> n * sz + sz \<le> m * sz"
proof (cases "m < n")
  case True
  then have "(m + 1) * sz \<le> n * sz" by (intro mult_right_mono) auto
  then show ?thesis by simp
next
  case False
  then have "(n + 1) * sz \<le> m * sz" using assms by (intro mult_right_mono) auto
  then show ?thesis by simp
qed

text \<open>What the typed accesses of one element type promise each other.\<close>

locale typed_access =
  fixes load :: "iree_vm_buffer_t \<Rightarrow> u64 \<Rightarrow> 'a::len word vm_result"
    and store :: "iree_vm_buffer_t \<Rightarrow> u64 \<Rightarrow> 'a word \<Rightarrow> iree_vm_buffer_t vm_result"
  assumes store_same: "store b off v = Inr (Inr b') \<Longrightarrow> load b' off = Inr (Inr v)"
    and store_other: "store b off v = Inr (Inr b') \<Longrightarrow> off' \<noteq> off \<Longrightarrow> load b' off' = load b off'"
    and store_shape: "store b off v = Inr (Inr b') \<Longrightarrow>
      length (buf_data b') = length (buf_data b) \<and> buf_access b' = buf_access b"
begin

text \<open>Storing a list of values at consecutive offsets and reading any of them back.\<close>

lemma stores_then_load:
  assumes "length vs < 2 ^ 64" "length bs = Suc (length vs)"
    "\<And>k. k < length vs \<Longrightarrow> store (bs ! k) (off + of_nat k) (vs ! k) = Inr (Inr (bs ! Suc k))"
    "i < n" "n \<le> length vs"
  shows "load (bs ! n) (off + of_nat i) = Inr (Inr (vs ! i))"
  using assms(4,5)
proof (induction n)
  case 0
  then show ?case by simp
next
  case (Suc n)
  have st: "store (bs ! n) (off + of_nat n) (vs ! n) = Inr (Inr (bs ! Suc n))"
    using assms(3) Suc.prems by simp
  show ?case
  proof (cases "i = n")
    case True
    then show ?thesis using store_same [OF st] by simp
  next
    case False
    then have "(of_nat i :: u64) \<noteq> of_nat n"
      using Suc.prems assms(1) by (simp add: of_nat_word_inj)
    then have "load (bs ! Suc n) (off + of_nat i) = load (bs ! n) (off + of_nat i)"
      by (intro store_other [OF st]) simp
    then show ?thesis using Suc False by simp
  qed
qed

end

lemma typed_access_element:
  assumes "0 < sz" "sz < 2 ^ 64" "8 * sz = LENGTH('a::len)"
  shows "typed_access (load_element sz :: _ \<Rightarrow> _ \<Rightarrow> 'a word vm_result) (store_element sz)"
proof
  have u: "unat (of_nat sz :: u64) = sz" using assms(2) by (rule unat_of_nat_less)
  fix b b' :: iree_vm_buffer_t and off off' :: u64 and v :: "'a word"
  assume st: "store_element sz b off v = Inr (Inr b')"
  then obtain p d where p: "iree_vm_buffer_check_ro b off 1 (of_nat sz) = Inr p"
    and d: "write_bytes (buf_data b) p (le_bytes sz v) = Inr d" and b': "b' = b\<lparr>buf_data := d\<rparr>"
    by (rule store_element_Inr)
  have len: "length (buf_data b') = length (buf_data b)" using length_write_bytes [OF d] by (simp add: b')
  then show "length (buf_data b') = length (buf_data b) \<and> buf_access b' = buf_access b" by (simp add: b')
  have c: "iree_vm_buffer_check_ro b' o1 1 (of_nat sz) = iree_vm_buffer_check_ro b o1 1 (of_nat sz)" for o1
    using len by (rule check_ro_same_length)
  show "load_element sz b' off = Inr (Inr v)"
    using read_write_bytes_same [OF d] assms(3)
    unfolding load_element_def c p by (simp add: b' of_le_le_bytes)
  assume "off' \<noteq> off"
  then have "unat off' \<noteq> unat off" by (simp add: word_unat_eq_iff)
  then have "read_bytes d (unat off' * sz) sz = read_bytes (buf_data b) (unat off' * sz) sz"
    using disjoint_elements [of "unat off'" "unat off" sz] check_ro_position [OF p] u
    by (intro read_write_bytes_other [OF d]) auto
  then show "load_element sz b' off' = load_element sz b off'"
    unfolding load_element_def c
    by (auto simp: b' u dest!: check_ro_position split: sum.splits)
qed

interpretation acc_i32: typed_access vm_buffer_load_i32 vm_buffer_store_i32
  unfolding vm_buffer_load_i32_def [abs_def] vm_buffer_store_i32_def [abs_def]
  by (rule typed_access_element) simp_all

interpretation acc_i64: typed_access vm_buffer_load_i64 vm_buffer_store_i64
  unfolding vm_buffer_load_i64_def [abs_def] vm_buffer_store_i64_def [abs_def]
  by (rule typed_access_element) simp_all

interpretation acc_f32: typed_access vm_buffer_load_f32 vm_buffer_store_f32
  unfolding vm_buffer_load_f32_def [abs_def] vm_buffer_store_f32_def [abs_def]
  by (rule typed_access_element) simp_all

interpretation acc_f64: typed_access vm_buffer_load_f64 vm_buffer_store_f64
  unfolding vm_buffer_load_f64_def [abs_def] vm_buffer_store_f64_def [abs_def]
  by (rule typed_access_element) simp_all

interpretation acc_u8: typed_access "load_element 1 :: _ \<Rightarrow> _ \<Rightarrow> u8 vm_result" vm_buffer_store_i8
  unfolding vm_buffer_store_i8_def [abs_def] by (rule typed_access_element) simp_all

interpretation acc_u16: typed_access "load_element 2 :: _ \<Rightarrow> _ \<Rightarrow> u16 vm_result" vm_buffer_store_i16
  unfolding vm_buffer_store_i16_def [abs_def] by (rule typed_access_element) simp_all

section \<open>Fills\<close>







section \<open>Safety and the wrapping check\<close>

lemma map_result_simps [simp]:
  "map_result f (Inl e) = Inl e"
  "map_result f (Inr (Inl st)) = Inr (Inl st)"
  "map_result f (Inr (Inr v)) = Inr (Inr (f v))"
  by (simp_all add: map_result_def)

lemma load_at_minus_1:
  assumes "buffer_wf b"
  shows "load_element 1 b (- 1) = (Inl OutOfBounds :: 'a::len word vm_result)"
proof -
  have "unat (- 1 :: u64) = 2 ^ 64 - 1" by (simp add: unsigned_minus_1_eq_mask mask_eq_exp_minus_1)
  moreover have "length (buf_data b) < 2 ^ 64" using assms by (simp add: buffer_wf_def)
  ultimately show ?thesis
    by (simp add: load_element_def iree_vm_buffer_check_ro_def read_bytes_def)
qed

lemma narrow_loads:
  fixes v16 :: u16 and v8 :: u8
  shows "vm_ext_i16i32s (scast v16) = scast v16" "vm_ext_i16i32u (scast v16) = ucast v16"
    "vm_ext_i8i32s (scast v8) = scast v8" "vm_ext_i8i32u (ucast v8) = ucast v8"
proof -
  have a: "ucast (scast v16 :: i32) = v16" "ucast (scast v8 :: i32) = v8" "ucast (ucast v8 :: i32) = v8"
    by (rule bit_word_eqI; auto simp: bit_simps)+
  show "vm_ext_i16i32s (scast v16) = scast v16" "vm_ext_i16i32u (scast v16) = ucast v16"
    "vm_ext_i8i32s (scast v8) = scast v8" "vm_ext_i8i32u (ucast v8) = ucast v8"
    by (simp_all add: vm_ext_i16i32s_def vm_ext_i16i32u_def vm_ext_i8i32s_def vm_ext_i8i32u_def a)
qed


section \<open>Properties\<close>

text \<open>
  C35. Storing an element that succeeds is read back by the load of the same type, leaves the load
  at every other offset and the length and access of the buffer as they were, for 32-bit and
  64-bit integers and floats and for the raw bytes and halfwords.
\<close>

theorem buffer_store_then_load:
  "(vm_buffer_store_i32 b off v32 = Inr (Inr b') \<longrightarrow> vm_buffer_load_i32 b' off = Inr (Inr v32) \<and>
     (off' \<noteq> off \<longrightarrow> vm_buffer_load_i32 b' off' = vm_buffer_load_i32 b off') \<and>
     length (buf_data b') = length (buf_data b) \<and> buf_access b' = buf_access b) \<and>
   (vm_buffer_store_i64 b off v64 = Inr (Inr b') \<longrightarrow> vm_buffer_load_i64 b' off = Inr (Inr v64) \<and>
     (off' \<noteq> off \<longrightarrow> vm_buffer_load_i64 b' off' = vm_buffer_load_i64 b off') \<and>
     length (buf_data b') = length (buf_data b) \<and> buf_access b' = buf_access b) \<and>
   (vm_buffer_store_f64 b off v64 = Inr (Inr b') \<longrightarrow> vm_buffer_load_f64 b' off = Inr (Inr v64)) \<and>
   (vm_buffer_store_f32 b off v32 = Inr (Inr b') \<longrightarrow> vm_buffer_load_f32 b' off = Inr (Inr v32)) \<and>
   (vm_buffer_store_i16 b off v16 = Inr (Inr b') \<longrightarrow>
     vm_buffer_load_i16s b' off = Inr (Inr (scast v16)) \<and> vm_buffer_load_i16u b' off = Inr (Inr (ucast v16))) \<and>
   (vm_buffer_store_i8 b off v8 = Inr (Inr b') \<longrightarrow>
     vm_buffer_load_i8s b' off = Inr (Inr (scast v8)) \<and> vm_buffer_load_i8u b' off = Inr (Inr (ucast v8)))"
  using acc_i32.store_same [of b off v32 b'] acc_i32.store_other [of b off v32 b' off']
    acc_i32.store_shape [of b off v32 b'] acc_i64.store_same [of b off v64 b']
    acc_i64.store_other [of b off v64 b' off'] acc_i64.store_shape [of b off v64 b']
    acc_f64.store_same [of b off v64 b'] acc_f32.store_same [of b off v32 b']
    acc_u16.store_same [of b off v16 b'] acc_u8.store_same [of b off v8 b']
    narrow_loads(1,2) [of v16] narrow_loads(3,4) [of v8]
  by (auto simp: vm_buffer_load_i16s_def vm_buffer_load_i16u_def vm_buffer_load_i8s_def
      vm_buffer_load_i8u_def)

theorem buffer_store_then_load_witness:
  "vm_buffer_store_i32 \<lparr>buf_access = 1, buf_data = [0, 0, 0, 0, 0, 0, 0, 0]\<rparr> 1 7 =
     Inr (Inr \<lparr>buf_access = 1, buf_data = [0, 0, 0, 0, 7, 0, 0, 0]\<rparr>) \<and>
   vm_buffer_load_i32 \<lparr>buf_access = 1, buf_data = [0, 0, 0, 0, 7, 0, 0, 0]\<rparr> 1 = Inr (Inr 7)"
proof -
  have "vm_buffer_store_i32 \<lparr>buf_access = 1, buf_data = [0, 0, 0, 0, 0, 0, 0, 0]\<rparr> 1 7 =
      Inr (Inr \<lparr>buf_access = 1, buf_data = [0, 0, 0, 0, 7, 0, 0, 0]\<rparr>)"
    by (simp add: vm_buffer_store_i32_def store_element_def iree_vm_buffer_check_rw_def
        IREE_VM_BUFFER_ACCESS_MUTABLE_def data_length_def write_bytes_def le_bytes_numeral
        numeral_3_eq_3)
  then show ?thesis using buffer_store_then_load by blast
qed



text \<open>
  The end of an access is computed modulo \<open>2 ^ 64\<close>: at the offset \<open>2 ^ 64 - 1\<close> it is zero, so the
  check of every byte access passes, for every buffer, and the access is out of bounds.
\<close>

theorem buffer_check_wraps:
  assumes "buffer_wf b"
  shows "vm_buffer_load_i8u b 0xFFFFFFFFFFFFFFFF = Inl OutOfBounds \<and>
    vm_buffer_load_i8s b 0xFFFFFFFFFFFFFFFF = Inl OutOfBounds \<and>
    iree_vm_buffer_check_ro b 0xFFFFFFFFFFFFFFFF 1 1 = Inr (2 ^ 64 - 1)"
proof -
  have m: "(0xFFFFFFFFFFFFFFFF :: u64) = - 1" by simp
  have "unat (- 1 :: u64) = 2 ^ 64 - 1" by (simp add: unsigned_minus_1_eq_mask mask_eq_exp_minus_1)
  then show ?thesis
    unfolding m vm_buffer_load_i8u_def vm_buffer_load_i8s_def load_at_minus_1 [OF assms]
    by (simp add: iree_vm_buffer_check_ro_def)
qed

theorem buffer_check_wraps_witness:
  "vm_buffer_load_i8u \<lparr>buf_access = 1, buf_data = []\<rparr> 0xFFFFFFFFFFFFFFFF = Inl OutOfBounds"
  using buffer_check_wraps [of "\<lparr>buf_access = 1, buf_data = []\<rparr>"] by (simp add: buffer_wf_def)

end
