(* ===== verification/Vm_Op_Table.thy ===== *)
theory Vm_Op_Table
  imports Nx_Prelude
begin

text \<open>
  \<open>iree/vm/bytecode/utils/generated/op_table.h\<close>: for the core instruction set and the two
  floating-point extensions, the enumeration of the opcodes and the table the dispatchers expand.
  Each list is given in two halves of 128 entries. An enumerator without a value is one more than
  the previous one; those are the reserved codes.
\<close>

section \<open>Definitions\<close>

datatype enumerator = Explicit string u8 | Implicit string

datatype op_entry = OPC u8 string | RSV u8


definition iree_vm_core_op_lo :: "enumerator list" where
  "iree_vm_core_op_lo =
    [Explicit ''GlobalLoadI32'' 0x00, Explicit ''GlobalStoreI32'' 0x01,
     Explicit ''GlobalLoadIndirectI32'' 0x02, Explicit ''GlobalStoreIndirectI32'' 0x03,
     Explicit ''GlobalLoadI64'' 0x04, Explicit ''GlobalStoreI64'' 0x05,
     Explicit ''GlobalLoadIndirectI64'' 0x06, Explicit ''GlobalStoreIndirectI64'' 0x07,
     Explicit ''GlobalLoadRef'' 0x08, Explicit ''GlobalStoreRef'' 0x09,
     Explicit ''GlobalLoadIndirectRef'' 0x0A, Explicit ''GlobalStoreIndirectRef'' 0x0B,
     Explicit ''ConstI32Zero'' 0x0C, Explicit ''ConstI32'' 0x0D, Explicit ''ConstI64Zero'' 0x0E,
     Explicit ''ConstI64'' 0x0F, Explicit ''ConstRefZero'' 0x10,
     Explicit ''ConstRefRodata'' 0x11, Explicit ''ListAlloc'' 0x12,
     Explicit ''ListReserve'' 0x13, Explicit ''ListSize'' 0x14, Explicit ''ListResize'' 0x15,
     Explicit ''ListGetI32'' 0x16, Explicit ''ListSetI32'' 0x17, Explicit ''ListGetI64'' 0x18,
     Explicit ''ListSetI64'' 0x19, Explicit ''ListGetRef'' 0x1A, Explicit ''ListSetRef'' 0x1B,
     Explicit ''SelectI32'' 0x1C, Explicit ''SelectI64'' 0x1D, Explicit ''SelectRef'' 0x1E,
     Explicit ''SwitchI32'' 0x1F, Explicit ''SwitchI64'' 0x20, Explicit ''SwitchRef'' 0x21,
     Explicit ''AddI32'' 0x22, Explicit ''SubI32'' 0x23, Explicit ''MulI32'' 0x24,
     Explicit ''DivI32S'' 0x25, Explicit ''DivI32U'' 0x26, Explicit ''RemI32S'' 0x27,
     Explicit ''RemI32U'' 0x28, Explicit ''FMAI32'' 0x29, Explicit ''AddI64'' 0x2A,
     Explicit ''SubI64'' 0x2B, Explicit ''MulI64'' 0x2C, Explicit ''DivI64S'' 0x2D,
     Explicit ''DivI64U'' 0x2E, Explicit ''RemI64S'' 0x2F, Explicit ''RemI64U'' 0x30,
     Explicit ''FMAI64'' 0x31, Explicit ''NotI32'' 0x32, Explicit ''AndI32'' 0x33,
     Explicit ''OrI32'' 0x34, Explicit ''XorI32'' 0x35, Explicit ''NotI64'' 0x36,
     Explicit ''AndI64'' 0x37, Explicit ''OrI64'' 0x38, Explicit ''XorI64'' 0x39,
     Explicit ''ShlI32'' 0x3A, Explicit ''ShrI32S'' 0x3B, Explicit ''ShrI32U'' 0x3C,
     Explicit ''ShlI64'' 0x3D, Explicit ''ShrI64S'' 0x3E, Explicit ''ShrI64U'' 0x3F,
     Explicit ''TruncI32I8'' 0x40, Explicit ''TruncI32I16'' 0x41, Explicit ''TruncI64I32'' 0x42,
     Explicit ''ExtI8I32S'' 0x43, Explicit ''ExtI8I32U'' 0x44, Explicit ''ExtI16I32S'' 0x45,
     Explicit ''ExtI16I32U'' 0x46, Explicit ''ExtI32I64S'' 0x47, Explicit ''ExtI32I64U'' 0x48,
     Explicit ''CmpEQI32'' 0x49, Explicit ''CmpNEI32'' 0x4A, Explicit ''CmpLTI32S'' 0x4B,
     Explicit ''CmpLTI32U'' 0x4C, Explicit ''CmpNZI32'' 0x4D, Explicit ''CmpEQI64'' 0x4E,
     Explicit ''CmpNEI64'' 0x4F, Explicit ''CmpLTI64S'' 0x50, Explicit ''CmpLTI64U'' 0x51,
     Explicit ''CmpNZI64'' 0x52, Explicit ''CmpEQRef'' 0x53, Explicit ''CmpNERef'' 0x54,
     Explicit ''CmpNZRef'' 0x55, Explicit ''Branch'' 0x56, Explicit ''CondBranch'' 0x57,
     Explicit ''Call'' 0x58, Explicit ''CallVariadic'' 0x59, Explicit ''Return'' 0x5A,
     Explicit ''Fail'' 0x5B, Explicit ''ImportResolved'' 0x5C, Explicit ''Yield'' 0x5D,
     Explicit ''Trace'' 0x5E, Explicit ''Print'' 0x5F, Explicit ''CondBreak'' 0x60,
     Explicit ''Break'' 0x61, Explicit ''BufferLoadI8U'' 0x62, Explicit ''BufferLoadI8S'' 0x63,
     Explicit ''BufferLoadI16U'' 0x64, Explicit ''BufferLoadI16S'' 0x65,
     Explicit ''BufferLoadI32'' 0x66, Explicit ''BufferLoadI64'' 0x67,
     Explicit ''BufferStoreI8'' 0x68, Explicit ''BufferStoreI16'' 0x69,
     Explicit ''BufferStoreI32'' 0x6A, Explicit ''BufferStoreI64'' 0x6B,
     Explicit ''BufferAlloc'' 0x6C, Explicit ''BufferClone'' 0x6D,
     Explicit ''BufferLength'' 0x6E, Explicit ''BufferCopy'' 0x6F,
     Explicit ''BufferCompare'' 0x70, Explicit ''BufferFillI8'' 0x71,
     Explicit ''BufferFillI16'' 0x72, Explicit ''BufferFillI32'' 0x73,
     Explicit ''BufferFillI64'' 0x74, Explicit ''CtlzI32'' 0x75, Explicit ''CtlzI64'' 0x76,
     Explicit ''AbsI32'' 0x77, Explicit ''AbsI64'' 0x78, Explicit ''Block'' 0x79,
     Explicit ''MinI32S'' 0x7A, Explicit ''MinI32U'' 0x7B, Explicit ''MaxI32S'' 0x7C,
     Explicit ''MaxI32U'' 0x7D, Explicit ''MinI64S'' 0x7E, Explicit ''MinI64U'' 0x7F]"

definition iree_vm_core_op_hi :: "enumerator list" where
  "iree_vm_core_op_hi =
    [Explicit ''MaxI64S'' 0x80, Explicit ''MaxI64U'' 0x81, Explicit ''CastAnyRef'' 0x82,
     Explicit ''BranchTable'' 0x83, Explicit ''BufferHash'' 0x84, Implicit ''RSV_0x85'',
     Implicit ''RSV_0x86'', Implicit ''RSV_0x87'', Implicit ''RSV_0x88'', Implicit ''RSV_0x89'',
     Implicit ''RSV_0x8A'', Implicit ''RSV_0x8B'', Implicit ''RSV_0x8C'', Implicit ''RSV_0x8D'',
     Implicit ''RSV_0x8E'', Implicit ''RSV_0x8F'', Implicit ''RSV_0x90'', Implicit ''RSV_0x91'',
     Implicit ''RSV_0x92'', Implicit ''RSV_0x93'', Implicit ''RSV_0x94'', Implicit ''RSV_0x95'',
     Implicit ''RSV_0x96'', Implicit ''RSV_0x97'', Implicit ''RSV_0x98'', Implicit ''RSV_0x99'',
     Implicit ''RSV_0x9A'', Implicit ''RSV_0x9B'', Implicit ''RSV_0x9C'', Implicit ''RSV_0x9D'',
     Implicit ''RSV_0x9E'', Implicit ''RSV_0x9F'', Implicit ''RSV_0xA0'', Implicit ''RSV_0xA1'',
     Implicit ''RSV_0xA2'', Implicit ''RSV_0xA3'', Implicit ''RSV_0xA4'', Implicit ''RSV_0xA5'',
     Implicit ''RSV_0xA6'', Implicit ''RSV_0xA7'', Implicit ''RSV_0xA8'', Implicit ''RSV_0xA9'',
     Implicit ''RSV_0xAA'', Implicit ''RSV_0xAB'', Implicit ''RSV_0xAC'', Implicit ''RSV_0xAD'',
     Implicit ''RSV_0xAE'', Implicit ''RSV_0xAF'', Implicit ''RSV_0xB0'', Implicit ''RSV_0xB1'',
     Implicit ''RSV_0xB2'', Implicit ''RSV_0xB3'', Implicit ''RSV_0xB4'', Implicit ''RSV_0xB5'',
     Implicit ''RSV_0xB6'', Implicit ''RSV_0xB7'', Implicit ''RSV_0xB8'', Implicit ''RSV_0xB9'',
     Implicit ''RSV_0xBA'', Implicit ''RSV_0xBB'', Implicit ''RSV_0xBC'', Implicit ''RSV_0xBD'',
     Implicit ''RSV_0xBE'', Implicit ''RSV_0xBF'', Implicit ''RSV_0xC0'', Implicit ''RSV_0xC1'',
     Implicit ''RSV_0xC2'', Implicit ''RSV_0xC3'', Implicit ''RSV_0xC4'', Implicit ''RSV_0xC5'',
     Implicit ''RSV_0xC6'', Implicit ''RSV_0xC7'', Implicit ''RSV_0xC8'', Implicit ''RSV_0xC9'',
     Implicit ''RSV_0xCA'', Implicit ''RSV_0xCB'', Implicit ''RSV_0xCC'', Implicit ''RSV_0xCD'',
     Implicit ''RSV_0xCE'', Implicit ''RSV_0xCF'', Implicit ''RSV_0xD0'', Implicit ''RSV_0xD1'',
     Implicit ''RSV_0xD2'', Implicit ''RSV_0xD3'', Implicit ''RSV_0xD4'', Implicit ''RSV_0xD5'',
     Implicit ''RSV_0xD6'', Implicit ''RSV_0xD7'', Implicit ''RSV_0xD8'', Implicit ''RSV_0xD9'',
     Implicit ''RSV_0xDA'', Implicit ''RSV_0xDB'', Implicit ''RSV_0xDC'', Implicit ''RSV_0xDD'',
     Implicit ''RSV_0xDE'', Implicit ''RSV_0xDF'', Explicit ''PrefixExtF32'' 0xE0,
     Explicit ''PrefixExtF64'' 0xE1, Implicit ''RSV_0xE2'', Implicit ''RSV_0xE3'',
     Implicit ''RSV_0xE4'', Implicit ''RSV_0xE5'', Implicit ''RSV_0xE6'', Implicit ''RSV_0xE7'',
     Implicit ''RSV_0xE8'', Implicit ''RSV_0xE9'', Implicit ''RSV_0xEA'', Implicit ''RSV_0xEB'',
     Implicit ''RSV_0xEC'', Implicit ''RSV_0xED'', Implicit ''RSV_0xEE'', Implicit ''RSV_0xEF'',
     Implicit ''RSV_0xF0'', Implicit ''RSV_0xF1'', Implicit ''RSV_0xF2'', Implicit ''RSV_0xF3'',
     Implicit ''RSV_0xF4'', Implicit ''RSV_0xF5'', Implicit ''RSV_0xF6'', Implicit ''RSV_0xF7'',
     Implicit ''RSV_0xF8'', Implicit ''RSV_0xF9'', Implicit ''RSV_0xFA'', Implicit ''RSV_0xFB'',
     Implicit ''RSV_0xFC'', Implicit ''RSV_0xFD'', Implicit ''RSV_0xFE'', Implicit ''RSV_0xFF'']"

definition iree_vm_core_op_t :: "enumerator list" where
  "iree_vm_core_op_t = iree_vm_core_op_lo @ iree_vm_core_op_hi"

definition IREE_VM_OP_CORE_TABLE_lo :: "op_entry list" where
  "IREE_VM_OP_CORE_TABLE_lo =
    [OPC 0x00 ''GlobalLoadI32'', OPC 0x01 ''GlobalStoreI32'', OPC 0x02 ''GlobalLoadIndirectI32'',
     OPC 0x03 ''GlobalStoreIndirectI32'', OPC 0x04 ''GlobalLoadI64'',
     OPC 0x05 ''GlobalStoreI64'', OPC 0x06 ''GlobalLoadIndirectI64'',
     OPC 0x07 ''GlobalStoreIndirectI64'', OPC 0x08 ''GlobalLoadRef'',
     OPC 0x09 ''GlobalStoreRef'', OPC 0x0A ''GlobalLoadIndirectRef'',
     OPC 0x0B ''GlobalStoreIndirectRef'', OPC 0x0C ''ConstI32Zero'', OPC 0x0D ''ConstI32'',
     OPC 0x0E ''ConstI64Zero'', OPC 0x0F ''ConstI64'', OPC 0x10 ''ConstRefZero'',
     OPC 0x11 ''ConstRefRodata'', OPC 0x12 ''ListAlloc'', OPC 0x13 ''ListReserve'',
     OPC 0x14 ''ListSize'', OPC 0x15 ''ListResize'', OPC 0x16 ''ListGetI32'',
     OPC 0x17 ''ListSetI32'', OPC 0x18 ''ListGetI64'', OPC 0x19 ''ListSetI64'',
     OPC 0x1A ''ListGetRef'', OPC 0x1B ''ListSetRef'', OPC 0x1C ''SelectI32'',
     OPC 0x1D ''SelectI64'', OPC 0x1E ''SelectRef'', OPC 0x1F ''SwitchI32'',
     OPC 0x20 ''SwitchI64'', OPC 0x21 ''SwitchRef'', OPC 0x22 ''AddI32'', OPC 0x23 ''SubI32'',
     OPC 0x24 ''MulI32'', OPC 0x25 ''DivI32S'', OPC 0x26 ''DivI32U'', OPC 0x27 ''RemI32S'',
     OPC 0x28 ''RemI32U'', OPC 0x29 ''FMAI32'', OPC 0x2A ''AddI64'', OPC 0x2B ''SubI64'',
     OPC 0x2C ''MulI64'', OPC 0x2D ''DivI64S'', OPC 0x2E ''DivI64U'', OPC 0x2F ''RemI64S'',
     OPC 0x30 ''RemI64U'', OPC 0x31 ''FMAI64'', OPC 0x32 ''NotI32'', OPC 0x33 ''AndI32'',
     OPC 0x34 ''OrI32'', OPC 0x35 ''XorI32'', OPC 0x36 ''NotI64'', OPC 0x37 ''AndI64'',
     OPC 0x38 ''OrI64'', OPC 0x39 ''XorI64'', OPC 0x3A ''ShlI32'', OPC 0x3B ''ShrI32S'',
     OPC 0x3C ''ShrI32U'', OPC 0x3D ''ShlI64'', OPC 0x3E ''ShrI64S'', OPC 0x3F ''ShrI64U'',
     OPC 0x40 ''TruncI32I8'', OPC 0x41 ''TruncI32I16'', OPC 0x42 ''TruncI64I32'',
     OPC 0x43 ''ExtI8I32S'', OPC 0x44 ''ExtI8I32U'', OPC 0x45 ''ExtI16I32S'',
     OPC 0x46 ''ExtI16I32U'', OPC 0x47 ''ExtI32I64S'', OPC 0x48 ''ExtI32I64U'',
     OPC 0x49 ''CmpEQI32'', OPC 0x4A ''CmpNEI32'', OPC 0x4B ''CmpLTI32S'',
     OPC 0x4C ''CmpLTI32U'', OPC 0x4D ''CmpNZI32'', OPC 0x4E ''CmpEQI64'', OPC 0x4F ''CmpNEI64'',
     OPC 0x50 ''CmpLTI64S'', OPC 0x51 ''CmpLTI64U'', OPC 0x52 ''CmpNZI64'',
     OPC 0x53 ''CmpEQRef'', OPC 0x54 ''CmpNERef'', OPC 0x55 ''CmpNZRef'', OPC 0x56 ''Branch'',
     OPC 0x57 ''CondBranch'', OPC 0x58 ''Call'', OPC 0x59 ''CallVariadic'', OPC 0x5A ''Return'',
     OPC 0x5B ''Fail'', OPC 0x5C ''ImportResolved'', OPC 0x5D ''Yield'', OPC 0x5E ''Trace'',
     OPC 0x5F ''Print'', OPC 0x60 ''CondBreak'', OPC 0x61 ''Break'', OPC 0x62 ''BufferLoadI8U'',
     OPC 0x63 ''BufferLoadI8S'', OPC 0x64 ''BufferLoadI16U'', OPC 0x65 ''BufferLoadI16S'',
     OPC 0x66 ''BufferLoadI32'', OPC 0x67 ''BufferLoadI64'', OPC 0x68 ''BufferStoreI8'',
     OPC 0x69 ''BufferStoreI16'', OPC 0x6A ''BufferStoreI32'', OPC 0x6B ''BufferStoreI64'',
     OPC 0x6C ''BufferAlloc'', OPC 0x6D ''BufferClone'', OPC 0x6E ''BufferLength'',
     OPC 0x6F ''BufferCopy'', OPC 0x70 ''BufferCompare'', OPC 0x71 ''BufferFillI8'',
     OPC 0x72 ''BufferFillI16'', OPC 0x73 ''BufferFillI32'', OPC 0x74 ''BufferFillI64'',
     OPC 0x75 ''CtlzI32'', OPC 0x76 ''CtlzI64'', OPC 0x77 ''AbsI32'', OPC 0x78 ''AbsI64'',
     OPC 0x79 ''Block'', OPC 0x7A ''MinI64S'', OPC 0x7B ''MinI64U'', OPC 0x7C ''MaxI64S'',
     OPC 0x7D ''MaxI64U'', OPC 0x7E ''MinI64S'', OPC 0x7F ''MinI64U'']"

definition IREE_VM_OP_CORE_TABLE_hi :: "op_entry list" where
  "IREE_VM_OP_CORE_TABLE_hi =
    [OPC 0x80 ''MaxI64S'', OPC 0x81 ''MaxI64U'', OPC 0x82 ''CastAnyRef'',
     OPC 0x83 ''BranchTable'', OPC 0x84 ''BufferHash'', RSV 0x85, RSV 0x86, RSV 0x87, RSV 0x88,
     RSV 0x89, RSV 0x8A, RSV 0x8B, RSV 0x8C, RSV 0x8D, RSV 0x8E, RSV 0x8F, RSV 0x90, RSV 0x91,
     RSV 0x92, RSV 0x93, RSV 0x94, RSV 0x95, RSV 0x96, RSV 0x97, RSV 0x98, RSV 0x99, RSV 0x9A,
     RSV 0x9B, RSV 0x9C, RSV 0x9D, RSV 0x9E, RSV 0x9F, RSV 0xA0, RSV 0xA1, RSV 0xA2, RSV 0xA3,
     RSV 0xA4, RSV 0xA5, RSV 0xA6, RSV 0xA7, RSV 0xA8, RSV 0xA9, RSV 0xAA, RSV 0xAB, RSV 0xAC,
     RSV 0xAD, RSV 0xAE, RSV 0xAF, RSV 0xB0, RSV 0xB1, RSV 0xB2, RSV 0xB3, RSV 0xB4, RSV 0xB5,
     RSV 0xB6, RSV 0xB7, RSV 0xB8, RSV 0xB9, RSV 0xBA, RSV 0xBB, RSV 0xBC, RSV 0xBD, RSV 0xBE,
     RSV 0xBF, RSV 0xC0, RSV 0xC1, RSV 0xC2, RSV 0xC3, RSV 0xC4, RSV 0xC5, RSV 0xC6, RSV 0xC7,
     RSV 0xC8, RSV 0xC9, RSV 0xCA, RSV 0xCB, RSV 0xCC, RSV 0xCD, RSV 0xCE, RSV 0xCF, RSV 0xD0,
     RSV 0xD1, RSV 0xD2, RSV 0xD3, RSV 0xD4, RSV 0xD5, RSV 0xD6, RSV 0xD7, RSV 0xD8, RSV 0xD9,
     RSV 0xDA, RSV 0xDB, RSV 0xDC, RSV 0xDD, RSV 0xDE, RSV 0xDF, OPC 0xE0 ''PrefixExtF32'',
     OPC 0xE1 ''PrefixExtF64'', RSV 0xE2, RSV 0xE3, RSV 0xE4, RSV 0xE5, RSV 0xE6, RSV 0xE7,
     RSV 0xE8, RSV 0xE9, RSV 0xEA, RSV 0xEB, RSV 0xEC, RSV 0xED, RSV 0xEE, RSV 0xEF, RSV 0xF0,
     RSV 0xF1, RSV 0xF2, RSV 0xF3, RSV 0xF4, RSV 0xF5, RSV 0xF6, RSV 0xF7, RSV 0xF8, RSV 0xF9,
     RSV 0xFA, RSV 0xFB, RSV 0xFC, RSV 0xFD, RSV 0xFE, RSV 0xFF]"

definition IREE_VM_OP_CORE_TABLE :: "op_entry list" where
  "IREE_VM_OP_CORE_TABLE = IREE_VM_OP_CORE_TABLE_lo @ IREE_VM_OP_CORE_TABLE_hi"

definition iree_vm_ext_f32_op_lo :: "enumerator list" where
  "iree_vm_ext_f32_op_lo =
    [Explicit ''GlobalLoadF32'' 0x00, Explicit ''GlobalStoreF32'' 0x01,
     Explicit ''GlobalLoadIndirectF32'' 0x02, Explicit ''GlobalStoreIndirectF32'' 0x03,
     Explicit ''ConstF32Zero'' 0x04, Explicit ''ConstF32'' 0x05, Explicit ''ListGetF32'' 0x06,
     Explicit ''ListSetF32'' 0x07, Explicit ''SelectF32'' 0x08, Explicit ''SwitchF32'' 0x09,
     Explicit ''AddF32'' 0x0A, Explicit ''SubF32'' 0x0B, Explicit ''MulF32'' 0x0C,
     Explicit ''DivF32'' 0x0D, Explicit ''RemF32'' 0x0E, Explicit ''FMAF32'' 0x0F,
     Explicit ''AbsF32'' 0x10, Explicit ''NegF32'' 0x11, Explicit ''CeilF32'' 0x12,
     Explicit ''FloorF32'' 0x13, Explicit ''CastSI32F32'' 0x14, Explicit ''CastUI32F32'' 0x15,
     Explicit ''CastF32SI32'' 0x16, Explicit ''CastF32UI32'' 0x17,
     Explicit ''BitcastI32F32'' 0x18, Explicit ''BitcastF32I32'' 0x19, Explicit ''AtanF32'' 0x1A,
     Explicit ''Atan2F32'' 0x1B, Explicit ''CosF32'' 0x1C, Explicit ''SinF32'' 0x1D,
     Explicit ''ExpF32'' 0x1E, Explicit ''Exp2F32'' 0x1F, Explicit ''ExpM1F32'' 0x20,
     Explicit ''LogF32'' 0x21, Explicit ''Log10F32'' 0x22, Explicit ''Log1pF32'' 0x23,
     Explicit ''Log2F32'' 0x24, Explicit ''PowF32'' 0x25, Explicit ''RsqrtF32'' 0x26,
     Explicit ''SqrtF32'' 0x27, Explicit ''TanhF32'' 0x28, Explicit ''ErfF32'' 0x29,
     Explicit ''CmpEQF32O'' 0x2A, Explicit ''CmpEQF32U'' 0x2B, Explicit ''CmpNEF32O'' 0x2C,
     Explicit ''CmpNEF32U'' 0x2D, Explicit ''CmpLTF32O'' 0x2E, Explicit ''CmpLTF32U'' 0x2F,
     Explicit ''CmpLTEF32O'' 0x30, Explicit ''CmpLTEF32U'' 0x31, Explicit ''CmpNaNF32'' 0x32,
     Explicit ''BufferLoadF32'' 0x33, Explicit ''BufferStoreF32'' 0x34,
     Explicit ''BufferFillF32'' 0x35, Explicit ''RoundF32'' 0x36, Explicit ''MinF32'' 0x37,
     Explicit ''MaxF32'' 0x38, Explicit ''RoundF32Even'' 0x39, Implicit ''RSV_0x3A'',
     Implicit ''RSV_0x3B'', Implicit ''RSV_0x3C'', Implicit ''RSV_0x3D'', Implicit ''RSV_0x3E'',
     Implicit ''RSV_0x3F'', Implicit ''RSV_0x40'', Implicit ''RSV_0x41'', Implicit ''RSV_0x42'',
     Implicit ''RSV_0x43'', Implicit ''RSV_0x44'', Implicit ''RSV_0x45'', Implicit ''RSV_0x46'',
     Implicit ''RSV_0x47'', Implicit ''RSV_0x48'', Implicit ''RSV_0x49'', Implicit ''RSV_0x4A'',
     Implicit ''RSV_0x4B'', Implicit ''RSV_0x4C'', Implicit ''RSV_0x4D'', Implicit ''RSV_0x4E'',
     Implicit ''RSV_0x4F'', Implicit ''RSV_0x50'', Implicit ''RSV_0x51'', Implicit ''RSV_0x52'',
     Implicit ''RSV_0x53'', Implicit ''RSV_0x54'', Implicit ''RSV_0x55'', Implicit ''RSV_0x56'',
     Implicit ''RSV_0x57'', Implicit ''RSV_0x58'', Implicit ''RSV_0x59'', Implicit ''RSV_0x5A'',
     Implicit ''RSV_0x5B'', Implicit ''RSV_0x5C'', Implicit ''RSV_0x5D'', Implicit ''RSV_0x5E'',
     Implicit ''RSV_0x5F'', Implicit ''RSV_0x60'', Implicit ''RSV_0x61'', Implicit ''RSV_0x62'',
     Implicit ''RSV_0x63'', Implicit ''RSV_0x64'', Implicit ''RSV_0x65'', Implicit ''RSV_0x66'',
     Implicit ''RSV_0x67'', Implicit ''RSV_0x68'', Implicit ''RSV_0x69'', Implicit ''RSV_0x6A'',
     Implicit ''RSV_0x6B'', Implicit ''RSV_0x6C'', Implicit ''RSV_0x6D'', Implicit ''RSV_0x6E'',
     Implicit ''RSV_0x6F'', Implicit ''RSV_0x70'', Implicit ''RSV_0x71'', Implicit ''RSV_0x72'',
     Implicit ''RSV_0x73'', Implicit ''RSV_0x74'', Implicit ''RSV_0x75'', Implicit ''RSV_0x76'',
     Implicit ''RSV_0x77'', Implicit ''RSV_0x78'', Implicit ''RSV_0x79'', Implicit ''RSV_0x7A'',
     Implicit ''RSV_0x7B'', Implicit ''RSV_0x7C'', Implicit ''RSV_0x7D'', Implicit ''RSV_0x7E'',
     Implicit ''RSV_0x7F'']"

definition iree_vm_ext_f32_op_hi :: "enumerator list" where
  "iree_vm_ext_f32_op_hi =
    [Implicit ''RSV_0x80'', Implicit ''RSV_0x81'', Implicit ''RSV_0x82'', Implicit ''RSV_0x83'',
     Implicit ''RSV_0x84'', Implicit ''RSV_0x85'', Implicit ''RSV_0x86'', Implicit ''RSV_0x87'',
     Implicit ''RSV_0x88'', Implicit ''RSV_0x89'', Implicit ''RSV_0x8A'', Implicit ''RSV_0x8B'',
     Implicit ''RSV_0x8C'', Implicit ''RSV_0x8D'', Implicit ''RSV_0x8E'', Implicit ''RSV_0x8F'',
     Implicit ''RSV_0x90'', Implicit ''RSV_0x91'', Implicit ''RSV_0x92'', Implicit ''RSV_0x93'',
     Implicit ''RSV_0x94'', Implicit ''RSV_0x95'', Implicit ''RSV_0x96'', Implicit ''RSV_0x97'',
     Implicit ''RSV_0x98'', Implicit ''RSV_0x99'', Implicit ''RSV_0x9A'', Implicit ''RSV_0x9B'',
     Implicit ''RSV_0x9C'', Implicit ''RSV_0x9D'', Implicit ''RSV_0x9E'', Implicit ''RSV_0x9F'',
     Implicit ''RSV_0xA0'', Implicit ''RSV_0xA1'', Implicit ''RSV_0xA2'', Implicit ''RSV_0xA3'',
     Implicit ''RSV_0xA4'', Implicit ''RSV_0xA5'', Implicit ''RSV_0xA6'', Implicit ''RSV_0xA7'',
     Implicit ''RSV_0xA8'', Implicit ''RSV_0xA9'', Implicit ''RSV_0xAA'', Implicit ''RSV_0xAB'',
     Implicit ''RSV_0xAC'', Implicit ''RSV_0xAD'', Implicit ''RSV_0xAE'', Implicit ''RSV_0xAF'',
     Implicit ''RSV_0xB0'', Implicit ''RSV_0xB1'', Implicit ''RSV_0xB2'', Implicit ''RSV_0xB3'',
     Implicit ''RSV_0xB4'', Implicit ''RSV_0xB5'', Implicit ''RSV_0xB6'', Implicit ''RSV_0xB7'',
     Implicit ''RSV_0xB8'', Implicit ''RSV_0xB9'', Implicit ''RSV_0xBA'', Implicit ''RSV_0xBB'',
     Implicit ''RSV_0xBC'', Implicit ''RSV_0xBD'', Implicit ''RSV_0xBE'', Implicit ''RSV_0xBF'',
     Implicit ''RSV_0xC0'', Implicit ''RSV_0xC1'', Implicit ''RSV_0xC2'', Implicit ''RSV_0xC3'',
     Implicit ''RSV_0xC4'', Implicit ''RSV_0xC5'', Implicit ''RSV_0xC6'', Implicit ''RSV_0xC7'',
     Implicit ''RSV_0xC8'', Implicit ''RSV_0xC9'', Implicit ''RSV_0xCA'', Implicit ''RSV_0xCB'',
     Implicit ''RSV_0xCC'', Implicit ''RSV_0xCD'', Implicit ''RSV_0xCE'', Implicit ''RSV_0xCF'',
     Implicit ''RSV_0xD0'', Implicit ''RSV_0xD1'', Implicit ''RSV_0xD2'', Implicit ''RSV_0xD3'',
     Implicit ''RSV_0xD4'', Implicit ''RSV_0xD5'', Implicit ''RSV_0xD6'', Implicit ''RSV_0xD7'',
     Implicit ''RSV_0xD8'', Implicit ''RSV_0xD9'', Implicit ''RSV_0xDA'', Implicit ''RSV_0xDB'',
     Implicit ''RSV_0xDC'', Implicit ''RSV_0xDD'', Implicit ''RSV_0xDE'', Implicit ''RSV_0xDF'',
     Implicit ''RSV_0xE0'', Implicit ''RSV_0xE1'', Implicit ''RSV_0xE2'', Implicit ''RSV_0xE3'',
     Implicit ''RSV_0xE4'', Implicit ''RSV_0xE5'', Implicit ''RSV_0xE6'', Implicit ''RSV_0xE7'',
     Implicit ''RSV_0xE8'', Implicit ''RSV_0xE9'', Implicit ''RSV_0xEA'', Implicit ''RSV_0xEB'',
     Implicit ''RSV_0xEC'', Implicit ''RSV_0xED'', Implicit ''RSV_0xEE'', Implicit ''RSV_0xEF'',
     Implicit ''RSV_0xF0'', Implicit ''RSV_0xF1'', Implicit ''RSV_0xF2'', Implicit ''RSV_0xF3'',
     Implicit ''RSV_0xF4'', Implicit ''RSV_0xF5'', Implicit ''RSV_0xF6'', Implicit ''RSV_0xF7'',
     Implicit ''RSV_0xF8'', Implicit ''RSV_0xF9'', Implicit ''RSV_0xFA'', Implicit ''RSV_0xFB'',
     Implicit ''RSV_0xFC'', Implicit ''RSV_0xFD'', Implicit ''RSV_0xFE'', Implicit ''RSV_0xFF'']"

definition iree_vm_ext_f32_op_t :: "enumerator list" where
  "iree_vm_ext_f32_op_t = iree_vm_ext_f32_op_lo @ iree_vm_ext_f32_op_hi"

definition IREE_VM_OP_EXT_F32_TABLE_lo :: "op_entry list" where
  "IREE_VM_OP_EXT_F32_TABLE_lo =
    [OPC 0x00 ''GlobalLoadF32'', OPC 0x01 ''GlobalStoreF32'', OPC 0x02 ''GlobalLoadIndirectF32'',
     OPC 0x03 ''GlobalStoreIndirectF32'', OPC 0x04 ''ConstF32Zero'', OPC 0x05 ''ConstF32'',
     OPC 0x06 ''ListGetF32'', OPC 0x07 ''ListSetF32'', OPC 0x08 ''SelectF32'',
     OPC 0x09 ''SwitchF32'', OPC 0x0A ''AddF32'', OPC 0x0B ''SubF32'', OPC 0x0C ''MulF32'',
     OPC 0x0D ''DivF32'', OPC 0x0E ''RemF32'', OPC 0x0F ''FMAF32'', OPC 0x10 ''AbsF32'',
     OPC 0x11 ''NegF32'', OPC 0x12 ''CeilF32'', OPC 0x13 ''FloorF32'', OPC 0x14 ''CastSI32F32'',
     OPC 0x15 ''CastUI32F32'', OPC 0x16 ''CastF32SI32'', OPC 0x17 ''CastF32UI32'',
     OPC 0x18 ''BitcastI32F32'', OPC 0x19 ''BitcastF32I32'', OPC 0x1A ''AtanF32'',
     OPC 0x1B ''Atan2F32'', OPC 0x1C ''CosF32'', OPC 0x1D ''SinF32'', OPC 0x1E ''ExpF32'',
     OPC 0x1F ''Exp2F32'', OPC 0x20 ''ExpM1F32'', OPC 0x21 ''LogF32'', OPC 0x22 ''Log10F32'',
     OPC 0x23 ''Log1pF32'', OPC 0x24 ''Log2F32'', OPC 0x25 ''PowF32'', OPC 0x26 ''RsqrtF32'',
     OPC 0x27 ''SqrtF32'', OPC 0x28 ''TanhF32'', OPC 0x29 ''ErfF32'', OPC 0x2A ''CmpEQF32O'',
     OPC 0x2B ''CmpEQF32U'', OPC 0x2C ''CmpNEF32O'', OPC 0x2D ''CmpNEF32U'',
     OPC 0x2E ''CmpLTF32O'', OPC 0x2F ''CmpLTF32U'', OPC 0x30 ''CmpLTEF32O'',
     OPC 0x31 ''CmpLTEF32U'', OPC 0x32 ''CmpNaNF32'', OPC 0x33 ''BufferLoadF32'',
     OPC 0x34 ''BufferStoreF32'', OPC 0x35 ''BufferFillF32'', OPC 0x36 ''RoundF32'',
     OPC 0x37 ''MinF32'', OPC 0x38 ''MaxF32'', OPC 0x39 ''RoundF32Even'', RSV 0x3A, RSV 0x3B,
     RSV 0x3C, RSV 0x3D, RSV 0x3E, RSV 0x3F, RSV 0x40, RSV 0x41, RSV 0x42, RSV 0x43, RSV 0x44,
     RSV 0x45, RSV 0x46, RSV 0x47, RSV 0x48, RSV 0x49, RSV 0x4A, RSV 0x4B, RSV 0x4C, RSV 0x4D,
     RSV 0x4E, RSV 0x4F, RSV 0x50, RSV 0x51, RSV 0x52, RSV 0x53, RSV 0x54, RSV 0x55, RSV 0x56,
     RSV 0x57, RSV 0x58, RSV 0x59, RSV 0x5A, RSV 0x5B, RSV 0x5C, RSV 0x5D, RSV 0x5E, RSV 0x5F,
     RSV 0x60, RSV 0x61, RSV 0x62, RSV 0x63, RSV 0x64, RSV 0x65, RSV 0x66, RSV 0x67, RSV 0x68,
     RSV 0x69, RSV 0x6A, RSV 0x6B, RSV 0x6C, RSV 0x6D, RSV 0x6E, RSV 0x6F, RSV 0x70, RSV 0x71,
     RSV 0x72, RSV 0x73, RSV 0x74, RSV 0x75, RSV 0x76, RSV 0x77, RSV 0x78, RSV 0x79, RSV 0x7A,
     RSV 0x7B, RSV 0x7C, RSV 0x7D, RSV 0x7E, RSV 0x7F]"

definition IREE_VM_OP_EXT_F32_TABLE_hi :: "op_entry list" where
  "IREE_VM_OP_EXT_F32_TABLE_hi =
    [RSV 0x80, RSV 0x81, RSV 0x82, RSV 0x83, RSV 0x84, RSV 0x85, RSV 0x86, RSV 0x87, RSV 0x88,
     RSV 0x89, RSV 0x8A, RSV 0x8B, RSV 0x8C, RSV 0x8D, RSV 0x8E, RSV 0x8F, RSV 0x90, RSV 0x91,
     RSV 0x92, RSV 0x93, RSV 0x94, RSV 0x95, RSV 0x96, RSV 0x97, RSV 0x98, RSV 0x99, RSV 0x9A,
     RSV 0x9B, RSV 0x9C, RSV 0x9D, RSV 0x9E, RSV 0x9F, RSV 0xA0, RSV 0xA1, RSV 0xA2, RSV 0xA3,
     RSV 0xA4, RSV 0xA5, RSV 0xA6, RSV 0xA7, RSV 0xA8, RSV 0xA9, RSV 0xAA, RSV 0xAB, RSV 0xAC,
     RSV 0xAD, RSV 0xAE, RSV 0xAF, RSV 0xB0, RSV 0xB1, RSV 0xB2, RSV 0xB3, RSV 0xB4, RSV 0xB5,
     RSV 0xB6, RSV 0xB7, RSV 0xB8, RSV 0xB9, RSV 0xBA, RSV 0xBB, RSV 0xBC, RSV 0xBD, RSV 0xBE,
     RSV 0xBF, RSV 0xC0, RSV 0xC1, RSV 0xC2, RSV 0xC3, RSV 0xC4, RSV 0xC5, RSV 0xC6, RSV 0xC7,
     RSV 0xC8, RSV 0xC9, RSV 0xCA, RSV 0xCB, RSV 0xCC, RSV 0xCD, RSV 0xCE, RSV 0xCF, RSV 0xD0,
     RSV 0xD1, RSV 0xD2, RSV 0xD3, RSV 0xD4, RSV 0xD5, RSV 0xD6, RSV 0xD7, RSV 0xD8, RSV 0xD9,
     RSV 0xDA, RSV 0xDB, RSV 0xDC, RSV 0xDD, RSV 0xDE, RSV 0xDF, RSV 0xE0, RSV 0xE1, RSV 0xE2,
     RSV 0xE3, RSV 0xE4, RSV 0xE5, RSV 0xE6, RSV 0xE7, RSV 0xE8, RSV 0xE9, RSV 0xEA, RSV 0xEB,
     RSV 0xEC, RSV 0xED, RSV 0xEE, RSV 0xEF, RSV 0xF0, RSV 0xF1, RSV 0xF2, RSV 0xF3, RSV 0xF4,
     RSV 0xF5, RSV 0xF6, RSV 0xF7, RSV 0xF8, RSV 0xF9, RSV 0xFA, RSV 0xFB, RSV 0xFC, RSV 0xFD,
     RSV 0xFE, RSV 0xFF]"

definition IREE_VM_OP_EXT_F32_TABLE :: "op_entry list" where
  "IREE_VM_OP_EXT_F32_TABLE = IREE_VM_OP_EXT_F32_TABLE_lo @ IREE_VM_OP_EXT_F32_TABLE_hi"

definition iree_vm_ext_f64_op_lo :: "enumerator list" where
  "iree_vm_ext_f64_op_lo =
    [Explicit ''GlobalLoadF64'' 0x00, Explicit ''GlobalStoreF64'' 0x01,
     Explicit ''GlobalLoadIndirectF64'' 0x02, Explicit ''GlobalStoreIndirectF64'' 0x03,
     Explicit ''ConstF64Zero'' 0x04, Explicit ''ConstF64'' 0x05, Explicit ''ListGetF64'' 0x06,
     Explicit ''ListSetF64'' 0x07, Explicit ''SelectF64'' 0x08, Explicit ''SwitchF64'' 0x09,
     Explicit ''AddF64'' 0x0A, Explicit ''SubF64'' 0x0B, Explicit ''MulF64'' 0x0C,
     Explicit ''DivF64'' 0x0D, Explicit ''RemF64'' 0x0E, Explicit ''FMAF64'' 0x0F,
     Explicit ''AbsF64'' 0x10, Explicit ''NegF64'' 0x11, Explicit ''CeilF64'' 0x12,
     Explicit ''FloorF64'' 0x13, Explicit ''TruncF64F32'' 0x14, Explicit ''ExtF32F64'' 0x15,
     Explicit ''CastSI32F64'' 0x16, Explicit ''CastUI32F64'' 0x17, Explicit ''CastF64SI32'' 0x18,
     Explicit ''CastF64UI32'' 0x19, Explicit ''CastSI64F64'' 0x1A, Explicit ''CastUI64F64'' 0x1B,
     Explicit ''CastF64SI64'' 0x1C, Explicit ''CastF64UI64'' 0x1D,
     Explicit ''BitcastI64F64'' 0x1E, Explicit ''BitcastF64I64'' 0x1F, Explicit ''AtanF64'' 0x20,
     Explicit ''Atan2F64'' 0x21, Explicit ''CosF64'' 0x22, Explicit ''SinF64'' 0x23,
     Explicit ''ExpF64'' 0x24, Explicit ''Exp2F64'' 0x25, Explicit ''ExpM1F64'' 0x26,
     Explicit ''LogF64'' 0x27, Explicit ''Log10F64'' 0x28, Explicit ''Log1pF64'' 0x29,
     Explicit ''Log2F64'' 0x2A, Explicit ''PowF64'' 0x2B, Explicit ''RsqrtF64'' 0x2C,
     Explicit ''SqrtF64'' 0x2D, Explicit ''TanhF64'' 0x2E, Explicit ''ErfF64'' 0x2F,
     Explicit ''CmpEQF64O'' 0x30, Explicit ''CmpEQF64U'' 0x31, Explicit ''CmpNEF64O'' 0x32,
     Explicit ''CmpNEF64U'' 0x33, Explicit ''CmpLTF64O'' 0x34, Explicit ''CmpLTF64U'' 0x35,
     Explicit ''CmpLTEF64O'' 0x36, Explicit ''CmpLTEF64U'' 0x37, Explicit ''CmpNaNF64'' 0x38,
     Explicit ''BufferLoadF64'' 0x39, Explicit ''BufferStoreF64'' 0x3A,
     Explicit ''BufferFillF64'' 0x3B, Explicit ''RoundF64'' 0x3C, Explicit ''MinF64'' 0x3D,
     Explicit ''MaxF64'' 0x3E, Explicit ''RoundF64Even'' 0x3F, Implicit ''RSV_0x40'',
     Implicit ''RSV_0x41'', Implicit ''RSV_0x42'', Implicit ''RSV_0x43'', Implicit ''RSV_0x44'',
     Implicit ''RSV_0x45'', Implicit ''RSV_0x46'', Implicit ''RSV_0x47'', Implicit ''RSV_0x48'',
     Implicit ''RSV_0x49'', Implicit ''RSV_0x4A'', Implicit ''RSV_0x4B'', Implicit ''RSV_0x4C'',
     Implicit ''RSV_0x4D'', Implicit ''RSV_0x4E'', Implicit ''RSV_0x4F'', Implicit ''RSV_0x50'',
     Implicit ''RSV_0x51'', Implicit ''RSV_0x52'', Implicit ''RSV_0x53'', Implicit ''RSV_0x54'',
     Implicit ''RSV_0x55'', Implicit ''RSV_0x56'', Implicit ''RSV_0x57'', Implicit ''RSV_0x58'',
     Implicit ''RSV_0x59'', Implicit ''RSV_0x5A'', Implicit ''RSV_0x5B'', Implicit ''RSV_0x5C'',
     Implicit ''RSV_0x5D'', Implicit ''RSV_0x5E'', Implicit ''RSV_0x5F'', Implicit ''RSV_0x60'',
     Implicit ''RSV_0x61'', Implicit ''RSV_0x62'', Implicit ''RSV_0x63'', Implicit ''RSV_0x64'',
     Implicit ''RSV_0x65'', Implicit ''RSV_0x66'', Implicit ''RSV_0x67'', Implicit ''RSV_0x68'',
     Implicit ''RSV_0x69'', Implicit ''RSV_0x6A'', Implicit ''RSV_0x6B'', Implicit ''RSV_0x6C'',
     Implicit ''RSV_0x6D'', Implicit ''RSV_0x6E'', Implicit ''RSV_0x6F'', Implicit ''RSV_0x70'',
     Implicit ''RSV_0x71'', Implicit ''RSV_0x72'', Implicit ''RSV_0x73'', Implicit ''RSV_0x74'',
     Implicit ''RSV_0x75'', Implicit ''RSV_0x76'', Implicit ''RSV_0x77'', Implicit ''RSV_0x78'',
     Implicit ''RSV_0x79'', Implicit ''RSV_0x7A'', Implicit ''RSV_0x7B'', Implicit ''RSV_0x7C'',
     Implicit ''RSV_0x7D'', Implicit ''RSV_0x7E'', Implicit ''RSV_0x7F'']"

definition iree_vm_ext_f64_op_hi :: "enumerator list" where
  "iree_vm_ext_f64_op_hi =
    [Implicit ''RSV_0x80'', Implicit ''RSV_0x81'', Implicit ''RSV_0x82'', Implicit ''RSV_0x83'',
     Implicit ''RSV_0x84'', Implicit ''RSV_0x85'', Implicit ''RSV_0x86'', Implicit ''RSV_0x87'',
     Implicit ''RSV_0x88'', Implicit ''RSV_0x89'', Implicit ''RSV_0x8A'', Implicit ''RSV_0x8B'',
     Implicit ''RSV_0x8C'', Implicit ''RSV_0x8D'', Implicit ''RSV_0x8E'', Implicit ''RSV_0x8F'',
     Implicit ''RSV_0x90'', Implicit ''RSV_0x91'', Implicit ''RSV_0x92'', Implicit ''RSV_0x93'',
     Implicit ''RSV_0x94'', Implicit ''RSV_0x95'', Implicit ''RSV_0x96'', Implicit ''RSV_0x97'',
     Implicit ''RSV_0x98'', Implicit ''RSV_0x99'', Implicit ''RSV_0x9A'', Implicit ''RSV_0x9B'',
     Implicit ''RSV_0x9C'', Implicit ''RSV_0x9D'', Implicit ''RSV_0x9E'', Implicit ''RSV_0x9F'',
     Implicit ''RSV_0xA0'', Implicit ''RSV_0xA1'', Implicit ''RSV_0xA2'', Implicit ''RSV_0xA3'',
     Implicit ''RSV_0xA4'', Implicit ''RSV_0xA5'', Implicit ''RSV_0xA6'', Implicit ''RSV_0xA7'',
     Implicit ''RSV_0xA8'', Implicit ''RSV_0xA9'', Implicit ''RSV_0xAA'', Implicit ''RSV_0xAB'',
     Implicit ''RSV_0xAC'', Implicit ''RSV_0xAD'', Implicit ''RSV_0xAE'', Implicit ''RSV_0xAF'',
     Implicit ''RSV_0xB0'', Implicit ''RSV_0xB1'', Implicit ''RSV_0xB2'', Implicit ''RSV_0xB3'',
     Implicit ''RSV_0xB4'', Implicit ''RSV_0xB5'', Implicit ''RSV_0xB6'', Implicit ''RSV_0xB7'',
     Implicit ''RSV_0xB8'', Implicit ''RSV_0xB9'', Implicit ''RSV_0xBA'', Implicit ''RSV_0xBB'',
     Implicit ''RSV_0xBC'', Implicit ''RSV_0xBD'', Implicit ''RSV_0xBE'', Implicit ''RSV_0xBF'',
     Implicit ''RSV_0xC0'', Implicit ''RSV_0xC1'', Implicit ''RSV_0xC2'', Implicit ''RSV_0xC3'',
     Implicit ''RSV_0xC4'', Implicit ''RSV_0xC5'', Implicit ''RSV_0xC6'', Implicit ''RSV_0xC7'',
     Implicit ''RSV_0xC8'', Implicit ''RSV_0xC9'', Implicit ''RSV_0xCA'', Implicit ''RSV_0xCB'',
     Implicit ''RSV_0xCC'', Implicit ''RSV_0xCD'', Implicit ''RSV_0xCE'', Implicit ''RSV_0xCF'',
     Implicit ''RSV_0xD0'', Implicit ''RSV_0xD1'', Implicit ''RSV_0xD2'', Implicit ''RSV_0xD3'',
     Implicit ''RSV_0xD4'', Implicit ''RSV_0xD5'', Implicit ''RSV_0xD6'', Implicit ''RSV_0xD7'',
     Implicit ''RSV_0xD8'', Implicit ''RSV_0xD9'', Implicit ''RSV_0xDA'', Implicit ''RSV_0xDB'',
     Implicit ''RSV_0xDC'', Implicit ''RSV_0xDD'', Implicit ''RSV_0xDE'', Implicit ''RSV_0xDF'',
     Implicit ''RSV_0xE0'', Implicit ''RSV_0xE1'', Implicit ''RSV_0xE2'', Implicit ''RSV_0xE3'',
     Implicit ''RSV_0xE4'', Implicit ''RSV_0xE5'', Implicit ''RSV_0xE6'', Implicit ''RSV_0xE7'',
     Implicit ''RSV_0xE8'', Implicit ''RSV_0xE9'', Implicit ''RSV_0xEA'', Implicit ''RSV_0xEB'',
     Implicit ''RSV_0xEC'', Implicit ''RSV_0xED'', Implicit ''RSV_0xEE'', Implicit ''RSV_0xEF'',
     Implicit ''RSV_0xF0'', Implicit ''RSV_0xF1'', Implicit ''RSV_0xF2'', Implicit ''RSV_0xF3'',
     Implicit ''RSV_0xF4'', Implicit ''RSV_0xF5'', Implicit ''RSV_0xF6'', Implicit ''RSV_0xF7'',
     Implicit ''RSV_0xF8'', Implicit ''RSV_0xF9'', Implicit ''RSV_0xFA'', Implicit ''RSV_0xFB'',
     Implicit ''RSV_0xFC'', Implicit ''RSV_0xFD'', Implicit ''RSV_0xFE'', Implicit ''RSV_0xFF'']"

definition iree_vm_ext_f64_op_t :: "enumerator list" where
  "iree_vm_ext_f64_op_t = iree_vm_ext_f64_op_lo @ iree_vm_ext_f64_op_hi"

definition IREE_VM_OP_EXT_F64_TABLE_lo :: "op_entry list" where
  "IREE_VM_OP_EXT_F64_TABLE_lo =
    [OPC 0x00 ''GlobalLoadF64'', OPC 0x01 ''GlobalStoreF64'', OPC 0x02 ''GlobalLoadIndirectF64'',
     OPC 0x03 ''GlobalStoreIndirectF64'', OPC 0x04 ''ConstF64Zero'', OPC 0x05 ''ConstF64'',
     OPC 0x06 ''ListGetF64'', OPC 0x07 ''ListSetF64'', OPC 0x08 ''SelectF64'',
     OPC 0x09 ''SwitchF64'', OPC 0x0A ''AddF64'', OPC 0x0B ''SubF64'', OPC 0x0C ''MulF64'',
     OPC 0x0D ''DivF64'', OPC 0x0E ''RemF64'', OPC 0x0F ''FMAF64'', OPC 0x10 ''AbsF64'',
     OPC 0x11 ''NegF64'', OPC 0x12 ''CeilF64'', OPC 0x13 ''FloorF64'', OPC 0x14 ''TruncF64F32'',
     OPC 0x15 ''ExtF32F64'', OPC 0x16 ''CastSI32F64'', OPC 0x17 ''CastUI32F64'',
     OPC 0x18 ''CastF64SI32'', OPC 0x19 ''CastF64UI32'', OPC 0x1A ''CastSI64F64'',
     OPC 0x1B ''CastUI64F64'', OPC 0x1C ''CastF64SI64'', OPC 0x1D ''CastF64UI64'',
     OPC 0x1E ''BitcastI64F64'', OPC 0x1F ''BitcastF64I64'', OPC 0x20 ''AtanF64'',
     OPC 0x21 ''Atan2F64'', OPC 0x22 ''CosF64'', OPC 0x23 ''SinF64'', OPC 0x24 ''ExpF64'',
     OPC 0x25 ''Exp2F64'', OPC 0x26 ''ExpM1F64'', OPC 0x27 ''LogF64'', OPC 0x28 ''Log10F64'',
     OPC 0x29 ''Log1pF64'', OPC 0x2A ''Log2F64'', OPC 0x2B ''PowF64'', OPC 0x2C ''RsqrtF64'',
     OPC 0x2D ''SqrtF64'', OPC 0x2E ''TanhF64'', OPC 0x2F ''ErfF64'', OPC 0x30 ''CmpEQF64O'',
     OPC 0x31 ''CmpEQF64U'', OPC 0x32 ''CmpNEF64O'', OPC 0x33 ''CmpNEF64U'',
     OPC 0x34 ''CmpLTF64O'', OPC 0x35 ''CmpLTF64U'', OPC 0x36 ''CmpLTEF64O'',
     OPC 0x37 ''CmpLTEF64U'', OPC 0x38 ''CmpNaNF64'', OPC 0x39 ''BufferLoadF64'',
     OPC 0x3A ''BufferStoreF64'', OPC 0x3B ''BufferFillF64'', OPC 0x3C ''RoundF64'',
     OPC 0x3D ''MinF64'', OPC 0x3E ''MaxF64'', OPC 0x3F ''RoundF64Even'', RSV 0x40, RSV 0x41,
     RSV 0x42, RSV 0x43, RSV 0x44, RSV 0x45, RSV 0x46, RSV 0x47, RSV 0x48, RSV 0x49, RSV 0x4A,
     RSV 0x4B, RSV 0x4C, RSV 0x4D, RSV 0x4E, RSV 0x4F, RSV 0x50, RSV 0x51, RSV 0x52, RSV 0x53,
     RSV 0x54, RSV 0x55, RSV 0x56, RSV 0x57, RSV 0x58, RSV 0x59, RSV 0x5A, RSV 0x5B, RSV 0x5C,
     RSV 0x5D, RSV 0x5E, RSV 0x5F, RSV 0x60, RSV 0x61, RSV 0x62, RSV 0x63, RSV 0x64, RSV 0x65,
     RSV 0x66, RSV 0x67, RSV 0x68, RSV 0x69, RSV 0x6A, RSV 0x6B, RSV 0x6C, RSV 0x6D, RSV 0x6E,
     RSV 0x6F, RSV 0x70, RSV 0x71, RSV 0x72, RSV 0x73, RSV 0x74, RSV 0x75, RSV 0x76, RSV 0x77,
     RSV 0x78, RSV 0x79, RSV 0x7A, RSV 0x7B, RSV 0x7C, RSV 0x7D, RSV 0x7E, RSV 0x7F]"

definition IREE_VM_OP_EXT_F64_TABLE_hi :: "op_entry list" where
  "IREE_VM_OP_EXT_F64_TABLE_hi =
    [RSV 0x80, RSV 0x81, RSV 0x82, RSV 0x83, RSV 0x84, RSV 0x85, RSV 0x86, RSV 0x87, RSV 0x88,
     RSV 0x89, RSV 0x8A, RSV 0x8B, RSV 0x8C, RSV 0x8D, RSV 0x8E, RSV 0x8F, RSV 0x90, RSV 0x91,
     RSV 0x92, RSV 0x93, RSV 0x94, RSV 0x95, RSV 0x96, RSV 0x97, RSV 0x98, RSV 0x99, RSV 0x9A,
     RSV 0x9B, RSV 0x9C, RSV 0x9D, RSV 0x9E, RSV 0x9F, RSV 0xA0, RSV 0xA1, RSV 0xA2, RSV 0xA3,
     RSV 0xA4, RSV 0xA5, RSV 0xA6, RSV 0xA7, RSV 0xA8, RSV 0xA9, RSV 0xAA, RSV 0xAB, RSV 0xAC,
     RSV 0xAD, RSV 0xAE, RSV 0xAF, RSV 0xB0, RSV 0xB1, RSV 0xB2, RSV 0xB3, RSV 0xB4, RSV 0xB5,
     RSV 0xB6, RSV 0xB7, RSV 0xB8, RSV 0xB9, RSV 0xBA, RSV 0xBB, RSV 0xBC, RSV 0xBD, RSV 0xBE,
     RSV 0xBF, RSV 0xC0, RSV 0xC1, RSV 0xC2, RSV 0xC3, RSV 0xC4, RSV 0xC5, RSV 0xC6, RSV 0xC7,
     RSV 0xC8, RSV 0xC9, RSV 0xCA, RSV 0xCB, RSV 0xCC, RSV 0xCD, RSV 0xCE, RSV 0xCF, RSV 0xD0,
     RSV 0xD1, RSV 0xD2, RSV 0xD3, RSV 0xD4, RSV 0xD5, RSV 0xD6, RSV 0xD7, RSV 0xD8, RSV 0xD9,
     RSV 0xDA, RSV 0xDB, RSV 0xDC, RSV 0xDD, RSV 0xDE, RSV 0xDF, RSV 0xE0, RSV 0xE1, RSV 0xE2,
     RSV 0xE3, RSV 0xE4, RSV 0xE5, RSV 0xE6, RSV 0xE7, RSV 0xE8, RSV 0xE9, RSV 0xEA, RSV 0xEB,
     RSV 0xEC, RSV 0xED, RSV 0xEE, RSV 0xEF, RSV 0xF0, RSV 0xF1, RSV 0xF2, RSV 0xF3, RSV 0xF4,
     RSV 0xF5, RSV 0xF6, RSV 0xF7, RSV 0xF8, RSV 0xF9, RSV 0xFA, RSV 0xFB, RSV 0xFC, RSV 0xFD,
     RSV 0xFE, RSV 0xFF]"

definition IREE_VM_OP_EXT_F64_TABLE :: "op_entry list" where
  "IREE_VM_OP_EXT_F64_TABLE = IREE_VM_OP_EXT_F64_TABLE_lo @ IREE_VM_OP_EXT_F64_TABLE_hi"

text \<open>The values C gives to the enumerators, in order.\<close>

fun enum_values :: "u8 \<Rightarrow> enumerator list \<Rightarrow> op_entry list" where
  "enum_values next [] = []"
| "enum_values next (Explicit n v # es) = OPC v n # enum_values (v + 1) es"
| "enum_values next (Implicit n # es) = RSV next # enum_values (next + 1) es"

fun op_ordinal :: "op_entry \<Rightarrow> u8" where
  "op_ordinal (OPC v n) = v"
| "op_ordinal (RSV v) = v"

section \<open>Enumeration and table agree\<close>

text \<open>
  The core table names the 64-bit minimum and maximum where the enumeration has the 32-bit
  ones. The tables of the extensions agree with their enumerations.
\<close>

definition core_entries :: "op_entry list" where
  "core_entries = IREE_VM_OP_CORE_TABLE
     [0x7A := OPC 0x7A ''MinI32S'', 0x7B := OPC 0x7B ''MinI32U'',
      0x7C := OPC 0x7C ''MaxI32S'', 0x7D := OPC 0x7D ''MaxI32U'']"

lemmas core_lists = iree_vm_core_op_t_def iree_vm_core_op_lo_def iree_vm_core_op_hi_def
  IREE_VM_OP_CORE_TABLE_def IREE_VM_OP_CORE_TABLE_lo_def IREE_VM_OP_CORE_TABLE_hi_def

lemmas f32_lists = iree_vm_ext_f32_op_t_def iree_vm_ext_f32_op_lo_def iree_vm_ext_f32_op_hi_def
  IREE_VM_OP_EXT_F32_TABLE_def IREE_VM_OP_EXT_F32_TABLE_lo_def IREE_VM_OP_EXT_F32_TABLE_hi_def

lemmas f64_lists = iree_vm_ext_f64_op_t_def iree_vm_ext_f64_op_lo_def iree_vm_ext_f64_op_hi_def
  IREE_VM_OP_EXT_F64_TABLE_def IREE_VM_OP_EXT_F64_TABLE_lo_def IREE_VM_OP_EXT_F64_TABLE_hi_def

lemma core_enum_values: "enum_values 0 iree_vm_core_op_t = core_entries"
  by (simp add: core_entries_def core_lists)

lemma f32_enum_values: "enum_values 0 iree_vm_ext_f32_op_t = IREE_VM_OP_EXT_F32_TABLE"
  by (simp add: f32_lists)

lemma f64_enum_values: "enum_values 0 iree_vm_ext_f64_op_t = IREE_VM_OP_EXT_F64_TABLE"
  by (simp add: f64_lists)

text \<open>Entry \<open>i\<close> of every table is the entry for opcode \<open>i\<close>.\<close>

definition all_opcodes :: "u8 list" where
  "all_opcodes = map of_nat [0..<256]"

lemma all_opcodes_nth: "i < 256 \<Longrightarrow> all_opcodes ! i = of_nat i"
  by (simp add: all_opcodes_def)

lemma all_opcodes_list: "all_opcodes = 0 # 1 # map of_nat [2..<256]"
proof -
  have "[0..<256] = 0 # 1 # [2..<256::nat]"
    using upt_conv_Cons [of 0 256] upt_conv_Cons [of 1 256] by (simp add: numeral_2_eq_2)
  then show ?thesis by (simp add: all_opcodes_def)
qed

lemma table_ordinals:
  "map op_ordinal IREE_VM_OP_CORE_TABLE = all_opcodes"
  "map op_ordinal IREE_VM_OP_EXT_F32_TABLE = all_opcodes"
  "map op_ordinal IREE_VM_OP_EXT_F64_TABLE = all_opcodes"
  unfolding all_opcodes_list
  by (simp_all add: core_lists f32_lists f64_lists)

end
