(* ===== verification/Vm_Dispatch.thy ===== *)
theory Vm_Dispatch
  imports Vm_Ops Vm_Op_Table Iree_Alignment Iree_Status
begin

unbundle bit_operations_syntax

text \<open>
  The bytecode interpreter's decoding and dispatch macros: \<open>iree/vm/bytecode/utils/isa.h\<close> and
  \<open>iree/vm/bytecode/dispatch_util.h\<close>. The interpreter state is the bytecode of the function, the
  program counter and the 32-bit register bank; a 64-bit register is two adjacent 32-bit ones. The
  position of the program counter is a natural number: every access past the end of the bytecode
  is out of bounds. The function that instantiates the macros for each opcode is not part of the
  repository.
\<close>

section \<open>Definitions\<close>

subsection \<open>Instruction set constants\<close>

definition VMMAX :: "'a::linorder \<Rightarrow> 'a \<Rightarrow> 'a" where "VMMAX a b = (if a > b then a else b)"
definition VMMIN :: "'a::linorder \<Rightarrow> 'a \<Rightarrow> 'a" where "VMMIN a b = (if a < b then a else b)"

definition VM_AlignPC :: "u64 \<Rightarrow> u64 \<Rightarrow> u64" where
  "VM_AlignPC p alignment = (p + (alignment - 1)) AND NOT (alignment - 1)"

definition IREE_REGISTER_ORDINAL_SIZE :: nat where "IREE_REGISTER_ORDINAL_SIZE = 2"
definition IREE_I32_REGISTER_COUNT :: nat where "IREE_I32_REGISTER_COUNT = 0x7FFF"
definition IREE_REF_REGISTER_COUNT :: nat where "IREE_REF_REGISTER_COUNT = 0x3FFF"
definition IREE_I32_REGISTER_MASK :: u16 where "IREE_I32_REGISTER_MASK = 0x7FFF"
definition IREE_REF_REGISTER_TYPE_BIT :: u16 where "IREE_REF_REGISTER_TYPE_BIT = 0x8000"
definition IREE_REF_REGISTER_MOVE_BIT :: u16 where "IREE_REF_REGISTER_MOVE_BIT = 0x4000"
definition IREE_REF_REGISTER_MASK :: u16 where "IREE_REF_REGISTER_MASK = 0x3FFF"

subsection \<open>Interpreter state and operand decoding\<close>

record vm_state =
  bytecode_data :: "u8 list"
  vm_pc :: nat
  regs_i32 :: "u32 list"

definition OP_I8 :: "nat \<Rightarrow> (vm_state, u8) sm" where
  "OP_I8 i s = lift_sm (iree_unaligned_load_le_u8 (bytecode_data s) (vm_pc s + i)) s"

definition OP_I16 :: "nat \<Rightarrow> (vm_state, u16) sm" where
  "OP_I16 i s =
     lift_sm (iree_unaligned_load_le_u16 IREE_ENDIANNESS_LITTLE (bytecode_data s) (vm_pc s + i)) s"

definition OP_I32 :: "nat \<Rightarrow> (vm_state, u32) sm" where
  "OP_I32 i s =
     lift_sm (iree_unaligned_load_le_u32 IREE_ENDIANNESS_LITTLE (bytecode_data s) (vm_pc s + i)) s"

definition OP_I64 :: "nat \<Rightarrow> (vm_state, u64) sm" where
  "OP_I64 i s =
     lift_sm (iree_unaligned_load_le_u64 IREE_ENDIANNESS_LITTLE (bytecode_data s) (vm_pc s + i)) s"

definition OP_F32 :: "nat \<Rightarrow> (vm_state, f32) sm" where "OP_F32 i = OP_I32 i"
definition OP_F64 :: "nat \<Rightarrow> (vm_state, f64) sm" where "OP_F64 i = OP_I64 i"

definition vm_advance :: "nat \<Rightarrow> (vm_state, unit) sm" where
  "vm_advance n = modify_sm (\<lambda>s. s\<lparr>vm_pc := vm_pc s + n\<rparr>)"

text \<open>A decoder reads its operand at the program counter and then moves past it.\<close>

definition vm_dec :: "(vm_state, 'a) sm \<Rightarrow> nat \<Rightarrow> (vm_state, 'a) sm" where
  "vm_dec m n = bind_sm m (\<lambda>x. bind_sm (vm_advance n) (\<lambda>_. ret_sm x))"

definition VM_DecConstI8 :: "(vm_state, u8) sm" where "VM_DecConstI8 = vm_dec (OP_I8 0) 1"
definition VM_DecConstI16 :: "(vm_state, u16) sm" where "VM_DecConstI16 = vm_dec (OP_I16 0) 2"
definition VM_DecConstI32 :: "(vm_state, u32) sm" where "VM_DecConstI32 = vm_dec (OP_I32 0) 4"
definition VM_DecConstI64 :: "(vm_state, u64) sm" where "VM_DecConstI64 = vm_dec (OP_I64 0) 8"
definition VM_DecConstF32 :: "(vm_state, f32) sm" where "VM_DecConstF32 = vm_dec (OP_F32 0) 4"
definition VM_DecConstF64 :: "(vm_state, f64) sm" where "VM_DecConstF64 = vm_dec (OP_F64 0) 8"

text \<open>
  \<open>iree_vm_map_type\<close>: the comparison with the \<open>size_t\<close> count converts the signed id to an
  unsigned one, so a negative id is clamped as well.
\<close>

definition iree_vm_map_type :: "'t list \<Rightarrow> i32 \<Rightarrow> 't res" where
  "iree_vm_map_type type_table type_id =
     (let type_id' = (if (scast type_id :: u64) \<ge> of_nat (length type_table) then 0 else type_id)
      in if nat (sint type_id') < length type_table then Inr (type_table ! nat (sint type_id'))
         else Inl OutOfBounds)"

definition VM_DecType :: "'t list \<Rightarrow> (vm_state, 't) sm" where
  "VM_DecType type_table =
     vm_dec (bind_sm (OP_I32 0) (\<lambda>i. lift_sm (iree_vm_map_type type_table i))) 4"

text \<open>A string attribute: its length and the position of its characters.\<close>

definition VM_DecStrAttr :: "(vm_state, nat \<times> nat) sm" where
  "VM_DecStrAttr =
     bind_sm (OP_I16 0) (\<lambda>n. bind_sm (gets_sm (\<lambda>s. vm_pc s + 2)) (\<lambda>p.
     bind_sm (vm_advance (2 + unat n)) (\<lambda>_. ret_sm (unat n, p))))"

text \<open>
  Register lists are stored in the bytecode, aligned to two bytes: a count and then the register
  ordinals, or pairs of them for the remapping of a branch. The decoders return the position of
  the list and move past it.
\<close>

definition vm_align_pc :: "(vm_state, unit) sm" where
  "vm_align_pc = modify_sm (\<lambda>s. s\<lparr>vm_pc := unat (VM_AlignPC (of_nat (vm_pc s)) (of_nat IREE_REGISTER_ORDINAL_SIZE))\<rparr>)"

definition dec_list :: "nat \<Rightarrow> (vm_state, nat) sm" where
  "dec_list entry_size =
     bind_sm vm_align_pc (\<lambda>_. bind_sm (gets_sm vm_pc) (\<lambda>p. bind_sm (OP_I16 0) (\<lambda>n.
     bind_sm (vm_advance (IREE_REGISTER_ORDINAL_SIZE + unat n * entry_size)) (\<lambda>_. ret_sm p))))"

definition VM_DecBranchOperandsImpl :: "(vm_state, nat) sm" where
  "VM_DecBranchOperandsImpl = dec_list (2 * IREE_REGISTER_ORDINAL_SIZE)"

definition VM_DecVariadicOperandsImpl :: "(vm_state, nat) sm" where
  "VM_DecVariadicOperandsImpl = dec_list IREE_REGISTER_ORDINAL_SIZE"

subsection \<open>Registers\<close>

definition read_reg32 :: "nat \<Rightarrow> (vm_state, u32) sm" where
  "read_reg32 r s = (if r < length (regs_i32 s) then Inr (regs_i32 s ! r, s) else Inl OutOfBounds)"

definition write_reg32 :: "nat \<Rightarrow> u32 \<Rightarrow> (vm_state, unit) sm" where
  "write_reg32 r v s =
     (if r < length (regs_i32 s) then Inr ((), s\<lparr>regs_i32 := (regs_i32 s)[r := v]\<rparr>)
      else Inl OutOfBounds)"

definition read_reg64 :: "nat \<Rightarrow> (vm_state, u64) sm" where
  "read_reg64 r = bind_sm (read_reg32 r) (\<lambda>lo. bind_sm (read_reg32 (r + 1)) (\<lambda>hi.
     ret_sm (ucast lo OR push_bit 32 (ucast hi))))"

definition write_reg64 :: "nat \<Rightarrow> u64 \<Rightarrow> (vm_state, unit) sm" where
  "write_reg64 r v = bind_sm (write_reg32 r (ucast v)) (\<lambda>_. write_reg32 (r + 1) (ucast (drop_bit 32 v)))"

text \<open>The ordinal indexes the register bank as it is encoded.\<close>

definition VM_DecOperandRegI32 :: "(vm_state, i32) sm" where
  "VM_DecOperandRegI32 = vm_dec (bind_sm (OP_I16 0) (\<lambda>r. read_reg32 (unat r))) IREE_REGISTER_ORDINAL_SIZE"

definition VM_DecOperandRegI64 :: "(vm_state, i64) sm" where
  "VM_DecOperandRegI64 = vm_dec (bind_sm (OP_I16 0) (\<lambda>r. read_reg64 (unat r))) IREE_REGISTER_ORDINAL_SIZE"

definition VM_DecOperandRegF32 :: "(vm_state, f32) sm" where
  "VM_DecOperandRegF32 = vm_dec (bind_sm (OP_I16 0) (\<lambda>r. read_reg32 (unat r))) IREE_REGISTER_ORDINAL_SIZE"

definition VM_DecOperandRegF64 :: "(vm_state, f64) sm" where
  "VM_DecOperandRegF64 = vm_dec (bind_sm (OP_I16 0) (\<lambda>r. read_reg64 (unat r))) IREE_REGISTER_ORDINAL_SIZE"

text \<open>A reference register is the index into its bank, which is masked, and the move flag, always 0.\<close>

definition VM_DecOperandRegRef :: "(vm_state, nat \<times> nat) sm" where
  "VM_DecOperandRegRef =
     vm_dec (bind_sm (OP_I16 0) (\<lambda>r. ret_sm (unat (r AND IREE_REF_REGISTER_MASK), 0))) IREE_REGISTER_ORDINAL_SIZE"

definition VM_DecResultRegI32 :: "(vm_state, nat) sm" where
  "VM_DecResultRegI32 = vm_dec (bind_sm (OP_I16 0) (\<lambda>r. ret_sm (unat r))) IREE_REGISTER_ORDINAL_SIZE"

definition VM_DecResultRegI64 :: "(vm_state, nat) sm" where
  "VM_DecResultRegI64 = vm_dec (bind_sm (OP_I16 0) (\<lambda>r. ret_sm (unat r))) IREE_REGISTER_ORDINAL_SIZE"

definition VM_DecResultRegF32 :: "(vm_state, nat) sm" where
  "VM_DecResultRegF32 = vm_dec (bind_sm (OP_I16 0) (\<lambda>r. ret_sm (unat r))) IREE_REGISTER_ORDINAL_SIZE"

definition VM_DecResultRegF64 :: "(vm_state, nat) sm" where
  "VM_DecResultRegF64 = vm_dec (bind_sm (OP_I16 0) (\<lambda>r. ret_sm (unat r))) IREE_REGISTER_ORDINAL_SIZE"

definition VM_DecResultRegRef :: "(vm_state, nat \<times> nat) sm" where
  "VM_DecResultRegRef =
     vm_dec (bind_sm (OP_I16 0) (\<lambda>r. ret_sm (unat (r AND IREE_REF_REGISTER_MASK), 0))) IREE_REGISTER_ORDINAL_SIZE"

subsection \<open>Instruction bodies\<close>

definition DISPATCH_OP_CORE_UNARY_I32 :: "(i32 \<Rightarrow> i32 res) \<Rightarrow> (vm_state, unit) sm" where
  "DISPATCH_OP_CORE_UNARY_I32 op_func =
     bind_sm VM_DecOperandRegI32 (\<lambda>operand. 
     bind_sm VM_DecResultRegI32 (\<lambda>result.
     bind_sm (lift_sm (op_func operand)) (\<lambda>v. write_reg32 result v)))"


definition DISPATCH_OP_CORE_TERNARY_I32 :: "(i32 \<Rightarrow> i32 \<Rightarrow> i32 \<Rightarrow> i32 res) \<Rightarrow> (vm_state, unit) sm" where
  "DISPATCH_OP_CORE_TERNARY_I32 op_func =
     bind_sm VM_DecOperandRegI32 (\<lambda>a. bind_sm VM_DecOperandRegI32 (\<lambda>b. bind_sm VM_DecOperandRegI32 (\<lambda>c. 
     bind_sm VM_DecResultRegI32 (\<lambda>result.
     bind_sm (lift_sm (op_func a b c)) (\<lambda>v. write_reg32 result v)))))"

definition DISPATCH_OP_CORE_UNARY_I64 :: "(i64 \<Rightarrow> i64 res) \<Rightarrow> (vm_state, unit) sm" where
  "DISPATCH_OP_CORE_UNARY_I64 op_func =
     bind_sm VM_DecOperandRegI64 (\<lambda>operand. 
     bind_sm VM_DecResultRegI64 (\<lambda>result.
     bind_sm (lift_sm (op_func operand)) (\<lambda>v. write_reg64 result v)))"


definition DISPATCH_OP_CORE_TERNARY_I64 :: "(i64 \<Rightarrow> i64 \<Rightarrow> i64 \<Rightarrow> i64 res) \<Rightarrow> (vm_state, unit) sm" where
  "DISPATCH_OP_CORE_TERNARY_I64 op_func =
     bind_sm VM_DecOperandRegI64 (\<lambda>a. bind_sm VM_DecOperandRegI64 (\<lambda>b. bind_sm VM_DecOperandRegI64 (\<lambda>c. 
     bind_sm VM_DecResultRegI64 (\<lambda>result.
     bind_sm (lift_sm (op_func a b c)) (\<lambda>v. write_reg64 result v)))))"

definition DISPATCH_OP_EXT_F32_UNARY_F32 :: "(f32 \<Rightarrow> f32 res) \<Rightarrow> (vm_state, unit) sm" where
  "DISPATCH_OP_EXT_F32_UNARY_F32 op_func =
     bind_sm VM_DecOperandRegF32 (\<lambda>operand. 
     bind_sm VM_DecResultRegF32 (\<lambda>result.
     bind_sm (lift_sm (op_func operand)) (\<lambda>v. write_reg32 result v)))"

definition DISPATCH_OP_EXT_F32_BINARY_F32 :: "(f32 \<Rightarrow> f32 \<Rightarrow> f32 res) \<Rightarrow> (vm_state, unit) sm" where
  "DISPATCH_OP_EXT_F32_BINARY_F32 op_func =
     bind_sm VM_DecOperandRegF32 (\<lambda>lhs. bind_sm VM_DecOperandRegF32 (\<lambda>rhs. 
     bind_sm VM_DecResultRegF32 (\<lambda>result.
     bind_sm (lift_sm (op_func lhs rhs)) (\<lambda>v. write_reg32 result v))))"

definition DISPATCH_OP_EXT_F32_TERNARY_F32 :: "(f32 \<Rightarrow> f32 \<Rightarrow> f32 \<Rightarrow> f32 res) \<Rightarrow> (vm_state, unit) sm" where
  "DISPATCH_OP_EXT_F32_TERNARY_F32 op_func =
     bind_sm VM_DecOperandRegF32 (\<lambda>a. bind_sm VM_DecOperandRegF32 (\<lambda>b. bind_sm VM_DecOperandRegF32 (\<lambda>c. 
     bind_sm VM_DecResultRegF32 (\<lambda>result.
     bind_sm (lift_sm (op_func a b c)) (\<lambda>v. write_reg32 result v)))))"

definition DISPATCH_OP_EXT_F64_UNARY_F64 :: "(f64 \<Rightarrow> f64 res) \<Rightarrow> (vm_state, unit) sm" where
  "DISPATCH_OP_EXT_F64_UNARY_F64 op_func =
     bind_sm VM_DecOperandRegF64 (\<lambda>operand. 
     bind_sm VM_DecResultRegF64 (\<lambda>result.
     bind_sm (lift_sm (op_func operand)) (\<lambda>v. write_reg64 result v)))"

definition DISPATCH_OP_EXT_F64_BINARY_F64 :: "(f64 \<Rightarrow> f64 \<Rightarrow> f64 res) \<Rightarrow> (vm_state, unit) sm" where
  "DISPATCH_OP_EXT_F64_BINARY_F64 op_func =
     bind_sm VM_DecOperandRegF64 (\<lambda>lhs. bind_sm VM_DecOperandRegF64 (\<lambda>rhs. 
     bind_sm VM_DecResultRegF64 (\<lambda>result.
     bind_sm (lift_sm (op_func lhs rhs)) (\<lambda>v. write_reg64 result v))))"

definition DISPATCH_OP_EXT_F64_TERNARY_F64 :: "(f64 \<Rightarrow> f64 \<Rightarrow> f64 \<Rightarrow> f64 res) \<Rightarrow> (vm_state, unit) sm" where
  "DISPATCH_OP_EXT_F64_TERNARY_F64 op_func =
     bind_sm VM_DecOperandRegF64 (\<lambda>a. bind_sm VM_DecOperandRegF64 (\<lambda>b. bind_sm VM_DecOperandRegF64 (\<lambda>c. 
     bind_sm VM_DecResultRegF64 (\<lambda>result.
     bind_sm (lift_sm (op_func a b c)) (\<lambda>v. write_reg64 result v)))))"

subsection \<open>Dispatch\<close>

text \<open>
  A dispatcher selects the label of an instruction, or the label for unhandled opcodes. With
  computed goto the label comes from the table; with a switch it comes from the case whose
  enumerator has the value of the opcode.
\<close>

datatype label = Op_label string | Unhandled_label

fun DECLARE_DISPATCH :: "op_entry \<Rightarrow> label" where
  "DECLARE_DISPATCH (OPC ordinal name) = Op_label name"
| "DECLARE_DISPATCH (RSV ordinal) = Unhandled_label"

definition kDispatchTable_CORE :: "label list" where
  "kDispatchTable_CORE = map DECLARE_DISPATCH IREE_VM_OP_CORE_TABLE"

definition kDispatchTable_EXT_F32 :: "label list" where
  "kDispatchTable_EXT_F32 = map DECLARE_DISPATCH IREE_VM_OP_EXT_F32_TABLE"

definition kDispatchTable_EXT_F64 :: "label list" where
  "kDispatchTable_EXT_F64 = map DECLARE_DISPATCH IREE_VM_OP_EXT_F64_TABLE"

definition goto_dispatch :: "label list \<Rightarrow> u8 \<Rightarrow> label" where
  "goto_dispatch table opcode = table ! unat opcode"

fun case_matches :: "u8 \<Rightarrow> op_entry \<Rightarrow> bool" where
  "case_matches opcode (OPC v name) \<longleftrightarrow> v = opcode"
| "case_matches opcode (RSV v) \<longleftrightarrow> False"

definition switch_dispatch :: "enumerator list \<Rightarrow> u8 \<Rightarrow> label" where
  "switch_dispatch cases opcode =
     (case find (case_matches opcode) (enum_values 0 cases) of
        Some e \<Rightarrow> DECLARE_DISPATCH e | None \<Rightarrow> Unhandled_label)"

text \<open>
  What happens at the label for unhandled opcodes: computed goto returns a status, the switch
  declares the point unreachable. Assertions are compiled out.
\<close>

definition goto_unhandled :: "iree_status_code_t res" where
  "goto_unhandled = Inr IREE_STATUS_UNIMPLEMENTED"

definition switch_unhandled :: "iree_status_code_t res" where
  "switch_unhandled = Inl BadBuiltin"

text \<open>Fetching an opcode and selecting its label, through the prefixes of the extensions.\<close>

definition vm_fetch :: "(vm_state, u8) sm" where
  "vm_fetch = vm_dec (OP_I8 0) 1"

datatype dispatch_mode = COMPUTED_GOTO | SWITCH

fun dispatch_core :: "dispatch_mode \<Rightarrow> u8 \<Rightarrow> label" where
  "dispatch_core COMPUTED_GOTO opcode = goto_dispatch kDispatchTable_CORE opcode"
| "dispatch_core SWITCH opcode = switch_dispatch iree_vm_core_op_t opcode"

fun dispatch_ext_f32 :: "dispatch_mode \<Rightarrow> u8 \<Rightarrow> label" where
  "dispatch_ext_f32 COMPUTED_GOTO opcode = goto_dispatch kDispatchTable_EXT_F32 opcode"
| "dispatch_ext_f32 SWITCH opcode = switch_dispatch iree_vm_ext_f32_op_t opcode"

fun dispatch_ext_f64 :: "dispatch_mode \<Rightarrow> u8 \<Rightarrow> label" where
  "dispatch_ext_f64 COMPUTED_GOTO opcode = goto_dispatch kDispatchTable_EXT_F64 opcode"
| "dispatch_ext_f64 SWITCH opcode = switch_dispatch iree_vm_ext_f64_op_t opcode"

section \<open>The two dispatchers\<close>

lemma ordinals_nth:
  assumes "map op_ordinal es = all_opcodes" "i < 256"
  shows "op_ordinal (es ! i) = of_nat i" "length es = 256"
proof -
  show "length es = 256" using arg_cong [OF assms(1), of length] by (simp add: all_opcodes_def)
  then show "op_ordinal (es ! i) = of_nat i"
    using assms by (metis all_opcodes_nth nth_map)
qed

lemma case_matches_ordinal: "case_matches b e \<Longrightarrow> op_ordinal e = b"
  by (cases e) simp_all

lemma unat_u8_less: "unat (b :: u8) < 256"
  using unsigned_less [of b] by simp

lemma find_case:
  assumes "map op_ordinal es = all_opcodes"
  shows "(case find (case_matches b) es of Some e \<Rightarrow> DECLARE_DISPATCH e | None \<Rightarrow> Unhandled_label) =
    DECLARE_DISPATCH (es ! unat b)"
proof -
  have len: "length es = 256" using ordinals_nth(2) [OF assms, of 0] by simp
  have ord: "op_ordinal (es ! unat b) = b" using ordinals_nth(1) [OF assms unat_u8_less [of b]] by simp
  have uniq: "i = unat b" if "i < 256" "case_matches b (es ! i)" for i
  proof -
    have "b = of_nat i" using ordinals_nth(1) [OF assms that(1)] case_matches_ordinal [OF that(2)] by simp
    then show ?thesis using that(1) by (simp add: unat_of_nat)
  qed
  show ?thesis
  proof (cases "es ! unat b")
    case (OPC v n)
    then have "case_matches b (es ! unat b)" using ord by simp
    moreover have "\<not> case_matches b (es ! j)" if "j < unat b" for j
      using uniq [of j] that unat_u8_less [of b] by linarith
    ultimately have "find (case_matches b) es = Some (es ! unat b)"
      unfolding find_Some_iff len using unat_u8_less [of b] by blast
    then show ?thesis by simp
  next
    case (RSV v)
    then have "\<not> case_matches b (es ! i)" if "i < 256" for i
      using uniq [OF that] by fastforce
    then have "find (case_matches b) es = None"
      unfolding find_None_iff by (auto simp: in_set_conv_nth len)
    then show ?thesis using RSV by simp
  qed
qed

lemma all_opcodes_length: "length all_opcodes = 256"
  by (simp add: all_opcodes_def)

lemma core_entries_ordinals: "map op_ordinal core_entries = all_opcodes"
proof -
  have n: "all_opcodes ! 0x7A = 0x7A" "all_opcodes ! 0x7B = 0x7B"
    "all_opcodes ! 0x7C = 0x7C" "all_opcodes ! 0x7D = 0x7D"
    by (simp_all add: all_opcodes_nth)
  have u: "all_opcodes[k := x] = all_opcodes" if "all_opcodes ! k = x" for k x
    using that by (metis list_update_id)
  show ?thesis
    by (simp only: core_entries_def map_update table_ordinals op_ordinal.simps n u)
qed

lemma switch_entry:
  assumes "map op_ordinal (enum_values 0 cases) = all_opcodes"
  shows "switch_dispatch cases b = DECLARE_DISPATCH (enum_values 0 cases ! unat b)"
  unfolding switch_dispatch_def by (rule find_case [OF assms])

lemma goto_entry:
  assumes "map op_ordinal table = all_opcodes"
  shows "goto_dispatch (map DECLARE_DISPATCH table) b = DECLARE_DISPATCH (table ! unat b)"
  using ordinals_nth(2) [OF assms, of 0] unat_u8_less [of b] by (simp add: goto_dispatch_def)

text \<open>The extensions dispatch alike in both modes.\<close>

lemma dispatch_ext_agree:
  "dispatch_ext_f32 COMPUTED_GOTO b = dispatch_ext_f32 SWITCH b"
  "dispatch_ext_f64 COMPUTED_GOTO b = dispatch_ext_f64 SWITCH b"
  by (simp_all add: kDispatchTable_EXT_F32_def kDispatchTable_EXT_F64_def goto_entry table_ordinals
      switch_entry f32_enum_values f64_enum_values)

text \<open>The core set does so except at the four opcodes the table names differently.\<close>

lemma core_goto: "dispatch_core COMPUTED_GOTO b = DECLARE_DISPATCH (IREE_VM_OP_CORE_TABLE ! unat b)"
  by (simp add: kDispatchTable_CORE_def goto_entry table_ordinals)

lemma core_switch: "dispatch_core SWITCH b = DECLARE_DISPATCH (core_entries ! unat b)"
  by (simp add: switch_entry core_enum_values core_entries_ordinals)

lemma core_table_length: "length IREE_VM_OP_CORE_TABLE = 256"
  using ordinals_nth(2) [OF table_ordinals(1), of 0] by simp

lemma dispatch_core_agree:
  assumes "b \<notin> {0x7A, 0x7B, 0x7C, 0x7D}"
  shows "dispatch_core COMPUTED_GOTO b = dispatch_core SWITCH b"
proof -
  have "unat b \<noteq> 0x7A" "unat b \<noteq> 0x7B" "unat b \<noteq> 0x7C" "unat b \<noteq> 0x7D"
    using assms by (auto simp: word_unat_eq_iff)
  then show ?thesis by (simp only: core_goto core_switch core_entries_def nth_list_update_neq not_sym)
qed

lemma dispatch_core_differ:
  "dispatch_core COMPUTED_GOTO 0x7A = Op_label ''MinI64S''" "dispatch_core SWITCH 0x7A = Op_label ''MinI32S''"
  "dispatch_core COMPUTED_GOTO 0x7B = Op_label ''MinI64U''" "dispatch_core SWITCH 0x7B = Op_label ''MinI32U''"
  "dispatch_core COMPUTED_GOTO 0x7C = Op_label ''MaxI64S''" "dispatch_core SWITCH 0x7C = Op_label ''MaxI32S''"
  "dispatch_core COMPUTED_GOTO 0x7D = Op_label ''MaxI64U''" "dispatch_core SWITCH 0x7D = Op_label ''MaxI32U''"
proof -
  have "length IREE_VM_OP_CORE_TABLE_lo = 128" by (simp add: IREE_VM_OP_CORE_TABLE_lo_def)
  then have hi: "IREE_VM_OP_CORE_TABLE ! k = IREE_VM_OP_CORE_TABLE_lo ! k" if "k < 128" for k
    using that by (simp add: IREE_VM_OP_CORE_TABLE_def nth_append)
  show "dispatch_core COMPUTED_GOTO 0x7A = Op_label ''MinI64S''"
    "dispatch_core COMPUTED_GOTO 0x7B = Op_label ''MinI64U''"
    "dispatch_core COMPUTED_GOTO 0x7C = Op_label ''MaxI64S''"
    "dispatch_core COMPUTED_GOTO 0x7D = Op_label ''MaxI64U''"
    unfolding core_goto by (simp_all add: hi) (simp_all add: IREE_VM_OP_CORE_TABLE_lo_def)
  show "dispatch_core SWITCH 0x7A = Op_label ''MinI32S''" "dispatch_core SWITCH 0x7B = Op_label ''MinI32U''"
    "dispatch_core SWITCH 0x7C = Op_label ''MaxI32S''" "dispatch_core SWITCH 0x7D = Op_label ''MaxI32U''"
    unfolding core_switch by (simp_all add: core_entries_def core_table_length)
qed

section \<open>Decoding\<close>

lemma load_u16_append:
  "length xs = p \<Longrightarrow>
   iree_unaligned_load_le_u16 IREE_ENDIANNESS_LITTLE (xs @ le_bytes 2 v @ ys) p = Inr v"
  by (simp add: iree_unaligned_load_le_u16_def le_bytes_numeral nth_append word16_of_bytes)

lemma OP_I16_0:
  fixes v :: u16
  assumes "drop (vm_pc s) (bytecode_data s) = le_bytes 2 v @ ys"
  shows "OP_I16 0 s = Inr (v, s)"
proof -
  have "length (bytecode_data s) - vm_pc s = 2 + length ys"
    using arg_cong [OF assms, of length] by simp
  then have l: "length (take (vm_pc s) (bytecode_data s)) = vm_pc s" by simp
  have "bytecode_data s = take (vm_pc s) (bytecode_data s) @ le_bytes 2 v @ ys"
    using assms by (metis append_take_drop_id)
  then have "iree_unaligned_load_le_u16 IREE_ENDIANNESS_LITTLE (bytecode_data s) (vm_pc s) = Inr v"
    using load_u16_append [OF l] by metis
  then show ?thesis by (simp add: OP_I16_def)
qed

lemma drop_after_ordinal:
  "drop p bs = le_bytes 2 v @ ys \<Longrightarrow> drop (p + 2) bs = ys"
  by (metis append_eq_conv_conj drop_drop length_le_bytes add.commute)

lemmas dec_defs = vm_dec_def vm_advance_def IREE_REGISTER_ORDINAL_SIZE_def

lemma dec_operand_i32:
  fixes r :: u16
  assumes "drop (vm_pc s) (bytecode_data s) = le_bytes 2 r @ ys" "unat r < length (regs_i32 s)"
  shows "VM_DecOperandRegI32 s = Inr (regs_i32 s ! unat r, s\<lparr>vm_pc := vm_pc s + 2\<rparr>)"
    "VM_DecOperandRegF32 s = Inr (regs_i32 s ! unat r, s\<lparr>vm_pc := vm_pc s + 2\<rparr>)"
  using assms(2)
  by (simp_all add: VM_DecOperandRegI32_def VM_DecOperandRegF32_def dec_defs bind_sm_def
      OP_I16_0 [OF assms(1)] read_reg32_def)

lemma dec_result:
  fixes r :: u16
  assumes "drop (vm_pc s) (bytecode_data s) = le_bytes 2 r @ ys"
  shows "VM_DecResultRegI32 s = Inr (unat r, s\<lparr>vm_pc := vm_pc s + 2\<rparr>)"
    "VM_DecResultRegI64 s = Inr (unat r, s\<lparr>vm_pc := vm_pc s + 2\<rparr>)"
    "VM_DecResultRegF32 s = Inr (unat r, s\<lparr>vm_pc := vm_pc s + 2\<rparr>)"
    "VM_DecResultRegF64 s = Inr (unat r, s\<lparr>vm_pc := vm_pc s + 2\<rparr>)"
  by (simp_all add: VM_DecResultRegI32_def VM_DecResultRegI64_def VM_DecResultRegF32_def
      VM_DecResultRegF64_def dec_defs bind_sm_def OP_I16_0 [OF assms])


definition reg64 :: "u32 list \<Rightarrow> nat \<Rightarrow> u64" where
  "reg64 rs r = ucast (rs ! r) OR push_bit 32 (ucast (rs ! (r + 1)))"



lemma dec_operand_i64:
  fixes r :: u16
  assumes "drop (vm_pc s) (bytecode_data s) = le_bytes 2 r @ ys" "unat r + 1 < length (regs_i32 s)"
  shows "VM_DecOperandRegI64 s = Inr (reg64 (regs_i32 s) (unat r), s\<lparr>vm_pc := vm_pc s + 2\<rparr>)"
    "VM_DecOperandRegF64 s = Inr (reg64 (regs_i32 s) (unat r), s\<lparr>vm_pc := vm_pc s + 2\<rparr>)"
  using assms(2)
  by (simp_all add: VM_DecOperandRegI64_def VM_DecOperandRegF64_def dec_defs bind_sm_def
      OP_I16_0 [OF assms(1)] read_reg32_def read_reg64_def reg64_def)


section \<open>Executing an instruction\<close>

text \<open>
  An instruction encoded as the ordinals of its operands and of its result: it applies the kernel
  to the operand registers, writes the result register and moves past the encoding.
\<close>

lemma ordinals_at:
  fixes a b c d :: u16
  shows "drop p bs = le_bytes 2 a @ le_bytes 2 b @ ys \<Longrightarrow> drop (p + 2) bs = le_bytes 2 b @ ys"
    "drop p bs = le_bytes 2 a @ le_bytes 2 b @ le_bytes 2 c @ ys' \<Longrightarrow>
      drop (p + 4) bs = le_bytes 2 c @ ys'"
    "drop p bs = le_bytes 2 a @ le_bytes 2 b @ le_bytes 2 c @ le_bytes 2 d @ ys'' \<Longrightarrow>
      drop (p + 6) bs = le_bytes 2 d @ ys''"
proof -
  have s: "p + 2 + 2 = p + 4" "p + 4 + 2 = p + 6" by simp_all
  show 2: "drop (p + 2) bs = le_bytes 2 b @ ys" if "drop p bs = le_bytes 2 a @ le_bytes 2 b @ ys"
    for ys by (rule drop_after_ordinal [OF that])
  show 4: "drop (p + 4) bs = le_bytes 2 c @ ys'"
    if "drop p bs = le_bytes 2 a @ le_bytes 2 b @ le_bytes 2 c @ ys'" for ys'
    using drop_after_ordinal [OF 2 [OF that]] unfolding s .
  show "drop (p + 6) bs = le_bytes 2 d @ ys''"
    if "drop p bs = le_bytes 2 a @ le_bytes 2 b @ le_bytes 2 c @ le_bytes 2 d @ ys''"
    using drop_after_ordinal [OF 4 [OF that]] unfolding s .
qed

text \<open>The decoders at an explicit position, for the proofs about whole instructions.\<close>

lemma dec_at:
  fixes r :: u16
  assumes "drop p (bytecode_data s) = le_bytes 2 r @ ys"
  shows "unat r < length (regs_i32 s) \<Longrightarrow>
      VM_DecOperandRegI32 (s\<lparr>vm_pc := p\<rparr>) = Inr (regs_i32 s ! unat r, s\<lparr>vm_pc := p + 2\<rparr>)"
    "unat r + 1 < length (regs_i32 s) \<Longrightarrow>
      VM_DecOperandRegI64 (s\<lparr>vm_pc := p\<rparr>) = Inr (reg64 (regs_i32 s) (unat r), s\<lparr>vm_pc := p + 2\<rparr>)"
    "VM_DecResultRegI32 (s\<lparr>vm_pc := p\<rparr>) = Inr (unat r, s\<lparr>vm_pc := p + 2\<rparr>)"
    "VM_DecResultRegI64 (s\<lparr>vm_pc := p\<rparr>) = Inr (unat r, s\<lparr>vm_pc := p + 2\<rparr>)"
  using dec_operand_i32(1) [of "s\<lparr>vm_pc := p\<rparr>" r ys] dec_operand_i64(1) [of "s\<lparr>vm_pc := p\<rparr>" r ys]
    dec_result(1,2) [of "s\<lparr>vm_pc := p\<rparr>" r ys] assms by simp_all



lemma exec_unary_i32:
  fixes l d :: u16
  assumes code: "drop (vm_pc s) (bytecode_data s) = le_bytes 2 l @ le_bytes 2 d @ rest"
    and regs: "unat l < length (regs_i32 s)" "unat d < length (regs_i32 s)"
    and v: "f (regs_i32 s ! unat l) = Inr v"
  shows "DISPATCH_OP_CORE_UNARY_I32 f s =
    Inr ((), s\<lparr>vm_pc := vm_pc s + 4, regs_i32 := (regs_i32 s)[unat d := v]\<rparr>)"
  using dec_operand_i32(1) [OF code regs(1)] dec_at(3) [OF ordinals_at(1) [OF code]] regs(2) v
  by (simp add: DISPATCH_OP_CORE_UNARY_I32_def bind_sm_def write_reg32_def eval_nat_numeral)

lemma exec_ternary_i32:
  fixes x y z d :: u16
  assumes code: "drop (vm_pc s) (bytecode_data s) =
      le_bytes 2 x @ le_bytes 2 y @ le_bytes 2 z @ le_bytes 2 d @ rest"
    and regs: "unat x < length (regs_i32 s)" "unat y < length (regs_i32 s)"
      "unat z < length (regs_i32 s)" "unat d < length (regs_i32 s)"
    and v: "f (regs_i32 s ! unat x) (regs_i32 s ! unat y) (regs_i32 s ! unat z) = Inr v"
  shows "DISPATCH_OP_CORE_TERNARY_I32 f s =
    Inr ((), s\<lparr>vm_pc := vm_pc s + 8, regs_i32 := (regs_i32 s)[unat d := v]\<rparr>)"
  using dec_operand_i32(1) [OF code regs(1)] dec_at(1) [OF ordinals_at(1) [OF code] regs(2)]
    dec_at(1) [OF ordinals_at(2) [OF code] regs(3)] dec_at(3) [OF ordinals_at(3) [OF code]] regs(4) v
  by (simp add: DISPATCH_OP_CORE_TERNARY_I32_def bind_sm_def write_reg32_def eval_nat_numeral)

text \<open>Nothing masks the ordinal of a numeric register.\<close>

lemma operand_ordinal_unchecked:
  fixes r :: u16
  assumes "drop (vm_pc s) (bytecode_data s) = le_bytes 2 r @ ys" "length (regs_i32 s) \<le> unat r"
  shows "VM_DecOperandRegI32 s = Inl OutOfBounds"
  using assms(2) by (simp add: VM_DecOperandRegI32_def dec_defs bind_sm_def OP_I16_0 [OF assms(1)] read_reg32_def)

text \<open>A type id outside the table, negative ids included, selects entry 0.\<close>

lemma uint_scast_i32: "uint (scast (i :: i32) :: u64) = sint i mod 2 ^ 64"
proof -
  have "(scast i :: u64) = word_of_int (sint i)" by simp
  then show ?thesis by (simp only: uint_word_of_int) simp
qed

lemma map_type_clamps:
  assumes "0 < length type_table" "length type_table < 2 ^ 31"
  shows "iree_vm_map_type type_table i =
    Inr (type_table ! (if 0 \<le> sint i \<and> sint i < int (length type_table) then nat (sint i) else 0))"
proof -
  have n: "uint (of_nat (length type_table) :: u64) = int (length type_table)"
    using assms(2) by (simp add: uint_nat unat_of_nat)
  have r: "- (2 ^ 31) \<le> sint i" "sint i < 2 ^ 31" using sint_ge [of i] sint_lt [of i] by simp_all
  have "uint (scast i :: u64) = (if 0 \<le> sint i then sint i else sint i + 2 ^ 64)"
  proof (cases "0 \<le> sint i")
    case True
    then show ?thesis using r by (simp add: uint_scast_i32)
  next
    case False
    then have "sint i mod 2 ^ 64 = (sint i + 2 ^ 64) mod 2 ^ 64" by simp
    also have "\<dots> = sint i + 2 ^ 64" using False r by (intro mod_pos_pos_trivial) simp_all
    finally show ?thesis using False by (simp add: uint_scast_i32)
  qed
  then have "(scast i :: u64) \<ge> of_nat (length type_table) \<longleftrightarrow>
      \<not> (0 \<le> sint i \<and> sint i < int (length type_table))"
    using r assms(2) unfolding word_le_def n by auto
  then show ?thesis using assms(1) by (auto simp: iree_vm_map_type_def Let_def)
qed

section \<open>Properties\<close>

text \<open>
  C33. The two dispatch modes select the same instruction for every opcode of the extensions, and
  for every core opcode other than \<open>0x7A\<close> to \<open>0x7D\<close>. There the table used by computed goto names
  the 64-bit minimum and maximum while the switch uses the 32-bit ones of the enumeration.
\<close>

theorem dispatch_modes_agree_except_min_max:
  "dispatch_ext_f32 COMPUTED_GOTO b = dispatch_ext_f32 SWITCH b \<and>
   dispatch_ext_f64 COMPUTED_GOTO b = dispatch_ext_f64 SWITCH b \<and>
   (dispatch_core COMPUTED_GOTO b = dispatch_core SWITCH b \<longleftrightarrow> b \<notin> {0x7A, 0x7B, 0x7C, 0x7D}) \<and>
   dispatch_core COMPUTED_GOTO 0x7A = Op_label ''MinI64S'' \<and> dispatch_core SWITCH 0x7A = Op_label ''MinI32S''"
proof -
  have "dispatch_core COMPUTED_GOTO b \<noteq> dispatch_core SWITCH b" if "b \<in> {0x7A, 0x7B, 0x7C, 0x7D}"
    using that unfolding insert_iff empty_iff
    by (elim disjE) (simp_all only: dispatch_core_differ label.inject list.inject char.inject simp_thms)
  then show ?thesis using dispatch_ext_agree dispatch_core_agree dispatch_core_differ(1,2) by blast
qed



end
