(* ===== verification/Vm_Value.thy ===== *)
theory Vm_Value
  imports Iree_Status
begin

unbundle bit_operations_syntax

text \<open>
  Values, references, type definitions and variants of the virtual machine: the inline parts of
  \<open>iree/vm/ref.h\<close>, \<open>iree/vm/value.h\<close>, \<open>iree/vm/type_def.h\<close> and \<open>iree/vm/variant.h\<close>. The storage of a
  union is a list of bytes, a byte that was never written being \<open>None\<close>; copying such a byte is
  defined, reading it as a number is not. Retaining and releasing an object is done by functions of
  the runtime library that are not part of the repository and are arguments here.
\<close>

section \<open>Object representations with indeterminate bytes\<close>

type_synonym storage = "u8 option list"

definition read_storage :: "nat \<Rightarrow> storage \<Rightarrow> 'a::len word res" where
  "read_storage n st =
     (if length st < n then Inl OutOfBounds
      else if None \<in> set (take n st) then Inl UninitRead
      else Inr (of_le (map the (take n st))))"

definition write_storage :: "nat \<Rightarrow> 'a::len word \<Rightarrow> storage \<Rightarrow> storage" where
  "write_storage n w st = map Some (le_bytes n w) @ drop n st"

section \<open>References and their types\<close>

definition IREE_VM_REF_TYPE_TAG_BITS :: nat where "IREE_VM_REF_TYPE_TAG_BITS = 3"
definition IREE_VM_REF_TYPE_TAG_BIT_MASK :: u64 where "IREE_VM_REF_TYPE_TAG_BIT_MASK = 7"
definition IREE_VM_REF_TYPE_PTR_BITS :: nat where
  "IREE_VM_REF_TYPE_PTR_BITS = 8 * 8 - IREE_VM_REF_TYPE_TAG_BITS"
definition IREE_VM_REF_TYPE_PTR_BIT_MASK :: u64 where
  "IREE_VM_REF_TYPE_PTR_BIT_MASK = NOT IREE_VM_REF_TYPE_TAG_BIT_MASK"

lemmas ref_type_consts [c_defs] =
  IREE_VM_REF_TYPE_TAG_BITS_def IREE_VM_REF_TYPE_TAG_BIT_MASK_def IREE_VM_REF_TYPE_PTR_BITS_def
  IREE_VM_REF_TYPE_PTR_BIT_MASK_def

type_synonym iree_vm_ref_type_t = u64

definition IREE_VM_REF_TYPE_NULL :: iree_vm_ref_type_t where "IREE_VM_REF_TYPE_NULL = 0"
definition IREE_VM_REF_TYPE_ANY :: iree_vm_ref_type_t where
  "IREE_VM_REF_TYPE_ANY = (- 1) XOR IREE_VM_REF_TYPE_TAG_BIT_MASK"

text \<open>The descriptor at an address; its bit-field for the counter offset has 3 bits.\<close>

record iree_vm_ref_type_descriptor_t =
  desc_address :: ptr
  offsetof_counter :: "3 word"

definition iree_vm_make_ref_type :: "iree_vm_ref_type_descriptor_t \<Rightarrow> iree_vm_ref_type_t" where
  "iree_vm_make_ref_type d = desc_address d OR ucast (offsetof_counter d)"

definition iree_vm_ref_type_descriptor :: "iree_vm_ref_type_t \<Rightarrow> ptr" where
  "iree_vm_ref_type_descriptor type = type AND IREE_VM_REF_TYPE_PTR_BIT_MASK"

record iree_vm_ref_t =
  ref_target :: ptr
  ref_type :: iree_vm_ref_type_t

definition iree_vm_ref_null :: iree_vm_ref_t where
  "iree_vm_ref_null = \<lparr>ref_target = nullptr, ref_type = 0\<rparr>"

text \<open>The 16 bytes of a reference in memory.\<close>

definition ref_bytes :: "iree_vm_ref_t \<Rightarrow> u8 list" where
  "ref_bytes r = le_bytes 8 (ref_target r) @ le_bytes 8 (ref_type r)"

definition iree_vm_ref_check :: "iree_vm_ref_t \<Rightarrow> iree_vm_ref_type_t \<Rightarrow> iree_status_code_t" where
  "iree_vm_ref_check r type = (if ref_type r = type then IREE_STATUS_OK else IREE_STATUS_INVALID_ARGUMENT)"

text \<open>
  The functions the macros \<open>IREE_VM_DECLARE_TYPE_ADAPTERS\<close> and \<open>IREE_VM_DEFINE_TYPE_ADAPTERS\<close> generate
  for a registered type; \<open>registration\<close> is the value of the variable that holds it. \<open>wrap\<close> stands
  for the library's \<open>iree_vm_ref_wrap_retain\<close> or \<open>iree_vm_ref_wrap_assign\<close>, whose status is dropped.
\<close>

definition adapter_isa :: "iree_vm_ref_type_t \<Rightarrow> iree_vm_ref_t \<Rightarrow> bool" where
  "adapter_isa registration r \<longleftrightarrow> registration = ref_type r"

definition adapter_deref :: "iree_vm_ref_type_t \<Rightarrow> iree_vm_ref_t \<Rightarrow> ptr" where
  "adapter_deref registration r = (if adapter_isa registration r then ref_target r else nullptr)"

definition adapter_check_deref :: "iree_vm_ref_type_t \<Rightarrow> iree_vm_ref_t \<Rightarrow> iree_status_code_t + ptr" where
  "adapter_check_deref registration r =
     (let status = iree_vm_ref_check r registration
      in if status \<noteq> IREE_STATUS_OK then Inl status else Inr (ref_target r))"

definition adapter_check_deref_or_null ::
  "iree_vm_ref_type_t \<Rightarrow> iree_vm_ref_t \<Rightarrow> iree_status_code_t + ptr" where
  "adapter_check_deref_or_null registration r =
     (if ref_type r \<noteq> IREE_VM_REF_TYPE_NULL
      then let status = iree_vm_ref_check r registration
           in if status \<noteq> IREE_STATUS_OK then Inl status else Inr (ref_target r)
      else Inr nullptr)"

definition adapter_wrap_ref ::
  "(ptr \<Rightarrow> iree_vm_ref_type_t \<Rightarrow> iree_vm_ref_t \<Rightarrow> ('s, iree_status_code_t \<times> iree_vm_ref_t) sm) \<Rightarrow>
   iree_vm_ref_type_t \<Rightarrow> ptr \<Rightarrow> ('s, iree_vm_ref_t) sm" where
  "adapter_wrap_ref wrap registration v =
     bind_sm (wrap v registration iree_vm_ref_null) (\<lambda>(status, r). ret_sm r)"

section \<open>Primitive values\<close>

type_synonym iree_vm_value_type_t = u32

definition IREE_VM_VALUE_TYPE_NONE :: iree_vm_value_type_t where "IREE_VM_VALUE_TYPE_NONE = 0"
definition IREE_VM_VALUE_TYPE_I8 :: iree_vm_value_type_t where "IREE_VM_VALUE_TYPE_I8 = 1"
definition IREE_VM_VALUE_TYPE_I16 :: iree_vm_value_type_t where "IREE_VM_VALUE_TYPE_I16 = 2"
definition IREE_VM_VALUE_TYPE_I32 :: iree_vm_value_type_t where "IREE_VM_VALUE_TYPE_I32 = 3"
definition IREE_VM_VALUE_TYPE_I64 :: iree_vm_value_type_t where "IREE_VM_VALUE_TYPE_I64 = 4"
definition IREE_VM_VALUE_TYPE_F32 :: iree_vm_value_type_t where "IREE_VM_VALUE_TYPE_F32 = 5"
definition IREE_VM_VALUE_TYPE_F64 :: iree_vm_value_type_t where "IREE_VM_VALUE_TYPE_F64 = 6"
definition IREE_VM_VALUE_TYPE_MAX :: iree_vm_value_type_t where
  "IREE_VM_VALUE_TYPE_MAX = IREE_VM_VALUE_TYPE_F64"

lemmas value_types [c_defs] =
  IREE_VM_VALUE_TYPE_NONE_def IREE_VM_VALUE_TYPE_I8_def IREE_VM_VALUE_TYPE_I16_def
  IREE_VM_VALUE_TYPE_I32_def IREE_VM_VALUE_TYPE_I64_def IREE_VM_VALUE_TYPE_F32_def
  IREE_VM_VALUE_TYPE_F64_def IREE_VM_VALUE_TYPE_MAX_def

definition IREE_VM_VALUE_STORAGE_SIZE :: nat where "IREE_VM_VALUE_STORAGE_SIZE = 8"

record iree_vm_value_t =
  value_type :: iree_vm_value_type_t
  value_storage :: storage

text \<open>An automatic variable whose union is not initialised, after its \<open>type\<close> has been set.\<close>

definition uninitialised_value :: "iree_vm_value_type_t \<Rightarrow> iree_vm_value_t" where
  "uninitialised_value t =
     \<lparr>value_type = t, value_storage = replicate IREE_VM_VALUE_STORAGE_SIZE None\<rparr>"

definition iree_vm_value_make_none :: iree_vm_value_t where
  "iree_vm_value_make_none = uninitialised_value IREE_VM_VALUE_TYPE_NONE"

definition iree_vm_value_make_i8 :: "u8 \<Rightarrow> iree_vm_value_t" where
  "iree_vm_value_make_i8 v =
     (let r = uninitialised_value IREE_VM_VALUE_TYPE_I8
      in r\<lparr>value_storage := write_storage 1 v (value_storage r)\<rparr>)"

definition iree_vm_value_make_i16 :: "u16 \<Rightarrow> iree_vm_value_t" where
  "iree_vm_value_make_i16 v =
     (let r = uninitialised_value IREE_VM_VALUE_TYPE_I16
      in r\<lparr>value_storage := write_storage 2 v (value_storage r)\<rparr>)"

definition iree_vm_value_make_i32 :: "u32 \<Rightarrow> iree_vm_value_t" where
  "iree_vm_value_make_i32 v =
     (let r = uninitialised_value IREE_VM_VALUE_TYPE_I32
      in r\<lparr>value_storage := write_storage 4 v (value_storage r)\<rparr>)"

definition iree_vm_value_make_i64 :: "u64 \<Rightarrow> iree_vm_value_t" where
  "iree_vm_value_make_i64 v =
     (let r = uninitialised_value IREE_VM_VALUE_TYPE_I64
      in r\<lparr>value_storage := write_storage 8 v (value_storage r)\<rparr>)"

text \<open>A \<open>float\<close> and a \<open>double\<close> are their bit patterns.\<close>

definition iree_vm_value_make_f32 :: "u32 \<Rightarrow> iree_vm_value_t" where
  "iree_vm_value_make_f32 v =
     (let r = uninitialised_value IREE_VM_VALUE_TYPE_F32
      in r\<lparr>value_storage := write_storage 4 v (value_storage r)\<rparr>)"

definition iree_vm_value_make_f64 :: "u64 \<Rightarrow> iree_vm_value_t" where
  "iree_vm_value_make_f64 v =
     (let r = uninitialised_value IREE_VM_VALUE_TYPE_F64
      in r\<lparr>value_storage := write_storage 8 v (value_storage r)\<rparr>)"

definition iree_vm_value_get_i32 :: "iree_vm_value_t \<Rightarrow> u32 res" where
  "iree_vm_value_get_i32 v = read_storage 4 (value_storage v)"

definition iree_vm_value_get_i64 :: "iree_vm_value_t \<Rightarrow> u64 res" where
  "iree_vm_value_get_i64 v = read_storage 8 (value_storage v)"

definition iree_vm_value_get_f32 :: "iree_vm_value_t \<Rightarrow> u32 res" where
  "iree_vm_value_get_f32 v = read_storage 4 (value_storage v)"

definition iree_vm_value_get_f64 :: "iree_vm_value_t \<Rightarrow> u64 res" where
  "iree_vm_value_get_f64 v = read_storage 8 (value_storage v)"

section \<open>Type definitions\<close>

text \<open>The two bit-fields; storing a wider value into one of them keeps its low bits.\<close>

record iree_vm_type_def_t =
  value_type_bits :: "3 word"
  ref_type_bits :: "61 word"

definition iree_vm_type_def_as_value :: "iree_vm_type_def_t \<Rightarrow> iree_vm_value_type_t" where
  "iree_vm_type_def_as_value v = ucast (value_type_bits v)"

definition iree_vm_type_def_as_ref :: "iree_vm_type_def_t \<Rightarrow> iree_vm_ref_type_t" where
  "iree_vm_type_def_as_ref v = push_bit IREE_VM_REF_TYPE_TAG_BITS (ucast (ref_type_bits v))"

definition iree_vm_type_def_is_value :: "iree_vm_type_def_t \<Rightarrow> bool" where
  "iree_vm_type_def_is_value v \<longleftrightarrow> iree_vm_type_def_as_value v \<noteq> IREE_VM_VALUE_TYPE_NONE"

definition iree_vm_type_def_is_ref :: "iree_vm_type_def_t \<Rightarrow> bool" where
  "iree_vm_type_def_is_ref v \<longleftrightarrow> iree_vm_type_def_as_ref v \<noteq> IREE_VM_REF_TYPE_NULL"

definition iree_vm_type_def_is_variant :: "iree_vm_type_def_t \<Rightarrow> bool" where
  "iree_vm_type_def_is_variant v \<longleftrightarrow>
     iree_vm_type_def_as_value v = IREE_VM_VALUE_TYPE_NONE \<and>
     iree_vm_type_def_as_ref v = IREE_VM_REF_TYPE_NULL"

definition iree_vm_type_def_is_undefined :: "iree_vm_type_def_t \<Rightarrow> bool" where
  "iree_vm_type_def_is_undefined v = iree_vm_type_def_is_variant v"

definition iree_vm_type_def_equal :: "iree_vm_type_def_t \<Rightarrow> iree_vm_type_def_t \<Rightarrow> bool" where
  "iree_vm_type_def_equal a b \<longleftrightarrow>
     value_type_bits a = value_type_bits b \<and> ref_type_bits a = ref_type_bits b"

definition iree_vm_make_undefined_type_def :: iree_vm_type_def_t where
  "iree_vm_make_undefined_type_def =
     \<lparr>value_type_bits = ucast IREE_VM_VALUE_TYPE_NONE, ref_type_bits = ucast IREE_VM_REF_TYPE_NULL\<rparr>"

definition iree_vm_make_value_type_def :: "iree_vm_value_type_t \<Rightarrow> iree_vm_type_def_t" where
  "iree_vm_make_value_type_def t =
     \<lparr>value_type_bits = ucast t, ref_type_bits = ucast IREE_VM_REF_TYPE_NULL\<rparr>"

definition iree_vm_make_ref_type_def :: "iree_vm_ref_type_t \<Rightarrow> iree_vm_type_def_t" where
  "iree_vm_make_ref_type_def t =
     \<lparr>value_type_bits = ucast IREE_VM_VALUE_TYPE_NONE,
      ref_type_bits = ucast (drop_bit IREE_VM_REF_TYPE_TAG_BITS t)\<rparr>"

section \<open>Variants\<close>

text \<open>The union is as large as its largest member, a reference of 16 bytes.\<close>

record iree_vm_variant_t =
  variant_type :: iree_vm_type_def_t
  variant_storage :: storage

definition variant_ref :: "iree_vm_variant_t \<Rightarrow> iree_vm_ref_t res" where
  "variant_ref v =
     bind_res (read_storage 8 (variant_storage v)) (\<lambda>p.
     bind_res (read_storage 8 (drop 8 (variant_storage v))) (\<lambda>t.
     Inr \<lparr>ref_target = p, ref_type = t\<rparr>))"

definition iree_vm_variant_empty :: iree_vm_variant_t where
  "iree_vm_variant_empty =
     \<lparr>variant_type = iree_vm_make_undefined_type_def,
      variant_storage = map Some (ref_bytes iree_vm_ref_null)\<rparr>"

definition iree_vm_variant_is_empty :: "iree_vm_variant_t \<Rightarrow> bool" where
  "iree_vm_variant_is_empty v = iree_vm_type_def_is_variant (variant_type v)"

definition iree_vm_variant_is_value :: "iree_vm_variant_t \<Rightarrow> bool" where
  "iree_vm_variant_is_value v = iree_vm_type_def_is_value (variant_type v)"

definition iree_vm_variant_is_ref :: "iree_vm_variant_t \<Rightarrow> bool" where
  "iree_vm_variant_is_ref v = iree_vm_type_def_is_ref (variant_type v)"

definition iree_vm_make_variant_value :: "iree_vm_value_t \<Rightarrow> iree_vm_variant_t" where
  "iree_vm_make_variant_value val =
     (let r = iree_vm_variant_empty
      in r\<lparr>variant_type := (variant_type r)\<lparr>value_type_bits := ucast (value_type val)\<rparr>,
           variant_storage :=
             take IREE_VM_VALUE_STORAGE_SIZE (value_storage val) @
             drop IREE_VM_VALUE_STORAGE_SIZE (variant_storage r)\<rparr>)"

definition iree_vm_make_variant_ref_assign :: "iree_vm_ref_t \<Rightarrow> iree_vm_variant_t" where
  "iree_vm_make_variant_ref_assign ref =
     (let r = iree_vm_variant_empty
      in r\<lparr>variant_type := (variant_type r)
             \<lparr>ref_type_bits := ucast (drop_bit IREE_VM_REF_TYPE_TAG_BITS (ref_type ref))\<rparr>,
           variant_storage := map Some (ref_bytes ref)\<rparr>)"

definition iree_vm_variant_value :: "iree_vm_variant_t \<Rightarrow> iree_vm_value_t" where
  "iree_vm_variant_value v =
     \<lparr>value_type = ucast (value_type_bits (variant_type v)),
      value_storage = take IREE_VM_VALUE_STORAGE_SIZE (variant_storage v)\<rparr>"

text \<open>
  \<open>None\<close> is a null pointer. \<open>ref_release\<close> stands for \<open>iree_vm_ref_release\<close>, which gives the reference
  it leaves behind; the assignment that follows overwrites it.
\<close>

definition iree_vm_variant_reset ::
  "(iree_vm_ref_t \<Rightarrow> ('s, iree_vm_ref_t) sm) \<Rightarrow> iree_vm_variant_t option \<Rightarrow>
   ('s, iree_vm_variant_t option) sm" where
  "iree_vm_variant_reset ref_release variant =
     (case variant of
        None \<Rightarrow> ret_sm None
      | Some v \<Rightarrow>
          bind_sm (if iree_vm_variant_is_ref v
                   then bind_sm (lift_sm (variant_ref v)) (\<lambda>r. bind_sm (ref_release r) (\<lambda>_. ret_sm ()))
                   else ret_sm ())
            (\<lambda>_. ret_sm (Some iree_vm_variant_empty)))"

section \<open>Storage\<close>

lemma map_the_Some [simp]: "map the (map Some xs) = xs"
  by (induction xs) simp_all

lemma read_write_storage:
  assumes "length st = n + k" "LENGTH('a) \<le> 8 * n"
  shows "read_storage n (write_storage n (w :: 'a::len word) st) = Inr w"
    and "length (write_storage n w st) = n + k"
    and "drop n (write_storage n w st) = drop n st"
    and "None \<notin> set (take n (write_storage n w st))"
  using assms by (simp_all add: read_storage_def write_storage_def of_le_le_bytes)

lemma read_storage_bytes [simp]:
  "LENGTH('a) \<le> 8 * n \<Longrightarrow> read_storage n (map Some (le_bytes n (w :: 'a::len word)) @ st) = Inr w"
  by (simp add: read_storage_def of_le_le_bytes)

text \<open>Reading more bytes than were ever written to an automatic union reads an indeterminate one.\<close>

lemma read_storage_uninit:
  assumes "n < m"
  shows "read_storage m (write_storage n w (replicate m None)) = Inl UninitRead"
proof -
  have "replicate (m - n) None = None # replicate (m - n - 1) (None :: u8 option)"
    using assms by (metis Suc_diff_1 replicate_Suc zero_less_diff)
  then show ?thesis using assms by (simp add: read_storage_def write_storage_def)
qed

lemmas value_makers =
  iree_vm_value_make_i8_def iree_vm_value_make_i16_def iree_vm_value_make_i32_def
  iree_vm_value_make_i64_def iree_vm_value_make_f32_def iree_vm_value_make_f64_def
  uninitialised_value_def IREE_VM_VALUE_STORAGE_SIZE_def Let_def

lemmas value_getters =
  iree_vm_value_get_i32_def iree_vm_value_get_i64_def iree_vm_value_get_f32_def iree_vm_value_get_f64_def

lemma value_get_make:
  "iree_vm_value_get_i32 (iree_vm_value_make_i32 a) = Inr a"
  "iree_vm_value_get_i64 (iree_vm_value_make_i64 b) = Inr b"
  "iree_vm_value_get_f32 (iree_vm_value_make_f32 c) = Inr c"
  "iree_vm_value_get_f64 (iree_vm_value_make_f64 d) = Inr d"
  by (simp_all add: value_makers value_getters write_storage_def read_storage_def of_le_le_bytes)

lemma value_get_too_wide:
  "iree_vm_value_get_i64 (iree_vm_value_make_i32 a) = Inl UninitRead"
  "iree_vm_value_get_i32 (iree_vm_value_make_i8 b) = Inl UninitRead"
  "iree_vm_value_get_i32 (iree_vm_value_make_i16 c) = Inl UninitRead"
  "iree_vm_value_get_f64 (iree_vm_value_make_f32 d) = Inl UninitRead"
  using read_storage_uninit [of 4 8] read_storage_uninit [of 1 4] read_storage_uninit [of 2 4]
  by (simp_all add: value_makers value_getters write_storage_def read_storage_def)

section \<open>Type definitions\<close>

lemma low_bits_of_descriptor:
  fixes d :: ptr
  assumes "d AND 7 = 0"
  shows "(d OR ucast (c :: 3 word)) AND NOT 7 = d" "(d OR ucast c) AND 7 = ucast c"
proof -
  have m: "(7 :: u64) = mask 3" by (simp add: mask_eq_exp_minus_1)
  have c: "bit (ucast c :: u64) n \<Longrightarrow> n < 3" for n by (auto simp: bit_simps dest: bit_imp_le_length)
  have d: "bit d n \<Longrightarrow> 3 \<le> n" for n
  proof -
    assume "bit d n"
    have "\<not> bit (d AND mask 3) n" using assms unfolding m by simp
    then show "3 \<le> n" using \<open>bit d n\<close> by (auto simp: bit_simps)
  qed
  show "(d OR ucast c) AND NOT 7 = d" "(d OR ucast c) AND 7 = ucast c"
    unfolding m by (rule bit_word_eqI; use c d in \<open>auto simp: bit_simps\<close>; fastforce)+
qed

lemma descriptor_of_made_type:
  "desc_address d AND IREE_VM_REF_TYPE_TAG_BIT_MASK = 0 \<Longrightarrow>
     iree_vm_ref_type_descriptor (iree_vm_make_ref_type d) = desc_address d"
  using low_bits_of_descriptor [of "desc_address d" "offsetof_counter d"]
  unfolding iree_vm_ref_type_descriptor_def iree_vm_make_ref_type_def ref_type_consts by simp

lemma type_def_as_ref_of_make:
  "iree_vm_type_def_as_ref (iree_vm_make_ref_type_def t) = iree_vm_ref_type_descriptor t"
proof -
  have m: "(7 :: u64) = mask 3" by (simp add: mask_eq_exp_minus_1)
  show ?thesis
    unfolding iree_vm_type_def_as_ref_def iree_vm_make_ref_type_def_def iree_vm_ref_type_descriptor_def
      ref_type_consts m
    by (intro bit_word_eqI) (auto simp: bit_simps)
qed

lemma type_def_fields [simp]:
  "iree_vm_type_def_as_value (iree_vm_make_ref_type_def t) = 0"
  "iree_vm_type_def_as_ref (iree_vm_make_value_type_def v) = 0"
  "v < 8 \<Longrightarrow> iree_vm_type_def_as_value (iree_vm_make_value_type_def v) = v"
proof -
  show "iree_vm_type_def_as_value (iree_vm_make_ref_type_def t) = 0"
    "iree_vm_type_def_as_ref (iree_vm_make_value_type_def v) = 0"
    by (simp_all add: iree_vm_type_def_as_value_def iree_vm_make_ref_type_def_def iree_vm_type_def_as_ref_def
        iree_vm_make_value_type_def_def IREE_VM_REF_TYPE_NULL_def value_types)
  assume "v < 8"
  then have "unat v < 8" by (simp add: word_less_nat_alt)
  then show "iree_vm_type_def_as_value (iree_vm_make_value_type_def v) = v"
    by (simp add: iree_vm_type_def_as_value_def iree_vm_make_value_type_def_def word_unat_eq_iff
        unsigned_ucast_eq unsigned_take_bit_eq take_bit_nat_eq_self)
qed

section \<open>The types of variants\<close>

text \<open>
  A type of the VM, and what it means for a variant to have it: its type definition says so, and
  the bytes of the union that belong to a value of the type are initialised.
\<close>

datatype vm_type = UndefinedType | ValueType iree_vm_value_type_t | RefType ptr

definition value_width :: "iree_vm_value_type_t \<Rightarrow> nat" where
  "value_width t =
     (if t = IREE_VM_VALUE_TYPE_I8 then 1 else if t = IREE_VM_VALUE_TYPE_I16 then 2
      else if t = IREE_VM_VALUE_TYPE_I32 \<or> t = IREE_VM_VALUE_TYPE_F32 then 4
      else if t = IREE_VM_VALUE_TYPE_I64 \<or> t = IREE_VM_VALUE_TYPE_F64 then 8 else 0)"

inductive variant_has_type :: "iree_vm_variant_t \<Rightarrow> vm_type \<Rightarrow> bool" where
  has_undefined: "variant_type v = iree_vm_make_undefined_type_def \<Longrightarrow>
     variant_ref v = Inr iree_vm_ref_null \<Longrightarrow> variant_has_type v UndefinedType"
| has_value: "variant_type v = iree_vm_make_value_type_def t \<Longrightarrow> 0 < value_width t \<Longrightarrow>
     length (variant_storage v) = 16 \<Longrightarrow> None \<notin> set (take (value_width t) (variant_storage v)) \<Longrightarrow>
     variant_has_type v (ValueType t)"
| has_ref: "variant_type v = iree_vm_make_ref_type_def (ref_type r) \<Longrightarrow> variant_ref v = Inr r \<Longrightarrow>
     iree_vm_ref_type_descriptor (ref_type r) \<noteq> nullptr \<Longrightarrow>
     variant_has_type v (RefType (iree_vm_ref_type_descriptor (ref_type r)))"

inductive_cases variant_has_typeE: "variant_has_type v T"

lemma value_width_pos: "0 < value_width t \<Longrightarrow> t < 8 \<and> t \<noteq> 0"
  by (auto simp: value_width_def value_types split: if_splits)

lemma variant_kinds:
  assumes "variant_has_type v T"
  shows "iree_vm_variant_is_empty v \<longleftrightarrow> T = UndefinedType"
    and "iree_vm_variant_is_value v \<longleftrightarrow> (\<exists>t. T = ValueType t)"
    and "iree_vm_variant_is_ref v \<longleftrightarrow> (\<exists>d. T = RefType d)"
    and "T = ValueType t \<Longrightarrow> iree_vm_type_def_as_value (variant_type v) = t"
    and "T = RefType d \<Longrightarrow> iree_vm_type_def_as_ref (variant_type v) = d"
proof -
  have u: "iree_vm_type_def_as_value iree_vm_make_undefined_type_def = 0"
    "iree_vm_type_def_as_ref iree_vm_make_undefined_type_def = 0"
    by (simp_all add: iree_vm_type_def_as_value_def iree_vm_type_def_as_ref_def value_types
        iree_vm_make_undefined_type_def_def IREE_VM_REF_TYPE_NULL_def)
  note k = iree_vm_variant_is_empty_def iree_vm_variant_is_value_def iree_vm_variant_is_ref_def
    iree_vm_type_def_is_variant_def iree_vm_type_def_is_value_def iree_vm_type_def_is_ref_def
    IREE_VM_REF_TYPE_NULL_def IREE_VM_VALUE_TYPE_NONE_def u type_def_as_ref_of_make
  show "iree_vm_variant_is_empty v \<longleftrightarrow> T = UndefinedType"
    "iree_vm_variant_is_value v \<longleftrightarrow> (\<exists>t. T = ValueType t)"
    "iree_vm_variant_is_ref v \<longleftrightarrow> (\<exists>d. T = RefType d)"
    "T = ValueType t \<Longrightarrow> iree_vm_type_def_as_value (variant_type v) = t"
    "T = RefType d \<Longrightarrow> iree_vm_type_def_as_ref (variant_type v) = d"
    using assms by (auto simp: k elim!: variant_has_typeE dest!: value_width_pos)
qed

lemma variant_type_unique: "variant_has_type v T \<Longrightarrow> variant_has_type v T' \<Longrightarrow> T = T'"
  using variant_kinds [of v T] variant_kinds [of v T'] by (cases T; cases T') auto

lemma length_ref_bytes [simp]: "length (ref_bytes r) = 16"
  by (simp add: ref_bytes_def)

lemma variant_ref_of_bytes:
  "variant_storage v = map Some (ref_bytes r) \<Longrightarrow> variant_ref v = Inr r"
  by (simp add: variant_ref_def ref_bytes_def read_storage_def of_le_le_bytes)

lemma variant_ref_of_make [simp]: "variant_ref (iree_vm_make_variant_ref_assign r) = Inr r"
  by (rule variant_ref_of_bytes) (simp add: iree_vm_make_variant_ref_assign_def Let_def)

lemma empty_has_type: "variant_has_type iree_vm_variant_empty UndefinedType"
  by (rule has_undefined) (simp_all add: iree_vm_variant_empty_def variant_ref_of_bytes)

lemma make_value_has_type:
  assumes "0 < value_width (value_type val)" "length (value_storage val) = 8"
    "None \<notin> set (take (value_width (value_type val)) (value_storage val))"
  shows "variant_has_type (iree_vm_make_variant_value val) (ValueType (value_type val))"
proof (rule has_value)
  have "value_width (value_type val) \<le> 8" by (simp add: value_width_def)
  then show "None \<notin> set (take (value_width (value_type val)) (variant_storage (iree_vm_make_variant_value val)))"
    using assms(2,3) by (simp add: iree_vm_make_variant_value_def IREE_VM_VALUE_STORAGE_SIZE_def)
qed (use assms in \<open>simp_all add: iree_vm_make_variant_value_def iree_vm_variant_empty_def Let_def
      iree_vm_make_undefined_type_def_def iree_vm_make_value_type_def_def IREE_VM_VALUE_STORAGE_SIZE_def\<close>)

lemma made_values_initialised:
  "val \<in> {iree_vm_value_make_i8 a, iree_vm_value_make_i16 b, iree_vm_value_make_i32 c,
     iree_vm_value_make_i64 d, iree_vm_value_make_f32 c, iree_vm_value_make_f64 d} \<Longrightarrow>
   0 < value_width (value_type val) \<and> length (value_storage val) = 8 \<and>
   None \<notin> set (take (value_width (value_type val)) (value_storage val))"
  by (auto simp: value_makers value_width_def value_types write_storage_def)

lemma make_ref_has_type:
  assumes "iree_vm_ref_type_descriptor (ref_type r) \<noteq> nullptr"
  shows "variant_has_type (iree_vm_make_variant_ref_assign r)
    (RefType (iree_vm_ref_type_descriptor (ref_type r)))"
  by (rule has_ref)
    (use assms in \<open>simp_all add: iree_vm_make_variant_ref_assign_def iree_vm_variant_empty_def Let_def
      iree_vm_make_undefined_type_def_def iree_vm_make_ref_type_def_def variant_ref_of_bytes value_types\<close>)

lemma make_null_ref_has_type: "variant_has_type (iree_vm_make_variant_ref_assign iree_vm_ref_null) UndefinedType"
  by (rule has_undefined)
    (simp_all add: iree_vm_make_variant_ref_assign_def iree_vm_variant_empty_def Let_def iree_vm_ref_null_def
      iree_vm_make_undefined_type_def_def IREE_VM_REF_TYPE_NULL_def variant_ref_of_bytes)

lemma reset_spec:
  "variant_has_type v T \<Longrightarrow> iree_vm_variant_reset rel (Some v) s =
     (case T of
        RefType d \<Rightarrow> bind_sm (lift_sm (variant_ref v)) (\<lambda>r. bind_sm (rel r) (\<lambda>_. ret_sm (Some iree_vm_variant_empty))) s
      | _ \<Rightarrow> Inr (Some iree_vm_variant_empty, s))"
  using variant_kinds(3) [of v T] by (cases T) (auto elim!: variant_has_typeE simp: iree_vm_variant_reset_def bind_sm_def ret_sm_def split: sum.split)

section \<open>Properties\<close>

text \<open>
  C37. The constructors give well-typed variants: a value of each primitive type, a reference of the
  type its descriptor names, and a null reference is the undefined variant. A variant has at most one
  type, the three tests recognise exactly its kind, and resetting it gives the undefined variant
  after a reference, and only a reference, was released once.
\<close>

theorem variants_are_typed:
  "variant_has_type iree_vm_variant_empty UndefinedType \<and>
   variant_has_type (iree_vm_make_variant_value (iree_vm_value_make_i8 a)) (ValueType IREE_VM_VALUE_TYPE_I8) \<and>
   variant_has_type (iree_vm_make_variant_value (iree_vm_value_make_i16 b)) (ValueType IREE_VM_VALUE_TYPE_I16) \<and>
   variant_has_type (iree_vm_make_variant_value (iree_vm_value_make_i32 c)) (ValueType IREE_VM_VALUE_TYPE_I32) \<and>
   variant_has_type (iree_vm_make_variant_value (iree_vm_value_make_i64 d)) (ValueType IREE_VM_VALUE_TYPE_I64) \<and>
   variant_has_type (iree_vm_make_variant_value (iree_vm_value_make_f32 c)) (ValueType IREE_VM_VALUE_TYPE_F32) \<and>
   variant_has_type (iree_vm_make_variant_value (iree_vm_value_make_f64 d)) (ValueType IREE_VM_VALUE_TYPE_F64) \<and>
   variant_has_type (iree_vm_make_variant_ref_assign iree_vm_ref_null) UndefinedType \<and>
   (iree_vm_ref_type_descriptor (ref_type r) \<noteq> nullptr \<longrightarrow>
      variant_has_type (iree_vm_make_variant_ref_assign r) (RefType (iree_vm_ref_type_descriptor (ref_type r)))) \<and>
   (variant_has_type v T \<longrightarrow>
      (\<forall>T'. variant_has_type v T' \<longrightarrow> T = T') \<and>
      (iree_vm_variant_is_empty v \<longleftrightarrow> T = UndefinedType) \<and>
      (iree_vm_variant_is_value v \<longleftrightarrow> (\<exists>t. T = ValueType t)) \<and>
      (iree_vm_variant_is_ref v \<longleftrightarrow> (\<exists>d. T = RefType d)) \<and>
      iree_vm_variant_reset (\<lambda>r rs. Inr (iree_vm_ref_null, rs @ [r])) (Some v) released =
        Inr (Some iree_vm_variant_empty,
             released @ (case T of RefType _ \<Rightarrow> [projr (variant_ref v)] | _ \<Rightarrow> [])))"
proof (intro conjI impI)
  note mk = made_values_initialised [of _ a b c d]
  have w: "variant_has_type (iree_vm_make_variant_value val) (ValueType (value_type val))"
    if "val \<in> {iree_vm_value_make_i8 a, iree_vm_value_make_i16 b, iree_vm_value_make_i32 c,
     iree_vm_value_make_i64 d, iree_vm_value_make_f32 c, iree_vm_value_make_f64 d}" for val
    using mk [OF that] by (intro make_value_has_type) simp_all
  show "variant_has_type (iree_vm_make_variant_value (iree_vm_value_make_i8 a)) (ValueType IREE_VM_VALUE_TYPE_I8)"
    "variant_has_type (iree_vm_make_variant_value (iree_vm_value_make_i16 b)) (ValueType IREE_VM_VALUE_TYPE_I16)"
    "variant_has_type (iree_vm_make_variant_value (iree_vm_value_make_i32 c)) (ValueType IREE_VM_VALUE_TYPE_I32)"
    "variant_has_type (iree_vm_make_variant_value (iree_vm_value_make_i64 d)) (ValueType IREE_VM_VALUE_TYPE_I64)"
    "variant_has_type (iree_vm_make_variant_value (iree_vm_value_make_f32 c)) (ValueType IREE_VM_VALUE_TYPE_F32)"
    "variant_has_type (iree_vm_make_variant_value (iree_vm_value_make_f64 d)) (ValueType IREE_VM_VALUE_TYPE_F64)"
    using w [of "iree_vm_value_make_i8 a"] w [of "iree_vm_value_make_i16 b"] w [of "iree_vm_value_make_i32 c"]
      w [of "iree_vm_value_make_i64 d"] w [of "iree_vm_value_make_f32 c"] w [of "iree_vm_value_make_f64 d"]
    by (simp_all add: value_makers)
next
  assume t: "variant_has_type v T"
  then show "iree_vm_variant_is_empty v \<longleftrightarrow> T = UndefinedType"
    "iree_vm_variant_is_value v \<longleftrightarrow> (\<exists>t. T = ValueType t)"
    "iree_vm_variant_is_ref v \<longleftrightarrow> (\<exists>d. T = RefType d)"
    by (rule variant_kinds)+
  show "\<forall>T'. variant_has_type v T' \<longrightarrow> T = T'" by (intro allI impI) (rule variant_type_unique [OF t])
  show "iree_vm_variant_reset (\<lambda>r rs. Inr (iree_vm_ref_null, rs @ [r])) (Some v) released =
      Inr (Some iree_vm_variant_empty,
           released @ (case T of RefType _ \<Rightarrow> [projr (variant_ref v)] | _ \<Rightarrow> []))"
    using t by (cases rule: variant_has_type.cases) (simp_all add: reset_spec [OF t] bind_sm_def)
qed (simp_all add: empty_has_type make_null_ref_has_type make_ref_has_type)

theorem variants_are_typed_witness:
  "variant_has_type (iree_vm_make_variant_ref_assign \<lparr>ref_target = 0x100, ref_type = 0x41\<rparr>) (RefType 0x40) \<and>
   iree_vm_variant_is_ref (iree_vm_make_variant_ref_assign \<lparr>ref_target = 0x100, ref_type = 0x41\<rparr>) \<and>
   iree_vm_variant_reset (\<lambda>r rs. Inr (iree_vm_ref_null, rs @ [r]))
     (Some (iree_vm_make_variant_ref_assign \<lparr>ref_target = 0x100, ref_type = 0x41\<rparr>)) [] =
   Inr (Some iree_vm_variant_empty, [\<lparr>ref_target = 0x100, ref_type = 0x41\<rparr>])"
proof -
  let ?r = "\<lparr>ref_target = 0x100, ref_type = 0x41\<rparr>"
  let ?v = "iree_vm_make_variant_ref_assign ?r"
  have d: "iree_vm_ref_type_descriptor (ref_type ?r) = 0x40"
    by (simp add: iree_vm_ref_type_descriptor_def ref_type_consts)
  then have t: "variant_has_type ?v (RefType 0x40)" using make_ref_has_type [of ?r] by simp
  have "projr (variant_ref ?v) = ?r"
    by (simp only: variant_ref_of_make sum.sel)
  moreover note variants_are_typed [of 0 0 0 0 ?r ?v "RefType 0x40" "[]", THEN conjunct2, THEN conjunct2,
      THEN conjunct2, THEN conjunct2, THEN conjunct2, THEN conjunct2, THEN conjunct2, THEN conjunct2,
      THEN conjunct2, THEN mp, OF t, THEN conjunct2]
  ultimately show ?thesis using t by simp
qed

text \<open>
  What is stored is read back: a value of the four types with an accessor, any value that goes
  through a variant, indeterminate bytes included, and any reference. A type definition keeps the
  descriptor of a reference type and drops the counter offset in its low bits, so the type of a
  reference is recovered exactly when its counter is at offset 0. Reading a value with an accessor of
  a wider type reads bytes that were never written.
\<close>

theorem vm_value_round_trips:
  assumes "value_type val \<le> IREE_VM_VALUE_TYPE_MAX" "length (value_storage val) = IREE_VM_VALUE_STORAGE_SIZE"
  shows "iree_vm_value_get_i32 (iree_vm_value_make_i32 a) = Inr a \<and>
    iree_vm_value_get_i64 (iree_vm_value_make_i64 b) = Inr b \<and>
    iree_vm_value_get_f32 (iree_vm_value_make_f32 a) = Inr a \<and>
    iree_vm_value_get_f64 (iree_vm_value_make_f64 b) = Inr b \<and>
    iree_vm_value_get_i64 (iree_vm_value_make_i32 a) = Inl UninitRead \<and>
    iree_vm_variant_value (iree_vm_make_variant_value val) = val \<and>
    variant_ref (iree_vm_make_variant_ref_assign r) = Inr r \<and>
    iree_vm_type_def_as_ref (iree_vm_make_ref_type_def t) = iree_vm_ref_type_descriptor t \<and>
    (iree_vm_type_def_as_ref (iree_vm_make_ref_type_def t) = t \<longleftrightarrow> t AND IREE_VM_REF_TYPE_TAG_BIT_MASK = 0) \<and>
    iree_vm_type_def_as_value (iree_vm_make_value_type_def (value_type val)) = value_type val"
proof (intro conjI)
  have "value_type val \<le> 6" using assms(1) by (simp add: value_types)
  then have t: "value_type val < 8" by (simp add: word_le_nat_alt word_less_nat_alt)
  then show tv: "iree_vm_type_def_as_value (iree_vm_make_value_type_def (value_type val)) = value_type val" by simp
  then show "iree_vm_variant_value (iree_vm_make_variant_value val) = val"
    using assms(2)
    by (simp add: iree_vm_variant_value_def iree_vm_make_variant_value_def Let_def iree_vm_type_def_as_value_def
        iree_vm_make_value_type_def_def)
  show "variant_ref (iree_vm_make_variant_ref_assign r) = Inr r"
    by (rule variant_ref_of_make)
  have m: "(7 :: u64) = mask 3" by (simp add: mask_eq_exp_minus_1)
  have "t AND NOT 7 = t \<longleftrightarrow> t AND 7 = 0"
    unfolding m bit_eq_iff by (auto simp: bit_simps)
  then show "iree_vm_type_def_as_ref (iree_vm_make_ref_type_def t) = t \<longleftrightarrow> t AND IREE_VM_REF_TYPE_TAG_BIT_MASK = 0"
    unfolding type_def_as_ref_of_make iree_vm_ref_type_descriptor_def ref_type_consts .
qed (simp_all only: value_get_make value_get_too_wide type_def_as_ref_of_make)

theorem vm_value_round_trips_witness:
  "iree_vm_variant_value (iree_vm_make_variant_value (iree_vm_value_make_i16 513)) = iree_vm_value_make_i16 513 \<and>
   iree_vm_type_def_as_ref (iree_vm_make_ref_type_def 0x41) = 0x40"
  using vm_value_round_trips [of "iree_vm_value_make_i16 513" _ _ undefined "0x41"]
  by (simp add: value_makers value_types write_storage_def iree_vm_ref_type_descriptor_def ref_type_consts)

end
