(* ===== verification/Vm_Packing.thy ===== *)
theory Vm_Packing
  imports Vm_Value
begin

text \<open>
  \<open>iree/vm/native_module_packing.h\<close>: how a native module written in C++ declares its functions to the
  virtual machine, unpacks their arguments from a packed buffer and packs their results into
  another. The templates over the C++ type of a parameter become functions over a datatype of types.
  Pointers into a buffer are 64-bit offsets from its start and wrap around as addresses do; an access
  outside the buffer is \<open>OutOfBounds\<close>, and alignment is not modelled (the buffers are packed without
  padding). The functions of the runtime library that retain, release and assign references are not part
  of the repository: they are the fields of \<open>vm_library\<close>. Destructors of null references, which call
  them with null pointers, are left out.
\<close>

section \<open>Types and values\<close>

text \<open>
  The types with a calling convention. \<open>TRef d\<close> is \<open>ref<T>\<close> (with or without \<open>const\<close>) for the \<open>T\<close>
  registered as \<open>d\<close>, \<open>TString\<close> both kinds of string views, and \<open>TArray t n\<close> an array of
  \<open>n + 1\<close> elements: the templates cannot be instantiated for an empty one.
\<close>

datatype cpp_type =
    TI32 | TU32 | TI64 | TU64 | TF32 | TF64
  | TOpaqueRef
  | TRef iree_vm_ref_type_t
  | TString
  | TArray cpp_type nat
  | TTuple "cpp_type list"
  | TSpan cpp_type

text \<open>
  Their values. \<open>VString\<close> has the address and the size of the text and \<open>VSpan\<close> the offset in the
  argument buffer and the number of elements; floats are bit patterns.
\<close>

datatype cpp_value =
    VI32 u32 | VU32 u32 | VI64 u64 | VU64 u64 | VF32 u32 | VF64 u64
  | VOpaqueRef iree_vm_ref_t
  | VRef iree_vm_ref_t
  | VString ptr u64
  | VSpan u64 u64
  | VSeq "cpp_value list"

definition is_primitive :: "cpp_type \<Rightarrow> bool" where
  "is_primitive t \<longleftrightarrow> t \<in> {TI32, TU32, TI64, TU64, TF32, TF64}"

text \<open>\<open>sizeof\<close> of a primitive type.\<close>

definition primitive_size :: "cpp_type \<Rightarrow> nat" where
  "primitive_size t = (if t \<in> {TI64, TU64, TF64} then 8 else 4)"

section \<open>Calling conventions\<close>

text \<open>\<open>splat_impl<C, T>\<close> with \<open>C = c + 1\<close>.\<close>

fun splat_impl :: "nat \<Rightarrow> string \<Rightarrow> string" where
  "splat_impl 0 v = v"
| "splat_impl (Suc c) v = v @ splat_impl c v"

fun concat_literals :: "string list \<Rightarrow> string" where
  "concat_literals [] = ''''"
| "concat_literals [lhs] = lhs"
| "concat_literals (lhs # s) = lhs @ concat_literals s"

fun cconv_map :: "cpp_type \<Rightarrow> string" where
  "cconv_map TI32 = ''i''"
| "cconv_map TU32 = ''i''"
| "cconv_map TI64 = ''I''"
| "cconv_map TU64 = ''I''"
| "cconv_map TF32 = ''f''"
| "cconv_map TF64 = ''F''"
| "cconv_map TOpaqueRef = ''r''"
| "cconv_map (TRef d) = ''r''"
| "cconv_map TString = ''r''"
| "cconv_map (TArray t n) = splat_impl n (cconv_map t)"
| "cconv_map (TTuple ts) = concat_literals (map cconv_map ts)"
| "cconv_map (TSpan t) = concat_literals [''C'', cconv_map t, ''D'']"

definition cconv_storage :: "cpp_type list \<Rightarrow> cpp_type \<Rightarrow> string" where
  "cconv_storage params result =
     (if params = [] then concat_literals [''0v_'', concat_literals [cconv_map result]]
      else concat_literals [''0'', concat_literals (map cconv_map params), ''_'',
             concat_literals [cconv_map result]])"

definition cconv_storage_void :: "cpp_type list \<Rightarrow> string" where
  "cconv_storage_void params =
     (if params = [] then concat_literals [''0v_v'']
      else concat_literals [''0'', concat_literals (map cconv_map params), ''_v''])"

record native_function =
  nf_name :: string
  nf_cconv :: string

definition MakeNativeFunction :: "string \<Rightarrow> cpp_type list \<Rightarrow> cpp_type option \<Rightarrow> native_function" where
  "MakeNativeFunction name params result =
     \<lparr>nf_name = name,
      nf_cconv = (case result of None \<Rightarrow> cconv_storage_void params | Some r \<Rightarrow> cconv_storage params r)\<rparr>"

section \<open>The runtime library\<close>

text \<open>
  An output reference is an argument with its old value and a result with its new one.
  \<open>buffer_type\<close> is the type registered for \<open>iree_vm_buffer_t\<close>, and \<open>buffer_span\<close> reads the byte span in
  such an object.
\<close>

record 'h vm_library =
  object_retain :: "ptr \<Rightarrow> iree_vm_ref_type_t \<Rightarrow> ('h, unit) sm"
  object_release :: "ptr \<Rightarrow> iree_vm_ref_type_t \<Rightarrow> ('h, unit) sm"
  lib_ref_retain :: "iree_vm_ref_t \<Rightarrow> iree_vm_ref_t \<Rightarrow> ('h, iree_vm_ref_t) sm"
  lib_ref_release :: "iree_vm_ref_t \<Rightarrow> ('h, iree_vm_ref_t) sm"
  lib_ref_move :: "iree_vm_ref_t \<Rightarrow> iree_vm_ref_t \<Rightarrow> ('h, iree_vm_ref_t \<times> iree_vm_ref_t) sm"
  lib_wrap_assign :: "ptr \<Rightarrow> iree_vm_ref_type_t \<Rightarrow> iree_vm_ref_t \<Rightarrow> ('h, iree_status_code_t \<times> iree_vm_ref_t) sm"
  buffer_type :: iree_vm_ref_type_t
  buffer_span :: "ptr \<Rightarrow> ('h, ptr \<times> u64) sm"

section \<open>Unpacking of parameters\<close>

record 'h unpacker =
  up_status :: iree_status_code_t
  up_ptr :: u64
  up_data :: "u8 list"
  up_heap :: 'h

definition up_lib :: "('h, 'a) sm \<Rightarrow> ('h unpacker, 'a) sm" where
  "up_lib m s = (case m (up_heap s) of Inl e \<Rightarrow> Inl e | Inr (x, h) \<Rightarrow> Inr (x, s\<lparr>up_heap := h\<rparr>))"

definition read_ptr :: "nat \<Rightarrow> ('h unpacker, u8 list) sm" where
  "read_ptr n s = lift_sm (read_bytes (up_data s) (unat (up_ptr s)) n) s"

definition advance_ptr :: "u64 \<Rightarrow> ('h unpacker, unit) sm" where
  "advance_ptr n = modify_sm (\<lambda>s. s\<lparr>up_ptr := up_ptr s + n\<rparr>)"

text \<open>\<open>*reinterpret_cast<const T*>(ptr)\<close>, and the register at \<open>ptr\<close>.\<close>

definition read_word :: "nat \<Rightarrow> ('h unpacker, 'w::len word) sm" where
  "read_word n = bind_sm (read_ptr n) (\<lambda>bs. ret_sm (of_le bs))"

definition read_register :: "('h unpacker, iree_vm_ref_t) sm" where
  "read_register =
     bind_sm (read_ptr 16) (\<lambda>bs.
     ret_sm \<lparr>ref_target = of_le (take 8 bs), ref_type = of_le (drop 8 bs)\<rparr>)"

text \<open>\<open>memset(reg_ptr, 0, sizeof(*reg_ptr))\<close>\<close>

definition clear_register :: "u64 \<Rightarrow> ('h unpacker, unit) sm" where
  "clear_register p s =
     (case write_bytes (up_data s) (unat p) (replicate 16 0) of
        Inl e \<Rightarrow> Inl e | Inr d \<Rightarrow> Inr ((), s\<lparr>up_data := d\<rparr>))"

definition set_status :: "iree_status_code_t \<Rightarrow> ('h unpacker, unit) sm" where
  "set_status c = modify_sm (\<lambda>s. s\<lparr>up_status := c\<rparr>)"

definition load_primitive :: "nat \<Rightarrow> ('w::len word \<Rightarrow> cpp_value) \<Rightarrow> ('h unpacker, cpp_value) sm" where
  "load_primitive n c = bind_sm (read_word n) (\<lambda>w. bind_sm (advance_ptr (of_nat n)) (\<lambda>_. ret_sm (c w)))"

text \<open>Running the loads of a sequence from left to right.\<close>

fun seq_sm :: "('s, 'a) sm list \<Rightarrow> ('s, 'a list) sm" where
  "seq_sm [] = ret_sm []"
| "seq_sm (m # ms) = bind_sm m (\<lambda>x. bind_sm (seq_sm ms) (\<lambda>xs. ret_sm (x # xs)))"

text \<open>\<open>ref<T>(T* p)\<close>\<close>

definition make_typed_ref :: "iree_vm_ref_type_t \<Rightarrow> ptr \<Rightarrow> iree_vm_ref_t" where
  "make_typed_ref d p = (if p = nullptr then iree_vm_ref_null else \<lparr>ref_target = p, ref_type = d\<rparr>)"

definition load_opaque_ref :: "'h vm_library \<Rightarrow> ('h unpacker, cpp_value) sm" where
  "load_opaque_ref lib =
     bind_sm read_register (\<lambda>r.
     bind_sm (up_lib (lib_ref_retain lib r iree_vm_ref_null)) (\<lambda>out_param.
     bind_sm (advance_ptr 16) (\<lambda>_.
     ret_sm (VOpaqueRef out_param))))"

definition load_typed_ref :: "'h vm_library \<Rightarrow> iree_vm_ref_type_t \<Rightarrow> ('h unpacker, cpp_value) sm" where
  "load_typed_ref lib d =
     bind_sm (gets_sm up_ptr) (\<lambda>reg_ptr.
     bind_sm read_register (\<lambda>r.
     bind_sm (advance_ptr 16) (\<lambda>_.
     if ref_type r = d
     then bind_sm (up_lib (object_retain lib (ref_target r) d)) (\<lambda>_.
          bind_sm (clear_register reg_ptr) (\<lambda>_.
          ret_sm (VRef (make_typed_ref d (ref_target r)))))
     else if ref_type r \<noteq> IREE_VM_REF_TYPE_NULL
     then bind_sm (set_status IREE_STATUS_INVALID_ARGUMENT) (\<lambda>_. ret_sm (VRef iree_vm_ref_null))
     else ret_sm (VRef iree_vm_ref_null))))"

definition load_string :: "'h vm_library \<Rightarrow> ('h unpacker, cpp_value) sm" where
  "load_string lib =
     bind_sm read_register (\<lambda>r.
     bind_sm (advance_ptr 16) (\<lambda>_.
     if ref_type r = buffer_type lib
     then bind_sm (up_lib (buffer_span lib (ref_target r))) (\<lambda>(d, n). ret_sm (VString d n))
     else if ref_type r \<noteq> IREE_VM_REF_TYPE_NULL
     then bind_sm (set_status IREE_STATUS_INVALID_ARGUMENT) (\<lambda>_. ret_sm (VString nullptr 0))
     else ret_sm (VString nullptr 0)))"

text \<open>The number of elements is read as an \<open>int32_t\<close> and converted to \<open>iree_host_size_t\<close>.\<close>

definition load_count :: "('h unpacker, u64) sm" where
  "load_count =
     bind_sm (read_word 4 :: ('h unpacker, u32) sm) (\<lambda>c. bind_sm (advance_ptr 4) (\<lambda>_. ret_sm (scast c)))"

fun ParamUnpack_Load :: "'h vm_library \<Rightarrow> cpp_type \<Rightarrow> ('h unpacker, cpp_value) sm" where
  "ParamUnpack_Load lib TI32 = load_primitive 4 VI32"
| "ParamUnpack_Load lib TU32 = load_primitive 4 VU32"
| "ParamUnpack_Load lib TI64 = load_primitive 8 VI64"
| "ParamUnpack_Load lib TU64 = load_primitive 8 VU64"
| "ParamUnpack_Load lib TF32 = load_primitive 4 VF32"
| "ParamUnpack_Load lib TF64 = load_primitive 8 VF64"
| "ParamUnpack_Load lib TOpaqueRef = load_opaque_ref lib"
| "ParamUnpack_Load lib (TRef d) = load_typed_ref lib d"
| "ParamUnpack_Load lib TString = load_string lib"
| "ParamUnpack_Load lib (TArray t n) =
     bind_sm (seq_sm (replicate (Suc n) (ParamUnpack_Load lib t))) (\<lambda>vs. ret_sm (VSeq vs))"
| "ParamUnpack_Load lib (TTuple ts) =
     bind_sm (seq_sm (map (ParamUnpack_Load lib) ts)) (\<lambda>vs. ret_sm (VSeq vs))"
| "ParamUnpack_Load lib (TSpan t) =
     bind_sm load_count (\<lambda>count.
     if is_primitive t
     then bind_sm (gets_sm up_ptr) (\<lambda>p.
          bind_sm (advance_ptr (of_nat (primitive_size t) * count)) (\<lambda>_.
          ret_sm (VSpan p count)))
     else if sint count < 0 then fail_sm (Thrown ''length_error'')
     else bind_sm (seq_sm (replicate (unat count) (ParamUnpack_Load lib t))) (\<lambda>vs. ret_sm (VSeq vs)))"

text \<open>The destructors of the storage of the parameters.\<close>

fun destroy_value :: "'h vm_library \<Rightarrow> cpp_value \<Rightarrow> ('h, unit) sm" where
  "destroy_value lib (VRef r) =
     (if ref_target r = nullptr then ret_sm () else object_release lib (ref_target r) (ref_type r))"
| "destroy_value lib (VOpaqueRef r) =
     (if r = iree_vm_ref_null then ret_sm () else bind_sm (lib_ref_release lib r) (\<lambda>_. ret_sm ()))"
| "destroy_value lib (VSeq vs) = bind_sm (seq_sm (map (destroy_value lib) vs)) (\<lambda>_. ret_sm ())"
| "destroy_value lib _ = ret_sm ()"

text \<open>The outcome is a status or the parameters, with the argument buffer and the heap afterwards.\<close>

definition Unpacker_LoadSequence ::
  "'h vm_library \<Rightarrow> cpp_type list \<Rightarrow> u8 list \<Rightarrow> 'h \<Rightarrow>
   ((iree_status_code_t + cpp_value list) \<times> u8 list \<times> 'h) res" where
  "Unpacker_LoadSequence lib ts storage h =
     bind_res (seq_sm (map (ParamUnpack_Load lib) ts)
                \<lparr>up_status = IREE_STATUS_OK, up_ptr = 0, up_data = storage, up_heap = h\<rparr>) (\<lambda>(params, s).
     if up_status s \<noteq> IREE_STATUS_OK
     then bind_res (destroy_value lib (VSeq params) (up_heap s)) (\<lambda>(_, h').
          Inr (Inl (up_status s), up_data s, h'))
     else if up_ptr s \<noteq> of_nat (length storage)
     then bind_res (destroy_value lib (VSeq params) (up_heap s)) (\<lambda>(_, h').
          Inr (Inl IREE_STATUS_INVALID_ARGUMENT, up_data s, h'))
     else Inr (Inr params, up_data s, up_heap s))"

section \<open>Packing of results\<close>

record 'h packer =
  pk_ptr :: u64
  pk_data :: "u8 list"
  pk_heap :: 'h

definition pk_lib :: "('h, 'a) sm \<Rightarrow> ('h packer, 'a) sm" where
  "pk_lib m s = (case m (pk_heap s) of Inl e \<Rightarrow> Inl e | Inr (x, h) \<Rightarrow> Inr (x, s\<lparr>pk_heap := h\<rparr>))"

definition store_bytes :: "u8 list \<Rightarrow> ('h packer, unit) sm" where
  "store_bytes bs s =
     (case write_bytes (pk_data s) (unat (pk_ptr s)) bs of
        Inl e \<Rightarrow> Inl e
      | Inr d \<Rightarrow> Inr ((), s\<lparr>pk_data := d, pk_ptr := pk_ptr s + of_nat (length bs)\<rparr>))"

definition old_register :: "('h packer, iree_vm_ref_t) sm" where
  "old_register s =
     lift_sm (bind_res (read_bytes (pk_data s) (unat (pk_ptr s)) 16) (\<lambda>bs.
       Inr \<lparr>ref_target = of_le (take 8 bs), ref_type = of_le (drop 8 bs)\<rparr>)) s"

text \<open>A value of another type than its template argument: the C++ type system excludes it.\<close>

definition ill_typed :: "('s, 'a) sm" where
  "ill_typed = fail_sm (Thrown ''ill typed'')"

text \<open>Element by element; the numbers of elements agree.\<close>

fun seq_apply :: "('v \<Rightarrow> ('s, unit) sm) list \<Rightarrow> 'v list \<Rightarrow> ('s, unit) sm" where
  "seq_apply [] [] = ret_sm ()"
| "seq_apply (f # fs) (v # vs) = bind_sm (f v) (\<lambda>_. seq_apply fs vs)"
| "seq_apply _ _ = ill_typed"

fun ResultPack_Store :: "'h vm_library \<Rightarrow> cpp_type \<Rightarrow> cpp_value \<Rightarrow> ('h packer, unit) sm" where
  "ResultPack_Store lib TI32 = (\<lambda>v. case v of VI32 w \<Rightarrow> store_bytes (le_bytes 4 w) | _ \<Rightarrow> ill_typed)"
| "ResultPack_Store lib TU32 = (\<lambda>v. case v of VU32 w \<Rightarrow> store_bytes (le_bytes 4 w) | _ \<Rightarrow> ill_typed)"
| "ResultPack_Store lib TI64 = (\<lambda>v. case v of VI64 w \<Rightarrow> store_bytes (le_bytes 8 w) | _ \<Rightarrow> ill_typed)"
| "ResultPack_Store lib TU64 = (\<lambda>v. case v of VU64 w \<Rightarrow> store_bytes (le_bytes 8 w) | _ \<Rightarrow> ill_typed)"
| "ResultPack_Store lib TF32 = (\<lambda>v. case v of VF32 w \<Rightarrow> store_bytes (le_bytes 4 w) | _ \<Rightarrow> ill_typed)"
| "ResultPack_Store lib TF64 = (\<lambda>v. case v of VF64 w \<Rightarrow> store_bytes (le_bytes 8 w) | _ \<Rightarrow> ill_typed)"
| "ResultPack_Store lib TOpaqueRef = (\<lambda>v. case v of
     VOpaqueRef r \<Rightarrow>
       bind_sm old_register (\<lambda>out.
       bind_sm (pk_lib (lib_ref_move lib r out)) (\<lambda>(_, out). store_bytes (ref_bytes out)))
   | _ \<Rightarrow> ill_typed)"
| "ResultPack_Store lib (TRef d) = (\<lambda>v. case v of
     VRef r \<Rightarrow>
       bind_sm old_register (\<lambda>out.
       bind_sm (pk_lib (lib_wrap_assign lib (ref_target r) (ref_type r) out)) (\<lambda>(_, out).
       store_bytes (ref_bytes out)))
   | _ \<Rightarrow> ill_typed)"
| "ResultPack_Store lib TString = (\<lambda>v. case v of
     VString d n \<Rightarrow> store_bytes (le_bytes 8 d @ le_bytes 8 n) | _ \<Rightarrow> ill_typed)"
| "ResultPack_Store lib (TArray t n) = (\<lambda>v. case v of
     VSeq vs \<Rightarrow> seq_apply (replicate (Suc n) (ResultPack_Store lib t)) vs | _ \<Rightarrow> ill_typed)"
| "ResultPack_Store lib (TTuple ts) = (\<lambda>v. case v of
     VSeq vs \<Rightarrow> seq_apply (map (ResultPack_Store lib) ts) vs | _ \<Rightarrow> ill_typed)"
| "ResultPack_Store lib (TSpan t) = (\<lambda>v. case v of
     VSpan d n \<Rightarrow> store_bytes (le_bytes 8 d @ le_bytes 8 n) | _ \<Rightarrow> ill_typed)"

section \<open>Calls\<close>

text \<open>
  The method takes over the parameters, their destruction included. The outcome of a call is its
  status, the two buffers and the heap.
\<close>

definition DispatchFunctor_Call ::
  "'h vm_library \<Rightarrow> (cpp_value list \<Rightarrow> ('h, iree_status_code_t + cpp_value) sm) \<Rightarrow> cpp_type list \<Rightarrow> cpp_type \<Rightarrow>
   u8 list \<Rightarrow> u8 list \<Rightarrow> 'h \<Rightarrow> (iree_status_code_t \<times> u8 list \<times> u8 list \<times> 'h) res" where
  "DispatchFunctor_Call lib fn ts result args results h =
     bind_res (Unpacker_LoadSequence lib ts args h) (\<lambda>(params, args, h).
     case params of
       Inl status \<Rightarrow> Inr (status, args, results, h)
     | Inr vs \<Rightarrow>
         bind_res (fn vs h) (\<lambda>(out, h).
         case out of
           Inl status \<Rightarrow> Inr (status, args, results, h)
         | Inr v \<Rightarrow>
             bind_res (ResultPack_Store lib result v \<lparr>pk_ptr = 0, pk_data = results, pk_heap = h\<rparr>)
               (\<lambda>(_, s). Inr (IREE_STATUS_OK, args, pk_data s, pk_heap s))))"

definition DispatchFunctorVoid_Call ::
  "'h vm_library \<Rightarrow> (cpp_value list \<Rightarrow> ('h, iree_status_code_t) sm) \<Rightarrow> cpp_type list \<Rightarrow>
   u8 list \<Rightarrow> 'h \<Rightarrow> (iree_status_code_t \<times> u8 list \<times> 'h) res" where
  "DispatchFunctorVoid_Call lib fn ts args h =
     bind_res (Unpacker_LoadSequence lib ts args h) (\<lambda>(params, args, h).
     case params of
       Inl status \<Rightarrow> Inr (status, args, h)
     | Inr vs \<Rightarrow> bind_res (fn vs h) (\<lambda>(status, h). Inr (status, args, h)))"

section \<open>Packed argument buffers\<close>

text \<open>
  The calls of the library that unpacking makes, with the results they have to give: a retained
  reference is the one given, a buffer object has its byte span.
\<close>

datatype lib_call =
    CallRetain ptr iree_vm_ref_type_t
  | CallRefRetain iree_vm_ref_t
  | CallBufferSpan ptr "ptr \<times> u64"

definition expect_result :: "'a \<Rightarrow> 'a \<Rightarrow> ('h, unit) sm" where
  "expect_result x y = (if x = y then ret_sm () else fail_sm AssertFailed)"

fun run_call :: "'h vm_library \<Rightarrow> lib_call \<Rightarrow> ('h, unit) sm" where
  "run_call lib (CallRetain p d) = object_retain lib p d"
| "run_call lib (CallRefRetain r) = bind_sm (lib_ref_retain lib r iree_vm_ref_null) (expect_result r)"
| "run_call lib (CallBufferSpan p x) = bind_sm (buffer_span lib p) (expect_result x)"

fun run_calls :: "'h vm_library \<Rightarrow> lib_call list \<Rightarrow> ('h, unit) sm" where
  "run_calls lib [] = ret_sm ()"
| "run_calls lib (c # cs) = bind_sm (run_call lib c) (\<lambda>_. run_calls lib cs)"

text \<open>
  \<open>packs B t v bs bs' cs\<close>: the caller passes the value \<open>v\<close> for a parameter of type \<open>t\<close> as the bytes
  \<open>bs\<close>; unpacking it leaves the bytes \<open>bs'\<close> in their place and makes the calls \<open>cs\<close>. \<open>B\<close> is the
  type of buffer objects. \<open>packs_all\<close> is the same for a sequence.
\<close>

inductive packs :: "iree_vm_ref_type_t \<Rightarrow> cpp_type \<Rightarrow> cpp_value \<Rightarrow> u8 list \<Rightarrow> u8 list \<Rightarrow> lib_call list \<Rightarrow> bool"
  and packs_all :: "iree_vm_ref_type_t \<Rightarrow> cpp_type list \<Rightarrow> cpp_value list \<Rightarrow> u8 list \<Rightarrow> u8 list \<Rightarrow> lib_call list \<Rightarrow> bool"
  for B where
  packs_i32: "packs B TI32 (VI32 x) (le_bytes 4 x) (le_bytes 4 x) []"
| packs_u32: "packs B TU32 (VU32 x) (le_bytes 4 x) (le_bytes 4 x) []"
| packs_i64: "packs B TI64 (VI64 y) (le_bytes 8 y) (le_bytes 8 y) []"
| packs_u64: "packs B TU64 (VU64 y) (le_bytes 8 y) (le_bytes 8 y) []"
| packs_f32: "packs B TF32 (VF32 x) (le_bytes 4 x) (le_bytes 4 x) []"
| packs_f64: "packs B TF64 (VF64 y) (le_bytes 8 y) (le_bytes 8 y) []"
| packs_opaque: "packs B TOpaqueRef (VOpaqueRef r) (ref_bytes r) (ref_bytes r) [CallRefRetain r]"
| packs_ref: "ref_type r = d \<Longrightarrow> ref_target r \<noteq> nullptr \<Longrightarrow>
    packs B (TRef d) (VRef r) (ref_bytes r) (replicate 16 0) [CallRetain (ref_target r) d]"
| packs_null_ref: "d \<noteq> IREE_VM_REF_TYPE_NULL \<Longrightarrow>
    packs B (TRef d) (VRef iree_vm_ref_null) (ref_bytes iree_vm_ref_null) (ref_bytes iree_vm_ref_null) []"
| packs_string: "ref_type r = B \<Longrightarrow>
    packs B TString (VString x n) (ref_bytes r) (ref_bytes r) [CallBufferSpan (ref_target r) (x, n)]"
| packs_null_string: "B \<noteq> IREE_VM_REF_TYPE_NULL \<Longrightarrow>
    packs B TString (VString nullptr 0) (ref_bytes iree_vm_ref_null) (ref_bytes iree_vm_ref_null) []"
| packs_array: "packs_all B (replicate (Suc n) t) vs bs bs' cs \<Longrightarrow> packs B (TArray t n) (VSeq vs) bs bs' cs"
| packs_tuple: "packs_all B ts vs bs bs' cs \<Longrightarrow> packs B (TTuple ts) (VSeq vs) bs bs' cs"
| packs_span: "packs_all B (replicate n t) vs bs bs' cs \<Longrightarrow> n < 2 ^ 31 \<Longrightarrow>
    packs B (TSpan t) (VSeq vs) (le_bytes 4 (of_nat n :: u32) @ bs) (le_bytes 4 (of_nat n :: u32) @ bs') cs"
| packs_nil: "packs_all B [] [] [] [] []"
| packs_cons: "packs B t v bs bs' cs \<Longrightarrow> packs_all B ts vs bss bss' css \<Longrightarrow>
    packs_all B (t # ts) (v # vs) (bs @ bss) (bs' @ bss') (cs @ css)"

inductive_cases packs_allE: "packs_all B (t # ts) vs bs bs' cs"
inductive_cases packs_all_nilE: "packs_all B [] vs bs bs' cs"
inductive_simps packs_primitive:
  "packs B TI32 v bs bs' cs" "packs B TU32 v bs bs' cs" "packs B TI64 v bs bs' cs"
  "packs B TU64 v bs bs' cs" "packs B TF32 v bs bs' cs" "packs B TF64 v bs bs' cs"

text \<open>What a method sees in a value: the elements a span refers to, in the buffer given.\<close>

definition decode_primitive :: "cpp_type \<Rightarrow> u8 list \<Rightarrow> cpp_value" where
  "decode_primitive t bs =
     (case t of TI32 \<Rightarrow> VI32 (of_le bs) | TU32 \<Rightarrow> VU32 (of_le bs) | TI64 \<Rightarrow> VI64 (of_le bs)
      | TU64 \<Rightarrow> VU64 (of_le bs) | TF32 \<Rightarrow> VF32 (of_le bs) | _ \<Rightarrow> VF64 (of_le bs))"

definition span_elements :: "cpp_type \<Rightarrow> u8 list \<Rightarrow> nat \<Rightarrow> nat \<Rightarrow> cpp_value list" where
  "span_elements t buf p n =
     map (\<lambda>i. decode_primitive t (take (primitive_size t) (drop (p + i * primitive_size t) buf))) [0..<n]"

fun seen_value :: "u8 list \<Rightarrow> cpp_type \<Rightarrow> cpp_value \<Rightarrow> cpp_value" where
  "seen_value buf (TArray t n) = (\<lambda>v. case v of VSeq vs \<Rightarrow> VSeq (map (seen_value buf t) vs) | _ \<Rightarrow> v)"
| "seen_value buf (TTuple ts) = (\<lambda>v. case v of
     VSeq vs \<Rightarrow> VSeq (map (\<lambda>(f, x). f x) (zip (map (seen_value buf) ts) vs)) | _ \<Rightarrow> v)"
| "seen_value buf (TSpan t) = (\<lambda>v. case v of
     VSeq vs \<Rightarrow> VSeq (map (seen_value buf t) vs)
   | VSpan p n \<Rightarrow> VSeq (span_elements t buf (unat p) (unat n))
   | _ \<Rightarrow> v)"
| "seen_value buf _ = (\<lambda>v. v)"

definition seen_values :: "u8 list \<Rightarrow> cpp_type list \<Rightarrow> cpp_value list \<Rightarrow> cpp_value list" where
  "seen_values buf ts vs = map (\<lambda>(t, v). seen_value buf t v) (zip ts vs)"

lemma seen_values_simps [simp]:
  "seen_values buf [] vs = []"
  "seen_values buf (t # ts) (v # vs) = seen_value buf t v # seen_values buf ts vs"
  by (simp_all add: seen_values_def)

lemma seen_values_replicate:
  "length vs = n \<Longrightarrow> seen_values buf (replicate n t) vs = map (seen_value buf t) vs"
  by (induction n arbitrary: vs) (auto simp: length_Suc_conv)

lemma seen_tuple: "seen_value buf (TTuple ts) (VSeq vs) = VSeq (seen_values buf ts vs)"
  by (simp add: seen_values_def zip_map1 o_def split_beta)

section \<open>Unpacking what was packed\<close>

lemma packs_length:
  "packs B t v bs bs' cs \<Longrightarrow> length bs' = length bs"
  "packs_all B ts vs bs bs' cs \<Longrightarrow> length bs' = length bs \<and> length vs = length ts"
  by (induction rule: packs_packs_all.inducts) simp_all

lemma packs_primitive_elements:
  assumes "is_primitive t" "packs_all B (replicate n t) vs bs bs' cs"
  shows "bs' = bs \<and> cs = [] \<and> length bs = n * primitive_size t \<and>
    vs = map (\<lambda>i. decode_primitive t (take (primitive_size t) (drop (i * primitive_size t) bs))) [0..<n]"
  using assms(2)
proof (induction n arbitrary: vs bs bs' cs)
  case 0
  then show ?case by (auto elim: packs_all_nilE)
next
  case (Suc n)
  from Suc.prems obtain v1 b1 c1 c1' vs2 b2 b2' cs2 where p: "packs B t v1 b1 c1 c1'"
    "packs_all B (replicate n t) vs2 b2 b2' cs2"
    "vs = v1 # vs2" "bs = b1 @ b2" "bs' = c1 @ b2'" "cs = c1' @ cs2"
    by (auto elim: packs_allE)
  have one: "c1 = b1 \<and> c1' = [] \<and> length b1 = primitive_size t \<and> v1 = decode_primitive t b1"
    using assms(1) p(1)
    by (auto simp: is_primitive_def packs_primitive primitive_size_def decode_primitive_def of_le_le_bytes)
  note rest = Suc.IH [OF p(2)]
  have "map (\<lambda>i. decode_primitive t (take (primitive_size t) (drop (i * primitive_size t) bs))) [0..<Suc n] =
      decode_primitive t b1 # map (\<lambda>i. decode_primitive t (take (primitive_size t) (drop (i * primitive_size t) b2))) [0..<n]"
    using one by (simp add: upt_rec [of 0 "Suc n"] map_Suc_upt [symmetric] p(4) del: upt_Suc)
  then show ?case using one rest p by simp
qed

text \<open>A state whose pointer is at the bytes given.\<close>

definition at_bytes :: "u8 list \<Rightarrow> u8 list \<Rightarrow> u8 list \<Rightarrow> 'h unpacker \<Rightarrow> bool" where
  "at_bytes pre bs post s \<longleftrightarrow>
     up_data s = pre @ bs @ post \<and> up_ptr s = of_nat (length pre) \<and>
     length pre + length bs + length post < 2 ^ 64"

definition past_bytes :: "u8 list \<Rightarrow> u8 list \<Rightarrow> u8 list \<Rightarrow> 'h \<Rightarrow> 'h unpacker \<Rightarrow> 'h unpacker" where
  "past_bytes pre bs' post h s =
     s\<lparr>up_ptr := of_nat (length pre + length bs'), up_data := pre @ bs' @ post, up_heap := h\<rparr>"

definition loads_to ::
  "'h vm_library \<Rightarrow> cpp_type \<Rightarrow> cpp_value \<Rightarrow> u8 list \<Rightarrow> u8 list \<Rightarrow> lib_call list \<Rightarrow> bool" where
  "loads_to lib t v bs bs' cs \<longleftrightarrow>
     (\<forall>s pre post h. at_bytes pre bs post s \<longrightarrow> run_calls lib cs (up_heap s) = Inr ((), h) \<longrightarrow>
        (\<exists>w. ParamUnpack_Load lib t s = Inr (w, past_bytes pre bs' post h s) \<and>
           (\<forall>pre' post'. length pre' = length pre \<longrightarrow> seen_value (pre' @ bs' @ post') t w = v)))"

definition all_load_to ::
  "'h vm_library \<Rightarrow> cpp_type list \<Rightarrow> cpp_value list \<Rightarrow> u8 list \<Rightarrow> u8 list \<Rightarrow> lib_call list \<Rightarrow> bool" where
  "all_load_to lib ts vs bs bs' cs \<longleftrightarrow>
     (\<forall>s pre post h. at_bytes pre bs post s \<longrightarrow> run_calls lib cs (up_heap s) = Inr ((), h) \<longrightarrow>
        (\<exists>ws. seq_sm (map (ParamUnpack_Load lib) ts) s = Inr (ws, past_bytes pre bs' post h s) \<and>
           length ws = length ts \<and>
           (\<forall>pre' post'. length pre' = length pre \<longrightarrow> seen_values (pre' @ bs' @ post') ts ws = vs)))"

lemma run_calls_append:
  "run_calls lib (cs @ ds) h = bind_res (run_calls lib cs h) (\<lambda>(_, h'). run_calls lib ds h')"
  by (induction cs arbitrary: h) (auto simp: bind_sm_def bind_res_def split: sum.split)

lemma loads_toI:
  assumes "\<And>s pre post h. at_bytes pre bs post s \<Longrightarrow> run_calls lib cs (up_heap s) = Inr ((), h) \<Longrightarrow>
      ParamUnpack_Load lib t s = Inr (w, past_bytes pre bs' post h s)"
    and "\<And>buf. seen_value buf t w = v"
  shows "loads_to lib t v bs bs' cs"
  using assms unfolding loads_to_def by blast

lemma at_bytes_ptr: "at_bytes pre bs post s \<Longrightarrow> unat (up_ptr s) = length pre"
  by (auto simp: at_bytes_def unat_of_nat)

lemma read_ptr_at: "at_bytes pre bs post s \<Longrightarrow> length bs = n \<Longrightarrow> read_ptr n s = Inr (bs, s)"
  using at_bytes_ptr [of pre bs post s] by (auto simp: at_bytes_def read_ptr_def read_bytes_append)

lemma load_primitive_at:
  assumes "at_bytes pre (le_bytes n (w :: 'w::len word)) post s" "LENGTH('w) \<le> 8 * n"
  shows "load_primitive n c s = Inr (c w, past_bytes pre (le_bytes n w) post (up_heap s) s)"
  using read_ptr_at [OF assms(1)] assms
  by (simp add: load_primitive_def read_word_def advance_ptr_def bind_sm_def of_le_le_bytes past_bytes_def at_bytes_def)

lemma read_register_at: "at_bytes pre (ref_bytes r) post s \<Longrightarrow> read_register s = Inr (r, s)"
  using read_ptr_at [of pre "ref_bytes r" post s 16]
  by (simp add: read_register_def bind_sm_def ref_bytes_def of_le_le_bytes)

lemma clear_register_at:
  assumes "up_data s = pre @ bs @ post" "length bs = 16" "length (up_data s) < 2 ^ 64"
  shows "clear_register (of_nat (length pre)) s = Inr ((), s\<lparr>up_data := pre @ replicate 16 0 @ post\<rparr>)"
proof -
  have "unat (of_nat (length pre) :: u64) = length pre" using assms by (simp add: unat_of_nat)
  then show ?thesis using assms by (simp add: clear_register_def write_bytes_def)
qed

text \<open>Past the bytes of a register, with the heap after a call.\<close>

lemma past_register:
  "at_bytes pre bs post s \<Longrightarrow> length bs = 16 \<Longrightarrow>
     s\<lparr>up_heap := h, up_ptr := up_ptr s + 16\<rparr> = past_bytes pre bs post h s \<and>
     s\<lparr>up_ptr := up_ptr s + 16, up_heap := h\<rparr> = past_bytes pre bs post h s"
  by (cases s) (simp add: at_bytes_def past_bytes_def)

lemma primitives_load:
  "loads_to lib TI32 (VI32 x) (le_bytes 4 x) (le_bytes 4 x) []"
  "loads_to lib TU32 (VU32 x) (le_bytes 4 x) (le_bytes 4 x) []"
  "loads_to lib TI64 (VI64 y) (le_bytes 8 y) (le_bytes 8 y) []"
  "loads_to lib TU64 (VU64 y) (le_bytes 8 y) (le_bytes 8 y) []"
  "loads_to lib TF32 (VF32 x) (le_bytes 4 x) (le_bytes 4 x) []"
  "loads_to lib TF64 (VF64 y) (le_bytes 8 y) (le_bytes 8 y) []"
  by (rule loads_toI; simp add: load_primitive_at)+

lemma opaque_loads: "loads_to lib TOpaqueRef (VOpaqueRef r) (ref_bytes r) (ref_bytes r) [CallRefRetain r]"
proof (rule loads_toI)
  fix s :: "'a unpacker" and pre post h
  assume s: "at_bytes pre (ref_bytes r) post s"
    and c: "run_calls lib [CallRefRetain r] (up_heap s) = Inr ((), h)"
  have "lib_ref_retain lib r iree_vm_ref_null (up_heap s) = Inr (r, h)"
    using c by (auto simp: bind_sm_eq_Inr expect_result_def split: if_splits)
  then show "ParamUnpack_Load lib TOpaqueRef s = Inr (VOpaqueRef r, past_bytes pre (ref_bytes r) post h s)"
    using read_register_at [OF s] past_register [OF s, of h]
    by (simp add: load_opaque_ref_def bind_sm_def up_lib_def advance_ptr_def)
qed simp

lemma typed_ref_loads:
  assumes "ref_type r = d" "ref_target r \<noteq> nullptr"
  shows "loads_to lib (TRef d) (VRef r) (ref_bytes r) (replicate 16 0) [CallRetain (ref_target r) d]"
proof (rule loads_toI)
  fix s :: "'a unpacker" and pre post h
  assume s: "at_bytes pre (ref_bytes r) post s"
    and c: "run_calls lib [CallRetain (ref_target r) d] (up_heap s) = Inr ((), h)"
  have h: "object_retain lib (ref_target r) d (up_heap s) = Inr ((), h)"
    using c by (auto simp: bind_sm_eq_Inr)
  have "clear_register (up_ptr s) (s\<lparr>up_ptr := up_ptr s + 16, up_heap := h\<rparr>) =
      Inr ((), past_bytes pre (replicate 16 0) post h s)"
    using s clear_register_at [of "s\<lparr>up_ptr := up_ptr s + 16, up_heap := h\<rparr>" pre "ref_bytes r" post]
    by (cases s) (simp add: at_bytes_def past_bytes_def)
  then show "ParamUnpack_Load lib (TRef d) s = Inr (VRef r, past_bytes pre (replicate 16 0) post h s)"
    using read_register_at [OF s] assms h
    by (simp add: load_typed_ref_def bind_sm_def up_lib_def advance_ptr_def make_typed_ref_def)
qed simp

lemma null_refs_load:
  "d \<noteq> IREE_VM_REF_TYPE_NULL \<Longrightarrow>
     loads_to lib (TRef d) (VRef iree_vm_ref_null) (ref_bytes iree_vm_ref_null) (ref_bytes iree_vm_ref_null) []"
  "buffer_type lib \<noteq> IREE_VM_REF_TYPE_NULL \<Longrightarrow>
     loads_to lib TString (VString nullptr 0) (ref_bytes iree_vm_ref_null) (ref_bytes iree_vm_ref_null) []"
proof -
  have n: "ref_type iree_vm_ref_null = IREE_VM_REF_TYPE_NULL"
    by (simp add: iree_vm_ref_null_def IREE_VM_REF_TYPE_NULL_def)
  have p: "s\<lparr>up_ptr := up_ptr s + 16\<rparr> = past_bytes pre (ref_bytes iree_vm_ref_null) post (up_heap s) s"
    if "at_bytes pre (ref_bytes iree_vm_ref_null) post s" for s :: "'a unpacker" and pre post
    using past_register [OF that, of "up_heap s"] by simp
  show "d \<noteq> IREE_VM_REF_TYPE_NULL \<Longrightarrow>
      loads_to lib (TRef d) (VRef iree_vm_ref_null) (ref_bytes iree_vm_ref_null) (ref_bytes iree_vm_ref_null) []"
    by (rule loads_toI) (simp_all add: read_register_at load_typed_ref_def bind_sm_def advance_ptr_def n p)
  show "buffer_type lib \<noteq> IREE_VM_REF_TYPE_NULL \<Longrightarrow>
      loads_to lib TString (VString nullptr 0) (ref_bytes iree_vm_ref_null) (ref_bytes iree_vm_ref_null) []"
    by (rule loads_toI) (simp_all add: read_register_at load_string_def bind_sm_def advance_ptr_def n p)
qed

lemma strings_load:
  assumes "ref_type r = buffer_type lib"
  shows "loads_to lib TString (VString x n) (ref_bytes r) (ref_bytes r) [CallBufferSpan (ref_target r) (x, n)]"
proof (rule loads_toI)
  fix s :: "'a unpacker" and pre post h
  assume s: "at_bytes pre (ref_bytes r) post s"
    and c: "run_calls lib [CallBufferSpan (ref_target r) (x, n)] (up_heap s) = Inr ((), h)"
  have "buffer_span lib (ref_target r) (up_heap s) = Inr ((x, n), h)"
    using c by (auto simp: bind_sm_eq_Inr expect_result_def split: if_splits)
  then show "ParamUnpack_Load lib TString s = Inr (VString x n, past_bytes pre (ref_bytes r) post h s)"
    using read_register_at [OF s] past_register [OF s, of h] assms
    by (simp add: load_string_def bind_sm_def up_lib_def advance_ptr_def)
qed simp

section \<open>Sequences\<close>

lemma nil_loads: "all_load_to lib [] [] [] [] []"
  by (auto simp: all_load_to_def at_bytes_def past_bytes_def)

lemma cons_loads:
  assumes one: "loads_to lib t v bs bs' cs" and rest: "all_load_to lib ts vs bss bss' css"
    and len: "length bs' = length bs"
  shows "all_load_to lib (t # ts) (v # vs) (bs @ bss) (bs' @ bss') (cs @ css)"
  unfolding all_load_to_def
proof (intro allI impI)
  fix s :: "'a unpacker" and pre post h
  assume s: "at_bytes pre (bs @ bss) post s" and c: "run_calls lib (cs @ css) (up_heap s) = Inr ((), h)"
  from c obtain h1 where h1: "run_calls lib cs (up_heap s) = Inr ((), h1)" "run_calls lib css h1 = Inr ((), h)"
    by (auto simp: run_calls_append bind_res_eq_Inr)
  have "at_bytes pre bs (bss @ post) s" using s by (simp add: at_bytes_def)
  with one h1(1) obtain w where w: "ParamUnpack_Load lib t s = Inr (w, past_bytes pre bs' (bss @ post) h1 s)"
    "\<And>pre' post'. length pre' = length pre \<Longrightarrow> seen_value (pre' @ bs' @ post') t w = v"
    unfolding loads_to_def by blast
  let ?s1 = "past_bytes pre bs' (bss @ post) h1 s"
  have "at_bytes (pre @ bs') bss post ?s1"
    using s len by (simp add: at_bytes_def past_bytes_def)
  moreover have "run_calls lib css (up_heap ?s1) = Inr ((), h)" using h1(2) by (simp add: past_bytes_def)
  ultimately obtain ws where ws:
    "seq_sm (map (ParamUnpack_Load lib) ts) ?s1 = Inr (ws, past_bytes (pre @ bs') bss' post h ?s1)"
    "length ws = length ts"
    "\<And>pre' post'. length pre' = length (pre @ bs') \<Longrightarrow> seen_values (pre' @ bss' @ post') ts ws = vs"
    using rest unfolding all_load_to_def by blast
  have "past_bytes (pre @ bs') bss' post h ?s1 = past_bytes pre (bs' @ bss') post h s"
    by (simp add: past_bytes_def add.assoc)
  then have "seq_sm (map (ParamUnpack_Load lib) (t # ts)) s =
      Inr (w # ws, past_bytes pre (bs' @ bss') post h s)"
    using w(1) ws(1) by (simp add: bind_sm_def)
  moreover have "seen_values (pre' @ (bs' @ bss') @ post') (t # ts) (w # ws) = v # vs"
    if "length pre' = length pre" for pre' post'
    using w(2) [of pre' "bss' @ post'"] ws(3) [of "pre' @ bs'" post'] that by simp
  ultimately show "\<exists>ws. seq_sm (map (ParamUnpack_Load lib) (t # ts)) s =
        Inr (ws, past_bytes pre (bs' @ bss') post h s) \<and> length ws = length (t # ts) \<and>
      (\<forall>pre' post'. length pre' = length pre \<longrightarrow>
        seen_values (pre' @ (bs' @ bss') @ post') (t # ts) ws = v # vs)"
    using ws(2) by (intro exI [of _ "w # ws"]) simp
qed

text \<open>A type whose load is the sequence of the loads of others, collected.\<close>

lemma seq_loads:
  assumes all: "all_load_to lib ts vs bs bs' cs"
    and load: "ParamUnpack_Load lib t = bind_sm (seq_sm (map (ParamUnpack_Load lib) ts)) (\<lambda>vs. ret_sm (VSeq vs))"
    and seen: "\<And>buf ws. length ws = length ts \<Longrightarrow> seen_value buf t (VSeq ws) = VSeq (seen_values buf ts ws)"
  shows "loads_to lib t (VSeq vs) bs bs' cs"
  unfolding loads_to_def
proof (intro allI impI)
  fix s :: "'a unpacker" and pre post h
  assume "at_bytes pre bs post s" "run_calls lib cs (up_heap s) = Inr ((), h)"
  then obtain ws where ws: "seq_sm (map (ParamUnpack_Load lib) ts) s = Inr (ws, past_bytes pre bs' post h s)"
    "length ws = length ts"
    "\<And>pre' post'. length pre' = length pre \<Longrightarrow> seen_values (pre' @ bs' @ post') ts ws = vs"
    using all unfolding all_load_to_def by blast
  then show "\<exists>w. ParamUnpack_Load lib t s = Inr (w, past_bytes pre bs' post h s) \<and>
      (\<forall>pre' post'. length pre' = length pre \<longrightarrow> seen_value (pre' @ bs' @ post') t w = VSeq vs)"
    using seen by (intro exI [of _ "VSeq ws"]) (simp add: load bind_sm_def)
qed

lemma array_loads:
  "all_load_to lib (replicate (Suc n) t) vs bs bs' cs \<Longrightarrow> loads_to lib (TArray t n) (VSeq vs) bs bs' cs"
  by (rule seq_loads, assumption) (simp_all add: seen_values_replicate del: replicate_Suc)

lemma tuple_loads: "all_load_to lib ts vs bs bs' cs \<Longrightarrow> loads_to lib (TTuple ts) (VSeq vs) bs bs' cs"
  by (rule seq_loads, assumption) (simp_all add: seen_tuple del: seen_value.simps(2))

lemma load_count_at:
  assumes "at_bytes pre (le_bytes 4 (of_nat n :: u32)) post s" "n < 2 ^ 31"
  shows "load_count s = Inr (of_nat n, past_bytes pre (le_bytes 4 (of_nat n :: u32)) post (up_heap s) s)"
proof -
  have "sint (of_nat n :: u32) = int n" using assms(2) by (simp add: signed_of_nat signed_take_bit_int_eq_self)
  then have "(scast (of_nat n :: u32) :: u64) = of_nat n" by (simp add: scast_eq)
  then show ?thesis
    using read_ptr_at [OF assms(1)] assms(1)
    by (simp add: load_count_def read_word_def advance_ptr_def bind_sm_def of_le_le_bytes past_bytes_def at_bytes_def)
qed

lemma small_count: "n < 2 ^ 31 \<Longrightarrow> unat (of_nat n :: u64) = n \<and> sint (of_nat n :: u64) = int n"
  by (simp add: unat_of_nat signed_of_nat signed_take_bit_int_eq_self)

lemma primitive_span_loads:
  assumes t: "is_primitive t" and p: "packs_all B (replicate n t) vs bs bs' cs" and n: "n < 2 ^ 31"
  defines "c \<equiv> le_bytes 4 (of_nat n :: u32)"
  shows "loads_to lib (TSpan t) (VSeq vs) (c @ bs) (c @ bs') cs"
proof -
  note e = packs_primitive_elements [OF t p]
  show ?thesis
    unfolding loads_to_def
  proof (intro allI impI)
    fix s :: "'a unpacker" and pre post h
    assume s: "at_bytes pre (c @ bs) post s" and r: "run_calls lib cs (up_heap s) = Inr ((), h)"
    have h: "h = up_heap s" using r e by simp
    have "at_bytes pre c (bs @ post) s" using s by (simp add: at_bytes_def)
    from load_count_at [OF this [unfolded c_def] n]
    have lc: "load_count s = Inr (of_nat n, past_bytes pre c (bs @ post) (up_heap s) s)" by (simp add: c_def)
    have "(of_nat (primitive_size t) * of_nat n :: u64) = of_nat (length bs)"
      using e by (simp add: mult.commute)
    then have "past_bytes pre c (bs @ post) (up_heap s) s
        \<lparr>up_ptr := up_ptr (past_bytes pre c (bs @ post) (up_heap s) s) + of_nat (primitive_size t) * of_nat n\<rparr> =
        past_bytes pre (c @ bs') post h s"
      using e h by (cases s) (simp add: past_bytes_def add.assoc)
    then have w: "ParamUnpack_Load lib (TSpan t) s =
        Inr (VSpan (of_nat (length pre + 4)) (of_nat n), past_bytes pre (c @ bs') post h s)"
      using t by (simp add: bind_sm_Inr [where m = load_count, OF lc] advance_ptr_def)
        (simp add: past_bytes_def c_def)
    have "seen_value (pre' @ (c @ bs') @ post') (TSpan t) (VSpan (of_nat (length pre + 4)) (of_nat n)) = VSeq vs"
      if "length pre' = length pre" for pre' post'
    proof -
      have u: "unat (of_nat (length pre + 4) :: u64) = length pre + 4"
        using s unfolding at_bytes_def c_def by (subst unat_of_nat) simp
      have "take (primitive_size t) (drop (length pre + 4 + i * primitive_size t) (pre' @ (c @ bs') @ post')) =
          take (primitive_size t) (drop (i * primitive_size t) bs)" if "i < n" for i
      proof -
        have "(i + 1) * primitive_size t \<le> length bs" using e that by (metis Suc_eq_plus1 Suc_leI mult_le_mono1)
        then show ?thesis using e \<open>length pre' = length pre\<close> by (simp add: c_def)
      qed
      then show ?thesis using e u small_count [OF n] by (simp add: span_elements_def)
    qed
    then show "\<exists>w. ParamUnpack_Load lib (TSpan t) s = Inr (w, past_bytes pre (c @ bs') post h s) \<and>
        (\<forall>pre' post'. length pre' = length pre \<longrightarrow>
          seen_value (pre' @ (c @ bs') @ post') (TSpan t) w = VSeq vs)"
      using w by blast
  qed
qed

lemma sequence_span_loads:
  assumes t: "\<not> is_primitive t" and p: "all_load_to lib (replicate n t) vs bs bs' cs" and n: "n < 2 ^ 31"
    and len: "length bs' = length bs"
  defines "c \<equiv> le_bytes 4 (of_nat n :: u32)"
  shows "loads_to lib (TSpan t) (VSeq vs) (c @ bs) (c @ bs') cs"
  unfolding loads_to_def
proof (intro allI impI)
  fix s :: "'a unpacker" and pre post h
  assume s: "at_bytes pre (c @ bs) post s" and r: "run_calls lib cs (up_heap s) = Inr ((), h)"
  have "at_bytes pre c (bs @ post) s" using s by (simp add: at_bytes_def)
  from load_count_at [OF this [unfolded c_def] n]
  have lc: "load_count s = Inr (of_nat n, past_bytes pre c (bs @ post) (up_heap s) s)" by (simp add: c_def)
  let ?s1 = "past_bytes pre c (bs @ post) (up_heap s) s"
  have "at_bytes (pre @ c) bs post ?s1" using s by (simp add: at_bytes_def past_bytes_def)
  moreover have "run_calls lib cs (up_heap ?s1) = Inr ((), h)" using r by (simp add: past_bytes_def)
  ultimately obtain ws where ws:
    "seq_sm (map (ParamUnpack_Load lib) (replicate n t)) ?s1 = Inr (ws, past_bytes (pre @ c) bs' post h ?s1)"
    "length ws = n"
    "\<And>pre' post'. length pre' = length (pre @ c) \<Longrightarrow> seen_values (pre' @ bs' @ post') (replicate n t) ws = vs"
    using p unfolding all_load_to_def length_replicate by blast
  have "past_bytes (pre @ c) bs' post h ?s1 = past_bytes pre (c @ bs') post h s"
    by (simp add: past_bytes_def add.assoc)
  then have "ParamUnpack_Load lib (TSpan t) s = Inr (VSeq ws, past_bytes pre (c @ bs') post h s)"
    using t ws(1) small_count [OF n]
    by (simp add: bind_sm_Inr [where m = load_count, OF lc]) (simp add: bind_sm_def)
  moreover have "seen_value (pre' @ (c @ bs') @ post') (TSpan t) (VSeq ws) = VSeq vs"
    if "length pre' = length pre" for pre' post'
    using ws(3) [of "pre' @ c" post'] that seen_values_replicate [OF ws(2)] by simp
  ultimately show "\<exists>w. ParamUnpack_Load lib (TSpan t) s = Inr (w, past_bytes pre (c @ bs') post h s) \<and>
      (\<forall>pre' post'. length pre' = length pre \<longrightarrow>
        seen_value (pre' @ (c @ bs') @ post') (TSpan t) w = VSeq vs)" by blast
qed

lemma packed_loads:
  "packs B t v bs bs' cs \<Longrightarrow> buffer_type lib = B \<Longrightarrow> loads_to lib t v bs bs' cs"
  "packs_all B ts vs bss bss' css \<Longrightarrow> buffer_type lib = B \<Longrightarrow> all_load_to lib ts vs bss bss' css"
proof (induction rule: packs_packs_all.inducts)
  case (packs_span n t vs bs bs' cs)
  have p: "packs_all B (replicate n t) vs bs bs' cs" "n < 2 ^ 31" by fact+
  have "all_load_to lib (replicate n t) vs bs bs' cs" using packs_span by blast
  then show ?case
    using primitive_span_loads [OF _ p] sequence_span_loads [OF _ _ p(2)] packs_length(2) [OF p(1)]
    by (cases "is_primitive t") auto
next
  case (packs_cons t v bs bs' cs ts vs bss bss' css)
  have "packs B t v bs bs' cs" by fact
  then show ?case using packs_cons cons_loads packs_length(1) by blast
qed (auto intro: primitives_load opaque_loads typed_ref_loads null_refs_load strings_load array_loads tuple_loads
    nil_loads)

lemma arguments_load:
  assumes "packs_all (buffer_type lib) ts vs bs bs' cs" "length bs + length post < 2 ^ 64"
    and "run_calls lib cs h = Inr ((), h')"
  shows "\<exists>ws. seq_sm (map (ParamUnpack_Load lib) ts)
        \<lparr>up_status = IREE_STATUS_OK, up_ptr = 0, up_data = bs @ post, up_heap = h\<rparr> =
      Inr (ws, \<lparr>up_status = IREE_STATUS_OK, up_ptr = of_nat (length bs), up_data = bs' @ post, up_heap = h'\<rparr>) \<and>
      length ws = length ts \<and> seen_values (bs' @ post) ts ws = vs"
proof -
  let ?s = "\<lparr>up_status = IREE_STATUS_OK, up_ptr = 0, up_data = bs @ post, up_heap = h\<rparr>"
  have "at_bytes [] bs post ?s" using assms(2) by (simp add: at_bytes_def)
  moreover have "run_calls lib cs (up_heap ?s) = Inr ((), h')" using assms(3) by simp
  ultimately obtain ws where ws: "seq_sm (map (ParamUnpack_Load lib) ts) ?s = Inr (ws, past_bytes [] bs' post h' ?s)"
    "length ws = length ts" "\<forall>pre' post'. length pre' = length ([] :: u8 list) \<longrightarrow> seen_values (pre' @ bs' @ post') ts ws = vs"
    using packed_loads(2) [OF assms(1) refl] unfolding all_load_to_def by blast
  have "seen_values (bs' @ post) ts ws = vs" using ws(3) by force
  then show ?thesis using packs_length(2) [OF assms(1)] ws(1,2)
    by (intro exI [of _ ws]) (simp add: past_bytes_def)
qed

section \<open>Buffers of the wrong size\<close>

text \<open>Types whose packed size does not depend on the value.\<close>

fun span_free :: "cpp_type \<Rightarrow> bool" where
  "span_free (TArray t n) = span_free t"
| "span_free (TTuple ts) = list_all span_free ts"
| "span_free (TSpan t) = False"
| "span_free _ = True"

definition runs_out ::
  "'h vm_library \<Rightarrow> ('h unpacker, 'a) sm \<Rightarrow> u8 list \<Rightarrow> lib_call list \<Rightarrow> bool" where
  "runs_out lib m bs cs \<longleftrightarrow>
     (\<forall>s pre q h. at_bytes pre q [] s \<longrightarrow> length q < length bs \<longrightarrow> q = take (length q) bs \<longrightarrow>
        run_calls lib cs (up_heap s) = Inr ((), h) \<longrightarrow> m s = Inl OutOfBounds)"

lemma read_ptr_short:
  "at_bytes pre q [] s \<Longrightarrow> length q < n \<Longrightarrow> read_ptr n s = Inl OutOfBounds"
  using at_bytes_ptr [of pre q "[]" s] by (simp add: at_bytes_def read_ptr_def read_bytes_def lift_sm_def)

lemma short_primitive:
  "at_bytes pre q [] s \<Longrightarrow> length q < n \<Longrightarrow> load_primitive n c s = Inl OutOfBounds"
  using read_ptr_short [of pre q s n] by (simp add: load_primitive_def read_word_def bind_sm_Inl)

lemma short_register: "at_bytes pre q [] s \<Longrightarrow> length q < 16 \<Longrightarrow> read_register s = Inl OutOfBounds"
  using read_ptr_short [of pre q s 16] by (simp add: read_register_def bind_sm_Inl)

lemma short_leaves:
  "runs_out lib (load_primitive n c) (le_bytes n w) cs"
  "runs_out lib (load_opaque_ref lib) (ref_bytes r) cs"
  "runs_out lib (load_typed_ref lib d) (ref_bytes r) cs"
  "runs_out lib (load_string lib) (ref_bytes r) cs"
  unfolding runs_out_def
  by (auto simp: short_primitive load_opaque_ref_def load_typed_ref_def load_string_def bind_sm_Inl short_register)

lemma short_cons:
  assumes one: "packs (buffer_type lib) t v bs bs' cs" "runs_out lib (ParamUnpack_Load lib t) bs cs"
    and rest: "runs_out lib (seq_sm (map (ParamUnpack_Load lib) ts)) bss css"
  shows "runs_out lib (seq_sm (map (ParamUnpack_Load lib) (t # ts))) (bs @ bss) (cs @ css)"
  unfolding runs_out_def
proof (intro allI impI)
  fix s :: "'a unpacker" and pre q h
  assume s: "at_bytes pre q [] s" and l: "length q < length (bs @ bss)" and q: "q = take (length q) (bs @ bss)"
    and r: "run_calls lib (cs @ css) (up_heap s) = Inr ((), h)"
  from r obtain h1 where h1: "run_calls lib cs (up_heap s) = Inr ((), h1)" "run_calls lib css h1 = Inr ((), h)"
    by (auto simp: run_calls_append bind_res_eq_Inr)
  show "seq_sm (map (ParamUnpack_Load lib) (t # ts)) s = Inl OutOfBounds"
  proof (cases "length q < length bs")
    case True
    then have "q = take (length q) bs" using q by simp
    then show ?thesis using one(2) s h1(1) True unfolding runs_out_def by (simp add: bind_sm_Inl)
  next
    case False
    define q2 where "q2 = take (length q - length bs) bss"
    have q12: "q = bs @ q2" using q False by (simp add: q2_def)
    have s1: "at_bytes pre bs q2 s" using s q12 by (simp add: at_bytes_def)
    then obtain w where w: "ParamUnpack_Load lib t s = Inr (w, past_bytes pre bs' q2 h1 s)"
      using packed_loads(1) [OF one(1) refl] h1(1) unfolding loads_to_def by blast
    have "at_bytes (pre @ bs') q2 [] (past_bytes pre bs' q2 h1 s)"
      using s1 packs_length(1) [OF one(1)] by (simp add: at_bytes_def past_bytes_def)
    moreover have "length q2 < length bss" using l q12 by simp
    moreover have "q2 = take (length q2) bss" unfolding q2_def by (simp add: min_def)
    moreover have "run_calls lib css (up_heap (past_bytes pre bs' q2 h1 s)) = Inr ((), h)"
      using h1(2) by (simp add: past_bytes_def)
    ultimately have "seq_sm (map (ParamUnpack_Load lib) ts) (past_bytes pre bs' q2 h1 s) = Inl OutOfBounds"
      using rest unfolding runs_out_def by blast
    then show ?thesis using w by (simp add: bind_sm_def)
  qed
qed

lemma runs_out_bind: "runs_out lib m bs cs \<Longrightarrow> runs_out lib (bind_sm m f) bs cs"
  by (auto simp: runs_out_def bind_sm_def)

lemma short_runs_out:
  "packs B t v bs bs' cs \<Longrightarrow> buffer_type lib = B \<Longrightarrow> span_free t \<Longrightarrow>
     runs_out lib (ParamUnpack_Load lib t) bs cs"
  "packs_all B ts vs bss bss' css \<Longrightarrow> buffer_type lib = B \<Longrightarrow> list_all span_free ts \<Longrightarrow>
     runs_out lib (seq_sm (map (ParamUnpack_Load lib) ts)) bss css"
proof (induction rule: packs_packs_all.inducts)
  case (packs_array n t vs bs bs' cs)
  have "list_all span_free (replicate (Suc n) t)" using packs_array.prems by (auto simp: list_all_iff)
  then show ?case using packs_array by (auto intro: runs_out_bind simp del: replicate_Suc)
next
  case (packs_tuple ts vs bs bs' cs)
  then show ?case by (auto intro: runs_out_bind)
next
  case packs_nil
  then show ?case by (simp add: runs_out_def)
next
  case (packs_cons t v bs bs' cs ts vs bss bss' css)
  have "packs B t v bs bs' cs" by fact
  then show ?case using packs_cons short_cons by force
qed (simp_all add: short_leaves)

section \<open>Ownership of the parameters\<close>

text \<open>
  A library that only records the calls made to it, and the references that are outstanding after
  a sequence of calls: those retained and not released.
\<close>

datatype logged = LogRetain ptr iree_vm_ref_type_t | LogRelease ptr iree_vm_ref_type_t

definition recording_library :: "iree_vm_ref_type_t \<Rightarrow> (ptr \<Rightarrow> ptr \<times> u64) \<Rightarrow> logged list vm_library" where
  "recording_library B spans =
     \<lparr>object_retain = (\<lambda>p d log. Inr ((), log @ [LogRetain p d])),
      object_release = (\<lambda>p d log. Inr ((), log @ [LogRelease p d])),
      lib_ref_retain = (\<lambda>r out log. Inr (r, log @ [LogRetain (ref_target r) (ref_type r)])),
      lib_ref_release = (\<lambda>r log. Inr (iree_vm_ref_null, log @ [LogRelease (ref_target r) (ref_type r)])),
      lib_ref_move = (\<lambda>r out log. Inr ((iree_vm_ref_null, r), log)),
      lib_wrap_assign = (\<lambda>p d out log. Inr ((IREE_STATUS_OK, \<lparr>ref_target = p, ref_type = d\<rparr>), log)),
      buffer_type = B,
      buffer_span = (\<lambda>p log. Inr (spans p, log))\<rparr>"

definition outstanding :: "logged list \<Rightarrow> ptr \<Rightarrow> iree_vm_ref_type_t \<Rightarrow> int" where
  "outstanding log p d = int (count_list log (LogRetain p d)) - int (count_list log (LogRelease p d))"

lemma outstanding_simps [simp]:
  "outstanding [] p d = 0"
  "outstanding (log @ [LogRetain q e]) p d = outstanding log p d + (if q = p \<and> e = d then 1 else 0)"
  "outstanding (log @ [LogRelease q e]) p d = outstanding log p d - (if q = p \<and> e = d then 1 else 0)"
  by (auto simp: outstanding_def)












section \<open>Results\<close>

text \<open>Types whose values the generic template does not copy as C++ objects of another layout.\<close>

fun storable :: "cpp_type \<Rightarrow> bool" where
  "storable (TArray t n) = storable t"
| "storable (TTuple ts) = list_all storable ts"
| "storable (TSpan t) = False"
| "storable TString = False"
| "storable _ = True"

text \<open>The documented results of moving and of assigning a reference.\<close>

definition assigns_refs :: "'h vm_library \<Rightarrow> bool" where
  "assigns_refs lib \<longleftrightarrow>
     (\<forall>r out h. \<exists>src h'. lib_ref_move lib r out h = Inr ((src, r), h')) \<and>
     (\<forall>p d out h. \<exists>st h'. lib_wrap_assign lib p d out h = Inr ((st, \<lparr>ref_target = p, ref_type = d\<rparr>), h'))"

definition writes_bytes :: "('h packer, unit) sm \<Rightarrow> u8 list \<Rightarrow> bool" where
  "writes_bytes m bs \<longleftrightarrow>
     (\<forall>s pre old post. pk_data s = pre @ old @ post \<longrightarrow> length old = length bs \<longrightarrow>
        pk_ptr s = of_nat (length pre) \<longrightarrow> length pre + length old + length post < 2 ^ 64 \<longrightarrow>
        (\<exists>h. m s = Inr ((), s\<lparr>pk_ptr := of_nat (length pre + length bs), pk_data := pre @ bs @ post, pk_heap := h\<rparr>)))"

lemma store_bytes_writes: "writes_bytes (store_bytes bs) bs"
  unfolding writes_bytes_def
proof (intro allI impI)
  fix s :: "'a packer" and pre old post
  assume s: "pk_data s = pre @ old @ post" "length old = length bs" "pk_ptr s = of_nat (length pre)"
    "length pre + length old + length post < 2 ^ 64"
  have "unat (pk_ptr s) = length pre" using s by (simp add: unat_of_nat)
  then have "store_bytes bs s = Inr ((), s\<lparr>pk_data := pre @ bs @ post, pk_ptr := pk_ptr s + of_nat (length bs)\<rparr>)"
    using s by (simp add: store_bytes_def write_bytes_def)
  then show "\<exists>h. store_bytes bs s =
      Inr ((), s\<lparr>pk_ptr := of_nat (length pre + length bs), pk_data := pre @ bs @ post, pk_heap := h\<rparr>)"
    using s(3) by (cases s) (auto intro!: exI [of _ "pk_heap s"])
qed

text \<open>An assignment of a reference through the library, in place of an old one.\<close>

lemma register_writes:
  assumes "\<And>out h. \<exists>x h'. call out h = Inr ((x, r), h')"
  shows "writes_bytes (bind_sm old_register (\<lambda>out. bind_sm (pk_lib (call out)) (\<lambda>(_, out). store_bytes (ref_bytes out))))
    (ref_bytes r)"
  unfolding writes_bytes_def
proof (intro allI impI)
  fix s :: "'a packer" and pre old post
  assume s: "pk_data s = pre @ old @ post" "length old = length (ref_bytes r)" "pk_ptr s = of_nat (length pre)"
    "length pre + length old + length post < 2 ^ 64"
  have u: "unat (pk_ptr s) = length pre" using s by (simp add: unat_of_nat)
  have "\<exists>o'. old_register s = Inr (o', s)"
    using s u by (simp add: old_register_def read_bytes_append)
  then obtain o' where o': "old_register s = Inr (o', s)" ..
  obtain x h' where h': "call o' (pk_heap s) = Inr ((x, r), h')" using assms by blast
  let ?s1 = "s\<lparr>pk_heap := h'\<rparr>"
  obtain h where "store_bytes (ref_bytes r) ?s1 =
      Inr ((), ?s1\<lparr>pk_ptr := of_nat (length pre + length (ref_bytes r)), pk_data := pre @ ref_bytes r @ post, pk_heap := h\<rparr>)"
    using store_bytes_writes [of "ref_bytes r", unfolded writes_bytes_def, rule_format, of ?s1 pre old post] s by auto
  then show "\<exists>h. bind_sm old_register (\<lambda>out. bind_sm (pk_lib (call out)) (\<lambda>(_, out). store_bytes (ref_bytes out))) s =
      Inr ((), s\<lparr>pk_ptr := of_nat (length pre + length (ref_bytes r)), pk_data := pre @ ref_bytes r @ post, pk_heap := h\<rparr>)"
    using o' h' by (cases s) (auto simp: bind_sm_def pk_lib_def)
qed

lemma writes_seq:
  assumes "writes_bytes m bs" "writes_bytes m' bs'"
  shows "writes_bytes (bind_sm m (\<lambda>_. m')) (bs @ bs')"
  unfolding writes_bytes_def
proof (intro allI impI)
  fix s :: "'a packer" and pre old post
  assume s: "pk_data s = pre @ old @ post" "length old = length (bs @ bs')" "pk_ptr s = of_nat (length pre)"
    "length pre + length old + length post < 2 ^ 64"
  define o1 where "o1 = take (length bs) old"
  define o2 where "o2 = drop (length bs) old"
  have o12: "old = o1 @ o2" "length o1 = length bs" "length o2 = length bs'" using s(2) by (simp_all add: o1_def o2_def)
  obtain h1 where h1: "m s = Inr ((), s\<lparr>pk_ptr := of_nat (length pre + length bs), pk_data := pre @ bs @ o2 @ post, pk_heap := h1\<rparr>)"
    using assms(1) [unfolded writes_bytes_def, rule_format, of s pre o1 "o2 @ post"] s o12 by auto
  let ?s1 = "s\<lparr>pk_ptr := of_nat (length pre + length bs), pk_data := pre @ bs @ o2 @ post, pk_heap := h1\<rparr>"
  obtain h2 where "m' ?s1 = Inr ((), ?s1\<lparr>pk_ptr := of_nat (length (pre @ bs) + length bs'),
      pk_data := (pre @ bs) @ bs' @ post, pk_heap := h2\<rparr>)"
    using assms(2) [unfolded writes_bytes_def, rule_format, of ?s1 "pre @ bs" o2 post] s o12 by auto
  then show "\<exists>h. bind_sm m (\<lambda>_. m') s =
      Inr ((), s\<lparr>pk_ptr := of_nat (length pre + length (bs @ bs')), pk_data := pre @ (bs @ bs') @ post, pk_heap := h\<rparr>)"
    using h1 by (cases s) (auto simp: bind_sm_def add.assoc)
qed

lemma store_packed:
  fixes lib :: "'h vm_library"
  shows "packs B t v bs bs' cs \<Longrightarrow> assigns_refs lib \<Longrightarrow> storable t \<Longrightarrow> writes_bytes (ResultPack_Store lib t v) bs"
    and "packs_all B ts vs bss bss' css \<Longrightarrow> assigns_refs lib \<Longrightarrow> list_all storable ts \<Longrightarrow>
     writes_bytes (seq_apply (map (ResultPack_Store lib) ts) vs) bss"
proof (induction rule: packs_packs_all.inducts)
  case (packs_opaque r)
  then show ?case using register_writes [of "lib_ref_move lib r" r] by (auto simp: assigns_refs_def)
next
  case (packs_ref r d)
  have "\<exists>st h'. lib_wrap_assign lib (ref_target r) (ref_type r) out h = Inr ((st, r), h')" for out h
    using packs_ref.prems(1) by (cases r) (simp add: assigns_refs_def)
  then show ?case
    using register_writes [of "lib_wrap_assign lib (ref_target r) (ref_type r)" r] packs_ref.hyps by simp
next
  case (packs_null_ref d)
  then show ?case
    using register_writes [of "lib_wrap_assign lib nullptr 0" iree_vm_ref_null]
    by (auto simp: assigns_refs_def iree_vm_ref_null_def)
next
  case (packs_array n t vs bs bs' cs)
  have "list_all storable (replicate (Suc n) t)" using packs_array.prems by (auto simp: list_all_iff)
  then show ?case using packs_array by (auto simp del: replicate_Suc)
next
  case packs_nil
  show ?case
    unfolding writes_bytes_def
  proof (intro allI impI)
    fix s :: "'h packer" and pre old post :: "u8 list"
    assume "pk_data s = pre @ old @ post" "length old = length ([] :: u8 list)" "pk_ptr s = of_nat (length pre)"
    then have "s\<lparr>pk_ptr := of_nat (length pre + length ([] :: u8 list)), pk_data := pre @ [] @ post, pk_heap := pk_heap s\<rparr> = s"
      by simp
    then show "\<exists>h. seq_apply (map (ResultPack_Store lib) []) [] s =
        Inr ((), s\<lparr>pk_ptr := of_nat (length pre + length ([] :: u8 list)), pk_data := pre @ [] @ post, pk_heap := h\<rparr>)"
      by (intro exI [of _ "pk_heap s"]) (simp only: seq_apply.simps list.map ret_sm_def)
  qed
next
  case (packs_cons t v bs bs' cs ts vs bss bss' css)
  then show ?case using writes_seq by auto
qed (simp_all add: store_bytes_writes)

section \<open>Calling conventions describe the packed bytes\<close>

text \<open>
  The packed form of a sequence of values that a calling convention string stands for: 4 bytes for
  \<open>i\<close> and \<open>f\<close>, 8 for \<open>I\<close> and \<open>F\<close>, a 16-byte register for \<open>r\<close>, and for \<open>C\<close>...\<open>D\<close> a count and
  that many repetitions of what is between them.
\<close>

inductive conv_packs :: "string \<Rightarrow> u8 list \<Rightarrow> bool" and conv_repeats :: "nat \<Rightarrow> string \<Rightarrow> u8 list \<Rightarrow> bool" where
  conv_nil: "conv_packs '''' []"
| conv_word: "c \<in> {CHR ''i'', CHR ''f''} \<Longrightarrow> length b = 4 \<Longrightarrow> conv_packs s bs \<Longrightarrow> conv_packs (c # s) (b @ bs)"
| conv_double: "c \<in> {CHR ''I'', CHR ''F''} \<Longrightarrow> length b = 8 \<Longrightarrow> conv_packs s bs \<Longrightarrow> conv_packs (c # s) (b @ bs)"
| conv_ref: "length b = 16 \<Longrightarrow> conv_packs s bs \<Longrightarrow> conv_packs (CHR ''r'' # s) (b @ bs)"
| conv_span: "conv_repeats n s b \<Longrightarrow> n < 2 ^ 31 \<Longrightarrow> conv_packs s' bs \<Longrightarrow>
    conv_packs (CHR ''C'' # s @ CHR ''D'' # s') (le_bytes 4 (of_nat n :: u32) @ b @ bs)"
| repeats_0: "conv_repeats 0 s []"
| repeats_Suc: "conv_packs s b \<Longrightarrow> conv_repeats n s bs \<Longrightarrow> conv_repeats (Suc n) s (b @ bs)"

lemma conv_append:
  "conv_packs s bs \<Longrightarrow> conv_packs s' bs' \<Longrightarrow> conv_packs (s @ s') (bs @ bs')"
  "conv_repeats n t cs \<Longrightarrow> True"
proof (induction rule: conv_packs_conv_repeats.inducts)
  case (conv_span n s b s'' bs)
  then show ?case using conv_packs_conv_repeats.conv_span [of n s b "s'' @ s'" "bs @ bs'"] by simp
qed (auto intro: conv_packs_conv_repeats.intros)

lemma concat_literals_concat: "concat_literals xs = concat xs"
  by (induction xs rule: concat_literals.induct) simp_all

lemma splat_impl_concat: "splat_impl n v = concat (replicate (Suc n) v)"
  by (induction n) simp_all

lemma conv_one:
  "c \<in> {CHR ''i'', CHR ''f''} \<Longrightarrow> length b = 4 \<Longrightarrow> conv_packs [c] b"
  "c \<in> {CHR ''I'', CHR ''F''} \<Longrightarrow> length b = 8 \<Longrightarrow> conv_packs [c] b"
  "length b = 16 \<Longrightarrow> conv_packs ''r'' b"
  using conv_word [OF _ _ conv_nil, of c b] conv_double [OF _ _ conv_nil, of c b] conv_ref [OF _ conv_nil, of b]
  by simp_all

lemma packs_conv:
  "packs B t v bs bs' cs \<Longrightarrow> conv_packs (cconv_map t) bs"
  "packs_all B ts vs bss bss' css \<Longrightarrow> conv_packs (concat (map cconv_map ts)) bss \<and>
     (\<forall>t. ts = replicate (length ts) t \<longrightarrow> conv_repeats (length ts) (cconv_map t) bss)"
proof (induction rule: packs_packs_all.inducts)
  case (packs_array n t vs bs bs' cs)
  then show ?case by (simp add: splat_impl_concat map_replicate del: replicate_Suc)
next
  case (packs_tuple ts vs bs bs' cs)
  then show ?case by (simp add: concat_literals_concat)
next
  case (packs_span n t vs bs bs' cs)
  then have "conv_repeats n (cconv_map t) bs" "n < 2 ^ 31" by simp_all
  from conv_span [OF this conv_nil] show ?case by (simp add: concat_literals_concat)
next
  case packs_nil
  then show ?case by (auto intro: conv_packs_conv_repeats.intros)
next
  case (packs_cons t v bs bs' cs ts vs bss bss' css)
  have "conv_repeats (Suc (length ts)) (cconv_map u) (bs @ bss)" if "t # ts = replicate (Suc (length ts)) u" for u
    using that packs_cons by (auto intro: repeats_Suc)
  then show ?case using packs_cons conv_append(1) by auto
qed (simp_all add: conv_one)

section \<open>A call with packed arguments\<close>

lemma native_call_returns:
  assumes "packs_all (buffer_type lib) ts vs args args' cs" "length args < 2 ^ 64"
    and "run_calls lib cs h = Inr ((), h1)"
    and "\<And>ws. length ws = length ts \<Longrightarrow> seen_values args' ts ws = vs \<Longrightarrow> fn ws h1 = Inr (Inr v, h2)"
    and "packs B rt v res res' rcs" "storable rt" "assigns_refs lib"
    and "length res \<le> length results" "length results < 2 ^ 64"
  shows "\<exists>h3. DispatchFunctor_Call lib fn ts rt args results h =
    Inr (IREE_STATUS_OK, args', res @ drop (length res) results, h3)"
proof -
  obtain ws where ws: "seq_sm (map (ParamUnpack_Load lib) ts)
      \<lparr>up_status = IREE_STATUS_OK, up_ptr = 0, up_data = args, up_heap = h\<rparr> =
      Inr (ws, \<lparr>up_status = IREE_STATUS_OK, up_ptr = of_nat (length args), up_data = args', up_heap = h1\<rparr>)"
    "length ws = length ts" "seen_values args' ts ws = vs"
    using arguments_load [OF assms(1) _ assms(3), of "[]"] assms(2) by auto
  have "writes_bytes (ResultPack_Store lib rt v) res" by (rule store_packed(1) [OF assms(5,7,6)])
  from this [unfolded writes_bytes_def, rule_format, of "\<lparr>pk_ptr = 0, pk_data = results, pk_heap = h2\<rparr>" "[]"
      "take (length res) results" "drop (length res) results"]
  obtain h3 where "ResultPack_Store lib rt v \<lparr>pk_ptr = 0, pk_data = results, pk_heap = h2\<rparr> =
      Inr ((), \<lparr>pk_ptr = of_nat (length res), pk_data = res @ drop (length res) results, pk_heap = h3\<rparr>)"
    using assms(8,9) by auto
  then show ?thesis
    using ws assms(4) [OF ws(2,3)] by (simp add: DispatchFunctor_Call_def Unpacker_LoadSequence_def)
qed

section \<open>Properties\<close>

text \<open>
  C8. A native function is called with the values its caller packed, and its result comes back packed.
  When the argument buffer packs well-typed values for the declared parameters and the library
  performs the calls this needs, the method receives exactly these values, a span showing
  its elements in the buffer; when it succeeds with a value of the result type, the call is \<open>OK\<close>, the result
  buffer starts with the packed value, in the form another native function would unpack, and the
  registers of \<open>ref<T>\<close> parameters are left null.
\<close>

theorem native_call_round_trip:
  assumes "packs_all (buffer_type lib) ts vs args args' cs" "length args < 2 ^ 64"
    and "run_calls lib cs h = Inr ((), h1)"
    and "\<And>ws. length ws = length ts \<Longrightarrow> seen_values args' ts ws = vs \<Longrightarrow> fn ws h1 = Inr (Inr v, h2)"
    and "packs B rt v res res' rcs" "storable rt" "assigns_refs lib"
    and "length res \<le> length results" "length results < 2 ^ 64"
  shows "\<exists>h3. DispatchFunctor_Call lib fn ts rt args results h =
    Inr (IREE_STATUS_OK, args', res @ drop (length res) results, h3)"
  using native_call_returns [where fn = fn and ?h1.0 = h1 and ?h2.0 = h2 and v = v and vs = vs, OF assms] .

text \<open>A function \<open>(i32, span<i64>) -> i32\<close> that returns its first argument.\<close>

theorem native_call_round_trip_witness:
  "\<exists>h3. DispatchFunctor_Call (recording_library 8 (\<lambda>p. (p, 0))) (\<lambda>ws h. Inr (Inr (hd ws), h)) [TI32, TSpan TI64] TI32
     (le_bytes 4 (7 :: u32) @ le_bytes 4 (2 :: u32) @ le_bytes 8 (5 :: u64) @ le_bytes 8 (6 :: u64))
     [0, 0, 0, 0] [] =
   Inr (IREE_STATUS_OK,
     le_bytes 4 (7 :: u32) @ le_bytes 4 (2 :: u32) @ le_bytes 8 (5 :: u64) @ le_bytes 8 (6 :: u64),
     le_bytes 4 (7 :: u32), h3)"
proof -
  let ?lib = "recording_library 8 (\<lambda>p. (p, 0))"
  let ?args = "le_bytes 4 (7 :: u32) @ (le_bytes 4 (of_nat 2 :: u32) @ le_bytes 8 (5 :: u64) @ le_bytes 8 (6 :: u64) @ []) @ []"
  have two: "packs_all 8 (replicate 2 TI64) [VI64 5, VI64 6] 
      (le_bytes 8 (5 :: u64) @ le_bytes 8 (6 :: u64) @ []) (le_bytes 8 (5 :: u64) @ le_bytes 8 (6 :: u64) @ []) ([] @ [] @ [])"
    unfolding numeral_2_eq_2 replicate_Suc replicate_0 by (intro packs_cons packs_nil packs_i64)
  have "packs_all 8 [TI32, TSpan TI64] [VI32 7, VSeq [VI64 5, VI64 6]] ?args ?args ([] @ ([] @ [] @ []) @ [])"
    by (intro packs_cons packs_i32 packs_span packs_nil two) simp
  then have p: "packs_all (buffer_type ?lib) [TI32, TSpan TI64] [VI32 7, VSeq [VI64 5, VI64 6]] ?args ?args []"
    by (simp add: recording_library_def)
  have fn: "Inr (Inr (hd ws), []) = Inr (Inr (VI32 7), [])"
    if "length ws = length [TI32, TSpan TI64]" "seen_values ?args [TI32, TSpan TI64] ws = [VI32 7, VSeq [VI64 5, VI64 6]]" for ws
    using that by (cases ws) (simp_all add: seen_values_def)
  have "assigns_refs ?lib" by (simp add: assigns_refs_def recording_library_def)
  then show ?thesis
    using native_call_round_trip [where lib = ?lib and fn = "\<lambda>ws h. Inr (Inr (hd ws), h)" and results = "[0, 0, 0, 0]", OF p _ _ fn packs_i32 [of 0]]
    by simp
qed

text \<open>The conventions a native function is registered with.\<close>

lemma cconv_storage_packs:
  assumes "packs_all B ts vs args args' cs" "ts \<noteq> []" "packs B' rt v res res' rcs"
  shows "\<exists>p r. nf_cconv (MakeNativeFunction name ts (Some rt)) = ''0'' @ p @ ''_'' @ r \<and>
    conv_packs p args \<and> conv_packs r res"
  using packs_conv(2) [OF assms(1)] packs_conv(1) [OF assms(3)] assms(2)
  by (auto simp: MakeNativeFunction_def cconv_storage_def concat_literals_concat)

text \<open>
  Arguments of the wrong size. When the buffer holds the packed parameters and more bytes, every parameter
  is loaded, the storage of the parameters is destroyed and the call fails with \<open>INVALID_ARGUMENT\<close>.
  When it ends early, in a function without spans, the missing bytes are read past the end of the
  buffer before any check of its size.
\<close>

theorem argument_size_is_checked_after_reading:
  assumes "packs_all (buffer_type lib) ts vs args args' cs" "length args + length extra < 2 ^ 64"
    and "run_calls lib cs h = Inr ((), h1)"
  shows "(extra \<noteq> [] \<longrightarrow>
      (\<exists>ws. length ws = length ts \<and> seen_values (args' @ extra) ts ws = vs \<and>
         Unpacker_LoadSequence lib ts (args @ extra) h =
         bind_res (destroy_value lib (VSeq ws) h1) (\<lambda>(_, h2). Inr (Inl IREE_STATUS_INVALID_ARGUMENT, args' @ extra, h2)))) \<and>
    (list_all span_free ts \<longrightarrow> n < length args \<longrightarrow>
      Unpacker_LoadSequence lib ts (take n args) h = Inl OutOfBounds)"
proof (intro conjI impI)
  assume e: "extra \<noteq> []"
  obtain ws where ws: "seq_sm (map (ParamUnpack_Load lib) ts)
      \<lparr>up_status = IREE_STATUS_OK, up_ptr = 0, up_data = args @ extra, up_heap = h\<rparr> =
      Inr (ws, \<lparr>up_status = IREE_STATUS_OK, up_ptr = of_nat (length args), up_data = args' @ extra, up_heap = h1\<rparr>)"
    "length ws = length ts" "seen_values (args' @ extra) ts ws = vs"
    using arguments_load [OF assms] by auto
  have "unat (of_nat (length args) :: u64) \<noteq> unat (of_nat (length args + length extra) :: u64)"
    using e assms(2) by (simp add: unat_of_nat del: of_nat_add)
  then have "(of_nat (length args) :: u64) \<noteq> of_nat (length args + length extra)" by metis
  then show "\<exists>ws. length ws = length ts \<and> seen_values (args' @ extra) ts ws = vs \<and>
         Unpacker_LoadSequence lib ts (args @ extra) h =
         bind_res (destroy_value lib (VSeq ws) h1) (\<lambda>(_, h2). Inr (Inl IREE_STATUS_INVALID_ARGUMENT, args' @ extra, h2))"
    using ws by (intro exI [of _ ws]) (simp add: Unpacker_LoadSequence_def)
next
  assume t: "list_all span_free ts" and n: "n < length args"
  let ?s = "\<lparr>up_status = IREE_STATUS_OK, up_ptr = 0, up_data = take n args, up_heap = h\<rparr>"
  have "at_bytes [] (take n args) [] ?s" using assms(2) n by (simp add: at_bytes_def)
  moreover have "run_calls lib cs (up_heap ?s) = Inr ((), h1)" using assms(3) by simp
  moreover have "length (take n args) < length args" "take n args = take (length (take n args)) args" using n by simp_all
  ultimately have "seq_sm (map (ParamUnpack_Load lib) ts) ?s = Inl OutOfBounds"
    using short_runs_out(2) [OF assms(1) refl t] unfolding runs_out_def by blast
  then show "Unpacker_LoadSequence lib ts (take n args) h = Inl OutOfBounds"
    by (simp add: Unpacker_LoadSequence_def)
qed

text \<open>One \<open>i32\<close>, with a byte too many and with a byte too few.\<close>

theorem argument_size_is_checked_after_reading_witness:
  "(\<exists>h. Unpacker_LoadSequence (recording_library 8 (\<lambda>p. (p, 0))) [TI32] (le_bytes 4 (7 :: u32) @ [9]) [] =
      Inr (Inl IREE_STATUS_INVALID_ARGUMENT, le_bytes 4 (7 :: u32) @ [9], h)) \<and>
   Unpacker_LoadSequence (recording_library 8 (\<lambda>p. (p, 0))) [TI32] (take 3 (le_bytes 4 (7 :: u32))) [] = Inl OutOfBounds"
proof -
  let ?lib = "recording_library 8 (\<lambda>p. (p, 0))" and ?b = "le_bytes 4 (7 :: u32)"
  have "packs_all (buffer_type ?lib) [TI32] [VI32 7] (?b @ []) (?b @ []) ([] @ [])"
    by (intro packs_cons packs_i32 packs_nil)
  then have p: "packs_all (buffer_type ?lib) [TI32] [VI32 7] ?b ?b []" by simp
  note * = argument_size_is_checked_after_reading [OF p, of "[9]" "[]" "[]" 3]
  obtain ws where ws: "length ws = 1" "seen_values (?b @ [9]) [TI32] ws = [VI32 7]"
    "Unpacker_LoadSequence ?lib [TI32] (?b @ [9]) [] = bind_res (destroy_value ?lib (VSeq ws) [])
       (\<lambda>(_, h2). Inr (Inl IREE_STATUS_INVALID_ARGUMENT, ?b @ [9], h2))"
    using * by auto
  have "ws = [VI32 7]" using ws(1,2) by (cases ws) (auto simp: seen_values_def)
  then show ?thesis using ws(3) * by simp
qed



lemma load_count_first:
  "load_count \<lparr>up_status = st, up_ptr = 0, up_data = le_bytes 4 (c :: u32) @ bs, up_heap = h\<rparr> =
     Inr (scast c, \<lparr>up_status = st, up_ptr = 4, up_data = le_bytes 4 c @ bs, up_heap = h\<rparr>)"
proof -
  have "read_bytes (le_bytes 4 c @ bs) 0 4 = Inr (le_bytes 4 c)" by (simp add: read_bytes_def)
  moreover have "LENGTH(32) \<le> 8 * 4" by simp
  ultimately show ?thesis
    by (simp add: load_count_def read_word_def read_ptr_def advance_ptr_def bind_sm_def of_le_le_bytes del: le_bytes.simps)
qed

lemma word_of_int_mod:
  "(of_int a :: u64) = of_int b \<Longrightarrow> a mod 2 ^ 64 = b mod 2 ^ 64"
  by (simp add: word_of_int_eq_iff take_bit_eq_mod)

lemma exact_span:
  "m = 4 \<or> m = 8 \<Longrightarrow>
     4 + int m * c = int (4 + n) \<longleftrightarrow> c = int n div int m \<and> m dvd n"
  by (elim disjE) (simp_all, presburger+)

text \<open>
  The number of elements of a span of a primitive type is only checked through the end of the
  buffer. A function of one such span accepts exactly the buffers with the elements the count announces;
  a negative count is refused. But when another parameter follows, the pointer that a negative count
  moved back may arrive at the end again: the buffer with the single word \<open>-1\<close> is accepted for
  \<open>(span<i32>, i32)\<close>, with a span of \<open>2^64 - 1\<close> elements.
\<close>

theorem span_count_check:
  assumes "is_primitive t" "length bs < 2 ^ 62"
  shows "Unpacker_LoadSequence lib [TSpan t] (le_bytes 4 (c :: u32) @ bs) h =
      Inr (if sint c = int (length bs) div int (primitive_size t) \<and> primitive_size t dvd length bs
           then Inr [VSpan 4 (scast c)] else Inl IREE_STATUS_INVALID_ARGUMENT, le_bytes 4 c @ bs, h) \<and>
    Unpacker_LoadSequence lib [TSpan TI32, TI32] (le_bytes 4 (- 1 :: u32)) h =
      Inr (Inr [VSpan 4 (2 ^ 64 - 1), VI32 (- 1)], le_bytes 4 (- 1 :: u32), h)"
proof
  have sz: "primitive_size t = 4 \<or> primitive_size t = 8" by (simp add: primitive_size_def)
  have c: "- (2 ^ 31) \<le> sint c" "sint c < 2 ^ 31"
    using sint_ge [of c] sint_lt [of c] by simp_all
  have e1: "4 + of_nat (primitive_size t) * scast c = (of_int (4 + int (primitive_size t) * sint c) :: u64)"
    by (simp only: scast_eq of_int_add of_int_mult of_int_numeral of_int_of_nat_eq)
  have e2: "(of_nat (4 + length bs) :: u64) = of_int (int (4 + length bs))" by (rule of_int_of_nat_eq [symmetric])
  have e3: "(of_int (4 + int (primitive_size t) * sint c) :: u64) = of_int (int (4 + length bs)) \<longleftrightarrow>
      4 + int (primitive_size t) * sint c = int (4 + length bs)"
  proof
    assume "(of_int (4 + int (primitive_size t) * sint c) :: u64) = of_int (int (4 + length bs))"
    then have "2 ^ 64 dvd (4 + int (primitive_size t) * sint c) - int (4 + length bs)"
      unfolding mod_eq_dvd_iff [symmetric] by (rule word_of_int_mod)
    then obtain k where k: "(4 + int (primitive_size t) * sint c) - int (4 + length bs) = 2 ^ 64 * k" ..
    have "int (length bs) < 2 ^ 62" using assms(2) by simp
    then have "k = 0" using k sz c by (elim disjE) simp_all
    then show "4 + int (primitive_size t) * sint c = int (4 + length bs)" using k by simp
  qed simp
  have "4 + of_nat (primitive_size t) * scast c = (of_nat (4 + length bs) :: u64) \<longleftrightarrow>
      sint c = int (length bs) div int (primitive_size t) \<and> primitive_size t dvd length bs"
    unfolding exact_span [OF sz, of "sint c" "length bs", symmetric] e1 e2 e3 ..
  then show "Unpacker_LoadSequence lib [TSpan t] (le_bytes 4 c @ bs) h =
      Inr (if sint c = int (length bs) div int (primitive_size t) \<and> primitive_size t dvd length bs
           then Inr [VSpan 4 (scast c)] else Inl IREE_STATUS_INVALID_ARGUMENT, le_bytes 4 c @ bs, h)"
    using assms(1) by (simp add: Unpacker_LoadSequence_def load_count_first
        bind_sm_def advance_ptr_def del: le_bytes.simps)
next
  show "Unpacker_LoadSequence lib [TSpan TI32, TI32] (le_bytes 4 (- 1 :: u32)) h =
      Inr (Inr [VSpan 4 (2 ^ 64 - 1), VI32 (- 1)], le_bytes 4 (- 1 :: u32), h)"
    using load_count_first [of IREE_STATUS_OK "- 1" "[]" h]
    by (simp add: Unpacker_LoadSequence_def is_primitive_def primitive_size_def load_primitive_def read_word_def
        read_ptr_def read_bytes_def bind_sm_def advance_ptr_def of_le_le_bytes)
qed

text \<open>Two elements announced and given, and one too many announced.\<close>

theorem span_count_check_witness:
  "Unpacker_LoadSequence (recording_library 8 (\<lambda>p. (p, 0))) [TSpan TI64]
     (le_bytes 4 (2 :: u32) @ replicate 16 0) [] =
     Inr (Inr [VSpan 4 2], le_bytes 4 (2 :: u32) @ replicate 16 0, []) \<and>
   Unpacker_LoadSequence (recording_library 8 (\<lambda>p. (p, 0))) [TSpan TI64]
     (le_bytes 4 (3 :: u32) @ replicate 16 0) [] =
     Inr (Inl IREE_STATUS_INVALID_ARGUMENT, le_bytes 4 (3 :: u32) @ replicate 16 0, [])"
proof -
  have t: "is_primitive TI64" "length (replicate 16 0 :: u8 list) < 2 ^ 62" "primitive_size TI64 = 8"
    by (simp_all add: is_primitive_def primitive_size_def)
  have c: "sint (2 :: u32) = 2" "sint (3 :: u32) = 3" "scast (2 :: u32) = (2 :: u64)" by simp_all
  show ?thesis
    using span_count_check [OF t(1,2), of "recording_library 8 (\<lambda>p. (p, 0))" 2 "[]"]
      span_count_check [OF t(1,2), of "recording_library 8 (\<lambda>p. (p, 0))" 3 "[]"] t(3) c
    by simp
qed

end
