(* ===== verification/Vm_Shims.thy ===== *)
theory Vm_Shims
  imports Vm_Packing
begin

unbundle bit_operations_syntax

text \<open>
  \<open>iree/vm/shims.h\<close>: the packed C structures that native functions see in place of the argument and
  result buffers, the checked casts from a buffer to a structure, the macro that defines the shim
  between the virtual machine and a native function, and the macros that walk a trailing array. A
  structure is the list of its fields; it is packed, so that a field starts where the one before it ends.
\<close>

section \<open>Structures\<close>

datatype abi_type = Abi_i32 | Abi_i64 | Abi_f32 | Abi_ref

type_synonym abi_field = "abi_type \<times> string"

primrec abi_type_size :: "abi_type \<Rightarrow> nat" where
  "abi_type_size Abi_i32 = 4"
| "abi_type_size Abi_i64 = 8"
| "abi_type_size Abi_f32 = 4"
| "abi_type_size Abi_ref = 16"

definition sizeof_fields :: "abi_field list \<Rightarrow> nat" where
  "sizeof_fields fs = sum_list (map (\<lambda>(t, _). abi_type_size t) fs)"

text \<open>
  The fields and, for a structure that ends in a \<open>[0]\<close> array, the name of its counter (an
  \<open>iree_vm_size_t\<close>, which is an \<open>int32_t\<close>), the name of the array and the fields of its elements.
\<close>

record abi_struct =
  abi_fields :: "abi_field list"
  abi_vla :: "(string \<times> string \<times> abi_field list) option"

definition fixed_struct :: "abi_field list \<Rightarrow> abi_struct" where
  "fixed_struct fs = \<lparr>abi_fields = fs, abi_vla = None\<rparr>"

definition vla_struct :: "abi_field list \<Rightarrow> string \<Rightarrow> string \<Rightarrow> abi_struct \<Rightarrow> abi_struct" where
  "vla_struct fs vla_count vla_field element =
     \<lparr>abi_fields = fs, abi_vla = Some (vla_count, vla_field, abi_fields element)\<rparr>"

definition sizeof_struct :: "abi_struct \<Rightarrow> nat" where
  "sizeof_struct S = sizeof_fields (abi_fields S) + (if abi_vla S = None then 0 else 4)"

text \<open>The offset of a field, and the value of a reference and of an integer field at an offset.\<close>

fun field_offset :: "abi_field list \<Rightarrow> string \<Rightarrow> nat" where
  "field_offset [] n = 0"
| "field_offset ((t, m) # fs) n = (if m = n then 0 else abi_type_size t + field_offset fs n)"

definition read_ref_field :: "abi_field list \<Rightarrow> string \<Rightarrow> u8 list \<Rightarrow> nat \<Rightarrow> iree_vm_ref_t res" where
  "read_ref_field fs n mem base =
     bind_res (read_bytes mem (base + field_offset fs n) 16) (\<lambda>bs.
     Inr \<lparr>ref_target = of_le (take 8 bs), ref_type = of_le (drop 8 bs)\<rparr>)"

definition read_int_field :: "abi_field list \<Rightarrow> string \<Rightarrow> u8 list \<Rightarrow> nat \<Rightarrow> int res" where
  "read_int_field fs n mem base =
     (if (Abi_i64, n) \<in> set fs
      then bind_res (read_bytes mem (base + field_offset fs n) 8) (\<lambda>bs. Inr (sint (of_le bs :: u64)))
      else bind_res (read_bytes mem (base + field_offset fs n) 4) (\<lambda>bs. Inr (sint (of_le bs :: u32))))"

definition read_vla_count :: "abi_struct \<Rightarrow> u8 list \<Rightarrow> u32 res" where
  "read_vla_count S mem =
     bind_res (read_bytes mem (sizeof_fields (abi_fields S)) 4) (\<lambda>bs. Inr (of_le bs))"

section \<open>Checked casts\<close>

text \<open>A span with the bytes at its address; \<open>None\<close> is a null pointer.\<close>

record iree_byte_span_t =
  span_data :: "u8 list option"
  span_length :: iree_host_size_t

definition abi_checked_deref :: "abi_struct \<Rightarrow> iree_byte_span_t \<Rightarrow> u8 list option res" where
  "abi_checked_deref S buffer =
     (case abi_vla S of
        None \<Rightarrow> Inr (if span_length buffer = of_nat (sizeof_struct S) then span_data buffer else None)
      | Some (vla_count, vla_field, element) \<Rightarrow>
          if span_length buffer < of_nat (sizeof_struct S) then Inr None
          else (case span_data buffer of
                  None \<Rightarrow> Inl NullDeref
                | Some mem \<Rightarrow>
                    bind_res (read_vla_count S mem) (\<lambda>count.
                    Inr (if span_length buffer =
                           of_nat (sizeof_struct S) + scast count * of_nat (sizeof_fields element)
                         then span_data buffer else None))))"







section \<open>Shims\<close>

definition IREE_VM_NATIVE_FUNCTION_CALL_BEGIN :: u32 where "IREE_VM_NATIVE_FUNCTION_CALL_BEGIN = 1"


section \<open>Trailing arrays\<close>

text \<open>
  The macros set \<open>*(out_count)\<close>, which is the first component here, and then either return an error
  from the calling function or set \<open>*(out_ptrs)\<close>. \<open>max_count\<close> is an \<open>int\<close> constant. The loop counter is
  unsigned, so the bound of the loop is the counter converted to 64 bits.
\<close>

fun until_error :: "('i \<Rightarrow> ('e + 'a) res) \<Rightarrow> 'i list \<Rightarrow> ('e + 'a list) res" where
  "until_error f [] = Inr (Inr [])"
| "until_error f (i # is) =
     bind_res (f i) (\<lambda>r. case r of
       Inl e \<Rightarrow> Inr (Inl e)
     | Inr x \<Rightarrow> bind_res (until_error f is) (\<lambda>rs. case rs of
         Inl e \<Rightarrow> Inr (Inl e) | Inr xs \<Rightarrow> Inr (Inr (x # xs))))"

definition vla_walk ::
  "abi_struct \<Rightarrow> u32 \<Rightarrow> u8 list \<Rightarrow> (abi_field list \<Rightarrow> nat \<Rightarrow> (iree_status_code_t + 'a) res) \<Rightarrow>
   (u32 \<times> (iree_status_code_t + 'a list)) res" where
  "vla_walk S max_count args f =
     (case abi_vla S of
        None \<Rightarrow> Inl (Thrown ''no trailing array'')
      | Some (vla_count, vla_field, element) \<Rightarrow>
          bind_res (read_vla_count S args) (\<lambda>count.
          if sint count > sint max_count then Inr (count, Inl IREE_STATUS_OUT_OF_RANGE)
          else bind_res (until_error (\<lambda>i. f element (sizeof_struct S + i * sizeof_fields element))
                           [0 ..< unat (scast count :: u64)]) (\<lambda>ptrs.
               Inr (count, ptrs))))"

definition IREE_VM_ABI_VLA_STACK_CAST ::
  "abi_struct \<Rightarrow> (int \<Rightarrow> 'a) \<Rightarrow> u32 \<Rightarrow> u8 list \<Rightarrow> (u32 \<times> (iree_status_code_t + 'a list)) res" where
  "IREE_VM_ABI_VLA_STACK_CAST S cast max_count args =
     vla_walk S max_count args (\<lambda>element base.
       bind_res (read_int_field element ''i0'' args base) (\<lambda>i. Inr (Inr (cast i))))"

definition IREE_VM_ABI_VLA_STACK_DEREF ::
  "abi_struct \<Rightarrow> iree_vm_ref_type_t \<Rightarrow> u32 \<Rightarrow> u8 list \<Rightarrow> (u32 \<times> (iree_status_code_t + ptr list)) res" where
  "IREE_VM_ABI_VLA_STACK_DEREF S registration max_count args =
     vla_walk S max_count args (\<lambda>element base.
       bind_res (read_ref_field element ''r0'' args base) (\<lambda>r. Inr (adapter_check_deref registration r)))"

definition IREE_VM_ABI_VLA_STACK_DEREF_OR_NULL ::
  "abi_struct \<Rightarrow> iree_vm_ref_type_t \<Rightarrow> u32 \<Rightarrow> u8 list \<Rightarrow> (u32 \<times> (iree_status_code_t + ptr list)) res" where
  "IREE_VM_ABI_VLA_STACK_DEREF_OR_NULL S registration max_count args =
     vla_walk S max_count args (\<lambda>element base.
       bind_res (read_ref_field element ''r0'' args base) (\<lambda>r. Inr (adapter_check_deref_or_null registration r)))"

section \<open>The structures of the header\<close>

definition iree_vm_abi_i_t :: abi_struct where
  "iree_vm_abi_i_t = fixed_struct
     [(Abi_i32, ''i0'')]"

definition iree_vm_abi_I_t :: abi_struct where
  "iree_vm_abi_I_t = fixed_struct
     [(Abi_i64, ''i0'')]"

definition iree_vm_abi_f_t :: abi_struct where
  "iree_vm_abi_f_t = fixed_struct
     [(Abi_f32, ''f0'')]"

definition iree_vm_abi_ii_t :: abi_struct where
  "iree_vm_abi_ii_t = fixed_struct
     [(Abi_i32, ''i0''), (Abi_i32, ''i1'')]"

definition iree_vm_abi_iI_t :: abi_struct where
  "iree_vm_abi_iI_t = fixed_struct
     [(Abi_i32, ''i0''), (Abi_i64, ''i1'')]"

definition iree_vm_abi_II_t :: abi_struct where
  "iree_vm_abi_II_t = fixed_struct
     [(Abi_i64, ''i0''), (Abi_i64, ''i1'')]"

definition iree_vm_abi_IIi_t :: abi_struct where
  "iree_vm_abi_IIi_t = fixed_struct
     [(Abi_i64, ''i0''), (Abi_i64, ''i1''), (Abi_i32, ''i2'')]"

definition iree_vm_abi_iii_t :: abi_struct where
  "iree_vm_abi_iii_t = fixed_struct
     [(Abi_i32, ''i0''), (Abi_i32, ''i1''), (Abi_i32, ''i2'')]"

definition iree_vm_abi_iiii_t :: abi_struct where
  "iree_vm_abi_iiii_t = fixed_struct
     [(Abi_i32, ''i0''), (Abi_i32, ''i1''), (Abi_i32, ''i2''), (Abi_i32, ''i3'')]"

definition iree_vm_abi_irIi_t :: abi_struct where
  "iree_vm_abi_irIi_t = fixed_struct
     [(Abi_i32, ''i0''), (Abi_ref, ''r1''), (Abi_i64, ''i2''), (Abi_i32, ''i3'')]"

definition iree_vm_abi_irII_t :: abi_struct where
  "iree_vm_abi_irII_t = fixed_struct
     [(Abi_i32, ''i0''), (Abi_ref, ''r1''), (Abi_i64, ''i2''), (Abi_i64, ''i3'')]"

definition iree_vm_abi_r_t :: abi_struct where
  "iree_vm_abi_r_t = fixed_struct
     [(Abi_ref, ''r0'')]"

definition iree_vm_abi_rr_t :: abi_struct where
  "iree_vm_abi_rr_t = fixed_struct
     [(Abi_ref, ''r0''), (Abi_ref, ''r1'')]"

definition iree_vm_abi_rrr_t :: abi_struct where
  "iree_vm_abi_rrr_t = fixed_struct
     [(Abi_ref, ''r0''), (Abi_ref, ''r1''), (Abi_ref, ''r2'')]"

definition iree_vm_abi_ri_t :: abi_struct where
  "iree_vm_abi_ri_t = fixed_struct
     [(Abi_ref, ''r0''), (Abi_i32, ''i1'')]"

definition iree_vm_abi_rI_t :: abi_struct where
  "iree_vm_abi_rI_t = fixed_struct
     [(Abi_ref, ''r0''), (Abi_i64, ''i1'')]"

definition iree_vm_abi_ririi_t :: abi_struct where
  "iree_vm_abi_ririi_t = fixed_struct
     [(Abi_ref, ''r0''), (Abi_i32, ''i1''), (Abi_ref, ''r2''), (Abi_i32, ''i3''),
      (Abi_i32, ''i4'')]"

definition iree_vm_abi_rii_t :: abi_struct where
  "iree_vm_abi_rii_t = fixed_struct
     [(Abi_ref, ''r0''), (Abi_i32, ''i1''), (Abi_i32, ''i2'')]"

definition iree_vm_abi_rIi_t :: abi_struct where
  "iree_vm_abi_rIi_t = fixed_struct
     [(Abi_ref, ''r0''), (Abi_i64, ''i1''), (Abi_i32, ''i2'')]"

definition iree_vm_abi_rIirrii_t :: abi_struct where
  "iree_vm_abi_rIirrii_t = fixed_struct
     [(Abi_ref, ''r0''), (Abi_i64, ''i1''), (Abi_i32, ''i2''), (Abi_ref, ''r3''),
      (Abi_ref, ''r4''), (Abi_i32, ''i5''), (Abi_i32, ''i6'')]"

definition iree_vm_abi_rIirIIi_t :: abi_struct where
  "iree_vm_abi_rIirIIi_t = fixed_struct
     [(Abi_ref, ''r0''), (Abi_i64, ''i1''), (Abi_i32, ''i2''), (Abi_ref, ''r3''),
      (Abi_i64, ''i4''), (Abi_i64, ''i5''), (Abi_i32, ''i6'')]"

definition iree_vm_abi_rII_t :: abi_struct where
  "iree_vm_abi_rII_t = fixed_struct
     [(Abi_ref, ''r0''), (Abi_i64, ''i1''), (Abi_i64, ''i2'')]"

definition iree_vm_abi_rif_t :: abi_struct where
  "iree_vm_abi_rif_t = fixed_struct
     [(Abi_ref, ''r0''), (Abi_i32, ''i1''), (Abi_f32, ''f2'')]"

definition iree_vm_abi_riii_t :: abi_struct where
  "iree_vm_abi_riii_t = fixed_struct
     [(Abi_ref, ''r0''), (Abi_i32, ''i1''), (Abi_i32, ''i2''), (Abi_i32, ''i3'')]"

definition iree_vm_abi_riiii_t :: abi_struct where
  "iree_vm_abi_riiii_t = fixed_struct
     [(Abi_ref, ''r0''), (Abi_i32, ''i1''), (Abi_i32, ''i2''), (Abi_i32, ''i3''),
      (Abi_i32, ''i4'')]"

definition iree_vm_abi_riiIi_t :: abi_struct where
  "iree_vm_abi_riiIi_t = fixed_struct
     [(Abi_ref, ''r0''), (Abi_i32, ''i1''), (Abi_i32, ''i2''), (Abi_i64, ''i3''),
      (Abi_i32, ''i4'')]"

definition iree_vm_abi_riiI_t :: abi_struct where
  "iree_vm_abi_riiI_t = fixed_struct
     [(Abi_ref, ''r0''), (Abi_i32, ''i1''), (Abi_i32, ''i2''), (Abi_i64, ''i3'')]"

definition iree_vm_abi_iirII_t :: abi_struct where
  "iree_vm_abi_iirII_t = fixed_struct
     [(Abi_i32, ''i0''), (Abi_i32, ''i1''), (Abi_ref, ''r2''), (Abi_i64, ''i3''),
      (Abi_i64, ''i4'')]"

definition iree_vm_abi_rIiiI_t :: abi_struct where
  "iree_vm_abi_rIiiI_t = fixed_struct
     [(Abi_ref, ''r0''), (Abi_i64, ''i1''), (Abi_i32, ''i2''), (Abi_i32, ''i3''),
      (Abi_i64, ''i4'')]"

definition iree_vm_abi_riIiirII_t :: abi_struct where
  "iree_vm_abi_riIiirII_t = fixed_struct
     [(Abi_ref, ''r0''), (Abi_i32, ''i1''), (Abi_i64, ''i2''), (Abi_i32, ''i3''),
      (Abi_i32, ''i4''), (Abi_ref, ''r5''), (Abi_i64, ''i6''), (Abi_i64, ''i7'')]"

definition iree_vm_abi_rriiiirrIIIII_t :: abi_struct where
  "iree_vm_abi_rriiiirrIIIII_t = fixed_struct
     [(Abi_ref, ''r0''), (Abi_ref, ''r1''), (Abi_i32, ''i2''), (Abi_i32, ''i3''),
      (Abi_i32, ''i4''), (Abi_i32, ''i5''), (Abi_ref, ''r6''), (Abi_ref, ''r7''),
      (Abi_i64, ''i8''), (Abi_i64, ''i9''), (Abi_i64, ''i10''), (Abi_i64, ''i11''),
      (Abi_i64, ''i12'')]"

definition iree_vm_abi_rriiiiI_t :: abi_struct where
  "iree_vm_abi_rriiiiI_t = fixed_struct
     [(Abi_ref, ''r0''), (Abi_ref, ''r1''), (Abi_i32, ''i2''), (Abi_i32, ''i3''),
      (Abi_i32, ''i4''), (Abi_i32, ''i5''), (Abi_i64, ''i6'')]"

definition iree_vm_abi_rrIIiii_t :: abi_struct where
  "iree_vm_abi_rrIIiii_t = fixed_struct
     [(Abi_ref, ''r0''), (Abi_ref, ''r1''), (Abi_i64, ''i2''), (Abi_i64, ''i3''),
      (Abi_i32, ''i4''), (Abi_i32, ''i5''), (Abi_i32, ''i6'')]"

definition iree_vm_abi_rrirI_t :: abi_struct where
  "iree_vm_abi_rrirI_t = fixed_struct
     [(Abi_ref, ''r0''), (Abi_ref, ''r1''), (Abi_i32, ''i2''), (Abi_ref, ''r3''),
      (Abi_i64, ''i4'')]"

definition iree_vm_abi_rriirII_t :: abi_struct where
  "iree_vm_abi_rriirII_t = fixed_struct
     [(Abi_ref, ''r0''), (Abi_ref, ''r1''), (Abi_i32, ''i2''), (Abi_i32, ''i3''),
      (Abi_ref, ''r4''), (Abi_i64, ''i5''), (Abi_i64, ''i6'')]"

definition iree_vm_abi_rrIrIIi_t :: abi_struct where
  "iree_vm_abi_rrIrIIi_t = fixed_struct
     [(Abi_ref, ''r0''), (Abi_ref, ''r1''), (Abi_i64, ''i2''), (Abi_ref, ''r3''),
      (Abi_i64, ''i4''), (Abi_i64, ''i5''), (Abi_i32, ''i6'')]"

definition iree_vm_abi_riirIrII_t :: abi_struct where
  "iree_vm_abi_riirIrII_t = fixed_struct
     [(Abi_ref, ''r0''), (Abi_i32, ''i1''), (Abi_i32, ''i2''), (Abi_ref, ''r3''),
      (Abi_i64, ''i4''), (Abi_ref, ''r5''), (Abi_i64, ''i6''), (Abi_i64, ''i7'')]"

definition iree_vm_abi_rrIii_t :: abi_struct where
  "iree_vm_abi_rrIii_t = fixed_struct
     [(Abi_ref, ''r0''), (Abi_ref, ''r1''), (Abi_i64, ''i2''), (Abi_i32, ''i3''),
      (Abi_i32, ''i4'')]"

definition iree_vm_abi_rrrIii_t :: abi_struct where
  "iree_vm_abi_rrrIii_t = fixed_struct
     [(Abi_ref, ''r0''), (Abi_ref, ''r1''), (Abi_ref, ''r2''), (Abi_i64, ''i3''),
      (Abi_i32, ''i4''), (Abi_i32, ''i5'')]"

definition iree_vm_abi_rIrriiiI_t :: abi_struct where
  "iree_vm_abi_rIrriiiI_t = fixed_struct
     [(Abi_ref, ''r0''), (Abi_i64, ''i1''), (Abi_ref, ''r2''), (Abi_ref, ''r3''),
      (Abi_i32, ''i4''), (Abi_i32, ''i5''), (Abi_i32, ''i6''), (Abi_i64, ''i7'')]"

definition iree_vm_abi_rIrrrIrIIi_t :: abi_struct where
  "iree_vm_abi_rIrrrIrIIi_t = fixed_struct
     [(Abi_ref, ''r0''), (Abi_i64, ''i1''), (Abi_ref, ''r2''), (Abi_ref, ''r3''),
      (Abi_ref, ''r4''), (Abi_i64, ''i5''), (Abi_ref, ''r6''), (Abi_i64, ''i7''),
      (Abi_i64, ''i8''), (Abi_i32, ''i9'')]"

definition iree_vm_abi_rIrrrrrrr_t :: abi_struct where
  "iree_vm_abi_rIrrrrrrr_t = fixed_struct
     [(Abi_ref, ''r0''), (Abi_i64, ''i1''), (Abi_ref, ''r2''), (Abi_ref, ''r3''),
      (Abi_ref, ''r4''), (Abi_ref, ''r5''), (Abi_ref, ''r6''), (Abi_ref, ''r7''),
      (Abi_ref, ''r8'')]"

definition iree_vm_abi_rIrrrIiirrr_t :: abi_struct where
  "iree_vm_abi_rIrrrIiirrr_t = fixed_struct
     [(Abi_ref, ''r0''), (Abi_i64, ''i1''), (Abi_ref, ''r2''), (Abi_ref, ''r3''),
      (Abi_ref, ''r4''), (Abi_i64, ''i5''), (Abi_i32, ''i6''), (Abi_i32, ''i7''),
      (Abi_ref, ''r8''), (Abi_ref, ''r9''), (Abi_ref, ''r10'')]"

definition iree_vm_abi_rIrrr_t :: abi_struct where
  "iree_vm_abi_rIrrr_t = fixed_struct
     [(Abi_ref, ''r0''), (Abi_i64, ''i1''), (Abi_ref, ''r2''), (Abi_ref, ''r3''),
      (Abi_ref, ''r4'')]"

definition iree_vm_abi_rIrrCrD_t :: abi_struct where
  "iree_vm_abi_rIrrCrD_t = vla_struct
     [(Abi_ref, ''r0''), (Abi_i64, ''i1''), (Abi_ref, ''r2''),
      (Abi_ref, ''r3'')] ''a4_count'' ''a4'' iree_vm_abi_r_t"

definition iree_vm_abi_rIrrrCrIID_t :: abi_struct where
  "iree_vm_abi_rIrrrCrIID_t = vla_struct
     [(Abi_ref, ''r0''), (Abi_i64, ''i1''), (Abi_ref, ''r2''), (Abi_ref, ''r3''),
      (Abi_ref, ''r4'')] ''a5_count'' ''a5'' iree_vm_abi_rII_t"

definition iree_vm_abi_rCiD_t :: abi_struct where
  "iree_vm_abi_rCiD_t = vla_struct
     [(Abi_ref, ''r0'')] ''a1_count'' ''a1'' iree_vm_abi_i_t"

definition iree_vm_abi_rCrD_t :: abi_struct where
  "iree_vm_abi_rCrD_t = vla_struct
     [(Abi_ref, ''r0'')] ''a1_count'' ''a1'' iree_vm_abi_r_t"

definition iree_vm_abi_riCiD_t :: abi_struct where
  "iree_vm_abi_riCiD_t = vla_struct
     [(Abi_ref, ''r0''), (Abi_i32, ''i1'')] ''a2_count'' ''a2'' iree_vm_abi_i_t"

definition iree_vm_abi_rIIiiCID_t :: abi_struct where
  "iree_vm_abi_rIIiiCID_t = vla_struct
     [(Abi_ref, ''r0''), (Abi_i64, ''i1''), (Abi_i64, ''i2''), (Abi_i32, ''i3''),
      (Abi_i32, ''i4'')] ''a5_count'' ''a5'' iree_vm_abi_I_t"

definition iree_vm_abi_rriiCID_t :: abi_struct where
  "iree_vm_abi_rriiCID_t = vla_struct
     [(Abi_ref, ''r0''), (Abi_ref, ''r1''), (Abi_i32, ''i2''),
      (Abi_i32, ''i3'')] ''a4_count'' ''a4'' iree_vm_abi_I_t"

definition iree_vm_abi_riCrD_t :: abi_struct where
  "iree_vm_abi_riCrD_t = vla_struct
     [(Abi_ref, ''r0''), (Abi_i32, ''i1'')] ''a2_count'' ''a2'' iree_vm_abi_r_t"

definition iree_vm_abi_riiCriD_t :: abi_struct where
  "iree_vm_abi_riiCriD_t = vla_struct
     [(Abi_ref, ''r0''), (Abi_i32, ''i1''), (Abi_i32, ''i2'')] ''a3_count'' ''a3'' iree_vm_abi_ri_t"

definition iree_vm_abi_rirCrD_t :: abi_struct where
  "iree_vm_abi_rirCrD_t = vla_struct
     [(Abi_ref, ''r0''), (Abi_i32, ''i1''), (Abi_ref, ''r2'')] ''a3_count'' ''a3'' iree_vm_abi_r_t"

definition iree_vm_abi_rrrr_t :: abi_struct where
  "iree_vm_abi_rrrr_t = fixed_struct
     [(Abi_ref, ''r0''), (Abi_ref, ''r1''), (Abi_ref, ''r2''), (Abi_ref, ''r3'')]"

definition iree_vm_abi_rrrrCrD_t :: abi_struct where
  "iree_vm_abi_rrrrCrD_t = vla_struct
     [(Abi_ref, ''r0''), (Abi_ref, ''r1''), (Abi_ref, ''r2''),
      (Abi_ref, ''r3'')] ''a4_count'' ''a4'' iree_vm_abi_r_t"

definition iree_vm_abi_rriCiD_t :: abi_struct where
  "iree_vm_abi_rriCiD_t = vla_struct
     [(Abi_ref, ''r0''), (Abi_ref, ''r1''), (Abi_i32, ''i2'')] ''a3_count'' ''a3'' iree_vm_abi_i_t"

definition iree_vm_abi_rrirCID_t :: abi_struct where
  "iree_vm_abi_rrirCID_t = vla_struct
     [(Abi_ref, ''r0''), (Abi_ref, ''r1''), (Abi_i32, ''i2''),
      (Abi_ref, ''r3'')] ''a4_count'' ''a4'' iree_vm_abi_I_t"

definition iree_vm_abi_riCiiiD_t :: abi_struct where
  "iree_vm_abi_riCiiiD_t = vla_struct
     [(Abi_ref, ''r0''), (Abi_i32, ''i1'')] ''a2_count'' ''a2'' iree_vm_abi_iii_t"

definition iree_vm_abi_rrCrIID_t :: abi_struct where
  "iree_vm_abi_rrCrIID_t = vla_struct
     [(Abi_ref, ''r0''), (Abi_ref, ''r1'')] ''a2_count'' ''a2'' iree_vm_abi_rII_t"

definition iree_vm_abi_rriCiirIID_t :: abi_struct where
  "iree_vm_abi_rriCiirIID_t = vla_struct
     [(Abi_ref, ''r0''), (Abi_ref, ''r1''),
      (Abi_i32, ''i2'')] ''a3_count'' ''a3'' iree_vm_abi_iirII_t"

definition iree_vm_abi_CrD_t :: abi_struct where
  "iree_vm_abi_CrD_t = vla_struct
     [] ''a0_count'' ''a0'' iree_vm_abi_r_t"

definition iree_vm_abi_CrID_t :: abi_struct where
  "iree_vm_abi_CrID_t = vla_struct
     [] ''a0_count'' ''a0'' iree_vm_abi_rI_t"

definition iree_vm_abi_iCrD_t :: abi_struct where
  "iree_vm_abi_iCrD_t = vla_struct
     [(Abi_i32, ''i0'')] ''a1_count'' ''a1'' iree_vm_abi_r_t"

text \<open>The structures of the header under the names of their types.\<close>

definition abi_structs :: "(string \<times> abi_struct) list" where
  "abi_structs =
     [(''i'', iree_vm_abi_i_t), (''I'', iree_vm_abi_I_t), (''f'', iree_vm_abi_f_t),
      (''ii'', iree_vm_abi_ii_t), (''iI'', iree_vm_abi_iI_t), (''II'', iree_vm_abi_II_t),
      (''IIi'', iree_vm_abi_IIi_t), (''iii'', iree_vm_abi_iii_t), (''iiii'', iree_vm_abi_iiii_t),
      (''irIi'', iree_vm_abi_irIi_t), (''irII'', iree_vm_abi_irII_t), (''r'', iree_vm_abi_r_t),
      (''rr'', iree_vm_abi_rr_t), (''rrr'', iree_vm_abi_rrr_t), (''ri'', iree_vm_abi_ri_t),
      (''rI'', iree_vm_abi_rI_t), (''ririi'', iree_vm_abi_ririi_t), (''rii'', iree_vm_abi_rii_t),
      (''rIi'', iree_vm_abi_rIi_t), (''rIirrii'', iree_vm_abi_rIirrii_t),
      (''rIirIIi'', iree_vm_abi_rIirIIi_t), (''rII'', iree_vm_abi_rII_t), (''rif'', iree_vm_abi_rif_t),
      (''riii'', iree_vm_abi_riii_t), (''riiii'', iree_vm_abi_riiii_t), (''riiIi'', iree_vm_abi_riiIi_t),
      (''riiI'', iree_vm_abi_riiI_t), (''iirII'', iree_vm_abi_iirII_t), (''rIiiI'', iree_vm_abi_rIiiI_t),
      (''riIiirII'', iree_vm_abi_riIiirII_t), (''rriiiirrIIIII'', iree_vm_abi_rriiiirrIIIII_t),
      (''rriiiiI'', iree_vm_abi_rriiiiI_t), (''rrIIiii'', iree_vm_abi_rrIIiii_t),
      (''rrirI'', iree_vm_abi_rrirI_t), (''rriirII'', iree_vm_abi_rriirII_t),
      (''rrIrIIi'', iree_vm_abi_rrIrIIi_t), (''riirIrII'', iree_vm_abi_riirIrII_t),
      (''rrIii'', iree_vm_abi_rrIii_t), (''rrrIii'', iree_vm_abi_rrrIii_t),
      (''rIrriiiI'', iree_vm_abi_rIrriiiI_t), (''rIrrrIrIIi'', iree_vm_abi_rIrrrIrIIi_t),
      (''rIrrrrrrr'', iree_vm_abi_rIrrrrrrr_t), (''rIrrrIiirrr'', iree_vm_abi_rIrrrIiirrr_t),
      (''rIrrr'', iree_vm_abi_rIrrr_t), (''rIrrCrD'', iree_vm_abi_rIrrCrD_t),
      (''rIrrrCrIID'', iree_vm_abi_rIrrrCrIID_t), (''rCiD'', iree_vm_abi_rCiD_t),
      (''rCrD'', iree_vm_abi_rCrD_t), (''riCiD'', iree_vm_abi_riCiD_t),
      (''rIIiiCID'', iree_vm_abi_rIIiiCID_t), (''rriiCID'', iree_vm_abi_rriiCID_t),
      (''riCrD'', iree_vm_abi_riCrD_t), (''riiCriD'', iree_vm_abi_riiCriD_t),
      (''rirCrD'', iree_vm_abi_rirCrD_t), (''rrrr'', iree_vm_abi_rrrr_t),
      (''rrrrCrD'', iree_vm_abi_rrrrCrD_t), (''rriCiD'', iree_vm_abi_rriCiD_t),
      (''rrirCID'', iree_vm_abi_rrirCID_t), (''riCiiiD'', iree_vm_abi_riCiiiD_t),
      (''rrCrIID'', iree_vm_abi_rrCrIID_t), (''rriCiirIID'', iree_vm_abi_rriCiirIID_t),
      (''CrD'', iree_vm_abi_CrD_t), (''CrID'', iree_vm_abi_CrID_t), (''iCrD'', iree_vm_abi_iCrD_t)]"

lemmas abi_struct_defs =
  iree_vm_abi_i_t_def iree_vm_abi_I_t_def iree_vm_abi_f_t_def iree_vm_abi_ii_t_def
  iree_vm_abi_iI_t_def iree_vm_abi_II_t_def iree_vm_abi_IIi_t_def iree_vm_abi_iii_t_def
  iree_vm_abi_iiii_t_def iree_vm_abi_irIi_t_def iree_vm_abi_irII_t_def iree_vm_abi_r_t_def
  iree_vm_abi_rr_t_def iree_vm_abi_rrr_t_def iree_vm_abi_ri_t_def iree_vm_abi_rI_t_def
  iree_vm_abi_ririi_t_def iree_vm_abi_rii_t_def iree_vm_abi_rIi_t_def iree_vm_abi_rIirrii_t_def
  iree_vm_abi_rIirIIi_t_def iree_vm_abi_rII_t_def iree_vm_abi_rif_t_def iree_vm_abi_riii_t_def
  iree_vm_abi_riiii_t_def iree_vm_abi_riiIi_t_def iree_vm_abi_riiI_t_def iree_vm_abi_iirII_t_def
  iree_vm_abi_rIiiI_t_def iree_vm_abi_riIiirII_t_def iree_vm_abi_rriiiirrIIIII_t_def
  iree_vm_abi_rriiiiI_t_def iree_vm_abi_rrIIiii_t_def iree_vm_abi_rrirI_t_def
  iree_vm_abi_rriirII_t_def iree_vm_abi_rrIrIIi_t_def iree_vm_abi_riirIrII_t_def
  iree_vm_abi_rrIii_t_def iree_vm_abi_rrrIii_t_def iree_vm_abi_rIrriiiI_t_def
  iree_vm_abi_rIrrrIrIIi_t_def iree_vm_abi_rIrrrrrrr_t_def iree_vm_abi_rIrrrIiirrr_t_def
  iree_vm_abi_rIrrr_t_def iree_vm_abi_rIrrCrD_t_def iree_vm_abi_rIrrrCrIID_t_def
  iree_vm_abi_rCiD_t_def iree_vm_abi_rCrD_t_def iree_vm_abi_riCiD_t_def iree_vm_abi_rIIiiCID_t_def
  iree_vm_abi_rriiCID_t_def iree_vm_abi_riCrD_t_def iree_vm_abi_riiCriD_t_def
  iree_vm_abi_rirCrD_t_def iree_vm_abi_rrrr_t_def iree_vm_abi_rrrrCrD_t_def iree_vm_abi_rriCiD_t_def
  iree_vm_abi_rrirCID_t_def iree_vm_abi_riCiiiD_t_def iree_vm_abi_rrCrIID_t_def
  iree_vm_abi_rriCiirIID_t_def iree_vm_abi_CrD_t_def iree_vm_abi_CrID_t_def iree_vm_abi_iCrD_t_def

section \<open>Names and layouts\<close>

text \<open>The calling convention a structure stands for, and the names its fields should have.\<close>

primrec abi_letter :: "abi_type \<Rightarrow> char" where
  "abi_letter Abi_i32 = CHR ''i''"
| "abi_letter Abi_i64 = CHR ''I''"
| "abi_letter Abi_f32 = CHR ''f''"
| "abi_letter Abi_ref = CHR ''r''"

definition fields_conv :: "abi_field list \<Rightarrow> string" where
  "fields_conv fs = map (\<lambda>(t, _). abi_letter t) fs"

definition abi_conv :: "abi_struct \<Rightarrow> string" where
  "abi_conv S =
     fields_conv (abi_fields S) @
     (case abi_vla S of None \<Rightarrow> '''' | Some (_, _, element) \<Rightarrow> ''C'' @ fields_conv element @ ''D'')"

definition decimal_2 :: "nat \<Rightarrow> string" where
  "decimal_2 n = (if n < 10 then [char_of (48 + n)] else [char_of (48 + n div 10), char_of (48 + n mod 10)])"

primrec field_letter :: "abi_type \<Rightarrow> char" where
  "field_letter Abi_i32 = CHR ''i''"
| "field_letter Abi_i64 = CHR ''i''"
| "field_letter Abi_f32 = CHR ''f''"
| "field_letter Abi_ref = CHR ''r''"

definition fields_numbered :: "abi_field list \<Rightarrow> bool" where
  "fields_numbered fs \<longleftrightarrow> list_all (\<lambda>(i, t, n). n = field_letter t # decimal_2 i) (enumerate 0 fs)"

definition well_named :: "abi_struct \<Rightarrow> bool" where
  "well_named S \<longleftrightarrow> fields_numbered (abi_fields S) \<and>
     (case abi_vla S of
        None \<Rightarrow> True
      | Some (vla_count, vla_field, element) \<Rightarrow>
          vla_field = CHR ''a'' # decimal_2 (length (abi_fields S)) \<and> vla_count = vla_field @ ''_count'' \<and>
          fields_numbered element \<and> element \<noteq> [])"

text \<open>
  Every structure of the header has the layout its name announces: the letters of the name are
  the types of the fields in order, with the element type of a trailing array between \<open>C\<close> and
  \<open>D\<close>, every field carries its position, and no name is given twice.
\<close>

theorem structures_follow_their_names:
  "list_all (\<lambda>(name, S). abi_conv S = name \<and> well_named S) abi_structs \<and> distinct (map fst abi_structs)"
proof
  show "list_all (\<lambda>(name, S). abi_conv S = name \<and> well_named S) abi_structs" by code_simp
  show "distinct (map fst abi_structs)" by code_simp
qed

section \<open>Packed buffers\<close>

lemma sizeof_fields_simps [simp]:
  "sizeof_fields [] = 0" "sizeof_fields (f # fs) = abi_type_size (fst f) + sizeof_fields fs"
  by (simp_all add: sizeof_fields_def case_prod_beta)

lemma fields_conv_simps [simp]:
  "fields_conv [] = []" "fields_conv (f # fs) = abi_letter (fst f) # fields_conv fs"
  by (simp_all add: fields_conv_def case_prod_beta)

lemma no_D_in_fields: "CHR ''D'' \<notin> set (fields_conv fs)"
proof (induction fs)
  case (Cons f fs)
  then show ?case by (cases "fst f") simp_all
qed simp

inductive_simps conv_packs_Nil: "conv_packs [] bs"
inductive_simps conv_packs_Cons: "conv_packs (c # s) bs"
inductive_simps conv_repeats_0: "conv_repeats 0 s bs"
inductive_simps conv_repeats_Suc: "conv_repeats (Suc n) s bs"

lemma append_split:
  "(\<exists>b bs'. bs = b @ bs' \<and> length b = k \<and> P bs') \<longleftrightarrow> k \<le> length bs \<and> P (drop k bs)"
proof
  assume "k \<le> length bs \<and> P (drop k bs)"
  then show "\<exists>b bs'. bs = b @ bs' \<and> length b = k \<and> P bs'"
    by (intro exI [of _ "take k bs"] exI [of _ "drop k bs"]) simp
qed auto

lemma conv_packs_field:
  "conv_packs (abi_letter t # s) bs \<longleftrightarrow> abi_type_size t \<le> length bs \<and> conv_packs s (drop (abi_type_size t) bs)"
  unfolding append_split [symmetric] by (cases t) (auto simp: conv_packs_Cons)

lemma conv_packs_fields:
  "conv_packs (fields_conv fs @ s) bs \<longleftrightarrow> sizeof_fields fs \<le> length bs \<and> conv_packs s (drop (sizeof_fields fs) bs)"
  by (induction fs arbitrary: bs) (auto simp: conv_packs_field add.commute)

lemma fields_packed: "conv_packs (fields_conv fs) bs \<longleftrightarrow> length bs = sizeof_fields fs"
  using conv_packs_fields [of fs "[]" bs] by (auto simp: conv_packs_Nil)

lemma fields_repeated: "conv_repeats n (fields_conv fs) bs \<longleftrightarrow> length bs = n * sizeof_fields fs"
proof (induction n arbitrary: bs)
  case (Suc n)
  have "conv_repeats (Suc n) (fields_conv fs) bs \<longleftrightarrow>
      (\<exists>b bs'. bs = b @ bs' \<and> length b = sizeof_fields fs \<and> length bs' = n * sizeof_fields fs)"
    by (auto simp: conv_repeats_Suc fields_packed Suc)
  also have "\<dots> \<longleftrightarrow> length bs = Suc n * sizeof_fields fs"
    unfolding append_split by auto
  finally show ?case .
qed (simp add: conv_repeats_0)

lemma array_packed:
  "conv_packs (CHR ''C'' # fields_conv el @ ''D'') bs \<longleftrightarrow>
     (\<exists>n b. n < 2 ^ 31 \<and> bs = le_bytes 4 (of_nat n :: u32) @ b \<and> length b = n * sizeof_fields el)"
proof
  assume "conv_packs (CHR ''C'' # fields_conv el @ ''D'') bs"
  then obtain n s b s' bs' where p: "fields_conv el @ ''D'' = s @ CHR ''D'' # s'" "conv_repeats n s b" "n < 2 ^ 31"
    "conv_packs s' bs'" "bs = le_bytes 4 (of_nat n :: u32) @ b @ bs'"
    by (auto simp: conv_packs_Cons)
  have "count_list (fields_conv el @ ''D'') (CHR ''D'') = 1" using no_D_in_fields by (simp add: count_list_0_iff)
  then have "CHR ''D'' \<notin> set s" unfolding p(1) by (simp add: count_list_0_iff)
  then have "takeWhile (\<lambda>c. c \<noteq> CHR ''D'') (s @ CHR ''D'' # s') = s" by (subst takeWhile_append2) auto
  moreover have "takeWhile (\<lambda>c. c \<noteq> CHR ''D'') (fields_conv el @ ''D'') = fields_conv el"
    using no_D_in_fields [of el] by (subst takeWhile_append2) auto
  ultimately have "s = fields_conv el" using p(1) by simp
  moreover from this have "s' = []" using p(1) by simp
  ultimately show "\<exists>n b. n < 2 ^ 31 \<and> bs = le_bytes 4 (of_nat n :: u32) @ b \<and> length b = n * sizeof_fields el"
    using p by (auto simp: conv_packs_Nil fields_repeated)
next
  assume "\<exists>n b. n < 2 ^ 31 \<and> bs = le_bytes 4 (of_nat n :: u32) @ b \<and> length b = n * sizeof_fields el"
  then obtain n b where n: "n < 2 ^ 31" "bs = le_bytes 4 (of_nat n :: u32) @ b" "length b = n * sizeof_fields el" by blast
  have "conv_packs (CHR ''C'' # fields_conv el @ CHR ''D'' # []) (le_bytes 4 (of_nat n :: u32) @ b @ [])"
    using n by (intro conv_span conv_nil) (simp add: fields_repeated)
  then show "conv_packs (CHR ''C'' # fields_conv el @ ''D'') bs" using n by simp
qed

lemma small_of_int_eq:
  assumes "\<bar>a - b\<bar> < 2 ^ 64"
  shows "(of_int a :: u64) = of_int b \<longleftrightarrow> a = b"
proof
  assume "(of_int a :: u64) = of_int b"
  then have "2 ^ 64 dvd a - b" unfolding mod_eq_dvd_iff [symmetric] by (rule word_of_int_mod)
  then show "a = b" using assms dvd_imp_le_int [of "a - b" "2 ^ 64"] by auto
qed simp

lemma vla_size_eq:
  assumes "l < 2 ^ 62" "f < 2 ^ 8" "el < 2 ^ 8"
  shows "(of_nat l :: u64) = of_nat f + scast (count :: u32) * of_nat el \<longleftrightarrow> int l = int f + sint count * int el"
proof -
  have n: "- (2 ^ 31) \<le> sint count" "sint count < 2 ^ 31" using sint_ge [of count] sint_lt [of count] by simp_all
  have "\<bar>sint count * int el\<bar> \<le> 2 ^ 31 * 2 ^ 8"
    unfolding abs_mult using n assms(3) by (intro mult_mono) auto
  then have "\<bar>int l - (int f + sint count * int el)\<bar> < 2 ^ 64" using assms(1,2) by (simp add: abs_less_iff abs_le_iff)
  from small_of_int_eq [OF this] show ?thesis
    by (simp only: scast_eq of_int_add of_int_mult of_int_of_nat_eq)
qed

text \<open>What the calling convention says of the counter in a buffer.\<close>

lemma vla_packed:
  assumes S: "abi_vla S = Some (c, a, el)" "0 < sizeof_fields el"
  shows "conv_packs (abi_conv S) bs \<longleftrightarrow>
    (\<exists>count. read_vla_count S bs = Inr count \<and>
       int (length bs) = int (sizeof_struct S) + sint count * int (sizeof_fields el))"
proof -
  let ?f = "sizeof_fields (abi_fields S)"
  have sz: "sizeof_struct S = ?f + 4" using S by (simp add: sizeof_struct_def)
  have conv: "conv_packs (abi_conv S) bs \<longleftrightarrow> ?f \<le> length bs \<and>
      (\<exists>n b. n < 2 ^ 31 \<and> drop ?f bs = le_bytes 4 (of_nat n :: u32) @ b \<and> length b = n * sizeof_fields el)"
    using S(1) by (simp add: abi_conv_def conv_packs_fields array_packed)
  have count: "read_vla_count S bs = Inr count \<longleftrightarrow> ?f + 4 \<le> length bs \<and> count = of_le (take 4 (drop ?f bs))" for count
    by (auto simp: read_vla_count_def read_bytes_def)
  show ?thesis
  proof
    assume "conv_packs (abi_conv S) bs"
    then obtain n b where n: "?f \<le> length bs" "n < 2 ^ 31" "drop ?f bs = le_bytes 4 (of_nat n :: u32) @ b"
      "length b = n * sizeof_fields el"
      unfolding conv by blast
    have "length bs = ?f + 4 + n * sizeof_fields el" using arg_cong [OF n(3), of length] n(1,4) by simp
    moreover have "sint (of_nat n :: u32) = int n" using n(2) by (simp add: signed_of_nat signed_take_bit_int_eq_self)
    ultimately show "\<exists>count. read_vla_count S bs = Inr count \<and>
       int (length bs) = int (sizeof_struct S) + sint count * int (sizeof_fields el)"
      using n(3) by (intro exI [of _ "of_nat n"]) (simp add: count sz of_le_le_bytes)
  next
    assume "\<exists>count. read_vla_count S bs = Inr count \<and>
       int (length bs) = int (sizeof_struct S) + sint count * int (sizeof_fields el)"
    then obtain w :: u32 where w: "?f + 4 \<le> length bs" "w = of_le (take 4 (drop ?f bs))"
      "int (length bs) = int (?f + 4) + sint w * int (sizeof_fields el)"
      by (auto simp: count sz)
    have "0 \<le> sint w * int (sizeof_fields el)" using w(1,3) by linarith
    then have pos: "0 \<le> sint w" using S(2) by (simp add: zero_le_mult_iff)
    have "int (length (drop (?f + 4) bs)) = int (nat (sint w) * sizeof_fields el)" using w(1,3) pos by simp
    then have "length (drop (?f + 4) bs) = nat (sint w) * sizeof_fields el" by (simp only: of_nat_eq_iff)
    moreover have "drop ?f bs = le_bytes 4 w @ drop (?f + 4) bs"
      using append_take_drop_id [of 4 "drop ?f bs"] le_bytes_of_le [of "take 4 (drop ?f bs)", where 'a = 32] w(1,2)
      by (simp add: add.commute)
    moreover have "(of_nat (nat (sint w)) :: u32) = w" "nat (sint w) < 2 ^ 31"
      using pos sint_lt [of w] by simp_all
    ultimately show "conv_packs (abi_conv S) bs"
      unfolding conv using w(1) by (intro conjI exI [of _ "nat (sint w)"] exI [of _ "drop (?f + 4) bs"]) simp_all
  qed
qed

text \<open>A checked cast accepts a buffer just when it is packed according to the convention.\<close>

lemma vla_deref:
  assumes S: "abi_vla S = Some (c, a, el)" "0 < sizeof_fields el" "sizeof_fields el < 2 ^ 8" "sizeof_struct S < 2 ^ 8"
    and l: "length bs < 2 ^ 62"
  shows "abi_checked_deref S \<lparr>span_data = Some bs, span_length = of_nat (length bs)\<rparr> =
    Inr (if conv_packs (abi_conv S) bs then Some bs else None)"
proof -
  have sz: "sizeof_struct S = sizeof_fields (abi_fields S) + 4" using S by (simp add: sizeof_struct_def)
  have lt: "(of_nat (length bs) :: u64) < of_nat (sizeof_struct S) \<longleftrightarrow> length bs < sizeof_struct S"
    using S(4) l by (simp add: word_less_nat_alt unat_of_nat)
  show ?thesis
  proof (cases "length bs < sizeof_struct S")
    case True
    then have "\<not> conv_packs (abi_conv S) bs"
      unfolding vla_packed [OF S(1,2)] by (simp add: sz read_vla_count_def read_bytes_def)
    then show ?thesis using True S(1) lt by (simp add: abi_checked_deref_def)
  next
    case False
    then obtain w where w: "read_vla_count S bs = Inr w"
      by (auto simp: sz read_vla_count_def read_bytes_def)
    then show ?thesis
      using False S(1) lt vla_size_eq [OF l S(4,3), of w]
      by (simp add: abi_checked_deref_def vla_packed [OF S(1,2)])
  qed
qed

lemma fixed_deref:
  assumes "abi_vla S = None" "sizeof_struct S < 2 ^ 8" "length bs < 2 ^ 62"
  shows "abi_checked_deref S \<lparr>span_data = Some bs, span_length = of_nat (length bs)\<rparr> =
    Inr (if conv_packs (abi_conv S) bs then Some bs else None)"
proof -
  have "(of_nat (length bs) :: u64) = of_nat (sizeof_struct S) \<longleftrightarrow> length bs = sizeof_struct S"
    using assms(2,3) by (intro of_nat_word_inj) simp_all
  then show ?thesis
    using assms(1) by (simp add: abi_checked_deref_def abi_conv_def fields_packed sizeof_struct_def)
qed

definition small_struct :: "abi_struct \<Rightarrow> bool" where
  "small_struct S \<longleftrightarrow> sizeof_struct S < 2 ^ 8 \<and>
     (case abi_vla S of None \<Rightarrow> True | Some (_, _, el) \<Rightarrow> 0 < sizeof_fields el \<and> sizeof_fields el < 2 ^ 8)"

lemma structs_small: "list_all (\<lambda>(name, S). small_struct S \<and> abi_conv S = name) abi_structs"
  by code_simp

lemma struct_deref:
  assumes "(name, S) \<in> set abi_structs" "length bs < 2 ^ 62"
  shows "abi_checked_deref S \<lparr>span_data = Some bs, span_length = of_nat (length bs)\<rparr> =
    Inr (if conv_packs name bs then Some bs else None)"
proof -
  have S: "small_struct S" "abi_conv S = name" using assms(1) structs_small by (auto simp: list_all_iff)
  show ?thesis
    using S assms(2) fixed_deref [of S bs] vla_deref [of S _ _ _ bs]
    by (cases "abi_vla S") (auto simp: small_struct_def)
qed

text \<open>
  C15. The checked cast of a structure of the header accepts a buffer exactly when it is packed according to the
  calling convention in the name of the structure, the same convention by which the C++ templates unpack it;
  a negative or a wrong number of array elements is refused, and no read is out of bounds.
\<close>

theorem checked_deref_accepts_packed_buffers:
  assumes "(name, S) \<in> set abi_structs" "length bs < 2 ^ 62"
  shows "abi_checked_deref S \<lparr>span_data = Some bs, span_length = of_nat (length bs)\<rparr> =
    Inr (if conv_packs name bs then Some bs else None)"
  by (rule struct_deref [OF assms])

text \<open>The structure of a reference and an array of one integer.\<close>

theorem checked_deref_accepts_packed_buffers_witness:
  "abi_checked_deref iree_vm_abi_rCiD_t \<lparr>span_data = Some (replicate 16 0 @ [1, 0, 0, 0] @ [7, 0, 0, 0]),
      span_length = 24\<rparr> =
    Inr (if conv_packs ''rCiD'' (replicate 16 0 @ [1, 0, 0, 0] @ [7, 0, 0, 0])
         then Some (replicate 16 0 @ [1, 0, 0, 0] @ [7, 0, 0, 0]) else None)"
  using checked_deref_accepts_packed_buffers [of "''rCiD''" iree_vm_abi_rCiD_t
      "replicate 16 0 @ [1, 0, 0, 0] @ [7, 0, 0, 0]"]
  by (simp add: abi_structs_def)

section \<open>Calls through a shim\<close>




section \<open>Walking a trailing array\<close>

lemma until_error_all:
  "(\<And>i. i \<in> set is \<Longrightarrow> f i = Inr (if P i then Inr (g i) else Inl e)) \<Longrightarrow>
     until_error f is = Inr (if list_all P is then Inr (map g is) else Inl e)"
  by (induction "is") auto

lemma array_element:
  assumes "length pre = p" "\<And>r x. (r, x) \<in> set xs \<Longrightarrow> length x = k" "i < length xs"
  shows "read_bytes (pre @ concat (map (\<lambda>(r, x). ref_bytes r @ x) xs)) (p + i * (16 + k)) 16 = Inr (ref_bytes (fst (xs ! i)))"
  using assms
proof (induction xs arbitrary: pre p i)
  case (Cons y xs)
  obtain r x where y: "y = (r, x)" by (cases y)
  show ?case
  proof (cases i)
    case 0
    then show ?thesis using Cons.prems(1) y read_bytes_append [of pre p "ref_bytes r" 16] by (simp add: ref_bytes_def)
  next
    case (Suc j)
    have "read_bytes ((pre @ ref_bytes r @ x) @ concat (map (\<lambda>(r, x). ref_bytes r @ x) xs))
        ((p + (16 + k)) + j * (16 + k)) 16 = Inr (ref_bytes (fst (xs ! j)))"
      using Cons.prems y Suc by (intro Cons.IH) (auto simp: ref_bytes_def)
    then show ?thesis using y Suc by (simp add: add.assoc)
  qed
qed simp

text \<open>
  The references of an array come out in order when the count is within the limit and every one has
  the registered type; the first of another type ends the walk with \<open>INVALID_ARGUMENT\<close>.
\<close>

lemma stack_deref:
  assumes S: "abi_vla S = Some (c, a, (Abi_ref, ''r0'') # el)"
    and mem: "length pre = sizeof_fields (abi_fields S)"
      "args = pre @ le_bytes 4 (of_nat (length xs) :: u32) @ concat (map (\<lambda>(r, x). ref_bytes r @ x) xs)"
      "\<And>r x. (r, x) \<in> set xs \<Longrightarrow> length x = sizeof_fields el" "length xs < 2 ^ 31"
  shows "IREE_VM_ABI_VLA_STACK_DEREF S registration max_count args =
    Inr (of_nat (length xs),
      if int (length xs) > sint max_count then Inl IREE_STATUS_OUT_OF_RANGE
      else if list_all (\<lambda>(r, x). ref_type r = registration) xs then Inr (map (\<lambda>(r, x). ref_target r) xs)
      else Inl IREE_STATUS_INVALID_ARGUMENT)"
proof -
  let ?n = "of_nat (length xs) :: u32"
  let ?el = "(Abi_ref, ''r0'') # el"
  have n: "sint ?n = int (length xs)" using mem(4) by (simp add: signed_of_nat signed_take_bit_int_eq_self)
  have un: "unat (scast ?n :: u64) = length xs" using mem(4) by (simp add: scast_eq n unat_of_nat)
  have c: "read_vla_count S args = Inr ?n"
    using mem(1,2) by (simp add: read_vla_count_def read_bytes_append of_le_le_bytes)
  have r: "read_ref_field ?el ''r0'' args (sizeof_struct S + i * sizeof_fields ?el) = Inr (fst (xs ! i))"
    if "i < length xs" for i
    using array_element [of "pre @ le_bytes 4 ?n" "sizeof_struct S" xs "sizeof_fields el" i] that mem S
    by (simp add: read_ref_field_def sizeof_struct_def ref_bytes_def of_le_le_bytes)
  have "until_error (\<lambda>i. bind_res (read_ref_field ?el ''r0'' args (sizeof_struct S + i * sizeof_fields ?el))
        (\<lambda>r. Inr (adapter_check_deref registration r))) [0..<length xs] =
      Inr (if list_all (\<lambda>i. ref_type (fst (xs ! i)) = registration) [0..<length xs]
           then Inr (map (\<lambda>i. ref_target (fst (xs ! i))) [0..<length xs]) else Inl IREE_STATUS_INVALID_ARGUMENT)"
    by (rule until_error_all) (simp add: r adapter_check_deref_def iree_vm_ref_check_def del: sizeof_fields_simps)
  moreover have "list_all (\<lambda>i. ref_type (fst (xs ! i)) = registration) [0..<length xs] \<longleftrightarrow>
      list_all (\<lambda>(r, x). ref_type r = registration) xs"
    by (auto simp: list_all_iff all_set_conv_all_nth case_prod_beta)
  moreover have "map (\<lambda>i. ref_target (fst (xs ! i))) [0..<length xs] = map (\<lambda>(r, x). ref_target r) xs"
    by (rule nth_equalityI) (simp_all add: case_prod_beta)
  ultimately show ?thesis
    using S c by (simp add: IREE_VM_ABI_VLA_STACK_DEREF_def vla_walk_def n un)
qed

end
