(* ===== verification/Vm_Ref_Cc.thy ===== *)
theory Vm_Ref_Cc
  imports Ref_Ptr Vm_Value
begin

text \<open>
  \<open>iree/vm/ref_cc.h\<close>: the C++ wrapper \<open>ref<T>\<close> around \<open>iree_vm_ref_t\<close>, its base class of counted objects,
  the wrapper without a type field that \<open>IREE_VM_DECLARE_CC_TYPE_ADAPTERS\<close> defines for C types, and
  \<open>opaque_ref\<close>. As in \<open>Ref_Ptr\<close> the variables are numbered in the order of their construction. The type
  registered for \<open>T\<close>, which is \<open>ref_type_descriptor<T>::type()\<close>, and the functions \<open>ref_type_retain<T>\<close> and
  \<open>ref_type_release<T>\<close>, which call the runtime library, are arguments. Unlike those of \<open>ref_ptr\<close>, the
  operations call them with null pointers too.
\<close>

section \<open>RefObject\<close>

text \<open>The counters are those of \<open>ref_objects\<close>.\<close>

definition cc_ref_ptr_add_ref :: "ptr \<Rightarrow> (ref_objects, unit) sm" where
  "cc_ref_ptr_add_ref p s =
     (case counters s p of
        None \<Rightarrow> Inl UseAfterFree
      | Some c \<Rightarrow> Inr ((), s\<lparr>counters := (counters s)(p \<mapsto> c + 1)\<rparr>))"

definition cc_ref_ptr_destroy_ref :: "ptr \<Rightarrow> (ref_objects, unit) sm" where
  "cc_ref_ptr_destroy_ref p =
     modify_sm (\<lambda>s. s\<lparr>counters := (counters s)(p := None), deleted := deleted s @ [p]\<rparr>)"

definition cc_ref_ptr_release_ref :: "ptr \<Rightarrow> (ref_objects, unit) sm" where
  "cc_ref_ptr_release_ref p s =
     (case counters s p of
        None \<Rightarrow> Inl UseAfterFree
      | Some previous_count \<Rightarrow>
          (let s = s\<lparr>counters := (counters s)(p \<mapsto> previous_count - 1)\<rparr>
           in if previous_count = 1 then cc_ref_ptr_destroy_ref p s else Inr ((), s)))"

definition cc_RefObject :: "ptr \<Rightarrow> (ref_objects, unit) sm" where
  "cc_RefObject p = bind_sm (modify_sm (\<lambda>s. s\<lparr>counters := (counters s)(p \<mapsto> 0)\<rparr>)) (\<lambda>_. cc_ref_ptr_add_ref p)"

definition IREE_VM_REF_COUNTER_ALIGNMENT :: u64 where "IREE_VM_REF_COUNTER_ALIGNMENT = 4"

text \<open>From the offset of the counter in bytes.\<close>

definition cc_offsetof_counter :: "u64 \<Rightarrow> u64" where
  "cc_offsetof_counter offset = offset div IREE_VM_REF_COUNTER_ALIGNMENT"

section \<open>ref\<close>

record 's cc_state =
  cc_objs :: 's
  cc_refs :: "iree_vm_ref_t option list"

definition on_cc_objs :: "('s, 'a) sm \<Rightarrow> ('s cc_state, 'a) sm" where
  "on_cc_objs m s = (case m (cc_objs s) of Inl e \<Rightarrow> Inl e | Inr (x, o') \<Rightarrow> Inr (x, s\<lparr>cc_objs := o'\<rparr>))"

definition get_ref :: "nat \<Rightarrow> ('s cc_state, iree_vm_ref_t) sm" where
  "get_ref i s =
     (if i < length (cc_refs s)
      then case cc_refs s ! i of None \<Rightarrow> Inl UseAfterFree | Some r \<Rightarrow> Inr (r, s)
      else Inl OutOfBounds)"

definition set_ref :: "nat \<Rightarrow> iree_vm_ref_t option \<Rightarrow> ('s cc_state, unit) sm" where
  "set_ref i v = modify_sm (\<lambda>s. s\<lparr>cc_refs := (cc_refs s)[i := v]\<rparr>)"

definition new_ref :: "iree_vm_ref_t \<Rightarrow> ('s cc_state, unit) sm" where
  "new_ref r = modify_sm (\<lambda>s. s\<lparr>cc_refs := cc_refs s @ [Some r]\<rparr>)"

definition cc_construct_default :: "('s cc_state, unit) sm" where
  "cc_construct_default = new_ref iree_vm_ref_null"

text \<open>\<open>ref(std::nullptr_t)\<close>: the initializer \<open>{0}\<close> of the member.\<close>

definition cc_construct_nullptr :: "('s cc_state, unit) sm" where
  "cc_construct_nullptr = new_ref \<lparr>ref_target = 0, ref_type = 0\<rparr>"

definition cc_construct :: "iree_vm_ref_type_t \<Rightarrow> ptr \<Rightarrow> ('s cc_state, unit) sm" where
  "cc_construct T p =
     (if p = nullptr then new_ref \<lparr>ref_target = 0, ref_type = 0\<rparr> else new_ref \<lparr>ref_target = p, ref_type = T\<rparr>)"

definition cc_destruct :: "(ptr \<Rightarrow> ('s, unit) sm) \<Rightarrow> nat \<Rightarrow> ('s cc_state, unit) sm" where
  "cc_destruct release i =
     bind_sm (get_ref i) (\<lambda>r. bind_sm (on_cc_objs (release (ref_target r))) (\<lambda>_. set_ref i None))"

definition cc_copy_construct :: "(ptr \<Rightarrow> ('s, unit) sm) \<Rightarrow> nat \<Rightarrow> ('s cc_state, unit) sm" where
  "cc_copy_construct retain rhs =
     bind_sm (get_ref rhs) (\<lambda>r. bind_sm (new_ref r) (\<lambda>_. on_cc_objs (retain (ref_target r))))"

definition cc_release :: "nat \<Rightarrow> ('s cc_state, ptr) sm" where
  "cc_release i =
     bind_sm (get_ref i) (\<lambda>r. bind_sm (set_ref i (Some iree_vm_ref_null)) (\<lambda>_. ret_sm (ref_target r)))"

definition cc_move_construct :: "nat \<Rightarrow> ('s cc_state, unit) sm" where
  "cc_move_construct rhs =
     bind_sm (get_ref rhs) (\<lambda>r. bind_sm (new_ref r) (\<lambda>_. bind_sm (cc_release rhs) (\<lambda>_. ret_sm ())))"

definition cc_move_assign :: "(ptr \<Rightarrow> ('s, unit) sm) \<Rightarrow> nat \<Rightarrow> nat \<Rightarrow> ('s cc_state, unit) sm" where
  "cc_move_assign release this rhs =
     bind_sm (get_ref this) (\<lambda>r. bind_sm (get_ref rhs) (\<lambda>q.
     if ref_target r \<noteq> ref_target q
     then bind_sm (on_cc_objs (release (ref_target r))) (\<lambda>_.
          bind_sm (set_ref this (Some q)) (\<lambda>_.
          bind_sm (cc_release rhs) (\<lambda>_. ret_sm ())))
     else ret_sm ()))"

text \<open>
  Construction and assignment from a \<open>ref<U>\<close>. The constructor reads the type of \<open>rhs\<close> after
  \<open>rhs.release()\<close> has cleared it (and reads a private member of another class, so that a use of it would not
  compile); the assignment leaves the type as it is.
\<close>

definition cc_convert_construct :: "nat \<Rightarrow> ('s cc_state, unit) sm" where
  "cc_convert_construct rhs =
     bind_sm (cc_release rhs) (\<lambda>p. bind_sm (get_ref rhs) (\<lambda>q.
     new_ref \<lparr>ref_target = p, ref_type = ref_type q\<rparr>))"

definition cc_convert_assign :: "(ptr \<Rightarrow> ('s, unit) sm) \<Rightarrow> nat \<Rightarrow> nat \<Rightarrow> ('s cc_state, unit) sm" where
  "cc_convert_assign release this rhs =
     bind_sm (get_ref this) (\<lambda>r. bind_sm (get_ref rhs) (\<lambda>q.
     if ref_target r \<noteq> ref_target q
     then bind_sm (on_cc_objs (release (ref_target r))) (\<lambda>_.
          bind_sm (cc_release rhs) (\<lambda>p.
          set_ref this (Some (r\<lparr>ref_target := p\<rparr>))))
     else ret_sm ()))"

definition cc_reset :: "(ptr \<Rightarrow> ('s, unit) sm) \<Rightarrow> nat \<Rightarrow> ('s cc_state, unit) sm" where
  "cc_reset release i =
     bind_sm (get_ref i) (\<lambda>r.
     bind_sm (on_cc_objs (release (ref_target r))) (\<lambda>_. set_ref i (Some iree_vm_ref_null)))"

definition cc_assign ::
  "(ptr \<Rightarrow> ('s, unit) sm) \<Rightarrow> iree_vm_ref_type_t \<Rightarrow> nat \<Rightarrow> ptr \<Rightarrow> ('s cc_state, unit) sm" where
  "cc_assign release T i v =
     bind_sm (cc_reset release i) (\<lambda>_. set_ref i (Some \<lparr>ref_target = v, ref_type = T\<rparr>))"

text \<open>
  \<open>operator&\<close>: \<open>out\<close> is what the called function writes to the inner pointer; the destructor of the
  temporary \<open>Assignment\<close> then sets the type.
\<close>

definition cc_Assignment :: "iree_vm_ref_type_t \<Rightarrow> nat \<Rightarrow> ptr \<Rightarrow> ('s cc_state, unit) sm" where
  "cc_Assignment T i out =
     bind_sm (get_ref i) (\<lambda>r.
     set_ref i (Some \<lparr>ref_target = out, ref_type = (if out \<noteq> nullptr then T else IREE_VM_REF_TYPE_NULL)\<rparr>))"

definition cc_swap :: "nat \<Rightarrow> nat \<Rightarrow> ('s cc_state, unit) sm" where
  "cc_swap i j =
     bind_sm (get_ref i) (\<lambda>p. bind_sm (get_ref j) (\<lambda>q.
     bind_sm (set_ref i (Some q)) (\<lambda>_. set_ref j (Some p))))"

definition cc_operator_bool :: "nat \<Rightarrow> ('s cc_state, bool) sm" where
  "cc_operator_bool i = bind_sm (get_ref i) (\<lambda>r. ret_sm (ref_target r \<noteq> nullptr))"

definition cc_make_ref ::
  "(ptr \<Rightarrow> ('s, unit) sm) \<Rightarrow> iree_vm_ref_type_t \<Rightarrow> ptr \<Rightarrow> ('s cc_state, unit) sm" where
  "cc_make_ref create T p = bind_sm (on_cc_objs (create p)) (\<lambda>_. cc_construct T p)"

definition cc_retain_ref ::
  "(ptr \<Rightarrow> ('s, unit) sm) \<Rightarrow> iree_vm_ref_type_t \<Rightarrow> nat \<Rightarrow> ('s cc_state, unit) sm" where
  "cc_retain_ref retain T i =
     bind_sm (get_ref i) (\<lambda>r.
     bind_sm (on_cc_objs (retain (ref_target r))) (\<lambda>_. cc_construct T (ref_target r)))"

definition cc_retain_ref_raw ::
  "(ptr \<Rightarrow> ('s, unit) sm) \<Rightarrow> iree_vm_ref_type_t \<Rightarrow> ptr \<Rightarrow> ('s cc_state, unit) sm" where
  "cc_retain_ref_raw retain T v = bind_sm (on_cc_objs (retain v)) (\<lambda>_. cc_construct T v)"

definition cc_assign_ref :: "iree_vm_ref_type_t \<Rightarrow> ptr \<Rightarrow> ('s cc_state, unit) sm" where
  "cc_assign_ref T v = cc_construct T v"

definition cc_eq :: "nat \<Rightarrow> nat \<Rightarrow> ('s cc_state, bool) sm" where
  "cc_eq i j = bind_sm (get_ref i) (\<lambda>a. bind_sm (get_ref j) (\<lambda>b. ret_sm (ref_target a = ref_target b)))"

definition cc_less :: "nat \<Rightarrow> nat \<Rightarrow> ('s cc_state, bool) sm" where
  "cc_less i j = bind_sm (get_ref i) (\<lambda>a. bind_sm (get_ref j) (\<lambda>b. ret_sm (ref_target a < ref_target b)))"

section \<open>ref for C types\<close>

text \<open>The class in \<open>IREE_VM_DECLARE_CC_TYPE_ADAPTERS\<close> has the pointer alone, so its state is that of \<open>Ref_Ptr\<close>.\<close>

definition adapter_construct :: "ptr \<Rightarrow> ('s ref_state, unit) sm" where
  "adapter_construct p = modify_sm (\<lambda>s. s\<lparr>px := px s @ [Some p]\<rparr>)"

definition adapter_destruct :: "(ptr \<Rightarrow> ('s, unit) sm) \<Rightarrow> nat \<Rightarrow> ('s ref_state, unit) sm" where
  "adapter_destruct release i =
     bind_sm (get_px i) (\<lambda>p. bind_sm (on_objs (release p)) (\<lambda>_. set_px i None))"

definition adapter_copy_construct :: "(ptr \<Rightarrow> ('s, unit) sm) \<Rightarrow> nat \<Rightarrow> ('s ref_state, unit) sm" where
  "adapter_copy_construct retain rhs =
     bind_sm (get_px rhs) (\<lambda>p. bind_sm (adapter_construct p) (\<lambda>_. on_objs (retain p)))"

definition adapter_release :: "nat \<Rightarrow> ('s ref_state, ptr) sm" where
  "adapter_release i =
     bind_sm (get_px i) (\<lambda>p. bind_sm (set_px i (Some nullptr)) (\<lambda>_. ret_sm p))"

definition adapter_move_construct :: "nat \<Rightarrow> ('s ref_state, unit) sm" where
  "adapter_move_construct rhs =
     bind_sm (get_px rhs) (\<lambda>p. bind_sm (adapter_construct p) (\<lambda>_.
     bind_sm (adapter_release rhs) (\<lambda>_. ret_sm ())))"

definition adapter_move_assign :: "(ptr \<Rightarrow> ('s, unit) sm) \<Rightarrow> nat \<Rightarrow> nat \<Rightarrow> ('s ref_state, unit) sm" where
  "adapter_move_assign release this rhs =
     bind_sm (get_px this) (\<lambda>p. bind_sm (get_px rhs) (\<lambda>q.
     if p \<noteq> q
     then bind_sm (on_objs (release p)) (\<lambda>_.
          bind_sm (set_px this (Some q)) (\<lambda>_.
          bind_sm (adapter_release rhs) (\<lambda>_. ret_sm ())))
     else ret_sm ()))"

definition adapter_convert_construct :: "nat \<Rightarrow> ('s ref_state, unit) sm" where
  "adapter_convert_construct rhs = bind_sm (adapter_release rhs) adapter_construct"

definition adapter_convert_assign :: "(ptr \<Rightarrow> ('s, unit) sm) \<Rightarrow> nat \<Rightarrow> nat \<Rightarrow> ('s ref_state, unit) sm" where
  "adapter_convert_assign release this rhs =
     bind_sm (get_px this) (\<lambda>p. bind_sm (get_px rhs) (\<lambda>q.
     if p \<noteq> q
     then bind_sm (on_objs (release p)) (\<lambda>_.
          bind_sm (adapter_release rhs) (\<lambda>q. set_px this (Some q)))
     else ret_sm ()))"

definition adapter_reset :: "(ptr \<Rightarrow> ('s, unit) sm) \<Rightarrow> nat \<Rightarrow> ('s ref_state, unit) sm" where
  "adapter_reset release i =
     bind_sm (get_px i) (\<lambda>p. bind_sm (on_objs (release p)) (\<lambda>_. set_px i (Some nullptr)))"

definition adapter_assign :: "(ptr \<Rightarrow> ('s, unit) sm) \<Rightarrow> nat \<Rightarrow> ptr \<Rightarrow> ('s ref_state, unit) sm" where
  "adapter_assign release i v = bind_sm (adapter_reset release i) (\<lambda>_. set_px i (Some v))"

definition adapter_swap :: "nat \<Rightarrow> nat \<Rightarrow> ('s ref_state, unit) sm" where
  "adapter_swap i j =
     bind_sm (get_px i) (\<lambda>p. bind_sm (get_px j) (\<lambda>q.
     bind_sm (set_px i (Some q)) (\<lambda>_. set_px j (Some p))))"

section \<open>opaque_ref\<close>

text \<open>
  \<open>ref_move\<close> and \<open>ref_release\<close> stand for \<open>iree_vm_ref_move\<close>, which gives what it leaves in the source and
  in the target, and \<open>iree_vm_ref_release\<close>, which gives what it leaves behind.
\<close>

definition opaque_move_construct ::
  "(iree_vm_ref_t \<Rightarrow> iree_vm_ref_t \<Rightarrow> ('s, iree_vm_ref_t \<times> iree_vm_ref_t) sm) \<Rightarrow> nat \<Rightarrow> ('s cc_state, unit) sm" where
  "opaque_move_construct ref_move rhs =
     bind_sm (get_ref rhs) (\<lambda>r.
     bind_sm (on_cc_objs (ref_move r \<lparr>ref_target = 0, ref_type = 0\<rparr>)) (\<lambda>(r, v).
     bind_sm (set_ref rhs (Some r)) (\<lambda>_. new_ref v)))"

text \<open>The two arguments of the library function may be the same variable; then it sees one reference.\<close>

definition opaque_move_assign ::
  "(iree_vm_ref_t \<Rightarrow> iree_vm_ref_t \<Rightarrow> ('s, iree_vm_ref_t \<times> iree_vm_ref_t) sm) \<Rightarrow>
   (iree_vm_ref_t \<Rightarrow> ('s, iree_vm_ref_t) sm) \<Rightarrow> nat \<Rightarrow> nat \<Rightarrow> ('s cc_state, unit) sm" where
  "opaque_move_assign ref_move ref_move_self this rhs =
     bind_sm (get_ref this) (\<lambda>v. bind_sm (get_ref rhs) (\<lambda>r.
     if this = rhs
     then bind_sm (on_cc_objs (ref_move_self r)) (\<lambda>r. set_ref this (Some r))
     else bind_sm (on_cc_objs (ref_move r v)) (\<lambda>(r, v).
          bind_sm (set_ref rhs (Some r)) (\<lambda>_. set_ref this (Some v)))))"

definition opaque_destruct :: "(iree_vm_ref_t \<Rightarrow> ('s, iree_vm_ref_t) sm) \<Rightarrow> nat \<Rightarrow> ('s cc_state, unit) sm" where
  "opaque_destruct ref_release i =
     bind_sm (get_ref i) (\<lambda>r. bind_sm (on_cc_objs (ref_release r)) (\<lambda>_. set_ref i None))"

section \<open>The same counted objects\<close>

lemma cc_ref_objects:
  "cc_ref_ptr_add_ref = ref_ptr_add_ref" "cc_ref_ptr_release_ref = ref_ptr_release_ref" "cc_RefObject = RefObject"
proof -
  show "cc_ref_ptr_add_ref = ref_ptr_add_ref" by (simp add: fun_eq_iff cc_ref_ptr_add_ref_def ref_ptr_add_ref_def)
  then show "cc_RefObject = RefObject" by (simp add: fun_eq_iff cc_RefObject_def RefObject_def)
  have "cc_ref_ptr_destroy_ref = ref_ptr_destroy_ref"
    by (simp add: fun_eq_iff cc_ref_ptr_destroy_ref_def ref_ptr_destroy_ref_def)
  then have "cc_ref_ptr_release_ref p s = ref_ptr_release_ref p s" for p s
    unfolding cc_ref_ptr_release_ref_def ref_ptr_release_ref_def delete_thunk_Delete_def by (cases "counters s p") (simp_all add: Let_def)
  then show "cc_ref_ptr_release_ref = ref_ptr_release_ref" by (intro ext)
qed

section \<open>Programs\<close>

text \<open>
  The operations of \<open>ref_op\<close> on variables of type \<open>ref<T>\<close> and on those for C types. \<open>AddReference\<close> and
  \<open>ReleaseReference\<close> are calls of \<open>ref_type_retain\<close> and \<open>ref_type_release\<close>.
\<close>

fun cc_exec ::
  "(ptr \<Rightarrow> ('s, unit) sm) \<Rightarrow> (ptr \<Rightarrow> ('s, unit) sm) \<Rightarrow> (ptr \<Rightarrow> ('s, unit) sm) \<Rightarrow> iree_vm_ref_type_t \<Rightarrow>
   ref_op \<Rightarrow> ('s cc_state, unit) sm" where
  "cc_exec create retain release T (MakeRef p) = cc_make_ref create T p"
| "cc_exec create retain release T (AssignRef p) = cc_assign_ref T p"
| "cc_exec create retain release T (AddRefRaw p) = cc_retain_ref_raw retain T p"
| "cc_exec create retain release T (AddRefVar i) = cc_retain_ref retain T i"
| "cc_exec create retain release T (Destruct i) = cc_destruct release i"
| "cc_exec create retain release T (MoveConstruct i) = cc_move_construct i"
| "cc_exec create retain release T (MoveAssign i j) = cc_move_assign release i j"
| "cc_exec create retain release T (Reset i) = cc_reset release i"
| "cc_exec create retain release T (Release i) = bind_sm (cc_release i) (\<lambda>_. ret_sm ())"
| "cc_exec create retain release T (Assign i p) = cc_assign release T i p"
| "cc_exec create retain release T (Swap i j) = cc_swap i j"
| "cc_exec create retain release T (AddReference p) = on_cc_objs (retain p)"
| "cc_exec create retain release T (ReleaseReference p) = on_cc_objs (release p)"

fun adapter_exec ::
  "(ptr \<Rightarrow> ('s, unit) sm) \<Rightarrow> (ptr \<Rightarrow> ('s, unit) sm) \<Rightarrow> (ptr \<Rightarrow> ('s, unit) sm) \<Rightarrow> ref_op \<Rightarrow>
   ('s ref_state, unit) sm" where
  "adapter_exec create retain release (MakeRef p) = bind_sm (on_objs (create p)) (\<lambda>_. adapter_construct p)"
| "adapter_exec create retain release (AssignRef p) = adapter_construct p"
| "adapter_exec create retain release (AddRefRaw p) = bind_sm (on_objs (retain p)) (\<lambda>_. adapter_construct p)"
| "adapter_exec create retain release (AddRefVar i) =
     bind_sm (get_px i) (\<lambda>p. bind_sm (on_objs (retain p)) (\<lambda>_. adapter_construct p))"
| "adapter_exec create retain release (Destruct i) = adapter_destruct release i"
| "adapter_exec create retain release (MoveConstruct i) = adapter_move_construct i"
| "adapter_exec create retain release (MoveAssign i j) = adapter_move_assign release i j"
| "adapter_exec create retain release (Reset i) = adapter_reset release i"
| "adapter_exec create retain release (Release i) = bind_sm (adapter_release i) (\<lambda>_. ret_sm ())"
| "adapter_exec create retain release (Assign i p) = adapter_assign release i p"
| "adapter_exec create retain release (Swap i j) = adapter_swap i j"
| "adapter_exec create retain release (AddReference p) = on_objs (retain p)"
| "adapter_exec create retain release (ReleaseReference p) = on_objs (release p)"

section \<open>Forgetting the types\<close>

definition cc_abs :: "'s cc_state \<Rightarrow> 's ref_state" where
  "cc_abs s = \<lparr>objs = cc_objs s, px = map (map_option ref_target) (cc_refs s)\<rparr>"

text \<open>\<open>m'\<close> does on pointers what \<open>m\<close> does on references; \<open>f\<close> relates the results.\<close>

definition forgets :: "('a \<Rightarrow> 'b) \<Rightarrow> ('s cc_state, 'a) sm \<Rightarrow> ('s ref_state, 'b) sm \<Rightarrow> bool" where
  "forgets f m m' \<longleftrightarrow> (\<forall>s. m' (cc_abs s) = map_sum id (\<lambda>(x, s'). (f x, cc_abs s')) (m s))"

lemma forgets_bind:
  assumes "forgets f m m'" "\<And>x. forgets g (k x) (k' (f x))"
  shows "forgets g (bind_sm m k) (bind_sm m' k')"
  unfolding forgets_def
proof
  fix s
  show "bind_sm m' k' (cc_abs s) = map_sum id (\<lambda>(x, s'). (g x, cc_abs s')) (bind_sm m k s)"
    using assms by (cases "m s") (auto simp: forgets_def bind_sm_def)
qed

lemma forgets_ret: "f x = y \<Longrightarrow> forgets f (ret_sm x) (ret_sm y)"
  by (simp add: forgets_def)

lemma forgets_get: "forgets ref_target (get_ref i) (get_px i)"
  by (auto simp: forgets_def get_ref_def get_px_def cc_abs_def split: option.split)

lemma forgets_set: "map_option ref_target v = w \<Longrightarrow> forgets id (set_ref i v) (set_px i w)"
  by (auto simp: forgets_def set_ref_def set_px_def cc_abs_def map_update)

lemma forgets_objs: "forgets id (on_cc_objs m) (on_objs m)"
  by (auto simp: forgets_def on_cc_objs_def on_objs_def cc_abs_def split: sum.split)

lemma forgets_new: "ref_target r = p \<Longrightarrow> forgets id (new_ref r) (adapter_construct p)"
  by (auto simp: forgets_def new_ref_def adapter_construct_def cc_abs_def)

lemma forgets_construct: "forgets id (cc_construct T p) (adapter_construct p)"
  by (simp add: cc_construct_def forgets_new)

lemma forgets_release: "forgets id (cc_release i) (adapter_release i)"
  unfolding cc_release_def adapter_release_def
  by (intro forgets_bind [OF forgets_get] forgets_bind [OF forgets_set] forgets_ret) (simp_all add: iree_vm_ref_null_def)

lemma forgets_reset: "forgets id (cc_reset release i) (adapter_reset release i)"
  unfolding cc_reset_def adapter_reset_def
  by (intro forgets_bind [OF forgets_get] forgets_bind [OF forgets_objs] forgets_set) (simp add: iree_vm_ref_null_def)

lemma forgets_move_assign: "forgets id (cc_move_assign release i j) (adapter_move_assign release i j)"
  unfolding cc_move_assign_def adapter_move_assign_def
  by (intro forgets_bind [OF forgets_get])
    (auto intro!: forgets_bind [OF forgets_objs] forgets_bind [OF forgets_set] forgets_bind [OF forgets_release] forgets_ret)

lemma cc_exec_forgets:
  "forgets id (cc_exec create retain release T op) (adapter_exec create retain release op)"
proof (cases op)
  case (MoveConstruct i)
  have "forgets id (cc_move_construct i) (adapter_move_construct i)"
    unfolding cc_move_construct_def adapter_move_construct_def
    by (intro forgets_bind [OF forgets_get] forgets_bind [OF forgets_new] forgets_bind [OF forgets_release] forgets_ret) simp_all
  then show ?thesis using MoveConstruct by simp
next
  case (Assign i p)
  have "forgets id (cc_assign release T i p) (adapter_assign release i p)"
    unfolding cc_assign_def adapter_assign_def
    by (intro forgets_bind [OF forgets_reset] forgets_set) simp
  then show ?thesis using Assign by simp
next
  case (Swap i j)
  have "forgets id (cc_swap i j) (adapter_swap i j)"
    unfolding cc_swap_def adapter_swap_def
    by (intro forgets_bind [OF forgets_get] forgets_bind [OF forgets_set] forgets_set) simp_all
  then show ?thesis using Swap by simp
next
  case (Destruct i)
  have "forgets id (cc_destruct release i) (adapter_destruct release i)"
    unfolding cc_destruct_def adapter_destruct_def
    by (intro forgets_bind [OF forgets_get] forgets_bind [OF forgets_objs] forgets_set) simp
  then show ?thesis using Destruct by simp
next
  case (AddRefVar i)
  have "forgets id (cc_retain_ref retain T i) (bind_sm (get_px i) (\<lambda>p. bind_sm (on_objs (retain p)) (\<lambda>_. adapter_construct p)))"
    unfolding cc_retain_ref_def
    by (intro forgets_bind [OF forgets_get] forgets_bind [OF forgets_objs] forgets_construct)
  then show ?thesis using AddRefVar by simp
qed (auto simp: cc_make_ref_def cc_assign_ref_def cc_retain_ref_raw_def forgets_move_assign forgets_reset
    intro!: forgets_bind [OF forgets_objs] forgets_construct forgets_objs forgets_bind [OF forgets_release] forgets_ret)

section \<open>Null pointers\<close>

text \<open>When nothing happens to null pointers, the unconditional calls are those of \<open>ref_ptr\<close>.\<close>

lemma unless_null_same:
  "(\<And>s. m nullptr s = Inr ((), s)) \<Longrightarrow> unless_null p m = on_objs (m p)"
  by (auto simp: unless_null_def on_objs_def fun_eq_iff)

lemma px_update_same: "px s ! i = v \<Longrightarrow> s\<lparr>px := (px s)[i := v]\<rparr> = s"
  using list_update_id [of "px s" i] by simp

lemma adapter_exec_ref_ptr:
  assumes null: "\<And>s. retain nullptr s = Inr ((), s)" "\<And>s. release nullptr s = Inr ((), s)"
  shows "adapter_exec create retain release op s = ref_exec create retain release op s"
proof -
  note unl = unless_null_same [where m = retain, OF null(1)] unless_null_same [where m = release, OF null(2)]
  have reset: "adapter_reset release i s = ref_ptr_reset release i s" for i s
    by (auto simp: adapter_reset_def ref_ptr_reset_def bind_sm_def get_px_def set_px_def on_objs_def null
        px_update_same split: option.split)
  have reset': "adapter_reset release i = ref_ptr_reset release i" for i by (simp add: fun_eq_iff reset)
  show ?thesis
  proof (cases op)
    case (MoveConstruct i)
    then show ?thesis
      by (auto simp: adapter_move_construct_def ref_ptr_move_construct_def ref_ptr_release_def adapter_release_def
          bind_sm_def get_px_def set_px_def adapter_construct_def ref_ptr_construct_def nth_append list_update_append
          split: option.split)
  next
    case (MoveAssign i j)
    then show ?thesis
      by (cases s; cases "i = j") (auto simp: adapter_move_assign_def ref_ptr_move_assign_def ref_ptr_release_def adapter_release_def unl
          bind_sm_def get_px_def set_px_def on_objs_def nth_list_update list_update_swap split: option.split sum.split)
  qed (auto simp: unl reset reset' make_ref_def assign_ref_def add_ref_raw_def add_ref_var_def adapter_construct_def
      ref_ptr_construct_def adapter_destruct_def ref_ptr_destruct_def adapter_release_def ref_ptr_release_def
      adapter_assign_def ref_ptr_assign_def adapter_swap_def ref_ptr_swap_def)
qed

section \<open>Refinement and types\<close>

text \<open>
  C11. \<open>ref<T>\<close> is a \<open>ref_ptr\<close> with a type. When retaining and releasing a null pointer does nothing, every
  operation on variables of type \<open>ref<T>\<close> does on their pointers and on the objects exactly what the operation of
  \<open>ref_ptr\<close> of the same name does, errors included. The class for C types does the same.
\<close>

theorem ref_refines_ref_ptr:
  assumes "\<And>s. retain nullptr s = Inr ((), s)" "\<And>s. release nullptr s = Inr ((), s)"
  shows "ref_exec create retain release op (cc_abs s) =
      map_sum id (\<lambda>(x, s'). (x, cc_abs s')) (cc_exec create retain release T op s) \<and>
    adapter_exec create retain release op (cc_abs s) = ref_exec create retain release op (cc_abs s)"
  using cc_exec_forgets [of create retain release T op] adapter_exec_ref_ptr [where retain = retain and release = release, OF assms]
  by (simp add: forgets_def)

text \<open>Counted objects that ignore null pointers, as the library does.\<close>

definition ignoring_null :: "(ptr \<Rightarrow> ('s, unit) sm) \<Rightarrow> ptr \<Rightarrow> ('s, unit) sm" where
  "ignoring_null m p = (if p = nullptr then ret_sm () else m p)"

theorem ref_refines_ref_ptr_witness:
  "cc_exec cc_RefObject (ignoring_null cc_ref_ptr_add_ref) (ignoring_null cc_ref_ptr_release_ref) 16 (AddRefVar 0)
     \<lparr>cc_objs = \<lparr>counters = (\<lambda>_. None)(8 \<mapsto> 1), deleted = []\<rparr>, cc_refs = [Some \<lparr>ref_target = 8, ref_type = 16\<rparr>]\<rparr> =
   Inr ((), \<lparr>cc_objs = \<lparr>counters = (\<lambda>_. None)(8 \<mapsto> 2), deleted = []\<rparr>,
     cc_refs = [Some \<lparr>ref_target = 8, ref_type = 16\<rparr>, Some \<lparr>ref_target = 8, ref_type = 16\<rparr>]\<rparr>) \<and>
   ref_exec cc_RefObject (ignoring_null cc_ref_ptr_add_ref) (ignoring_null cc_ref_ptr_release_ref) (AddRefVar 0)
     \<lparr>objs = \<lparr>counters = (\<lambda>_. None)(8 \<mapsto> 1), deleted = []\<rparr>, px = [Some 8]\<rparr> =
   Inr ((), \<lparr>objs = \<lparr>counters = (\<lambda>_. None)(8 \<mapsto> 2), deleted = []\<rparr>, px = [Some 8, Some 8]\<rparr>)"
proof -
  let ?s = "\<lparr>cc_objs = \<lparr>counters = (\<lambda>_. None)(8 \<mapsto> 1), deleted = []\<rparr>,
    cc_refs = [Some \<lparr>ref_target = 8, ref_type = 16\<rparr>]\<rparr>"
  have run: "cc_exec cc_RefObject (ignoring_null cc_ref_ptr_add_ref) (ignoring_null cc_ref_ptr_release_ref) 16 (AddRefVar 0) ?s =
    Inr ((), \<lparr>cc_objs = \<lparr>counters = (\<lambda>_. None)(8 \<mapsto> 2), deleted = []\<rparr>,
      cc_refs = [Some \<lparr>ref_target = 8, ref_type = 16\<rparr>, Some \<lparr>ref_target = 8, ref_type = 16\<rparr>]\<rparr>)"
    by (simp add: cc_retain_ref_def bind_sm_def get_ref_def on_cc_objs_def ignoring_null_def cc_ref_ptr_add_ref_def
        cc_construct_def new_ref_def)
  have null: "ignoring_null m nullptr s = Inr ((), s)" for m and s :: ref_objects by (simp add: ignoring_null_def)
  show ?thesis
    using ref_refines_ref_ptr [where retain = "ignoring_null cc_ref_ptr_add_ref" and
        release = "ignoring_null cc_ref_ptr_release_ref", OF null null, of cc_RefObject "AddRefVar 0" ?s 16] run
    by (simp add: cc_abs_def)
qed

definition typed_ref :: "iree_vm_ref_type_t \<Rightarrow> iree_vm_ref_t \<Rightarrow> bool" where
  "typed_ref T r \<longleftrightarrow> (ref_target r \<noteq> nullptr \<longrightarrow> ref_type r = T)"

definition refs_typed :: "iree_vm_ref_type_t \<Rightarrow> 's cc_state \<Rightarrow> bool" where
  "refs_typed T s \<longleftrightarrow> (\<forall>r. Some r \<in> set (cc_refs s) \<longrightarrow> typed_ref T r)"

definition keeps_types :: "iree_vm_ref_type_t \<Rightarrow> ('s cc_state, 'a) sm \<Rightarrow> ('a \<Rightarrow> bool) \<Rightarrow> bool" where
  "keeps_types T m P \<longleftrightarrow> (\<forall>s x s'. refs_typed T s \<longrightarrow> m s = Inr (x, s') \<longrightarrow> refs_typed T s' \<and> P x)"

lemma keeps_bind:
  "keeps_types T m P \<Longrightarrow> (\<And>x. P x \<Longrightarrow> keeps_types T (k x) Q) \<Longrightarrow> keeps_types T (bind_sm m k) Q"
  unfolding keeps_types_def bind_sm_eq_Inr by blast

lemma keeps_ret: "P x \<Longrightarrow> keeps_types T (ret_sm x) P"
  by (simp add: keeps_types_def)

lemma keeps_get: "keeps_types T (get_ref i) (typed_ref T)"
  by (auto simp: keeps_types_def get_ref_def refs_typed_def in_set_conv_nth split: option.splits if_splits)

lemma in_updated: "x \<in> set (xs[i := v]) \<Longrightarrow> x \<in> set xs \<or> x = v"
  using set_update_subset_insert [of xs i v] by blast

lemma keeps_set:
  assumes "\<And>r. v = Some r \<Longrightarrow> typed_ref T r"
  shows "keeps_types T (set_ref i v) (\<lambda>_. True)"
  unfolding keeps_types_def
proof (intro allI impI conjI TrueI)
  fix s x s' assume s: "refs_typed T s" "set_ref i v s = Inr (x, s')"
  then have "cc_refs s' = (cc_refs s)[i := v]" by (auto simp: set_ref_def)
  then show "refs_typed T s'" using s(1) assms in_updated by (metis refs_typed_def)
qed

lemma keeps_new: "typed_ref T r \<Longrightarrow> keeps_types T (new_ref r) (\<lambda>_. True)"
  by (auto simp: keeps_types_def new_ref_def refs_typed_def)

lemma keeps_objs: "keeps_types T (on_cc_objs m) (\<lambda>_. True)"
  by (auto simp: keeps_types_def on_cc_objs_def refs_typed_def split: sum.splits)

lemma typed_simps [simp]:
  "typed_ref T iree_vm_ref_null" "typed_ref T \<lparr>ref_target = p, ref_type = T\<rparr>" "typed_ref T \<lparr>ref_target = 0, ref_type = t\<rparr>"
  by (simp_all add: typed_ref_def iree_vm_ref_null_def)

lemma keeps_construct: "keeps_types T (cc_construct T p) (\<lambda>_. True)"
  by (simp add: cc_construct_def keeps_new)

lemmas keeps_rules =
  keeps_bind [OF keeps_get] keeps_bind [OF keeps_objs] keeps_set keeps_new keeps_construct keeps_ret keeps_objs

lemma keeps_release: "keeps_types T (cc_release i) (\<lambda>_. True)"
  unfolding cc_release_def by (intro keeps_rules keeps_bind [OF keeps_set]) simp_all

lemma keeps_reset: "keeps_types T (cc_reset release i) (\<lambda>_. True)"
  unfolding cc_reset_def by (intro keeps_rules) simp_all


lemma cc_exec_keeps_types: "keeps_types T (cc_exec create retain release T op) (\<lambda>_. True)"
proof (cases op)
  case (MoveAssign i j)
  have "keeps_types T (cc_move_assign release i j) (\<lambda>_. True)"
    unfolding cc_move_assign_def
    by (intro keeps_bind [OF keeps_get])
      (auto intro!: keeps_bind [OF keeps_objs] keeps_bind [OF keeps_set] keeps_bind [OF keeps_release] keeps_ret)
  then show ?thesis using MoveAssign by simp
next
  case (MoveConstruct i)
  have "keeps_types T (cc_move_construct i) (\<lambda>_. True)"
    unfolding cc_move_construct_def
    by (auto intro!: keeps_bind [OF keeps_get] keeps_bind [OF keeps_new] keeps_bind [OF keeps_release] keeps_ret)
  then show ?thesis using MoveConstruct by simp
next
  case (Assign i p)
  have "keeps_types T (cc_assign release T i p) (\<lambda>_. True)"
    unfolding cc_assign_def by (auto intro!: keeps_bind [OF keeps_reset] keeps_set)
  then show ?thesis using Assign by simp
next
  case (Swap i j)
  have "keeps_types T (cc_swap i j) (\<lambda>_. True)"
    unfolding cc_swap_def by (auto intro!: keeps_bind [OF keeps_get] keeps_bind [OF keeps_set] keeps_set)
  then show ?thesis using Swap by simp
next
  case (Release i)
  then show ?thesis by (auto intro!: keeps_bind [OF keeps_release] keeps_ret)
qed (auto simp: cc_make_ref_def cc_assign_ref_def cc_retain_ref_raw_def cc_retain_ref_def cc_destruct_def
    intro!: keeps_bind [OF keeps_get] keeps_bind [OF keeps_objs] keeps_construct keeps_objs keeps_reset keeps_set)

lemma Assignment_keeps_types: "keeps_types T (cc_Assignment T i p) (\<lambda>_. True)"
  unfolding cc_Assignment_def by (intro keeps_bind [OF keeps_get] keeps_set) (auto simp: typed_ref_def)

text \<open>
  The type field of a \<open>ref<T>\<close> can be trusted: every operation, and \<open>operator&\<close> passed to a function
  that stores an object, leaves every reference that is not null with the type of \<open>T\<close>, so that the C
  functions accept it. The exception is the assignment from a \<open>ref<U>\<close>: an empty reference that takes over an
  object this way is left with the null type, and a check of its type fails.
\<close>

theorem refs_keep_their_type:
  assumes "refs_typed T s"
  shows "(\<forall>op s'. cc_exec create retain release T op s = Inr ((), s') \<longrightarrow> refs_typed T s') \<and>
    (\<forall>i p s'. cc_Assignment T i p s = Inr ((), s') \<longrightarrow> refs_typed T s') \<and>
    (\<forall>i j r s'. cc_refs s ! i = Some iree_vm_ref_null \<longrightarrow> cc_refs s ! j = Some r \<longrightarrow> ref_target r \<noteq> nullptr \<longrightarrow>
       T \<noteq> IREE_VM_REF_TYPE_NULL \<longrightarrow> cc_convert_assign release i j s = Inr ((), s') \<longrightarrow>
       (\<exists>r'. cc_refs s' ! i = Some r' \<and> ref_target r' = ref_target r \<and>
          iree_vm_ref_check r' T = IREE_STATUS_INVALID_ARGUMENT))"
proof (intro conjI allI impI)
  fix op s' assume "cc_exec create retain release T op s = Inr ((), s')"
  then show "refs_typed T s'" using cc_exec_keeps_types assms unfolding keeps_types_def by blast
next
  fix i p s' assume "cc_Assignment T i p s = Inr ((), s')"
  then show "refs_typed T s'" using Assignment_keeps_types assms unfolding keeps_types_def by blast
next
  fix i j r s'
  assume r: "cc_refs s ! i = Some iree_vm_ref_null" "cc_refs s ! j = Some r" "ref_target r \<noteq> nullptr"
    and T: "T \<noteq> IREE_VM_REF_TYPE_NULL" and e: "cc_convert_assign release i j s = Inr ((), s')"
  have "i \<noteq> j" using r by (auto simp: iree_vm_ref_null_def)
  then show "\<exists>r'. cc_refs s' ! i = Some r' \<and> ref_target r' = ref_target r \<and>
      iree_vm_ref_check r' T = IREE_STATUS_INVALID_ARGUMENT"
    using r e T
    by (intro exI [of _ "\<lparr>ref_target = ref_target r, ref_type = 0\<rparr>"]) (auto simp: cc_convert_assign_def bind_sm_eq_Inr get_ref_def cc_release_def set_ref_def on_cc_objs_def
        iree_vm_ref_null_def iree_vm_ref_check_def IREE_VM_REF_TYPE_NULL_def split: if_splits option.splits sum.splits)
qed

text \<open>An empty \<open>ref<T>\<close> of type 16, assigned from a reference to the object at 8.\<close>

theorem refs_keep_their_type_witness:
  "\<exists>s' r'. cc_convert_assign (\<lambda>p. ret_sm ()) 0 1
      \<lparr>cc_objs = (), cc_refs = [Some iree_vm_ref_null, Some \<lparr>ref_target = 8, ref_type = 16\<rparr>]\<rparr> = Inr ((), s') \<and>
    cc_refs s' ! 0 = Some r' \<and> ref_target r' = 8 \<and> iree_vm_ref_check r' 16 = IREE_STATUS_INVALID_ARGUMENT"
proof -
  let ?s = "\<lparr>cc_objs = (), cc_refs = [Some iree_vm_ref_null, Some \<lparr>ref_target = 8, ref_type = 16\<rparr>]\<rparr>"
  have "refs_typed 16 ?s" by (auto simp: refs_typed_def)
  note * = refs_keep_their_type [OF this, of "\<lambda>p. ret_sm ()" "\<lambda>p. ret_sm ()" "\<lambda>p. ret_sm ()"]
  have "\<exists>s'. cc_convert_assign (\<lambda>p. ret_sm ()) 0 1 ?s = Inr ((), s')"
    by (simp add: cc_convert_assign_def bind_sm_def get_ref_def on_cc_objs_def cc_release_def set_ref_def
        iree_vm_ref_null_def)
  then obtain s' where s': "cc_convert_assign (\<lambda>p. ret_sm ()) 0 1 ?s = Inr ((), s')" ..
  then obtain r' where "cc_refs s' ! 0 = Some r'" "ref_target r' = 8" "iree_vm_ref_check r' 16 = IREE_STATUS_INVALID_ARGUMENT"
    using * [THEN conjunct2, THEN conjunct2, rule_format, of 0 1 "\<lparr>ref_target = 8, ref_type = 16\<rparr>" s']
    by (auto simp: IREE_VM_REF_TYPE_NULL_def)
  with s' show ?thesis by blast
qed

end
