(* ===== verification/Vm_Native_Module.thy ===== *)
theory Vm_Native_Module
  imports Vm_Packing
begin

unbundle bit_operations_syntax

text \<open>
  \<open>iree/vm/native_module_cc.h\<close>: the class \<open>NativeModule<State>\<close>, which presents a table of C++ methods to
  the virtual machine as a module. The entries of the table are what \<open>MakeNativeFunction\<close> makes
  (theory \<open>Vm_Packing\<close>), with the method they call. The virtual methods of the class that a module overrides, the
  stack of the virtual machine, the instance and the comparison of string views, which belong to the
  module or to the runtime library, are arguments. A string view without data is \<open>None\<close>, and an
  output argument that may be a null pointer is an option.
\<close>

section \<open>Functions and modules\<close>

record iree_vm_function_t =
  fn_module :: ptr
  fn_linkage :: u16
  fn_ordinal :: u16

definition iree_vm_function_is_null :: "iree_vm_function_t \<Rightarrow> bool" where
  "iree_vm_function_is_null f \<longleftrightarrow> fn_module f = nullptr"

definition IREE_VM_FUNCTION_LINKAGE_EXPORT :: u16 where "IREE_VM_FUNCTION_LINKAGE_EXPORT = 2"

definition zero_function :: iree_vm_function_t where
  "zero_function = \<lparr>fn_module = nullptr, fn_linkage = 0, fn_ordinal = 0\<rparr>"

record iree_vm_function_signature_t =
  calling_convention :: "string option"

record iree_vm_module_signature_t =
  sig_version :: u32
  sig_attr_count :: iree_host_size_t
  sig_import_function_count :: iree_host_size_t
  sig_export_function_count :: iree_host_size_t
  sig_internal_function_count :: iree_host_size_t

text \<open>
  The call of an entry takes the state of the module, the argument and the result buffer, and returns the
  status and the two buffers.
\<close>

record 'h native_entry = native_function +
  nf_call :: "ptr \<Rightarrow> u8 list \<Rightarrow> u8 list \<Rightarrow> 'h \<Rightarrow> (iree_status_code_t \<times> u8 list \<times> u8 list \<times> 'h) res"

text \<open>Methods of the state, which they take as their first argument.\<close>

datatype 'h native_method =
    Method "ptr \<Rightarrow> cpp_value list \<Rightarrow> ('h, iree_status_code_t + cpp_value) sm" cpp_type
  | MethodVoid "ptr \<Rightarrow> cpp_value list \<Rightarrow> ('h, iree_status_code_t) sm"

primrec method_result :: "'h native_method \<Rightarrow> cpp_type option" where
  "method_result (Method fn result) = Some result"
| "method_result (MethodVoid fn) = None"

primrec method_call ::
  "'h vm_library \<Rightarrow> cpp_type list \<Rightarrow> 'h native_method \<Rightarrow>
   ptr \<Rightarrow> u8 list \<Rightarrow> u8 list \<Rightarrow> 'h \<Rightarrow> (iree_status_code_t \<times> u8 list \<times> u8 list \<times> 'h) res" where
  "method_call lib params (Method fn result) self args results h =
     DispatchFunctor_Call lib (fn self) params result args results h"
| "method_call lib params (MethodVoid fn) self args results h =
     bind_res (DispatchFunctorVoid_Call lib (fn self) params args h) (\<lambda>(status, args, h).
     Inr (status, args, results, h))"

definition native_entry_of :: "'h vm_library \<Rightarrow> string \<Rightarrow> cpp_type list \<Rightarrow> 'h native_method \<Rightarrow> 'h native_entry" where
  "native_entry_of lib name params m =
     \<lparr>nf_name = nf_name (MakeNativeFunction name params (method_result m)),
      nf_cconv = nf_cconv (MakeNativeFunction name params (method_result m)),
      nf_call = method_call lib params m\<rparr>"

record 'h native_module =
  nm_name :: string
  nm_version :: u32
  nm_instance :: ptr
  nm_interface :: ptr
  nm_dispatch_table :: "'h native_entry list"

text \<open>
  \<open>stack_function_enter\<close> gives the state of the module in the new frame, and
  \<open>status_annotate\<close> adds to the message of a status, of which only the code is represented.
\<close>

record 'h module_library =
  string_view_equal :: "string \<Rightarrow> string \<Rightarrow> bool"
  stack_function_enter :: "iree_vm_function_t \<Rightarrow> ('h, iree_status_code_t + ptr) sm"
  stack_function_leave :: "('h, iree_status_code_t) sm"
  instance_retain :: "ptr \<Rightarrow> ('h, unit) sm"
  instance_release :: "ptr \<Rightarrow> ('h, unit) sm"
  module_initialize :: "ptr \<Rightarrow> ('h, iree_status_code_t) sm"

section \<open>Construction and destruction\<close>

definition NativeModule_construct ::
  "'h module_library \<Rightarrow> string \<Rightarrow> u32 \<Rightarrow> ptr \<Rightarrow> ptr \<Rightarrow> 'h native_entry list \<Rightarrow> ('h, 'h native_module) sm" where
  "NativeModule_construct L name version vm_instance interface dispatch_table =
     bind_sm (instance_retain L vm_instance) (\<lambda>_.
     bind_sm (module_initialize L interface) (\<lambda>status.
     if status \<noteq> IREE_STATUS_OK then fail_sm (Thrown ''abort'')
     else ret_sm \<lparr>nm_name = name, nm_version = version, nm_instance = vm_instance,
            nm_interface = interface, nm_dispatch_table = dispatch_table\<rparr>))"

definition ModuleDestroy :: "'h module_library \<Rightarrow> 'h native_module \<Rightarrow> ('h, unit) sm" where
  "ModuleDestroy L m = instance_release L (nm_instance m)"

section \<open>Reflection\<close>

definition ModuleName :: "'h native_module \<Rightarrow> string option" where
  "ModuleName m = Some (nm_name m)"

definition ModuleSignature :: "'h native_module \<Rightarrow> iree_vm_module_signature_t" where
  "ModuleSignature m =
     \<lparr>sig_version = nm_version m, sig_attr_count = 0, sig_import_function_count = 0,
      sig_export_function_count = of_nat (length (nm_dispatch_table m)),
      sig_internal_function_count = 0\<rparr>"

text \<open>\<open>enum_deps\<close> is the virtual method \<open>EnumerateDependencies\<close>; that of the class itself has none.\<close>

definition EnumerateDependencies :: "('d \<Rightarrow> ('h, iree_status_code_t) sm) \<Rightarrow> ('h, iree_status_code_t) sm" where
  "EnumerateDependencies callback = ret_sm IREE_STATUS_OK"

definition ModuleEnumerateDependencies ::
  "(('d \<Rightarrow> ('h, iree_status_code_t) sm) \<Rightarrow> ('h, iree_status_code_t) sm) \<Rightarrow>
   ('u \<Rightarrow> 'd \<Rightarrow> ('h, iree_status_code_t) sm) \<Rightarrow> 'u \<Rightarrow> ('h, iree_status_code_t) sm" where
  "ModuleEnumerateDependencies enum_deps callback user_data =
     bind_sm (enum_deps (\<lambda>dependency. callback user_data dependency)) (\<lambda>status.
     if status \<noteq> IREE_STATUS_OK then ret_sm status else ret_sm IREE_STATUS_OK)"

text \<open>The operator \<open>[]\<close> of the table, whose bound is not checked in release builds.\<close>

definition table_at :: "'h native_module \<Rightarrow> nat \<Rightarrow> 'h native_entry res" where
  "table_at m k =
     (if k < length (nm_dispatch_table m) then Inr (nm_dispatch_table m ! k) else Inl OutOfBounds)"

definition ModuleGetFunction ::
  "'h native_module \<Rightarrow> u16 \<Rightarrow> iree_host_size_t \<Rightarrow> iree_vm_function_t option \<Rightarrow> string option option \<Rightarrow>
   iree_vm_function_signature_t option \<Rightarrow>
   (iree_status_code_t \<times> iree_vm_function_t option \<times> string option option \<times>
    iree_vm_function_signature_t option) res" where
  "ModuleGetFunction m linkage ordinal out_function out_name out_signature =
     (let out_function = map_option (\<lambda>_. zero_function) out_function;
          out_name = map_option (\<lambda>_. None) out_name;
          out_signature = map_option (\<lambda>_. \<lparr>calling_convention = None\<rparr>) out_signature
      in if ordinal > of_nat (length (nm_dispatch_table m))
         then Inr (IREE_STATUS_INVALID_ARGUMENT, out_function, out_name, out_signature)
         else bind_res (table_at m (unat ordinal)) (\<lambda>dispatch_function.
              Inr (IREE_STATUS_OK,
                map_option (\<lambda>_. \<lparr>fn_module = nm_interface m,
                  fn_linkage = IREE_VM_FUNCTION_LINKAGE_EXPORT, fn_ordinal = ucast ordinal\<rparr>) out_function,
                map_option (\<lambda>_. Some (nf_name dispatch_function)) out_name,
                map_option (\<lambda>_. \<lparr>calling_convention = Some (nf_cconv dispatch_function)\<rparr>) out_signature)))"

text \<open>The counter of the loop is an \<open>int\<close>, and the ordinal it is stored in has 16 bits.\<close>

fun lookup_loop :: "(string \<Rightarrow> string \<Rightarrow> bool) \<Rightarrow> string \<Rightarrow> 'h native_entry list \<Rightarrow> int \<Rightarrow> int option res" where
  "lookup_loop equal name [] i = Inr None"
| "lookup_loop equal name (e # es) i =
     (if equal name (nf_name e) then Inr (Some i)
      else if i = 2 ^ 31 - 1 then Inl SignedOverflow
      else lookup_loop equal name es (i + 1))"

definition ModuleLookupFunction ::
  "'h module_library \<Rightarrow> 'h native_module \<Rightarrow> u16 \<Rightarrow> string option \<Rightarrow>
   (iree_status_code_t \<times> iree_vm_function_t) res" where
  "ModuleLookupFunction L m linkage name =
     (case name of
        None \<Rightarrow> Inr (IREE_STATUS_INVALID_ARGUMENT, zero_function)
      | Some n \<Rightarrow>
          if n = [] then Inr (IREE_STATUS_INVALID_ARGUMENT, zero_function)
          else (let f = zero_function\<lparr>fn_module := nm_interface m,
                          fn_linkage := IREE_VM_FUNCTION_LINKAGE_EXPORT\<rparr>
                in bind_res (lookup_loop (string_view_equal L) n (nm_dispatch_table m) 0) (\<lambda>found.
                   case found of
                     Some i \<Rightarrow> Inr (IREE_STATUS_OK, f\<lparr>fn_ordinal := of_int i\<rparr>)
                   | None \<Rightarrow> Inr (IREE_STATUS_NOT_FOUND, f))))"

section \<open>State, imports, signals and calls\<close>

text \<open>\<open>create_state\<close>, \<open>delete_state\<close> and \<open>notify\<close> are the methods of the module and of its state.\<close>

definition ModuleAllocState :: "('h, iree_status_code_t + ptr) sm \<Rightarrow> ('h, iree_status_code_t \<times> ptr) sm" where
  "ModuleAllocState create_state =
     bind_sm create_state (\<lambda>module_state.
     case module_state of
       Inl status \<Rightarrow> ret_sm (status, nullptr)
     | Inr p \<Rightarrow> ret_sm (IREE_STATUS_OK, p))"

definition ModuleFreeState :: "(ptr \<Rightarrow> ('h, unit) sm) \<Rightarrow> ptr \<Rightarrow> ('h, unit) sm" where
  "ModuleFreeState delete_state module_state =
     (if module_state \<noteq> nullptr then delete_state module_state else ret_sm ())"

definition ModuleResolveImport :: "iree_host_size_t \<Rightarrow> iree_vm_function_t \<Rightarrow> iree_status_code_t" where
  "ModuleResolveImport ordinal function = IREE_STATUS_UNIMPLEMENTED"

definition Notify :: "ptr \<Rightarrow> u32 \<Rightarrow> ('h, iree_status_code_t) sm" where
  "Notify state signal = ret_sm IREE_STATUS_OK"

definition ModuleNotify :: "(ptr \<Rightarrow> u32 \<Rightarrow> ('h, iree_status_code_t) sm) \<Rightarrow> ptr \<Rightarrow> u32 \<Rightarrow> ('h, iree_status_code_t) sm" where
  "ModuleNotify notify module_state signal = notify module_state signal"

definition ModuleBeginCall ::
  "'h module_library \<Rightarrow> 'h native_module \<Rightarrow> iree_vm_function_t \<Rightarrow> u8 list \<Rightarrow> u8 list \<Rightarrow> 'h \<Rightarrow>
   (iree_status_code_t \<times> u8 list \<times> u8 list \<times> 'h) res" where
  "ModuleBeginCall L m function args results h =
     (if unat (fn_ordinal function) \<ge> length (nm_dispatch_table m)
      then Inr (IREE_STATUS_INVALID_ARGUMENT, args, results, h)
      else bind_res (table_at m (unat (fn_ordinal function))) (\<lambda>info.
           bind_res (stack_function_enter L function h) (\<lambda>(entered, h).
           case entered of
             Inl status \<Rightarrow> Inr (status, args, results, h)
           | Inr state \<Rightarrow>
               bind_res (nf_call info state args results h) (\<lambda>(status, args, results, h).
               if status \<noteq> IREE_STATUS_OK then Inr (status, args, results, h)
               else bind_res (stack_function_leave L h) (\<lambda>(status, h).
                    Inr (status, args, results, h))))))"

section \<open>Looking functions up\<close>

lemma table_at_simps [simp]:
  "k < length (nm_dispatch_table m) \<Longrightarrow> table_at m k = Inr (nm_dispatch_table m ! k)"
  "\<not> k < length (nm_dispatch_table m) \<Longrightarrow> table_at m k = Inl OutOfBounds"
  by (simp_all add: table_at_def)

text \<open>What the library documents of the comparison of string views.\<close>

definition compares_strings :: "'h module_library \<Rightarrow> bool" where
  "compares_strings L \<longleftrightarrow> (\<forall>a b. string_view_equal L a b \<longleftrightarrow> a = b)"

lemma compares_strings_eq: "compares_strings L \<Longrightarrow> string_view_equal L = (=)"
  by (intro ext) (simp add: compares_strings_def)

lemma lookup_loop_none:
  "n \<notin> nf_name ` set es \<Longrightarrow> i + int (length es) < 2 ^ 31 \<Longrightarrow> lookup_loop (=) n es i = Inr None"
  by (induction es arbitrary: i) auto

lemma lookup_loop_first:
  "k < length es \<Longrightarrow> nf_name (es ! k) = n \<Longrightarrow> \<forall>j < k. nf_name (es ! j) \<noteq> n \<Longrightarrow>
   i + int (length es) < 2 ^ 31 \<Longrightarrow> lookup_loop (=) n es i = Inr (Some (i + int k))"
proof (induction es arbitrary: i k)
  case (Cons e es)
  show ?case
  proof (cases k)
    case 0
    then show ?thesis using Cons.prems by simp
  next
    case (Suc j)
    have "\<forall>l < j. nf_name (es ! l) \<noteq> n" using Cons.prems(3) Suc by fastforce
    then have "lookup_loop (=) n es (i + 1) = Inr (Some ((i + 1) + int j))"
      using Cons.prems Suc by (intro Cons.IH) auto
    moreover have "n \<noteq> nf_name e" using Cons.prems(3) Suc by fastforce
    ultimately show ?thesis using Cons.prems Suc by (simp add: algebra_simps)
  qed
qed simp

lemma lookup_at:
  assumes "compares_strings L" "k < length (nm_dispatch_table m)" "length (nm_dispatch_table m) < 2 ^ 31"
    and "distinct (map nf_name (nm_dispatch_table m))" "n = nf_name (nm_dispatch_table m ! k)" "n \<noteq> []"
  shows "ModuleLookupFunction L m linkage (Some n) =
    Inr (IREE_STATUS_OK, \<lparr>fn_module = nm_interface m, fn_linkage = IREE_VM_FUNCTION_LINKAGE_EXPORT,
      fn_ordinal = of_nat k\<rparr>)"
proof -
  have "\<forall>j < k. nf_name (nm_dispatch_table m ! j) \<noteq> n"
    using assms(2,4,5) by (auto simp: distinct_conv_nth)
  then have "lookup_loop (string_view_equal L) n (nm_dispatch_table m) 0 = Inr (Some (0 + int k))"
    using assms by (subst compares_strings_eq, simp, intro lookup_loop_first) auto
  then show ?thesis
    using assms(6) by (simp add: ModuleLookupFunction_def zero_function_def)
qed

text \<open>
  The ordinal of the function found is its index modulo \<open>2 ^ 16\<close>: the calls of a function whose index does not fit
  in 16 bits run another function of the module.
\<close>

lemma lookup_truncates_ordinal:
  assumes "compares_strings L" "k < length (nm_dispatch_table m)" "length (nm_dispatch_table m) < 2 ^ 31"
    and "distinct (map nf_name (nm_dispatch_table m))" "n = nf_name (nm_dispatch_table m ! k)" "n \<noteq> []"
  shows "\<exists>f. ModuleLookupFunction L m linkage (Some n) = Inr (IREE_STATUS_OK, f) \<and>
    unat (fn_ordinal f) = k mod 2 ^ 16"
  using lookup_at [OF assms] by (simp add: unat_of_nat)

lemma begin_call_at:
  assumes "unat (fn_ordinal f) = k" "k < length (nm_dispatch_table m)"
    and "stack_function_enter L f h = Inr (Inr state, h1)"
    and "nf_call (nm_dispatch_table m ! k) state args results h1 = Inr (IREE_STATUS_OK, args', results', h2)"
    and "stack_function_leave L h2 = Inr (status, h3)"
  shows "ModuleBeginCall L m f args results h = Inr (status, args', results', h3)"
  using assms by (simp add: ModuleBeginCall_def)

section \<open>Properties\<close>

text \<open>
  C14. A module exports the functions of its table under their names. Looking up the name of an entry gives a
  reference to the function, from whose ordinal the same reference, the name and the calling convention
  are read back; other names, and names without characters, are reported.
\<close>

theorem exported_functions_resolve:
  assumes "compares_strings L" "length (nm_dispatch_table m) \<le> 2 ^ 16"
    and "distinct (map nf_name (nm_dispatch_table m))"
  shows "(k < length (nm_dispatch_table m) \<and> n = nf_name (nm_dispatch_table m ! k) \<and> n \<noteq> [] \<longrightarrow>
     (\<exists>f. ModuleLookupFunction L m linkage (Some n) = Inr (IREE_STATUS_OK, f) \<and>
        fn_module f = nm_interface m \<and> unat (fn_ordinal f) = k \<and>
        ModuleGetFunction m linkage (ucast (fn_ordinal f)) (Some g) (Some nm) (Some sg) =
          Inr (IREE_STATUS_OK, Some f, Some (Some n),
            Some \<lparr>calling_convention = Some (nf_cconv (nm_dispatch_table m ! k))\<rparr>))) \<and>
    (n \<notin> nf_name ` set (nm_dispatch_table m) \<and> n \<noteq> [] \<longrightarrow>
     (\<exists>f. ModuleLookupFunction L m linkage (Some n) = Inr (IREE_STATUS_NOT_FOUND, f))) \<and>
    ModuleLookupFunction L m linkage None = Inr (IREE_STATUS_INVALID_ARGUMENT, zero_function) \<and>
    ModuleLookupFunction L m linkage (Some []) = Inr (IREE_STATUS_INVALID_ARGUMENT, zero_function)"
proof (intro conjI impI)
  assume k: "k < length (nm_dispatch_table m) \<and> n = nf_name (nm_dispatch_table m ! k) \<and> n \<noteq> []"
  let ?f = "\<lparr>fn_module = nm_interface m, fn_linkage = IREE_VM_FUNCTION_LINKAGE_EXPORT, fn_ordinal = of_nat k\<rparr>"
  have u: "unat (of_nat k :: u16) = k" using k assms(2) by (simp add: unat_of_nat)
  have "k < 2 ^ 64" using k assms(2) by simp
  then have u64: "unat (ucast (of_nat k :: u16) :: u64) = k" using u by (simp add: unsigned_ucast_eq take_bit_nat_eq_self)
  have c: "ucast (ucast (of_nat k :: u16) :: u64) = (of_nat k :: u16)"
    by (rule bit_word_eqI) (simp add: bit_simps)
  have "\<not> (ucast (of_nat k :: u16) :: u64) > of_nat (length (nm_dispatch_table m))"
    using k assms(2) u64 by (simp add: word_less_nat_alt unat_of_nat)
  then have "ModuleGetFunction m linkage (ucast (fn_ordinal ?f)) (Some g) (Some nm) (Some sg) =
      Inr (IREE_STATUS_OK, Some ?f, Some (Some n),
        Some \<lparr>calling_convention = Some (nf_cconv (nm_dispatch_table m ! k))\<rparr>)"
    using k u64 c by (simp add: ModuleGetFunction_def)
  moreover have "ModuleLookupFunction L m linkage (Some n) = Inr (IREE_STATUS_OK, ?f)"
    by (rule lookup_at [OF assms(1) _ _ assms(3)]) (use k assms(2) in auto)
  ultimately show "\<exists>f. ModuleLookupFunction L m linkage (Some n) = Inr (IREE_STATUS_OK, f) \<and>
        fn_module f = nm_interface m \<and> unat (fn_ordinal f) = k \<and>
        ModuleGetFunction m linkage (ucast (fn_ordinal f)) (Some g) (Some nm) (Some sg) =
          Inr (IREE_STATUS_OK, Some f, Some (Some n),
            Some \<lparr>calling_convention = Some (nf_cconv (nm_dispatch_table m ! k))\<rparr>)"
    using u by (intro exI [of _ ?f]) simp
next
  assume n: "n \<notin> nf_name ` set (nm_dispatch_table m) \<and> n \<noteq> []"
  then have "lookup_loop (string_view_equal L) n (nm_dispatch_table m) 0 = Inr None"
    using assms by (subst compares_strings_eq, simp, intro lookup_loop_none) auto
  then show "\<exists>f. ModuleLookupFunction L m linkage (Some n) = Inr (IREE_STATUS_NOT_FOUND, f)"
    using n by (simp add: ModuleLookupFunction_def)
qed (simp_all add: ModuleLookupFunction_def)


text \<open>A library whose stack frames hold the state 5, and a module with two functions.\<close>

definition sample_module_library :: "logged list module_library" where
  "sample_module_library =
     \<lparr>string_view_equal = (=), stack_function_enter = (\<lambda>f h. Inr (Inr 5, h)),
      stack_function_leave = (\<lambda>h. Inr (IREE_STATUS_OK, h)), instance_retain = (\<lambda>p h. Inr ((), h)),
      instance_release = (\<lambda>p h. Inr ((), h)), module_initialize = (\<lambda>p h. Inr (IREE_STATUS_OK, h))\<rparr>"

definition sample_module :: "logged list native_module" where
  "sample_module =
     \<lparr>nm_name = ''m'', nm_version = 1, nm_instance = 16, nm_interface = 32,
      nm_dispatch_table =
        [native_entry_of (recording_library 8 (\<lambda>p. (p, 0))) ''f'' [] (MethodVoid (\<lambda>self vs h. Inr (IREE_STATUS_OK, h))),
         native_entry_of (recording_library 8 (\<lambda>p. (p, 0))) ''g'' [TI32, TSpan TI64]
           (Method (\<lambda>self vs h. Inr (Inr (hd vs), h)) TI32)]\<rparr>"

lemma sample_module_names:
  "compares_strings sample_module_library" "map nf_name (nm_dispatch_table sample_module) = [''f'', ''g'']"
  "length (nm_dispatch_table sample_module) = 2"
  "nf_name (nm_dispatch_table sample_module ! Suc 0) = ''g''"
  by (simp_all add: compares_strings_def sample_module_library_def sample_module_def native_entry_of_def MakeNativeFunction_def)

theorem exported_functions_resolve_witness:
  "\<exists>f f'. ModuleLookupFunction sample_module_library sample_module 2 (Some ''g'') = Inr (IREE_STATUS_OK, f) \<and>
     unat (fn_ordinal f) = 1 \<and>
     ModuleGetFunction sample_module 2 (ucast (fn_ordinal f)) (Some zero_function) (Some None)
         (Some \<lparr>calling_convention = None\<rparr>) =
       Inr (IREE_STATUS_OK, Some f, Some (Some ''g''), Some \<lparr>calling_convention = Some ''0iCID_i''\<rparr>) \<and>
     ModuleLookupFunction sample_module_library sample_module 2 (Some ''h'') = Inr (IREE_STATUS_NOT_FOUND, f')"
proof -
  have c: "nf_cconv (nm_dispatch_table sample_module ! 1) = ''0iCID_i''"
    by (simp add: sample_module_def native_entry_of_def MakeNativeFunction_def cconv_storage_def)
  have "distinct (map nf_name (nm_dispatch_table sample_module))" "''h'' \<notin> nf_name ` set (nm_dispatch_table sample_module)"
    by (simp_all add: sample_module_names flip: set_map)
  then show ?thesis
    using exported_functions_resolve [where m = sample_module and L = sample_module_library and k = 1 and n = "''g''"
        and linkage = 2 and g = zero_function and nm = None and sg = "\<lparr>calling_convention = None\<rparr>"]
      exported_functions_resolve [where m = sample_module and L = sample_module_library and k = 1 and n = "''h''"
        and linkage = 2] c
    by (simp add: sample_module_names) blast
qed

text \<open>
  C13. A call by name runs the method. When a function made from a method is looked up by its name and begun
  on a buffer that packs values of the types of its parameters, the method is called with the state of the module
  in the new stack frame and with these values; its result is left packed in the result buffer, the frame is left,
  and the status is that of leaving it.
\<close>

theorem call_by_name_runs_method:
  assumes "compares_strings L" "length (nm_dispatch_table m) \<le> 2 ^ 16"
    and "distinct (map nf_name (nm_dispatch_table m))"
    and "native_entry_of lib n ts (Method fn rt) \<in> set (nm_dispatch_table m)" "n \<noteq> []"
    and "\<And>f. fn_module f = nm_interface m \<Longrightarrow> stack_function_enter L f h = Inr (Inr state, h0)"
    and "packs_all (buffer_type lib) ts vs args args' cs" "length args < 2 ^ 64"
    and "run_calls lib cs h0 = Inr ((), h1)"
    and "\<And>ws. length ws = length ts \<Longrightarrow> seen_values args' ts ws = vs \<Longrightarrow> fn state ws h1 = Inr (Inr v, h2)"
    and "packs B rt v res res' rcs" "storable rt" "assigns_refs lib"
    and "length res \<le> length results" "length results < 2 ^ 64"
    and "\<And>h. stack_function_leave L h = Inr (status, leave h)"
  shows "\<exists>f h3. ModuleLookupFunction L m linkage (Some n) = Inr (IREE_STATUS_OK, f) \<and>
    ModuleBeginCall L m f args results h = Inr (status, args', res @ drop (length res) results, h3)"
proof -
  obtain k where k: "k < length (nm_dispatch_table m)"
    "nm_dispatch_table m ! k = native_entry_of lib n ts (Method fn rt)"
    using assms(4) by (auto simp: in_set_conv_nth)
  then have n: "n = nf_name (nm_dispatch_table m ! k)"
    by (simp add: native_entry_of_def MakeNativeFunction_def)
  let ?f = "\<lparr>fn_module = nm_interface m, fn_linkage = IREE_VM_FUNCTION_LINKAGE_EXPORT, fn_ordinal = of_nat k\<rparr>"
  have "ModuleLookupFunction L m linkage (Some n) = Inr (IREE_STATUS_OK, ?f)"
    using lookup_at [OF assms(1) k(1) _ assms(3) n assms(5)] assms(2) by simp
  moreover obtain h3 where "DispatchFunctor_Call lib (fn state) ts rt args results h0 =
      Inr (IREE_STATUS_OK, args', res @ drop (length res) results, h3)"
    using native_call_returns [where fn = "fn state" and h = h0 and ?h1.0 = h1 and ?h2.0 = h2 and v = v and vs = vs,
        OF assms(7-15)] by blast
  then have "ModuleBeginCall L m ?f args results h =
      Inr (status, args', res @ drop (length res) results, leave h3)"
    using k assms(2) by (intro begin_call_at [where k = k, OF _ _ assms(6)])
      (simp_all add: native_entry_of_def unat_of_nat assms(16))
  ultimately show ?thesis by blast
qed

text \<open>\<open>g\<close> of the sample module, which returns its first argument.\<close>

theorem call_by_name_runs_method_witness:
  "\<exists>f h3. ModuleLookupFunction sample_module_library sample_module 2 (Some ''g'') = Inr (IREE_STATUS_OK, f) \<and>
     ModuleBeginCall sample_module_library sample_module f
       (le_bytes 4 (7 :: u32) @ le_bytes 4 (0 :: u32)) [0, 0, 0, 0] [] =
     Inr (IREE_STATUS_OK, le_bytes 4 (7 :: u32) @ le_bytes 4 (0 :: u32), le_bytes 4 (7 :: u32), h3)"
proof -
  let ?lib = "recording_library 8 (\<lambda>p. (p, 0))"
  let ?args = "le_bytes 4 (7 :: u32) @ (le_bytes 4 (of_nat 0 :: u32) @ []) @ []"
  have "packs_all 8 [TI32, TSpan TI64] [VI32 7, VSeq []] ?args ?args ([] @ [] @ [])"
    by (intro packs_cons packs_i32 packs_span packs_nil) (simp_all add: packs_nil)
  then have p: "packs_all (buffer_type ?lib) [TI32, TSpan TI64] [VI32 7, VSeq []] ?args ?args []"
    by (simp add: recording_library_def)
  have fn: "Inr (Inr (hd ws), []) = Inr (Inr (VI32 7), [])"
    if "length ws = length [TI32, TSpan TI64]" "seen_values ?args [TI32, TSpan TI64] ws = [VI32 7, VSeq []]" for ws
    using that by (cases ws) (simp_all add: seen_values_def)
  have names: "distinct (map nf_name (nm_dispatch_table sample_module))"
    "native_entry_of ?lib ''g'' [TI32, TSpan TI64] (Method (\<lambda>self vs h. Inr (Inr (hd vs), h)) TI32)
       \<in> set (nm_dispatch_table sample_module)"
    by (simp_all add: sample_module_names) (simp add: sample_module_def)
  have "assigns_refs ?lib" by (simp add: assigns_refs_def recording_library_def)
  then show ?thesis
    using call_by_name_runs_method [where results = "[0, 0, 0, 0]" and h = "[]" and h0 = "[]" and state = 5
        and status = IREE_STATUS_OK and leave = "\<lambda>h. h" and L = sample_module_library and linkage = 2,
        OF sample_module_names(1) _ names _ _ p _ _ fn packs_i32 [of 0]]
    by (simp add: sample_module_names) (simp add: sample_module_library_def)
qed

text \<open>
  The check of the ordinal is off by one in \<open>ModuleGetFunction\<close>: an ordinal below the number of functions
  is answered and one above it is refused, but the number of functions itself passes the check and an entry past
  the end of the table is read. \<open>ModuleBeginCall\<close> refuses it.
\<close>

theorem get_function_reads_past_table:
  assumes "length (nm_dispatch_table m) < 2 ^ 16"
  shows "(ModuleGetFunction m linkage ordinal f nm sg = Inl OutOfBounds \<longleftrightarrow>
      unat ordinal = length (nm_dispatch_table m)) \<and>
    ModuleBeginCall L m \<lparr>fn_module = nm_interface m, fn_linkage = linkage,
        fn_ordinal = of_nat (length (nm_dispatch_table m))\<rparr> args results h =
      Inr (IREE_STATUS_INVALID_ARGUMENT, args, results, h)"
proof
  have "ordinal > of_nat (length (nm_dispatch_table m)) \<longleftrightarrow> unat ordinal > length (nm_dispatch_table m)"
    using assms by (simp add: word_less_nat_alt unat_of_nat)
  then show "ModuleGetFunction m linkage ordinal f nm sg = Inl OutOfBounds \<longleftrightarrow>
      unat ordinal = length (nm_dispatch_table m)"
    by (cases "unat ordinal < length (nm_dispatch_table m)") (auto simp: ModuleGetFunction_def Let_def)
qed (use assms in \<open>simp add: ModuleBeginCall_def unat_of_nat\<close>)

theorem get_function_reads_past_table_witness:
  "ModuleGetFunction sample_module 2 2 (Some zero_function) None None = Inl OutOfBounds \<and>
   ModuleBeginCall sample_module_library sample_module \<lparr>fn_module = 32, fn_linkage = 2, fn_ordinal = 2\<rparr> [] [] [] =
     Inr (IREE_STATUS_INVALID_ARGUMENT, [], [], [])"
  using get_function_reads_past_table [of sample_module 2 2 "Some zero_function" None None sample_module_library "[]" "[]" "[]"]
  by (simp add: sample_module_names) (simp add: sample_module_def)

end
