(* ===== verification/Vm_Test_Module.thy ===== *)
theory Vm_Test_Module
  imports Vm_Ops Vm_Native_Module
begin

text \<open>
  \<open>iree/vm/native_module_test.h\<close>: two native modules in C. \<open>module_a\<close> has no state and exports \<open>add_1\<close> and \<open>sub_1\<close>;
  \<open>module_b\<close> imports both, keeps a counter in its state, and exports \<open>entry\<close>. A module is a table of functions that the
  base native module of the library calls through shims: the library, which also allocates, looks types up, creates
  modules and begins calls, is an argument. The state of the program is the world of the library and the
  objects of \<open>module_b\<close>. The stack of the virtual machine is part of the world.
\<close>

section \<open>Objects\<close>

record iree_allocator_t =
  allocator_self :: ptr
  allocator_ctl :: ptr

record module_b_t =
  mb_allocator :: iree_allocator_t
  mb_types :: "u64 list"

record module_b_state_t =
  mbs_allocator :: iree_allocator_t
  mbs_imports :: "iree_vm_function_t list"
  mbs_counter :: i32

record 'w test_vm =
  vm_world :: 'w
  b_modules :: "ptr \<rightharpoonup> module_b_t"
  b_states :: "ptr \<rightharpoonup> module_b_state_t"

definition sizeof_module_b_t :: u64 where "sizeof_module_b_t = 24"
definition sizeof_module_b_state_t :: u64 where "sizeof_module_b_state_t = 56"

definition get_b_module :: "ptr \<Rightarrow> ('w test_vm, module_b_t) sm" where
  "get_b_module p s =
     (if p = nullptr then Inl NullDeref
      else case b_modules s p of None \<Rightarrow> Inl UseAfterFree | Some m \<Rightarrow> Inr (m, s))"

definition put_b_module :: "ptr \<Rightarrow> module_b_t \<Rightarrow> ('w test_vm, unit) sm" where
  "put_b_module p m = bind_sm (get_b_module p) (\<lambda>_. modify_sm (\<lambda>s. s\<lparr>b_modules := (b_modules s)(p \<mapsto> m)\<rparr>))"

definition get_b_state :: "ptr \<Rightarrow> ('w test_vm, module_b_state_t) sm" where
  "get_b_state p s =
     (if p = nullptr then Inl NullDeref
      else case b_states s p of None \<Rightarrow> Inl UseAfterFree | Some st \<Rightarrow> Inr (st, s))"

definition put_b_state :: "ptr \<Rightarrow> module_b_state_t \<Rightarrow> ('w test_vm, unit) sm" where
  "put_b_state p st = bind_sm (get_b_state p) (\<lambda>_. modify_sm (\<lambda>s. s\<lparr>b_states := (b_states s)(p \<mapsto> st)\<rparr>))"

definition array_at :: "'a list \<Rightarrow> nat \<Rightarrow> 'a res" where
  "array_at xs k = (if k < length xs then Inr (xs ! k) else Inl OutOfBounds)"

section \<open>Tables of a module\<close>

text \<open>
  A target function takes the module, the state of the module and its argument; it returns its status and what it wrote to
  its result, if it did. A shim calls a target with the buffers of the arguments and results.
\<close>

type_synonym 's call_i32_i32_t = "ptr \<Rightarrow> ptr \<Rightarrow> i32 \<Rightarrow> ('s, iree_status_code_t \<times> i32 option) sm"
type_synonym 's native_shim = "u8 list \<Rightarrow> u8 list \<Rightarrow> ptr \<Rightarrow> ptr \<Rightarrow> ('s, iree_status_code_t \<times> u8 list) sm"

datatype import_flags = IREE_VM_NATIVE_IMPORT_REQUIRED | IREE_VM_NATIVE_IMPORT_OPTIONAL

record iree_vm_native_import_descriptor_t =
  import_flags :: import_flags
  import_full_name :: string

record iree_vm_native_export_descriptor_t =
  export_local_name :: string
  export_calling_convention :: string
  export_attrs :: "(string \<times> string) list"

record 's iree_vm_native_module_descriptor_t =
  md_name :: string
  md_version :: u32
  md_attrs :: "(string \<times> string) list"
  md_dependencies :: "string list"
  md_imports :: "iree_vm_native_import_descriptor_t list"
  md_exports :: "iree_vm_native_export_descriptor_t list"
  md_functions :: "'s native_shim list"

text \<open>The methods a module implements itself; \<open>None\<close> is a null pointer.\<close>

record 's module_interface =
  mi_self :: ptr
  mi_destroy :: "(ptr \<Rightarrow> ('s, unit) sm) option"
  mi_alloc_state :: "(ptr \<Rightarrow> iree_allocator_t \<Rightarrow> ('s, iree_status_code_t \<times> ptr) sm) option"
  mi_free_state :: "(ptr \<Rightarrow> ptr \<Rightarrow> ('s, unit) sm) option"
  mi_resolve_import ::
    "(ptr \<Rightarrow> ptr \<Rightarrow> iree_host_size_t \<Rightarrow> iree_vm_function_t \<Rightarrow> iree_vm_function_signature_t \<Rightarrow>
      ('s, iree_status_code_t) sm) option"

record 's vm_runtime =
  begin_call :: "ptr \<Rightarrow> iree_vm_function_t \<Rightarrow> u8 list \<Rightarrow> u8 list \<Rightarrow> ('s, iree_status_code_t \<times> u8 list) sm"
  allocator_malloc :: "iree_allocator_t \<Rightarrow> u64 \<Rightarrow> ('s, iree_status_code_t \<times> ptr) sm"
  allocator_free :: "iree_allocator_t \<Rightarrow> ptr \<Rightarrow> ('s, unit) sm"
  instance_lookup_type :: "ptr \<Rightarrow> string \<Rightarrow> ('s, u64) sm"
  vm_module_initialize :: "ptr \<Rightarrow> ('s, iree_status_code_t) sm"
  native_module_create ::
    "'s module_interface \<Rightarrow> 's iree_vm_native_module_descriptor_t \<Rightarrow> ptr \<Rightarrow> iree_allocator_t \<Rightarrow>
     ('s, iree_status_code_t \<times> ptr) sm"

section \<open>Calls\<close>

text \<open>\<open>IREE_RETURN_IF_ERROR\<close>: the rest runs only after a status that is \<open>OK\<close>.\<close>

definition return_if_error :: "('s, iree_status_code_t \<times> 'a) sm \<Rightarrow> 'b \<Rightarrow> ('a \<Rightarrow> ('s, iree_status_code_t \<times> 'b) sm) \<Rightarrow>
    ('s, iree_status_code_t \<times> 'b) sm" where
  "return_if_error m out rest =
     bind_sm m (\<lambda>(status, x). if status \<noteq> IREE_STATUS_OK then ret_sm (status, out) else rest x)"

text \<open>The bytes of the result are those of the object the caller passed, whatever the status.\<close>

definition call_import_i32_i32 ::
  "'s vm_runtime \<Rightarrow> iree_vm_function_t \<Rightarrow> i32 \<Rightarrow> i32 \<Rightarrow> ('s, iree_status_code_t \<times> i32) sm" where
  "call_import_i32_i32 L import arg0 out_ret0 =
     (if fn_module import = nullptr then fail_sm NullDeref
      else bind_sm (begin_call L (fn_module import) import (le_bytes 4 arg0) (le_bytes 4 out_ret0)) (\<lambda>(status, rets).
           ret_sm (status, of_le rets)))"

definition call_shim_i32_i32 :: "'s call_i32_i32_t \<Rightarrow> 's native_shim" where
  "call_shim_i32_i32 target_fn args_storage rets_storage module module_state =
     bind_sm (lift_sm (read_bytes args_storage 0 4)) (\<lambda>arg0.
     bind_sm (target_fn module module_state (of_le arg0)) (\<lambda>(status, ret0).
     case ret0 of
       None \<Rightarrow> ret_sm (status, rets_storage)
     | Some r \<Rightarrow> bind_sm (lift_sm (write_bytes rets_storage 0 (le_bytes 4 r))) (\<lambda>rets. ret_sm (status, rets))))"

section \<open>module_a\<close>

definition module_a_add_1 :: "'s call_i32_i32_t" where
  "module_a_add_1 module module_state arg0 =
     bind_sm (lift_sm (s_result (sint arg0 + 1))) (\<lambda>ret0. ret_sm (IREE_STATUS_OK, Some ret0))"

definition module_a_sub_1 :: "'s call_i32_i32_t" where
  "module_a_sub_1 module module_state arg0 =
     bind_sm (lift_sm (s_result (sint arg0 - 1))) (\<lambda>ret0. ret_sm (IREE_STATUS_OK, Some ret0))"

definition module_a_exports :: "iree_vm_native_export_descriptor_t list" where
  "module_a_exports =
     [\<lparr>export_local_name = ''add_1'', export_calling_convention = ''0i_i'', export_attrs = []\<rparr>,
      \<lparr>export_local_name = ''sub_1'', export_calling_convention = ''0i_i'', export_attrs = []\<rparr>]"

definition module_a_funcs :: "'s native_shim list" where
  "module_a_funcs = [call_shim_i32_i32 module_a_add_1, call_shim_i32_i32 module_a_sub_1]"

definition module_a_descriptor :: "'s iree_vm_native_module_descriptor_t" where
  "module_a_descriptor =
     \<lparr>md_name = ''module_a'', md_version = 0, md_attrs = [], md_dependencies = [], md_imports = [],
      md_exports = module_a_exports, md_functions = module_a_funcs\<rparr>"

text \<open>\<open>iree_vm_module_initialize\<close> clears the interface but for \<open>self\<close>.\<close>

definition empty_interface :: "ptr \<Rightarrow> 's module_interface" where
  "empty_interface self =
     \<lparr>mi_self = self, mi_destroy = None, mi_alloc_state = None, mi_free_state = None, mi_resolve_import = None\<rparr>"

definition module_a_create ::
  "'s vm_runtime \<Rightarrow> ptr \<Rightarrow> iree_allocator_t \<Rightarrow> ptr \<Rightarrow> ('s, iree_status_code_t \<times> ptr) sm" where
  "module_a_create L vm_instance allocator out_module =
     return_if_error (bind_sm (vm_module_initialize L nullptr) (\<lambda>status. ret_sm (status, ()))) out_module (\<lambda>_.
     native_module_create L (empty_interface nullptr) module_a_descriptor vm_instance allocator)"

section \<open>module_b\<close>

definition module_b_destroy :: "'w test_vm vm_runtime \<Rightarrow> ptr \<Rightarrow> ('w test_vm, unit) sm" where
  "module_b_destroy L self =
     bind_sm (get_b_module self) (\<lambda>module.
     bind_sm (allocator_free L (mb_allocator module) self) (\<lambda>_.
     modify_sm (\<lambda>s. s\<lparr>b_modules := (b_modules s)(self := None)\<rparr>)))"

definition module_b_alloc_state ::
  "'w test_vm vm_runtime \<Rightarrow> ptr \<Rightarrow> iree_allocator_t \<Rightarrow> ('w test_vm, iree_status_code_t \<times> ptr) sm" where
  "module_b_alloc_state L self allocator =
     return_if_error (allocator_malloc L allocator sizeof_module_b_state_t) nullptr (\<lambda>state.
     bind_sm (modify_sm (\<lambda>s. s\<lparr>b_states := (b_states s)(state \<mapsto>
        \<lparr>mbs_allocator = \<lparr>allocator_self = 0, allocator_ctl = 0\<rparr>, mbs_imports = replicate 2 zero_function,
         mbs_counter = 0\<rparr>)\<rparr>)) (\<lambda>_.
     bind_sm (get_b_state state) (\<lambda>st.
     bind_sm (put_b_state state (st\<lparr>mbs_allocator := allocator\<rparr>)) (\<lambda>_.
     ret_sm (IREE_STATUS_OK, state)))))"

definition module_b_free_state :: "'w test_vm vm_runtime \<Rightarrow> ptr \<Rightarrow> ptr \<Rightarrow> ('w test_vm, unit) sm" where
  "module_b_free_state L self module_state =
     bind_sm (get_b_state module_state) (\<lambda>st.
     bind_sm (allocator_free L (mbs_allocator st) module_state) (\<lambda>_.
     modify_sm (\<lambda>s. s\<lparr>b_states := (b_states s)(module_state := None)\<rparr>)))"

definition module_b_resolve_import ::
  "ptr \<Rightarrow> ptr \<Rightarrow> iree_host_size_t \<Rightarrow> iree_vm_function_t \<Rightarrow> iree_vm_function_signature_t \<Rightarrow>
   ('w test_vm, iree_status_code_t) sm" where
  "module_b_resolve_import self module_state ordinal function signature =
     bind_sm (get_b_state module_state) (\<lambda>st.
     if unat ordinal < length (mbs_imports st)
     then bind_sm (put_b_state module_state (st\<lparr>mbs_imports := (mbs_imports st)[unat ordinal := function]\<rparr>)) (\<lambda>_.
          ret_sm IREE_STATUS_OK)
     else fail_sm OutOfBounds)"

text \<open>\<open>assert(module->types[0])\<close>, where assertions are compiled.\<close>

definition assert_type :: "bool \<Rightarrow> ptr \<Rightarrow> ('w test_vm, unit) sm" where
  "assert_type asserts module =
     (if asserts then bind_sm (get_b_module module) (\<lambda>m.
        bind_sm (lift_sm (array_at (mb_types m) 0)) (\<lambda>t. if t = 0 then fail_sm AssertFailed else ret_sm ()))
      else ret_sm ())"

definition module_b_entry :: "'w test_vm vm_runtime \<Rightarrow> bool \<Rightarrow> 'w test_vm call_i32_i32_t" where
  "module_b_entry L asserts module module_state arg0 =
     bind_sm (assert_type asserts module) (\<lambda>_.
     bind_sm (get_b_state module_state) (\<lambda>st.
     bind_sm (lift_sm (array_at (mbs_imports st) 0)) (\<lambda>import0.
     return_if_error (call_import_i32_i32 L import0 arg0 arg0) None (\<lambda>arg0.
     bind_sm (get_b_state module_state) (\<lambda>st.
     bind_sm (lift_sm (s_result (sint (mbs_counter st) + sint arg0))) (\<lambda>counter.
     bind_sm (put_b_state module_state (st\<lparr>mbs_counter := counter\<rparr>)) (\<lambda>_.
     bind_sm (get_b_state module_state) (\<lambda>st.
     let ret0 = mbs_counter st in
     bind_sm (lift_sm (array_at (mbs_imports st) 1)) (\<lambda>import1.
     return_if_error (call_import_i32_i32 L import1 ret0 ret0) None (\<lambda>ret0.
     ret_sm (IREE_STATUS_OK, Some ret0)))))))))))"

definition module_b_funcs :: "'w test_vm vm_runtime \<Rightarrow> bool \<Rightarrow> 'w test_vm native_shim list" where
  "module_b_funcs L asserts = [call_shim_i32_i32 (module_b_entry L asserts)]"

definition module_b_imports :: "iree_vm_native_import_descriptor_t list" where
  "module_b_imports =
     [\<lparr>import_flags = IREE_VM_NATIVE_IMPORT_REQUIRED, import_full_name = ''module_a.add_1''\<rparr>,
      \<lparr>import_flags = IREE_VM_NATIVE_IMPORT_REQUIRED, import_full_name = ''module_a.sub_1''\<rparr>]"

definition module_b_entry_attrs :: "(string \<times> string) list" where
  "module_b_entry_attrs = [(''key1'', ''value1'')]"

definition module_b_exports :: "iree_vm_native_export_descriptor_t list" where
  "module_b_exports =
     [\<lparr>export_local_name = ''entry'', export_calling_convention = ''0i_i'', export_attrs = module_b_entry_attrs\<rparr>]"

definition module_b_descriptor :: "'w test_vm vm_runtime \<Rightarrow> bool \<Rightarrow> 'w test_vm iree_vm_native_module_descriptor_t" where
  "module_b_descriptor L asserts =
     \<lparr>md_name = ''module_b'', md_version = 0, md_attrs = [], md_dependencies = [], md_imports = module_b_imports,
      md_exports = module_b_exports, md_functions = module_b_funcs L asserts\<rparr>"

definition module_b_interface :: "'w test_vm vm_runtime \<Rightarrow> ptr \<Rightarrow> 'w test_vm module_interface" where
  "module_b_interface L module = (empty_interface module)
     \<lparr>mi_destroy := Some (module_b_destroy L), mi_alloc_state := Some (module_b_alloc_state L),
      mi_free_state := Some (module_b_free_state L), mi_resolve_import := Some module_b_resolve_import\<rparr>"

text \<open>\<open>iree_allocator_free\<close> of the object under construction.\<close>

definition free_b_module :: "'w test_vm vm_runtime \<Rightarrow> iree_allocator_t \<Rightarrow> ptr \<Rightarrow> ('w test_vm, unit) sm" where
  "free_b_module L allocator module =
     bind_sm (allocator_free L allocator module) (\<lambda>_.
     modify_sm (\<lambda>s. s\<lparr>b_modules := (b_modules s)(module := None)\<rparr>))"

definition module_b_create ::
  "'w test_vm vm_runtime \<Rightarrow> bool \<Rightarrow> ptr \<Rightarrow> iree_allocator_t \<Rightarrow> ptr \<Rightarrow> ('w test_vm, iree_status_code_t \<times> ptr) sm" where
  "module_b_create L asserts vm_instance allocator out_module =
     return_if_error (allocator_malloc L allocator sizeof_module_b_t) out_module (\<lambda>module.
     bind_sm (modify_sm (\<lambda>s. s\<lparr>b_modules := (b_modules s)(module \<mapsto>
        \<lparr>mb_allocator = \<lparr>allocator_self = 0, allocator_ctl = 0\<rparr>, mb_types = replicate 1 0\<rparr>)\<rparr>)) (\<lambda>_.
     bind_sm (get_b_module module) (\<lambda>m.
     bind_sm (put_b_module module (m\<lparr>mb_allocator := allocator\<rparr>)) (\<lambda>_.
     bind_sm (instance_lookup_type L vm_instance ''vm.buffer'') (\<lambda>type.
     bind_sm (get_b_module module) (\<lambda>m.
     bind_sm (put_b_module module (m\<lparr>mb_types := (mb_types m)[0 := type]\<rparr>)) (\<lambda>_.
     if type = 0 then
       bind_sm (free_b_module L allocator module) (\<lambda>_. ret_sm (IREE_STATUS_NOT_FOUND, out_module))
     else
       bind_sm (vm_module_initialize L module) (\<lambda>status.
       if status \<noteq> IREE_STATUS_OK then
         bind_sm (free_b_module L allocator module) (\<lambda>_. ret_sm (status, out_module))
       else native_module_create L (module_b_interface L module) (module_b_descriptor L asserts) vm_instance allocator))))))))"

section \<open>A module as an accumulator\<close>

text \<open>
  What the base native module documents of \<open>begin_call\<close>: it calls the entry of the table at the ordinal of the function
  with the \<open>self\<close> pointer and the state of the module, between entering and leaving a frame of the stack.
\<close>

definition calls_through_shims ::
  "'w test_vm vm_runtime \<Rightarrow> ('w \<Rightarrow> 'w) \<Rightarrow> ('w \<Rightarrow> 'w) \<Rightarrow> ptr \<Rightarrow> 'w test_vm native_shim list \<Rightarrow> ptr \<Rightarrow> ptr \<Rightarrow> bool" where
  "calls_through_shims L enter leave p fns self state \<longleftrightarrow>
     (\<forall>f args rets s. fn_module f = p \<and> fn_linkage f = IREE_VM_FUNCTION_LINKAGE_EXPORT \<and>
        unat (fn_ordinal f) < length fns \<longrightarrow>
        begin_call L p f args rets s =
          bind_sm (modify_sm (vm_world_update enter)) (\<lambda>_.
          bind_sm ((fns ! unat (fn_ordinal f)) args rets self state) (\<lambda>r.
          bind_sm (modify_sm (vm_world_update leave)) (\<lambda>_. ret_sm r))) s)"















text \<open>
  What the library documents of allocation: a block that is allocated is new, and freeing changes nothing the
  program sees but the block.
\<close>

definition allocates :: "'w test_vm vm_runtime \<Rightarrow> bool" where
  "allocates L \<longleftrightarrow>
     (\<forall>a n s. \<exists>w p. (allocator_malloc L a n s = Inr ((IREE_STATUS_OK, p), s\<lparr>vm_world := w\<rparr>) \<and> p \<noteq> nullptr \<and>
          b_modules s p = None \<and> b_states s p = None) \<or>
        (\<exists>e. e \<noteq> IREE_STATUS_OK \<and> allocator_malloc L a n s = Inr ((e, p), s\<lparr>vm_world := w\<rparr>))) \<and>
     (\<forall>a p s. \<exists>w. allocator_free L a p s = Inr ((), s\<lparr>vm_world := w\<rparr>))"

lemma allocatesD:
  assumes "allocates L"
  obtains w p where "allocator_malloc L a n s = Inr ((IREE_STATUS_OK, p), s\<lparr>vm_world := w\<rparr>)" "p \<noteq> nullptr"
      "b_modules s p = None" "b_states s p = None"
    | w p e where "allocator_malloc L a n s = Inr ((e, p), s\<lparr>vm_world := w\<rparr>)" "e \<noteq> IREE_STATUS_OK"
  using assms unfolding allocates_def by metis

lemma frees:
  assumes "allocates L"
  obtains w where "allocator_free L a p s = Inr ((), s\<lparr>vm_world := w\<rparr>)"
  using assms unfolding allocates_def by metis



text \<open>The tables are 1:1 with the exports and sorted by name, as the base native module asks.\<close>

lemma tables_match:
  "length (md_functions module_a_descriptor) = length (md_exports module_a_descriptor)"
  "length (md_functions (module_b_descriptor L asserts)) = length (md_exports (module_b_descriptor L asserts))"
  "map export_local_name (md_exports module_a_descriptor) = [''add_1'', ''sub_1'']"
  "map import_full_name (md_imports (module_b_descriptor L asserts)) =
     map (\<lambda>e. md_name module_a_descriptor @ ''.'' @ export_local_name e) (md_exports module_a_descriptor)"
  by (simp_all add: module_a_descriptor_def module_b_descriptor_def module_a_exports_def module_a_funcs_def
      module_b_exports_def module_b_funcs_def module_b_imports_def)

text \<open>\<open>sub_1\<close> is said to fail below zero; it does not.\<close>

lemma sub_1_below_zero: "module_a_sub_1 module state 0 s = Inr ((IREE_STATUS_OK, Some (- 1)), s)"
  by (simp add: module_a_sub_1_def s_result_def s_fits_def)

definition keeps_objects :: "('w test_vm, 'a) sm \<Rightarrow> bool" where
  "keeps_objects m \<longleftrightarrow> (\<forall>s. \<exists>x w. m s = Inr (x, s\<lparr>vm_world := w\<rparr>))"

lemma keeps_objectsD:
  assumes "keeps_objects m"
  obtains x w where "m s = Inr (x, s\<lparr>vm_world := w\<rparr>)"
  using assms unfolding keeps_objects_def by metis

lemma free_b_module_undoes:
  assumes "allocates L" "b_modules s p = None"
  obtains w where "free_b_module L a p (s\<lparr>vm_world := v, b_modules := (b_modules s)(p \<mapsto> m)\<rparr>) = Inr ((), s\<lparr>vm_world := w\<rparr>)"
proof -
  obtain w where w: "allocator_free L a p (s\<lparr>vm_world := v, b_modules := (b_modules s)(p \<mapsto> m)\<rparr>) =
      Inr ((), s\<lparr>vm_world := v, b_modules := (b_modules s)(p \<mapsto> m)\<rparr>\<lparr>vm_world := w\<rparr>)"
    by (rule frees [OF assms(1)])
  have "((b_modules s)(p \<mapsto> m))(p := None) = b_modules s" using assms(2) by auto
  then have "free_b_module L a p (s\<lparr>vm_world := v, b_modules := (b_modules s)(p \<mapsto> m)\<rparr>) = Inr ((), s\<lparr>vm_world := w\<rparr>)"
    using w by (cases s) (simp add: free_b_module_def bind_sm_def)
  then show ?thesis by (rule that)
qed

section \<open>Properties\<close>


text \<open>A library in which every allocation gives the same block, and calls of \<open>module_a\<close> at 16 go through its table.\<close>

definition sample_runtime :: "unit test_vm vm_runtime" where
  "sample_runtime =
     \<lparr>begin_call = (\<lambda>p f args rets.
        if p = 16 \<and> unat (fn_ordinal f) < 2 then (module_a_funcs ! unat (fn_ordinal f)) args rets nullptr nullptr
        else ret_sm (IREE_STATUS_INVALID_ARGUMENT, rets)),
      allocator_malloc = (\<lambda>a n s.
        if b_modules s 32 = None \<and> b_states s 32 = None then Inr ((IREE_STATUS_OK, 32), s)
        else Inr ((IREE_STATUS_RESOURCE_EXHAUSTED, nullptr), s)),
      allocator_free = (\<lambda>a p. ret_sm ()),
      instance_lookup_type = (\<lambda>i name. ret_sm (if name = ''vm.buffer'' then 8 else 0)),
      vm_module_initialize = (\<lambda>self. ret_sm IREE_STATUS_OK),
      native_module_create = (\<lambda>interface descriptor i a. ret_sm (IREE_STATUS_OK, 64))\<rparr>"

definition sample_vm :: "unit test_vm" where
  "sample_vm = \<lparr>vm_world = (),
     b_modules = [48 \<mapsto> \<lparr>mb_allocator = \<lparr>allocator_self = 0, allocator_ctl = 0\<rparr>, mb_types = [8]\<rparr>], b_states = Map.empty\<rparr>"

lemma unit_worlds: "vm_world_update f (s :: unit test_vm) = s"
  by (cases s) simp

lemma sample_runtime_laws:
  "calls_through_shims sample_runtime id id 16 module_a_funcs nullptr nullptr" "allocates sample_runtime"
proof -
  show "calls_through_shims sample_runtime id id 16 module_a_funcs nullptr nullptr"
    by (auto simp: calls_through_shims_def sample_runtime_def unit_worlds module_a_funcs_def bind_sm_def split: sum.split)
  have "allocator_malloc sample_runtime a n s =
      (if b_modules s 32 = None \<and> b_states s 32 = None then Inr ((IREE_STATUS_OK, 32), s)
       else Inr ((IREE_STATUS_RESOURCE_EXHAUSTED, nullptr), s))" for a n s
    by (simp add: sample_runtime_def)
  moreover have "(32 :: ptr) \<noteq> nullptr" by simp
  ultimately show "allocates sample_runtime"
    unfolding allocates_def unit_worlds
    by (metis (no_types, lifting) iree_status_code_t.distinct(15) sample_runtime_def ret_sm_def select_convs)
qed


text \<open>
  Creating \<open>module_b\<close> either fails and leaves the objects of the program as they were, or hands the library an interface
  whose \<open>self\<close> is a new module that holds the type it looked up.
\<close>

theorem create_releases_on_failure:
  assumes "allocates L" "keeps_objects (instance_lookup_type L i ''vm.buffer'')" "\<And>p. keeps_objects (vm_module_initialize L p)"
  shows "(\<exists>e w. e \<noteq> IREE_STATUS_OK \<and> module_b_create L asserts i a out s = Inr ((e, out), s\<lparr>vm_world := w\<rparr>)) \<or>
    (\<exists>p t w. p \<noteq> nullptr \<and> b_modules s p = None \<and> t \<noteq> 0 \<and>
      module_b_create L asserts i a out s =
        native_module_create L (module_b_interface L p) (module_b_descriptor L asserts) i a
          (s\<lparr>vm_world := w, b_modules := (b_modules s)(p \<mapsto> \<lparr>mb_allocator = a, mb_types = [t]\<rparr>)\<rparr>))"
  using assms(1)
proof (rule allocatesD [where a = a and n = sizeof_module_b_t and s = s])
  fix w p e
  assume "allocator_malloc L a sizeof_module_b_t s = Inr ((e, p), s\<lparr>vm_world := w\<rparr>)" "e \<noteq> IREE_STATUS_OK"
  then show ?thesis by (auto simp: module_b_create_def return_if_error_def bind_sm_def)
next
  fix w p
  assume p: "allocator_malloc L a sizeof_module_b_t s = Inr ((IREE_STATUS_OK, p), s\<lparr>vm_world := w\<rparr>)" "p \<noteq> nullptr"
    "b_modules s p = None" "b_states s p = None"
  let ?s = "\<lambda>w t. s\<lparr>vm_world := w, b_modules := (b_modules s)(p \<mapsto> \<lparr>mb_allocator = a, mb_types = [t]\<rparr>)\<rparr>"
  obtain t w1 where t: "instance_lookup_type L i ''vm.buffer'' (?s w 0) = Inr (t, ?s w 0\<lparr>vm_world := w1\<rparr>)"
    by (rule keeps_objectsD [OF assms(2)])
  have to_type: "module_b_create L asserts i a out s =
      (if t = 0 then bind_sm (free_b_module L a p) (\<lambda>_. ret_sm (IREE_STATUS_NOT_FOUND, out))
       else bind_sm (vm_module_initialize L p) (\<lambda>status.
         if status \<noteq> IREE_STATUS_OK then bind_sm (free_b_module L a p) (\<lambda>_. ret_sm (status, out))
         else native_module_create L (module_b_interface L p) (module_b_descriptor L asserts) i a)) (?s w1 t)"
    using p(1,2) t by (simp add: module_b_create_def return_if_error_def bind_sm_def get_b_module_def put_b_module_def)
  show ?thesis
  proof (cases "t = 0")
    case True
    obtain w2 where "free_b_module L a p (?s w1 t) = Inr ((), s\<lparr>vm_world := w2\<rparr>)"
      by (rule free_b_module_undoes [OF assms(1) p(3)])
    then show ?thesis using True by (auto simp: to_type bind_sm_def)
  next
    case False
    have upd: "s\<lparr>b_modules := B, vm_world := w\<rparr> = s\<lparr>vm_world := w, b_modules := B\<rparr>" for B w by (cases s) simp
    obtain st w2 where st: "vm_module_initialize L p (?s w1 t) = Inr (st, ?s w1 t\<lparr>vm_world := w2\<rparr>)"
      by (rule keeps_objectsD [OF assms(3)])
    obtain w3 where f: "free_b_module L a p (?s w2 t) = Inr ((), s\<lparr>vm_world := w3\<rparr>)"
      by (rule free_b_module_undoes [OF assms(1) p(3)])
    show ?thesis
    proof (cases "st = IREE_STATUS_OK")
      case True
      then have "module_b_create L asserts i a out s =
          native_module_create L (module_b_interface L p) (module_b_descriptor L asserts) i a (?s w2 t)"
        using False st by (simp add: to_type bind_sm_def upd)
      then show ?thesis using p(2,3) False by blast
    next
      case e: False
      then have "module_b_create L asserts i a out s = Inr ((st, out), s\<lparr>vm_world := w3\<rparr>)"
        using False st f by (simp add: to_type bind_sm_def upd)
      then show ?thesis using e by blast
    qed
  qed
qed

theorem create_releases_on_failure_witness:
  "(\<exists>e w. e \<noteq> IREE_STATUS_OK \<and> module_b_create sample_runtime True 1 \<lparr>allocator_self = 1, allocator_ctl = 2\<rparr> 0 sample_vm =
      Inr ((e, 0), sample_vm\<lparr>vm_world := w\<rparr>)) \<or>
    (\<exists>p t w. p \<noteq> nullptr \<and> b_modules sample_vm p = None \<and> t \<noteq> 0 \<and>
      module_b_create sample_runtime True 1 \<lparr>allocator_self = 1, allocator_ctl = 2\<rparr> 0 sample_vm =
        native_module_create sample_runtime (module_b_interface sample_runtime p) (module_b_descriptor sample_runtime True) 1
          \<lparr>allocator_self = 1, allocator_ctl = 2\<rparr>
          (sample_vm\<lparr>vm_world := w, b_modules := (b_modules sample_vm)(p \<mapsto>
             \<lparr>mb_allocator = \<lparr>allocator_self = 1, allocator_ctl = 2\<rparr>, mb_types = [t]\<rparr>)\<rparr>))"
  by (rule create_releases_on_failure [OF sample_runtime_laws(2)])
    (auto simp: keeps_objects_def sample_runtime_def ret_sm_def unit_worlds)

end
