(* ===== verification/Uk_Simd.thy ===== *)
theory Uk_Simd
  imports Uk_Common
begin

unbundle bit_operations_syntax

text \<open>
  \<open>builtins/ukernel/arch/x86_64/common_x86_64.h\<close> and \<open>arch/arm_64/common_arm_64.h\<close>: the vector code that
  the microkernels of the two architectures share, which copies and transposes small tiles of bytes between
  strided buffers. A vector register is the list of its bytes, least significant first, so that a
  reinterpretation is the identity; the intrinsics are the functions on lists that Intel and Arm document. They are
  polymorphic in the bytes: what they do to one matrix of distinct elements they do to all (section
  ``Reduction to index matrices''). The source and the target of a kernel are different blocks, since its pointers are
  \<open>restrict\<close>; a pointer is an offset into its block.
\<close>

section \<open>Memory\<close>

definition load :: "nat \<Rightarrow> 'a list \<Rightarrow> int \<Rightarrow> 'a list res" where
  "load n mem p =
     (if 0 \<le> p \<and> nat p + n \<le> length mem then Inr (take n (drop (nat p) mem)) else Inl OutOfBounds)"

definition store :: "int \<Rightarrow> 'a list \<Rightarrow> ('a list, unit) sm" where
  "store p v mem =
     (if 0 \<le> p \<and> nat p + length v \<le> length mem
      then Inr ((), take (nat p) mem @ v @ drop (nat p + length v) mem)
      else Inl OutOfBounds)"

section \<open>Intrinsics\<close>

function chunks :: "nat \<Rightarrow> 'a list \<Rightarrow> 'a list list" where
  "chunks n xs = (if n = 0 \<or> xs = [] then [] else take n xs # chunks n (drop n xs))"
  by pat_completeness auto
termination by (relation "measure (\<lambda>(n, xs). length xs)") auto

declare chunks.simps [simp del]

definition interleave :: "nat \<Rightarrow> 'a list \<Rightarrow> 'a list \<Rightarrow> 'a list" where
  "interleave w a b = concat (map (\<lambda>(x, y). x @ y) (zip (chunks w a) (chunks w b)))"

definition per_lane :: "('a list \<Rightarrow> 'a list \<Rightarrow> 'a list) \<Rightarrow> 'a list \<Rightarrow> 'a list \<Rightarrow> 'a list" where
  "per_lane f a b = concat (map (\<lambda>(x, y). f x y) (zip (chunks 16 a) (chunks 16 b)))"

text \<open>
  \<open>_mm256_unpacklo_epi16\<close>, \<open>_epi32\<close> and \<open>_epi64\<close> and their 512-bit forms for \<open>w = 2, 4, 8\<close>: the elements of
  the lower halves of each 128-bit lane, alternately; \<open>unpackhi\<close> takes the upper halves.
\<close>

definition mm_unpacklo :: "nat \<Rightarrow> 'a list \<Rightarrow> 'a list \<Rightarrow> 'a list" where
  "mm_unpacklo w = per_lane (\<lambda>x y. interleave w (take 8 x) (take 8 y))"

definition mm_unpackhi :: "nat \<Rightarrow> 'a list \<Rightarrow> 'a list \<Rightarrow> 'a list" where
  "mm_unpackhi w = per_lane (\<lambda>x y. interleave w (drop 8 x) (drop 8 y))"

text \<open>Four elements of \<open>w\<close> bytes each, chosen by the two-bit fields of \<open>imm\<close>.\<close>

definition select4 :: "nat \<Rightarrow> nat \<Rightarrow> 'a list \<Rightarrow> 'a list" where
  "select4 w imm v = concat (map (\<lambda>i. take w (drop (w * (imm div 4 ^ i mod 4)) v)) [0..<4])"

definition mm_shuffle_epi32 :: "'a list \<Rightarrow> nat \<Rightarrow> 'a list" where
  "mm_shuffle_epi32 v imm = concat (map (select4 4 imm) (chunks 16 v))"

text \<open>\<open>_mm256_permute4x64_epi64\<close> and \<open>_mm512_permutex_epi64\<close>, which works on each half.\<close>

definition mm_permute4x64 :: "'a list \<Rightarrow> nat \<Rightarrow> 'a list" where
  "mm_permute4x64 v imm = concat (map (select4 8 imm) (chunks 32 v))"

text \<open>
  \<open>_mm256_inserti128_si256\<close>, \<open>_mm512_inserti32x4\<close> and the corresponding extractions. The upper part of a vector that was
  cast from a shorter one is undefined until something is inserted there; it is left out of the list.
\<close>

definition mm_insert128 :: "'a list \<Rightarrow> 'a list \<Rightarrow> nat \<Rightarrow> 'a list" where
  "mm_insert128 v x i = take (16 * i) v @ x @ drop (16 * i + 16) v"

definition mm_extract128 :: "'a list \<Rightarrow> nat \<Rightarrow> 'a list" where
  "mm_extract128 v i = take 16 (drop (16 * i) v)"

definition mm_insert_epi16 :: "'a list \<Rightarrow> 'a list \<Rightarrow> nat \<Rightarrow> 'a list" where
  "mm_insert_epi16 v x i = take (2 * i) v @ x @ drop (2 * i + 2) v"

text \<open>
  The indices of a gather are 32-bit products of the lane number and the stride, which is first
  converted to 32 bits; each lane reads 4 bytes at the sign-extended index.
\<close>

definition mm_mullo_epi32 :: "u32 list \<Rightarrow> u32 list \<Rightarrow> u32 list" where
  "mm_mullo_epi32 a b = map (\<lambda>(x, y). x * y) (zip a b)"

fun mm_i32gather_epi32 :: "u8 list \<Rightarrow> int \<Rightarrow> u32 list \<Rightarrow> u8 list res" where
  "mm_i32gather_epi32 mem src [] = Inr []"
| "mm_i32gather_epi32 mem src (i # is) =
     bind_res (load 4 mem (src + sint i)) (\<lambda>v.
     bind_res (mm_i32gather_epi32 mem src is) (\<lambda>vs. Inr (v @ vs)))"

section \<open>x86-64: processor features\<close>

text \<open>The bits of the features are defined in a file that is not part of the repository: \<open>bits\<close> gives them by name.\<close>

definition iree_uk_cpu_x86_64_avx2_fma :: "(string \<Rightarrow> u64) \<Rightarrow> u64 \<Rightarrow> bool" where
  "iree_uk_cpu_x86_64_avx2_fma bits data0 =
     iree_uk_all_bits_set data0 (bits ''AVX2'' OR bits ''FMA'' OR bits ''F16C'')"

definition iree_uk_cpu_x86_64_avx512_base :: "(string \<Rightarrow> u64) \<Rightarrow> u64 \<Rightarrow> bool" where
  "iree_uk_cpu_x86_64_avx512_base bits data0 \<longleftrightarrow>
     iree_uk_cpu_x86_64_avx2_fma bits data0 \<and>
     iree_uk_all_bits_set data0 (bits ''AVX512F'' OR bits ''AVX512BW'' OR bits ''AVX512DQ'' OR
       bits ''AVX512VL'' OR bits ''AVX512CD'')"

definition iree_uk_cpu_x86_64_avx512_vnni :: "(string \<Rightarrow> u64) \<Rightarrow> u64 \<Rightarrow> bool" where
  "iree_uk_cpu_x86_64_avx512_vnni bits data0 \<longleftrightarrow>
     iree_uk_cpu_x86_64_avx512_base bits data0 \<and> iree_uk_all_bits_set data0 (bits ''AVX512VNNI'')"

definition iree_uk_cpu_x86_64_avx512_bf16 :: "(string \<Rightarrow> u64) \<Rightarrow> u64 \<Rightarrow> bool" where
  "iree_uk_cpu_x86_64_avx512_bf16 bits data0 \<longleftrightarrow>
     iree_uk_cpu_x86_64_avx512_base bits data0 \<and> iree_uk_all_bits_set data0 (bits ''AVX512BF16'')"

section \<open>x86-64: loads and stores\<close>

definition iree_uk_avx_loadu_2x128 :: "u8 list \<Rightarrow> int \<Rightarrow> int \<Rightarrow> u8 list res" where
  "iree_uk_avx_loadu_2x128 mem src0 src1 =
     bind_res (load 16 mem src0) (\<lambda>v128_0.
     bind_res (load 16 mem src1) (\<lambda>v128_1.
     Inr (mm_insert128 v128_0 v128_1 1)))"

definition iree_uk_avx_storeu_2x128 :: "int \<Rightarrow> int \<Rightarrow> u8 list \<Rightarrow> (u8 list, unit) sm" where
  "iree_uk_avx_storeu_2x128 dst0 dst1 vec256 =
     (let v128_0 = mm_extract128 vec256 0;
          v128_1 = mm_extract128 vec256 1
      in bind_sm (store dst0 v128_0) (\<lambda>_. store dst1 v128_1))"

text \<open>\<open>iree_uk_memcpy\<close> between two positions.\<close>

definition memcpy_at :: "int \<Rightarrow> u8 list \<Rightarrow> int \<Rightarrow> iree_uk_index_t \<Rightarrow> (u8 list, unit) sm" where
  "memcpy_at dst src_mem src n mem =
     (if dst < 0 \<or> src < 0 then Inl OutOfBounds
      else bind_res (iree_uk_memcpy (drop (nat dst) mem) (drop (nat src) src_mem) n) (\<lambda>copied.
           Inr ((), take (nat dst) mem @ copied)))"

fun strided_copy_loop ::
  "nat list \<Rightarrow> u8 list \<Rightarrow> int \<Rightarrow> int \<Rightarrow> iree_uk_index_t \<Rightarrow> iree_uk_index_t \<Rightarrow> iree_uk_index_t \<Rightarrow> (u8 list, unit) sm" where
  "strided_copy_loop [] src out_ptr in_ptr out_stride in_stride n = ret_sm ()"
| "strided_copy_loop (i # is) src out_ptr in_ptr out_stride in_stride n =
     bind_sm (memcpy_at (out_ptr + int i * out_stride) src (in_ptr + int i * in_stride) n) (\<lambda>_.
     strided_copy_loop is src out_ptr in_ptr out_stride in_stride n)"

definition iree_uk_copy_8x32xi8_strided_to_strided ::
  "int \<Rightarrow> u8 list \<Rightarrow> int \<Rightarrow> iree_uk_index_t \<Rightarrow> iree_uk_index_t \<Rightarrow> (u8 list, unit) sm" where
  "iree_uk_copy_8x32xi8_strided_to_strided out_ptr src in_ptr out_stride in_stride =
     strided_copy_loop [0..<8] src out_ptr in_ptr out_stride in_stride 32"

definition iree_uk_copy_16x64xi8_strided_to_strided ::
  "int \<Rightarrow> u8 list \<Rightarrow> int \<Rightarrow> iree_uk_index_t \<Rightarrow> iree_uk_index_t \<Rightarrow> (u8 list, unit) sm" where
  "iree_uk_copy_16x64xi8_strided_to_strided out_ptr src in_ptr out_stride in_stride =
     strided_copy_loop [0..<16] src out_ptr in_ptr out_stride in_stride 64"

definition iree_uk_avx2_load_8x4xi8_strided :: "u8 list \<Rightarrow> int \<Rightarrow> iree_uk_index_t \<Rightarrow> u8 list res" where
  "iree_uk_avx2_load_8x4xi8_strided mem src stride =
     (let indices = mm_mullo_epi32 [0, 1, 2, 3, 4, 5, 6, 7] (replicate 8 (word_of_int stride))
      in mm_i32gather_epi32 mem src indices)"

text \<open>The lines of the two functions that insert one 16-bit row after the other.\<close>

fun insert_rows :: "u8 list \<Rightarrow> int \<Rightarrow> iree_uk_index_t \<Rightarrow> nat list \<Rightarrow> u8 list \<Rightarrow> u8 list res" where
  "insert_rows mem src stride [] result = Inr result"
| "insert_rows mem src stride (i # is) result =
     bind_res (load 2 mem (src + int i * stride)) (\<lambda>x.
     insert_rows mem src stride is (mm_insert_epi16 result x i))"

definition iree_uk_avx2_load_8x2xi8_strided :: "u8 list \<Rightarrow> int \<Rightarrow> iree_uk_index_t \<Rightarrow> u8 list res" where
  "iree_uk_avx2_load_8x2xi8_strided mem src stride =
     insert_rows mem src stride [0, 1, 2, 3, 4, 5, 6, 7] (replicate 16 0)"

definition iree_uk_avx2_load_16x2xi8_strided :: "u8 list \<Rightarrow> int \<Rightarrow> iree_uk_index_t \<Rightarrow> u8 list res" where
  "iree_uk_avx2_load_16x2xi8_strided mem src stride =
     insert_rows mem src stride [0, 1, 2, 3, 4, 5, 6, 7, 8, 9, 10, 11, 12, 13, 14, 15] (replicate 32 0)"

definition iree_uk_avx2_copy_8x4xi8_strided_to_unstrided ::
  "int \<Rightarrow> u8 list \<Rightarrow> int \<Rightarrow> iree_uk_index_t \<Rightarrow> (u8 list, unit) sm" where
  "iree_uk_avx2_copy_8x4xi8_strided_to_unstrided out_ptr src in_ptr in_stride =
     bind_sm (lift_sm (iree_uk_avx2_load_8x4xi8_strided src in_ptr in_stride)) (store out_ptr)"

definition iree_uk_avx2_copy_8x2xi8_strided_to_unstrided ::
  "int \<Rightarrow> u8 list \<Rightarrow> int \<Rightarrow> iree_uk_index_t \<Rightarrow> (u8 list, unit) sm" where
  "iree_uk_avx2_copy_8x2xi8_strided_to_unstrided out_ptr src in_ptr in_stride =
     bind_sm (lift_sm (iree_uk_avx2_load_8x2xi8_strided src in_ptr in_stride)) (store out_ptr)"

definition iree_uk_avx2_copy_16x2xi8_strided_to_unstrided ::
  "int \<Rightarrow> u8 list \<Rightarrow> int \<Rightarrow> iree_uk_index_t \<Rightarrow> (u8 list, unit) sm" where
  "iree_uk_avx2_copy_16x2xi8_strided_to_unstrided out_ptr src in_ptr in_stride =
     bind_sm (lift_sm (iree_uk_avx2_load_16x2xi8_strided src in_ptr in_stride)) (store out_ptr)"

section \<open>x86-64: transposition\<close>

text \<open>Of each kernel that transposes, the part between the loads and the stores is a function of the registers.\<close>

definition avx2_8x16_1x4_registers :: "'a list \<Rightarrow> 'a list \<Rightarrow> 'a list \<Rightarrow> 'a list \<Rightarrow> 'a list list" where
  "avx2_8x16_1x4_registers r00004444 r11115555 r22226666 r33337777 =
     (let r00224466_0 = mm_unpacklo 8 r00004444 r22226666;
          r00224466_1 = mm_unpackhi 8 r00004444 r22226666;
          r11335577_0 = mm_unpacklo 8 r11115555 r33337777;
          r11335577_1 = mm_unpackhi 8 r11115555 r33337777;
          r01014545_0 = mm_unpacklo 4 r00224466_0 r11335577_0;
          r01014545_1 = mm_unpacklo 4 r00224466_1 r11335577_1;
          r23236767_0 = mm_unpackhi 4 r00224466_0 r11335577_0;
          r23236767_1 = mm_unpackhi 4 r00224466_1 r11335577_1;
          r01234567_0 = mm_unpacklo 8 r01014545_0 r23236767_0;
          r01234567_1 = mm_unpackhi 8 r01014545_0 r23236767_0;
          r01234567_2 = mm_unpacklo 8 r01014545_1 r23236767_1;
          r01234567_3 = mm_unpackhi 8 r01014545_1 r23236767_1
      in [r01234567_0, r01234567_1, r01234567_2, r01234567_3])"

definition avx2_8x16_1x2_registers :: "'a list \<Rightarrow> 'a list \<Rightarrow> 'a list \<Rightarrow> 'a list \<Rightarrow> 'a list list" where
  "avx2_8x16_1x2_registers r0000000044444444 r1111111155555555 r2222222266666666 r3333333377777777 =
     (let r0000111144445555_0 = mm_unpacklo 8 r0000000044444444 r1111111155555555;
          r0000111144445555_1 = mm_unpackhi 8 r0000000044444444 r1111111155555555;
          r2222333366667777_0 = mm_unpacklo 8 r2222222266666666 r3333333377777777;
          r2222333366667777_1 = mm_unpackhi 8 r2222222266666666 r3333333377777777;
          r0022002244664466_0 = mm_unpacklo 4 r0000111144445555_0 r2222333366667777_0;
          r0022002244664466_1 = mm_unpacklo 4 r0000111144445555_1 r2222333366667777_1;
          r1133113355775577_0 = mm_unpackhi 4 r0000111144445555_0 r2222333366667777_0;
          r1133113355775577_1 = mm_unpackhi 4 r0000111144445555_1 r2222333366667777_1;
          r0101232345456767_0 = mm_unpacklo 2 r0022002244664466_0 r1133113355775577_0;
          r0101232345456767_1 = mm_unpackhi 2 r0022002244664466_0 r1133113355775577_0;
          r0101232345456767_2 = mm_unpacklo 2 r0022002244664466_1 r1133113355775577_1;
          r0101232345456767_3 = mm_unpackhi 2 r0022002244664466_1 r1133113355775577_1;
          r0123012345674567_0 = mm_shuffle_epi32 r0101232345456767_0 0xD8;
          r0123012345674567_1 = mm_shuffle_epi32 r0101232345456767_1 0xD8;
          r0123012345674567_2 = mm_shuffle_epi32 r0101232345456767_2 0xD8;
          r0123012345674567_3 = mm_shuffle_epi32 r0101232345456767_3 0xD8;
          r0123456701234567_0 = mm_permute4x64 r0123012345674567_0 0xD8;
          r0123456701234567_1 = mm_permute4x64 r0123012345674567_1 0xD8;
          r0123456701234567_2 = mm_permute4x64 r0123012345674567_2 0xD8;
          r0123456701234567_3 = mm_permute4x64 r0123012345674567_3 0xD8
      in [r0123456701234567_0, r0123456701234567_1, r0123456701234567_2, r0123456701234567_3])"

definition avx512_16x16_1x4_registers :: "'a list \<Rightarrow> 'a list \<Rightarrow> 'a list \<Rightarrow> 'a list \<Rightarrow> 'a list list" where
  "avx512_16x16_1x4_registers r000044448888CCCC r111155559999DDDD r22226666AAAAEEEE r33337777BBBBFFFF =
     (let r0022446688AACCEE_0 = mm_unpacklo 8 r000044448888CCCC r22226666AAAAEEEE;
          r0022446688AACCEE_1 = mm_unpackhi 8 r000044448888CCCC r22226666AAAAEEEE;
          r1133557799BBDDFF_0 = mm_unpacklo 8 r111155559999DDDD r33337777BBBBFFFF;
          r1133557799BBDDFF_1 = mm_unpackhi 8 r111155559999DDDD r33337777BBBBFFFF;
          r010145458989CDCD_0 = mm_unpacklo 4 r0022446688AACCEE_0 r1133557799BBDDFF_0;
          r010145458989CDCD_1 = mm_unpacklo 4 r0022446688AACCEE_1 r1133557799BBDDFF_1;
          r23236767ABABEFEF_0 = mm_unpackhi 4 r0022446688AACCEE_0 r1133557799BBDDFF_0;
          r23236767ABABEFEF_1 = mm_unpackhi 4 r0022446688AACCEE_1 r1133557799BBDDFF_1;
          r0123456789ABCDEF_0 = mm_unpacklo 8 r010145458989CDCD_0 r23236767ABABEFEF_0;
          r0123456789ABCDEF_1 = mm_unpackhi 8 r010145458989CDCD_0 r23236767ABABEFEF_0;
          r0123456789ABCDEF_2 = mm_unpacklo 8 r010145458989CDCD_1 r23236767ABABEFEF_1;
          r0123456789ABCDEF_3 = mm_unpackhi 8 r010145458989CDCD_1 r23236767ABABEFEF_1
      in [r0123456789ABCDEF_0, r0123456789ABCDEF_1, r0123456789ABCDEF_2, r0123456789ABCDEF_3])"

definition avx512_16x16_1x2_registers :: "'a list \<Rightarrow> 'a list \<Rightarrow> 'a list \<Rightarrow> 'a list \<Rightarrow> 'a list list" where
  "avx512_16x16_1x2_registers r000044448888CCCC r111155559999DDDD r22226666AAAAEEEE r33337777BBBBFFFF =
     (let r0000111144445555_0 = mm_unpacklo 8 r000044448888CCCC r111155559999DDDD;
          r0000111144445555_1 = mm_unpackhi 8 r000044448888CCCC r111155559999DDDD;
          r2222333366667777_0 = mm_unpacklo 8 r22226666AAAAEEEE r33337777BBBBFFFF;
          r2222333366667777_1 = mm_unpackhi 8 r22226666AAAAEEEE r33337777BBBBFFFF;
          r0022002244664466_0 = mm_unpacklo 4 r0000111144445555_0 r2222333366667777_0;
          r0022002244664466_1 = mm_unpacklo 4 r0000111144445555_1 r2222333366667777_1;
          r1133113355775577_0 = mm_unpackhi 4 r0000111144445555_0 r2222333366667777_0;
          r1133113355775577_1 = mm_unpackhi 4 r0000111144445555_1 r2222333366667777_1;
          r0101232345456767_0 = mm_unpacklo 2 r0022002244664466_0 r1133113355775577_0;
          r0101232345456767_1 = mm_unpackhi 2 r0022002244664466_0 r1133113355775577_0;
          r0101232345456767_2 = mm_unpacklo 2 r0022002244664466_1 r1133113355775577_1;
          r0101232345456767_3 = mm_unpackhi 2 r0022002244664466_1 r1133113355775577_1;
          r0123012345674567_0 = mm_shuffle_epi32 r0101232345456767_0 0xD8;
          r0123012345674567_1 = mm_shuffle_epi32 r0101232345456767_1 0xD8;
          r0123012345674567_2 = mm_shuffle_epi32 r0101232345456767_2 0xD8;
          r0123012345674567_3 = mm_shuffle_epi32 r0101232345456767_3 0xD8;
          r0123456701234567_0 = mm_permute4x64 r0123012345674567_0 0xD8;
          r0123456701234567_1 = mm_permute4x64 r0123012345674567_1 0xD8;
          r0123456701234567_2 = mm_permute4x64 r0123012345674567_2 0xD8;
          r0123456701234567_3 = mm_permute4x64 r0123012345674567_3 0xD8
      in [r0123456701234567_0, r0123456701234567_1, r0123456701234567_2, r0123456701234567_3])"

definition iree_uk_avx2_copy_8x16xi8_tiled_1x4_transpose_strided_to_strided ::
  "int \<Rightarrow> u8 list \<Rightarrow> int \<Rightarrow> iree_uk_index_t \<Rightarrow> iree_uk_index_t \<Rightarrow> (u8 list, unit) sm" where
  "iree_uk_avx2_copy_8x16xi8_tiled_1x4_transpose_strided_to_strided out_ptr src in_ptr out_stride in_stride =
     bind_sm (lift_sm (iree_uk_avx_loadu_2x128 src (in_ptr + 0 * in_stride) (in_ptr + 4 * in_stride))) (\<lambda>r00004444.
     bind_sm (lift_sm (iree_uk_avx_loadu_2x128 src (in_ptr + 1 * in_stride) (in_ptr + 5 * in_stride))) (\<lambda>r11115555.
     bind_sm (lift_sm (iree_uk_avx_loadu_2x128 src (in_ptr + 2 * in_stride) (in_ptr + 6 * in_stride))) (\<lambda>r22226666.
     bind_sm (lift_sm (iree_uk_avx_loadu_2x128 src (in_ptr + 3 * in_stride) (in_ptr + 7 * in_stride))) (\<lambda>r33337777.
     let outs = avx2_8x16_1x4_registers r00004444 r11115555 r22226666 r33337777
     in bind_sm (store (out_ptr + 0 * out_stride) (outs ! 0)) (\<lambda>_.
        bind_sm (store (out_ptr + 1 * out_stride) (outs ! 1)) (\<lambda>_.
        bind_sm (store (out_ptr + 2 * out_stride) (outs ! 2)) (\<lambda>_.
        store (out_ptr + 3 * out_stride) (outs ! 3))))))))"

definition iree_uk_avx2_copy_8x16xi8_tiled_1x2_transpose_strided_to_strided ::
  "int \<Rightarrow> u8 list \<Rightarrow> int \<Rightarrow> iree_uk_index_t \<Rightarrow> iree_uk_index_t \<Rightarrow> (u8 list, unit) sm" where
  "iree_uk_avx2_copy_8x16xi8_tiled_1x2_transpose_strided_to_strided out_ptr src in_ptr out_stride in_stride =
     bind_sm (lift_sm (iree_uk_avx_loadu_2x128 src (in_ptr + 0 * in_stride) (in_ptr + 4 * in_stride))) (\<lambda>r0000000044444444.
     bind_sm (lift_sm (iree_uk_avx_loadu_2x128 src (in_ptr + 1 * in_stride) (in_ptr + 5 * in_stride))) (\<lambda>r1111111155555555.
     bind_sm (lift_sm (iree_uk_avx_loadu_2x128 src (in_ptr + 2 * in_stride) (in_ptr + 6 * in_stride))) (\<lambda>r2222222266666666.
     bind_sm (lift_sm (iree_uk_avx_loadu_2x128 src (in_ptr + 3 * in_stride) (in_ptr + 7 * in_stride))) (\<lambda>r3333333377777777.
     let outs = avx2_8x16_1x2_registers r0000000044444444 r1111111155555555 r2222222266666666 r3333333377777777
     in bind_sm (iree_uk_avx_storeu_2x128 (out_ptr + 0 * out_stride) (out_ptr + 1 * out_stride) (outs ! 0)) (\<lambda>_.
        bind_sm (iree_uk_avx_storeu_2x128 (out_ptr + 2 * out_stride) (out_ptr + 3 * out_stride) (outs ! 1)) (\<lambda>_.
        bind_sm (iree_uk_avx_storeu_2x128 (out_ptr + 4 * out_stride) (out_ptr + 5 * out_stride) (outs ! 2)) (\<lambda>_.
        iree_uk_avx_storeu_2x128 (out_ptr + 6 * out_stride) (out_ptr + 7 * out_stride) (outs ! 3))))))))"

section \<open>x86-64: 512-bit vectors\<close>

definition iree_uk_avx512_loadu_4x128 :: "u8 list \<Rightarrow> int \<Rightarrow> int \<Rightarrow> int \<Rightarrow> int \<Rightarrow> u8 list res" where
  "iree_uk_avx512_loadu_4x128 mem src0 src1 src2 src3 =
     bind_res (load 16 mem src0) (\<lambda>v128_0.
     bind_res (load 16 mem src1) (\<lambda>v128_1.
     bind_res (load 16 mem src2) (\<lambda>v128_2.
     bind_res (load 16 mem src3) (\<lambda>v128_3.
     let result = v128_0;
         result = mm_insert128 result v128_1 1;
         result = mm_insert128 result v128_2 2;
         result = mm_insert128 result v128_3 3
     in Inr result))))"

definition iree_uk_avx512_storeu_4x128 :: "int \<Rightarrow> int \<Rightarrow> int \<Rightarrow> int \<Rightarrow> u8 list \<Rightarrow> (u8 list, unit) sm" where
  "iree_uk_avx512_storeu_4x128 dst0 dst1 dst2 dst3 vec512 =
     (let v128_0 = mm_extract128 vec512 0;
          v128_1 = mm_extract128 vec512 1;
          v128_2 = mm_extract128 vec512 2;
          v128_3 = mm_extract128 vec512 3
      in bind_sm (store dst0 v128_0) (\<lambda>_.
         bind_sm (store dst1 v128_1) (\<lambda>_.
         bind_sm (store dst2 v128_2) (\<lambda>_.
         store dst3 v128_3))))"

text \<open>The pointers of the next two are to 32-bit integers.\<close>

definition iree_uk_avx512_loadu_4x128_from_16x16xi32 ::
  "u8 list \<Rightarrow> int \<Rightarrow> int \<Rightarrow> int \<Rightarrow> int \<Rightarrow> int \<Rightarrow> int \<Rightarrow> int \<Rightarrow> int \<Rightarrow> int \<Rightarrow> u8 list res" where
  "iree_uk_avx512_loadu_4x128_from_16x16xi32 mem src i0 j0 i1 j1 i2 j2 i3 j3 =
     iree_uk_avx512_loadu_4x128 mem (src + 4 * (i0 * 16 + j0)) (src + 4 * (i1 * 16 + j1))
       (src + 4 * (i2 * 16 + j2)) (src + 4 * (i3 * 16 + j3))"

definition iree_uk_avx512_storeu_4x128_to_16x16xi32 ::
  "int \<Rightarrow> int \<Rightarrow> int \<Rightarrow> int \<Rightarrow> int \<Rightarrow> int \<Rightarrow> int \<Rightarrow> int \<Rightarrow> int \<Rightarrow> u8 list \<Rightarrow> (u8 list, unit) sm" where
  "iree_uk_avx512_storeu_4x128_to_16x16xi32 dst i0 j0 i1 j1 i2 j2 i3 j3 vec512 =
     iree_uk_avx512_storeu_4x128 (dst + 4 * (i0 * 16 + j0)) (dst + 4 * (i1 * 16 + j1))
       (dst + 4 * (i2 * 16 + j2)) (dst + 4 * (i3 * 16 + j3)) vec512"

definition iree_uk_avx512_load_16x4xi8_strided :: "u8 list \<Rightarrow> int \<Rightarrow> iree_uk_index_t \<Rightarrow> u8 list res" where
  "iree_uk_avx512_load_16x4xi8_strided mem src stride =
     (let indices = mm_mullo_epi32 [0, 1, 2, 3, 4, 5, 6, 7, 8, 9, 10, 11, 12, 13, 14, 15]
                      (replicate 16 (word_of_int stride))
      in mm_i32gather_epi32 mem src indices)"

definition iree_uk_avx512_copy_16x4xi8_strided_to_unstrided ::
  "int \<Rightarrow> u8 list \<Rightarrow> int \<Rightarrow> iree_uk_index_t \<Rightarrow> (u8 list, unit) sm" where
  "iree_uk_avx512_copy_16x4xi8_strided_to_unstrided out_ptr src in_ptr in_stride =
     bind_sm (lift_sm (iree_uk_avx512_load_16x4xi8_strided src in_ptr in_stride)) (store out_ptr)"

definition iree_uk_avx512_copy_16x16xi8_tiled_1x4_transpose_strided_to_strided ::
  "int \<Rightarrow> u8 list \<Rightarrow> int \<Rightarrow> iree_uk_index_t \<Rightarrow> iree_uk_index_t \<Rightarrow> (u8 list, unit) sm" where
  "iree_uk_avx512_copy_16x16xi8_tiled_1x4_transpose_strided_to_strided out_ptr src in_ptr out_stride in_stride =
     bind_sm (lift_sm (iree_uk_avx512_loadu_4x128 src (in_ptr + 0 * in_stride) (in_ptr + 4 * in_stride)
        (in_ptr + 8 * in_stride) (in_ptr + 12 * in_stride))) (\<lambda>r000044448888CCCC.
     bind_sm (lift_sm (iree_uk_avx512_loadu_4x128 src (in_ptr + 1 * in_stride) (in_ptr + 5 * in_stride)
        (in_ptr + 9 * in_stride) (in_ptr + 13 * in_stride))) (\<lambda>r111155559999DDDD.
     bind_sm (lift_sm (iree_uk_avx512_loadu_4x128 src (in_ptr + 2 * in_stride) (in_ptr + 6 * in_stride)
        (in_ptr + 10 * in_stride) (in_ptr + 14 * in_stride))) (\<lambda>r22226666AAAAEEEE.
     bind_sm (lift_sm (iree_uk_avx512_loadu_4x128 src (in_ptr + 3 * in_stride) (in_ptr + 7 * in_stride)
        (in_ptr + 11 * in_stride) (in_ptr + 15 * in_stride))) (\<lambda>r33337777BBBBFFFF.
     let outs = avx512_16x16_1x4_registers r000044448888CCCC r111155559999DDDD r22226666AAAAEEEE r33337777BBBBFFFF
     in bind_sm (store (out_ptr + 0 * out_stride) (outs ! 0)) (\<lambda>_.
        bind_sm (store (out_ptr + 1 * out_stride) (outs ! 1)) (\<lambda>_.
        bind_sm (store (out_ptr + 2 * out_stride) (outs ! 2)) (\<lambda>_.
        store (out_ptr + 3 * out_stride) (outs ! 3))))))))"

definition iree_uk_avx512_copy_16x16xi8_tiled_1x2_transpose_strided_to_strided ::
  "int \<Rightarrow> u8 list \<Rightarrow> int \<Rightarrow> iree_uk_index_t \<Rightarrow> iree_uk_index_t \<Rightarrow> (u8 list, unit) sm" where
  "iree_uk_avx512_copy_16x16xi8_tiled_1x2_transpose_strided_to_strided out_ptr src in_ptr out_stride in_stride =
     bind_sm (lift_sm (iree_uk_avx512_loadu_4x128 src (in_ptr + 0 * in_stride) (in_ptr + 4 * in_stride)
        (in_ptr + 8 * in_stride) (in_ptr + 12 * in_stride))) (\<lambda>r000044448888CCCC.
     bind_sm (lift_sm (iree_uk_avx512_loadu_4x128 src (in_ptr + 1 * in_stride) (in_ptr + 5 * in_stride)
        (in_ptr + 9 * in_stride) (in_ptr + 13 * in_stride))) (\<lambda>r111155559999DDDD.
     bind_sm (lift_sm (iree_uk_avx512_loadu_4x128 src (in_ptr + 2 * in_stride) (in_ptr + 6 * in_stride)
        (in_ptr + 10 * in_stride) (in_ptr + 14 * in_stride))) (\<lambda>r22226666AAAAEEEE.
     bind_sm (lift_sm (iree_uk_avx512_loadu_4x128 src (in_ptr + 3 * in_stride) (in_ptr + 7 * in_stride)
        (in_ptr + 11 * in_stride) (in_ptr + 15 * in_stride))) (\<lambda>r33337777BBBBFFFF.
     let outs = avx512_16x16_1x2_registers r000044448888CCCC r111155559999DDDD r22226666AAAAEEEE r33337777BBBBFFFF
     in bind_sm (iree_uk_avx512_storeu_4x128 (out_ptr + 0 * out_stride) (out_ptr + 1 * out_stride + 0)
          (out_ptr + 0 * out_stride + 16) (out_ptr + 1 * out_stride + 16) (outs ! 0)) (\<lambda>_.
        bind_sm (iree_uk_avx512_storeu_4x128 (out_ptr + 2 * out_stride) (out_ptr + 3 * out_stride + 0)
          (out_ptr + 2 * out_stride + 16) (out_ptr + 3 * out_stride + 16) (outs ! 1)) (\<lambda>_.
        bind_sm (iree_uk_avx512_storeu_4x128 (out_ptr + 4 * out_stride) (out_ptr + 5 * out_stride + 0)
          (out_ptr + 4 * out_stride + 16) (out_ptr + 5 * out_stride + 16) (outs ! 2)) (\<lambda>_.
        iree_uk_avx512_storeu_4x128 (out_ptr + 6 * out_stride) (out_ptr + 7 * out_stride + 0)
          (out_ptr + 6 * out_stride + 16) (out_ptr + 7 * out_stride + 16) (outs ! 3))))))))"

section \<open>Arm: intrinsics\<close>

text \<open>\<open>vzipq_s8\<close>, \<open>vzipq_s16\<close> and \<open>vzipq_s32\<close> for \<open>w = 1, 2, 4\<close>, and \<open>vtrnq_s32\<close>.\<close>

definition vzipq :: "nat \<Rightarrow> 'a list \<Rightarrow> 'a list \<Rightarrow> 'a list \<times> 'a list" where
  "vzipq w a b = (interleave w (take 8 a) (take 8 b), interleave w (drop 8 a) (drop 8 b))"

definition vtrnq_s32 :: "'a list \<Rightarrow> 'a list \<Rightarrow> 'a list \<times> 'a list" where
  "vtrnq_s32 a b =
     (take 4 a @ take 4 b @ take 4 (drop 8 a) @ take 4 (drop 8 b),
      take 4 (drop 4 a) @ take 4 (drop 4 b) @ take 4 (drop 12 a) @ take 4 (drop 12 b))"

text \<open>\<open>vld1_lane_s8\<close> and \<open>vld1q_lane_s32\<close>: replaces the lane \<open>i\<close> of \<open>n\<close> bytes by a value from memory.\<close>

definition vld1_lane :: "nat \<Rightarrow> u8 list \<Rightarrow> int \<Rightarrow> u8 list \<Rightarrow> nat \<Rightarrow> u8 list res" where
  "vld1_lane n mem p v i =
     bind_res (load n mem p) (\<lambda>x. Inr (take (n * i) v @ x @ drop (n * i + n) v))"

text \<open>A series of such loads, one per line of the source.\<close>

fun load_lanes :: "nat \<Rightarrow> u8 list \<Rightarrow> int \<Rightarrow> iree_uk_index_t \<Rightarrow> (nat \<times> nat) list \<Rightarrow> u8 list \<Rightarrow> u8 list res" where
  "load_lanes n mem src stride [] v = Inr v"
| "load_lanes n mem src stride ((row, i) # is) v =
     bind_res (vld1_lane n mem (src + int row * stride) v i) (load_lanes n mem src stride is)"

section \<open>Arm: processor features\<close>

definition iree_uk_cpu_arm_64 :: "u64 \<Rightarrow> bool" where
  "iree_uk_cpu_arm_64 data0 = True"

definition iree_uk_cpu_arm_64_fullfp16 :: "(string \<Rightarrow> u64) \<Rightarrow> u64 \<Rightarrow> bool" where
  "iree_uk_cpu_arm_64_fullfp16 bits data0 = iree_uk_all_bits_set data0 (bits ''FULLFP16'')"

definition iree_uk_cpu_arm_64_fp16fml :: "(string \<Rightarrow> u64) \<Rightarrow> u64 \<Rightarrow> bool" where
  "iree_uk_cpu_arm_64_fp16fml bits data0 = iree_uk_all_bits_set data0 (bits ''FP16FML'')"

definition iree_uk_cpu_arm_64_bf16 :: "(string \<Rightarrow> u64) \<Rightarrow> u64 \<Rightarrow> bool" where
  "iree_uk_cpu_arm_64_bf16 bits data0 = iree_uk_all_bits_set data0 (bits ''BF16'')"

definition iree_uk_cpu_arm_64_dotprod :: "(string \<Rightarrow> u64) \<Rightarrow> u64 \<Rightarrow> bool" where
  "iree_uk_cpu_arm_64_dotprod bits data0 = iree_uk_all_bits_set data0 (bits ''DOTPROD'')"

definition iree_uk_cpu_arm_64_i8mm :: "(string \<Rightarrow> u64) \<Rightarrow> u64 \<Rightarrow> bool" where
  "iree_uk_cpu_arm_64_i8mm bits data0 = iree_uk_all_bits_set data0 (bits ''I8MM'')"

section \<open>Arm: loads and copies\<close>

definition iree_uk_neon_load_8x4xi8_strided :: "u8 list \<Rightarrow> int \<Rightarrow> iree_uk_index_t \<Rightarrow> u8 list list res" where
  "iree_uk_neon_load_8x4xi8_strided mem src stride =
     bind_res (load_lanes 4 mem src stride [(0, 0), (1, 1), (2, 2), (3, 3)] (replicate 16 0)) (\<lambda>v0_i32.
     bind_res (load_lanes 4 mem src stride [(4, 0), (5, 1), (6, 2), (7, 3)] (replicate 16 0)) (\<lambda>v1_i32.
     Inr [v0_i32, v1_i32]))"

definition iree_uk_neon_load_8x8xi8_strided_permute ::
  "u8 list \<Rightarrow> int \<Rightarrow> iree_uk_index_t \<Rightarrow> int \<Rightarrow> int \<Rightarrow> int \<Rightarrow> int \<Rightarrow> int \<Rightarrow> int \<Rightarrow> int \<Rightarrow> int \<Rightarrow> u8 list list res" where
  "iree_uk_neon_load_8x8xi8_strided_permute mem src stride p0 p1 p2 p3 p4 p5 p6 p7 =
     bind_res (load 8 mem (src + p0 * stride)) (\<lambda>row0.
     bind_res (load 8 mem (src + p1 * stride)) (\<lambda>row1.
     bind_res (load 8 mem (src + p2 * stride)) (\<lambda>row2.
     bind_res (load 8 mem (src + p3 * stride)) (\<lambda>row3.
     bind_res (load 8 mem (src + p4 * stride)) (\<lambda>row4.
     bind_res (load 8 mem (src + p5 * stride)) (\<lambda>row5.
     bind_res (load 8 mem (src + p6 * stride)) (\<lambda>row6.
     bind_res (load 8 mem (src + p7 * stride)) (\<lambda>row7.
     Inr [row0 @ row1, row2 @ row3, row4 @ row5, row6 @ row7]))))))))"

definition iree_uk_neon_load_8x8xi8_strided :: "u8 list \<Rightarrow> int \<Rightarrow> iree_uk_index_t \<Rightarrow> u8 list list res" where
  "iree_uk_neon_load_8x8xi8_strided mem src stride =
     iree_uk_neon_load_8x8xi8_strided_permute mem src stride 0 1 2 3 4 5 6 7"

definition iree_uk_neon_zip_16xi8_as_8xi16 :: "'a list \<Rightarrow> 'a list \<Rightarrow> 'a list \<times> 'a list" where
  "iree_uk_neon_zip_16xi8_as_8xi16 a b = vzipq 1 a b"

definition iree_uk_neon_zip_8xi16_as_4xi32 :: "'a list \<Rightarrow> 'a list \<Rightarrow> 'a list \<times> 'a list" where
  "iree_uk_neon_zip_8xi16_as_4xi32 a b = vzipq 2 a b"

definition iree_uk_neon_zip_4xi32_as_2xi64 :: "'a list \<Rightarrow> 'a list \<Rightarrow> 'a list \<times> 'a list" where
  "iree_uk_neon_zip_4xi32_as_2xi64 a b = vzipq 4 a b"

definition iree_uk_neon_copy_8x1xi8_strided_to_unstrided ::
  "int \<Rightarrow> u8 list \<Rightarrow> int \<Rightarrow> iree_uk_index_t \<Rightarrow> (u8 list, unit) sm" where
  "iree_uk_neon_copy_8x1xi8_strided_to_unstrided out_ptr src in_ptr in_stride =
     bind_sm (lift_sm (load_lanes 1 src in_ptr in_stride
       [(0, 0), (1, 1), (2, 2), (3, 3), (4, 4), (5, 5), (6, 6), (7, 7)] (replicate 8 0))) (store out_ptr)"

definition iree_uk_neon_copy_8x4xi8_strided_to_unstrided ::
  "int \<Rightarrow> u8 list \<Rightarrow> int \<Rightarrow> iree_uk_index_t \<Rightarrow> (u8 list, unit) sm" where
  "iree_uk_neon_copy_8x4xi8_strided_to_unstrided out_ptr src in_ptr in_stride =
     bind_sm (lift_sm (iree_uk_neon_load_8x4xi8_strided src in_ptr in_stride)) (\<lambda>vals.
     bind_sm (store (out_ptr + 0) (vals ! 0)) (\<lambda>_. store (out_ptr + 16) (vals ! 1)))"

definition iree_uk_neon_copy_8x8xi8_strided_to_unstrided ::
  "int \<Rightarrow> u8 list \<Rightarrow> int \<Rightarrow> iree_uk_index_t \<Rightarrow> (u8 list, unit) sm" where
  "iree_uk_neon_copy_8x8xi8_strided_to_unstrided out_ptr src in_ptr in_stride =
     bind_sm (lift_sm (iree_uk_neon_load_8x8xi8_strided src in_ptr in_stride)) (\<lambda>vals.
     bind_sm (store (out_ptr + 0) (vals ! 0)) (\<lambda>_.
     bind_sm (store (out_ptr + 16) (vals ! 1)) (\<lambda>_.
     bind_sm (store (out_ptr + 32) (vals ! 2)) (\<lambda>_.
     store (out_ptr + 48) (vals ! 3)))))"

definition iree_uk_neon_copy_8x32xi8_strided_to_strided ::
  "int \<Rightarrow> u8 list \<Rightarrow> int \<Rightarrow> iree_uk_index_t \<Rightarrow> iree_uk_index_t \<Rightarrow> (u8 list, unit) sm" where
  "iree_uk_neon_copy_8x32xi8_strided_to_strided out_ptr src in_ptr out_stride in_stride =
     strided_copy_loop [0..<8] src out_ptr in_ptr out_stride in_stride 32"

section \<open>Arm: transposition\<close>

definition neon_8x8_1x4_registers :: "'a list list \<Rightarrow> 'a list list" where
  "neon_8x8_1x4_registers in_val =
     (let c0 = vtrnq_s32 (in_val ! 0) (in_val ! 1);
          c1 = vtrnq_s32 (in_val ! 2) (in_val ! 3)
      in [fst c0, fst c1, snd c0, snd c1])"

definition iree_uk_neon_copy_8x8xi8_tiled_1x4_transpose_strided_to_strided ::
  "int \<Rightarrow> u8 list \<Rightarrow> int \<Rightarrow> iree_uk_index_t \<Rightarrow> iree_uk_index_t \<Rightarrow> (u8 list, unit) sm" where
  "iree_uk_neon_copy_8x8xi8_tiled_1x4_transpose_strided_to_strided out_ptr src in_ptr out_stride in_stride =
     bind_sm (lift_sm (iree_uk_neon_load_8x8xi8_strided_permute src in_ptr in_stride 0 2 1 3 4 6 5 7)) (\<lambda>in_val.
     let outs = neon_8x8_1x4_registers in_val
     in bind_sm (store (out_ptr + 0 + 0 * out_stride) (outs ! 0)) (\<lambda>_.
        bind_sm (store (out_ptr + 16 + 0 * out_stride) (outs ! 1)) (\<lambda>_.
        bind_sm (store (out_ptr + 0 + 1 * out_stride) (outs ! 2)) (\<lambda>_.
        store (out_ptr + 16 + 1 * out_stride) (outs ! 3)))))"

definition neon_8x8_registers :: "'a list list \<Rightarrow> 'a list list" where
  "neon_8x8_registers in_val =
     (let zip_i16_0 = iree_uk_neon_zip_16xi8_as_8xi16 (in_val ! 0) (in_val ! 1);
          zip_i16_1 = iree_uk_neon_zip_16xi8_as_8xi16 (in_val ! 2) (in_val ! 3);
          zip_i32_0 = iree_uk_neon_zip_8xi16_as_4xi32 (fst zip_i16_0) (fst zip_i16_1);
          zip_i32_1 = iree_uk_neon_zip_8xi16_as_4xi32 (snd zip_i16_0) (snd zip_i16_1);
          zip_i64_0 = iree_uk_neon_zip_4xi32_as_2xi64 (fst zip_i32_0) (fst zip_i32_1);
          zip_i64_1 = iree_uk_neon_zip_4xi32_as_2xi64 (snd zip_i32_0) (snd zip_i32_1)
      in [fst zip_i64_0, snd zip_i64_0, fst zip_i64_1, snd zip_i64_1])"

definition iree_uk_neon_copy_8x8xi8_transpose_strided_to_strided ::
  "int \<Rightarrow> u8 list \<Rightarrow> int \<Rightarrow> iree_uk_index_t \<Rightarrow> iree_uk_index_t \<Rightarrow> (u8 list, unit) sm" where
  "iree_uk_neon_copy_8x8xi8_transpose_strided_to_strided out_ptr src in_ptr out_stride in_stride =
     bind_sm (lift_sm (iree_uk_neon_load_8x8xi8_strided_permute src in_ptr in_stride 0 4 1 5 2 6 3 7)) (\<lambda>in_val.
     let outs = neon_8x8_registers in_val
     in bind_sm (store (out_ptr + 0 * out_stride) (take 8 (outs ! 0))) (\<lambda>_.
        bind_sm (store (out_ptr + 1 * out_stride) (drop 8 (outs ! 0))) (\<lambda>_.
        bind_sm (store (out_ptr + 2 * out_stride) (take 8 (outs ! 1))) (\<lambda>_.
        bind_sm (store (out_ptr + 3 * out_stride) (drop 8 (outs ! 1))) (\<lambda>_.
        bind_sm (store (out_ptr + 4 * out_stride) (take 8 (outs ! 2))) (\<lambda>_.
        bind_sm (store (out_ptr + 5 * out_stride) (drop 8 (outs ! 2))) (\<lambda>_.
        bind_sm (store (out_ptr + 6 * out_stride) (take 8 (outs ! 3))) (\<lambda>_.
        store (out_ptr + 7 * out_stride) (drop 8 (outs ! 3))))))))))"

definition iree_uk_neon_copy_8x8xi8_transpose_strided_to_unstrided ::
  "int \<Rightarrow> u8 list \<Rightarrow> int \<Rightarrow> iree_uk_index_t \<Rightarrow> (u8 list, unit) sm" where
  "iree_uk_neon_copy_8x8xi8_transpose_strided_to_unstrided out_ptr src in_ptr in_stride =
     iree_uk_neon_copy_8x8xi8_transpose_strided_to_strided out_ptr src in_ptr 8 in_stride"

section \<open>The reference: rows of tiles\<close>

text \<open>
  Row \<open>j\<close> of the result consists of the tile \<open>j\<close>, of \<open>w\<close> elements, of every row of the argument.
\<close>

definition tiled_transpose :: "nat \<Rightarrow> nat \<Rightarrow> 'a list list \<Rightarrow> 'a list list" where
  "tiled_transpose w n rows = map (\<lambda>j. concat (map (\<lambda>r. take w (drop (w * j) r)) rows)) [0..<n]"

lemma length_tiled_transpose [simp]: "length (tiled_transpose w n rows) = n"
  by (simp add: tiled_transpose_def)

lemma tiled_transpose_nth: "j < n \<Longrightarrow> tiled_transpose w n rows ! j = concat (map (\<lambda>r. take w (drop (w * j) r)) rows)"
  by (simp add: tiled_transpose_def)

lemma length_tiled_row:
  assumes "j < n" "\<forall>r \<in> set rows. length r = w * n"
  shows "length (tiled_transpose w n rows ! j) = w * length rows"
proof -
  have "w * j + w \<le> w * n" using assms(1) by (metis Suc_leI mult_Suc_right mult_le_mono2 add.commute)
  then have "\<forall>r \<in> set rows. length (take w (drop (w * j) r)) = w" using assms(2) by auto
  then have "length (concat (map (\<lambda>r. take w (drop (w * j) r)) rows)) = w * length rows"
    by (induction rows) auto
  then show ?thesis using assms(1) by (simp add: tiled_transpose_nth)
qed

section \<open>Reduction to index matrices\<close>

named_theorems natural

lemma map_chunks [natural]: "chunks n (map f xs) = map (map f) (chunks n xs)"
proof (induction n xs rule: chunks.induct)
  case (1 n xs)
  then show ?case
    by (cases "n = 0 \<or> xs = []") (simp_all add: chunks.simps [of n "map f xs"] chunks.simps [of n xs] take_map drop_map)
qed

lemma map_interleave [natural]: "interleave w (map f a) (map f b) = map f (interleave w a b)"
  by (simp add: interleave_def natural zip_map_map map_concat case_prod_unfold comp_def)

lemma map_per_lane:
  "(\<And>x y. g' (map f x) (map f y) = map f (g x y)) \<Longrightarrow> per_lane g' (map f a) (map f b) = map f (per_lane g a b)"
  by (simp add: per_lane_def natural zip_map_map map_concat case_prod_unfold comp_def)

lemma map_unpacklo [natural]: "mm_unpacklo w (map f a) (map f b) = map f (mm_unpacklo w a b)"
  unfolding mm_unpacklo_def by (rule map_per_lane) (simp add: natural take_map drop_map)

lemma map_unpackhi [natural]: "mm_unpackhi w (map f a) (map f b) = map f (mm_unpackhi w a b)"
  unfolding mm_unpackhi_def by (rule map_per_lane) (simp add: natural take_map drop_map)

lemma map_select4 [natural]: "select4 w imm (map f v) = map f (select4 w imm v)"
  by (simp add: select4_def map_concat take_map drop_map comp_def)

lemma map_shuffles [natural]:
  "mm_shuffle_epi32 (map f v) imm = map f (mm_shuffle_epi32 v imm)"
  "mm_permute4x64 (map f v) imm = map f (mm_permute4x64 v imm)"
  by (simp_all add: mm_shuffle_epi32_def mm_permute4x64_def natural map_concat comp_def)

lemma map_zip_trn [natural]:
  "vzipq w (map f a) (map f b) = map_prod (map f) (map f) (vzipq w a b)"
  "vtrnq_s32 (map f a) (map f b) = map_prod (map f) (map f) (vtrnq_s32 a b)"
  by (simp_all add: vzipq_def vtrnq_s32_def natural take_map drop_map)

lemma map_registers [natural]:
  "avx2_8x16_1x4_registers (map f a) (map f b) (map f c) (map f d) = map (map f) (avx2_8x16_1x4_registers a b c d)"
  "avx2_8x16_1x2_registers (map f a) (map f b) (map f c) (map f d) = map (map f) (avx2_8x16_1x2_registers a b c d)"
  "avx512_16x16_1x4_registers (map f a) (map f b) (map f c) (map f d) = map (map f) (avx512_16x16_1x4_registers a b c d)"
  "avx512_16x16_1x2_registers (map f a) (map f b) (map f c) (map f d) = map (map f) (avx512_16x16_1x2_registers a b c d)"
  "neon_8x8_1x4_registers [map f a, map f b, map f c, map f d] = map (map f) (neon_8x8_1x4_registers [a, b, c, d])"
  "neon_8x8_registers [map f a, map f b, map f c, map f d] = map (map f) (neon_8x8_registers [a, b, c, d])"
  by (simp_all add: avx2_8x16_1x4_registers_def avx2_8x16_1x2_registers_def avx512_16x16_1x4_registers_def
      avx512_16x16_1x2_registers_def neon_8x8_1x4_registers_def neon_8x8_registers_def Let_def natural
      iree_uk_neon_zip_16xi8_as_8xi16_def iree_uk_neon_zip_8xi16_as_4xi32_def iree_uk_neon_zip_4xi32_as_2xi64_def)

lemma map_tiled_transpose: "tiled_transpose w n (map (map f) rows) = map (map f) (tiled_transpose w n rows)"
  by (simp add: tiled_transpose_def map_concat take_map drop_map comp_def)

text \<open>A matrix with \<open>C\<close> columns is the image of the matrix of its indices.\<close>

definition index_row :: "nat \<Rightarrow> nat \<Rightarrow> nat list" where
  "index_row C i = [C * i..<C * i + C]"

definition index_rows :: "nat \<Rightarrow> nat \<Rightarrow> nat list list" where
  "index_rows C R = map (index_row C) [0..<R]"

lemma matrix_of_indices:
  assumes "\<forall>r \<in> set rows. length r = C" "length rows = R"
  shows "rows = map (map (\<lambda>k. rows ! (k div C) ! (k mod C))) (index_rows C R)"
proof (rule nth_equalityI)
  show "length rows = length (map (map (\<lambda>k. rows ! (k div C) ! (k mod C))) (index_rows C R))"
    using assms by (simp add: index_rows_def)
next
  fix i
  assume i: "i < length rows"
  then have len: "length (rows ! i) = C" using assms by simp
  have "rows ! i = map (\<lambda>k. rows ! (k div C) ! (k mod C)) (index_row C i)"
  proof (rule nth_equalityI)
    fix j
    assume "j < length (rows ! i)"
    then have "j < C" using len by simp
    then have "(C * i + j) div C = i" "(C * i + j) mod C = j" by simp_all
    then show "rows ! i ! j = map (\<lambda>k. rows ! (k div C) ! (k mod C)) (index_row C i) ! j"
      using \<open>j < C\<close> by (simp add: index_row_def)
  qed (simp add: len index_row_def)
  then show "rows ! i = map (map (\<lambda>k. rows ! (k div C) ! (k mod C))) (index_rows C R) ! i"
    using i assms by (simp add: index_rows_def)
qed

text \<open>What the registers of the kernels compute on the indices.\<close>

lemma index_avx2_1x4:
  "avx2_8x16_1x4_registers (index_row 16 0 @ index_row 16 4) (index_row 16 1 @ index_row 16 5)
     (index_row 16 2 @ index_row 16 6) (index_row 16 3 @ index_row 16 7) = tiled_transpose 4 4 (index_rows 16 8)"
  by code_simp

fun pairs :: "'a list list \<Rightarrow> 'a list list" where
  "pairs (a # b # xs) = (a @ b) # pairs xs"
| "pairs xs = xs"

lemma index_avx2_1x2:
  "avx2_8x16_1x2_registers (index_row 16 0 @ index_row 16 4) (index_row 16 1 @ index_row 16 5)
     (index_row 16 2 @ index_row 16 6) (index_row 16 3 @ index_row 16 7) = pairs (tiled_transpose 2 8 (index_rows 16 8))"
  by code_simp

lemma index_avx512_1x4:
  "avx512_16x16_1x4_registers
     (index_row 16 0 @ index_row 16 4 @ index_row 16 8 @ index_row 16 12)
     (index_row 16 1 @ index_row 16 5 @ index_row 16 9 @ index_row 16 13)
     (index_row 16 2 @ index_row 16 6 @ index_row 16 10 @ index_row 16 14)
     (index_row 16 3 @ index_row 16 7 @ index_row 16 11 @ index_row 16 15) = tiled_transpose 4 4 (index_rows 16 16)"
  by code_simp

definition quarters :: "'a list list \<Rightarrow> 'a list list" where
  "quarters t = map (\<lambda>k. take 16 (t ! (2 * k)) @ take 16 (t ! (2 * k + 1)) @ drop 16 (t ! (2 * k)) @ drop 16 (t ! (2 * k + 1))) [0..<4]"

lemma map_quarters: "length t = 8 \<Longrightarrow> quarters (map (map f) t) = map (map f) (quarters t)"
  by (auto simp: quarters_def take_map drop_map)

lemma index_avx512_1x2:
  "avx512_16x16_1x2_registers
     (index_row 16 0 @ index_row 16 4 @ index_row 16 8 @ index_row 16 12)
     (index_row 16 1 @ index_row 16 5 @ index_row 16 9 @ index_row 16 13)
     (index_row 16 2 @ index_row 16 6 @ index_row 16 10 @ index_row 16 14)
     (index_row 16 3 @ index_row 16 7 @ index_row 16 11 @ index_row 16 15) =
   quarters (tiled_transpose 2 8 (index_rows 16 16))"
  by code_simp

lemma index_neon_1x4:
  "neon_8x8_1x4_registers [index_row 8 0 @ index_row 8 2, index_row 8 1 @ index_row 8 3,
     index_row 8 4 @ index_row 8 6, index_row 8 5 @ index_row 8 7] =
   (let t = tiled_transpose 4 2 (index_rows 8 8)
    in [take 16 (t ! 0), drop 16 (t ! 0), take 16 (t ! 1), drop 16 (t ! 1)])"
  by code_simp

lemma index_neon_1x1:
  "neon_8x8_registers [index_row 8 0 @ index_row 8 4, index_row 8 1 @ index_row 8 5,
     index_row 8 2 @ index_row 8 6, index_row 8 3 @ index_row 8 7] = pairs (tiled_transpose 1 8 (index_rows 8 8))"
  by code_simp

section \<open>Registers compute transpositions\<close>

lemma upt_8: "[0..<8] = [0, 1, 2, 3, 4, 5, 6, 7 :: nat]"
  by code_simp

lemma upt_16: "[0..<16] = [0, 1, 2, 3, 4, 5, 6, 7, 8, 9, 10, 11, 12, 13, 14, 15 :: nat]"
  by code_simp

lemma list_8: "length xs = 8 \<Longrightarrow> xs = [xs ! 0, xs ! 1, xs ! 2, xs ! 3, xs ! 4, xs ! 5, xs ! 6, xs ! 7]"
  using map_nth [of xs] by (simp only: upt_8 list.map)

lemma list_16:
  "length xs = 16 \<Longrightarrow> xs = [xs ! 0, xs ! 1, xs ! 2, xs ! 3, xs ! 4, xs ! 5, xs ! 6, xs ! 7,
     xs ! 8, xs ! 9, xs ! 10, xs ! 11, xs ! 12, xs ! 13, xs ! 14, xs ! 15]"
  using map_nth [of xs] by (simp only: upt_16 list.map)

lemma map_pairs: "pairs (map (map f) xs) = map (map f) (pairs xs)"
  by (induction xs rule: pairs.induct) simp_all

lemma avx2_registers:
  assumes "rows = [r0, r1, r2, r3, r4, r5, r6, r7]" "\<forall>r \<in> set rows. length r = 16"
  shows "avx2_8x16_1x4_registers (r0 @ r4) (r1 @ r5) (r2 @ r6) (r3 @ r7) = tiled_transpose 4 4 rows"
    and "avx2_8x16_1x2_registers (r0 @ r4) (r1 @ r5) (r2 @ r6) (r3 @ r7) = pairs (tiled_transpose 2 8 rows)"
proof -
  define f where "f = (\<lambda>k. rows ! (k div 16) ! (k mod 16))"
  have m: "rows = map (map f) (index_rows 16 8)"
    unfolding f_def using assms by (intro matrix_of_indices) simp_all
  have r: "r0 = map f (index_row 16 0)" "r1 = map f (index_row 16 1)" "r2 = map f (index_row 16 2)"
    "r3 = map f (index_row 16 3)" "r4 = map f (index_row 16 4)" "r5 = map f (index_row 16 5)"
    "r6 = map f (index_row 16 6)" "r7 = map f (index_row 16 7)"
    using m unfolding assms(1) index_rows_def upt_8 by simp_all
  show "avx2_8x16_1x4_registers (r0 @ r4) (r1 @ r5) (r2 @ r6) (r3 @ r7) = tiled_transpose 4 4 rows"
    unfolding m map_tiled_transpose index_avx2_1x4 [symmetric] unfolding r by (simp add: natural flip: map_append)
  show "avx2_8x16_1x2_registers (r0 @ r4) (r1 @ r5) (r2 @ r6) (r3 @ r7) = pairs (tiled_transpose 2 8 rows)"
    unfolding m map_tiled_transpose map_pairs index_avx2_1x2 [symmetric] unfolding r
    by (simp add: natural flip: map_append)
qed

lemma avx512_registers:
  assumes "rows = [r0, r1, r2, r3, r4, r5, r6, r7, r8, r9, r10, r11, r12, r13, r14, r15]"
    and "\<forall>r \<in> set rows. length r = 16"
  shows "avx512_16x16_1x4_registers (r0 @ r4 @ r8 @ r12) (r1 @ r5 @ r9 @ r13) (r2 @ r6 @ r10 @ r14)
      (r3 @ r7 @ r11 @ r15) = tiled_transpose 4 4 rows"
    and "avx512_16x16_1x2_registers (r0 @ r4 @ r8 @ r12) (r1 @ r5 @ r9 @ r13) (r2 @ r6 @ r10 @ r14)
      (r3 @ r7 @ r11 @ r15) = quarters (tiled_transpose 2 8 rows)"
proof -
  define f where "f = (\<lambda>k. rows ! (k div 16) ! (k mod 16))"
  have m: "rows = map (map f) (index_rows 16 16)"
    unfolding f_def using assms by (intro matrix_of_indices) simp_all
  have r: "r0 = map f (index_row 16 0)" "r1 = map f (index_row 16 1)" "r2 = map f (index_row 16 2)"
    "r3 = map f (index_row 16 3)" "r4 = map f (index_row 16 4)" "r5 = map f (index_row 16 5)"
    "r6 = map f (index_row 16 6)" "r7 = map f (index_row 16 7)" "r8 = map f (index_row 16 8)"
    "r9 = map f (index_row 16 9)" "r10 = map f (index_row 16 10)" "r11 = map f (index_row 16 11)"
    "r12 = map f (index_row 16 12)" "r13 = map f (index_row 16 13)" "r14 = map f (index_row 16 14)"
    "r15 = map f (index_row 16 15)"
    using m unfolding assms(1) index_rows_def upt_16 by simp_all
  show "avx512_16x16_1x4_registers (r0 @ r4 @ r8 @ r12) (r1 @ r5 @ r9 @ r13) (r2 @ r6 @ r10 @ r14)
      (r3 @ r7 @ r11 @ r15) = tiled_transpose 4 4 rows"
    unfolding m map_tiled_transpose index_avx512_1x4 [symmetric] unfolding r by (simp add: natural flip: map_append)
  have "quarters (tiled_transpose 2 8 (index_rows 16 16)) =
      avx512_16x16_1x2_registers
     (index_row 16 0 @ index_row 16 4 @ index_row 16 8 @ index_row 16 12)
     (index_row 16 1 @ index_row 16 5 @ index_row 16 9 @ index_row 16 13)
     (index_row 16 2 @ index_row 16 6 @ index_row 16 10 @ index_row 16 14)
     (index_row 16 3 @ index_row 16 7 @ index_row 16 11 @ index_row 16 15)"
    by (rule index_avx512_1x2 [symmetric])
  then show "avx512_16x16_1x2_registers (r0 @ r4 @ r8 @ r12) (r1 @ r5 @ r9 @ r13) (r2 @ r6 @ r10 @ r14)
      (r3 @ r7 @ r11 @ r15) = quarters (tiled_transpose 2 8 rows)"
    unfolding m map_tiled_transpose by (simp add: map_quarters r natural flip: map_append)
qed

lemma neon_registers:
  assumes "rows = [r0, r1, r2, r3, r4, r5, r6, r7]" "\<forall>r \<in> set rows. length r = 8"
  shows "neon_8x8_1x4_registers [r0 @ r2, r1 @ r3, r4 @ r6, r5 @ r7] =
      (let t = tiled_transpose 4 2 rows in [take 16 (t ! 0), drop 16 (t ! 0), take 16 (t ! 1), drop 16 (t ! 1)])"
    and "neon_8x8_registers [r0 @ r4, r1 @ r5, r2 @ r6, r3 @ r7] = pairs (tiled_transpose 1 8 rows)"
proof -
  define f where "f = (\<lambda>k. rows ! (k div 8) ! (k mod 8))"
  have m: "rows = map (map f) (index_rows 8 8)"
    unfolding f_def using assms by (intro matrix_of_indices) simp_all
  have r: "r0 = map f (index_row 8 0)" "r1 = map f (index_row 8 1)" "r2 = map f (index_row 8 2)"
    "r3 = map f (index_row 8 3)" "r4 = map f (index_row 8 4)" "r5 = map f (index_row 8 5)"
    "r6 = map f (index_row 8 6)" "r7 = map f (index_row 8 7)"
    using m unfolding assms(1) index_rows_def upt_8 by simp_all
  show "neon_8x8_1x4_registers [r0 @ r2, r1 @ r3, r4 @ r6, r5 @ r7] =
      (let t = tiled_transpose 4 2 rows in [take 16 (t ! 0), drop 16 (t ! 0), take 16 (t ! 1), drop 16 (t ! 1)])"
    unfolding m map_tiled_transpose
    by (simp add: r natural index_neon_1x4 Let_def take_map drop_map del: One_nat_def flip: map_append)
  show "neon_8x8_registers [r0 @ r4, r1 @ r5, r2 @ r6, r3 @ r7] = pairs (tiled_transpose 1 8 rows)"
    unfolding m map_tiled_transpose map_pairs index_neon_1x1 [symmetric] unfolding r
    by (simp add: natural flip: map_append)
qed

section \<open>Memory effects\<close>

lemma store_alt:
  "store p v mem =
     (if 0 \<le> p \<and> nat p + length v \<le> length mem
      then Inr ((), map (\<lambda>i. if nat p \<le> i \<and> i < nat p + length v then v ! (i - nat p) else mem ! i) [0..<length mem])
      else Inl OutOfBounds)"
  unfolding store_def by (auto intro!: nth_equalityI simp: nth_append)

lemma store_commute:
  assumes "p + int (length v) \<le> q \<or> q + int (length w) \<le> p"
  shows "bind_sm (store p v) (\<lambda>_. store q w) = bind_sm (store q w) (\<lambda>_. store p v)"
proof
  fix mem
  show "bind_sm (store p v) (\<lambda>_. store q w) mem = bind_sm (store q w) (\<lambda>_. store p v) mem"
    using assms by (auto simp: bind_sm_def store_alt)
qed

lemma store_append:
  "bind_sm (store p v) (\<lambda>_. store (p + int (length v)) w) = store p (v @ w)"
proof
  fix mem
  show "bind_sm (store p v) (\<lambda>_. store (p + int (length v)) w) mem = store p (v @ w) mem"
  proof (cases "0 \<le> p \<and> nat p + length v \<le> length mem")
    case True
    then show ?thesis
      by (simp add: bind_sm_def store_def nat_add_distrib min_absorb2 add.assoc add.commute [of "length w"])
  next
    case False
    then show ?thesis by (auto simp: bind_sm_def store_def)
  qed
qed

lemma bind_sm_assoc_fun: "bind_sm (bind_sm m f) g = bind_sm m (\<lambda>x. bind_sm (f x) g)"
  by (rule ext) simp

lemma length_load: "load n mem p = Inr v \<Longrightarrow> length v = n"
  by (auto simp: load_def split: if_splits)

lemma bind_sm_unit: "bind_sm m (\<lambda>_. ret_sm ()) = m" "bind_sm m ret_sm = (m :: ('s, unit) sm)"
  by (rule ext) (auto simp: bind_sm_def split: sum.split)

text \<open>The rows of a source, and the rows of a target written one after the other.\<close>

definition strided_rows :: "'a list \<Rightarrow> int \<Rightarrow> int \<Rightarrow> nat \<Rightarrow> nat \<Rightarrow> 'a list list \<Rightarrow> bool" where
  "strided_rows mem p s C R rows \<longleftrightarrow>
     length rows = R \<and> (\<forall>i < R. load C mem (p + int i * s) = Inr (rows ! i))"

lemma strided_rows_lengths: "strided_rows mem p s C R rows \<Longrightarrow> \<forall>r \<in> set rows. length r = C"
  by (auto simp: strided_rows_def in_set_conv_nth) (rule length_load, blast)

fun store_rows_from :: "nat \<Rightarrow> int \<Rightarrow> int \<Rightarrow> 'a list list \<Rightarrow> ('a list, unit) sm" where
  "store_rows_from i p s [] = ret_sm ()"
| "store_rows_from i p s (r # rs) = bind_sm (store (p + int i * s) r) (\<lambda>_. store_rows_from (Suc i) p s rs)"

abbreviation store_rows :: "int \<Rightarrow> int \<Rightarrow> 'a list list \<Rightarrow> ('a list, unit) sm" where
  "store_rows \<equiv> store_rows_from 0"

lemma storeu_2x128:
  assumes "length a = 16" "length b = 16"
  shows "iree_uk_avx_storeu_2x128 p q (a @ b) = bind_sm (store p a) (\<lambda>_. store q b)"
  using assms by (simp add: iree_uk_avx_storeu_2x128_def mm_extract128_def Let_def)

lemma loadu_2x128:
  assumes "load 16 mem p = Inr a" "load 16 mem q = Inr b"
  shows "iree_uk_avx_loadu_2x128 mem p q = Inr (a @ b)"
  using assms length_load [OF assms(1)] by (simp add: iree_uk_avx_loadu_2x128_def mm_insert128_def)

lemma loadu_4x128:
  assumes "load 16 mem p = Inr a" "load 16 mem q = Inr b" "load 16 mem r = Inr c" "load 16 mem s = Inr d"
  shows "iree_uk_avx512_loadu_4x128 mem p q r s = Inr (a @ b @ c @ d)"
  using assms [THEN length_load] assms by (simp add: iree_uk_avx512_loadu_4x128_def mm_insert128_def Let_def)

lemma store_rows_shift: "store_rows_from (Suc k) p s rows = store_rows_from k (p + s) s rows"
  by (induction rows arbitrary: k) (simp_all add: algebra_simps)

lemma all_less_Suc: "(\<forall>i < Suc n. P i) \<longleftrightarrow> P 0 \<and> (\<forall>i < n. P (Suc i))"
  using less_Suc_eq_0_disj by auto

text \<open>What the rows written at a stride of at least their length do to the target.\<close>

definition rows_written :: "'a list \<Rightarrow> 'a list \<Rightarrow> int \<Rightarrow> int \<Rightarrow> nat \<Rightarrow> 'a list list \<Rightarrow> bool" where
  "rows_written mem mem' p s w rows \<longleftrightarrow>
     length mem' = length mem \<and> strided_rows mem' p s w (length rows) rows \<and>
     (\<forall>a < length mem. (\<forall>i < length rows. int a < p + int i * s \<or> p + int i * s + int w \<le> int a) \<longrightarrow> mem' ! a = mem ! a)"

lemma load_store_same:
  "store p v mem = Inr ((), mem') \<Longrightarrow> load (length v) mem' p = Inr v"
  by (auto simp: store_def load_def min_def split: if_splits)

lemma load_unchanged:
  assumes "load n mem p = Inr v" "length mem' = length mem" "\<And>a. p \<le> int a \<Longrightarrow> int a < p + int n \<Longrightarrow> mem' ! a = mem ! a"
  shows "load n mem' p = Inr v"
proof -
  have b: "0 \<le> p" "nat p + n \<le> length mem" "v = take n (drop (nat p) mem)"
    using assms(1) by (auto simp: load_def split: if_splits)
  have "take n (drop (nat p) mem') = take n (drop (nat p) mem)"
    by (rule nth_equalityI) (use b assms(2,3) in auto)
  then show ?thesis using b assms(2) by (simp add: load_def)
qed

lemma store_rows_writes:
  assumes "\<forall>r \<in> set rows. length r = w" "int w \<le> s" "0 \<le> p"
    and "rows = [] \<or> p + int (length rows - 1) * s + int w \<le> int (length mem)"
  shows "\<exists>mem'. store_rows p s rows mem = Inr ((), mem') \<and> rows_written mem mem' p s w rows"
  using assms
proof (induction rows arbitrary: p mem)
  case Nil
  then show ?case by (simp add: rows_written_def strided_rows_def ret_sm_def)
next
  case (Cons r rs)
  have s: "0 \<le> s" using Cons.prems(2) by linarith
  have "0 \<le> int (length rs) * s" using s by simp
  moreover have "p + int (length rs) * s + int w \<le> int (length mem)" using Cons.prems(4) by simp
  ultimately have "p + int w \<le> int (length mem)" by linarith
  then have fits: "nat p + length r \<le> length mem" using Cons.prems(1,3) by simp
  obtain mem1 where st: "store p r mem = Inr ((), mem1)" using fits Cons.prems(3) by (simp add: store_def)
  have alt: "mem1 = map (\<lambda>i. if nat p \<le> i \<and> i < nat p + length r then r ! (i - nat p) else mem ! i) [0..<length mem]"
    using st fits Cons.prems(3) by (simp add: store_alt)
  have "rs = [] \<or> p + s + int (length rs - 1) * s + int w \<le> int (length mem1)"
    using Cons.prems(4) alt by (cases rs) (simp_all add: algebra_simps)
  then obtain mem' where rest: "store_rows (p + s) s rs mem1 = Inr ((), mem')"
      and w: "rows_written mem1 mem' (p + s) s w rs"
    using Cons.IH [of "p + s" mem1] Cons.prems s by auto
  have w1: "length mem' = length mem" "strided_rows mem' (p + s) s w (length rs) rs"
    using w alt by (simp_all add: rows_written_def)
  have outside: "mem' ! a = mem1 ! a" if "a < length mem" "\<forall>i < length rs. int a < p + s + int i * s \<or> p + s + int i * s + int w \<le> int a" for a
    using w that alt by (simp add: rows_written_def)
  have below: "mem' ! a = mem1 ! a" if "a < length mem" "int a < p + s" for a
  proof (rule outside [OF that(1)], intro allI impI disjI1)
    fix i
    have "0 \<le> int i * s" using s by simp
    then show "int a < p + s + int i * s" using that(2) by linarith
  qed
  have "load w mem' p = Inr r"
  proof (rule load_unchanged)
    show "load w mem1 p = Inr r" using load_store_same [OF st] Cons.prems(1) by simp
    show "length mem' = length mem1" using w1 alt by simp
    fix a
    assume "p \<le> int a" "int a < p + int w"
    then show "mem' ! a = mem1 ! a" using below [of a] fits Cons.prems by simp
  qed
  then have "strided_rows mem' p s w (length (r # rs)) (r # rs)"
    using w1(2) by (simp add: strided_rows_def all_less_Suc algebra_simps)
  moreover have "mem' ! a = mem ! a"
    if a: "a < length mem" "\<forall>i < length (r # rs). int a < p + int i * s \<or> p + int i * s + int w \<le> int a" for a
  proof -
    have "\<forall>i < length rs. int a < p + s + int i * s \<or> p + s + int i * s + int w \<le> int a"
    proof (intro allI impI)
      fix i
      assume "i < length rs"
      then show "int a < p + s + int i * s \<or> p + s + int i * s + int w \<le> int a"
        using a(2) [rule_format, of "Suc i"] by (simp add: algebra_simps)
    qed
    then have "mem' ! a = mem1 ! a" using outside a(1) by blast
    moreover have "mem1 ! a = mem ! a"
    proof -
      have "int a < p \<or> p + int w \<le> int a" using a(2) [rule_format, of 0] by simp
      moreover have "length r = w" using Cons.prems(1) by simp
      ultimately have "\<not> (nat p \<le> a \<and> a < nat p + length r)" using Cons.prems(3) by linarith
      then show ?thesis using a(1) unfolding alt by auto
    qed
    ultimately show ?thesis by simp
  qed
  ultimately have "rows_written mem mem' p s w (r # rs)" using w1(1) by (simp add: rows_written_def)
  moreover have "store_rows p s (r # rs) mem = Inr ((), mem')"
    using st rest by (simp add: bind_sm_def store_rows_shift)
  ultimately show ?case by blast
qed


section \<open>The kernels\<close>

text \<open>The loads of the rows that a kernel performs, for rewriting.\<close>

lemma strided_rows_loads:
  assumes "strided_rows mem p s C R rows" "i < R"
  shows "load C mem (p + int i * s) = Inr (rows ! i)"
  using assms by (simp add: strided_rows_def)

lemma strided_loads_8:
  assumes "strided_rows mem p s C R rows" "8 \<le> R"
  shows "load C mem (p + 0 * s) = Inr (rows ! 0)" "load C mem (p + 1 * s) = Inr (rows ! 1)"
    "load C mem (p + 2 * s) = Inr (rows ! 2)" "load C mem (p + 3 * s) = Inr (rows ! 3)"
    "load C mem (p + 4 * s) = Inr (rows ! 4)" "load C mem (p + 5 * s) = Inr (rows ! 5)"
    "load C mem (p + 6 * s) = Inr (rows ! 6)" "load C mem (p + 7 * s) = Inr (rows ! 7)"
  using strided_rows_loads [OF assms(1), of 0] strided_rows_loads [OF assms(1), of 1]
    strided_rows_loads [OF assms(1), of 2] strided_rows_loads [OF assms(1), of 3]
    strided_rows_loads [OF assms(1), of 4] strided_rows_loads [OF assms(1), of 5]
    strided_rows_loads [OF assms(1), of 6] strided_rows_loads [OF assms(1), of 7] assms(2)
  by simp_all

lemma strided_loads_16:
  assumes "strided_rows mem p s C 16 rows"
  shows "load C mem (p + 8 * s) = Inr (rows ! 8)" "load C mem (p + 9 * s) = Inr (rows ! 9)"
    "load C mem (p + 10 * s) = Inr (rows ! 10)" "load C mem (p + 11 * s) = Inr (rows ! 11)"
    "load C mem (p + 12 * s) = Inr (rows ! 12)" "load C mem (p + 13 * s) = Inr (rows ! 13)"
    "load C mem (p + 14 * s) = Inr (rows ! 14)" "load C mem (p + 15 * s) = Inr (rows ! 15)"
  using strided_rows_loads [OF assms, of 8] strided_rows_loads [OF assms, of 9]
    strided_rows_loads [OF assms, of 10] strided_rows_loads [OF assms, of 11]
    strided_rows_loads [OF assms, of 12] strided_rows_loads [OF assms, of 13]
    strided_rows_loads [OF assms, of 14] strided_rows_loads [OF assms, of 15]
  by simp_all

text \<open>The rows of a transposed matrix, with their length.\<close>

lemma rows_4: "length t = 4 \<Longrightarrow> t = [t ! 0, t ! 1, t ! 2, t ! 3]"
  using map_nth [of t] by (simp add: numeral_eq_Suc)

lemma transposed_row_length:
  assumes "strided_rows mem p s C R rows" "C = w * n" "j < n"
  shows "length (tiled_transpose w n rows ! j) = w * R"
  using length_tiled_row [OF assms(3), of rows w] strided_rows_lengths [OF assms(1)] assms
  by (simp add: strided_rows_def)

lemmas kernel_simps = bind_sm_unit Let_def

lemma avx2_1x4_kernel:
  assumes "strided_rows src in_ptr in_stride 16 8 rows"
  shows "iree_uk_avx2_copy_8x16xi8_tiled_1x4_transpose_strided_to_strided out_ptr src in_ptr out_stride in_stride =
    store_rows out_ptr out_stride (tiled_transpose 4 4 rows)"
proof
  fix mem
  note l = strided_loads_8 [OF assms order_refl]
  have "length rows = 8" using assms by (simp add: strided_rows_def)
  note r = avx2_registers(1) [OF list_8 [OF this] strided_rows_lengths [OF assms]]
  have t: "store_rows out_ptr out_stride (tiled_transpose 4 4 rows) = store_rows out_ptr out_stride
      [tiled_transpose 4 4 rows ! 0, tiled_transpose 4 4 rows ! 1, tiled_transpose 4 4 rows ! 2, tiled_transpose 4 4 rows ! 3]"
    using rows_4 [of "tiled_transpose 4 4 rows"] by simp
  show "iree_uk_avx2_copy_8x16xi8_tiled_1x4_transpose_strided_to_strided out_ptr src in_ptr out_stride in_stride mem =
    store_rows out_ptr out_stride (tiled_transpose 4 4 rows) mem"
    unfolding t iree_uk_avx2_copy_8x16xi8_tiled_1x4_transpose_strided_to_strided_def
      loadu_2x128 [OF l(1,5)] loadu_2x128 [OF l(2,6)] loadu_2x128 [OF l(3,7)] loadu_2x128 [OF l(4,8)]
    by (simp add: r [simplified] kernel_simps del: sm_simps(7))
qed

lemma avx512_1x4_kernel:
  assumes "strided_rows src in_ptr in_stride 16 16 rows"
  shows "iree_uk_avx512_copy_16x16xi8_tiled_1x4_transpose_strided_to_strided out_ptr src in_ptr out_stride in_stride =
    store_rows out_ptr out_stride (tiled_transpose 4 4 rows)"
proof
  fix mem
  have "8 \<le> (16 :: nat)" by simp
  note l = strided_loads_8 [OF assms this] strided_loads_16 [OF assms]
  have "length rows = 16" using assms by (simp add: strided_rows_def)
  note r = avx512_registers(1) [OF list_16 [OF this] strided_rows_lengths [OF assms]]
  have t: "store_rows out_ptr out_stride (tiled_transpose 4 4 rows) = store_rows out_ptr out_stride
      [tiled_transpose 4 4 rows ! 0, tiled_transpose 4 4 rows ! 1, tiled_transpose 4 4 rows ! 2, tiled_transpose 4 4 rows ! 3]"
    using rows_4 [of "tiled_transpose 4 4 rows"] by simp
  show "iree_uk_avx512_copy_16x16xi8_tiled_1x4_transpose_strided_to_strided out_ptr src in_ptr out_stride in_stride mem =
    store_rows out_ptr out_stride (tiled_transpose 4 4 rows) mem"
    unfolding t iree_uk_avx512_copy_16x16xi8_tiled_1x4_transpose_strided_to_strided_def
      loadu_4x128 [OF l(1,5,9,13)] loadu_4x128 [OF l(2,6,10,14)] loadu_4x128 [OF l(3,7,11,15)] loadu_4x128 [OF l(4,8,12,16)]
    by (simp add: r [simplified] kernel_simps del: sm_simps(7))
qed

lemma transposed_list_8:
  assumes "strided_rows mem p s C R rows" "C = w * 8"
  shows "tiled_transpose w 8 rows = [tiled_transpose w 8 rows ! 0, tiled_transpose w 8 rows ! 1, tiled_transpose w 8 rows ! 2,
      tiled_transpose w 8 rows ! 3, tiled_transpose w 8 rows ! 4, tiled_transpose w 8 rows ! 5,
      tiled_transpose w 8 rows ! 6, tiled_transpose w 8 rows ! 7]"
  by (rule list_8) simp

lemma avx2_1x2_kernel:
  assumes "strided_rows src in_ptr in_stride 16 8 rows"
  shows "iree_uk_avx2_copy_8x16xi8_tiled_1x2_transpose_strided_to_strided out_ptr src in_ptr out_stride in_stride =
    store_rows out_ptr out_stride (tiled_transpose 2 8 rows)"
proof
  fix mem
  note l = strided_loads_8 [OF assms order_refl]
  have "length rows = 8" using assms by (simp add: strided_rows_def)
  note r = avx2_registers(2) [OF list_8 [OF this] strided_rows_lengths [OF assms]]
  define t where "t = tiled_transpose 2 8 rows"
  have len: "j < 8 \<Longrightarrow> length (t ! j) = 16" for j
    unfolding t_def using transposed_row_length [OF assms, of 2 8 j] by simp
  have t: "t = [t ! 0, t ! 1, t ! 2, t ! 3, t ! 4, t ! 5, t ! 6, t ! 7]"
    using transposed_list_8 [OF assms, of 2] by (simp add: t_def)
  have p: "pairs t = [t ! 0 @ t ! 1, t ! 2 @ t ! 3, t ! 4 @ t ! 5, t ! 6 @ t ! 7]"
    by (subst t) simp
  have "store_rows out_ptr out_stride t =
      store_rows out_ptr out_stride [t ! 0, t ! 1, t ! 2, t ! 3, t ! 4, t ! 5, t ! 6, t ! 7]"
    using t by simp
  then show "iree_uk_avx2_copy_8x16xi8_tiled_1x2_transpose_strided_to_strided out_ptr src in_ptr out_stride in_stride mem =
    store_rows out_ptr out_stride (tiled_transpose 2 8 rows) mem"
    unfolding iree_uk_avx2_copy_8x16xi8_tiled_1x2_transpose_strided_to_strided_def
      loadu_2x128 [OF l(1,5)] loadu_2x128 [OF l(2,6)] loadu_2x128 [OF l(3,7)] loadu_2x128 [OF l(4,8)]
    unfolding t_def [symmetric]
    by (simp add: r [folded t_def, simplified] p storeu_2x128 len kernel_simps bind_sm_assoc_fun del: sm_simps(7))
qed

lemma storeu_4x128:
  assumes "length a = 32" "length b = 32" "int 32 \<le> abs (q - p)"
  shows "iree_uk_avx512_storeu_4x128 p (q + 0) (p + 16) (q + 16) (take 16 a @ take 16 b @ drop 16 a @ drop 16 b) =
    bind_sm (store p a) (\<lambda>_. store q b)"
proof -
  let ?a0 = "take 16 a" and ?a1 = "drop 16 a" and ?b0 = "take 16 b" and ?b1 = "drop 16 b"
  have l: "length ?a0 = 16" "length ?a1 = 16" "length ?b0 = 16" "length ?b1 = 16"
    using assms by simp_all
  have e: "mm_extract128 (?a0 @ ?b0 @ ?a1 @ ?b1) 0 = ?a0" "mm_extract128 (?a0 @ ?b0 @ ?a1 @ ?b1) 1 = ?b0"
    "mm_extract128 (?a0 @ ?b0 @ ?a1 @ ?b1) 2 = ?a1" "mm_extract128 (?a0 @ ?b0 @ ?a1 @ ?b1) 3 = ?b1"
    using l by (simp_all add: mm_extract128_def)
  have c: "bind_sm (store q ?b0) (\<lambda>_. store (p + 16) ?a1) = bind_sm (store (p + 16) ?a1) (\<lambda>_. store q ?b0)"
    by (rule store_commute) (use assms(3) l in auto)
  have "iree_uk_avx512_storeu_4x128 p (q + 0) (p + 16) (q + 16) (?a0 @ ?b0 @ ?a1 @ ?b1) =
      bind_sm (store p ?a0) (\<lambda>_. bind_sm (bind_sm (store q ?b0) (\<lambda>_. store (p + 16) ?a1)) (\<lambda>_. store (q + 16) ?b1))"
    by (simp only: iree_uk_avx512_storeu_4x128_def Let_def e bind_sm_assoc_fun add_0_right)
  also have "\<dots> = bind_sm (bind_sm (store p ?a0) (\<lambda>_. store (p + int (length ?a0)) ?a1))
      (\<lambda>_. bind_sm (store q ?b0) (\<lambda>_. store (q + int (length ?b0)) ?b1))"
    by (simp only: c bind_sm_assoc_fun l) simp
  also have "\<dots> = bind_sm (store p a) (\<lambda>_. store q b)"
    by (simp only: store_append append_take_drop_id)
  finally show ?thesis .
qed

lemma avx512_1x2_kernel:
  assumes "strided_rows src in_ptr in_stride 16 16 rows" "32 \<le> abs out_stride"
  shows "iree_uk_avx512_copy_16x16xi8_tiled_1x2_transpose_strided_to_strided out_ptr src in_ptr out_stride in_stride =
    store_rows out_ptr out_stride (tiled_transpose 2 8 rows)"
proof
  fix mem
  have "8 \<le> (16 :: nat)" by simp
  note l = strided_loads_8 [OF assms(1) this] strided_loads_16 [OF assms(1)]
  have "length rows = 16" using assms by (simp add: strided_rows_def)
  note r = avx512_registers(2) [OF list_16 [OF this] strided_rows_lengths [OF assms(1)]]
  define t where "t = tiled_transpose 2 8 rows"
  have len: "j < 8 \<Longrightarrow> length (t ! j) = 32" for j
    unfolding t_def using transposed_row_length [OF assms(1), of 2 8 j] by simp
  have q: "quarters t ! 0 = take 16 (t ! 0) @ take 16 (t ! 1) @ drop 16 (t ! 0) @ drop 16 (t ! 1)"
    "quarters t ! 1 = take 16 (t ! 2) @ take 16 (t ! 3) @ drop 16 (t ! 2) @ drop 16 (t ! 3)"
    "quarters t ! 2 = take 16 (t ! 4) @ take 16 (t ! 5) @ drop 16 (t ! 4) @ drop 16 (t ! 5)"
    "quarters t ! 3 = take 16 (t ! 6) @ take 16 (t ! 7) @ drop 16 (t ! 6) @ drop 16 (t ! 7)"
    by (simp_all add: quarters_def)
  have d: "32 \<le> abs (out_ptr + 1 * out_stride - (out_ptr + 0 * out_stride))"
    "32 \<le> abs (out_ptr + 3 * out_stride - (out_ptr + 2 * out_stride))"
    "32 \<le> abs (out_ptr + 5 * out_stride - (out_ptr + 4 * out_stride))"
    "32 \<le> abs (out_ptr + 7 * out_stride - (out_ptr + 6 * out_stride))"
    using assms(2) by simp_all
  have "store_rows out_ptr out_stride t =
      store_rows out_ptr out_stride [t ! 0, t ! 1, t ! 2, t ! 3, t ! 4, t ! 5, t ! 6, t ! 7]"
    using transposed_list_8 [OF assms(1), of 2] by (simp add: t_def)
  then show "iree_uk_avx512_copy_16x16xi8_tiled_1x2_transpose_strided_to_strided out_ptr src in_ptr out_stride in_stride mem =
    store_rows out_ptr out_stride (tiled_transpose 2 8 rows) mem"
    unfolding iree_uk_avx512_copy_16x16xi8_tiled_1x2_transpose_strided_to_strided_def
      loadu_4x128 [OF l(1,5,9,13)] loadu_4x128 [OF l(2,6,10,14)] loadu_4x128 [OF l(3,7,11,15)] loadu_4x128 [OF l(4,8,12,16)]
    unfolding t_def [symmetric]
    using d by (simp add: r [folded t_def] q storeu_4x128 [unfolded add_0_right] len kernel_simps bind_sm_assoc_fun
        del: sm_simps(7) One_nat_def)
qed

lemma neon_load_permute:
  assumes "\<And>i. i < 8 \<Longrightarrow> load 8 mem (src + int i * stride) = Inr (rows ! i)"
    and "p0 < 8" "p1 < 8" "p2 < 8" "p3 < 8" "p4 < 8" "p5 < 8" "p6 < 8" "p7 < 8"
  shows "iree_uk_neon_load_8x8xi8_strided_permute mem src stride (int p0) (int p1) (int p2) (int p3)
      (int p4) (int p5) (int p6) (int p7) =
    Inr [rows ! p0 @ rows ! p1, rows ! p2 @ rows ! p3, rows ! p4 @ rows ! p5, rows ! p6 @ rows ! p7]"
  by (simp add: iree_uk_neon_load_8x8xi8_strided_permute_def assms(1) assms(2-9))

lemma neon_1x4_kernel:
  assumes "strided_rows src in_ptr in_stride 8 8 rows"
  shows "iree_uk_neon_copy_8x8xi8_tiled_1x4_transpose_strided_to_strided out_ptr src in_ptr out_stride in_stride =
    store_rows out_ptr out_stride (tiled_transpose 4 2 rows)"
proof
  fix mem
  have len8: "length rows = 8" using assms by (simp add: strided_rows_def)
  note r = neon_registers(1) [OF list_8 [OF len8] strided_rows_lengths [OF assms]]
  have loads: "i < 8 \<Longrightarrow> load 8 src (in_ptr + int i * in_stride) = Inr (rows ! i)" for i
    by (rule strided_rows_loads [OF assms])
  have l: "iree_uk_neon_load_8x8xi8_strided_permute src in_ptr in_stride 0 2 1 3 4 6 5 7 =
      Inr [rows ! 0 @ rows ! 2, rows ! 1 @ rows ! 3, rows ! 4 @ rows ! 6, rows ! 5 @ rows ! 7]"
    using neon_load_permute [OF loads, of 0 2 1 3 4 6 5 7] by simp
  define t where "t = tiled_transpose 4 2 rows"
  have len: "j < 2 \<Longrightarrow> length (t ! j) = 32" for j
    unfolding t_def using transposed_row_length [OF assms, of 4 2 j] by simp
  have s: "bind_sm (store p (take 16 (t ! j))) (\<lambda>_. bind_sm (store (16 + p) (drop 16 (t ! j))) k) = bind_sm (store p (t ! j)) k"
    "bind_sm (store p (take 16 (t ! j))) (\<lambda>_. store (16 + p) (drop 16 (t ! j))) = store p (t ! j)" if "j < 2" for p j k
  proof -
    show *: "bind_sm (store p (take 16 (t ! j))) (\<lambda>_. store (16 + p) (drop 16 (t ! j))) = store p (t ! j)"
      using store_append [of p "take 16 (t ! j)" "drop 16 (t ! j)"] len [OF that] by (simp add: add.commute)
    show "bind_sm (store p (take 16 (t ! j))) (\<lambda>_. bind_sm (store (16 + p) (drop 16 (t ! j))) k) = bind_sm (store p (t ! j)) k"
      unfolding * [symmetric] bind_sm_assoc_fun ..
  qed
  have "length t = 2" by (simp add: t_def)
  then have "t = [t ! 0, t ! 1]" by (auto simp: length_Suc_conv numeral_2_eq_2)
  then have "store_rows out_ptr out_stride t = store_rows out_ptr out_stride [t ! 0, t ! 1]" by simp
  then show "iree_uk_neon_copy_8x8xi8_tiled_1x4_transpose_strided_to_strided out_ptr src in_ptr out_stride in_stride mem =
      store_rows out_ptr out_stride (tiled_transpose 4 2 rows) mem"
    unfolding iree_uk_neon_copy_8x8xi8_tiled_1x4_transpose_strided_to_strided_def l t_def [symmetric]
    by (simp add: r [folded t_def, unfolded Let_def] kernel_simps s add.assoc add.left_commute [of _ 16]
        add.commute [of _ 16] del: sm_simps(7) One_nat_def)
qed

lemma neon_transpose_kernel:
  assumes "strided_rows src in_ptr in_stride 8 8 rows"
  shows "iree_uk_neon_copy_8x8xi8_transpose_strided_to_strided out_ptr src in_ptr out_stride in_stride =
    store_rows out_ptr out_stride (tiled_transpose 1 8 rows)"
proof
  fix mem
  have len8: "length rows = 8" using assms by (simp add: strided_rows_def)
  note r = neon_registers(2) [OF list_8 [OF len8] strided_rows_lengths [OF assms]]
  have loads: "i < 8 \<Longrightarrow> load 8 src (in_ptr + int i * in_stride) = Inr (rows ! i)" for i
    by (rule strided_rows_loads [OF assms])
  have l: "iree_uk_neon_load_8x8xi8_strided_permute src in_ptr in_stride 0 4 1 5 2 6 3 7 =
      Inr [rows ! 0 @ rows ! 4, rows ! 1 @ rows ! 5, rows ! 2 @ rows ! 6, rows ! 3 @ rows ! 7]"
    using neon_load_permute [OF loads, of 0 4 1 5 2 6 3 7] by simp
  define t where "t = tiled_transpose 1 8 rows"
  have len: "j < 8 \<Longrightarrow> length (t ! j) = 8" for j
    unfolding t_def using transposed_row_length [OF assms, of 1 8 j] by simp
  have t: "t = [t ! 0, t ! 1, t ! 2, t ! 3, t ! 4, t ! 5, t ! 6, t ! 7]"
    using transposed_list_8 [OF assms, of 1] by (simp add: t_def)
  have p: "pairs t = [t ! 0 @ t ! 1, t ! 2 @ t ! 3, t ! 4 @ t ! 5, t ! 6 @ t ! 7]"
    by (subst t) simp
  have "store_rows out_ptr out_stride t =
      store_rows out_ptr out_stride [t ! 0, t ! 1, t ! 2, t ! 3, t ! 4, t ! 5, t ! 6, t ! 7]"
    using t by simp
  then show "iree_uk_neon_copy_8x8xi8_transpose_strided_to_strided out_ptr src in_ptr out_stride in_stride mem =
      store_rows out_ptr out_stride (tiled_transpose 1 8 rows) mem"
    unfolding iree_uk_neon_copy_8x8xi8_transpose_strided_to_strided_def l t_def [symmetric]
    by (simp add: r [folded t_def] p len kernel_simps del: sm_simps(7) One_nat_def)
qed


section \<open>The copies\<close>

text \<open>Row \<open>i\<close> of a source, from the row \<open>k\<close> on.\<close>

definition rows_from :: "'a list \<Rightarrow> int \<Rightarrow> int \<Rightarrow> nat \<Rightarrow> nat \<Rightarrow> 'a list list \<Rightarrow> bool" where
  "rows_from mem p s C k rows \<longleftrightarrow> (\<forall>i < length rows. load C mem (p + int (k + i) * s) = Inr (rows ! i))"

lemma rows_from_Cons:
  "rows_from mem p s C k (r # rs) \<longleftrightarrow> load C mem (p + int k * s) = Inr r \<and> rows_from mem p s C (Suc k) rs"
proof -
  have "(\<forall>i < Suc n. P i) \<longleftrightarrow> P 0 \<and> (\<forall>i < n. P (Suc i))" for n P
    using less_Suc_eq_0_disj by auto
  then show ?thesis by (simp add: rows_from_def algebra_simps)
qed

lemma strided_rows_from: "strided_rows mem p s C R rows \<Longrightarrow> rows_from mem p s C 0 rows"
  by (simp add: strided_rows_def rows_from_def)

lemma rows_from_drop:
  assumes "strided_rows mem p s C R rows" "k + m \<le> R"
  shows "rows_from mem p s C k (take m (drop k rows))"
  unfolding rows_from_def using assms strided_rows_loads [OF assms(1), of "k + _"]
  by (simp add: strided_rows_def)

lemma upt_length_Cons: "[k..<k + length (r # rs)] = k # [Suc k..<Suc k + length rs]"
  using upt_conv_Cons [of k "k + length (r # rs)"] by (simp del: upt_Suc)

lemma memcpy_at_alt:
  assumes "0 < n"
  shows "memcpy_at dst src_mem src (int n) = bind_sm (lift_sm (load n src_mem src)) (store dst)"
proof
  fix mem
  show "memcpy_at dst src_mem src (int n) mem = bind_sm (lift_sm (load n src_mem src)) (store dst) mem"
    using assms by (auto simp: memcpy_at_def memcpy_spec load_def store_def bind_sm_def lift_sm_def add.commute)
qed

lemma strided_copy_loop_rows:
  assumes "rows_from src p s n k rows" "0 < n"
  shows "strided_copy_loop [k..<k + length rows] src out_ptr p out_stride s (int n) = store_rows_from k out_ptr out_stride rows"
  using assms
proof (induction rows arbitrary: k)
  case (Cons r rs)
  have l: "load n src (p + int k * s) = Inr r" "rows_from src p s n (Suc k) rs"
    using Cons.prems(1) by (simp_all add: rows_from_Cons)
  have "memcpy_at (out_ptr + int k * out_stride) src (p + int k * s) (int n) = store (out_ptr + int k * out_stride) r"
    using l(1) by (simp add: memcpy_at_alt Cons.prems(2) fun_eq_iff bind_sm_def lift_sm_def)
  then show ?case
    unfolding upt_length_Cons strided_copy_loop.simps store_rows_from.simps Cons.IH [OF l(2) Cons.prems(2)] by (simp only:)
qed simp

lemma insert_rows_append:
  assumes "rows_from mem p s 2 k rows" "length v = 2 * (k + length rows)"
  shows "insert_rows mem p s [k..<k + length rows] v = Inr (take (2 * k) v @ concat rows)"
  using assms
proof (induction rows arbitrary: k v)
  case (Cons r rs)
  have l: "load 2 mem (p + int k * s) = Inr r" "rows_from mem p s 2 (Suc k) rs"
    using Cons.prems(1) by (simp_all add: rows_from_Cons)
  have r: "length r = 2" using l(1) by (rule length_load)
  have "insert_rows mem p s [Suc k..<Suc k + length rs] (mm_insert_epi16 v r k) =
      Inr (take (2 * Suc k) (mm_insert_epi16 v r k) @ concat rs)"
    by (rule Cons.IH [OF l(2)]) (use Cons.prems(2) r in \<open>simp add: mm_insert_epi16_def\<close>)
  moreover have "take (2 * Suc k) (mm_insert_epi16 v r k) = take (2 * k) v @ r"
    using Cons.prems(2) r by (simp add: mm_insert_epi16_def)
  ultimately show ?case unfolding upt_length_Cons using l(1) by simp
qed simp

lemma load_lanes_append:
  assumes "rows_from mem p s n (b + k) rows" "length v = n * (k + length rows)"
  shows "load_lanes n mem p s (map (\<lambda>j. (b + j, j)) [k..<k + length rows]) v = Inr (take (n * k) v @ concat rows)"
  using assms
proof (induction rows arbitrary: k v)
  case (Cons r rs)
  have l: "load n mem (p + int (b + k) * s) = Inr r" "rows_from mem p s n (b + Suc k) rs"
    using Cons.prems(1) by (simp_all add: rows_from_Cons)
  have r: "length r = n" using l(1) by (rule length_load)
  define v' where "v' = take (n * k) v @ r @ drop (n * k + n) v"
  have "load_lanes n mem p s (map (\<lambda>j. (b + j, j)) [Suc k..<Suc k + length rs]) v' =
      Inr (take (n * Suc k) v' @ concat rs)"
    by (rule Cons.IH [OF l(2)]) (use Cons.prems(2) r in \<open>simp add: v'_def algebra_simps\<close>)
  moreover have "take (n * Suc k) v' = take (n * k) v @ r"
    using Cons.prems(2) r by (simp add: v'_def algebra_simps)
  ultimately show ?case unfolding upt_length_Cons using l(1) by (simp add: vld1_lane_def v'_def)
qed simp

lemma sint_index:
  assumes "- (2 ^ 31) \<le> int i * s" "int i * s < 2 ^ 31"
  shows "sint (of_nat i * word_of_int s :: u32) = int i * s"
proof -
  have "(of_nat i * word_of_int s :: u32) = word_of_int (int i * s)" by simp
  then show ?thesis using assms by (simp only: sint_sbintrunc') (simp add: signed_take_bit_int_eq_self)
qed

lemma gather_rows:
  assumes "rows_from mem p s 4 k rows"
    and "\<And>i. i < length rows \<Longrightarrow> - (2 ^ 31) \<le> int (k + i) * s \<and> int (k + i) * s < 2 ^ 31"
  shows "mm_i32gather_epi32 mem p (map (\<lambda>i. of_nat i * word_of_int s) [k..<k + length rows]) = Inr (concat rows)"
  using assms
proof (induction rows arbitrary: k)
  case (Cons r rs)
  have "load 4 mem (p + sint (of_nat k * word_of_int s :: u32)) = Inr r"
    using Cons.prems(1) Cons.prems(2) [of 0] by (subst sint_index) (simp_all add: rows_from_Cons)
  moreover have "mm_i32gather_epi32 mem p (map (\<lambda>i. of_nat i * word_of_int s) [Suc k..<Suc k + length rs]) = Inr (concat rs)"
  proof (rule Cons.IH)
    fix i
    assume "i < length rs"
    then show "- (2 ^ 31) \<le> int (Suc k + i) * s \<and> int (Suc k + i) * s < 2 ^ 31"
      using Cons.prems(2) [of "Suc i"] by simp
  qed (use Cons.prems(1) in \<open>simp add: rows_from_Cons\<close>)
  ultimately show ?case unfolding upt_length_Cons by simp
qed simp

lemma strided_copies:
  assumes "strided_rows src p s C R rows" "0 < C"
  shows "strided_copy_loop [0..<R] src out_ptr p out_stride s (int C) = store_rows out_ptr out_stride rows"
  using strided_copy_loop_rows [OF strided_rows_from [OF assms(1)] assms(2)] assms(1)
  by (simp add: strided_rows_def)

lemma inserted_rows:
  assumes "strided_rows mem p s 2 R rows" "length v = 2 * R"
  shows "insert_rows mem p s [0..<R] v = Inr (concat rows)"
  using insert_rows_append [OF strided_rows_from [OF assms(1)], of v] assms by (simp add: strided_rows_def)

lemma loaded_lanes:
  assumes "strided_rows mem p s n R rows" "b + m \<le> R" "length v = n * m"
  shows "load_lanes n mem p s (map (\<lambda>j. (b + j, j)) [0..<m]) v = Inr (concat (take m (drop b rows)))"
proof -
  have l: "length (take m (drop b rows)) = m" using assms(1,2) by (simp add: strided_rows_def)
  show ?thesis
    using load_lanes_append [of mem p s n b 0 "take m (drop b rows)" v] rows_from_drop [OF assms(1,2)] l assms(3)
    by simp
qed

lemma gathered_rows:
  assumes "strided_rows mem p s 4 R rows" "int (R - 1) * abs s < 2 ^ 31"
  shows "mm_i32gather_epi32 mem p (map (\<lambda>i. of_nat i * word_of_int s) [0..<R]) = Inr (concat rows)"
proof -
  have "- (2 ^ 31) \<le> int (0 + i) * s \<and> int (0 + i) * s < 2 ^ 31" if "i < length rows" for i
  proof -
    have "int i \<le> int (R - 1)" using that assms(1) by (simp add: strided_rows_def)
    then have "int i * abs s \<le> int (R - 1) * abs s" by (rule mult_right_mono) simp
    then have "abs (int i * s) < 2 ^ 31" using assms(2) by (simp add: abs_mult)
    then show ?thesis by (simp add: abs_less_iff)
  qed
  from gather_rows [OF strided_rows_from [OF assms(1)] this] show ?thesis
    using assms(1) by (simp add: strided_rows_def)
qed

lemma gather_indices:
  "mm_mullo_epi32 [0, 1, 2, 3, 4, 5, 6, 7] (replicate 8 x) = map (\<lambda>i. of_nat i * x) [0..<8]"
  "mm_mullo_epi32 [0, 1, 2, 3, 4, 5, 6, 7, 8, 9, 10, 11, 12, 13, 14, 15] (replicate 16 x) = map (\<lambda>i. of_nat i * x) [0..<16]"
  by (simp_all add: mm_mullo_epi32_def numeral_eq_Suc)

lemma strided_copy_kernels:
  "strided_rows src p s 32 8 rows \<Longrightarrow>
     iree_uk_copy_8x32xi8_strided_to_strided out_ptr src p out_stride s = store_rows out_ptr out_stride rows"
  "strided_rows src p s 64 16 rows \<Longrightarrow>
     iree_uk_copy_16x64xi8_strided_to_strided out_ptr src p out_stride s = store_rows out_ptr out_stride rows"
  "strided_rows src p s 32 8 rows \<Longrightarrow>
     iree_uk_neon_copy_8x32xi8_strided_to_strided out_ptr src p out_stride s = store_rows out_ptr out_stride rows"
  using strided_copies [of src p s 32 8 rows out_ptr out_stride] strided_copies [of src p s 64 16 rows out_ptr out_stride]
  by (simp_all add: iree_uk_copy_8x32xi8_strided_to_strided_def iree_uk_copy_16x64xi8_strided_to_strided_def
      iree_uk_neon_copy_8x32xi8_strided_to_strided_def)

lemma lifted: "m = Inr v \<Longrightarrow> bind_sm (lift_sm m) f = f v"
  by (simp add: fun_eq_iff bind_sm_def lift_sm_def)

lemma insert_kernels:
  "strided_rows src p s 2 8 rows \<Longrightarrow>
     iree_uk_avx2_copy_8x2xi8_strided_to_unstrided out_ptr src p s = store out_ptr (concat rows)"
  "strided_rows src p s 2 16 rows \<Longrightarrow>
     iree_uk_avx2_copy_16x2xi8_strided_to_unstrided out_ptr src p s = store out_ptr (concat rows)"
  using inserted_rows [of src p s 8 rows "replicate 16 0"] inserted_rows [of src p s 16 rows "replicate 32 0"]
  by (simp_all add: iree_uk_avx2_copy_8x2xi8_strided_to_unstrided_def iree_uk_avx2_load_8x2xi8_strided_def
      iree_uk_avx2_copy_16x2xi8_strided_to_unstrided_def iree_uk_avx2_load_16x2xi8_strided_def
      lifted upt_8 upt_16)

lemma gather_kernels:
  "strided_rows src p s 4 8 rows \<Longrightarrow> 7 * abs s < 2 ^ 31 \<Longrightarrow>
     iree_uk_avx2_copy_8x4xi8_strided_to_unstrided out_ptr src p s = store out_ptr (concat rows)"
  "strided_rows src p s 4 16 rows \<Longrightarrow> 15 * abs s < 2 ^ 31 \<Longrightarrow>
     iree_uk_avx512_copy_16x4xi8_strided_to_unstrided out_ptr src p s = store out_ptr (concat rows)"
  using gathered_rows [of src p s 8 rows] gathered_rows [of src p s 16 rows]
  by (simp_all add: iree_uk_avx2_copy_8x4xi8_strided_to_unstrided_def iree_uk_avx2_load_8x4xi8_strided_def
      iree_uk_avx512_copy_16x4xi8_strided_to_unstrided_def iree_uk_avx512_load_16x4xi8_strided_def
      gather_indices [simplified] gather_indices lifted Let_def del: upt_rec_numeral)

lemma length_concat_rows: "\<forall>r \<in> set rows. length r = n \<Longrightarrow> length (concat rows) = n * length rows"
  by (induction rows) auto

lemma lanes_kernels:
  "strided_rows src p s 1 8 rows \<Longrightarrow>
     iree_uk_neon_copy_8x1xi8_strided_to_unstrided out_ptr src p s = store out_ptr (concat rows)"
  "strided_rows src p s 4 8 rows \<Longrightarrow>
     iree_uk_neon_copy_8x4xi8_strided_to_unstrided out_ptr src p s = store out_ptr (concat rows)"
proof -
  assume a: "strided_rows src p s 1 8 rows"
  have "length rows = 8" using a by (simp add: strided_rows_def)
  then have "load_lanes 1 src p s [(0, 0), (1, 1), (2, 2), (3, 3), (4, 4), (5, 5), (6, 6), (7, 7)] (replicate 8 0) =
      Inr (concat rows)"
    using loaded_lanes [OF a, of 0 8 "replicate 8 0"] by (simp add: upt_8)
  then show "iree_uk_neon_copy_8x1xi8_strided_to_unstrided out_ptr src p s = store out_ptr (concat rows)"
    by (simp only: iree_uk_neon_copy_8x1xi8_strided_to_unstrided_def lifted)
next
  assume a: "strided_rows src p s 4 8 rows"
  have l: "length rows = 8" using a by (simp add: strided_rows_def)
  have u: "[0..<4] = [0, 1, 2, 3 :: nat]" by code_simp
  have "load_lanes 4 src p s [(0, 0), (1, 1), (2, 2), (3, 3)] (replicate 16 0) = Inr (concat (take 4 rows))"
    "load_lanes 4 src p s [(4, 0), (5, 1), (6, 2), (7, 3)] (replicate 16 0) = Inr (concat (drop 4 rows))"
    using loaded_lanes [OF a, of 0 4 "replicate 16 0"] loaded_lanes [OF a, of 4 4 "replicate 16 0"] l by (simp_all add: u)
  then have v: "iree_uk_neon_load_8x4xi8_strided src p s = Inr [concat (take 4 rows), concat (drop 4 rows)]"
    by (simp add: iree_uk_neon_load_8x4xi8_strided_def)
  have "\<forall>r \<in> set (take 4 rows). length r = 4" using strided_rows_lengths [OF a] by (auto dest: in_set_takeD)
  then have "length (concat (take 4 rows)) = 4 * length (take 4 rows)" by (rule length_concat_rows)
  then show "iree_uk_neon_copy_8x4xi8_strided_to_unstrided out_ptr src p s = store out_ptr (concat rows)"
    using store_append [of out_ptr "concat (take 4 rows)" "concat (drop 4 rows)"] l
    by (simp add: iree_uk_neon_copy_8x4xi8_strided_to_unstrided_def lifted [OF v] flip: concat_append)
qed


lemma neon_8x8_copy:
  assumes "strided_rows src p s 8 8 rows"
  shows "iree_uk_neon_copy_8x8xi8_strided_to_unstrided out_ptr src p s = store out_ptr (concat rows)"
proof -
  have l: "length rows = 8" using assms by (simp add: strided_rows_def)
  have loads: "i < 8 \<Longrightarrow> load 8 src (p + int i * s) = Inr (rows ! i)" for i
    by (rule strided_rows_loads [OF assms])
  have v: "iree_uk_neon_load_8x8xi8_strided src p s =
      Inr [rows ! 0 @ rows ! 1, rows ! 2 @ rows ! 3, rows ! 4 @ rows ! 5, rows ! 6 @ rows ! 7]"
    using neon_load_permute [OF loads, of 0 1 2 3 4 5 6 7] by (simp add: iree_uk_neon_load_8x8xi8_strided_def)
  have len: "i < 8 \<Longrightarrow> length (rows ! i) = 8" for i
    using strided_rows_lengths [OF assms] l by simp
  have c: "concat rows = (rows ! 0 @ rows ! 1) @ (rows ! 2 @ rows ! 3) @ (rows ! 4 @ rows ! 5) @ (rows ! 6 @ rows ! 7)"
    by (subst list_8 [OF l]) simp
  have st: "bind_sm (store (q + 16 * int k) (rows ! i @ rows ! j)) (\<lambda>_. store (q + 16 * int (Suc k)) w) =
      store (q + 16 * int k) ((rows ! i @ rows ! j) @ w)" if "i < 8" "j < 8" for q i j k w
    using store_append [of "q + 16 * int k" "rows ! i @ rows ! j" w] len that by (simp add: algebra_simps)
  show ?thesis
    unfolding c using st [of 4 5 out_ptr 2] st [of 2 3 out_ptr 1] st [of 0 1 out_ptr 0]
    by (simp add: iree_uk_neon_copy_8x8xi8_strided_to_unstrided_def lifted [OF v])
qed

lemma store_rows_concat:
  assumes "\<forall>r \<in> set rows. length r = w" "rows \<noteq> []"
  shows "store_rows p (int w) rows = store p (concat rows)"
  using assms
proof (induction rows arbitrary: p)
  case (Cons r rs)
  show ?case
  proof (cases "rs = []")
    case True
    then show ?thesis by (simp add: bind_sm_unit)
  next
    case False
    have "store_rows_from (Suc 0) p (int w) rs = store (p + int (length r)) (concat rs)"
      using Cons.IH [of "p + int w"] Cons.prems False by (simp add: store_rows_shift)
    then show ?thesis by (simp add: store_append)
  qed
qed simp

lemma neon_transpose_unstrided:
  assumes "strided_rows src p s 8 8 rows"
  shows "iree_uk_neon_copy_8x8xi8_transpose_strided_to_unstrided out_ptr src p s =
    store out_ptr (concat (tiled_transpose 1 8 rows))"
proof -
  have "\<forall>r \<in> set (tiled_transpose 1 8 rows). length r = 8"
    using transposed_row_length [OF assms, of 1 8] by (auto simp: in_set_conv_nth)
  moreover have "tiled_transpose 1 8 rows \<noteq> []" by (simp add: tiled_transpose_def)
  ultimately show ?thesis
    using store_rows_concat [of "tiled_transpose 1 8 rows" 8 out_ptr]
    by (simp add: iree_uk_neon_copy_8x8xi8_transpose_strided_to_unstrided_def neon_transpose_kernel [OF assms])
qed

section \<open>What the kernels compute\<close>

text \<open>
  The kernels between two strided buffers: the number \<open>C\<close> of bytes in each of the \<open>R\<close> rows that they read, the number of
  bytes in each row that they write, and the rows that they write, from the rows read.
\<close>

definition strided_kernels ::
  "((int \<Rightarrow> u8 list \<Rightarrow> int \<Rightarrow> int \<Rightarrow> int \<Rightarrow> (u8 list, unit) sm) \<times> nat \<times> nat \<times> nat \<times> (u8 list list \<Rightarrow> u8 list list)) list" where
  "strided_kernels =
     [(iree_uk_copy_8x32xi8_strided_to_strided, 32, 8, 32, \<lambda>rows. rows),
      (iree_uk_copy_16x64xi8_strided_to_strided, 64, 16, 64, \<lambda>rows. rows),
      (iree_uk_neon_copy_8x32xi8_strided_to_strided, 32, 8, 32, \<lambda>rows. rows),
      (iree_uk_avx2_copy_8x16xi8_tiled_1x4_transpose_strided_to_strided, 16, 8, 32, tiled_transpose 4 4),
      (iree_uk_avx2_copy_8x16xi8_tiled_1x2_transpose_strided_to_strided, 16, 8, 16, tiled_transpose 2 8),
      (iree_uk_avx512_copy_16x16xi8_tiled_1x4_transpose_strided_to_strided, 16, 16, 64, tiled_transpose 4 4),
      (iree_uk_avx512_copy_16x16xi8_tiled_1x2_transpose_strided_to_strided, 16, 16, 32, tiled_transpose 2 8),
      (iree_uk_neon_copy_8x8xi8_tiled_1x4_transpose_strided_to_strided, 8, 8, 32, tiled_transpose 4 2),
      (iree_uk_neon_copy_8x8xi8_transpose_strided_to_strided, 8, 8, 8, tiled_transpose 1 8)]"

text \<open>The kernels that write their rows one after the other; \<open>True\<close> for those that gather with 32-bit indices.\<close>

definition unstrided_kernels ::
  "((int \<Rightarrow> u8 list \<Rightarrow> int \<Rightarrow> int \<Rightarrow> (u8 list, unit) sm) \<times> nat \<times> nat \<times> bool \<times> (u8 list list \<Rightarrow> u8 list list)) list" where
  "unstrided_kernels =
     [(iree_uk_avx2_copy_8x4xi8_strided_to_unstrided, 4, 8, True, \<lambda>rows. rows),
      (iree_uk_avx2_copy_8x2xi8_strided_to_unstrided, 2, 8, False, \<lambda>rows. rows),
      (iree_uk_avx2_copy_16x2xi8_strided_to_unstrided, 2, 16, False, \<lambda>rows. rows),
      (iree_uk_avx512_copy_16x4xi8_strided_to_unstrided, 4, 16, True, \<lambda>rows. rows),
      (iree_uk_neon_copy_8x1xi8_strided_to_unstrided, 1, 8, False, \<lambda>rows. rows),
      (iree_uk_neon_copy_8x4xi8_strided_to_unstrided, 4, 8, False, \<lambda>rows. rows),
      (iree_uk_neon_copy_8x8xi8_strided_to_unstrided, 8, 8, False, \<lambda>rows. rows),
      (iree_uk_neon_copy_8x8xi8_transpose_strided_to_unstrided, 8, 8, False, tiled_transpose 1 8)]"

lemma strided_kernel_rows:
  assumes "(ker, C, R, w, f) \<in> set strided_kernels" "strided_rows src p s C R rows" "int w \<le> out_stride"
  shows "ker out_ptr src p out_stride s = store_rows out_ptr out_stride (f rows)
    \<and> f rows \<noteq> [] \<and> (\<forall>r \<in> set (f rows). length r = w)"
proof -
  have ne: "R \<noteq> 0 \<Longrightarrow> rows \<noteq> []" using assms(2) by (auto simp: strided_rows_def)
  note sl = strided_rows_lengths [OF assms(2)]
  have t: "\<forall>r \<in> set (tiled_transpose v n rows). length r = v * R" if "C = v * n" for v n
    using transposed_row_length [OF assms(2) that] by (auto simp: in_set_conv_nth)
  have tn: "tiled_transpose v n rows \<noteq> []" if "n \<noteq> 0" for v n
    using that by (simp add: tiled_transpose_def)
  show ?thesis
    using assms(1,3) unfolding strided_kernels_def list.set insert_iff empty_iff prod.inject
    apply (elim disjE conjE FalseE)
            subgoal using assms(2) ne sl by (simp add: strided_copy_kernels(1))
           subgoal using assms(2) ne sl by (simp add: strided_copy_kernels(2))
          subgoal using assms(2) ne sl by (simp add: strided_copy_kernels(3))
         subgoal using assms(2) avx2_1x4_kernel t [of 4 4] tn [of 4 4] by simp
        subgoal using assms(2) avx2_1x2_kernel t [of 2 8] tn [of 8 2] by simp
       subgoal using assms(2) avx512_1x4_kernel t [of 4 4] tn [of 4 4] by simp
      subgoal using assms(2) avx512_1x2_kernel t [of 2 8] tn [of 8 2] by simp
     subgoal using assms(2) neon_1x4_kernel t [of 4 2] tn [of 2 4] by simp
    subgoal using assms(2) neon_transpose_kernel t [of 1 8] tn [of 8 1] by simp
    done
qed


text \<open>
  C21. C44: the vector kernels that copy and transpose tiles between two strided buffers agree with their reference: if the
  rows of the source are in bounds, the rows of the target lie within it and do not overlap, then the kernel returns,
  row \<open>i\<close> of the target holds row \<open>i\<close> of the matrix (of its transposition by tiles of 1, 2 or 4 bytes), and no other
  byte of the target changes.
\<close>
theorem strided_kernels_write_reference:
  assumes "(ker, C, R, w, f) \<in> set strided_kernels" "strided_rows src in_ptr in_stride C R rows"
    and "int w \<le> out_stride" "0 \<le> out_ptr"
    and "out_ptr + int (length (f rows) - 1) * out_stride + int w \<le> int (length mem)"
  shows "\<exists>mem'. ker out_ptr src in_ptr out_stride in_stride mem = Inr ((), mem') \<and>
    rows_written mem mem' out_ptr out_stride w (f rows)"
  using strided_kernel_rows [OF assms(1-3)] store_rows_writes [of "f rows" w out_stride out_ptr mem] assms(3-5) by auto

theorem strided_kernels_write_reference_witness:
  "\<exists>mem'. iree_uk_neon_copy_8x8xi8_transpose_strided_to_strided 3 (map of_nat [0..<64]) 0 9 8 (replicate 80 0) = Inr ((), mem') \<and>
     rows_written (replicate 80 0) mem' 3 9 8 (tiled_transpose 1 8 (map (map of_nat) (index_rows 8 8)))"
proof (rule strided_kernels_write_reference [where f = "tiled_transpose 1 8" and C = 8 and R = 8])
  show "(iree_uk_neon_copy_8x8xi8_transpose_strided_to_strided, 8, 8, 8, tiled_transpose 1 8) \<in> set strided_kernels"
    by (simp add: strided_kernels_def)
  show "strided_rows (map of_nat [0..<64] :: u8 list) 0 8 8 8 (map (map of_nat) (index_rows 8 8))"
    by (simp add: strided_rows_def load_def index_rows_def index_row_def numeral_eq_Suc all_less_Suc)
qed simp_all

text \<open>
  C45: the kernels that gather the rows of a strided buffer write them one after the other, transposed where
  the name says so; those that gather with 32-bit indices do so if the offset of the last row is below \<open>2 ^ 31\<close>.
\<close>
theorem unstrided_kernels_write_reference:
  assumes "(ker, C, R, gathers, f) \<in> set unstrided_kernels" "strided_rows src in_ptr in_stride C R rows"
    and "gathers \<longrightarrow> int (R - 1) * abs in_stride < 2 ^ 31"
  shows "ker out_ptr src in_ptr in_stride = store out_ptr (concat (f rows))"
  using assms unfolding unstrided_kernels_def list.set insert_iff empty_iff prod.inject
  by (elim disjE conjE FalseE)
    (simp_all add: insert_kernels gather_kernels lanes_kernels neon_8x8_copy neon_transpose_unstrided)

theorem unstrided_kernels_write_reference_witness:
  "iree_uk_avx2_copy_8x4xi8_strided_to_unstrided 2 (map of_nat [0..<64]) 3 5 =
     store 2 (concat (map (\<lambda>i. map (\<lambda>j. of_nat (3 + 5 * i + j)) [0..<4]) [0..<8]))"
proof (rule unstrided_kernels_write_reference [where f = "\<lambda>rows. rows" and C = 4 and R = 8])
  show "(iree_uk_avx2_copy_8x4xi8_strided_to_unstrided, 4, 8, True, \<lambda>rows. rows) \<in> set unstrided_kernels"
    by (simp add: unstrided_kernels_def)
  show "strided_rows (map of_nat [0..<64] :: u8 list) 3 5 4 8 (map (\<lambda>i. map (\<lambda>j. of_nat (3 + 5 * i + j)) [0..<4]) [0..<8])"
    by (simp add: strided_rows_def load_def numeral_eq_Suc all_less_Suc)
qed simp

text \<open>
  C46: the gathers compute the offset of a row in 32 bits although strides have 64: with the stride \<open>2 ^ 29\<close>, row 4 lies
  within the source, but its offset wraps to \<open>- 2 ^ 31\<close> and the load reads before the source.
\<close>
theorem gather_offset_wraps:
  assumes "2 ^ 32 \<le> length src"
  shows "load 4 src (0 + 4 * 2 ^ 29) = Inr (take 4 (drop (2 ^ 31) src)) \<and>
    iree_uk_avx2_load_8x4xi8_strided src 0 (2 ^ 29) = Inl OutOfBounds"
proof -
  have l: "load 4 src (2 ^ 29 * int i) = Inr (take 4 (drop (2 ^ 29 * i) src))" if "i < 8" for i
  proof -
    have "nat (2 ^ 29 * int i) = 2 ^ 29 * i" by (simp add: nat_mult_distrib)
    moreover have "2 ^ 29 * i + 4 \<le> length src" using assms that by simp
    ultimately show ?thesis by (simp add: load_def)
  qed
  have "mm_mullo_epi32 [0, 1, 2, 3, 4, 5, 6, 7] (replicate 8 (word_of_int (2 ^ 29))) =
      [0, 0x20000000, 0x40000000, 0x60000000, 0x80000000, 0xA0000000, 0xC0000000, 0xE0000000]"
    by code_simp
  moreover have "sint (0 :: u32) = 0" "sint (0x20000000 :: u32) = 2 ^ 29 * int 1" "sint (0x40000000 :: u32) = 2 ^ 29 * int 2"
    "sint (0x60000000 :: u32) = 2 ^ 29 * int 3" "sint (0x80000000 :: u32) = - (2 ^ 31)"
    by code_simp+
  moreover have "load 4 src (0 + - (2 ^ 31)) = Inl OutOfBounds" by (simp add: load_def)
  ultimately have "iree_uk_avx2_load_8x4xi8_strided src 0 (2 ^ 29) = Inl OutOfBounds"
    using l [of 0] l [of 1] l [of 2] l [of 3]
    by (simp only: iree_uk_avx2_load_8x4xi8_strided_def Let_def mm_i32gather_epi32.simps add_0) simp
  moreover have "load 4 src (0 + 4 * 2 ^ 29) = Inr (take 4 (drop (2 ^ 31) src))"
    using l [of 4] by simp
  ultimately show ?thesis by blast
qed

theorem gather_offset_wraps_witness:
  "load 4 (replicate (2 ^ 32) (0 :: u8)) (0 + 4 * 2 ^ 29) = Inr (take 4 (drop (2 ^ 31) (replicate (2 ^ 32) 0))) \<and>
    iree_uk_avx2_load_8x4xi8_strided (replicate (2 ^ 32) 0) 0 (2 ^ 29) = Inl OutOfBounds"
  by (rule gather_offset_wraps) (simp only: length_replicate order_refl)

end
