(* ===== verification/Uk_Kernels.thy ===== *)
theory Uk_Kernels
  imports Uk_Common
begin

unbundle bit_operations_syntax

text \<open>
  How the microkernels \<open>mmt4d\<close>, \<open>pack\<close> and \<open>unpack\<close> read the types of their operands off their flags: the
  constants of \<open>builtins/ukernel/exported_bits.h\<close>, which the compiler shares, and the inline functions of
  \<open>mmt4d_internal.h\<close>, \<open>pack_internal.h\<close>, \<open>unpack_internal.h\<close> and \<open>query_tile_sizes_internal.h\<close>.
\<close>

section \<open>Flags\<close>

definition IREE_UK_FLAG_MMT4D_TYPE_MASK :: u32 where "IREE_UK_FLAG_MMT4D_TYPE_MASK = 0xFF"
definition IREE_UK_FLAG_MMT4D_TYPE_NONE :: u32 where "IREE_UK_FLAG_MMT4D_TYPE_NONE = 0x00"
definition IREE_UK_FLAG_MMT4D_TYPE_F32F32F32 :: u32 where "IREE_UK_FLAG_MMT4D_TYPE_F32F32F32 = 0x01"
definition IREE_UK_FLAG_MMT4D_TYPE_S8S8S32 :: u32 where "IREE_UK_FLAG_MMT4D_TYPE_S8S8S32 = 0x02"
definition IREE_UK_FLAG_MMT4D_TYPE_F16F16F32 :: u32 where "IREE_UK_FLAG_MMT4D_TYPE_F16F16F32 = 0x03"
definition IREE_UK_FLAG_MMT4D_TYPE_F16F16F16 :: u32 where "IREE_UK_FLAG_MMT4D_TYPE_F16F16F16 = 0x04"
definition IREE_UK_FLAG_MMT4D_TYPE_BF16BF16F32 :: u32 where "IREE_UK_FLAG_MMT4D_TYPE_BF16BF16F32 = 0x05"
definition IREE_UK_FLAG_MMT4D_TYPE_BF16BF16BF16 :: u32 where "IREE_UK_FLAG_MMT4D_TYPE_BF16BF16BF16 = 0x06"
definition IREE_UK_FLAG_MMT4D_TYPE_S16S16S32 :: u32 where "IREE_UK_FLAG_MMT4D_TYPE_S16S16S32 = 0x07"
definition IREE_UK_FLAG_MMT4D_TYPE_S16U4S32 :: u32 where "IREE_UK_FLAG_MMT4D_TYPE_S16U4S32 = 0x08"
definition IREE_UK_FLAG_MMT4D_TYPE_S16S8S32 :: u32 where "IREE_UK_FLAG_MMT4D_TYPE_S16S8S32 = 0x09"
definition IREE_UK_FLAG_MMT4D_TYPE_S8S4S32 :: u32 where "IREE_UK_FLAG_MMT4D_TYPE_S8S4S32 = 0x0A"
definition IREE_UK_FLAG_MMT4D_TYPE_END :: u32 where "IREE_UK_FLAG_MMT4D_TYPE_END = 0x0B"
definition IREE_UK_FLAG_MMT4D_ACCUMULATE :: u32 where "IREE_UK_FLAG_MMT4D_ACCUMULATE = 0x100"
definition IREE_UK_FLAG_MMT4D_ALLOW_GENERIC_FALLBACK_TILE_FUNCTION :: u32 where
  "IREE_UK_FLAG_MMT4D_ALLOW_GENERIC_FALLBACK_TILE_FUNCTION = 0x200"
definition IREE_UK_FLAG_MMT4D_SKIP_INTERMEDIATE_ROUNDINGS :: u32 where
  "IREE_UK_FLAG_MMT4D_SKIP_INTERMEDIATE_ROUNDINGS = 0x400"
definition IREE_UK_FLAG_MMT4D_INFO_HAVE_ARCHITECTURE_SPECIFIC_TILE_FUNCTION :: u32 where
  "IREE_UK_FLAG_MMT4D_INFO_HAVE_ARCHITECTURE_SPECIFIC_TILE_FUNCTION = 0x1"

definition IREE_UK_FLAG_PACK_TYPE_MASK :: u32 where "IREE_UK_FLAG_PACK_TYPE_MASK = 0xFF"
definition IREE_UK_FLAG_PACK_TYPE_NONE :: u32 where "IREE_UK_FLAG_PACK_TYPE_NONE = 0x00"
definition IREE_UK_FLAG_PACK_TYPE_F32F32 :: u32 where "IREE_UK_FLAG_PACK_TYPE_F32F32 = 0x01"
definition IREE_UK_FLAG_PACK_TYPE_I8I8 :: u32 where "IREE_UK_FLAG_PACK_TYPE_I8I8 = 0x02"
definition IREE_UK_FLAG_PACK_TYPE_I32I32 :: u32 where "IREE_UK_FLAG_PACK_TYPE_I32I32 = 0x03"
definition IREE_UK_FLAG_PACK_TYPE_F16F16 :: u32 where "IREE_UK_FLAG_PACK_TYPE_F16F16 = 0x04"
definition IREE_UK_FLAG_PACK_TYPE_BF16BF16 :: u32 where "IREE_UK_FLAG_PACK_TYPE_BF16BF16 = 0x05"
definition IREE_UK_FLAG_PACK_TRANSPOSE_INNER :: u32 where "IREE_UK_FLAG_PACK_TRANSPOSE_INNER = 0x100"
definition IREE_UK_FLAG_PACK_TRANSPOSE_OUTER :: u32 where "IREE_UK_FLAG_PACK_TRANSPOSE_OUTER = 0x200"

definition IREE_UK_FLAG_UNPACK_TYPE_MASK :: u32 where "IREE_UK_FLAG_UNPACK_TYPE_MASK = 0xFF"
definition IREE_UK_FLAG_UNPACK_TYPE_NONE :: u32 where "IREE_UK_FLAG_UNPACK_TYPE_NONE = 0x00"
definition IREE_UK_FLAG_UNPACK_TYPE_F32F32 :: u32 where "IREE_UK_FLAG_UNPACK_TYPE_F32F32 = 0x01"
definition IREE_UK_FLAG_UNPACK_TYPE_I32I32 :: u32 where "IREE_UK_FLAG_UNPACK_TYPE_I32I32 = 0x03"
definition IREE_UK_FLAG_UNPACK_TYPE_F16F16 :: u32 where "IREE_UK_FLAG_UNPACK_TYPE_F16F16 = 0x04"
definition IREE_UK_FLAG_UNPACK_TYPE_BF16BF16 :: u32 where "IREE_UK_FLAG_UNPACK_TYPE_BF16BF16 = 0x05"
definition IREE_UK_FLAG_UNPACK_TRANSPOSE_INNER :: u32 where "IREE_UK_FLAG_UNPACK_TRANSPOSE_INNER = 0x100"
definition IREE_UK_FLAG_UNPACK_TRANSPOSE_OUTER :: u32 where "IREE_UK_FLAG_UNPACK_TRANSPOSE_OUTER = 0x200"

definition IREE_UK_FLAG_QUERY_TILE_SIZES_OPERAND_ROLE_MASK :: u32 where
  "IREE_UK_FLAG_QUERY_TILE_SIZES_OPERAND_ROLE_MASK = 0xFF"
definition IREE_UK_FLAG_QUERY_TILE_SIZES_OPERAND_ROLE_NONE :: u32 where
  "IREE_UK_FLAG_QUERY_TILE_SIZES_OPERAND_ROLE_NONE = 0x00"
definition IREE_UK_FLAG_QUERY_TILE_SIZES_OPERAND_ROLE_LHS :: u32 where
  "IREE_UK_FLAG_QUERY_TILE_SIZES_OPERAND_ROLE_LHS = 0x01"
definition IREE_UK_FLAG_QUERY_TILE_SIZES_OPERAND_ROLE_RHS :: u32 where
  "IREE_UK_FLAG_QUERY_TILE_SIZES_OPERAND_ROLE_RHS = 0x02"
definition IREE_UK_FLAG_QUERY_TILE_SIZES_OPERAND_ROLE_RESULT :: u32 where
  "IREE_UK_FLAG_QUERY_TILE_SIZES_OPERAND_ROLE_RESULT = 0x03"
definition IREE_UK_FLAG_QUERY_TILE_SIZES_OPERATION_MASK :: u32 where "IREE_UK_FLAG_QUERY_TILE_SIZES_OPERATION_MASK = 0xFF00"
definition IREE_UK_FLAG_QUERY_TILE_SIZES_OPERATION_NONE :: u32 where "IREE_UK_FLAG_QUERY_TILE_SIZES_OPERATION_NONE = 0x0000"
definition IREE_UK_FLAG_QUERY_TILE_SIZES_OPERATION_MATMUL_F32F32F32 :: u32 where
  "IREE_UK_FLAG_QUERY_TILE_SIZES_OPERATION_MATMUL_F32F32F32 = 0x0100"
definition IREE_UK_FLAG_QUERY_TILE_SIZES_OPERATION_MATMUL_I8I8I32 :: u32 where
  "IREE_UK_FLAG_QUERY_TILE_SIZES_OPERATION_MATMUL_I8I8I32 = 0x0200"
definition IREE_UK_FLAG_QUERY_TILE_SIZES_OPERATION_MATMUL_F16F16F32 :: u32 where
  "IREE_UK_FLAG_QUERY_TILE_SIZES_OPERATION_MATMUL_F16F16F32 = 0x0300"
definition IREE_UK_FLAG_QUERY_TILE_SIZES_OPERATION_MATMUL_F16F16F16 :: u32 where
  "IREE_UK_FLAG_QUERY_TILE_SIZES_OPERATION_MATMUL_F16F16F16 = 0x0400"
definition IREE_UK_FLAG_QUERY_TILE_SIZES_OPERATION_MATMUL_BF16BF16F32 :: u32 where
  "IREE_UK_FLAG_QUERY_TILE_SIZES_OPERATION_MATMUL_BF16BF16F32 = 0x0500"
definition IREE_UK_FLAG_QUERY_TILE_SIZES_OPERATION_MATMUL_BF16BF16BF16 :: u32 where
  "IREE_UK_FLAG_QUERY_TILE_SIZES_OPERATION_MATMUL_BF16BF16BF16 = 0x0600"

lemmas flag_defs =
  IREE_UK_FLAG_MMT4D_TYPE_MASK_def IREE_UK_FLAG_MMT4D_TYPE_NONE_def IREE_UK_FLAG_MMT4D_TYPE_F32F32F32_def
  IREE_UK_FLAG_MMT4D_TYPE_S8S8S32_def IREE_UK_FLAG_MMT4D_TYPE_F16F16F32_def IREE_UK_FLAG_MMT4D_TYPE_F16F16F16_def
  IREE_UK_FLAG_MMT4D_TYPE_BF16BF16F32_def IREE_UK_FLAG_MMT4D_TYPE_BF16BF16BF16_def
  IREE_UK_FLAG_MMT4D_TYPE_S16S16S32_def IREE_UK_FLAG_MMT4D_TYPE_S16U4S32_def IREE_UK_FLAG_MMT4D_TYPE_S16S8S32_def
  IREE_UK_FLAG_MMT4D_TYPE_S8S4S32_def IREE_UK_FLAG_MMT4D_TYPE_END_def IREE_UK_FLAG_MMT4D_ACCUMULATE_def
  IREE_UK_FLAG_MMT4D_ALLOW_GENERIC_FALLBACK_TILE_FUNCTION_def IREE_UK_FLAG_MMT4D_SKIP_INTERMEDIATE_ROUNDINGS_def
  IREE_UK_FLAG_MMT4D_INFO_HAVE_ARCHITECTURE_SPECIFIC_TILE_FUNCTION_def IREE_UK_FLAG_PACK_TYPE_MASK_def
  IREE_UK_FLAG_PACK_TYPE_NONE_def IREE_UK_FLAG_PACK_TYPE_F32F32_def IREE_UK_FLAG_PACK_TYPE_I8I8_def
  IREE_UK_FLAG_PACK_TYPE_I32I32_def IREE_UK_FLAG_PACK_TYPE_F16F16_def IREE_UK_FLAG_PACK_TYPE_BF16BF16_def
  IREE_UK_FLAG_PACK_TRANSPOSE_INNER_def IREE_UK_FLAG_PACK_TRANSPOSE_OUTER_def IREE_UK_FLAG_UNPACK_TYPE_MASK_def
  IREE_UK_FLAG_UNPACK_TYPE_NONE_def IREE_UK_FLAG_UNPACK_TYPE_F32F32_def IREE_UK_FLAG_UNPACK_TYPE_I32I32_def
  IREE_UK_FLAG_UNPACK_TYPE_F16F16_def IREE_UK_FLAG_UNPACK_TYPE_BF16BF16_def IREE_UK_FLAG_UNPACK_TRANSPOSE_INNER_def
  IREE_UK_FLAG_UNPACK_TRANSPOSE_OUTER_def IREE_UK_FLAG_QUERY_TILE_SIZES_OPERAND_ROLE_MASK_def
  IREE_UK_FLAG_QUERY_TILE_SIZES_OPERAND_ROLE_NONE_def IREE_UK_FLAG_QUERY_TILE_SIZES_OPERAND_ROLE_LHS_def
  IREE_UK_FLAG_QUERY_TILE_SIZES_OPERAND_ROLE_RHS_def IREE_UK_FLAG_QUERY_TILE_SIZES_OPERAND_ROLE_RESULT_def
  IREE_UK_FLAG_QUERY_TILE_SIZES_OPERATION_MASK_def IREE_UK_FLAG_QUERY_TILE_SIZES_OPERATION_NONE_def
  IREE_UK_FLAG_QUERY_TILE_SIZES_OPERATION_MATMUL_F32F32F32_def
  IREE_UK_FLAG_QUERY_TILE_SIZES_OPERATION_MATMUL_I8I8I32_def
  IREE_UK_FLAG_QUERY_TILE_SIZES_OPERATION_MATMUL_F16F16F32_def
  IREE_UK_FLAG_QUERY_TILE_SIZES_OPERATION_MATMUL_F16F16F16_def
  IREE_UK_FLAG_QUERY_TILE_SIZES_OPERATION_MATMUL_BF16BF16F32_def
  IREE_UK_FLAG_QUERY_TILE_SIZES_OPERATION_MATMUL_BF16BF16BF16_def

section \<open>Tuples of named types\<close>

definition IREE_UK_TYPE :: "string \<Rightarrow> iree_uk_type_t" where
  "IREE_UK_TYPE name = the (map_of iree_uk_types name)"

text \<open>The literals are unsigned, so the arithmetic of the macros is that of 32-bit words.\<close>

definition IREE_UK_TIE_2_TYPES_LITERAL :: "string \<Rightarrow> string \<Rightarrow> u32" where
  "IREE_UK_TIE_2_TYPES_LITERAL T0 T1 = ucast (IREE_UK_TYPE T0) + push_bit 8 (ucast (IREE_UK_TYPE T1))"

definition IREE_UK_TIE_3_TYPES_LITERAL :: "string \<Rightarrow> string \<Rightarrow> string \<Rightarrow> u32" where
  "IREE_UK_TIE_3_TYPES_LITERAL T0 T1 T2 =
     ucast (IREE_UK_TYPE T0) + push_bit 8 (ucast (IREE_UK_TYPE T1)) + push_bit 16 (ucast (IREE_UK_TYPE T2))"

section \<open>mmt4d\<close>

definition iree_uk_mmt4d_type_f32f32f32 :: u32 where
  "iree_uk_mmt4d_type_f32f32f32 = IREE_UK_TIE_3_TYPES_LITERAL ''FLOAT_32'' ''FLOAT_32'' ''FLOAT_32''"

definition iree_uk_mmt4d_type_s8s8s32 :: u32 where
  "iree_uk_mmt4d_type_s8s8s32 = IREE_UK_TIE_3_TYPES_LITERAL ''SINT_8'' ''SINT_8'' ''SINT_32''"

definition iree_uk_mmt4d_type_s8s4s32 :: u32 where
  "iree_uk_mmt4d_type_s8s4s32 = IREE_UK_TIE_3_TYPES_LITERAL ''SINT_8'' ''SINT_4'' ''SINT_32''"

definition iree_uk_mmt4d_type_s16s16s32 :: u32 where
  "iree_uk_mmt4d_type_s16s16s32 = IREE_UK_TIE_3_TYPES_LITERAL ''SINT_16'' ''SINT_16'' ''SINT_32''"

definition iree_uk_mmt4d_type_s16u4s32 :: u32 where
  "iree_uk_mmt4d_type_s16u4s32 = IREE_UK_TIE_3_TYPES_LITERAL ''SINT_16'' ''UINT_4'' ''SINT_32''"

definition iree_uk_mmt4d_type_s16s8s32 :: u32 where
  "iree_uk_mmt4d_type_s16s8s32 = IREE_UK_TIE_3_TYPES_LITERAL ''SINT_16'' ''SINT_8'' ''SINT_32''"

definition iree_uk_mmt4d_type_f16f16f32 :: u32 where
  "iree_uk_mmt4d_type_f16f16f32 = IREE_UK_TIE_3_TYPES_LITERAL ''FLOAT_16'' ''FLOAT_16'' ''FLOAT_32''"

definition iree_uk_mmt4d_type_f16f16f16 :: u32 where
  "iree_uk_mmt4d_type_f16f16f16 = IREE_UK_TIE_3_TYPES_LITERAL ''FLOAT_16'' ''FLOAT_16'' ''FLOAT_16''"

definition iree_uk_mmt4d_type_bf16bf16f32 :: u32 where
  "iree_uk_mmt4d_type_bf16bf16f32 = IREE_UK_TIE_3_TYPES_LITERAL ''BFLOAT_16'' ''BFLOAT_16'' ''FLOAT_32''"

definition iree_uk_mmt4d_type_bf16bf16bf16 :: u32 where
  "iree_uk_mmt4d_type_bf16bf16bf16 = IREE_UK_TIE_3_TYPES_LITERAL ''BFLOAT_16'' ''BFLOAT_16'' ''BFLOAT_16''"

definition iree_uk_mmt4d_type :: "u32 \<Rightarrow> u32" where
  "iree_uk_mmt4d_type flags =
     (let selector = flags AND IREE_UK_FLAG_MMT4D_TYPE_MASK in
      if selector = IREE_UK_FLAG_MMT4D_TYPE_F32F32F32 then iree_uk_mmt4d_type_f32f32f32
      else if selector = IREE_UK_FLAG_MMT4D_TYPE_S8S8S32 then iree_uk_mmt4d_type_s8s8s32
      else if selector = IREE_UK_FLAG_MMT4D_TYPE_S8S4S32 then iree_uk_mmt4d_type_s8s4s32
      else if selector = IREE_UK_FLAG_MMT4D_TYPE_S16S16S32 then iree_uk_mmt4d_type_s16s16s32
      else if selector = IREE_UK_FLAG_MMT4D_TYPE_S16U4S32 then iree_uk_mmt4d_type_s16u4s32
      else if selector = IREE_UK_FLAG_MMT4D_TYPE_S16S8S32 then iree_uk_mmt4d_type_s16s8s32
      else if selector = IREE_UK_FLAG_MMT4D_TYPE_F16F16F32 then iree_uk_mmt4d_type_f16f16f32
      else if selector = IREE_UK_FLAG_MMT4D_TYPE_F16F16F16 then iree_uk_mmt4d_type_f16f16f16
      else if selector = IREE_UK_FLAG_MMT4D_TYPE_BF16BF16F32 then iree_uk_mmt4d_type_bf16bf16f32
      else if selector = IREE_UK_FLAG_MMT4D_TYPE_BF16BF16BF16 then iree_uk_mmt4d_type_bf16bf16bf16
      else 0)"

definition iree_uk_mmt4d_lhs_type :: "u32 \<Rightarrow> iree_uk_type_t res" where
  "iree_uk_mmt4d_lhs_type type = iree_uk_untie_type 0 type"

definition iree_uk_mmt4d_rhs_type :: "u32 \<Rightarrow> iree_uk_type_t res" where
  "iree_uk_mmt4d_rhs_type type = iree_uk_untie_type 1 type"

definition iree_uk_mmt4d_out_type :: "u32 \<Rightarrow> iree_uk_type_t res" where
  "iree_uk_mmt4d_out_type type = iree_uk_untie_type 2 type"

section \<open>pack and unpack\<close>

definition iree_uk_pack_type_f32f32 :: u32 where
  "iree_uk_pack_type_f32f32 = IREE_UK_TIE_2_TYPES_LITERAL ''FLOAT_32'' ''FLOAT_32''"

definition iree_uk_pack_type_i8i8 :: u32 where
  "iree_uk_pack_type_i8i8 = IREE_UK_TIE_2_TYPES_LITERAL ''INT_8'' ''INT_8''"

definition iree_uk_pack_type_i32i32 :: u32 where
  "iree_uk_pack_type_i32i32 = IREE_UK_TIE_2_TYPES_LITERAL ''INT_32'' ''INT_32''"

definition iree_uk_pack_type_f16f16 :: u32 where
  "iree_uk_pack_type_f16f16 = IREE_UK_TIE_2_TYPES_LITERAL ''FLOAT_16'' ''FLOAT_16''"

definition iree_uk_pack_type_bf16bf16 :: u32 where
  "iree_uk_pack_type_bf16bf16 = IREE_UK_TIE_2_TYPES_LITERAL ''BFLOAT_16'' ''BFLOAT_16''"

definition iree_uk_pack_type :: "u32 \<Rightarrow> u32" where
  "iree_uk_pack_type flags =
     (let selector = flags AND IREE_UK_FLAG_PACK_TYPE_MASK in
      if selector = IREE_UK_FLAG_PACK_TYPE_F32F32 then iree_uk_pack_type_f32f32
      else if selector = IREE_UK_FLAG_PACK_TYPE_I8I8 then iree_uk_pack_type_i8i8
      else if selector = IREE_UK_FLAG_PACK_TYPE_I32I32 then iree_uk_pack_type_i32i32
      else if selector = IREE_UK_FLAG_PACK_TYPE_F16F16 then iree_uk_pack_type_f16f16
      else if selector = IREE_UK_FLAG_PACK_TYPE_BF16BF16 then iree_uk_pack_type_bf16bf16
      else 0)"

definition iree_uk_pack_in_type :: "u32 \<Rightarrow> iree_uk_type_t res" where
  "iree_uk_pack_in_type type = iree_uk_untie_type 0 type"

definition iree_uk_pack_out_type :: "u32 \<Rightarrow> iree_uk_type_t res" where
  "iree_uk_pack_out_type type = iree_uk_untie_type 1 type"

definition iree_uk_unpack_type_f32f32 :: u32 where
  "iree_uk_unpack_type_f32f32 = IREE_UK_TIE_2_TYPES_LITERAL ''FLOAT_32'' ''FLOAT_32''"

definition iree_uk_unpack_type_i32i32 :: u32 where
  "iree_uk_unpack_type_i32i32 = IREE_UK_TIE_2_TYPES_LITERAL ''INT_32'' ''INT_32''"

definition iree_uk_unpack_type_f16f16 :: u32 where
  "iree_uk_unpack_type_f16f16 = IREE_UK_TIE_2_TYPES_LITERAL ''FLOAT_16'' ''FLOAT_16''"

definition iree_uk_unpack_type_bf16bf16 :: u32 where
  "iree_uk_unpack_type_bf16bf16 = IREE_UK_TIE_2_TYPES_LITERAL ''BFLOAT_16'' ''BFLOAT_16''"

definition iree_uk_unpack_type :: "u32 \<Rightarrow> u32" where
  "iree_uk_unpack_type flags =
     (let selector = flags AND IREE_UK_FLAG_UNPACK_TYPE_MASK in
      if selector = IREE_UK_FLAG_UNPACK_TYPE_F32F32 then iree_uk_unpack_type_f32f32
      else if selector = IREE_UK_FLAG_UNPACK_TYPE_I32I32 then iree_uk_unpack_type_i32i32
      else if selector = IREE_UK_FLAG_UNPACK_TYPE_F16F16 then iree_uk_unpack_type_f16f16
      else if selector = IREE_UK_FLAG_UNPACK_TYPE_BF16BF16 then iree_uk_unpack_type_bf16bf16
      else 0)"

definition iree_uk_unpack_in_type :: "u32 \<Rightarrow> iree_uk_type_t res" where
  "iree_uk_unpack_in_type type = iree_uk_untie_type 0 type"

definition iree_uk_unpack_out_type :: "u32 \<Rightarrow> iree_uk_type_t res" where
  "iree_uk_unpack_out_type type = iree_uk_untie_type 1 type"

section \<open>query_tile_sizes\<close>

definition iree_uk_query_tile_sizes_operand_role :: "u32 \<Rightarrow> u32" where
  "iree_uk_query_tile_sizes_operand_role flags = flags AND IREE_UK_FLAG_QUERY_TILE_SIZES_OPERAND_ROLE_MASK"

definition iree_uk_query_tile_sizes_operation :: "u32 \<Rightarrow> u32" where
  "iree_uk_query_tile_sizes_operation flags = flags AND IREE_UK_FLAG_QUERY_TILE_SIZES_OPERATION_MASK"

section \<open>What the flags select\<close>

text \<open>The types that the name of each flag announces, in the order of the operands.\<close>

definition mmt4d_signatures :: "(u32 \<times> string \<times> string \<times> string) list" where
  "mmt4d_signatures =
     [(IREE_UK_FLAG_MMT4D_TYPE_F32F32F32, ''FLOAT_32'', ''FLOAT_32'', ''FLOAT_32''),
      (IREE_UK_FLAG_MMT4D_TYPE_S8S8S32, ''SINT_8'', ''SINT_8'', ''SINT_32''),
      (IREE_UK_FLAG_MMT4D_TYPE_S8S4S32, ''SINT_8'', ''SINT_4'', ''SINT_32''),
      (IREE_UK_FLAG_MMT4D_TYPE_S16S16S32, ''SINT_16'', ''SINT_16'', ''SINT_32''),
      (IREE_UK_FLAG_MMT4D_TYPE_S16U4S32, ''SINT_16'', ''UINT_4'', ''SINT_32''),
      (IREE_UK_FLAG_MMT4D_TYPE_S16S8S32, ''SINT_16'', ''SINT_8'', ''SINT_32''),
      (IREE_UK_FLAG_MMT4D_TYPE_F16F16F32, ''FLOAT_16'', ''FLOAT_16'', ''FLOAT_32''),
      (IREE_UK_FLAG_MMT4D_TYPE_F16F16F16, ''FLOAT_16'', ''FLOAT_16'', ''FLOAT_16''),
      (IREE_UK_FLAG_MMT4D_TYPE_BF16BF16F32, ''BFLOAT_16'', ''BFLOAT_16'', ''FLOAT_32''),
      (IREE_UK_FLAG_MMT4D_TYPE_BF16BF16BF16, ''BFLOAT_16'', ''BFLOAT_16'', ''BFLOAT_16'')]"

definition pack_signatures :: "(u32 \<times> string) list" where
  "pack_signatures =
     [(IREE_UK_FLAG_PACK_TYPE_F32F32, ''FLOAT_32''),
      (IREE_UK_FLAG_PACK_TYPE_I8I8, ''INT_8''),
      (IREE_UK_FLAG_PACK_TYPE_I32I32, ''INT_32''),
      (IREE_UK_FLAG_PACK_TYPE_F16F16, ''FLOAT_16''),
      (IREE_UK_FLAG_PACK_TYPE_BF16BF16, ''BFLOAT_16'')]"

lemma literals_are_tied:
  "IREE_UK_TIE_2_TYPES_LITERAL T0 T1 = iree_uk_tie_2_types (IREE_UK_TYPE T0) (IREE_UK_TYPE T1)"
  "IREE_UK_TIE_3_TYPES_LITERAL T0 T1 T2 = iree_uk_tie_3_types (IREE_UK_TYPE T0) (IREE_UK_TYPE T1) (IREE_UK_TYPE T2)"
  by (simp_all add: IREE_UK_TIE_2_TYPES_LITERAL_def IREE_UK_TIE_3_TYPES_LITERAL_def iree_uk_tie_2_types_def
      iree_uk_tie_3_types_def IREE_UK_TIE_2_TYPES_def IREE_UK_TIE_3_TYPES_def push_bit_eq_mult)

lemmas mmt4d_enum =
  iree_uk_mmt4d_type_f32f32f32_def iree_uk_mmt4d_type_s8s8s32_def iree_uk_mmt4d_type_s8s4s32_def
  iree_uk_mmt4d_type_s16s16s32_def iree_uk_mmt4d_type_s16u4s32_def iree_uk_mmt4d_type_s16s8s32_def
  iree_uk_mmt4d_type_f16f16f32_def iree_uk_mmt4d_type_f16f16f16_def iree_uk_mmt4d_type_bf16bf16f32_def
  iree_uk_mmt4d_type_bf16bf16bf16_def

lemmas pack_enum =
  iree_uk_pack_type_f32f32_def iree_uk_pack_type_i8i8_def iree_uk_pack_type_i32i32_def iree_uk_pack_type_f16f16_def
  iree_uk_pack_type_bf16bf16_def iree_uk_unpack_type_f32f32_def iree_uk_unpack_type_i32i32_def
  iree_uk_unpack_type_f16f16_def iree_uk_unpack_type_bf16bf16_def

lemma mmt4d_type_selects:
  "iree_uk_mmt4d_type flags =
     (case map_of mmt4d_signatures (flags AND IREE_UK_FLAG_MMT4D_TYPE_MASK) of
        None \<Rightarrow> 0
      | Some (T0, T1, T2) \<Rightarrow> iree_uk_tie_3_types (IREE_UK_TYPE T0) (IREE_UK_TYPE T1) (IREE_UK_TYPE T2))"
  by (simp add: iree_uk_mmt4d_type_def mmt4d_signatures_def flag_defs mmt4d_enum literals_are_tied Let_def)

lemma pack_type_selects:
  "iree_uk_pack_type flags =
     (case map_of pack_signatures (flags AND IREE_UK_FLAG_PACK_TYPE_MASK) of
        None \<Rightarrow> 0
      | Some T \<Rightarrow> iree_uk_tie_2_types (IREE_UK_TYPE T) (IREE_UK_TYPE T))"
  by (simp add: iree_uk_pack_type_def pack_signatures_def flag_defs pack_enum literals_are_tied Let_def)

lemma unpack_type_is_pack_type:
  "iree_uk_unpack_type flags =
     (if flags AND IREE_UK_FLAG_PACK_TYPE_MASK = IREE_UK_FLAG_PACK_TYPE_I8I8 then 0 else iree_uk_pack_type flags)"
  by (simp add: iree_uk_unpack_type_def iree_uk_pack_type_def flag_defs pack_enum Let_def)

lemma signature_is_int_8:
  "map_of pack_signatures selector = Some T \<Longrightarrow> T = ''INT_8'' \<longleftrightarrow> selector = IREE_UK_FLAG_PACK_TYPE_I8I8"
  by (auto simp: pack_signatures_def flag_defs split: if_splits)

lemma role_and_operation:
  "iree_uk_query_tile_sizes_operand_role flags OR iree_uk_query_tile_sizes_operation flags = flags AND 0xFFFF"
  "iree_uk_query_tile_sizes_operand_role flags AND iree_uk_query_tile_sizes_operation flags = 0"
proof -
  have "(0xFF OR 0xFF00 :: u32) = 0xFFFF" by simp
  then show "iree_uk_query_tile_sizes_operand_role flags OR iree_uk_query_tile_sizes_operation flags = flags AND 0xFFFF"
    unfolding iree_uk_query_tile_sizes_operand_role_def iree_uk_query_tile_sizes_operation_def flag_defs
    by (metis bit.conj_disj_distrib)
  have "(flags AND 0xFF) AND (flags AND 0xFF00) = flags AND (0xFF AND 0xFF00)"
    by (simp only: ac_simps and.left_idem)
  then show "iree_uk_query_tile_sizes_operand_role flags AND iree_uk_query_tile_sizes_operation flags = 0"
    unfolding iree_uk_query_tile_sizes_operand_role_def iree_uk_query_tile_sizes_operation_def flag_defs
    by simp
qed

text \<open>
  The flags of a microkernel select the types of its operands that their names announce, and no type if they
  name none; \<open>unpack\<close> reads the flags of \<open>pack\<close> alike, except that it does not know bytes; and the two fields of the
  flags of \<open>query_tile_sizes\<close> are separate and make up their lower half.
\<close>
theorem flags_select_types:
  "(case map_of mmt4d_signatures (flags AND IREE_UK_FLAG_MMT4D_TYPE_MASK) of
      None \<Rightarrow> iree_uk_mmt4d_type flags = 0
    | Some (T0, T1, T2) \<Rightarrow>
        iree_uk_mmt4d_lhs_type (iree_uk_mmt4d_type flags) = Inr (IREE_UK_TYPE T0) \<and>
        iree_uk_mmt4d_rhs_type (iree_uk_mmt4d_type flags) = Inr (IREE_UK_TYPE T1) \<and>
        iree_uk_mmt4d_out_type (iree_uk_mmt4d_type flags) = Inr (IREE_UK_TYPE T2)) \<and>
   (case map_of pack_signatures (flags AND IREE_UK_FLAG_PACK_TYPE_MASK) of
      None \<Rightarrow> iree_uk_pack_type flags = 0 \<and> iree_uk_unpack_type flags = 0
    | Some T \<Rightarrow>
        iree_uk_pack_in_type (iree_uk_pack_type flags) = Inr (IREE_UK_TYPE T) \<and>
        iree_uk_pack_out_type (iree_uk_pack_type flags) = Inr (IREE_UK_TYPE T) \<and>
        iree_uk_unpack_type flags = (if T = ''INT_8'' then 0 else iree_uk_pack_type flags)) \<and>
   iree_uk_query_tile_sizes_operand_role flags AND iree_uk_query_tile_sizes_operation flags = 0 \<and>
   iree_uk_query_tile_sizes_operand_role flags OR iree_uk_query_tile_sizes_operation flags = flags AND 0xFFFF"
proof -
  have "(case map_of mmt4d_signatures (flags AND IREE_UK_FLAG_MMT4D_TYPE_MASK) of
      None \<Rightarrow> iree_uk_mmt4d_type flags = 0
    | Some (T0, T1, T2) \<Rightarrow>
        iree_uk_mmt4d_lhs_type (iree_uk_mmt4d_type flags) = Inr (IREE_UK_TYPE T0) \<and>
        iree_uk_mmt4d_rhs_type (iree_uk_mmt4d_type flags) = Inr (IREE_UK_TYPE T1) \<and>
        iree_uk_mmt4d_out_type (iree_uk_mmt4d_type flags) = Inr (IREE_UK_TYPE T2))"
    unfolding mmt4d_type_selects iree_uk_mmt4d_lhs_type_def iree_uk_mmt4d_rhs_type_def iree_uk_mmt4d_out_type_def
    by (simp add: untie_tied split: option.split)
  moreover have "(case map_of pack_signatures (flags AND IREE_UK_FLAG_PACK_TYPE_MASK) of
      None \<Rightarrow> iree_uk_pack_type flags = 0 \<and> iree_uk_unpack_type flags = 0
    | Some T \<Rightarrow>
        iree_uk_pack_in_type (iree_uk_pack_type flags) = Inr (IREE_UK_TYPE T) \<and>
        iree_uk_pack_out_type (iree_uk_pack_type flags) = Inr (IREE_UK_TYPE T) \<and>
        iree_uk_unpack_type flags = (if T = ''INT_8'' then 0 else iree_uk_pack_type flags))"
  proof (cases "map_of pack_signatures (flags AND IREE_UK_FLAG_PACK_TYPE_MASK)")
    case None
    then have "iree_uk_pack_type flags = 0" by (simp add: pack_type_selects)
    then show ?thesis using None by (simp only: option.case unpack_type_is_pack_type) simp
  next
    case (Some T)
    then have "iree_uk_pack_type flags = iree_uk_tie_2_types (IREE_UK_TYPE T) (IREE_UK_TYPE T)"
      by (simp add: pack_type_selects)
    then show ?thesis
      by (simp only: Some option.case iree_uk_pack_in_type_def iree_uk_pack_out_type_def untie_tied
          unpack_type_is_pack_type signature_is_int_8 [OF Some])
  qed
  ultimately show ?thesis using role_and_operation by blast
qed

end
