(* ===== verification/Base_Time.thy ===== *)
theory Base_Time
  imports Nx_Prelude
begin

text \<open>
  \<open>base/time.h\<close>: absolute and relative timeouts in nanoseconds. Times and durations are signed 64-bit integers; the only
  arithmetic on them is one multiplication, whose overflow is undefined. The conversion of a duration to a deadline, which
  reads the clock, is a function of the library: \<open>to_deadline\<close>, over the state of the world.
\<close>

section \<open>Times and durations\<close>

type_synonym iree_time_t = int
type_synonym iree_duration_t = int

definition IREE_TIME_INFINITE_PAST :: iree_time_t where "IREE_TIME_INFINITE_PAST = - (2 ^ 63)"
definition IREE_TIME_INFINITE_FUTURE :: iree_time_t where "IREE_TIME_INFINITE_FUTURE = 2 ^ 63 - 1"
definition IREE_DURATION_ZERO :: iree_duration_t where "IREE_DURATION_ZERO = 0"
definition IREE_DURATION_INFINITE :: iree_duration_t where "IREE_DURATION_INFINITE = 2 ^ 63 - 1"

definition is_int64 :: "int \<Rightarrow> bool" where
  "is_int64 n \<longleftrightarrow> - (2 ^ 63) \<le> n \<and> n < 2 ^ 63"

datatype iree_timeout_type_t = IREE_TIMEOUT_ABSOLUTE | IREE_TIMEOUT_RELATIVE

record iree_timeout_t =
  timeout_type :: iree_timeout_type_t
  nanos :: int

section \<open>Making and testing timeouts\<close>

definition iree_immediate_timeout :: iree_timeout_t where
  "iree_immediate_timeout = \<lparr>timeout_type = IREE_TIMEOUT_ABSOLUTE, nanos = IREE_TIME_INFINITE_PAST\<rparr>"

definition iree_timeout_is_immediate :: "iree_timeout_t \<Rightarrow> bool" where
  "iree_timeout_is_immediate t =
     (if timeout_type t = IREE_TIMEOUT_ABSOLUTE then nanos t = IREE_TIME_INFINITE_PAST else nanos t = IREE_DURATION_ZERO)"

definition iree_infinite_timeout :: iree_timeout_t where
  "iree_infinite_timeout = \<lparr>timeout_type = IREE_TIMEOUT_ABSOLUTE, nanos = IREE_TIME_INFINITE_FUTURE\<rparr>"

definition iree_timeout_is_infinite :: "iree_timeout_t \<Rightarrow> bool" where
  "iree_timeout_is_infinite t =
     (if timeout_type t = IREE_TIMEOUT_ABSOLUTE then nanos t = IREE_TIME_INFINITE_FUTURE
      else nanos t = IREE_DURATION_INFINITE)"

definition iree_make_deadline :: "iree_time_t \<Rightarrow> iree_timeout_t" where
  "iree_make_deadline deadline_ns = \<lparr>timeout_type = IREE_TIMEOUT_ABSOLUTE, nanos = deadline_ns\<rparr>"

definition iree_make_timeout_ns :: "iree_duration_t \<Rightarrow> iree_timeout_t" where
  "iree_make_timeout_ns timeout_ns = \<lparr>timeout_type = IREE_TIMEOUT_RELATIVE, nanos = timeout_ns\<rparr>"

definition iree_make_timeout_ms :: "iree_duration_t \<Rightarrow> iree_timeout_t res" where
  "iree_make_timeout_ms timeout_ms =
     bind_res
       (if timeout_ms = IREE_DURATION_INFINITE then Inr IREE_DURATION_INFINITE
        else if is_int64 (timeout_ms * 1000000) then Inr (timeout_ms * 1000000)
        else Inl SignedOverflow)
       (\<lambda>ns. Inr \<lparr>timeout_type = IREE_TIMEOUT_RELATIVE, nanos = ns\<rparr>)"

section \<open>Deadlines\<close>

definition iree_convert_timeout_to_absolute ::
  "(iree_duration_t \<Rightarrow> ('w, iree_time_t) sm) \<Rightarrow> iree_timeout_t \<Rightarrow> ('w, iree_timeout_t) sm" where
  "iree_convert_timeout_to_absolute to_deadline timeout =
     (if timeout_type timeout = IREE_TIMEOUT_RELATIVE then
        bind_sm (to_deadline (nanos timeout)) (\<lambda>ns.
        ret_sm (timeout\<lparr>timeout_type := IREE_TIMEOUT_ABSOLUTE, nanos := ns\<rparr>))
      else ret_sm timeout)"

definition iree_timeout_as_deadline_ns ::
  "(iree_duration_t \<Rightarrow> ('w, iree_time_t) sm) \<Rightarrow> iree_timeout_t \<Rightarrow> ('w, iree_time_t) sm" where
  "iree_timeout_as_deadline_ns to_deadline timeout =
     (if timeout_type timeout = IREE_TIMEOUT_ABSOLUTE then ret_sm (nanos timeout) else to_deadline (nanos timeout))"

definition iree_timeout_min ::
  "(iree_duration_t \<Rightarrow> ('w, iree_time_t) sm) \<Rightarrow> iree_timeout_t \<Rightarrow> iree_timeout_t \<Rightarrow> ('w, iree_timeout_t) sm" where
  "iree_timeout_min to_deadline lhs rhs =
     bind_sm (iree_convert_timeout_to_absolute to_deadline lhs) (\<lambda>lhs.
     bind_sm (iree_convert_timeout_to_absolute to_deadline rhs) (\<lambda>rhs.
     ret_sm (iree_make_deadline (if nanos lhs < nanos rhs then nanos lhs else nanos rhs))))"

section \<open>Lemmas\<close>

lemmas timeout_defs = iree_immediate_timeout_def iree_infinite_timeout_def iree_make_deadline_def
  iree_make_timeout_ns_def iree_timeout_is_immediate_def iree_timeout_is_infinite_def
  IREE_TIME_INFINITE_PAST_def IREE_TIME_INFINITE_FUTURE_def IREE_DURATION_ZERO_def IREE_DURATION_INFINITE_def

text \<open>
  What \<open>time.h\<close> documents of the conversion: its special cases, which do not look at the clock, and that its result
  is a time.
\<close>

definition converts_deadlines :: "(iree_duration_t \<Rightarrow> ('w, iree_time_t) sm) \<Rightarrow> bool" where
  "converts_deadlines to_deadline \<longleftrightarrow>
     (\<forall>w. to_deadline IREE_DURATION_ZERO w = Inr (IREE_TIME_INFINITE_PAST, w)) \<and>
     (\<forall>w. to_deadline IREE_DURATION_INFINITE w = Inr (IREE_TIME_INFINITE_FUTURE, w)) \<and>
     (\<forall>d w. \<exists>t w'. to_deadline d w = Inr (t, w') \<and> is_int64 t)"

lemma convert_is_deadline:
  "iree_convert_timeout_to_absolute to_deadline t =
     bind_sm (iree_timeout_as_deadline_ns to_deadline t) (\<lambda>ns. ret_sm (iree_make_deadline ns))"
proof
  fix w
  show "iree_convert_timeout_to_absolute to_deadline t w =
     bind_sm (iree_timeout_as_deadline_ns to_deadline t) (\<lambda>ns. ret_sm (iree_make_deadline ns)) w"
    by (cases t; cases "timeout_type t")
      (simp_all add: iree_convert_timeout_to_absolute_def iree_timeout_as_deadline_ns_def iree_make_deadline_def)
qed

lemma timeout_min_deadlines:
  "iree_timeout_min to_deadline lhs rhs w =
     bind_sm (iree_timeout_as_deadline_ns to_deadline lhs) (\<lambda>a.
     bind_sm (iree_timeout_as_deadline_ns to_deadline rhs) (\<lambda>b.
     ret_sm (iree_make_deadline (min a b)))) w"
  by (simp add: iree_timeout_min_def convert_is_deadline iree_make_deadline_def min_def bind_sm_def
      split: sum.split prod.split)

lemma special_deadlines:
  assumes "converts_deadlines to_deadline"
  shows "iree_timeout_is_immediate t \<Longrightarrow> iree_timeout_as_deadline_ns to_deadline t w = Inr (IREE_TIME_INFINITE_PAST, w)"
    and "iree_timeout_is_infinite t \<Longrightarrow> iree_timeout_as_deadline_ns to_deadline t w = Inr (IREE_TIME_INFINITE_FUTURE, w)"
  using assms
  by (auto simp: converts_deadlines_def iree_timeout_as_deadline_ns_def iree_timeout_is_immediate_def
      iree_timeout_is_infinite_def split: if_splits)

lemma deadlines_are_times:
  assumes "converts_deadlines to_deadline" "is_int64 (nanos t)"
  shows "\<exists>ns w'. iree_timeout_as_deadline_ns to_deadline t w = Inr (ns, w') \<and> is_int64 ns"
  using assms by (cases "timeout_type t") (auto simp: converts_deadlines_def iree_timeout_as_deadline_ns_def)

section \<open>Properties\<close>

text \<open>
  The earliest of two timeouts is the deadline that comes first: an immediate timeout absorbs every other, in whatever
  order they are given, and an infinite one leaves the other, converted to a deadline.
\<close>
theorem timeout_min_is_earliest:
  assumes "converts_deadlines to_deadline" "is_int64 (nanos t)"
    and "iree_timeout_is_immediate now" "iree_timeout_is_infinite never"
  shows "(\<exists>w'. iree_timeout_min to_deadline now t w = Inr (iree_immediate_timeout, w') \<and>
        iree_timeout_min to_deadline t now w = Inr (iree_immediate_timeout, w')) \<and>
    iree_timeout_min to_deadline never t w = iree_convert_timeout_to_absolute to_deadline t w \<and>
    iree_timeout_min to_deadline t never w = iree_convert_timeout_to_absolute to_deadline t w"
proof -
  obtain ns w' where d: "iree_timeout_as_deadline_ns to_deadline t w = Inr (ns, w')" "is_int64 ns"
    using deadlines_are_times [OF assms(1,2)] by blast
  have "min ns IREE_TIME_INFINITE_PAST = IREE_TIME_INFINITE_PAST" "min IREE_TIME_INFINITE_PAST ns = IREE_TIME_INFINITE_PAST"
    "min ns IREE_TIME_INFINITE_FUTURE = ns" "min IREE_TIME_INFINITE_FUTURE ns = ns"
    using d(2) by (simp_all add: is_int64_def IREE_TIME_INFINITE_PAST_def IREE_TIME_INFINITE_FUTURE_def)
  then show ?thesis
    using d special_deadlines(1) [OF assms(1,3)] special_deadlines(2) [OF assms(1,4)]
    by (simp add: timeout_min_deadlines convert_is_deadline bind_sm_def iree_immediate_timeout_def iree_make_deadline_def)
qed

text \<open>A clock that advances at every reading.\<close>

definition sample_to_deadline :: "iree_duration_t \<Rightarrow> (int, iree_time_t) sm" where
  "sample_to_deadline d w =
     (if d = IREE_DURATION_ZERO then Inr (IREE_TIME_INFINITE_PAST, w)
      else if d = IREE_DURATION_INFINITE then Inr (IREE_TIME_INFINITE_FUTURE, w)
      else Inr (max (- (2 ^ 63)) (min (w + d) (2 ^ 63 - 1)), w + 1))"

lemma sample_converts_deadlines: "converts_deadlines sample_to_deadline"
  by (auto simp: converts_deadlines_def sample_to_deadline_def timeout_defs is_int64_def)

theorem timeout_min_is_earliest_witness:
  "(\<exists>w'. iree_timeout_min sample_to_deadline iree_immediate_timeout (iree_make_timeout_ns 5) 100 =
        Inr (iree_immediate_timeout, w') \<and>
      iree_timeout_min sample_to_deadline (iree_make_timeout_ns 5) iree_immediate_timeout 100 =
        Inr (iree_immediate_timeout, w')) \<and>
    iree_timeout_min sample_to_deadline iree_infinite_timeout (iree_make_timeout_ns 5) 100 =
      iree_convert_timeout_to_absolute sample_to_deadline (iree_make_timeout_ns 5) 100 \<and>
    iree_timeout_min sample_to_deadline (iree_make_timeout_ns 5) iree_infinite_timeout 100 =
      iree_convert_timeout_to_absolute sample_to_deadline (iree_make_timeout_ns 5) 100"
  by (rule timeout_min_is_earliest [OF sample_converts_deadlines]) (simp_all add: timeout_defs is_int64_def)

text \<open>
  A timeout in milliseconds is that many million nanoseconds, the infinite duration excepted, as long as the product
  is a 64-bit integer; beyond that the multiplication overflows, whatever the sign.
\<close>
theorem timeout_ms_bounds:
  "iree_make_timeout_ms ms =
     (if ms = IREE_DURATION_INFINITE then Inr (iree_make_timeout_ns IREE_DURATION_INFINITE)
      else if - 9223372036854 \<le> ms \<and> ms \<le> 9223372036854 then Inr (iree_make_timeout_ns (ms * 1000000))
      else Inl SignedOverflow)"
  by (auto simp: iree_make_timeout_ms_def iree_make_timeout_ns_def is_int64_def)

end
