(* ===== verification/Task_Affinity.thy ===== *)
theory Task_Affinity
  imports Iree_Math
begin

unbundle bit_operations_syntax

text \<open>
  \<open>task/affinity_set.h\<close>: the sets of workers a task may run on, as 64-bit masks. A shift by 64 bits or more, or by a negative
  count, is undefined. The atomic sets are one memory cell each, whose accesses are steps on its contents.
\<close>

section \<open>Sets of workers\<close>

type_synonym iree_task_affinity_set_t = u64

definition one_shl :: "int \<Rightarrow> u64 res" where
  "one_shl count = (if 0 \<le> count \<and> count < 64 then Inr (push_bit (nat count) 1) else Inl BadShift)"

definition iree_task_affinity_for_worker :: "u8 \<Rightarrow> iree_task_affinity_set_t res" where
  "iree_task_affinity_for_worker worker_index = one_shl (uint worker_index)"

definition iree_task_affinity_for_worker_range :: "u8 \<Rightarrow> u8 \<Rightarrow> iree_task_affinity_set_t res" where
  "iree_task_affinity_for_worker_range worker_start worker_end =
     bind_res (one_shl (uint worker_start - 1)) (\<lambda>a.
     bind_res (one_shl (uint worker_end)) (\<lambda>b.
     Inr ((a - 1) XOR (b - 1))))"

definition iree_task_affinity_for_any_worker :: iree_task_affinity_set_t where
  "iree_task_affinity_for_any_worker = 0xFFFFFFFFFFFFFFFF"

definition iree_task_affinity_set_ones :: "int \<Rightarrow> iree_task_affinity_set_t res" where
  "iree_task_affinity_set_ones count =
     (if 0 \<le> 64 - count \<and> 64 - count < 64 then Inr (drop_bit (nat (64 - count)) 0xFFFFFFFFFFFFFFFF) else Inl BadShift)"

definition iree_task_affinity_set_count_leading_zeros :: "iree_task_affinity_set_t \<Rightarrow> nat" where
  "iree_task_affinity_set_count_leading_zeros s = iree_math_count_leading_zeros_u64 s"

definition iree_task_affinity_set_count_trailing_zeros :: "iree_task_affinity_set_t \<Rightarrow> nat res" where
  "iree_task_affinity_set_count_trailing_zeros s = iree_math_count_trailing_zeros_u64 s"

definition iree_task_affinity_set_count_ones :: "iree_task_affinity_set_t \<Rightarrow> u32" where
  "iree_task_affinity_set_count_ones s = iree_math_count_ones_u64 s"

definition iree_task_affinity_set_rotr :: "iree_task_affinity_set_t \<Rightarrow> u32 \<Rightarrow> iree_task_affinity_set_t" where
  "iree_task_affinity_set_rotr s count = iree_math_rotr_u64 s count"

section \<open>Atomic sets\<close>

definition iree_atomic_task_affinity_set_load :: "(u64, iree_task_affinity_set_t) sm" where
  "iree_atomic_task_affinity_set_load = gets_sm (\<lambda>cell. cell)"

definition iree_atomic_task_affinity_set_store :: "iree_task_affinity_set_t \<Rightarrow> (u64, unit) sm" where
  "iree_atomic_task_affinity_set_store value = modify_sm (\<lambda>cell. value)"

definition iree_atomic_task_affinity_set_fetch_and :: "iree_task_affinity_set_t \<Rightarrow> (u64, iree_task_affinity_set_t) sm" where
  "iree_atomic_task_affinity_set_fetch_and value cell = Inr (cell, cell AND value)"

definition iree_atomic_task_affinity_set_fetch_or :: "iree_task_affinity_set_t \<Rightarrow> (u64, iree_task_affinity_set_t) sm" where
  "iree_atomic_task_affinity_set_fetch_or value cell = Inr (cell, cell OR value)"

section \<open>Which workers are in a set\<close>

lemma one_shl_minus_one: "n < 64 \<Longrightarrow> (push_bit n 1 :: u64) - 1 = mask n"
  by (simp add: mask_eq_exp_minus_1 push_bit_eq_mult)

lemma bit_all_ones: "bit (0xFFFFFFFFFFFFFFFF :: u64) i \<longleftrightarrow> i < 64"
proof -
  have "(0xFFFFFFFFFFFFFFFF :: u64) = mask 64" by (simp add: mask_eq_exp_minus_1)
  then show ?thesis by (simp only: bit_mask_iff) simp
qed

lemma one_shl_int: "n < 64 \<Longrightarrow> one_shl (int n) = Inr (push_bit n 1)" "64 \<le> n \<Longrightarrow> one_shl (int n) = Inl BadShift"
  by (simp_all add: one_shl_def)

lemma for_worker_bits:
  assumes "unat i < 64"
  shows "\<exists>v. iree_task_affinity_for_worker i = Inr v \<and> (\<forall>j. bit v j \<longleftrightarrow> j = unat i)"
proof (intro exI conjI allI)
  show "iree_task_affinity_for_worker i = Inr (push_bit (unat i) 1)"
    unfolding iree_task_affinity_for_worker_def uint_nat by (rule one_shl_int(1) [OF assms])
  show "bit (push_bit (unat i) 1 :: u64) j \<longleftrightarrow> j = unat i" for j
    using assms by (auto simp: bit_simps)
qed

lemma ones_bits:
  assumes "1 \<le> count" "count \<le> 64"
  shows "\<exists>v. iree_task_affinity_set_ones (int count) = Inr v \<and> (\<forall>j. bit v j \<longleftrightarrow> j < count)"
proof (intro exI conjI allI)
  have "nat (64 - int count) = 64 - count" by simp
  then show "iree_task_affinity_set_ones (int count) = Inr (drop_bit (64 - count) 0xFFFFFFFFFFFFFFFF)"
    using assms by (simp add: iree_task_affinity_set_ones_def)
  show "bit (drop_bit (64 - count) 0xFFFFFFFFFFFFFFFF :: u64) j \<longleftrightarrow> j < count" for j
    unfolding bit_drop_bit_eq comp_def bit_all_ones using assms by auto
qed

lemma ones_of_none: "iree_task_affinity_set_ones 0 = Inl BadShift"
  by (simp add: iree_task_affinity_set_ones_def)

text \<open>
  The set made for a range of workers starts one worker before the first: worker \<open>j\<close> is in it if and only if
  \<open>start - 1 \<le> j < end\<close>. A range that starts at 0 or ends at 64 shifts by a negative count or by the width
  of the word, which is undefined.
\<close>
theorem worker_range_is_shifted:
  assumes "1 \<le> unat s" "unat s \<le> unat e" "unat e < 64"
  shows "\<exists>v. iree_task_affinity_for_worker_range s e = Inr v \<and> (\<forall>j. bit v j \<longleftrightarrow> unat s - 1 \<le> j \<and> j < unat e) \<and>
    iree_task_affinity_for_worker_range 0 e = Inl BadShift \<and> iree_task_affinity_for_worker_range s 64 = Inl BadShift"
proof (intro exI conjI allI)
  have s: "uint s - 1 = int (unat s - 1)" using assms(1) unfolding uint_nat by (simp only: of_nat_diff of_nat_1)
  have b: "unat s - 1 < 64" using assms by linarith
  have "one_shl (uint s - 1) = Inr (push_bit (unat s - 1) 1)" unfolding s by (rule one_shl_int(1) [OF b])
  moreover have "one_shl (uint e) = Inr (push_bit (unat e) 1)" unfolding uint_nat by (rule one_shl_int(1) [OF assms(3)])
  ultimately show "iree_task_affinity_for_worker_range s e = Inr (mask (unat s - 1) XOR mask (unat e))"
    by (simp only: iree_task_affinity_for_worker_range_def bind_res_simps one_shl_minus_one [OF b]
        one_shl_minus_one [OF assms(3)])
  show "iree_task_affinity_for_worker_range 0 e = Inl BadShift"
    by (simp add: iree_task_affinity_for_worker_range_def one_shl_def)
  show "iree_task_affinity_for_worker_range s 64 = Inl BadShift"
    by (simp add: iree_task_affinity_for_worker_range_def one_shl_def bind_res_def)
  fix j
  show "bit (mask (unat s - 1) XOR mask (unat e) :: u64) j \<longleftrightarrow> unat s - 1 \<le> j \<and> j < unat e"
    using assms by (auto simp: bit_simps)
qed

theorem worker_range_is_shifted_witness:
  "\<exists>v. iree_task_affinity_for_worker_range 3 5 = Inr v \<and> (\<forall>j. bit v j \<longleftrightarrow> unat (3 :: u8) - 1 \<le> j \<and> j < unat (5 :: u8)) \<and>
    iree_task_affinity_for_worker_range 0 5 = Inl BadShift \<and> iree_task_affinity_for_worker_range 3 64 = Inl BadShift"
  by (rule worker_range_is_shifted) simp_all

end
