(* ===== verification/Base_Span.thy ===== *)
theory Base_Span
  imports Nx_Prelude
begin

text \<open>
  Views of memory: the class \<open>iree::span\<close> of \<open>base/internal/span.h\<close> (the version for compilers without \<open>std::span\<close>), the
  byte spans of \<open>base/allocator.h\<close> and the strings of \<open>base/string_view.h\<close>. A pointer into an array is an index into the
  list of its elements, or \<open>None\<close> for \<open>nullptr\<close>; the array is an argument of the functions that read through it.
  \<open>asserts\<close> says whether assertions are compiled.
\<close>

section \<open>Pointers into an array\<close>

type_synonym elem_ptr = "int option"

definition deref :: "'a list \<Rightarrow> elem_ptr \<Rightarrow> 'a res" where
  "deref array p =
     (case p of
        None \<Rightarrow> Inl NullDeref
      | Some i \<Rightarrow> if 0 \<le> i \<and> nat i < length array then Inr (array ! nat i) else Inl OutOfBounds)"

definition ptr_plus :: "elem_ptr \<Rightarrow> int \<Rightarrow> elem_ptr" where
  "ptr_plus p n = map_option (\<lambda>i. i + n) p"

definition c_assert :: "bool \<Rightarrow> bool \<Rightarrow> unit res" where
  "c_assert asserts cond = (if asserts \<and> \<not> cond then Inl AssertFailed else Inr ())"

section \<open>span.h\<close>

record span =
  span_ptr :: elem_ptr
  span_len :: u64

definition dynamic_extent :: u64 where "dynamic_extent = 0xFFFFFFFFFFFFFFFF"

definition span_null :: span where
  "span_null = \<lparr>span_ptr = None, span_len = 0\<rparr>"

definition span_of :: "elem_ptr \<Rightarrow> u64 \<Rightarrow> span" where
  "span_of array_ptr len = \<lparr>span_ptr = array_ptr, span_len = len\<rparr>"

text \<open>The constructors from an array of \<open>N\<close> elements and from a container with \<open>data\<close> and \<open>size\<close>.\<close>

definition span_of_array :: "elem_ptr \<Rightarrow> u64 \<Rightarrow> span" where
  "span_of_array a N = span_of a N"

definition span_of_container :: "elem_ptr \<times> u64 \<Rightarrow> span" where
  "span_of_container v = span_of (fst v) (snd v)"

definition span_size :: "span \<Rightarrow> u64" where "span_size s = span_len s"
definition span_data :: "span \<Rightarrow> elem_ptr" where "span_data s = span_ptr s"
definition span_count :: "span \<Rightarrow> u64" where "span_count s = span_size s"
definition span_empty :: "span \<Rightarrow> bool" where "span_empty s \<longleftrightarrow> span_size s = 0"

definition span_index :: "bool \<Rightarrow> 'a list \<Rightarrow> span \<Rightarrow> u64 \<Rightarrow> 'a res" where
  "span_index asserts array s i =
     bind_res (c_assert asserts (i < span_size s)) (\<lambda>_. deref array (ptr_plus (span_data s) (uint i)))"

definition span_at :: "'a list \<Rightarrow> span \<Rightarrow> u64 \<Rightarrow> 'a res" where
  "span_at array s i =
     (if i < span_size s then deref array (ptr_plus (span_data s) (uint i)) else Inl (Thrown ''abort''))"

definition span_front :: "bool \<Rightarrow> 'a list \<Rightarrow> span \<Rightarrow> 'a res" where
  "span_front asserts array s = bind_res (c_assert asserts (0 < span_size s)) (\<lambda>_. deref array (span_data s))"

definition span_back :: "bool \<Rightarrow> 'a list \<Rightarrow> span \<Rightarrow> 'a res" where
  "span_back asserts array s =
     bind_res (c_assert asserts (0 < span_size s)) (\<lambda>_.
     deref array (ptr_plus (ptr_plus (span_data s) (uint (span_size s))) (- 1)))"

definition span_begin :: "span \<Rightarrow> elem_ptr" where "span_begin s = span_data s"
definition span_end :: "span \<Rightarrow> elem_ptr" where "span_end s = ptr_plus (span_data s) (uint (span_size s))"

text \<open>A reverse iterator is the pointer past the element that it designates.\<close>

definition span_rbegin :: "span \<Rightarrow> elem_ptr" where "span_rbegin s = span_end s"
definition span_rend :: "span \<Rightarrow> elem_ptr" where "span_rend s = span_begin s"

definition span_subspan :: "span \<Rightarrow> u64 \<Rightarrow> u64 \<Rightarrow> span res" where
  "span_subspan s pos len =
     (if pos \<le> span_size s then Inr (span_of (ptr_plus (span_data s) (uint pos)) (min (span_size s - pos) len))
      else Inl (Thrown ''abort''))"

definition span_first :: "span \<Rightarrow> u64 \<Rightarrow> span res" where
  "span_first s len = (if len \<le> span_size s then Inr (span_of (span_data s) len) else Inl (Thrown ''abort''))"

definition span_last :: "span \<Rightarrow> u64 \<Rightarrow> span res" where
  "span_last s len =
     (if len \<le> span_size s then Inr (span_of (ptr_plus (span_data s) (uint (span_size s - len))) len)
      else Inl (Thrown ''abort''))"

section \<open>Byte spans of allocator.h\<close>

definition iree_make_byte_span :: "elem_ptr \<Rightarrow> iree_host_size_t \<Rightarrow> span" where
  "iree_make_byte_span d n = \<lparr>span_ptr = d, span_len = n\<rparr>"

definition iree_byte_span_empty :: span where
  "iree_byte_span_empty = \<lparr>span_ptr = None, span_len = 0\<rparr>"

definition iree_byte_span_is_empty :: "span \<Rightarrow> bool" where
  "iree_byte_span_is_empty s \<longleftrightarrow> span_ptr s = None \<or> span_len s = 0"

definition iree_make_const_byte_span :: "elem_ptr \<Rightarrow> iree_host_size_t \<Rightarrow> span" where
  "iree_make_const_byte_span d n = \<lparr>span_ptr = d, span_len = n\<rparr>"

definition iree_const_byte_span_empty :: span where
  "iree_const_byte_span_empty = \<lparr>span_ptr = None, span_len = 0\<rparr>"

definition iree_const_byte_span_is_empty :: "span \<Rightarrow> bool" where
  "iree_const_byte_span_is_empty s \<longleftrightarrow> span_ptr s = None \<or> span_len s = 0"

definition iree_const_cast_byte_span :: "span \<Rightarrow> span" where
  "iree_const_cast_byte_span s = iree_make_const_byte_span (span_ptr s) (span_len s)"

definition iree_cast_const_byte_span :: "span \<Rightarrow> span" where
  "iree_cast_const_byte_span s = iree_make_byte_span (span_ptr s) (span_len s)"

section \<open>string_view.h\<close>

type_synonym iree_string_view_t = span

definition IREE_STRING_VIEW_NPOS :: iree_host_size_t where "IREE_STRING_VIEW_NPOS = 0xFFFFFFFFFFFFFFFF"

definition iree_string_view_empty :: iree_string_view_t where
  "iree_string_view_empty = \<lparr>span_ptr = None, span_len = 0\<rparr>"

definition iree_string_view_is_empty :: "iree_string_view_t \<Rightarrow> bool" where
  "iree_string_view_is_empty sv \<longleftrightarrow> span_ptr sv = None \<or> span_len sv = 0"

definition iree_make_string_view :: "elem_ptr \<Rightarrow> iree_host_size_t \<Rightarrow> iree_string_view_t" where
  "iree_make_string_view str n = \<lparr>span_ptr = str, span_len = n\<rparr>"

text \<open>\<open>strlen\<close> of the C library: the number of bytes before the first that is zero.\<close>

definition strlen :: "u8 list \<Rightarrow> int \<Rightarrow> nat res" where
  "strlen mem i =
     (let n = length (takeWhile (\<lambda>c. c \<noteq> 0) (drop (nat i) mem)) in
      if i < 0 \<or> length mem \<le> nat i + n then Inl OutOfBounds else Inr n)"

definition iree_make_cstring_view :: "u8 list \<Rightarrow> elem_ptr \<Rightarrow> iree_string_view_t res" where
  "iree_make_cstring_view mem str =
     bind_res (case str of None \<Rightarrow> Inr 0 | Some i \<Rightarrow> strlen mem i) (\<lambda>n.
     Inr \<lparr>span_ptr = str, span_len = of_nat n\<rparr>)"

text \<open>The macro for literals, of which \<open>bytes\<close> is the array with its terminator.\<close>

definition iree_string_view_literal :: "u8 list \<Rightarrow> elem_ptr \<Rightarrow> iree_string_view_t" where
  "iree_string_view_literal bytes str = \<lparr>span_ptr = str, span_len = of_nat (length bytes) - 1\<rparr>"

record iree_string_pair_t =
  pair_first :: iree_string_view_t
  pair_second :: iree_string_view_t

definition iree_string_pair_empty :: iree_string_pair_t where
  "iree_string_pair_empty = \<lparr>pair_first = iree_string_view_empty, pair_second = iree_string_view_empty\<rparr>"

definition iree_make_string_pair :: "iree_string_view_t \<Rightarrow> iree_string_view_t \<Rightarrow> iree_string_pair_t" where
  "iree_make_string_pair a b = \<lparr>pair_first = a, pair_second = b\<rparr>"

definition iree_make_cstring_pair :: "u8 list \<Rightarrow> elem_ptr \<Rightarrow> elem_ptr \<Rightarrow> iree_string_pair_t res" where
  "iree_make_cstring_pair mem a b =
     bind_res (iree_make_cstring_view mem a) (\<lambda>a.
     bind_res (iree_make_cstring_view mem b) (\<lambda>b.
     Inr \<lparr>pair_first = a, pair_second = b\<rparr>))"

section \<open>The list that a span designates\<close>

text \<open>\<open>spans array s xs\<close>: the elements of \<open>s\<close> lie within the array and are \<open>xs\<close>.\<close>

definition spans :: "'a list \<Rightarrow> span \<Rightarrow> 'a list \<Rightarrow> bool" where
  "spans array s xs \<longleftrightarrow> length xs = unat (span_len s) \<and>
     (\<forall>k < length xs. deref array (ptr_plus (span_ptr s) (int k)) = Inr (xs ! k))"

lemma ptr_plus_plus: "ptr_plus (ptr_plus p m) n = ptr_plus p (m + n)"
  by (cases p) (simp_all add: ptr_plus_def)

lemma ptr_plus_zero [simp]: "ptr_plus p 0 = p"
  by (cases p) (simp_all add: ptr_plus_def)

lemma spans_sub:
  assumes "spans array s xs" "pos + n \<le> length xs" "unat len = n"
  shows "spans array (span_of (ptr_plus (span_ptr s) (int pos)) len) (take n (drop pos xs))"
  unfolding spans_def
proof (intro conjI allI impI)
  show "length (take n (drop pos xs)) = unat (span_len (span_of (ptr_plus (span_ptr s) (int pos)) len))"
    using assms by (simp add: span_of_def)
  fix k
  assume "k < length (take n (drop pos xs))"
  then have k: "k < n" "pos + k < length xs" using assms(2) by simp_all
  have "deref array (ptr_plus (span_ptr s) (int (pos + k))) = Inr (xs ! (pos + k))"
    using assms(1) k(2) unfolding spans_def by blast
  then show "deref array (ptr_plus (span_ptr (span_of (ptr_plus (span_ptr s) (int pos)) len)) (int k)) =
      Inr (take n (drop pos xs) ! k)"
    using k by (simp add: span_of_def ptr_plus_plus)
qed

lemma spans_index:
  assumes "spans array s xs" "unat i < length xs"
  shows "deref array (ptr_plus (span_ptr s) (uint i)) = Inr (xs ! unat i)" "i < span_len s"
proof -
  have "deref array (ptr_plus (span_ptr s) (int (unat i))) = Inr (xs ! unat i)"
    using assms unfolding spans_def by blast
  then show "deref array (ptr_plus (span_ptr s) (uint i)) = Inr (xs ! unat i)" by simp
  show "i < span_len s" using assms by (simp add: spans_def word_less_nat_alt)
qed

lemma spans_size: "spans array s xs \<Longrightarrow> i < span_len s \<longleftrightarrow> unat i < length xs"
  "spans array s xs \<Longrightarrow> i \<le> span_len s \<longleftrightarrow> unat i \<le> length xs"
  by (simp_all add: spans_def word_less_nat_alt word_le_nat_alt)

lemma span_at_spans:
  assumes "spans array s xs"
  shows "span_at array s i = (if unat i < length xs then Inr (xs ! unat i) else Inl (Thrown ''abort''))"
    and "span_index True array s i = (if unat i < length xs then Inr (xs ! unat i) else Inl AssertFailed)"
  using spans_index [OF assms, of i] spans_size(1) [OF assms, of i]
  by (simp_all add: span_at_def span_index_def span_size_def span_data_def c_assert_def)

lemma span_ends_span:
  assumes "spans array s xs"
  shows "span_front True array s = (if xs = [] then Inl AssertFailed else Inr (hd xs))"
    and "span_back True array s = (if xs = [] then Inl AssertFailed else Inr (last xs))"
proof -
  have len: "int (length xs) = uint (span_len s)" using assms by (simp add: spans_def)
  have z: "0 < span_len s \<longleftrightarrow> xs \<noteq> []" using spans_size(1) [OF assms, of 0] by simp
  have at: "deref array (ptr_plus (span_ptr s) (int k)) = Inr (xs ! k)" if "k < length xs" for k
    using assms that unfolding spans_def by blast
  show "span_front True array s = (if xs = [] then Inl AssertFailed else Inr (hd xs))"
    using at [of 0] z by (simp add: span_front_def span_size_def span_data_def c_assert_def hd_conv_nth)
  have "deref array (ptr_plus (ptr_plus (span_ptr s) (uint (span_len s))) (- 1)) = Inr (last xs)" if "xs \<noteq> []"
  proof -
    have "uint (span_len s) + - 1 = int (length xs - 1)" using that len by (cases xs) simp_all
    then show ?thesis using at [of "length xs - 1"] that by (simp add: ptr_plus_plus last_conv_nth)
  qed
  then show "span_back True array s = (if xs = [] then Inl AssertFailed else Inr (last xs))"
    using z by (simp add: span_back_def span_size_def span_data_def c_assert_def)
qed

lemma span_subspan_spans:
  assumes "spans array s xs"
  shows "case span_subspan s pos len of
      Inl e \<Rightarrow> length xs < unat pos
    | Inr t \<Rightarrow> unat pos \<le> length xs \<and> spans array t (take (unat len) (drop (unat pos) xs))"
proof (cases "pos \<le> span_len s")
  case True
  have p: "unat pos \<le> length xs" using spans_size(2) [OF assms] True by blast
  have "unat (span_len s - pos) = length xs - unat pos"
    using unat_sub [OF True] assms by (simp add: spans_def)
  then have m: "unat (min (span_len s - pos) len) = min (length xs - unat pos) (unat len)"
    by (auto simp: min_def word_le_nat_alt)
  have "spans array (span_of (ptr_plus (span_ptr s) (int (unat pos))) (min (span_len s - pos) len))
      (take (min (length xs - unat pos) (unat len)) (drop (unat pos) xs))"
    by (rule spans_sub [OF assms _ m]) (use p in simp)
  moreover have "take (min (length xs - unat pos) (unat len)) (drop (unat pos) xs) = take (unat len) (drop (unat pos) xs)"
    by (simp add: min_def)
  ultimately show ?thesis using True p by (simp add: span_subspan_def span_size_def span_data_def)
next
  case False
  then have "length xs < unat pos" using spans_size(2) [OF assms, of pos] by simp
  then show ?thesis using False by (simp add: span_subspan_def span_size_def)
qed

lemma span_first_spans:
  assumes "spans array s xs"
  shows "case span_first s len of Inl e \<Rightarrow> length xs < unat len | Inr t \<Rightarrow> unat len \<le> length xs \<and> spans array t (take (unat len) xs)"
proof (cases "len \<le> span_len s")
  case True
  then have p: "unat len \<le> length xs" using spans_size(2) [OF assms] by blast
  then have "spans array (span_of (span_ptr s) len) (take (unat len) xs)"
    using spans_sub [OF assms, of 0 "unat len" len] by simp
  then show ?thesis using True p by (simp add: span_first_def span_size_def span_data_def)
next
  case False
  then have "length xs < unat len" using spans_size(2) [OF assms, of len] by simp
  then show ?thesis using False by (simp add: span_first_def span_size_def)
qed

lemma span_last_spans:
  assumes "spans array s xs"
  shows "case span_last s len of
      Inl e \<Rightarrow> length xs < unat len
    | Inr t \<Rightarrow> unat len \<le> length xs \<and> spans array t (drop (length xs - unat len) xs)"
proof (cases "len \<le> span_len s")
  case True
  then have p: "unat len \<le> length xs" using spans_size(2) [OF assms] by blast
  have d: "unat (span_len s - len) = length xs - unat len"
    using unat_sub [OF True] assms by (simp add: spans_def)
  have "spans array (span_of (ptr_plus (span_ptr s) (int (length xs - unat len))) len)
      (take (unat len) (drop (length xs - unat len) xs))"
    by (rule spans_sub [OF assms]) (use p in simp_all)
  moreover have "uint (span_len s - len) = int (length xs - unat len)" using d by (metis uint_nat)
  ultimately show ?thesis using True p by (simp add: span_last_def span_size_def span_data_def)
next
  case False
  then have "length xs < unat len" using spans_size(2) [OF assms, of len] by simp
  then show ?thesis using False by (simp add: span_last_def span_size_def)
qed

text \<open>A view of a C string spans the bytes before its terminator.\<close>

lemma strlen_spans:
  assumes "strlen mem i = Inr n"
  shows "0 \<le> i" "nat i + n < length mem" "mem ! (nat i + n) = 0" "\<forall>c \<in> set (take n (drop (nat i) mem)). c \<noteq> 0"
proof -
  have n: "n = length (takeWhile (\<lambda>c. c \<noteq> 0) (drop (nat i) mem))" and b: "0 \<le> i" "nat i + n < length mem"
    using assms by (auto simp: strlen_def Let_def split: if_splits)
  show "0 \<le> i" "nat i + n < length mem" by (fact b)+
  have "n < length (drop (nat i) mem)" using b by simp
  then have "drop (nat i) mem ! n = 0" using nth_length_takeWhile [of "\<lambda>c. c \<noteq> 0" "drop (nat i) mem"] n by simp
  then show "mem ! (nat i + n) = 0" using b by simp
  have "take n (drop (nat i) mem) = takeWhile (\<lambda>c. c \<noteq> 0) (drop (nat i) mem)" unfolding n by (rule takeWhile_eq_take [symmetric])
  then show "\<forall>c \<in> set (take n (drop (nat i) mem)). c \<noteq> 0" by (auto dest: set_takeWhileD)
qed

lemma cstring_view_spans:
  assumes "strlen mem i = Inr n" "n < 2 ^ 64"
  shows "\<exists>sv. iree_make_cstring_view mem (Some i) = Inr sv \<and> spans mem sv (take n (drop (nat i) mem))"
proof -
  have u: "unat (of_nat n :: u64) = n" using assms(2) by (simp add: unat_of_nat take_bit_nat_eq_self)
  have b: "0 \<le> i" "nat i + n < length mem" using strlen_spans(1,2) [OF assms(1)] .
  have "spans mem \<lparr>span_ptr = Some i, span_len = of_nat n\<rparr> (take n (drop (nat i) mem))"
    unfolding spans_def
  proof (intro conjI allI impI)
    show "length (take n (drop (nat i) mem)) = unat (span_len \<lparr>span_ptr = Some i, span_len = of_nat n\<rparr>)"
      using b u by simp
    fix k
    assume "k < length (take n (drop (nat i) mem))"
    then have k: "k < n" by simp
    have "nat (i + int k) = nat i + k" using b by simp
    then show "deref mem (ptr_plus (span_ptr \<lparr>span_ptr = Some i, span_len = of_nat n\<rparr>) (int k)) =
        Inr (take n (drop (nat i) mem) ! k)"
      using b k by (simp add: deref_def ptr_plus_def)
  qed
  then show ?thesis using assms(1) by (simp add: iree_make_cstring_view_def)
qed

section \<open>Properties\<close>

text \<open>
  C29. A span refines the list of its elements: with assertions compiled, every access gives the element that the list has
  there or stops the program outside it, and the spans made from it span the corresponding parts of the list.
\<close>
theorem spans_refine_lists:
  assumes "spans array s xs"
  shows "span_at array s i = (if unat i < length xs then Inr (xs ! unat i) else Inl (Thrown ''abort'')) \<and>
    span_index True array s i = (if unat i < length xs then Inr (xs ! unat i) else Inl AssertFailed) \<and>
    span_front True array s = (if xs = [] then Inl AssertFailed else Inr (hd xs)) \<and>
    span_back True array s = (if xs = [] then Inl AssertFailed else Inr (last xs)) \<and>
    (case span_subspan s pos len of
       Inl e \<Rightarrow> length xs < unat pos
     | Inr t \<Rightarrow> unat pos \<le> length xs \<and> spans array t (take (unat len) (drop (unat pos) xs))) \<and>
    (case span_first s len of Inl e \<Rightarrow> length xs < unat len | Inr t \<Rightarrow> unat len \<le> length xs \<and> spans array t (take (unat len) xs)) \<and>
    (case span_last s len of
       Inl e \<Rightarrow> length xs < unat len
     | Inr t \<Rightarrow> unat len \<le> length xs \<and> spans array t (drop (length xs - unat len) xs))"
  using span_at_spans [OF assms] span_ends_span [OF assms] span_subspan_spans [OF assms] span_first_spans [OF assms]
    span_last_spans [OF assms] by blast

text \<open>The middle of an array of five elements.\<close>

lemma sample_spans: "spans [10, 20, 30, 40, 50 :: nat] (span_of (Some 1) 3) [20, 30, 40]"
  unfolding spans_def
proof (intro conjI allI impI)
  fix k
  assume "k < length [20, 30, 40 :: nat]"
  then have "k = 0 \<or> k = 1 \<or> k = 2" by auto
  then show "deref [10, 20, 30, 40, 50 :: nat] (ptr_plus (span_ptr (span_of (Some 1) 3)) (int k)) = Inr ([20, 30, 40] ! k)"
    by (auto simp: span_of_def deref_def ptr_plus_def)
qed (simp add: span_of_def)

theorem spans_refine_lists_witness:
  "span_at [10, 20, 30, 40, 50 :: nat] (span_of (Some 1) 3) 2 = Inr 40 \<and>
    span_back True [10, 20, 30, 40, 50 :: nat] (span_of (Some 1) 3) = Inr 40 \<and>
    (case span_subspan (span_of (Some 1) 3) 1 dynamic_extent of
       Inl e \<Rightarrow> False | Inr t \<Rightarrow> spans [10, 20, 30, 40, 50 :: nat] t [30, 40])"
  using spans_refine_lists [OF sample_spans, of 2 1 dynamic_extent]
  by (simp add: dynamic_extent_def split: sum.splits)

end
