(* ===== verification/Hal_Buffer.thy ===== *)
theory Hal_Buffer
  imports Nx_Prelude Iree_Status
begin

unbundle bit_operations_syntax

text \<open>
  Buffers as the HAL describes them to its users: the bit fields and the allocation parameters of \<open>hal/buffer.h\<close>, the
  references to buffers and the binding tables of \<open>hal/command_buffer.h\<close>, the transfer buffers of \<open>hal/buffer_transfer.h\<close> and
  the empty lists and callbacks of \<open>hal/semaphore.h\<close> and \<open>hal/buffer.h\<close>. A buffer is its address. The functions of
  the library, of which the code uses \<open>iree_hal_buffer_calculate_range\<close>, are arguments.
\<close>

section \<open>Memory types\<close>

definition IREE_HAL_MEMORY_TYPE_NONE :: u32 where "IREE_HAL_MEMORY_TYPE_NONE = 0"
definition IREE_HAL_MEMORY_TYPE_OPTIMAL :: u32 where "IREE_HAL_MEMORY_TYPE_OPTIMAL = push_bit 0 1"
definition IREE_HAL_MEMORY_TYPE_HOST_VISIBLE :: u32 where "IREE_HAL_MEMORY_TYPE_HOST_VISIBLE = push_bit 1 1"
definition IREE_HAL_MEMORY_TYPE_HOST_COHERENT :: u32 where "IREE_HAL_MEMORY_TYPE_HOST_COHERENT = push_bit 2 1"
definition IREE_HAL_MEMORY_TYPE_HOST_CACHED :: u32 where "IREE_HAL_MEMORY_TYPE_HOST_CACHED = push_bit 3 1"
definition IREE_HAL_MEMORY_TYPE_HOST_LOCAL :: u32 where
  "IREE_HAL_MEMORY_TYPE_HOST_LOCAL = IREE_HAL_MEMORY_TYPE_HOST_VISIBLE OR IREE_HAL_MEMORY_TYPE_HOST_COHERENT OR push_bit 6 1"
definition IREE_HAL_MEMORY_TYPE_OPTIMAL_FOR_HOST :: u32 where
  "IREE_HAL_MEMORY_TYPE_OPTIMAL_FOR_HOST = IREE_HAL_MEMORY_TYPE_OPTIMAL OR IREE_HAL_MEMORY_TYPE_HOST_LOCAL"
definition IREE_HAL_MEMORY_TYPE_DEVICE_VISIBLE :: u32 where "IREE_HAL_MEMORY_TYPE_DEVICE_VISIBLE = push_bit 4 1"
definition IREE_HAL_MEMORY_TYPE_DEVICE_LOCAL :: u32 where
  "IREE_HAL_MEMORY_TYPE_DEVICE_LOCAL = IREE_HAL_MEMORY_TYPE_DEVICE_VISIBLE OR push_bit 5 1"
definition IREE_HAL_MEMORY_TYPE_OPTIMAL_FOR_DEVICE :: u32 where
  "IREE_HAL_MEMORY_TYPE_OPTIMAL_FOR_DEVICE = IREE_HAL_MEMORY_TYPE_OPTIMAL OR IREE_HAL_MEMORY_TYPE_DEVICE_LOCAL"

section \<open>Memory accesses\<close>

definition IREE_HAL_MEMORY_ACCESS_NONE :: u16 where "IREE_HAL_MEMORY_ACCESS_NONE = 0"
definition IREE_HAL_MEMORY_ACCESS_READ :: u16 where "IREE_HAL_MEMORY_ACCESS_READ = push_bit 0 1"
definition IREE_HAL_MEMORY_ACCESS_WRITE :: u16 where "IREE_HAL_MEMORY_ACCESS_WRITE = push_bit 1 1"
definition IREE_HAL_MEMORY_ACCESS_DISCARD :: u16 where "IREE_HAL_MEMORY_ACCESS_DISCARD = push_bit 2 1"
definition IREE_HAL_MEMORY_ACCESS_DISCARD_WRITE :: u16 where
  "IREE_HAL_MEMORY_ACCESS_DISCARD_WRITE = IREE_HAL_MEMORY_ACCESS_WRITE OR IREE_HAL_MEMORY_ACCESS_DISCARD"
definition IREE_HAL_MEMORY_ACCESS_MAY_ALIAS :: u16 where "IREE_HAL_MEMORY_ACCESS_MAY_ALIAS = push_bit 3 1"
definition IREE_HAL_MEMORY_ACCESS_UNALIGNED :: u16 where "IREE_HAL_MEMORY_ACCESS_UNALIGNED = push_bit 4 1"
definition IREE_HAL_MEMORY_ACCESS_ANY :: u16 where "IREE_HAL_MEMORY_ACCESS_ANY = push_bit 5 1"
definition IREE_HAL_MEMORY_ACCESS_ALL :: u16 where
  "IREE_HAL_MEMORY_ACCESS_ALL =
     IREE_HAL_MEMORY_ACCESS_READ OR IREE_HAL_MEMORY_ACCESS_WRITE OR IREE_HAL_MEMORY_ACCESS_DISCARD"

section \<open>Buffer usages\<close>

definition IREE_HAL_BUFFER_USAGE_NONE :: u32 where "IREE_HAL_BUFFER_USAGE_NONE = 0"
definition IREE_HAL_BUFFER_USAGE_TRANSFER_SOURCE :: u32 where "IREE_HAL_BUFFER_USAGE_TRANSFER_SOURCE = push_bit 0 1"
definition IREE_HAL_BUFFER_USAGE_TRANSFER_TARGET :: u32 where "IREE_HAL_BUFFER_USAGE_TRANSFER_TARGET = push_bit 1 1"
definition IREE_HAL_BUFFER_USAGE_TRANSFER :: u32 where
  "IREE_HAL_BUFFER_USAGE_TRANSFER = IREE_HAL_BUFFER_USAGE_TRANSFER_SOURCE OR IREE_HAL_BUFFER_USAGE_TRANSFER_TARGET"
definition IREE_HAL_BUFFER_USAGE_DISPATCH_INDIRECT_PARAMS :: u32 where
  "IREE_HAL_BUFFER_USAGE_DISPATCH_INDIRECT_PARAMS = push_bit 8 1"
definition IREE_HAL_BUFFER_USAGE_DISPATCH_UNIFORM_READ :: u32 where
  "IREE_HAL_BUFFER_USAGE_DISPATCH_UNIFORM_READ = push_bit 9 1"
definition IREE_HAL_BUFFER_USAGE_DISPATCH_STORAGE_READ :: u32 where
  "IREE_HAL_BUFFER_USAGE_DISPATCH_STORAGE_READ = push_bit 10 1"
definition IREE_HAL_BUFFER_USAGE_DISPATCH_STORAGE_WRITE :: u32 where
  "IREE_HAL_BUFFER_USAGE_DISPATCH_STORAGE_WRITE = push_bit 11 1"
definition IREE_HAL_BUFFER_USAGE_DISPATCH_STORAGE :: u32 where
  "IREE_HAL_BUFFER_USAGE_DISPATCH_STORAGE =
     IREE_HAL_BUFFER_USAGE_DISPATCH_STORAGE_READ OR IREE_HAL_BUFFER_USAGE_DISPATCH_STORAGE_WRITE"
definition IREE_HAL_BUFFER_USAGE_DISPATCH_IMAGE_READ :: u32 where
  "IREE_HAL_BUFFER_USAGE_DISPATCH_IMAGE_READ = push_bit 12 1"
definition IREE_HAL_BUFFER_USAGE_DISPATCH_IMAGE_WRITE :: u32 where
  "IREE_HAL_BUFFER_USAGE_DISPATCH_IMAGE_WRITE = push_bit 13 1"
definition IREE_HAL_BUFFER_USAGE_DISPATCH_IMAGE :: u32 where
  "IREE_HAL_BUFFER_USAGE_DISPATCH_IMAGE =
     IREE_HAL_BUFFER_USAGE_DISPATCH_IMAGE_READ OR IREE_HAL_BUFFER_USAGE_DISPATCH_IMAGE_WRITE"
definition IREE_HAL_BUFFER_USAGE_DISPATCH :: u32 where
  "IREE_HAL_BUFFER_USAGE_DISPATCH =
     IREE_HAL_BUFFER_USAGE_DISPATCH_INDIRECT_PARAMS OR IREE_HAL_BUFFER_USAGE_DISPATCH_UNIFORM_READ OR
     IREE_HAL_BUFFER_USAGE_DISPATCH_STORAGE OR IREE_HAL_BUFFER_USAGE_DISPATCH_IMAGE"
definition IREE_HAL_BUFFER_USAGE_SHARING_EXPORT :: u32 where "IREE_HAL_BUFFER_USAGE_SHARING_EXPORT = push_bit 16 1"
definition IREE_HAL_BUFFER_USAGE_SHARING_REPLICATE :: u32 where
  "IREE_HAL_BUFFER_USAGE_SHARING_REPLICATE = push_bit 17 1"
definition IREE_HAL_BUFFER_USAGE_SHARING_CONCURRENT :: u32 where
  "IREE_HAL_BUFFER_USAGE_SHARING_CONCURRENT = push_bit 18 1"
definition IREE_HAL_BUFFER_USAGE_SHARING_IMMUTABLE :: u32 where
  "IREE_HAL_BUFFER_USAGE_SHARING_IMMUTABLE = push_bit 19 1"
definition IREE_HAL_BUFFER_USAGE_MAPPING_SCOPED :: u32 where "IREE_HAL_BUFFER_USAGE_MAPPING_SCOPED = push_bit 24 1"
definition IREE_HAL_BUFFER_USAGE_MAPPING_PERSISTENT :: u32 where
  "IREE_HAL_BUFFER_USAGE_MAPPING_PERSISTENT = push_bit 25 1"
definition IREE_HAL_BUFFER_USAGE_MAPPING_OPTIONAL :: u32 where "IREE_HAL_BUFFER_USAGE_MAPPING_OPTIONAL = push_bit 26 1"
definition IREE_HAL_BUFFER_USAGE_MAPPING_ACCESS_RANDOM :: u32 where
  "IREE_HAL_BUFFER_USAGE_MAPPING_ACCESS_RANDOM = push_bit 27 1"
definition IREE_HAL_BUFFER_USAGE_MAPPING_ACCESS_SEQUENTIAL_WRITE :: u32 where
  "IREE_HAL_BUFFER_USAGE_MAPPING_ACCESS_SEQUENTIAL_WRITE = push_bit 28 1"
definition IREE_HAL_BUFFER_USAGE_MAPPING :: u32 where
  "IREE_HAL_BUFFER_USAGE_MAPPING = IREE_HAL_BUFFER_USAGE_MAPPING_SCOPED OR IREE_HAL_BUFFER_USAGE_MAPPING_ACCESS_RANDOM"
definition IREE_HAL_BUFFER_USAGE_DEFAULT :: u32 where
  "IREE_HAL_BUFFER_USAGE_DEFAULT = IREE_HAL_BUFFER_USAGE_TRANSFER OR IREE_HAL_BUFFER_USAGE_DISPATCH_STORAGE"

section \<open>Mapping modes, command buffer modes and command categories\<close>

definition IREE_HAL_MAPPING_MODE_SCOPED :: u32 where "IREE_HAL_MAPPING_MODE_SCOPED = push_bit 0 1"
definition IREE_HAL_MAPPING_MODE_PERSISTENT :: u32 where "IREE_HAL_MAPPING_MODE_PERSISTENT = push_bit 1 1"
definition IREE_HAL_COMMAND_BUFFER_MODE_ONE_SHOT :: u32 where "IREE_HAL_COMMAND_BUFFER_MODE_ONE_SHOT = push_bit 0 1"
definition IREE_HAL_COMMAND_BUFFER_MODE_ALLOW_INLINE_EXECUTION :: u32 where
  "IREE_HAL_COMMAND_BUFFER_MODE_ALLOW_INLINE_EXECUTION = push_bit 4 1"
definition IREE_HAL_COMMAND_BUFFER_MODE_UNVALIDATED :: u32 where
  "IREE_HAL_COMMAND_BUFFER_MODE_UNVALIDATED = push_bit 5 1"
definition IREE_HAL_COMMAND_CATEGORY_TRANSFER :: u32 where "IREE_HAL_COMMAND_CATEGORY_TRANSFER = push_bit 0 1"
definition IREE_HAL_COMMAND_CATEGORY_DISPATCH :: u32 where "IREE_HAL_COMMAND_CATEGORY_DISPATCH = push_bit 1 1"
definition IREE_HAL_COMMAND_CATEGORY_ANY :: u32 where
  "IREE_HAL_COMMAND_CATEGORY_ANY = IREE_HAL_COMMAND_CATEGORY_TRANSFER OR IREE_HAL_COMMAND_CATEGORY_DISPATCH"

lemmas memory_type_defs =
  IREE_HAL_MEMORY_TYPE_NONE_def IREE_HAL_MEMORY_TYPE_OPTIMAL_def IREE_HAL_MEMORY_TYPE_HOST_VISIBLE_def
  IREE_HAL_MEMORY_TYPE_HOST_COHERENT_def IREE_HAL_MEMORY_TYPE_HOST_CACHED_def IREE_HAL_MEMORY_TYPE_HOST_LOCAL_def
  IREE_HAL_MEMORY_TYPE_OPTIMAL_FOR_HOST_def IREE_HAL_MEMORY_TYPE_DEVICE_VISIBLE_def
  IREE_HAL_MEMORY_TYPE_DEVICE_LOCAL_def IREE_HAL_MEMORY_TYPE_OPTIMAL_FOR_DEVICE_def

lemmas memory_access_defs =
  IREE_HAL_MEMORY_ACCESS_NONE_def IREE_HAL_MEMORY_ACCESS_READ_def IREE_HAL_MEMORY_ACCESS_WRITE_def
  IREE_HAL_MEMORY_ACCESS_DISCARD_def IREE_HAL_MEMORY_ACCESS_DISCARD_WRITE_def IREE_HAL_MEMORY_ACCESS_MAY_ALIAS_def
  IREE_HAL_MEMORY_ACCESS_UNALIGNED_def IREE_HAL_MEMORY_ACCESS_ANY_def IREE_HAL_MEMORY_ACCESS_ALL_def

lemmas buffer_usage_defs =
  IREE_HAL_BUFFER_USAGE_NONE_def IREE_HAL_BUFFER_USAGE_TRANSFER_SOURCE_def IREE_HAL_BUFFER_USAGE_TRANSFER_TARGET_def
  IREE_HAL_BUFFER_USAGE_TRANSFER_def IREE_HAL_BUFFER_USAGE_DISPATCH_INDIRECT_PARAMS_def
  IREE_HAL_BUFFER_USAGE_DISPATCH_UNIFORM_READ_def IREE_HAL_BUFFER_USAGE_DISPATCH_STORAGE_READ_def
  IREE_HAL_BUFFER_USAGE_DISPATCH_STORAGE_WRITE_def IREE_HAL_BUFFER_USAGE_DISPATCH_STORAGE_def
  IREE_HAL_BUFFER_USAGE_DISPATCH_IMAGE_READ_def IREE_HAL_BUFFER_USAGE_DISPATCH_IMAGE_WRITE_def
  IREE_HAL_BUFFER_USAGE_DISPATCH_IMAGE_def IREE_HAL_BUFFER_USAGE_DISPATCH_def IREE_HAL_BUFFER_USAGE_SHARING_EXPORT_def
  IREE_HAL_BUFFER_USAGE_SHARING_REPLICATE_def IREE_HAL_BUFFER_USAGE_SHARING_CONCURRENT_def
  IREE_HAL_BUFFER_USAGE_SHARING_IMMUTABLE_def IREE_HAL_BUFFER_USAGE_MAPPING_SCOPED_def
  IREE_HAL_BUFFER_USAGE_MAPPING_PERSISTENT_def IREE_HAL_BUFFER_USAGE_MAPPING_OPTIONAL_def
  IREE_HAL_BUFFER_USAGE_MAPPING_ACCESS_RANDOM_def IREE_HAL_BUFFER_USAGE_MAPPING_ACCESS_SEQUENTIAL_WRITE_def
  IREE_HAL_BUFFER_USAGE_MAPPING_def IREE_HAL_BUFFER_USAGE_DEFAULT_def

section \<open>Parameters of allocations\<close>

definition IREE_WHOLE_BUFFER :: iree_device_size_t where "IREE_WHOLE_BUFFER = 0xFFFFFFFFFFFFFFFF"
definition IREE_HAL_QUEUE_AFFINITY_ANY :: u64 where "IREE_HAL_QUEUE_AFFINITY_ANY = 0xFFFFFFFFFFFFFFFF"

record iree_hal_buffer_params_t =
  bp_usage :: u32
  bp_access :: u16
  bp_type :: u32
  bp_queue_affinity :: u64
  bp_min_alignment :: iree_device_size_t

definition iree_hal_buffer_params_canonicalize :: "iree_hal_buffer_params_t \<Rightarrow> iree_hal_buffer_params_t" where
  "iree_hal_buffer_params_canonicalize params =
     (let params = (if bp_usage params = 0 then params\<lparr>bp_usage := IREE_HAL_BUFFER_USAGE_DEFAULT\<rparr> else params);
          params = (if bp_access params = 0 then params\<lparr>bp_access := IREE_HAL_MEMORY_ACCESS_ALL\<rparr> else params);
          params = (if bp_type params = 0 then params\<lparr>bp_type := IREE_HAL_MEMORY_TYPE_OPTIMAL\<rparr> else params)
      in if bp_queue_affinity params = 0 then params\<lparr>bp_queue_affinity := IREE_HAL_QUEUE_AFFINITY_ANY\<rparr> else params)"

definition iree_hal_buffer_params_with_usage :: "iree_hal_buffer_params_t \<Rightarrow> u32 \<Rightarrow> iree_hal_buffer_params_t" where
  "iree_hal_buffer_params_with_usage params usage =
     (let result = (if bp_usage params = 0
                    then params\<lparr>bp_usage := IREE_HAL_BUFFER_USAGE_DISPATCH_STORAGE OR IREE_HAL_BUFFER_USAGE_TRANSFER\<rparr>
                    else params)
      in result\<lparr>bp_usage := bp_usage result OR usage\<rparr>)"

section \<open>References and binding tables\<close>

text \<open>The ordinal is a bit field of 8 bits and the slot one of 24 bits, which keep the low bits of what is assigned.\<close>

record iree_hal_buffer_ref_t =
  ref_ordinal :: u8
  ref_buffer_slot :: "24 word"
  ref_buffer :: ptr
  ref_offset :: iree_device_size_t
  ref_length :: iree_device_size_t


definition iree_hal_make_buffer_ref ::
  "ptr \<Rightarrow> iree_device_size_t \<Rightarrow> iree_device_size_t \<Rightarrow> iree_hal_buffer_ref_t" where
  "iree_hal_make_buffer_ref buffer offset len =
     \<lparr>ref_ordinal = 0, ref_buffer_slot = 0, ref_buffer = buffer, ref_offset = offset, ref_length = len\<rparr>"

definition iree_hal_make_indirect_buffer_ref ::
  "u32 \<Rightarrow> iree_device_size_t \<Rightarrow> iree_device_size_t \<Rightarrow> iree_hal_buffer_ref_t" where
  "iree_hal_make_indirect_buffer_ref buffer_slot offset len =
     \<lparr>ref_ordinal = 0, ref_buffer_slot = ucast buffer_slot, ref_buffer = nullptr, ref_offset = offset, ref_length = len\<rparr>"

record iree_hal_buffer_binding_t =
  bind_buffer :: ptr
  bind_offset :: iree_device_size_t
  bind_length :: iree_device_size_t

text \<open>The table is its count and the array that it points to.\<close>

record iree_hal_buffer_binding_table_t =
  table_count :: iree_host_size_t
  table_bindings :: "iree_hal_buffer_binding_t list"


definition iree_hal_buffer_binding_table_is_empty :: "iree_hal_buffer_binding_table_t \<Rightarrow> bool" where
  "iree_hal_buffer_binding_table_is_empty binding_table \<longleftrightarrow> table_count binding_table = 0"



section \<open>Labels, transfer buffers, semaphore lists and callbacks\<close>

record iree_hal_label_color_t =
  color_r :: u8
  color_g :: u8
  color_b :: u8
  color_a :: u8

definition iree_hal_label_color_unspecified :: iree_hal_label_color_t where
  "iree_hal_label_color_unspecified = \<lparr>color_r = 0, color_g = 0, color_b = 0, color_a = 0\<rparr>"

text \<open>A host buffer is its address and its size.\<close>

record iree_hal_transfer_buffer_t =
  host_buffer :: "ptr \<times> iree_host_size_t"
  device_buffer :: ptr

definition iree_hal_make_host_transfer_buffer :: "ptr \<times> iree_host_size_t \<Rightarrow> iree_hal_transfer_buffer_t" where
  "iree_hal_make_host_transfer_buffer buffer = \<lparr>host_buffer = buffer, device_buffer = nullptr\<rparr>"

definition iree_hal_make_host_transfer_buffer_span :: "ptr \<Rightarrow> iree_host_size_t \<Rightarrow> iree_hal_transfer_buffer_t" where
  "iree_hal_make_host_transfer_buffer_span p n = \<lparr>host_buffer = (p, n), device_buffer = nullptr\<rparr>"

definition iree_hal_make_device_transfer_buffer :: "ptr \<Rightarrow> iree_hal_transfer_buffer_t" where
  "iree_hal_make_device_transfer_buffer buffer = \<lparr>host_buffer = (nullptr, 0), device_buffer = buffer\<rparr>"

record iree_hal_semaphore_list_t =
  sem_count :: iree_host_size_t
  sem_semaphores :: ptr
  sem_payload_values :: ptr

definition iree_hal_semaphore_list_empty :: iree_hal_semaphore_list_t where
  "iree_hal_semaphore_list_empty = \<lparr>sem_count = 0, sem_semaphores = nullptr, sem_payload_values = nullptr\<rparr>"

record iree_hal_buffer_release_callback_t =
  callback_fn :: ptr
  callback_user_data :: ptr

definition iree_hal_buffer_release_callback_null :: iree_hal_buffer_release_callback_t where
  "iree_hal_buffer_release_callback_null = \<lparr>callback_fn = nullptr, callback_user_data = nullptr\<rparr>"

section \<open>Canonical parameters\<close>

definition canonical_params :: "iree_hal_buffer_params_t \<Rightarrow> bool" where
  "canonical_params params \<longleftrightarrow>
     bp_usage params \<noteq> 0 \<and> bp_access params \<noteq> 0 \<and> bp_type params \<noteq> 0 \<and> bp_queue_affinity params \<noteq> 0"

lemma defaults_not_zero:
  "IREE_HAL_BUFFER_USAGE_DEFAULT \<noteq> 0" "IREE_HAL_MEMORY_ACCESS_ALL \<noteq> 0" "IREE_HAL_MEMORY_TYPE_OPTIMAL \<noteq> 0"
  "IREE_HAL_QUEUE_AFFINITY_ANY \<noteq> 0"
  by (code_simp)+

lemma default_usage:
  "IREE_HAL_BUFFER_USAGE_DISPATCH_STORAGE OR IREE_HAL_BUFFER_USAGE_TRANSFER = IREE_HAL_BUFFER_USAGE_DEFAULT"
  by code_simp

lemma canonicalize_is_canonical: "canonical_params (iree_hal_buffer_params_canonicalize params)"
  using defaults_not_zero by (simp add: canonical_params_def iree_hal_buffer_params_canonicalize_def Let_def)

lemma canonicalize_canonical: "canonical_params params \<Longrightarrow> iree_hal_buffer_params_canonicalize params = params"
  by (simp add: canonical_params_def iree_hal_buffer_params_canonicalize_def)

section \<open>Resolving references\<close>






text \<open>The slot of an indirect reference has 24 bits.\<close>

lemma indirect_slot_truncated:
  "iree_hal_make_indirect_buffer_ref (push_bit 24 k OR slot) offset len = iree_hal_make_indirect_buffer_ref slot offset len"
proof -
  have "(ucast (push_bit 24 k OR slot) :: 24 word) = ucast slot"
    by (rule bit_word_eqI) (auto simp: bit_simps)
  then show ?thesis by (simp add: iree_hal_make_indirect_buffer_ref_def)
qed

lemma default_usage_not_all:
  "IREE_HAL_BUFFER_USAGE_DEFAULT AND IREE_HAL_BUFFER_USAGE_DISPATCH_UNIFORM_READ = 0"
  "IREE_HAL_BUFFER_USAGE_DEFAULT AND IREE_HAL_BUFFER_USAGE_MAPPING = 0"
  by code_simp+

section \<open>Properties\<close>

text \<open>
  Canonical parameters have no field left to default: canonicalizing gives them and changes nothing more, keeps every
  field that was set, and can be done before or after bits of usage are added, which are then all present.
\<close>
theorem buffer_params_canonical:
  "canonical_params (iree_hal_buffer_params_canonicalize params) \<and>
   iree_hal_buffer_params_canonicalize (iree_hal_buffer_params_canonicalize params) = iree_hal_buffer_params_canonicalize params \<and>
   bp_min_alignment (iree_hal_buffer_params_canonicalize params) = bp_min_alignment params \<and>
   bp_usage (iree_hal_buffer_params_canonicalize params) \<in> {bp_usage params, IREE_HAL_BUFFER_USAGE_DEFAULT} \<and>
   iree_hal_buffer_params_canonicalize (iree_hal_buffer_params_with_usage params usage) =
     iree_hal_buffer_params_with_usage (iree_hal_buffer_params_canonicalize params) usage \<and>
   bp_usage (iree_hal_buffer_params_with_usage params usage) AND usage = usage"
proof (intro conjI)
  show "iree_hal_buffer_params_canonicalize (iree_hal_buffer_params_canonicalize params) = iree_hal_buffer_params_canonicalize params"
    by (rule canonicalize_canonical [OF canonicalize_is_canonical])
  have or_zero: "(a OR b = 0) \<longleftrightarrow> a = 0 \<and> b = 0" for a b :: u32 by (rule or_eq_0_iff)
  show "iree_hal_buffer_params_canonicalize (iree_hal_buffer_params_with_usage params usage) =
     iree_hal_buffer_params_with_usage (iree_hal_buffer_params_canonicalize params) usage"
    using defaults_not_zero
    by (cases params)
      (simp add: iree_hal_buffer_params_canonicalize_def iree_hal_buffer_params_with_usage_def default_usage Let_def or_zero)
  show "bp_usage (iree_hal_buffer_params_with_usage params usage) AND usage = usage"
    by (simp add: iree_hal_buffer_params_with_usage_def Let_def and.commute or.commute)
qed (simp_all only: canonicalize_is_canonical, simp_all add: iree_hal_buffer_params_canonicalize_def Let_def)






end
