(* ===== verification/Hal_Allocator.thy ===== *)
theory Hal_Allocator
  imports Hal_Buffer Iree_Alignment
begin

unbundle bit_operations_syntax

text \<open>
  The statistics of \<open>hal/allocator.h\<close> (builds with \<open>IREE_STATISTICS_ENABLE\<close>): how many bytes were allocated and freed in host
  and in device memory, and the most that were in use at once. The counters have 64 bits and wrap.
\<close>

section \<open>Recording\<close>

record iree_hal_allocator_statistics_t =
  host_bytes_peak :: iree_device_size_t
  host_bytes_allocated :: iree_device_size_t
  host_bytes_freed :: iree_device_size_t
  device_bytes_peak :: iree_device_size_t
  device_bytes_allocated :: iree_device_size_t
  device_bytes_freed :: iree_device_size_t

definition all_bits_set :: "u32 \<Rightarrow> u32 \<Rightarrow> bool" where
  "all_bits_set lhs rhs \<longleftrightarrow> lhs AND rhs = rhs"

definition iree_hal_allocator_statistics_record_alloc ::
  "u32 \<Rightarrow> iree_device_size_t \<Rightarrow> iree_hal_allocator_statistics_t \<Rightarrow> iree_hal_allocator_statistics_t" where
  "iree_hal_allocator_statistics_record_alloc memory_type allocation_size s =
     (if all_bits_set memory_type IREE_HAL_MEMORY_TYPE_HOST_LOCAL then
        (let s = s\<lparr>host_bytes_allocated := host_bytes_allocated s + allocation_size\<rparr>
         in s\<lparr>host_bytes_peak := iree_max (host_bytes_peak s) (host_bytes_allocated s - host_bytes_freed s)\<rparr>)
      else
        (let s = s\<lparr>device_bytes_allocated := device_bytes_allocated s + allocation_size\<rparr>
         in s\<lparr>device_bytes_peak := iree_max (device_bytes_peak s) (device_bytes_allocated s - device_bytes_freed s)\<rparr>))"

definition iree_hal_allocator_statistics_record_free ::
  "u32 \<Rightarrow> iree_device_size_t \<Rightarrow> iree_hal_allocator_statistics_t \<Rightarrow> iree_hal_allocator_statistics_t" where
  "iree_hal_allocator_statistics_record_free memory_type allocation_size s =
     (if all_bits_set memory_type IREE_HAL_MEMORY_TYPE_HOST_LOCAL
      then s\<lparr>host_bytes_freed := host_bytes_freed s + allocation_size\<rparr>
      else s\<lparr>device_bytes_freed := device_bytes_freed s + allocation_size\<rparr>)"

section \<open>Histories of an allocator\<close>

datatype allocation = Alloc u32 u64 | Free u32 u64

fun record_op :: "allocation \<Rightarrow> iree_hal_allocator_statistics_t \<Rightarrow> iree_hal_allocator_statistics_t" where
  "record_op (Alloc ty n) s = iree_hal_allocator_statistics_record_alloc ty n s"
| "record_op (Free ty n) s = iree_hal_allocator_statistics_record_free ty n s"

definition statistics_zero :: iree_hal_allocator_statistics_t where
  "statistics_zero = \<lparr>host_bytes_peak = 0, host_bytes_allocated = 0, host_bytes_freed = 0,
     device_bytes_peak = 0, device_bytes_allocated = 0, device_bytes_freed = 0\<rparr>"

definition statistics_of :: "allocation list \<Rightarrow> iree_hal_allocator_statistics_t" where
  "statistics_of ops = fold record_op ops statistics_zero"

text \<open>
  The specification, on natural numbers. \<open>host\<close> selects one of the two kinds of memory; the peak is the greatest number of
  bytes in use after any part of the history.
\<close>

definition is_host :: "u32 \<Rightarrow> bool" where
  "is_host ty \<longleftrightarrow> all_bits_set ty IREE_HAL_MEMORY_TYPE_HOST_LOCAL"

fun alloc_bytes :: "bool \<Rightarrow> allocation \<Rightarrow> nat" where
  "alloc_bytes host (Alloc ty n) = (if is_host ty = host then unat n else 0)"
| "alloc_bytes host (Free ty n) = 0"

fun free_bytes :: "bool \<Rightarrow> allocation \<Rightarrow> nat" where
  "free_bytes host (Alloc ty n) = 0"
| "free_bytes host (Free ty n) = (if is_host ty = host then unat n else 0)"

definition total_allocated :: "bool \<Rightarrow> allocation list \<Rightarrow> nat" where
  "total_allocated host ops = sum_list (map (alloc_bytes host) ops)"

definition total_freed :: "bool \<Rightarrow> allocation list \<Rightarrow> nat" where
  "total_freed host ops = sum_list (map (free_bytes host) ops)"

definition in_use :: "bool \<Rightarrow> allocation list \<Rightarrow> nat" where
  "in_use host ops = total_allocated host ops - total_freed host ops"

definition peak :: "bool \<Rightarrow> allocation list \<Rightarrow> nat" where
  "peak host ops = Max ((\<lambda>k. in_use host (take k ops)) ` {..length ops})"

text \<open>Nothing is freed that was not allocated, and the allocations add up to less than \<open>2 ^ 64\<close>.\<close>

definition plausible :: "allocation list \<Rightarrow> bool" where
  "plausible ops \<longleftrightarrow>
     (\<forall>host. total_allocated host ops < 2 ^ 64 \<and>
        (\<forall>k \<le> length ops. total_freed host (take k ops) \<le> total_allocated host (take k ops)))"

section \<open>Lemmas\<close>

lemma totals_snoc:
  "total_allocated host (ops @ [op]) = total_allocated host ops + alloc_bytes host op"
  "total_freed host (ops @ [op]) = total_freed host ops + free_bytes host op"
  by (simp_all add: total_allocated_def total_freed_def)

lemma plausible_snoc:
  assumes "plausible (ops @ [op])"
  shows "plausible ops" "total_freed host (ops @ [op]) \<le> total_allocated host (ops @ [op])"
    "total_allocated host (ops @ [op]) < 2 ^ 64"
proof -
  have *: "total_freed h (take k (ops @ [op])) \<le> total_allocated h (take k (ops @ [op]))" if "k \<le> Suc (length ops)" for h k
    using assms that unfolding plausible_def by simp
  have l: "total_allocated h (ops @ [op]) < 2 ^ 64" for h using assms unfolding plausible_def by blast
  show "total_allocated host (ops @ [op]) < 2 ^ 64" by (rule l)
  show "total_freed host (ops @ [op]) \<le> total_allocated host (ops @ [op])"
    using * [of "Suc (length ops)"] by simp
  have "total_freed h (take k ops) \<le> total_allocated h (take k ops)" if "k \<le> length ops" for h k
    using * [of k] that by simp
  moreover have "total_allocated h ops < 2 ^ 64" for h using l [of h] by (simp add: totals_snoc)
  ultimately show "plausible ops" by (simp add: plausible_def)
qed

lemma peak_snoc: "peak host (ops @ [op]) = max (peak host ops) (in_use host (ops @ [op]))"
proof -
  have "(\<lambda>k. in_use host (take k (ops @ [op]))) ` {..length (ops @ [op])} =
      insert (in_use host (ops @ [op])) ((\<lambda>k. in_use host (take k ops)) ` {..length ops})"
    by (auto simp: atMost_Suc intro!: image_eqI)
  then show ?thesis by (simp add: peak_def max.commute)
qed

lemma in_use_le_peak: "in_use host ops \<le> peak host ops"
  unfolding peak_def by (rule Max_ge) (auto intro!: image_eqI [of _ _ "length ops"])

lemma unat_max: "unat (iree_max p q) = max (unat p) (unat q)"
  by (simp add: iree_max_def word_le_nat_alt max_def)

lemma unat_add_small: "unat a + unat n < 2 ^ 64 \<Longrightarrow> unat (a + n) = unat a + unat n" for a n :: u64
  by (simp add: unat_word_ariths)

lemma record_counters:
  fixes a f p n :: u64
  assumes "unat a + unat n < 2 ^ 64" "unat f \<le> unat a + unat n"
  shows "unat (a + n) = unat a + unat n" "unat (iree_max p (a + n - f)) = max (unat p) (unat a + unat n - unat f)"
proof -
  show s: "unat (a + n) = unat a + unat n" using assms(1) by (rule unat_add_small)
  have "f \<le> a + n" using s assms(2) by (simp add: word_le_nat_alt)
  then show "unat (iree_max p (a + n - f)) = max (unat p) (unat a + unat n - unat f)"
    using s by (simp add: unat_max unat_sub)
qed

text \<open>What the counters of one kind of memory show.\<close>

definition shows_history :: "bool \<Rightarrow> allocation list \<Rightarrow> u64 \<Rightarrow> u64 \<Rightarrow> u64 \<Rightarrow> bool" where
  "shows_history host ops highest allocated freed \<longleftrightarrow>
     unat allocated = total_allocated host ops \<and> unat freed = total_freed host ops \<and> unat highest = peak host ops"

lemma shows_alloc:
  assumes "shows_history host ops p a f" "plausible (ops @ [Alloc ty n])" "is_host ty = host"
  shows "shows_history host (ops @ [Alloc ty n]) (iree_max p (a + n - f)) (a + n) f"
  using assms(1,3) record_counters(1) [of a n f] record_counters(2) [of a n f p] plausible_snoc(2,3) [OF assms(2), of host]
  by (simp add: shows_history_def totals_snoc peak_snoc in_use_def)

lemma shows_free:
  assumes "shows_history host ops p a f" "plausible (ops @ [Free ty n])" "is_host ty = host"
  shows "shows_history host (ops @ [Free ty n]) p a (f + n)"
proof -
  have "in_use host (ops @ [Free ty n]) \<le> in_use host ops" by (simp add: in_use_def totals_snoc)
  then have "peak host (ops @ [Free ty n]) = peak host ops"
    using in_use_le_peak [of host ops] by (simp add: peak_snoc)
  moreover have "unat (f + n) = unat f + unat n"
    using assms(1,3) plausible_snoc(2,3) [OF assms(2), of host]
    by (intro unat_add_small) (simp add: shows_history_def totals_snoc)
  ultimately show ?thesis using assms(1,3) by (simp add: shows_history_def totals_snoc)
qed

lemma shows_other:
  assumes "shows_history host ops p a f" "alloc_bytes host op = 0" "free_bytes host op = 0"
  shows "shows_history host (ops @ [op]) p a f"
  using assms in_use_le_peak [of host ops] by (simp add: shows_history_def totals_snoc peak_snoc in_use_def)

definition shows_both :: "allocation list \<Rightarrow> iree_hal_allocator_statistics_t \<Rightarrow> bool" where
  "shows_both ops s \<longleftrightarrow>
     shows_history True ops (host_bytes_peak s) (host_bytes_allocated s) (host_bytes_freed s) \<and>
     shows_history False ops (device_bytes_peak s) (device_bytes_allocated s) (device_bytes_freed s)"

lemma shows_both_step:
  assumes "shows_both ops s" "plausible (ops @ [op])"
  shows "shows_both (ops @ [op]) (record_op op s)"
proof (cases op)
  case (Alloc ty n)
  then have p: "plausible (ops @ [Alloc ty n])" using assms(2) by simp
  show ?thesis
    unfolding Alloc record_op.simps iree_hal_allocator_statistics_record_alloc_def is_host_def [symmetric] Let_def
    using assms(1) shows_alloc [OF _ p] by (auto simp: shows_both_def intro: shows_other)
next
  case (Free ty n)
  then have p: "plausible (ops @ [Free ty n])" using assms(2) by simp
  show ?thesis
    unfolding Free record_op.simps iree_hal_allocator_statistics_record_free_def is_host_def [symmetric]
    using assms(1) shows_free [OF _ p] by (auto simp: shows_both_def intro: shows_other)
qed

lemma statistics_show_history: "plausible ops \<Longrightarrow> shows_both ops (statistics_of ops)"
proof (induction ops rule: rev_induct)
  case Nil
  then show ?case
    by (simp add: shows_both_def shows_history_def statistics_of_def statistics_zero_def total_allocated_def
        total_freed_def peak_def in_use_def)
next
  case (snoc op ops)
  then have "shows_both ops (statistics_of ops)" using plausible_snoc(1) by blast
  moreover have "statistics_of (ops @ [op]) = record_op op (statistics_of ops)" by (simp add: statistics_of_def)
  ultimately show ?case using shows_both_step snoc.prems by simp
qed

section \<open>Properties\<close>

text \<open>
  C18. The statistics refine the history of the allocator: as long as the bytes allocated fit in 64 bits and nothing is freed
  that was not allocated, the counters are the sums of the history, separately for host and device memory, and the peaks are
  the most bytes that were in use at any time.
\<close>
theorem statistics_refine_history:
  assumes "plausible ops"
  shows "unat (host_bytes_allocated (statistics_of ops)) = total_allocated True ops \<and>
    unat (host_bytes_freed (statistics_of ops)) = total_freed True ops \<and>
    unat (host_bytes_peak (statistics_of ops)) = peak True ops \<and>
    unat (device_bytes_allocated (statistics_of ops)) = total_allocated False ops \<and>
    unat (device_bytes_freed (statistics_of ops)) = total_freed False ops \<and>
    unat (device_bytes_peak (statistics_of ops)) = peak False ops"
  using statistics_show_history [OF assms] by (simp add: shows_both_def shows_history_def)

text \<open>Ten bytes of host memory, of which four are given back before three more are allocated, and five of the device.\<close>

definition sample_history :: "allocation list" where
  "sample_history =
     [Alloc IREE_HAL_MEMORY_TYPE_HOST_LOCAL 10, Alloc IREE_HAL_MEMORY_TYPE_DEVICE_LOCAL 5,
      Free IREE_HAL_MEMORY_TYPE_HOST_LOCAL 4, Alloc IREE_HAL_MEMORY_TYPE_OPTIMAL_FOR_HOST 3]"

lemma sample_is_host:
  "is_host IREE_HAL_MEMORY_TYPE_HOST_LOCAL" "is_host IREE_HAL_MEMORY_TYPE_OPTIMAL_FOR_HOST"
  "\<not> is_host IREE_HAL_MEMORY_TYPE_DEVICE_LOCAL"
  by code_simp+

lemma sample_plausible: "plausible sample_history"
  unfolding plausible_def
proof (intro allI conjI impI)
  fix host k
  show "total_allocated host sample_history < 2 ^ 64"
    by (cases host) (simp_all add: sample_history_def total_allocated_def sample_is_host)
  assume "k \<le> length sample_history"
  then have "k = 0 \<or> k = 1 \<or> k = 2 \<or> k = 3 \<or> k = 4" by (auto simp: sample_history_def)
  then show "total_freed host (take k sample_history) \<le> total_allocated host (take k sample_history)"
    by (cases host) (auto simp: sample_history_def total_allocated_def total_freed_def sample_is_host)
qed

theorem statistics_refine_history_witness:
  "unat (host_bytes_allocated (statistics_of sample_history)) = 13 \<and>
    unat (host_bytes_freed (statistics_of sample_history)) = 4 \<and>
    unat (host_bytes_peak (statistics_of sample_history)) = peak True sample_history \<and>
    unat (device_bytes_peak (statistics_of sample_history)) = peak False sample_history"
  using statistics_refine_history [OF sample_plausible]
  by (simp add: sample_history_def total_allocated_def total_freed_def sample_is_host)

end
