(* ===== verification/Hal_Resource.thy ===== *)
theory Hal_Resource
  imports Ref_Ptr
begin

text \<open>
  \<open>hal/resource.h\<close> and the counters of \<open>base/internal/atomics.h\<close>: the resources of the HAL, which start with an atomic reference
  count and a pointer to a table of methods. Releasing the last reference calls the method \<open>destroy\<close> of that table: the
  argument \<open>destroy\<close>, which takes the table and the resource. The resources form another interpretation of the
  interface \<open>ref_counted\<close>, so what \<open>Ref_Ptr\<close> shows of pointers to its own objects holds of pointers to resources.
\<close>

section \<open>Atomic reference counts\<close>

text \<open>A counter has 32 bits and wraps. The functions give the new value; \<open>dec\<close> also the previous one, which it returns.\<close>

definition iree_atomic_ref_count_init_value :: "32 word \<Rightarrow> 32 word" where
  "iree_atomic_ref_count_init_value value = value"

definition iree_atomic_ref_count_init :: "32 word" where
  "iree_atomic_ref_count_init = iree_atomic_ref_count_init_value 1"

definition iree_atomic_ref_count_inc :: "32 word \<Rightarrow> 32 word" where
  "iree_atomic_ref_count_inc count = count + 1"

definition iree_atomic_ref_count_dec :: "32 word \<Rightarrow> 32 word \<times> 32 word" where
  "iree_atomic_ref_count_dec count = (count, count - 1)"

definition iree_atomic_ref_count_load :: "32 word \<Rightarrow> 32 word" where
  "iree_atomic_ref_count_load count = count"

definition iree_atomic_ref_count_abort_if_uses :: "32 word \<Rightarrow> unit res" where
  "iree_atomic_ref_count_abort_if_uses count =
     (if iree_atomic_ref_count_load count \<noteq> 1 then Inl (Thrown ''abort'') else Inr ())"

section \<open>Resources\<close>

record iree_hal_resource_t =
  ref_count :: "32 word"
  vtable :: ptr

record hal_resources =
  live_resources :: "ptr \<rightharpoonup> iree_hal_resource_t"
  destroyed_resources :: "(ptr \<times> ptr) list"

definition iree_hal_resource_initialize :: "ptr \<Rightarrow> ptr \<Rightarrow> (hal_resources, unit) sm" where
  "iree_hal_resource_initialize vt out_resource s =
     (if out_resource = nullptr then Inl NullDeref
      else Inr ((), s\<lparr>live_resources :=
        (live_resources s)(out_resource \<mapsto> \<lparr>ref_count = iree_atomic_ref_count_init, vtable = vt\<rparr>)\<rparr>))"

definition iree_hal_resource_retain :: "ptr \<Rightarrow> (hal_resources, unit) sm" where
  "iree_hal_resource_retain any_resource s =
     (if any_resource = nullptr then Inr ((), s)
      else case live_resources s any_resource of
             None \<Rightarrow> Inl UseAfterFree
           | Some r \<Rightarrow> Inr ((), s\<lparr>live_resources :=
               (live_resources s)(any_resource \<mapsto> r\<lparr>ref_count := iree_atomic_ref_count_inc (ref_count r)\<rparr>)\<rparr>))"

definition iree_hal_resource_release ::
  "(ptr \<Rightarrow> ptr \<Rightarrow> (hal_resources, unit) sm) \<Rightarrow> ptr \<Rightarrow> (hal_resources, unit) sm" where
  "iree_hal_resource_release destroy any_resource s =
     (if any_resource = nullptr then Inr ((), s)
      else case live_resources s any_resource of
             None \<Rightarrow> Inl UseAfterFree
           | Some r \<Rightarrow>
               (let (previous, count) = iree_atomic_ref_count_dec (ref_count r);
                    s = s\<lparr>live_resources := (live_resources s)(any_resource \<mapsto> r\<lparr>ref_count := count\<rparr>)\<rparr>
                in if previous = 1 then destroy (vtable r) any_resource s else Inr ((), s)))"

definition iree_hal_resource_is :: "ptr \<Rightarrow> ptr \<Rightarrow> (hal_resources, bool) sm" where
  "iree_hal_resource_is resource vt s =
     (if resource = nullptr then Inr (False, s)
      else case live_resources s resource of
             None \<Rightarrow> Inl UseAfterFree
           | Some r \<Rightarrow> Inr (vtable r = vt, s))"

section \<open>Resources as a counted type\<close>

text \<open>A method \<open>destroy\<close> that gives the memory of the resource back and records the call.\<close>

definition recording_destroy :: "ptr \<Rightarrow> ptr \<Rightarrow> (hal_resources, unit) sm" where
  "recording_destroy vt resource s =
     Inr ((), s\<lparr>live_resources := (live_resources s)(resource := None),
              destroyed_resources := destroyed_resources s @ [(vt, resource)]\<rparr>)"

definition resource_refs :: "hal_resources \<Rightarrow> ptr \<Rightarrow> nat" where
  "resource_refs s p = (case live_resources s p of None \<Rightarrow> 0 | Some r \<Rightarrow> unat (ref_count r))"

definition resource_deletions :: "hal_resources \<Rightarrow> ptr \<Rightarrow> nat" where
  "resource_deletions s p = count_list (map snd (destroyed_resources s)) p"

definition resources_ok :: "hal_resources \<Rightarrow> bool" where
  "resources_ok s \<longleftrightarrow> (\<forall>p r. live_resources s p = Some r \<longrightarrow> ref_count r \<noteq> 0)"

lemmas ref_count_defs = iree_atomic_ref_count_init_def iree_atomic_ref_count_init_value_def
  iree_atomic_ref_count_inc_def iree_atomic_ref_count_dec_def iree_atomic_ref_count_load_def

interpretation resource: ref_counted "iree_hal_resource_initialize vt" iree_hal_resource_retain
  "iree_hal_resource_release recording_destroy" resource_refs resource_deletions max_object_refs resources_ok for vt
proof
  show "\<exists>s'. iree_hal_resource_initialize vt p s = Inr ((), s') \<and> resources_ok s' \<and>
      resource_refs s' = (resource_refs s)(p := 1) \<and> resource_deletions s' = resource_deletions s"
    if "resources_ok s" "p \<noteq> nullptr" for s p
    using that by (auto simp: iree_hal_resource_initialize_def resource_refs_def resource_deletions_def resources_ok_def
        ref_count_defs)
  show "\<exists>s'. iree_hal_resource_retain p s = Inr ((), s') \<and> resources_ok s' \<and>
      resource_refs s' = (resource_refs s)(p := resource_refs s p + 1) \<and> resource_deletions s' = resource_deletions s"
    if inv: "resources_ok s" and pos: "p \<noteq> nullptr" "0 < resource_refs s p" "resource_refs s p < max_object_refs" for s p
  proof -
    obtain r where r: "live_resources s p = Some r" "unat (ref_count r) < max_object_refs"
      using pos by (auto simp: resource_refs_def split: option.splits)
    then have "ref_count r + 1 \<noteq> 0" using unat_inc_ref [of "ref_count r"] by auto
    then show ?thesis
      using r inv pos(1) by (auto simp: iree_hal_resource_retain_def resource_refs_def resource_deletions_def unat_inc_ref
          resources_ok_def ref_count_defs)
  qed
  show "\<exists>s'. iree_hal_resource_release recording_destroy p s = Inr ((), s') \<and> resources_ok s' \<and>
      resource_refs s' = (resource_refs s)(p := resource_refs s p - 1) \<and>
      resource_deletions s' =
        (resource_deletions s)(p := resource_deletions s p + (if resource_refs s p = 1 then 1 else 0))"
    if inv: "resources_ok s" and pos: "p \<noteq> nullptr" "0 < resource_refs s p" for s p
  proof -
    obtain r where r: "live_resources s p = Some r" "0 < unat (ref_count r)"
      using pos by (auto simp: resource_refs_def split: option.splits)
    have "ref_count r = 1 \<longleftrightarrow> unat (ref_count r) = 1" using word_unat_eq_iff [of "ref_count r" 1] by simp
    then show ?thesis
      using r inv pos(1) by (cases "ref_count r = 1") (auto simp: iree_hal_resource_release_def recording_destroy_def Let_def
          resource_refs_def resource_deletions_def unat_dec_ref resources_ok_def ref_count_defs)
  qed
qed

section \<open>Histories of resources\<close>

datatype resource_op = Initialize ptr ptr | Retain ptr | ReleaseResource ptr

fun resource_exec :: "resource_op \<Rightarrow> (hal_resources, unit) sm" where
  "resource_exec (Initialize vt p) = iree_hal_resource_initialize vt p"
| "resource_exec (Retain p) = iree_hal_resource_retain p"
| "resource_exec (ReleaseResource p) = iree_hal_resource_release recording_destroy p"

fun resource_run :: "resource_op list \<Rightarrow> (hal_resources, unit) sm" where
  "resource_run [] = ret_sm ()"
| "resource_run (op # ops) = bind_sm (resource_exec op) (\<lambda>_. resource_run ops)"

text \<open>The references that the callers hold, and when an operation respects them.\<close>

fun held_after :: "(ptr \<Rightarrow> nat) \<Rightarrow> resource_op \<Rightarrow> ptr \<Rightarrow> nat" where
  "held_after held (Initialize vt p) = held(p := 1)"
| "held_after held (Retain p) = (if p = nullptr then held else held(p := held p + 1))"
| "held_after held (ReleaseResource p) = (if p = nullptr then held else held(p := held p - 1))"

fun resource_legal :: "(ptr \<Rightarrow> nat) \<Rightarrow> resource_op \<Rightarrow> bool" where
  "resource_legal held (Initialize vt p) \<longleftrightarrow> p \<noteq> nullptr \<and> held p = 0"
| "resource_legal held (Retain p) \<longleftrightarrow> p = nullptr \<or> 0 < held p \<and> held p < max_object_refs"
| "resource_legal held (ReleaseResource p) \<longleftrightarrow> p = nullptr \<or> 0 < held p"

fun history_legal :: "(ptr \<Rightarrow> nat) \<Rightarrow> resource_op list \<Rightarrow> bool" where
  "history_legal held [] = True"
| "history_legal held (op # ops) \<longleftrightarrow> resource_legal held op \<and> history_legal (held_after held op) ops"

fun initializes :: "ptr \<Rightarrow> resource_op \<Rightarrow> bool" where
  "initializes p (Initialize vt q) \<longleftrightarrow> q = p"
| "initializes p op = False"

definition resource_start :: hal_resources where
  "resource_start = \<lparr>live_resources = (\<lambda>_. None), destroyed_resources = []\<rparr>"

lemma resource_step:
  assumes "resources_ok s" "resource_legal (resource_refs s) op"
  shows "\<exists>s'. resource_exec op s = Inr ((), s') \<and> resources_ok s' \<and> resource_refs s' = held_after (resource_refs s) op \<and>
    (\<forall>p. resource.created s' p = resource.created s p + (if initializes p op then 1 else 0))"
proof (cases op)
  case (Initialize vt p)
  then show ?thesis
    using resource.create_law [of s p vt] assms by (auto simp: resource.created_def)
next
  case (Retain p)
  show ?thesis
  proof (cases "p = nullptr")
    case True
    then show ?thesis using Retain assms(1) by (simp add: iree_hal_resource_retain_def)
  next
    case False
    then show ?thesis
      using Retain resource.add_law [of s p] assms by (auto simp: resource.created_def)
  qed
next
  case (ReleaseResource p)
  show ?thesis
  proof (cases "p = nullptr")
    case True
    then show ?thesis using ReleaseResource assms(1) by (simp add: iree_hal_resource_release_def)
  next
    case False
    then show ?thesis
      using ReleaseResource resource.release_law [of s p] assms by (auto simp: resource.created_def)
  qed
qed

lemma resource_history:
  assumes "resources_ok s" "history_legal (resource_refs s) ops"
  shows "\<exists>s'. resource_run ops s = Inr ((), s') \<and> resource_refs s' = foldl held_after (resource_refs s) ops \<and>
    (\<forall>p. resource.created s' p = resource.created s p + length (filter (initializes p) ops))"
  using assms
proof (induction ops arbitrary: s)
  case (Cons op ops)
  then obtain s1 where s1: "resource_exec op s = Inr ((), s1)" "resources_ok s1"
    "resource_refs s1 = held_after (resource_refs s) op"
    "\<And>p. resource.created s1 p = resource.created s p + (if initializes p op then 1 else 0)"
    using resource_step [of s op] by auto
  have "history_legal (resource_refs s1) ops" using Cons.prems(2) s1(3) by simp
  from Cons.IH [OF s1(2) this] show ?case using s1 by (auto simp: bind_sm_def)
qed simp

section \<open>Properties\<close>

text \<open>
  C17. Over every history in which resources are retained and released only by holders of a reference, no operation fails, the
  count of a resource is the number of references held, and each resource that was initialized is destroyed once, when its
  last reference is released, and not before.
\<close>
theorem resources_destroyed_once:
  assumes "history_legal (\<lambda>_. 0) ops"
  shows "\<exists>s. resource_run ops resource_start = Inr ((), s) \<and> resource_refs s = foldl held_after (\<lambda>_. 0) ops \<and>
    (\<forall>p. resource_deletions s p + (if foldl held_after (\<lambda>_. 0) ops p > 0 then 1 else 0) =
      length (filter (initializes p) ops))"
proof -
  have "resource_refs resource_start = (\<lambda>_. 0)" "resources_ok resource_start"
    "\<And>p. resource.created resource_start p = 0"
    by (auto simp: resource_refs_def resource_start_def resources_ok_def resource.created_def resource_deletions_def)
  then obtain s where s: "resource_run ops resource_start = Inr ((), s)"
    "resource_refs s = foldl held_after (\<lambda>_. 0) ops" "\<forall>p. resource.created s p = length (filter (initializes p) ops)"
    using resource_history [of resource_start ops] assms by auto
  show ?thesis
    by (rule exI [of _ s]) (use s in \<open>simp only: resource.created_def conj_ac simp_thms\<close>)
qed

theorem resources_destroyed_once_witness:
  "\<exists>s. resource_run [Initialize 7 16, Retain 16, ReleaseResource 16, ReleaseResource 0, ReleaseResource 16] resource_start =
      Inr ((), s) \<and> resource_refs s 16 = 0 \<and> resource_deletions s 16 = 1"
proof -
  define ops where "ops = [Initialize 7 16, Retain 16, ReleaseResource 16, ReleaseResource 0, ReleaseResource 16]"
  have "history_legal (\<lambda>_. 0) ops" by (simp add: ops_def max_object_refs_def)
  then obtain s where s: "resource_run ops resource_start = Inr ((), s)" "resource_refs s = foldl held_after (\<lambda>_. 0) ops"
    "\<And>p. resource_deletions s p + (if foldl held_after (\<lambda>_. 0) ops p > 0 then 1 else 0) = length (filter (initializes p) ops)"
    using resources_destroyed_once [of ops] by blast
  have z: "foldl held_after (\<lambda>_. 0) ops 16 = 0" by (simp add: ops_def)
  then have "resource_refs s 16 = 0" "resource_deletions s 16 = 1"
    using s(2) s(3) [of 16] by (simp_all add: ops_def)
  then show ?thesis using s(1) unfolding ops_def by blast
qed

end
