(* ===== verification/Base_Atomics.thy ===== *)
theory Base_Atomics
  imports Nx_Prelude
begin

unbundle bit_operations_syntax

text \<open>
  \<open>base/internal/atomics_disabled.h\<close>: the atomic operations of builds without threads, which are plain reads and writes. The
  state of an operation is the cell that it works on. The cells hold signed integers, so an addition that does not fit
  is undefined, unlike that of the atomic operations of the other builds, which wraps.
\<close>

section \<open>Signed arithmetic\<close>

definition signed_fits :: "'a::len itself \<Rightarrow> int \<Rightarrow> bool" where
  "signed_fits TYPE('a) n \<longleftrightarrow> - (2 ^ (LENGTH('a) - 1)) \<le> n \<and> n < 2 ^ (LENGTH('a) - 1)"

definition signed_add :: "'a::len word \<Rightarrow> 'a word \<Rightarrow> 'a word res" where
  "signed_add a b = (if signed_fits TYPE('a) (sint a + sint b) then Inr (a + b) else Inl SignedOverflow)"

definition signed_neg :: "'a::len word \<Rightarrow> 'a word res" where
  "signed_neg a = (if signed_fits TYPE('a) (- sint a) then Inr (- a) else Inl SignedOverflow)"

section \<open>32 bits\<close>

definition iree_atomic_load_int32 :: "(u32, u32) sm" where
  "iree_atomic_load_int32 = gets_sm (\<lambda>cell. cell)"

definition iree_atomic_store_int32 :: "u32 \<Rightarrow> (u32, unit) sm" where
  "iree_atomic_store_int32 desired = modify_sm (\<lambda>_. desired)"

definition iree_atomic_fetch_add_int32_impl :: "u32 \<Rightarrow> (u32, u32) sm" where
  "iree_atomic_fetch_add_int32_impl operand cell = bind_res (signed_add cell operand) (\<lambda>v. Inr (cell, v))"

definition iree_atomic_fetch_and_int32_impl :: "u32 \<Rightarrow> (u32, u32) sm" where
  "iree_atomic_fetch_and_int32_impl operand cell = Inr (cell, cell AND operand)"

definition iree_atomic_fetch_or_int32_impl :: "u32 \<Rightarrow> (u32, u32) sm" where
  "iree_atomic_fetch_or_int32_impl operand cell = Inr (cell, cell OR operand)"

definition iree_atomic_fetch_xor_int32_impl :: "u32 \<Rightarrow> (u32, u32) sm" where
  "iree_atomic_fetch_xor_int32_impl operand cell = Inr (cell, cell XOR operand)"

definition iree_atomic_fetch_exchange_int32_impl :: "u32 \<Rightarrow> (u32, u32) sm" where
  "iree_atomic_fetch_exchange_int32_impl desired cell = Inr (cell, desired)"

text \<open>The result and the value left in \<open>expected\<close>.\<close>

definition iree_atomic_compare_exchange_int32_impl :: "u32 \<Rightarrow> u32 \<Rightarrow> (u32, bool \<times> u32) sm" where
  "iree_atomic_compare_exchange_int32_impl expected desired cell =
     (if cell = expected then Inr ((True, expected), desired) else Inr ((False, cell), cell))"

definition iree_atomic_fetch_add_int32 :: "u32 \<Rightarrow> (u32, u32) sm" where
  "iree_atomic_fetch_add_int32 operand = iree_atomic_fetch_add_int32_impl operand"

definition iree_atomic_fetch_sub_int32 :: "u32 \<Rightarrow> (u32, u32) sm" where
  "iree_atomic_fetch_sub_int32 operand = bind_sm (lift_sm (signed_neg operand)) iree_atomic_fetch_add_int32_impl"

definition iree_atomic_compare_exchange_strong_int32 :: "u32 \<Rightarrow> u32 \<Rightarrow> (u32, bool \<times> u32) sm" where
  "iree_atomic_compare_exchange_strong_int32 expected desired = iree_atomic_compare_exchange_int32_impl expected desired"

section \<open>64 bits\<close>

definition iree_atomic_load_int64 :: "(u64, u64) sm" where
  "iree_atomic_load_int64 = gets_sm (\<lambda>cell. cell)"

definition iree_atomic_store_int64 :: "u64 \<Rightarrow> (u64, unit) sm" where
  "iree_atomic_store_int64 desired = modify_sm (\<lambda>_. desired)"

definition iree_atomic_fetch_add_int64_impl :: "u64 \<Rightarrow> (u64, u64) sm" where
  "iree_atomic_fetch_add_int64_impl operand cell = bind_res (signed_add cell operand) (\<lambda>v. Inr (cell, v))"

definition iree_atomic_fetch_and_int64_impl :: "u64 \<Rightarrow> (u64, u64) sm" where
  "iree_atomic_fetch_and_int64_impl operand cell = Inr (cell, cell AND operand)"

definition iree_atomic_fetch_or_int64_impl :: "u64 \<Rightarrow> (u64, u64) sm" where
  "iree_atomic_fetch_or_int64_impl operand cell = Inr (cell, cell OR operand)"

definition iree_atomic_fetch_xor_int64_impl :: "u64 \<Rightarrow> (u64, u64) sm" where
  "iree_atomic_fetch_xor_int64_impl operand cell = Inr (cell, cell XOR operand)"

definition iree_atomic_fetch_exchange_int64_impl :: "u64 \<Rightarrow> (u64, u64) sm" where
  "iree_atomic_fetch_exchange_int64_impl desired cell = Inr (cell, desired)"

definition iree_atomic_compare_exchange_int64_impl :: "u64 \<Rightarrow> u64 \<Rightarrow> (u64, bool \<times> u64) sm" where
  "iree_atomic_compare_exchange_int64_impl expected desired cell =
     (if cell = expected then Inr ((True, expected), desired) else Inr ((False, cell), cell))"

definition iree_atomic_fetch_add_int64 :: "u64 \<Rightarrow> (u64, u64) sm" where
  "iree_atomic_fetch_add_int64 operand = iree_atomic_fetch_add_int64_impl operand"

definition iree_atomic_fetch_sub_int64 :: "u64 \<Rightarrow> (u64, u64) sm" where
  "iree_atomic_fetch_sub_int64 operand = bind_sm (lift_sm (signed_neg operand)) iree_atomic_fetch_add_int64_impl"

definition iree_atomic_compare_exchange_strong_int64 :: "u64 \<Rightarrow> u64 \<Rightarrow> (u64, bool \<times> u64) sm" where
  "iree_atomic_compare_exchange_strong_int64 expected desired = iree_atomic_compare_exchange_int64_impl expected desired"

section \<open>Comparison with atomic additions\<close>

text \<open>What a read-modify-write operation does: it gives the old value and applies a function to the cell.\<close>

definition fetch_and_apply :: "('a::len word \<Rightarrow> 'a word) \<Rightarrow> ('a word, 'a word) sm" where
  "fetch_and_apply f cell = Inr (cell, f cell)"

lemma sint_neg_fits:
  assumes "signed_fits TYPE('a) (- sint x)"
  shows "sint (- x) = - sint (x :: 'a::len word)"
proof -
  have "- x = word_of_int (- sint x)" by simp
  then have "sint (- x) = signed_take_bit (LENGTH('a) - 1) (- sint x)" by (simp only: sint_sbintrunc')
  then show ?thesis using assms by (simp add: signed_take_bit_int_eq_self signed_fits_def)
qed

lemma neg_fits_iff: "signed_fits TYPE('a) (- sint x) \<longleftrightarrow> sint (x :: 'a::len word) \<noteq> - (2 ^ (LENGTH('a) - 1))"
  using sint_ge [of x] sint_lt [of x] by (auto simp: signed_fits_def)

lemma signed_add_neg:
  "bind_res (signed_neg n) (signed_add (c :: 'a::len word)) =
     (if sint n \<noteq> - (2 ^ (LENGTH('a) - 1)) \<and> signed_fits TYPE('a) (sint c - sint n) then Inr (c - n) else Inl SignedOverflow)"
  using neg_fits_iff [of n] sint_neg_fits [of n] by (auto simp: signed_neg_def signed_add_def)

text \<open>
  Additions to and subtractions from a cell are those of an atomic integer as long as the result is a signed integer of the
  width of the cell; elsewhere they are undefined, and so is the subtraction of the least integer from every cell, even where
  the difference is representable.
\<close>
theorem disabled_atomics_overflow:
  "iree_atomic_fetch_add_int32 n cell =
     (if signed_fits TYPE(32) (sint cell + sint n) then fetch_and_apply (\<lambda>c. c + n) cell else Inl SignedOverflow) \<and>
   iree_atomic_fetch_sub_int32 n cell =
     (if sint n \<noteq> - (2 ^ 31) \<and> signed_fits TYPE(32) (sint cell - sint n) then fetch_and_apply (\<lambda>c. c - n) cell
      else Inl SignedOverflow) \<and>
   iree_atomic_fetch_add_int64 m cell' =
     (if signed_fits TYPE(64) (sint cell' + sint m) then fetch_and_apply (\<lambda>c. c + m) cell' else Inl SignedOverflow) \<and>
   iree_atomic_fetch_sub_int64 m cell' =
     (if sint m \<noteq> - (2 ^ 63) \<and> signed_fits TYPE(64) (sint cell' - sint m) then fetch_and_apply (\<lambda>c. c - m) cell'
      else Inl SignedOverflow) \<and>
   iree_atomic_fetch_sub_int32 0x80000000 0xFFFFFFFF = Inl SignedOverflow"
proof (intro conjI)
  show "iree_atomic_fetch_sub_int32 n cell =
     (if sint n \<noteq> - (2 ^ 31) \<and> signed_fits TYPE(32) (sint cell - sint n) then fetch_and_apply (\<lambda>c. c - n) cell
      else Inl SignedOverflow)"
    using signed_add_neg [of n cell]
    by (auto simp: iree_atomic_fetch_sub_int32_def iree_atomic_fetch_add_int32_impl_def fetch_and_apply_def bind_sm_def
        lift_sm_def bind_res_def split: sum.splits if_splits)
  show "iree_atomic_fetch_sub_int64 m cell' =
     (if sint m \<noteq> - (2 ^ 63) \<and> signed_fits TYPE(64) (sint cell' - sint m) then fetch_and_apply (\<lambda>c. c - m) cell'
      else Inl SignedOverflow)"
    using signed_add_neg [of m cell']
    by (auto simp: iree_atomic_fetch_sub_int64_def iree_atomic_fetch_add_int64_impl_def fetch_and_apply_def bind_sm_def
        lift_sm_def bind_res_def split: sum.splits if_splits)
  show "iree_atomic_fetch_sub_int32 0x80000000 0xFFFFFFFF = Inl SignedOverflow"
    by (simp add: iree_atomic_fetch_sub_int32_def signed_neg_def signed_fits_def)
qed (simp_all add: iree_atomic_fetch_add_int32_def iree_atomic_fetch_add_int64_def iree_atomic_fetch_add_int32_impl_def
    iree_atomic_fetch_add_int64_impl_def signed_add_def fetch_and_apply_def)

end
