(* ===== verification/Hal_Plugin.thy ===== *)
theory Hal_Plugin
  imports Base_Span Iree_Status
begin

unbundle bit_operations_syntax

text \<open>
  The inline functions of \<open>hal/local/executable_plugin.h\<close>, which a plugin uses without the runtime library: allocation through
  the function of an allocator, the test for optional imports, and the comparison of symbol names, which finds the imports
  in a sorted list. Memory is the list of its bytes; the two strings may share it.
\<close>

section \<open>Statuses\<close>

datatype plugin_status_code =
    IREE_HAL_EXECUTABLE_PLUGIN_STATUS_OK
  | IREE_HAL_EXECUTABLE_PLUGIN_STATUS_CANCELLED
  | IREE_HAL_EXECUTABLE_PLUGIN_STATUS_UNKNOWN
  | IREE_HAL_EXECUTABLE_PLUGIN_STATUS_INVALID_ARGUMENT
  | IREE_HAL_EXECUTABLE_PLUGIN_STATUS_DEADLINE_EXCEEDED
  | IREE_HAL_EXECUTABLE_PLUGIN_STATUS_NOT_FOUND
  | IREE_HAL_EXECUTABLE_PLUGIN_STATUS_ALREADY_EXISTS
  | IREE_HAL_EXECUTABLE_PLUGIN_STATUS_PERMISSION_DENIED
  | IREE_HAL_EXECUTABLE_PLUGIN_STATUS_RESOURCE_EXHAUSTED
  | IREE_HAL_EXECUTABLE_PLUGIN_STATUS_FAILED_PRECONDITION
  | IREE_HAL_EXECUTABLE_PLUGIN_STATUS_ABORTED
  | IREE_HAL_EXECUTABLE_PLUGIN_STATUS_OUT_OF_RANGE
  | IREE_HAL_EXECUTABLE_PLUGIN_STATUS_UNIMPLEMENTED
  | IREE_HAL_EXECUTABLE_PLUGIN_STATUS_INTERNAL
  | IREE_HAL_EXECUTABLE_PLUGIN_STATUS_UNAVAILABLE
  | IREE_HAL_EXECUTABLE_PLUGIN_STATUS_DATA_LOSS
  | IREE_HAL_EXECUTABLE_PLUGIN_STATUS_UNAUTHENTICATED
  | IREE_HAL_EXECUTABLE_PLUGIN_STATUS_DEFERRED

fun plugin_status_code_value :: "plugin_status_code \<Rightarrow> u64" where
  "plugin_status_code_value IREE_HAL_EXECUTABLE_PLUGIN_STATUS_OK = 0"
| "plugin_status_code_value IREE_HAL_EXECUTABLE_PLUGIN_STATUS_CANCELLED = 1"
| "plugin_status_code_value IREE_HAL_EXECUTABLE_PLUGIN_STATUS_UNKNOWN = 2"
| "plugin_status_code_value IREE_HAL_EXECUTABLE_PLUGIN_STATUS_INVALID_ARGUMENT = 3"
| "plugin_status_code_value IREE_HAL_EXECUTABLE_PLUGIN_STATUS_DEADLINE_EXCEEDED = 4"
| "plugin_status_code_value IREE_HAL_EXECUTABLE_PLUGIN_STATUS_NOT_FOUND = 5"
| "plugin_status_code_value IREE_HAL_EXECUTABLE_PLUGIN_STATUS_ALREADY_EXISTS = 6"
| "plugin_status_code_value IREE_HAL_EXECUTABLE_PLUGIN_STATUS_PERMISSION_DENIED = 7"
| "plugin_status_code_value IREE_HAL_EXECUTABLE_PLUGIN_STATUS_RESOURCE_EXHAUSTED = 8"
| "plugin_status_code_value IREE_HAL_EXECUTABLE_PLUGIN_STATUS_FAILED_PRECONDITION = 9"
| "plugin_status_code_value IREE_HAL_EXECUTABLE_PLUGIN_STATUS_ABORTED = 10"
| "plugin_status_code_value IREE_HAL_EXECUTABLE_PLUGIN_STATUS_OUT_OF_RANGE = 11"
| "plugin_status_code_value IREE_HAL_EXECUTABLE_PLUGIN_STATUS_UNIMPLEMENTED = 12"
| "plugin_status_code_value IREE_HAL_EXECUTABLE_PLUGIN_STATUS_INTERNAL = 13"
| "plugin_status_code_value IREE_HAL_EXECUTABLE_PLUGIN_STATUS_UNAVAILABLE = 14"
| "plugin_status_code_value IREE_HAL_EXECUTABLE_PLUGIN_STATUS_DATA_LOSS = 15"
| "plugin_status_code_value IREE_HAL_EXECUTABLE_PLUGIN_STATUS_UNAUTHENTICATED = 16"
| "plugin_status_code_value IREE_HAL_EXECUTABLE_PLUGIN_STATUS_DEFERRED = 17"

definition IREE_HAL_EXECUTABLE_PLUGIN_STATUS_CODE_MASK :: u64 where
  "IREE_HAL_EXECUTABLE_PLUGIN_STATUS_CODE_MASK = 0x1F"

definition iree_hal_executable_plugin_status_from_code :: "u64 \<Rightarrow> u64" where
  "iree_hal_executable_plugin_status_from_code code = code AND IREE_HAL_EXECUTABLE_PLUGIN_STATUS_CODE_MASK"

definition iree_hal_executable_plugin_status_code :: "u64 \<Rightarrow> u64" where
  "iree_hal_executable_plugin_status_code value = value AND IREE_HAL_EXECUTABLE_PLUGIN_STATUS_CODE_MASK"

definition iree_hal_executable_plugin_ok_status :: u64 where
  "iree_hal_executable_plugin_ok_status =
     iree_hal_executable_plugin_status_from_code (plugin_status_code_value IREE_HAL_EXECUTABLE_PLUGIN_STATUS_OK)"

definition iree_hal_executable_plugin_status_is_ok :: "u64 \<Rightarrow> bool" where
  "iree_hal_executable_plugin_status_is_ok value \<longleftrightarrow> value = plugin_status_code_value IREE_HAL_EXECUTABLE_PLUGIN_STATUS_OK"

text \<open>The codes of the runtime that the plugin's are a copy of.\<close>

fun runtime_code :: "plugin_status_code \<Rightarrow> iree_status_code_t" where
  "runtime_code IREE_HAL_EXECUTABLE_PLUGIN_STATUS_OK = IREE_STATUS_OK"
| "runtime_code IREE_HAL_EXECUTABLE_PLUGIN_STATUS_CANCELLED = IREE_STATUS_CANCELLED"
| "runtime_code IREE_HAL_EXECUTABLE_PLUGIN_STATUS_UNKNOWN = IREE_STATUS_UNKNOWN"
| "runtime_code IREE_HAL_EXECUTABLE_PLUGIN_STATUS_INVALID_ARGUMENT = IREE_STATUS_INVALID_ARGUMENT"
| "runtime_code IREE_HAL_EXECUTABLE_PLUGIN_STATUS_DEADLINE_EXCEEDED = IREE_STATUS_DEADLINE_EXCEEDED"
| "runtime_code IREE_HAL_EXECUTABLE_PLUGIN_STATUS_NOT_FOUND = IREE_STATUS_NOT_FOUND"
| "runtime_code IREE_HAL_EXECUTABLE_PLUGIN_STATUS_ALREADY_EXISTS = IREE_STATUS_ALREADY_EXISTS"
| "runtime_code IREE_HAL_EXECUTABLE_PLUGIN_STATUS_PERMISSION_DENIED = IREE_STATUS_PERMISSION_DENIED"
| "runtime_code IREE_HAL_EXECUTABLE_PLUGIN_STATUS_RESOURCE_EXHAUSTED = IREE_STATUS_RESOURCE_EXHAUSTED"
| "runtime_code IREE_HAL_EXECUTABLE_PLUGIN_STATUS_FAILED_PRECONDITION = IREE_STATUS_FAILED_PRECONDITION"
| "runtime_code IREE_HAL_EXECUTABLE_PLUGIN_STATUS_ABORTED = IREE_STATUS_ABORTED"
| "runtime_code IREE_HAL_EXECUTABLE_PLUGIN_STATUS_OUT_OF_RANGE = IREE_STATUS_OUT_OF_RANGE"
| "runtime_code IREE_HAL_EXECUTABLE_PLUGIN_STATUS_UNIMPLEMENTED = IREE_STATUS_UNIMPLEMENTED"
| "runtime_code IREE_HAL_EXECUTABLE_PLUGIN_STATUS_INTERNAL = IREE_STATUS_INTERNAL"
| "runtime_code IREE_HAL_EXECUTABLE_PLUGIN_STATUS_UNAVAILABLE = IREE_STATUS_UNAVAILABLE"
| "runtime_code IREE_HAL_EXECUTABLE_PLUGIN_STATUS_DATA_LOSS = IREE_STATUS_DATA_LOSS"
| "runtime_code IREE_HAL_EXECUTABLE_PLUGIN_STATUS_UNAUTHENTICATED = IREE_STATUS_UNAUTHENTICATED"
| "runtime_code IREE_HAL_EXECUTABLE_PLUGIN_STATUS_DEFERRED = IREE_STATUS_DEFERRED"

lemma plugin_statuses_match:
  "plugin_status_code_value c = iree_status_code_value (runtime_code c)"
  "iree_hal_executable_plugin_status_from_code = iree_status_from_code"
  "iree_hal_executable_plugin_status_code = iree_status_code"
  "iree_hal_executable_plugin_status_is_ok = iree_status_is_ok"
  by (cases c; simp)
    (simp_all add: fun_eq_iff iree_hal_executable_plugin_status_from_code_def iree_status_from_code_def
      iree_hal_executable_plugin_status_code_def iree_status_code_def iree_hal_executable_plugin_status_is_ok_def
      iree_status_is_ok_def IREE_HAL_EXECUTABLE_PLUGIN_STATUS_CODE_MASK_def IREE_STATUS_CODE_MASK_def)

section \<open>Allocators\<close>

datatype plugin_allocator_command =
    IREE_HAL_EXECUTABLE_PLUGIN_ALLOCATOR_COMMAND_MALLOC
  | IREE_HAL_EXECUTABLE_PLUGIN_ALLOCATOR_COMMAND_CALLOC
  | IREE_HAL_EXECUTABLE_PLUGIN_ALLOCATOR_COMMAND_REALLOC
  | IREE_HAL_EXECUTABLE_PLUGIN_ALLOCATOR_COMMAND_FREE

text \<open>
  An allocator is its \<open>self\<close> and its control function, which takes the command, the size where there are parameters, and the
  pointer that it reads and writes; it gives a status, 0 for success, and the pointer.
\<close>

record 'w plugin_allocator =
  alloc_self :: ptr
  alloc_ctl :: "ptr \<Rightarrow> plugin_allocator_command \<Rightarrow> iree_host_size_t option \<Rightarrow> ptr \<Rightarrow> ('w, ptr \<times> ptr) sm"

definition iree_hal_executable_plugin_allocator_malloc ::
  "'w plugin_allocator \<Rightarrow> iree_host_size_t \<Rightarrow> ptr \<Rightarrow> ('w, ptr \<times> ptr) sm" where
  "iree_hal_executable_plugin_allocator_malloc allocator byte_length inout_ptr =
     alloc_ctl allocator (alloc_self allocator) IREE_HAL_EXECUTABLE_PLUGIN_ALLOCATOR_COMMAND_MALLOC (Some byte_length) inout_ptr"

definition iree_hal_executable_plugin_allocator_free ::
  "'w plugin_allocator \<Rightarrow> ptr \<Rightarrow> ('w, ptr) sm" where
  "iree_hal_executable_plugin_allocator_free allocator p =
     bind_sm (alloc_ctl allocator (alloc_self allocator) IREE_HAL_EXECUTABLE_PLUGIN_ALLOCATOR_COMMAND_FREE None p) (\<lambda>r.
     ret_sm (fst r))"

section \<open>Names of imports\<close>

text \<open>\<open>'?'\<close> is the byte 63.\<close>

definition iree_hal_executable_plugin_import_is_optional :: "u8 list \<Rightarrow> elem_ptr \<Rightarrow> bool res" where
  "iree_hal_executable_plugin_import_is_optional mem symbol_name =
     (if symbol_name \<noteq> None then bind_res (deref mem symbol_name) (\<lambda>c. Inr (c = 63)) else Inr False)"

function strcmp_loop :: "u8 list \<Rightarrow> int \<Rightarrow> int \<Rightarrow> int res" where
  "strcmp_loop mem lhs rhs =
     (case deref mem (Some lhs) of
        Inl e \<Rightarrow> Inl e
      | Inr lhsc \<Rightarrow>
          (case deref mem (Some rhs) of
             Inl e \<Rightarrow> Inl e
           | Inr rhsc \<Rightarrow>
               if lhsc = 0 then Inr (uint lhsc - uint rhsc)
               else if lhsc = rhsc then strcmp_loop mem (lhs + 1) (rhs + 1)
               else Inr (uint lhsc - uint rhsc)))"
  by pat_completeness auto
termination by (relation "measure (\<lambda>(mem, lhs, rhs). nat (int (length mem) - lhs))") (auto simp: deref_def split: if_splits)

declare strcmp_loop.simps [simp del]

definition iree_hal_executable_plugin_strcmp :: "u8 list \<Rightarrow> elem_ptr \<Rightarrow> elem_ptr \<Rightarrow> int res" where
  "iree_hal_executable_plugin_strcmp mem lhs rhs =
     (case (lhs, rhs) of (Some l, Some r) \<Rightarrow> strcmp_loop mem l r | _ \<Rightarrow> Inl NullDeref)"

section \<open>C strings\<close>

text \<open>\<open>holds_string mem i s\<close>: the bytes of \<open>s\<close>, none of which is zero, are at \<open>i\<close>, followed by a zero.\<close>

definition holds_string :: "u8 list \<Rightarrow> int \<Rightarrow> u8 list \<Rightarrow> bool" where
  "holds_string mem i s \<longleftrightarrow> 0 \<le> i \<and> 0 \<notin> set s \<and> (\<exists>rest. drop (nat i) mem = s @ 0 # rest)"

lemma holds_Nil: "holds_string mem i [] \<Longrightarrow> deref mem (Some i) = Inr 0"
  by (auto simp: holds_string_def deref_def dest: arg_cong [where f = length] arg_cong [where f = "\<lambda>l. l ! 0"])

lemma holds_Cons:
  assumes "holds_string mem i (c # s)"
  shows "deref mem (Some i) = Inr c" "c \<noteq> 0" "holds_string mem (i + 1) s" "0 \<le> i \<and> i < int (length mem)"
proof -
  obtain rest where d: "drop (nat i) mem = c # s @ 0 # rest" and i: "0 \<le> i" "0 \<notin> set (c # s)"
    using assms by (auto simp: holds_string_def)
  have l: "nat i < length mem" using d by (metis drop_all linorder_not_less list.distinct(1))
  then have "mem ! nat i = c" using d by (metis Cons_nth_drop_Suc list.inject)
  then show "deref mem (Some i) = Inr c" using i l by (simp add: deref_def)
  show "c \<noteq> 0" using i by auto
  have "drop (nat (i + 1)) mem = s @ 0 # rest"
    using d l i(1) by (metis Cons_nth_drop_Suc Suc_nat_eq_nat_zadd1 add.commute list.inject)
  then show "holds_string mem (i + 1) s" using i by (auto simp: holds_string_def)
  show "0 \<le> i \<and> i < int (length mem)" using i(1) l by linarith
qed

lemma uint_pos: "c \<noteq> 0 \<Longrightarrow> 0 < uint (c :: 'a::len word)"
  using uint_ge_0 [of c] by (auto simp: order_le_less uint_0_iff)

lemma strcmp_loop_compares:
  assumes "holds_string mem l s" "holds_string mem r t"
  shows "\<exists>d. strcmp_loop mem l r = Inr d \<and> (d = 0 \<longleftrightarrow> s = t) \<and> (d < 0 \<longleftrightarrow> ord_class.lexordp s t)"
  using assms
proof (induction s arbitrary: l r t)
  case Nil
  show ?case
  proof (cases t)
    case Nil
    then show ?thesis
      using holds_Nil [OF Nil.prems(1)] holds_Nil [of mem r] Nil.prems(2) by (simp add: strcmp_loop.simps)
  next
    case (Cons y t')
    have "0 < uint y" using holds_Cons(2) [of mem r y t'] Nil.prems(2) Cons by (simp add: uint_pos)
    then show ?thesis
      using Cons holds_Nil [OF Nil.prems(1)] holds_Cons(1) [of mem r y t'] Nil.prems(2) by (simp add: strcmp_loop.simps)
  qed
next
  case (Cons x s')
  note x = holds_Cons [OF Cons.prems(1)]
  show ?case
  proof (cases t)
    case Nil
    then have "deref mem (Some r) = Inr 0" using Cons.prems(2) holds_Nil by blast
    moreover have "0 < uint x" using x(2) by (rule uint_pos)
    ultimately show ?thesis using Nil x by (simp add: strcmp_loop.simps [of mem l r])
  next
    case (Cons y t')
    then have y: "deref mem (Some r) = Inr y" "holds_string mem (r + 1) t'"
      using holds_Cons [of mem r y t'] Cons.prems(2) by simp_all
    show ?thesis
    proof (cases "x = y")
      case True
      then have "strcmp_loop mem l r = strcmp_loop mem (l + 1) (r + 1)"
        using x y by (simp add: strcmp_loop.simps [of mem l r])
      then show ?thesis using Cons.IH [OF x(3) y(2)] True Cons by simp
    next
      case False
      then have "strcmp_loop mem l r = Inr (uint x - uint y)"
        using x y by (simp add: strcmp_loop.simps [of mem l r])
      moreover have "uint x \<noteq> uint y" using False by (simp add: word_uint_eq_iff)
      ultimately show ?thesis using False Cons by (auto simp: word_less_def)
    qed
  qed
qed

section \<open>Properties\<close>

text \<open>
  C39. Comparing two terminated strings reads neither past its terminator, ends, and gives zero exactly for equal strings and a
  negative number exactly when the first comes before the second in the lexicographic order of unsigned bytes.
\<close>
theorem strcmp_is_lexicographic:
  assumes "holds_string mem l s" "holds_string mem r t"
  shows "\<exists>d. iree_hal_executable_plugin_strcmp mem (Some l) (Some r) = Inr d \<and>
    (d = 0 \<longleftrightarrow> s = t) \<and> (d < 0 \<longleftrightarrow> ord_class.lexordp s t) \<and> (0 < d \<longleftrightarrow> ord_class.lexordp t s)"
proof -
  obtain d where d: "strcmp_loop mem l r = Inr d" "d = 0 \<longleftrightarrow> s = t" "d < 0 \<longleftrightarrow> ord_class.lexordp s t"
    using strcmp_loop_compares [OF assms] by blast
  have "ord_class.lexordp s t \<or> s = t \<or> ord_class.lexordp t s" by (rule lexordp_linear)
  moreover have "\<not> (ord_class.lexordp s t \<and> ord_class.lexordp t s)" "\<not> ord_class.lexordp t t" by (auto dest: lexordp_antisym simp: lexordp_irreflexive')
  ultimately have "0 < d \<longleftrightarrow> ord_class.lexordp t s" using d(2,3) by (metis less_irrefl linorder_neqE_linordered_idom not_less_iff_gr_or_eq)
  then show ?thesis using d by (simp add: iree_hal_executable_plugin_strcmp_def)
qed

text \<open>The strings \<open>ab\<close> and \<open>ac\<close>, one after the other.\<close>

definition sample_strings :: "u8 list" where
  "sample_strings = [97, 98, 0, 97, 99, 0]"

theorem strcmp_is_lexicographic_witness:
  "\<exists>d. iree_hal_executable_plugin_strcmp sample_strings (Some 0) (Some 3) = Inr d \<and> d < 0"
proof -
  have "holds_string sample_strings 0 [97, 98]" "holds_string sample_strings 3 [97, 99]"
    by (simp_all add: holds_string_def sample_strings_def)
  from strcmp_is_lexicographic [OF this] show ?thesis by auto
qed

end
