(* ===== verification/Atomic_Slist.thy ===== *)
theory Atomic_Slist
  imports Nx_Prelude
begin

text \<open>
  \<open>base/internal/atomic_slist.h\<close>: the typed wrappers that \<open>IREE_TYPED_ATOMIC_SLIST_WRAPPER\<close> generates around the singly linked list
  of the library. A list links entries, which are fields of the objects at the offset \<open>next_offset\<close>; the wrappers turn
  pointers to objects into pointers to entries and back. The functions of the library are the fields of \<open>slist_library\<close>.
\<close>

section \<open>State and library\<close>

text \<open>The field \<open>next\<close> of every entry that exists, and the field \<open>head\<close> of the list.\<close>

record slist_state =
  entry_next :: "ptr \<rightharpoonup> ptr"
  list_head :: ptr

datatype iree_atomic_slist_flush_order_t =
    IREE_ATOMIC_SLIST_FLUSH_ORDER_APPROXIMATE_LIFO
  | IREE_ATOMIC_SLIST_FLUSH_ORDER_APPROXIMATE_FIFO

text \<open>\<open>flush\<close> takes the order and whether the tail is asked for, and gives the result, the head and the tail.\<close>

record slist_library =
  iree_atomic_slist_initialize :: "(slist_state, unit) sm"
  iree_atomic_slist_deinitialize :: "(slist_state, unit) sm"
  iree_atomic_slist_push :: "ptr \<Rightarrow> (slist_state, unit) sm"
  iree_atomic_slist_push_unsafe :: "ptr \<Rightarrow> (slist_state, unit) sm"
  iree_atomic_slist_concat :: "ptr \<Rightarrow> ptr \<Rightarrow> (slist_state, unit) sm"
  iree_atomic_slist_pop :: "(slist_state, ptr) sm"
  iree_atomic_slist_flush :: "iree_atomic_slist_flush_order_t \<Rightarrow> bool \<Rightarrow> (slist_state, bool \<times> ptr \<times> ptr) sm"

section \<open>The typed wrappers\<close>

definition slist_entry_from_ptr :: "u64 \<Rightarrow> ptr \<Rightarrow> ptr" where
  "slist_entry_from_ptr next_offset entry = (if entry \<noteq> nullptr then entry + next_offset else nullptr)"

definition slist_entry_to_ptr :: "u64 \<Rightarrow> ptr \<Rightarrow> ptr" where
  "slist_entry_to_ptr next_offset entry = (if entry \<noteq> nullptr then entry - next_offset else nullptr)"


definition store_next :: "ptr \<Rightarrow> ptr \<Rightarrow> (slist_state, unit) sm" where
  "store_next e n s =
     (if e = nullptr then Inl NullDeref
      else case entry_next s e of
             None \<Rightarrow> Inl UseAfterFree
           | Some _ \<Rightarrow> Inr ((), s\<lparr>entry_next := (entry_next s)(e \<mapsto> n)\<rparr>))"


definition slist_set_next :: "u64 \<Rightarrow> ptr \<Rightarrow> ptr \<Rightarrow> (slist_state, unit) sm" where
  "slist_set_next next_offset entry nxt =
     store_next (slist_entry_from_ptr next_offset entry) (slist_entry_from_ptr next_offset nxt)"

definition slist_initialize :: "slist_library \<Rightarrow> (slist_state, unit) sm" where
  "slist_initialize lib = iree_atomic_slist_initialize lib"

definition slist_deinitialize :: "slist_library \<Rightarrow> (slist_state, unit) sm" where
  "slist_deinitialize lib = iree_atomic_slist_deinitialize lib"


definition slist_push_unsafe :: "slist_library \<Rightarrow> u64 \<Rightarrow> ptr \<Rightarrow> (slist_state, unit) sm" where
  "slist_push_unsafe lib next_offset entry = iree_atomic_slist_push_unsafe lib (slist_entry_from_ptr next_offset entry)"

definition slist_concat :: "slist_library \<Rightarrow> u64 \<Rightarrow> ptr \<Rightarrow> ptr \<Rightarrow> (slist_state, unit) sm" where
  "slist_concat lib next_offset head tail =
     iree_atomic_slist_concat lib (slist_entry_from_ptr next_offset head) (slist_entry_from_ptr next_offset tail)"

definition slist_pop :: "slist_library \<Rightarrow> u64 \<Rightarrow> (slist_state, ptr) sm" where
  "slist_pop lib next_offset = bind_sm (iree_atomic_slist_pop lib) (\<lambda>e. ret_sm (slist_entry_to_ptr next_offset e))"


section \<open>What a list holds\<close>

fun next_chain :: "(ptr \<rightharpoonup> ptr) \<Rightarrow> ptr \<Rightarrow> ptr list \<Rightarrow> bool" where
  "next_chain m p [] \<longleftrightarrow> p = nullptr"
| "next_chain m p (e # es) \<longleftrightarrow> p = e \<and> e \<noteq> nullptr \<and> (\<exists>n. m e = Some n \<and> next_chain m n es)"


definition list_of_entries :: "slist_state \<Rightarrow> ptr list \<Rightarrow> bool" where
  "list_of_entries s es \<longleftrightarrow> distinct es \<and> next_chain (entry_next s) (list_head s) es"

text \<open>
  What the library documents of the list when one thread uses it: \<open>push\<close> and \<open>pop\<close> work on its head, and \<open>flush\<close> takes all
  entries, in the order of the list, as a chain whose last entry is the tail.
\<close>

definition stack_library :: "slist_library \<Rightarrow> bool" where
  "stack_library lib \<longleftrightarrow>
     (\<forall>s es e. list_of_entries s es \<longrightarrow> e \<noteq> nullptr \<longrightarrow> e \<notin> set es \<longrightarrow> entry_next s e \<noteq> None \<longrightarrow>
        (\<exists>s'. iree_atomic_slist_push lib e s = Inr ((), s') \<and> list_of_entries s' (e # es))) \<and>
     (\<forall>s. list_of_entries s [] \<longrightarrow> iree_atomic_slist_pop lib s = Inr (nullptr, s)) \<and>
     (\<forall>s es e. list_of_entries s (e # es) \<longrightarrow>
        (\<exists>s'. iree_atomic_slist_pop lib s = Inr (e, s') \<and> list_of_entries s' es)) \<and>
     (\<forall>s tail_given. list_of_entries s [] \<longrightarrow> 
        (\<exists>h t. iree_atomic_slist_flush lib IREE_ATOMIC_SLIST_FLUSH_ORDER_APPROXIMATE_LIFO tail_given s =
           Inr ((False, h, t), s))) \<and>
     (\<forall>s es tail_given. list_of_entries s es \<longrightarrow> es \<noteq> [] \<longrightarrow>
        (\<exists>h t s'. iree_atomic_slist_flush lib IREE_ATOMIC_SLIST_FLUSH_ORDER_APPROXIMATE_LIFO tail_given s =
           Inr ((True, h, t), s') \<and> list_of_entries s' [] \<and> next_chain (entry_next s') h es \<and>
           (tail_given \<longrightarrow> t = last es)))"

text \<open>The objects that a typed list holds: pointers whose entry is not at the address zero.\<close>

definition valid_object :: "u64 \<Rightarrow> ptr \<Rightarrow> bool" where
  "valid_object next_offset p \<longleftrightarrow> p \<noteq> nullptr \<and> p + next_offset \<noteq> nullptr"

definition holds_objects :: "u64 \<Rightarrow> slist_state \<Rightarrow> ptr list \<Rightarrow> bool" where
  "holds_objects next_offset s ps \<longleftrightarrow>
     (\<forall>p \<in> set ps. valid_object next_offset p) \<and> list_of_entries s (map (slist_entry_from_ptr next_offset) ps)"








lemma typed_pop_empty:
  assumes "stack_library lib" "holds_objects off s []"
  shows "slist_pop lib off s = Inr (nullptr, s)"
  using assms by (simp add: stack_library_def holds_objects_def slist_pop_def bind_sm_def slist_entry_to_ptr_def)


section \<open>Properties\<close>









end
