(* ===== verification/Ieee_Float.thy ===== *)
theory Ieee_Float
  imports Complex_Main "HOL-Library.Log_Nat"
begin

text \<open>
  The floating-point arithmetic of C on a machine that follows IEEE 754, with the rounding to nearest even that is in effect
  when a program starts. A number is its value: a NaN, an infinity with its sign, or a sign and a magnitude, so that the two
  zeros differ; the payload of a NaN is not represented. Values are rational numbers, and rounding is computed, so that every
  operation can be evaluated.
\<close>

section \<open>Formats and rounding\<close>

text \<open>The bits of the significand, the exponent of the smallest positive number, and the exponent of the largest binade.\<close>

record ieee_format =
  precision :: nat
  min_exp :: int
  max_exp :: int

definition binary32 :: ieee_format where "binary32 = \<lparr>precision = 24, min_exp = - 149, max_exp = 127\<rparr>"
definition binary64 :: ieee_format where "binary64 = \<lparr>precision = 53, min_exp = - 1074, max_exp = 1023\<rparr>"

datatype fval = FNaN | FInf bool | FFin bool rat

definition with_sign :: "bool \<Rightarrow> rat \<Rightarrow> rat" where
  "with_sign negative q = (if negative then - q else q)"

definition two_pow :: "int \<Rightarrow> rat" where
  "two_pow e = (if 0 \<le> e then 2 ^ nat e else 1 / 2 ^ nat (- e))"

definition round_half_even :: "rat \<Rightarrow> int" where
  "round_half_even x =
     (let f = \<lfloor>x\<rfloor>; r = x - of_int f
      in if r < 1 / 2 then f else if 1 / 2 < r then f + 1 else if even f then f else f + 1)"

definition round_half_away :: "rat \<Rightarrow> int" where
  "round_half_away x = (if x < 0 then - \<lfloor>1 / 2 - x\<rfloor> else \<lfloor>x + 1 / 2\<rfloor>)"

text \<open>The exponent of the binade of a positive number.\<close>

definition binade :: "rat \<Rightarrow> int" where
  "binade q =
     (let (n, d) = quotient_of q;
          k = bitlen n - bitlen d
      in if two_pow k \<le> q then k else k - 1)"

definition unit_exp :: "ieee_format \<Rightarrow> rat \<Rightarrow> int" where
  "unit_exp F q = max (min_exp F) (binade q - int (precision F) + 1)"

definition round_magnitude :: "ieee_format \<Rightarrow> rat \<Rightarrow> rat" where
  "round_magnitude F q =
     (if q = 0 then 0 else of_int (round_half_even (q / two_pow (unit_exp F q))) * two_pow (unit_exp F q))"

definition f_rounded :: "ieee_format \<Rightarrow> bool \<Rightarrow> rat \<Rightarrow> fval" where
  "f_rounded F negative q =
     (let r = round_magnitude F q
      in if two_pow (max_exp F + 1) \<le> r then FInf negative else FFin negative r)"

text \<open>The number nearest to an exact result, with the sign of a result that is exactly zero.\<close>

definition f_of_exact :: "ieee_format \<Rightarrow> bool \<Rightarrow> rat \<Rightarrow> fval" where
  "f_of_exact F zero_sign x = (if x = 0 then FFin zero_sign 0 else f_rounded F (x < 0) \<bar>x\<bar>)"

definition f_of_int :: "ieee_format \<Rightarrow> int \<Rightarrow> fval" where
  "f_of_int F n = f_of_exact F False (of_int n)"

section \<open>Operations\<close>

fun f_value :: "fval \<Rightarrow> rat option" where
  "f_value (FFin s q) = Some (with_sign s q)"
| "f_value _ = None"

fun f_negate :: "fval \<Rightarrow> fval" where
  "f_negate FNaN = FNaN"
| "f_negate (FInf s) = FInf (\<not> s)"
| "f_negate (FFin s q) = FFin (\<not> s) q"

fun f_fabs :: "fval \<Rightarrow> fval" where
  "f_fabs FNaN = FNaN"
| "f_fabs (FInf s) = FInf False"
| "f_fabs (FFin s q) = FFin False q"

fun f_add :: "ieee_format \<Rightarrow> fval \<Rightarrow> fval \<Rightarrow> fval" where
  "f_add F FNaN y = FNaN"
| "f_add F (FInf s) FNaN = FNaN"
| "f_add F (FInf s) (FInf t) = (if s = t then FInf s else FNaN)"
| "f_add F (FInf s) (FFin t b) = FInf s"
| "f_add F (FFin s a) FNaN = FNaN"
| "f_add F (FFin s a) (FInf t) = FInf t"
| "f_add F (FFin s a) (FFin t b) = f_of_exact F (s \<and> t) (with_sign s a + with_sign t b)"

definition f_sub :: "ieee_format \<Rightarrow> fval \<Rightarrow> fval \<Rightarrow> fval" where
  "f_sub F x y = f_add F x (f_negate y)"

fun f_mul :: "ieee_format \<Rightarrow> fval \<Rightarrow> fval \<Rightarrow> fval" where
  "f_mul F FNaN y = FNaN"
| "f_mul F (FInf s) FNaN = FNaN"
| "f_mul F (FInf s) (FInf t) = FInf (s \<noteq> t)"
| "f_mul F (FInf s) (FFin t b) = (if b = 0 then FNaN else FInf (s \<noteq> t))"
| "f_mul F (FFin s a) FNaN = FNaN"
| "f_mul F (FFin s a) (FInf t) = (if a = 0 then FNaN else FInf (s \<noteq> t))"
| "f_mul F (FFin s a) (FFin t b) = f_of_exact F (s \<noteq> t) (with_sign s a * with_sign t b)"

fun f_div :: "ieee_format \<Rightarrow> fval \<Rightarrow> fval \<Rightarrow> fval" where
  "f_div F FNaN y = FNaN"
| "f_div F (FInf s) FNaN = FNaN"
| "f_div F (FInf s) (FInf t) = FNaN"
| "f_div F (FInf s) (FFin t b) = FInf (s \<noteq> t)"
| "f_div F (FFin s a) FNaN = FNaN"
| "f_div F (FFin s a) (FInf t) = FFin (s \<noteq> t) 0"
| "f_div F (FFin s a) (FFin t b) =
     (if b = 0 then (if a = 0 then FNaN else FInf (s \<noteq> t))
      else f_of_exact F (s \<noteq> t) (with_sign s a / with_sign t b))"

text \<open>\<open>fma\<close> rounds once; the product of two finite numbers does not overflow on the way.\<close>

fun f_fma :: "ieee_format \<Rightarrow> fval \<Rightarrow> fval \<Rightarrow> fval \<Rightarrow> fval" where
  "f_fma F (FFin s a) (FFin t b) (FFin u c) =
     f_of_exact F ((s \<noteq> t) \<and> u) (with_sign s a * with_sign t b + with_sign u c)"
| "f_fma F (FFin s a) (FFin t b) z = z"
| "f_fma F x y z = f_add F (f_mul F x y) z"

text \<open>\<open>remainder\<close> subtracts the multiple nearest to the dividend, \<open>fmod\<close> the one below it in magnitude.\<close>

fun f_remainder :: "ieee_format \<Rightarrow> fval \<Rightarrow> fval \<Rightarrow> fval" where
  "f_remainder F (FFin s a) (FFin t b) =
     (if b = 0 then FNaN
      else f_of_exact F s (with_sign s a - of_int (round_half_even (with_sign s a / with_sign t b)) * with_sign t b))"
| "f_remainder F (FFin s a) (FInf t) = FFin s a"
| "f_remainder F x y = FNaN"

fun f_fmod :: "ieee_format \<Rightarrow> fval \<Rightarrow> fval \<Rightarrow> fval" where
  "f_fmod F (FFin s a) (FFin t b) = (if b = 0 then FNaN else f_of_exact F s (with_sign s (a - of_int \<lfloor>a / b\<rfloor> * b)))"
| "f_fmod F (FFin s a) (FInf t) = FFin s a"
| "f_fmod F x y = FNaN"

text \<open>Rounding to an integer keeps the sign, also that of a zero.\<close>

fun f_to_integral :: "(rat \<Rightarrow> int) \<Rightarrow> fval \<Rightarrow> fval" where
  "f_to_integral g (FFin s q) = FFin s (of_int \<bar>g (with_sign s q)\<bar>)"
| "f_to_integral g x = x"

definition f_ceil :: "fval \<Rightarrow> fval" where "f_ceil = f_to_integral ceiling"
definition f_floor :: "fval \<Rightarrow> fval" where "f_floor = f_to_integral floor"
definition f_round :: "fval \<Rightarrow> fval" where "f_round = f_to_integral round_half_away"
definition f_roundeven :: "fval \<Rightarrow> fval" where "f_roundeven = f_to_integral round_half_even"

fun f_equal :: "fval \<Rightarrow> fval \<Rightarrow> bool" where
  "f_equal (FFin s a) (FFin t b) \<longleftrightarrow> with_sign s a = with_sign t b"
| "f_equal (FInf s) (FInf t) \<longleftrightarrow> s = t"
| "f_equal _ _ \<longleftrightarrow> False"

fun f_greater :: "fval \<Rightarrow> fval \<Rightarrow> bool" where
  "f_greater (FFin s a) (FFin t b) \<longleftrightarrow> with_sign t b < with_sign s a"
| "f_greater (FInf s) (FInf t) \<longleftrightarrow> \<not> s \<and> t"
| "f_greater (FInf s) (FFin t b) \<longleftrightarrow> \<not> s"
| "f_greater (FFin s a) (FInf t) \<longleftrightarrow> t"
| "f_greater _ _ \<longleftrightarrow> False"

text \<open>Converting to another format.\<close>

fun f_convert :: "ieee_format \<Rightarrow> fval \<Rightarrow> fval" where
  "f_convert F (FFin s q) = f_rounded F s q"
| "f_convert F x = x"

section \<open>Powers of two, binades and rounding\<close>

lemma two_pow_powi: "two_pow e = 2 powi e"
  by (simp add: two_pow_def power_int_def field_simps)

lemma two_pow_pos [simp]: "0 < two_pow e"
  by (simp add: two_pow_def)

lemma two_pow_nonneg [simp]: "0 \<le> two_pow e"
  by (simp add: two_pow_def)

lemma two_pow_not_zero [simp]: "two_pow e \<noteq> 0"
  by (simp add: two_pow_def)

lemma two_pow_add: "two_pow (a + b) = two_pow a * two_pow b"
  by (simp add: two_pow_powi power_int_add)

lemma two_pow_mono: "a \<le> b \<Longrightarrow> two_pow a \<le> two_pow b"
  by (simp add: two_pow_powi power_int_increasing)

lemma two_pow_less: "a < b \<Longrightarrow> two_pow a < two_pow b"
  by (simp add: two_pow_powi power_int_strict_increasing)

lemma two_pow_less_iff: "two_pow a < two_pow b \<longleftrightarrow> a < b"
  using two_pow_less [of a b] two_pow_mono [of b a] by linarith

lemma two_pow_nat: "two_pow (int n) = 2 ^ n"
  by (simp add: two_pow_def)

lemma two_pow_simps [simp]: "two_pow 0 = 1" "two_pow 1 = 2" "two_pow (- 1) = 1 / 2"
  by (simp_all add: two_pow_def)

lemma binade_bounds:
  assumes "0 < q"
  shows "two_pow (binade q) \<le> q" "q < two_pow (binade q + 1)"
proof -
  obtain n d where nd: "quotient_of q = (n, d)" by (cases "quotient_of q")
  have d: "0 < d" by (rule quotient_of_denom_pos [OF nd])
  have q: "q = of_int n / of_int d" by (rule quotient_of_div [OF nd])
  have n: "0 < n" using assms d unfolding q by (simp add: zero_less_divide_iff)
  let ?a = "bitlen n" and ?c = "bitlen d"
  have pos: "1 \<le> ?a" "1 \<le> ?c" using n d by (auto simp: bitlen_alt_def)
  have bounds: "two_pow (bitlen i - 1) \<le> of_int i \<and> of_int i < two_pow (bitlen i)" if "0 < i" for i
  proof -
    have "1 \<le> bitlen i" using that by (auto simp: bitlen_alt_def)
    then have e: "two_pow (bitlen i - 1) = of_int (2 ^ nat (bitlen i - 1))" "two_pow (bitlen i) = of_int (2 ^ nat (bitlen i))"
      by (simp_all add: two_pow_def)
    show ?thesis unfolding e of_int_le_iff of_int_less_iff by (rule bitlen_bounds [OF that])
  qed
  have upper: "q < two_pow (?a - ?c + 1)"
  proof -
    have "of_int n < two_pow ?a" using bounds [OF n] by simp
    also have "two_pow ?a = two_pow (?a - ?c + 1) * two_pow (?c - 1)" by (simp flip: two_pow_add)
    also have "\<dots> \<le> two_pow (?a - ?c + 1) * of_int d" using bounds [OF d] by (intro mult_left_mono) simp_all
    finally show ?thesis using d unfolding q by (simp add: divide_less_eq)
  qed
  have lower: "two_pow (?a - ?c - 1) \<le> q"
  proof -
    have "two_pow (?a - ?c - 1) * of_int d \<le> two_pow (?a - ?c - 1) * two_pow ?c"
      using bounds [OF d] by (intro mult_left_mono) simp_all
    also have "\<dots> = two_pow (?a - 1)" by (simp flip: two_pow_add)
    also have "\<dots> \<le> of_int n" using bounds [OF n] by simp
    finally show ?thesis using d unfolding q by (simp add: le_divide_eq)
  qed
  have b: "binade q = (if two_pow (?a - ?c) \<le> q then ?a - ?c else ?a - ?c - 1)" by (simp add: binade_def nd)
  show "two_pow (binade q) \<le> q" using lower by (simp add: b)
  show "q < two_pow (binade q + 1)" using upper by (simp add: b)
qed

lemma binade_less: "0 < q \<Longrightarrow> q < two_pow e \<Longrightarrow> binade q < e"
  using binade_bounds(1) [of q] two_pow_less_iff [of "binade q" e] by linarith

lemma binade_eq:
  assumes "two_pow e \<le> q" "q < two_pow (e + 1)"
  shows "binade q = e"
proof -
  have q: "0 < q" using assms(1) two_pow_pos [of e] by linarith
  have "binade q < e + 1" using binade_less [OF q assms(2)] .
  moreover have "two_pow e < two_pow (binade q + 1)" using binade_bounds(2) [OF q] assms(1) by linarith
  ultimately show ?thesis unfolding two_pow_less_iff by linarith
qed

lemma round_half_even_int [simp]: "round_half_even (of_int n) = n"
  by (simp add: round_half_even_def)

lemma round_half_even_near: "\<bar>x - of_int (round_half_even x)\<bar> \<le> 1 / 2"
proof -
  have "of_int \<lfloor>x\<rfloor> \<le> x" "x < of_int \<lfloor>x\<rfloor> + 1" by linarith+
  then show ?thesis by (auto simp: round_half_even_def Let_def abs_le_iff)
qed

lemma round_half_even_unique:
  assumes "\<bar>x - of_int n\<bar> < 1 / 2"
  shows "round_half_even x = n"
proof -
  have "\<bar>of_int (round_half_even x) - (of_int n :: rat)\<bar> < 1" using assms round_half_even_near [of x] by linarith
  then have "\<bar>round_half_even x - n\<bar> < 1" by linarith
  then show ?thesis by linarith
qed

lemma round_half_even_tie:
  assumes "x = of_int n + 1 / 2"
  shows "round_half_even x = (if even n then n else n + 1)"
proof -
  have "\<lfloor>x\<rfloor> = n" unfolding assms by linarith
  then show ?thesis by (simp add: round_half_even_def assms)
qed

lemma round_half_away_near: "\<bar>x - of_int (round_half_away x)\<bar> \<le> 1 / 2"
  unfolding round_half_away_def abs_le_iff of_int_minus if_distrib [of of_int]
  by (cases "x < 0") (simp_all, linarith+)

lemma round_half_away_int [simp]: "round_half_away (of_int n) = n"
  using round_half_away_near [of "of_int n"] by linarith

section \<open>The numbers of a format\<close>

definition representable :: "ieee_format \<Rightarrow> rat \<Rightarrow> bool" where
  "representable F q \<longleftrightarrow>
     (\<exists>m e. 0 \<le> m \<and> m < 2 ^ precision F \<and> min_exp F \<le> e \<and> q = of_int m * two_pow e)"

definition is_float :: "ieee_format \<Rightarrow> fval \<Rightarrow> bool" where
  "is_float F x \<longleftrightarrow> (case x of FFin s q \<Rightarrow> representable F q \<and> q < two_pow (max_exp F + 1) | _ \<Rightarrow> True)"

lemma with_sign_simps [simp]:
  "with_sign s q = 0 \<longleftrightarrow> q = 0" "\<bar>with_sign s q\<bar> = \<bar>q\<bar>" "with_sign (\<not> s) q = - with_sign s q" "with_sign s 0 = 0"
  by (simp_all add: with_sign_def)

lemma with_sign_less_0: "0 \<le> q \<Longrightarrow> with_sign s q < 0 \<longleftrightarrow> s \<and> q \<noteq> 0"
  by (auto simp: with_sign_def)

lemma representable_nonneg: "representable F q \<Longrightarrow> 0 \<le> q"
  by (auto simp: representable_def)

text \<open>What the rounding of a format needs to be exact on small integers.\<close>

locale float_arithmetic =
  fixes F :: ieee_format
  assumes significand: "2 \<le> precision F" and units: "min_exp F \<le> 0" and range: "int (precision F) \<le> max_exp F"
begin

lemma round_representable:
  assumes "representable F q"
  shows "round_magnitude F q = q"
proof (cases "q = 0")
  case False
  obtain m e where q: "0 \<le> m" "m < 2 ^ precision F" "min_exp F \<le> e" "q = of_int m * two_pow e"
    using assms by (auto simp: representable_def)
  have pos: "0 < q" using False q(1,4) by (cases "m = 0") auto
  have "of_int m < two_pow (int (precision F))" using q(2) unfolding two_pow_nat by (metis of_int_less_iff of_int_numeral of_int_power)
  then have "q < two_pow (int (precision F)) * two_pow e" unfolding q(4) by (intro mult_strict_right_mono) simp_all
  then have "q < two_pow (int (precision F) + e)" by (simp only: two_pow_add)
  then have "binade q < int (precision F) + e" using pos by (intro binade_less)
  then have u: "unit_exp F q \<le> e" using q(3) by (simp add: unit_exp_def)
  define k where "k = nat (e - unit_exp F q)"
  have "two_pow e = 2 ^ k * two_pow (unit_exp F q)"
    using u by (simp add: k_def flip: two_pow_nat two_pow_add)
  then have v: "q = of_int (m * 2 ^ k) * two_pow (unit_exp F q)" using q(4) by simp
  have "q / two_pow (unit_exp F q) = of_int (m * 2 ^ k)" by (subst v) simp
  then have "round_magnitude F q = of_int (m * 2 ^ k) * two_pow (unit_exp F q)"
    using False unfolding round_magnitude_def by (simp only: if_False round_half_even_int)
  then show ?thesis using v by simp
qed (simp add: round_magnitude_def)

lemma rounded_exact:
  assumes "is_float F (FFin s q)"
  shows "f_rounded F s q = FFin s q"
  using assms by (simp add: is_float_def f_rounded_def round_representable)

lemma exact_result:
  assumes "is_float F (FFin s \<bar>x\<bar>)"
  shows "f_of_exact F z x = FFin (if x = 0 then z else x < 0) \<bar>x\<bar>"
  using assms by (simp add: f_of_exact_def is_float_def f_rounded_def round_representable)

lemma integers_are_floats:
  assumes "\<bar>n\<bar> < 2 ^ precision F"
  shows "is_float F (FFin s (of_int \<bar>n\<bar>))"
proof -
  have "representable F (of_int \<bar>n\<bar>)"
    unfolding representable_def using assms units by (intro exI [of _ "\<bar>n\<bar>"] exI [of _ 0]) simp
  moreover have "of_int \<bar>n\<bar> < two_pow (int (precision F))"
    using assms unfolding two_pow_nat by (metis of_int_less_iff of_int_numeral of_int_power)
  moreover have "two_pow (int (precision F)) \<le> two_pow (max_exp F + 1)" using range by (intro two_pow_mono) simp
  ultimately show ?thesis by (simp add: is_float_def)
qed

lemma zero_is_float: "is_float F (FFin s 0)" and one_is_float: "is_float F (FFin s 1)"
proof -
  have "\<bar>1 :: int\<bar> < 2 ^ precision F" using significand by (simp add: power_strict_increasing)
  then show "is_float F (FFin s 1)" using integers_are_floats [of 1 s] by simp
  show "is_float F (FFin s 0)" using integers_are_floats [of 0 s] by simp
qed

lemma of_int_exact:
  assumes "\<bar>n\<bar> < 2 ^ precision F"
  shows "f_of_int F n = FFin (n < 0) (of_int \<bar>n\<bar>)"
  using exact_result [of "n < 0" "of_int n" False] integers_are_floats [OF assms] by (simp add: f_of_int_def)

text \<open>Rounding gives a number of the format, at most half a unit away.\<close>

lemma round_error:
  assumes "0 < q"
  shows "\<bar>round_magnitude F q - q\<bar> \<le> two_pow (unit_exp F q) / 2"
proof -
  let ?u = "two_pow (unit_exp F q)"
  have "\<bar>q / ?u - of_int (round_half_even (q / ?u))\<bar> * ?u \<le> 1 / 2 * ?u"
    by (intro mult_right_mono round_half_even_near) simp
  moreover have "\<bar>q / ?u - of_int (round_half_even (q / ?u))\<bar> * ?u = \<bar>(q / ?u - of_int (round_half_even (q / ?u))) * ?u\<bar>"
    by (simp add: abs_mult)
  moreover have "(q / ?u - of_int (round_half_even (q / ?u))) * ?u = q - round_magnitude F q"
    using assms by (simp add: round_magnitude_def left_diff_distrib)
  ultimately show ?thesis by (simp add: abs_minus_commute)
qed

lemma round_is_representable:
  assumes "0 \<le> q"
  shows "representable F (round_magnitude F q)"
proof (cases "q = 0")
  case True
  then show ?thesis using zero_is_float by (simp add: is_float_def round_magnitude_def)
next
  case False
  let ?u = "unit_exp F q" let ?n = "round_half_even (q / two_pow ?u)"
  have pos: "0 < q" using assms False by simp
  have "q < two_pow (int (precision F)) * two_pow ?u"
  proof -
    have "binade q + 1 \<le> int (precision F) + ?u" by (simp add: unit_exp_def)
    then have "q < two_pow (int (precision F) + ?u)"
      using binade_bounds(2) [OF pos] two_pow_mono [of "binade q + 1" "int (precision F) + ?u"] by linarith
    then show ?thesis by (simp only: two_pow_add)
  qed
  then have "q / two_pow ?u < 2 ^ precision F" by (simp add: divide_less_eq two_pow_nat)
  then have "of_int ?n < (2 ^ precision F + 1 :: rat)" using round_half_even_near [of "q / two_pow ?u"] by linarith
  then have "(of_int ?n :: rat) < of_int (2 ^ precision F + 1)" by (simp only: of_int_add of_int_power of_int_numeral of_int_1)
  then have le: "?n \<le> 2 ^ precision F" by (simp only: of_int_less_iff)
  have "0 < q / two_pow ?u" using pos by simp
  then have "- 1 < (of_int ?n :: rat)" using round_half_even_near [of "q / two_pow ?u"] by linarith
  then have ge: "0 \<le> ?n" by linarith
  have r: "round_magnitude F q = of_int ?n * two_pow ?u" using False by (simp add: round_magnitude_def)
  have u: "min_exp F \<le> ?u" by (simp add: unit_exp_def)
  show ?thesis
  proof (cases "?n = 2 ^ precision F")
    case True
    have "round_magnitude F q = of_int 1 * two_pow (int (precision F) + ?u)"
      unfolding r True by (simp add: two_pow_add two_pow_nat)
    then show ?thesis unfolding representable_def using u significand
      by (intro exI [of _ 1] exI [of _ "int (precision F) + ?u"]) (simp add: power_strict_increasing)
  next
    case n: False
    then show ?thesis unfolding representable_def using r u ge le by (intro exI [of _ ?n] exI [of _ ?u]) simp
  qed
qed

lemma exact_is_float: "is_float F (f_of_exact F z x)"
proof (cases "x = 0")
  case True
  then show ?thesis using zero_is_float by (simp add: f_of_exact_def)
next
  case False
  then show ?thesis using round_is_representable [of "\<bar>x\<bar>"] by (simp add: f_of_exact_def f_rounded_def Let_def is_float_def)
qed

end

interpretation b32: float_arithmetic binary32
  by unfold_locales (simp_all add: binary32_def)

interpretation b64: float_arithmetic binary64
  by unfold_locales (simp_all add: binary64_def)

end
