(* ===== verification/Vm_Float_Ops.thy ===== *)
theory Vm_Float_Ops
  imports Ieee_Float Vm_Ops
begin

text \<open>
  The floating-point kernels of \<open>iree/vm/ops.h\<close> that compute: arithmetic, rounding, the functions of \<open>math.h\<close> and the
  conversions. A \<open>float\<close> or a \<open>double\<close> is its value (theory \<open>Ieee_Float\<close>); the kernels that only look at bits are in \<open>Vm_Ops\<close>. The
  functions of \<open>math.h\<close> whose results the C standard leaves to the implementation are an argument. \<open>long\<close> has 64 bits.
\<close>

section \<open>The functions of math.h that are not exact\<close>

record libm =
  libm_sqrt :: "fval \<Rightarrow> fval"
  libm_atan :: "fval \<Rightarrow> fval"
  libm_atan2 :: "fval \<Rightarrow> fval \<Rightarrow> fval"
  libm_cos :: "fval \<Rightarrow> fval"
  libm_sin :: "fval \<Rightarrow> fval"
  libm_exp :: "fval \<Rightarrow> fval"
  libm_exp2 :: "fval \<Rightarrow> fval"
  libm_expm1 :: "fval \<Rightarrow> fval"
  libm_log :: "fval \<Rightarrow> fval"
  libm_log10 :: "fval \<Rightarrow> fval"
  libm_log1p :: "fval \<Rightarrow> fval"
  libm_log2 :: "fval \<Rightarrow> fval"
  libm_pow :: "fval \<Rightarrow> fval \<Rightarrow> fval"
  libm_tanh :: "fval \<Rightarrow> fval"
  libm_erf :: "fval \<Rightarrow> fval"

text \<open>
  \<open>lround\<close> and \<open>llround\<close> round halfway cases away from zero to a 64-bit integer; out of its range, and for infinities and NaN,
  the result is unspecified, which the model reports on the left.
\<close>

fun lround :: "fval \<Rightarrow> i64 res" where
  "lround (FFin s q) =
     (let n = round_half_away (with_sign s q)
      in if s_fits TYPE(64) n then Inr (word_of_int n) else Inl (Thrown ''unspecified''))"
| "lround _ = Inl (Thrown ''unspecified'')"

section \<open>f32\<close>

definition vm_add_f32 :: "fval \<Rightarrow> fval \<Rightarrow> fval" where
  "vm_add_f32 lhs rhs = f_add binary32 lhs rhs"

definition vm_sub_f32 :: "fval \<Rightarrow> fval \<Rightarrow> fval" where
  "vm_sub_f32 lhs rhs = f_sub binary32 lhs rhs"

definition vm_mul_f32 :: "fval \<Rightarrow> fval \<Rightarrow> fval" where
  "vm_mul_f32 lhs rhs = f_mul binary32 lhs rhs"

definition vm_div_f32 :: "fval \<Rightarrow> fval \<Rightarrow> fval" where
  "vm_div_f32 lhs rhs = f_div binary32 lhs rhs"

definition vm_rem_f32 :: "fval \<Rightarrow> fval \<Rightarrow> fval" where
  "vm_rem_f32 lhs rhs = f_remainder binary32 lhs rhs"

text \<open>
  The argument says whether the build has a fast \<open>fma\<close>. Without it the product is rounded before the sum, as written; a compiler
  that contracts expressions would compute the first case.
\<close>

definition vm_fma_f32 :: "bool \<Rightarrow> fval \<Rightarrow> fval \<Rightarrow> fval \<Rightarrow> fval" where
  "vm_fma_f32 fp_fast_fma a b c = (if fp_fast_fma then f_fma binary32 a b c else f_add binary32 (f_mul binary32 a b) c)"

definition vm_ceil_f32 :: "fval \<Rightarrow> fval" where
  "vm_ceil_f32 operand = f_ceil operand"

definition vm_floor_f32 :: "fval \<Rightarrow> fval" where
  "vm_floor_f32 operand = f_floor operand"

definition vm_round_f32 :: "fval \<Rightarrow> fval" where
  "vm_round_f32 operand = f_round operand"

text \<open>
  The halfway cases that \<open>round\<close> takes away from zero are taken back by one when that gives an even number. The code
  asks for \<open>roundeven\<close> by the macro \<open>__STC_VERSION__\<close>; its value, zero where nothing defines it, is the argument. The macro of a C
  compiler is \<open>__STDC_VERSION__\<close>.
\<close>

definition round_even_steps :: "ieee_format \<Rightarrow> fval \<Rightarrow> fval" where
  "round_even_steps F operand =
     (let rounded = f_round operand
      in if f_equal (f_fabs (f_sub F operand rounded)) (FFin False (1 / 2)) then
           if \<not> f_equal (f_fmod F rounded (FFin False 2)) (FFin False 0) then
             if f_greater rounded (FFin False 0) then f_sub F rounded (FFin False 1) else f_add F rounded (FFin False 1)
           else rounded
         else rounded)"

definition vm_round_f32_even :: "int \<Rightarrow> fval \<Rightarrow> fval" where
  "vm_round_f32_even stc_version operand =
     (if 202300 \<le> stc_version then f_roundeven operand else round_even_steps binary32 operand)"

definition vm_atan_f32 :: "libm \<Rightarrow> fval \<Rightarrow> fval" where
  "vm_atan_f32 M operand = libm_atan M operand"

definition vm_cos_f32 :: "libm \<Rightarrow> fval \<Rightarrow> fval" where
  "vm_cos_f32 M operand = libm_cos M operand"

definition vm_sin_f32 :: "libm \<Rightarrow> fval \<Rightarrow> fval" where
  "vm_sin_f32 M operand = libm_sin M operand"

definition vm_exp_f32 :: "libm \<Rightarrow> fval \<Rightarrow> fval" where
  "vm_exp_f32 M operand = libm_exp M operand"

definition vm_exp2_f32 :: "libm \<Rightarrow> fval \<Rightarrow> fval" where
  "vm_exp2_f32 M operand = libm_exp2 M operand"

definition vm_expm1_f32 :: "libm \<Rightarrow> fval \<Rightarrow> fval" where
  "vm_expm1_f32 M operand = libm_expm1 M operand"

definition vm_log_f32 :: "libm \<Rightarrow> fval \<Rightarrow> fval" where
  "vm_log_f32 M operand = libm_log M operand"

definition vm_log10_f32 :: "libm \<Rightarrow> fval \<Rightarrow> fval" where
  "vm_log10_f32 M operand = libm_log10 M operand"

definition vm_log1p_f32 :: "libm \<Rightarrow> fval \<Rightarrow> fval" where
  "vm_log1p_f32 M operand = libm_log1p M operand"

definition vm_log2_f32 :: "libm \<Rightarrow> fval \<Rightarrow> fval" where
  "vm_log2_f32 M operand = libm_log2 M operand"

definition vm_sqrt_f32 :: "libm \<Rightarrow> fval \<Rightarrow> fval" where
  "vm_sqrt_f32 M operand = libm_sqrt M operand"

definition vm_tanh_f32 :: "libm \<Rightarrow> fval \<Rightarrow> fval" where
  "vm_tanh_f32 M operand = libm_tanh M operand"

definition vm_erf_f32 :: "libm \<Rightarrow> fval \<Rightarrow> fval" where
  "vm_erf_f32 M operand = libm_erf M operand"

definition vm_atan2_f32 :: "libm \<Rightarrow> fval \<Rightarrow> fval \<Rightarrow> fval" where
  "vm_atan2_f32 M y x = libm_atan2 M y x"

definition vm_pow_f32 :: "libm \<Rightarrow> fval \<Rightarrow> fval \<Rightarrow> fval" where
  "vm_pow_f32 M b e = libm_pow M b e"

definition vm_rsqrt_f32 :: "libm \<Rightarrow> fval \<Rightarrow> fval" where
  "vm_rsqrt_f32 M operand = f_div binary32 (FFin False 1) (libm_sqrt M operand)"

definition vm_cast_si32f32 :: "i32 \<Rightarrow> fval" where
  "vm_cast_si32f32 operand = f_of_int binary32 (sint operand)"

definition vm_cast_ui32f32 :: "i32 \<Rightarrow> fval" where
  "vm_cast_ui32f32 operand = f_of_int binary32 (uint operand)"

text \<open>Converting the 64-bit result to 32 bits drops its upper half.\<close>

definition vm_cast_f32si32 :: "fval \<Rightarrow> i32 res" where
  "vm_cast_f32si32 operand = bind_res (lround operand) (\<lambda>n. Inr (ucast n))"

definition vm_cast_f32ui32 :: "fval \<Rightarrow> i32 res" where
  "vm_cast_f32ui32 operand = bind_res (lround operand) (\<lambda>n. Inr (ucast n))"

section \<open>f64\<close>

definition vm_add_f64 :: "fval \<Rightarrow> fval \<Rightarrow> fval" where
  "vm_add_f64 lhs rhs = f_add binary64 lhs rhs"

definition vm_sub_f64 :: "fval \<Rightarrow> fval \<Rightarrow> fval" where
  "vm_sub_f64 lhs rhs = f_sub binary64 lhs rhs"

definition vm_mul_f64 :: "fval \<Rightarrow> fval \<Rightarrow> fval" where
  "vm_mul_f64 lhs rhs = f_mul binary64 lhs rhs"

definition vm_div_f64 :: "fval \<Rightarrow> fval \<Rightarrow> fval" where
  "vm_div_f64 lhs rhs = f_div binary64 lhs rhs"

definition vm_rem_f64 :: "fval \<Rightarrow> fval \<Rightarrow> fval" where
  "vm_rem_f64 lhs rhs = f_remainder binary64 lhs rhs"

definition vm_fma_f64 :: "bool \<Rightarrow> fval \<Rightarrow> fval \<Rightarrow> fval \<Rightarrow> fval" where
  "vm_fma_f64 fp_fast_fma a b c = (if fp_fast_fma then f_fma binary64 a b c else f_add binary64 (f_mul binary64 a b) c)"

definition vm_ceil_f64 :: "fval \<Rightarrow> fval" where
  "vm_ceil_f64 operand = f_ceil operand"

definition vm_floor_f64 :: "fval \<Rightarrow> fval" where
  "vm_floor_f64 operand = f_floor operand"

definition vm_round_f64 :: "fval \<Rightarrow> fval" where
  "vm_round_f64 operand = f_round operand"

definition vm_round_f64_even :: "int \<Rightarrow> fval \<Rightarrow> fval" where
  "vm_round_f64_even stc_version operand =
     (if 202300 \<le> stc_version then f_roundeven operand else round_even_steps binary64 operand)"

definition vm_atan_f64 :: "libm \<Rightarrow> fval \<Rightarrow> fval" where
  "vm_atan_f64 M operand = libm_atan M operand"

definition vm_cos_f64 :: "libm \<Rightarrow> fval \<Rightarrow> fval" where
  "vm_cos_f64 M operand = libm_cos M operand"

definition vm_sin_f64 :: "libm \<Rightarrow> fval \<Rightarrow> fval" where
  "vm_sin_f64 M operand = libm_sin M operand"

definition vm_exp_f64 :: "libm \<Rightarrow> fval \<Rightarrow> fval" where
  "vm_exp_f64 M operand = libm_exp M operand"

definition vm_exp2_f64 :: "libm \<Rightarrow> fval \<Rightarrow> fval" where
  "vm_exp2_f64 M operand = libm_exp2 M operand"

definition vm_expm1_f64 :: "libm \<Rightarrow> fval \<Rightarrow> fval" where
  "vm_expm1_f64 M operand = libm_expm1 M operand"

definition vm_log_f64 :: "libm \<Rightarrow> fval \<Rightarrow> fval" where
  "vm_log_f64 M operand = libm_log M operand"

definition vm_log10_f64 :: "libm \<Rightarrow> fval \<Rightarrow> fval" where
  "vm_log10_f64 M operand = libm_log10 M operand"

definition vm_log1p_f64 :: "libm \<Rightarrow> fval \<Rightarrow> fval" where
  "vm_log1p_f64 M operand = libm_log1p M operand"

definition vm_log2_f64 :: "libm \<Rightarrow> fval \<Rightarrow> fval" where
  "vm_log2_f64 M operand = libm_log2 M operand"

definition vm_sqrt_f64 :: "libm \<Rightarrow> fval \<Rightarrow> fval" where
  "vm_sqrt_f64 M operand = libm_sqrt M operand"

definition vm_tanh_f64 :: "libm \<Rightarrow> fval \<Rightarrow> fval" where
  "vm_tanh_f64 M operand = libm_tanh M operand"

definition vm_erf_f64 :: "libm \<Rightarrow> fval \<Rightarrow> fval" where
  "vm_erf_f64 M operand = libm_erf M operand"

definition vm_atan2_f64 :: "libm \<Rightarrow> fval \<Rightarrow> fval \<Rightarrow> fval" where
  "vm_atan2_f64 M y x = libm_atan2 M y x"

definition vm_pow_f64 :: "libm \<Rightarrow> fval \<Rightarrow> fval \<Rightarrow> fval" where
  "vm_pow_f64 M b e = libm_pow M b e"

definition vm_rsqrt_f64 :: "libm \<Rightarrow> fval \<Rightarrow> fval" where
  "vm_rsqrt_f64 M operand = f_div binary64 (FFin False 1) (libm_sqrt M operand)"

definition vm_trunc_f64f32 :: "fval \<Rightarrow> fval" where
  "vm_trunc_f64f32 operand = f_convert binary64 (f_convert binary32 operand)"

definition vm_ext_f32f64 :: "fval \<Rightarrow> fval" where
  "vm_ext_f32f64 operand = f_convert binary64 operand"

definition vm_cast_si32f64 :: "i32 \<Rightarrow> fval" where
  "vm_cast_si32f64 operand = f_of_int binary64 (sint operand)"

definition vm_cast_ui32f64 :: "i32 \<Rightarrow> fval" where
  "vm_cast_ui32f64 operand = f_of_int binary64 (uint operand)"

text \<open>The 32-bit conversions call \<open>lroundf\<close> and \<open>llroundf\<close>, whose parameter is a \<open>float\<close>.\<close>

definition vm_cast_f64si32 :: "fval \<Rightarrow> i32 res" where
  "vm_cast_f64si32 operand = bind_res (lround (f_convert binary32 operand)) (\<lambda>n. Inr (ucast n))"

definition vm_cast_f64ui32 :: "fval \<Rightarrow> i32 res" where
  "vm_cast_f64ui32 operand = bind_res (lround (f_convert binary32 operand)) (\<lambda>n. Inr (ucast n))"

definition vm_cast_si64f64 :: "i64 \<Rightarrow> fval" where
  "vm_cast_si64f64 operand = f_of_int binary64 (sint operand)"

definition vm_cast_ui64f64 :: "u64 \<Rightarrow> fval" where
  "vm_cast_ui64f64 operand = f_of_int binary64 (uint operand)"

definition vm_cast_f64si64 :: "fval \<Rightarrow> i64 res" where
  "vm_cast_f64si64 operand = lround operand"

definition vm_cast_f64ui64 :: "fval \<Rightarrow> i64 res" where
  "vm_cast_f64ui64 operand = lround operand"

section \<open>Rounding to even in steps\<close>

lemma round_even_cases:
  assumes "\<bar>v - of_int r\<bar> \<le> 1 / 2"
  shows "round_half_even v =
    (if \<bar>v - of_int r\<bar> = 1 / 2 \<and> odd r then (if v < of_int r then r - 1 else r + 1) else r)"
proof (cases "\<bar>v - of_int r\<bar> = 1 / 2")
  case False
  then show ?thesis using assms round_half_even_unique [of v r] by simp
next
  case True
  show ?thesis
  proof (cases "v < of_int r")
    case lt: True
    then have "v = of_int (r - 1) + 1 / 2" using True by (simp add: abs_if split: if_splits)
    then show ?thesis using True lt round_half_even_tie [of v "r - 1"] by auto
  next
    case False
    then have "v = of_int r + 1 / 2" using True by (simp add: abs_if split: if_splits)
    then show ?thesis using True False round_half_even_tie [of v r] by auto
  qed
qed

text \<open>A number whose fraction is not zero is small, and its distance to the integer it is rounded to is a number of the format.\<close>

context float_arithmetic
begin

lemma distance_is_float:
  assumes "is_float F (FFin s q)" "r = round_half_away (with_sign s q)"
  shows "is_float F (FFin t \<bar>with_sign s q - of_int r\<bar>)"
    "with_sign s q \<noteq> of_int r \<Longrightarrow> \<bar>r\<bar> \<le> 2 ^ (precision F - 1)"
proof -
  let ?v = "with_sign s q" and ?d = "\<bar>with_sign s q - of_int r\<bar>"
  obtain m e where q: "0 \<le> m" "m < 2 ^ precision F" "min_exp F \<le> e" "q = of_int m * two_pow e"
    using assms(1) by (auto simp: is_float_def representable_def)
  have near: "?d \<le> 1 / 2" using round_half_away_near [of ?v] assms(2) by simp
  have less: "?d < two_pow (max_exp F + 1)"
    using near range two_pow_mono [of 0 "max_exp F + 1"] by simp
  define n where "n = (if s then - m else m)"
  have v: "?v = of_int n * two_pow e" by (simp add: n_def with_sign_def q(4))
  have both: "representable F ?d \<and> (?v \<noteq> of_int r \<longrightarrow> \<bar>r\<bar> \<le> 2 ^ (precision F - 1))"
  proof (cases "0 \<le> e")
    case True
    then have "two_pow e = of_int (2 ^ nat e)" by (simp add: two_pow_def)
    then have "?v = of_int (n * 2 ^ nat e)" using v by simp
    then have "?v = of_int r" using assms(2) by (metis round_half_away_int)
    then show ?thesis using zero_is_float by (simp add: is_float_def)
  next
    case False
    define k where "k = nat (- e)"
    have k: "0 < k" "two_pow e * 2 ^ k = 1" using False by (simp_all add: k_def two_pow_def)
    have p: "two_pow e = 1 / 2 ^ k" using k(2) by (simp add: field_simps)
    have d: "?d = of_int \<bar>n - r * 2 ^ k\<bar> * two_pow e" unfolding v p by (simp add: field_simps flip: abs_mult)
    have q1: "q < 2 ^ precision F / 2 ^ k" using q(2) unfolding q(4) p by (simp add: divide_strict_right_mono flip: of_int_less_iff)
    have vq: "\<bar>?v\<bar> = q" using representable_nonneg [of F q] assms(1) by (simp add: is_float_def)
    have r: "of_int \<bar>r\<bar> \<le> q + 1 / 2" using near vq by (simp add: abs_if split: if_splits)
    show ?thesis
    proof (cases "k \<le> precision F")
      case True
      have "of_int \<bar>n - r * 2 ^ k\<bar> * 2 \<le> (2 ^ k :: rat)" using near unfolding d p by (simp add: field_simps)
      then have "of_int (\<bar>n - r * 2 ^ k\<bar> * 2) \<le> (of_int (2 ^ k) :: rat)" by simp
      then have "\<bar>n - r * 2 ^ k\<bar> * 2 \<le> 2 ^ k" by (simp only: of_int_le_iff)
      moreover have "(2 :: int) ^ k \<le> 2 ^ precision F" using True by (rule power_increasing) simp
      moreover have "(0 :: int) < 2 ^ k" by simp
      moreover have "z < b" if "z * 2 \<le> a" "a \<le> b" "0 < a" for z a b :: int using that by linarith
      ultimately have "\<bar>n - r * 2 ^ k\<bar> < 2 ^ precision F" by blast
      then have "representable F ?d"
        unfolding representable_def using d q(3) by (intro exI [of _ "\<bar>n - r * 2 ^ k\<bar>"] exI [of _ e]) simp
      moreover have "q < 2 ^ (precision F - 1)"
      proof -
        have "(2 :: rat) ^ precision F / 2 ^ k \<le> 2 ^ precision F / 2 ^ 1"
          using k(1) by (intro divide_left_mono power_increasing) simp_all
        also have "\<dots> = 2 ^ (precision F - 1)" using significand by (cases "precision F") simp_all
        finally show ?thesis using q1 by simp
      qed
      then have "of_int \<bar>r\<bar> < (of_int (2 ^ (precision F - 1) + 1) :: rat)" using r by simp
      then have "\<bar>r\<bar> \<le> 2 ^ (precision F - 1)" by (simp only: of_int_less_iff)
      ultimately show ?thesis by blast
    next
      case False
      have "(2 :: rat) ^ precision F / 2 ^ k \<le> 2 ^ precision F / 2 ^ (precision F + 1)"
        using False by (intro divide_left_mono power_increasing) simp_all
      also have "\<dots> = 1 / 2" by simp
      finally have "q < 1 / 2" using q1 by (rule order_less_le_trans [rotated])
      then have "r = 0" using r by linarith
      then show ?thesis using vq assms(1) by (simp add: is_float_def)
    qed
  qed
  then show "is_float F (FFin t ?d)" "?v \<noteq> of_int r \<Longrightarrow> \<bar>r\<bar> \<le> 2 ^ (precision F - 1)"
    using less by (simp_all add: is_float_def)
qed

lemma steps_round_even:
  assumes "is_float F x"
  shows "round_even_steps F x = (if x = FFin True (1 / 2) then FFin False 0 else f_roundeven x)"
proof (cases x)
  case (FFin s q)
  let ?v = "with_sign s q" let ?r = "round_half_away ?v"
  have fl: "is_float F (FFin s q)" using assms FFin by simp
  have q: "0 \<le> q" using representable_nonneg [of F q] fl by (simp add: is_float_def)
  have r_sign: "with_sign s (of_int \<bar>?r\<bar>) = of_int ?r"
  proof -
    have "0 \<le> \<lfloor>1 / 2 + q\<rfloor>" "0 \<le> \<lfloor>q + 1 / 2\<rfloor>" "\<lfloor>1 / 2 :: rat\<rfloor> = 0" using q by linarith+
    then show ?thesis using q by (cases "q = 0") (simp_all add: with_sign_def round_half_away_def)
  qed
  note r_sign' = r_sign [unfolded of_int_abs]
  have rounded: "f_round x = FFin s (of_int \<bar>?r\<bar>)" by (simp add: FFin f_round_def)
  have dist: "is_float F (FFin t \<bar>?v - of_int ?r\<bar>)" for t by (rule distance_is_float(1) [OF fl refl])
  have "f_sub F x (f_round x) = f_of_exact F (s \<and> \<not> s) (?v - of_int ?r)"
    unfolding f_sub_def rounded unfolding FFin by (simp add: r_sign')
  also have "\<dots> = FFin (if ?v - of_int ?r = 0 then s \<and> \<not> s else ?v - of_int ?r < 0) \<bar>?v - of_int ?r\<bar>"
    by (rule exact_result [OF dist])
  finally have sub: "f_fabs (f_sub F x (f_round x)) = FFin False \<bar>?v - of_int ?r\<bar>" by simp
  show ?thesis
  proof (cases "\<bar>?v - of_int ?r\<bar> = 1 / 2")
    case False
    have "round_half_even ?v = ?r"
      using False round_half_away_near [of ?v] by (intro round_half_even_unique) linarith
    then have "f_roundeven x = f_round x" by (simp add: FFin f_roundeven_def f_round_def)
    moreover have "x \<noteq> FFin True (1 / 2)"
    proof
      assume "x = FFin True (1 / 2)"
      then have "?v = - 1 / 2" using FFin by (simp add: with_sign_def)
      then have "?r = - 1" by (simp add: round_half_away_def)
      then show False using False \<open>?v = - 1 / 2\<close> by simp
    qed
    ultimately show ?thesis using False by (simp add: round_even_steps_def sub with_sign_def)
  next
    case True
    note tie = this
    have ne: "?v \<noteq> of_int ?r" using True by auto
    have small: "\<bar>?r\<bar> \<le> 2 ^ (precision F - 1)" by (rule distance_is_float(2) [OF fl refl ne])
    have p: "(2 :: int) ^ precision F = 2 * 2 ^ (precision F - 1)" "2 \<le> (2 :: int) ^ (precision F - 1)"
      using significand power_increasing [of 1 "precision F - 1" "2 :: int"] by (cases "precision F"; simp)+
    have even: "round_half_even ?v = (if odd ?r then if ?v < of_int ?r then ?r - 1 else ?r + 1 else ?r)"
      using round_even_cases [of ?v ?r] tie by simp
    have fmod: "f_fmod F (f_round x) (FFin False 2) = f_of_exact F s (with_sign s (of_int (\<bar>?r\<bar> mod 2)))"
    proof -
      have "\<lfloor>of_int \<bar>?r\<bar> / (2 :: rat)\<rfloor> = \<bar>?r\<bar> div 2"
        using floor_divide_of_int_eq [of "\<bar>?r\<bar>" 2, where 'a = rat] by simp
      then have "of_int \<bar>?r\<bar> - of_int \<lfloor>of_int \<bar>?r\<bar> / (2 :: rat)\<rfloor> * 2 = (of_int (\<bar>?r\<bar> mod 2) :: rat)"
        by (simp add: minus_div_mult_eq_mod [symmetric])
      then show ?thesis by (simp add: rounded)
    qed
    show ?thesis
    proof (cases "odd ?r")
      case False
      then have "\<bar>?r\<bar> mod 2 = 0" by (simp add: even_iff_mod_2_eq_zero [symmetric])
      then have "round_even_steps F x = f_round x"
        using fmod tie by (simp add: round_even_steps_def sub f_of_exact_def with_sign_def)
      moreover have "f_roundeven x = f_round x" using even False by (simp add: FFin f_roundeven_def f_round_def)
      moreover have "x \<noteq> FFin True (1 / 2)"
      proof
        assume "x = FFin True (1 / 2)"
        then have "?v = - 1 / 2" using FFin by (simp add: with_sign_def)
        then have "?r = - 1" by (simp add: round_half_away_def)
        then show False using False by simp
      qed
      ultimately show ?thesis by simp
    next
      case odd: True
      have "\<bar>?r\<bar> mod 2 = 1" using odd by (simp add: odd_iff_mod_2_eq_one [symmetric])
      then have "\<not> f_equal (f_fmod F (f_round x) (FFin False 2)) (FFin False 0)"
        using exact_result [of "with_sign s 1 < 0" "with_sign s 1" s] one_is_float
        by (simp add: fmod)
      then have steps: "round_even_steps F x =
          (if f_greater (f_round x) (FFin False 0) then f_sub F (f_round x) (FFin False 1) else f_add F (f_round x) (FFin False 1))"
        using tie by (simp add: round_even_steps_def sub with_sign_def)
      have nz: "?r \<noteq> 0" using odd by auto
      have fits: "is_float F (FFin t \<bar>of_int n\<bar>)" if "\<bar>n\<bar> \<le> \<bar>?r\<bar>" for t n
        using integers_are_floats [of n t] that small p by simp
      show ?thesis
      proof (cases "0 < ?r")
        case True
        then have s: "\<not> s" using r_sign' by (auto simp: with_sign_def split: if_splits)
        then have "?r = \<lfloor>?v + 1 / 2\<rfloor>" using q by (simp add: with_sign_def round_half_away_def)
        then have "?v < of_int ?r + 1 / 2" by linarith
        then have v: "?v = of_int ?r - 1 / 2" using tie by (simp add: abs_if split: if_splits)
        have "round_even_steps F x = f_of_exact F False (of_int ?r - 1)"
          using True s by (simp add: steps rounded f_sub_def with_sign_def)
        also have "\<dots> = f_of_exact F False (of_int (?r - 1))" by simp
        also have "\<dots> = FFin False \<bar>of_int (?r - 1)\<bar>"
          using True exact_result [OF fits [of "?r - 1"], of False] by simp
        finally show ?thesis using even odd v s by (simp add: FFin f_roundeven_def)
      next
        case False
        then have neg: "?r < 0" using nz by linarith
        then have s: s using r_sign' by (auto simp: with_sign_def split: if_splits)
        have "?v < 0" using neg tie s q by (cases "q = 0") (auto simp: with_sign_def round_half_away_def)
        then have "?r = - \<lfloor>1 / 2 - ?v\<rfloor>" by (simp add: round_half_away_def)
        then have "of_int ?r - 1 / 2 < ?v" by linarith
        then have v: "?v = of_int ?r + 1 / 2" using tie by (simp add: abs_if split: if_splits)
        have "round_even_steps F x = f_of_exact F False (of_int ?r + 1)"
          using neg s r_sign' by (simp add: steps rounded with_sign_def)
        also have "\<dots> = f_of_exact F False (of_int (?r + 1))" by simp
        also have "\<dots> = FFin (?r + 1 < 0) \<bar>of_int (?r + 1)\<bar>"
          using neg exact_result [OF fits [of "?r + 1"], of False] by simp
        finally have r: "round_even_steps F x = FFin (?r + 1 < 0) \<bar>of_int (?r + 1)\<bar>" .
        have "f_roundeven x = FFin True \<bar>of_int (?r + 1)\<bar>" using even odd v s by (simp add: FFin f_roundeven_def)
        moreover have "x = FFin True (1 / 2) \<longleftrightarrow> ?r = - 1" using s v unfolding FFin by (auto simp: with_sign_def)
        ultimately show ?thesis using r neg by auto
      qed
    qed
  qed
qed (simp_all add: round_even_steps_def f_roundeven_def f_round_def f_sub_def)

end

section \<open>What the kernels compute\<close>

lemma lround_of_int:
  "s_fits TYPE(64) n \<Longrightarrow> lround (FFin (n < 0) (of_int \<bar>n\<bar>)) = Inr (word_of_int n)"
  by (cases "n < 0") (simp_all add: with_sign_def)

lemmas lround_exact = lround_of_int [unfolded of_int_abs]

lemma round_half_even_examples:
  "round_half_even (- (1 / 2)) = 0" "round_half_even (5 / 2) = 2" "round_half_even (- (7 / 2)) = - 4"
  using round_half_even_tie [of "- (1 / 2)" "- 1"] round_half_even_tie [of "5 / 2" 2] round_half_even_tie [of "- (7 / 2)" "- 4"]
  by simp_all

text \<open>
  C40. Rounding to even without \<open>roundeven\<close>, the case of every compiler since the macro is misspelled, gives the number that
  \<open>roundeven\<close> would give, at both widths and for every number of the format, infinities and NaNs included; only -0.5 gives the
  other zero.
\<close>

theorem round_even_without_c23:
  assumes "is_float binary32 x" "is_float binary64 y"
  shows "vm_round_f32_even 0 x = (if x = FFin True (1 / 2) then FFin False 0 else vm_round_f32_even 202300 x)
    \<and> vm_round_f64_even 0 y = (if y = FFin True (1 / 2) then FFin False 0 else vm_round_f64_even 202300 y)
    \<and> f_value (vm_round_f32_even 0 x) = f_value (f_roundeven x) \<and> f_value (vm_round_f64_even 0 y) = f_value (f_roundeven y)"
  using b32.steps_round_even [OF assms(1)] b64.steps_round_even [OF assms(2)]
  by (simp add: vm_round_f32_even_def vm_round_f64_even_def f_roundeven_def with_sign_def round_half_even_examples)

lemma half_floats:
  assumes "n < 2 ^ precision F" "0 \<le> n" "min_exp F \<le> - 1" "0 \<le> max_exp F" "n < 8"  "3 \<le> max_exp F"
  shows "is_float F (FFin s (of_int n / 2))"
proof -
  have "of_int n / 2 < two_pow (max_exp F + 1)"
    using assms(5) two_pow_mono [of 4 "max_exp F + 1"] assms(6) by (simp add: two_pow_def)
  then show ?thesis
    unfolding is_float_def fval.case representable_def using assms by (intro conjI exI [of _ n] exI [of _ "- 1"]) simp_all
qed

theorem round_even_without_c23_witness:
  "vm_round_f32_even 0 (FFin False (5 / 2)) = FFin False 2 \<and> vm_round_f64_even 0 (FFin True (7 / 2)) = FFin True 4"
  using round_even_without_c23 [of "FFin False (5 / 2)" "FFin True (7 / 2)"]
    half_floats [of 5 binary32 False] half_floats [of 7 binary64 True]
  by (simp add: vm_round_f32_even_def vm_round_f64_even_def f_roundeven_def with_sign_def round_half_even_examples
      binary32_def binary64_def)

lemma exact_casts:
  "\<bar>n\<bar> < 2 ^ 24 \<Longrightarrow> lround (f_of_int binary32 n) = Inr (word_of_int n)"
  "\<bar>n\<bar> < 2 ^ 24 \<Longrightarrow> lround (f_convert binary32 (f_of_int binary64 n)) = Inr (word_of_int n)"
  "\<bar>n\<bar> < 2 ^ 53 \<Longrightarrow> lround (f_of_int binary64 n) = Inr (word_of_int n)"
proof -
  have p: "precision binary32 = 24" "precision binary64 = 53" by (simp_all add: binary32_def binary64_def)
  have f: "s_fits TYPE(64) n" if "\<bar>n\<bar> < 2 ^ 53" using that by (simp add: s_fits_def abs_less_iff)
  show "lround (f_of_int binary32 n) = Inr (word_of_int n)" if "\<bar>n\<bar> < 2 ^ 24"
    using that b32.of_int_exact [of n] f by (simp add: p lround_exact del: lround.simps)
  show "lround (f_of_int binary64 n) = Inr (word_of_int n)" if "\<bar>n\<bar> < 2 ^ 53"
    using that b64.of_int_exact [of n] f by (simp add: p lround_exact del: lround.simps)
  show "lround (f_convert binary32 (f_of_int binary64 n)) = Inr (word_of_int n)" if n: "\<bar>n\<bar> < 2 ^ 24"
  proof -
    have "f_of_int binary64 n = FFin (n < 0) (of_int \<bar>n\<bar>)" using n b64.of_int_exact [of n] by (simp add: p)
    moreover have "is_float binary32 (FFin (n < 0) (of_int \<bar>n\<bar>))" using n by (intro b32.integers_are_floats) (simp add: p)
    ultimately have "f_convert binary32 (f_of_int binary64 n) = FFin (n < 0) (of_int \<bar>n\<bar>)"
      using b32.rounded_exact by simp
    then show ?thesis using n f by (simp add: lround_exact del: lround.simps)
  qed
qed

text \<open>
  Integers survive the conversion to a float and back as long as the significand holds them: below \<open>2^24\<close> for \<open>float\<close>, below
  \<open>2^53\<close> for \<open>double\<close> and 64 bits. From \<open>double\<close> to 32 bits the bound is that of \<open>float\<close>, since the conversion goes through one.
\<close>

theorem integer_casts_round_trip:
  fixes a b :: i32 and c :: i64 and d :: u64
  shows "\<bar>sint a\<bar> < 2 ^ 24 \<Longrightarrow> vm_cast_f32si32 (vm_cast_si32f32 a) = Inr a"
    "uint b < 2 ^ 24 \<Longrightarrow> vm_cast_f32ui32 (vm_cast_ui32f32 b) = Inr b"
    "\<bar>sint a\<bar> < 2 ^ 24 \<Longrightarrow> vm_cast_f64si32 (vm_cast_si32f64 a) = Inr a"
    "uint b < 2 ^ 24 \<Longrightarrow> vm_cast_f64ui32 (vm_cast_ui32f64 b) = Inr b"
    "\<bar>sint c\<bar> < 2 ^ 53 \<Longrightarrow> vm_cast_f64si64 (vm_cast_si64f64 c) = Inr c"
    "uint d < 2 ^ 53 \<Longrightarrow> vm_cast_f64ui64 (vm_cast_ui64f64 d) = Inr d"
proof -
  have down: "ucast (word_of_int n :: 64 word) = (word_of_int n :: 32 word)" for n
    by (simp add: ucast_down_wi is_down)
  have widen: "ucast (scast a :: 64 word) = a" "ucast (ucast b :: 64 word) = b"
    using down [of "sint a"] down [of "uint b"] by simp_all
  note casts = vm_cast_f32si32_def vm_cast_si32f32_def vm_cast_f32ui32_def vm_cast_ui32f32_def vm_cast_f64si32_def
    vm_cast_si32f64_def vm_cast_f64ui32_def vm_cast_ui32f64_def vm_cast_f64si64_def vm_cast_si64f64_def
    vm_cast_f64ui64_def vm_cast_ui64f64_def
  show "\<bar>sint a\<bar> < 2 ^ 24 \<Longrightarrow> vm_cast_f32si32 (vm_cast_si32f32 a) = Inr a"
    "uint b < 2 ^ 24 \<Longrightarrow> vm_cast_f32ui32 (vm_cast_ui32f32 b) = Inr b"
    "\<bar>sint a\<bar> < 2 ^ 24 \<Longrightarrow> vm_cast_f64si32 (vm_cast_si32f64 a) = Inr a"
    "uint b < 2 ^ 24 \<Longrightarrow> vm_cast_f64ui32 (vm_cast_ui32f64 b) = Inr b"
    "\<bar>sint c\<bar> < 2 ^ 53 \<Longrightarrow> vm_cast_f64si64 (vm_cast_si64f64 c) = Inr c"
    "uint d < 2 ^ 53 \<Longrightarrow> vm_cast_f64ui64 (vm_cast_ui64f64 d) = Inr d"
    by (simp_all add: casts exact_casts down widen)
qed

text \<open>
  \<open>2^24 + 1\<close> as a \<open>double\<close> comes back as \<open>2^24\<close>. A \<open>double\<close> from \<open>2^63\<close> on, which an unsigned 64-bit integer can hold, has no
  specified conversion.
\<close>

lemma double_to_i32_goes_through_float: "vm_cast_f64si32 (vm_cast_si32f64 16777217) = Inr 16777216"
proof -
  have "f_of_int binary64 16777217 = FFin False 16777217"
    using b64.of_int_exact [of 16777217] by (simp add: binary64_def)
  moreover have "f_convert binary32 (FFin False 16777217) = FFin False 16777216"
  proof -
    have "binade 16777217 = 24" by (rule binade_eq) (simp_all add: two_pow_def)
    then have "unit_exp binary32 16777217 = 1" by (simp add: unit_exp_def binary32_def)
    then have "round_magnitude binary32 16777217 = 16777216"
      using round_half_even_tie [of "16777217 / 2" 8388608] by (simp add: round_magnitude_def)
    moreover have "\<not> two_pow (max_exp binary32 + 1) \<le> 16777216"
      using two_pow_less [of 24 "max_exp binary32 + 1"] by (simp add: binary32_def two_pow_def)
    ultimately show ?thesis by (simp add: f_rounded_def)
  qed
  moreover have "lround (FFin False 16777216) = Inr 16777216"
    using lround_exact [of 16777216] by (simp add: s_fits_def del: lround.simps)
  ultimately show ?thesis by (simp add: vm_cast_f64si32_def vm_cast_si32f64_def del: lround.simps)
qed

lemma large_double_to_u64_unspecified:
  "vm_cast_f64ui64 (vm_cast_ui64f64 0x8000000000000000) = Inl (Thrown ''unspecified'')"
proof -
  have "representable binary64 (of_int (2 ^ 63))"
    unfolding representable_def by (intro exI [of _ 1] exI [of _ 63]) (simp add: binary64_def two_pow_def)
  moreover have "of_int (2 ^ 63) < two_pow (max_exp binary64 + 1)"
    using two_pow_less [of 63 "max_exp binary64 + 1"] by (simp add: binary64_def two_pow_def)
  ultimately have "is_float binary64 (FFin False \<bar>of_int (2 ^ 63)\<bar>)" unfolding is_float_def fval.case by simp
  from b64.exact_result [OF this, of False] have "f_of_int binary64 (2 ^ 63) = FFin False (of_int (2 ^ 63))"
    unfolding f_of_int_def by simp
  moreover have "round_half_away (of_int (2 ^ 63)) = 2 ^ 63" by (rule round_half_away_int)
  ultimately show ?thesis by (simp add: vm_cast_f64ui64_def vm_cast_ui64f64_def with_sign_def s_fits_def)
qed

end
