(* ===== verification/Hal_Types.thy ===== *)
theory Hal_Types
  imports Nx_Prelude
begin

unbundle bit_operations_syntax

text \<open>
  \<open>iree/hal/buffer_view.h\<close>: numerical types, the packed 32-bit element type, and the
  queries on it (bit count, dense byte count, kind tests).
\<close>

section \<open>Definitions\<close>

type_synonym iree_hal_element_type_t = u32
type_synonym iree_hal_numerical_type_t = u8

datatype iree_hal_numerical_type_bits_t =
    IREE_HAL_NUMERICAL_TYPE_UNKNOWN
  | IREE_HAL_NUMERICAL_TYPE_INTEGER
  | IREE_HAL_NUMERICAL_TYPE_INTEGER_SIGNED
  | IREE_HAL_NUMERICAL_TYPE_INTEGER_UNSIGNED
  | IREE_HAL_NUMERICAL_TYPE_BOOLEAN
  | IREE_HAL_NUMERICAL_TYPE_FLOAT
  | IREE_HAL_NUMERICAL_TYPE_FLOAT_IEEE
  | IREE_HAL_NUMERICAL_TYPE_FLOAT_BRAIN
  | IREE_HAL_NUMERICAL_TYPE_FLOAT_COMPLEX

fun numerical_type_bits :: "iree_hal_numerical_type_bits_t \<Rightarrow> u8" where
  "numerical_type_bits IREE_HAL_NUMERICAL_TYPE_UNKNOWN = 0x00"
| "numerical_type_bits IREE_HAL_NUMERICAL_TYPE_INTEGER = 0x10"
| "numerical_type_bits IREE_HAL_NUMERICAL_TYPE_INTEGER_SIGNED = 0x10 OR 0x01"
| "numerical_type_bits IREE_HAL_NUMERICAL_TYPE_INTEGER_UNSIGNED = 0x10 OR 0x02"
| "numerical_type_bits IREE_HAL_NUMERICAL_TYPE_BOOLEAN = 0x10 OR 0x03"
| "numerical_type_bits IREE_HAL_NUMERICAL_TYPE_FLOAT = 0x20"
| "numerical_type_bits IREE_HAL_NUMERICAL_TYPE_FLOAT_IEEE = 0x20 OR 0x01"
| "numerical_type_bits IREE_HAL_NUMERICAL_TYPE_FLOAT_BRAIN = 0x20 OR 0x02"
| "numerical_type_bits IREE_HAL_NUMERICAL_TYPE_FLOAT_COMPLEX = 0x20 OR 0x03"

definition IREE_HAL_ELEMENT_TYPE_VALUE :: "u8 \<Rightarrow> u32 \<Rightarrow> iree_hal_element_type_t" where
  "IREE_HAL_ELEMENT_TYPE_VALUE numerical_type bit_count =
     push_bit 24 (ucast numerical_type) OR bit_count"

definition iree_hal_element_numerical_type ::
  "iree_hal_element_type_t \<Rightarrow> iree_hal_numerical_type_t" where
  "iree_hal_element_numerical_type element_type = ucast (drop_bit 24 element_type)"

definition iree_all_bits_set :: "u8 \<Rightarrow> u8 \<Rightarrow> bool" where
  "iree_all_bits_set v bits \<longleftrightarrow> v AND bits = bits"

definition iree_hal_element_numerical_type_is_opaque :: "iree_hal_element_type_t \<Rightarrow> bool" where
  "iree_hal_element_numerical_type_is_opaque t \<longleftrightarrow>
     iree_hal_element_numerical_type t = numerical_type_bits IREE_HAL_NUMERICAL_TYPE_UNKNOWN"

definition iree_hal_element_numerical_type_is_boolean :: "iree_hal_element_type_t \<Rightarrow> bool" where
  "iree_hal_element_numerical_type_is_boolean t \<longleftrightarrow>
     iree_all_bits_set (iree_hal_element_numerical_type t)
       (numerical_type_bits IREE_HAL_NUMERICAL_TYPE_BOOLEAN)"

definition iree_hal_element_numerical_type_is_integer :: "iree_hal_element_type_t \<Rightarrow> bool" where
  "iree_hal_element_numerical_type_is_integer t \<longleftrightarrow>
     iree_all_bits_set (iree_hal_element_numerical_type t)
       (numerical_type_bits IREE_HAL_NUMERICAL_TYPE_INTEGER)"

definition iree_hal_element_numerical_type_is_float :: "iree_hal_element_type_t \<Rightarrow> bool" where
  "iree_hal_element_numerical_type_is_float t \<longleftrightarrow>
     iree_all_bits_set (iree_hal_element_numerical_type t)
       (numerical_type_bits IREE_HAL_NUMERICAL_TYPE_FLOAT)"

definition iree_hal_element_numerical_type_is_complex_float ::
  "iree_hal_element_type_t \<Rightarrow> bool" where
  "iree_hal_element_numerical_type_is_complex_float t \<longleftrightarrow>
     iree_all_bits_set (iree_hal_element_numerical_type t)
       (numerical_type_bits IREE_HAL_NUMERICAL_TYPE_FLOAT_COMPLEX)"

definition iree_hal_element_bit_count :: "iree_hal_element_type_t \<Rightarrow> iree_host_size_t" where
  "iree_hal_element_bit_count t = ucast (t AND 0xFF)"

definition iree_hal_element_is_byte_aligned :: "iree_hal_element_type_t \<Rightarrow> bool" where
  "iree_hal_element_is_byte_aligned t \<longleftrightarrow> iree_hal_element_bit_count t mod 8 = 0"

definition iree_hal_element_dense_byte_count ::
  "iree_hal_element_type_t \<Rightarrow> iree_host_size_t" where
  "iree_hal_element_dense_byte_count t = (iree_hal_element_bit_count t + 8 - 1) div 8"

definition iree_hal_element_type_is_integer ::
  "iree_hal_element_type_t \<Rightarrow> iree_host_size_t \<Rightarrow> bool" where
  "iree_hal_element_type_is_integer t bit_width \<longleftrightarrow>
     iree_hal_element_numerical_type_is_integer t \<and> iree_hal_element_bit_count t = bit_width"

datatype iree_hal_element_types_t =
    IREE_HAL_ELEMENT_TYPE_NONE
  | IREE_HAL_ELEMENT_TYPE_OPAQUE_8
  | IREE_HAL_ELEMENT_TYPE_OPAQUE_16
  | IREE_HAL_ELEMENT_TYPE_OPAQUE_32
  | IREE_HAL_ELEMENT_TYPE_OPAQUE_64
  | IREE_HAL_ELEMENT_TYPE_BOOL_8
  | IREE_HAL_ELEMENT_TYPE_INT_4
  | IREE_HAL_ELEMENT_TYPE_SINT_4
  | IREE_HAL_ELEMENT_TYPE_UINT_4
  | IREE_HAL_ELEMENT_TYPE_INT_8
  | IREE_HAL_ELEMENT_TYPE_SINT_8
  | IREE_HAL_ELEMENT_TYPE_UINT_8
  | IREE_HAL_ELEMENT_TYPE_INT_16
  | IREE_HAL_ELEMENT_TYPE_SINT_16
  | IREE_HAL_ELEMENT_TYPE_UINT_16
  | IREE_HAL_ELEMENT_TYPE_INT_32
  | IREE_HAL_ELEMENT_TYPE_SINT_32
  | IREE_HAL_ELEMENT_TYPE_UINT_32
  | IREE_HAL_ELEMENT_TYPE_INT_64
  | IREE_HAL_ELEMENT_TYPE_SINT_64
  | IREE_HAL_ELEMENT_TYPE_UINT_64
  | IREE_HAL_ELEMENT_TYPE_FLOAT_16
  | IREE_HAL_ELEMENT_TYPE_FLOAT_32
  | IREE_HAL_ELEMENT_TYPE_FLOAT_64
  | IREE_HAL_ELEMENT_TYPE_BFLOAT_16
  | IREE_HAL_ELEMENT_TYPE_COMPLEX_FLOAT_64
  | IREE_HAL_ELEMENT_TYPE_COMPLEX_FLOAT_128

text \<open>The initialisers of the enumeration: numerical type and bit count of each element type.\<close>

fun element_type_attrs :: "iree_hal_element_types_t \<Rightarrow> iree_hal_numerical_type_bits_t \<times> u32" where
  "element_type_attrs IREE_HAL_ELEMENT_TYPE_NONE =
     (IREE_HAL_NUMERICAL_TYPE_UNKNOWN, 0)"
| "element_type_attrs IREE_HAL_ELEMENT_TYPE_OPAQUE_8 =
     (IREE_HAL_NUMERICAL_TYPE_UNKNOWN, 8)"
| "element_type_attrs IREE_HAL_ELEMENT_TYPE_OPAQUE_16 =
     (IREE_HAL_NUMERICAL_TYPE_UNKNOWN, 16)"
| "element_type_attrs IREE_HAL_ELEMENT_TYPE_OPAQUE_32 =
     (IREE_HAL_NUMERICAL_TYPE_UNKNOWN, 32)"
| "element_type_attrs IREE_HAL_ELEMENT_TYPE_OPAQUE_64 =
     (IREE_HAL_NUMERICAL_TYPE_UNKNOWN, 64)"
| "element_type_attrs IREE_HAL_ELEMENT_TYPE_BOOL_8 =
     (IREE_HAL_NUMERICAL_TYPE_BOOLEAN, 8)"
| "element_type_attrs IREE_HAL_ELEMENT_TYPE_INT_4 =
     (IREE_HAL_NUMERICAL_TYPE_INTEGER, 4)"
| "element_type_attrs IREE_HAL_ELEMENT_TYPE_SINT_4 =
     (IREE_HAL_NUMERICAL_TYPE_INTEGER_SIGNED, 4)"
| "element_type_attrs IREE_HAL_ELEMENT_TYPE_UINT_4 =
     (IREE_HAL_NUMERICAL_TYPE_INTEGER_UNSIGNED, 4)"
| "element_type_attrs IREE_HAL_ELEMENT_TYPE_INT_8 =
     (IREE_HAL_NUMERICAL_TYPE_INTEGER, 8)"
| "element_type_attrs IREE_HAL_ELEMENT_TYPE_SINT_8 =
     (IREE_HAL_NUMERICAL_TYPE_INTEGER_SIGNED, 8)"
| "element_type_attrs IREE_HAL_ELEMENT_TYPE_UINT_8 =
     (IREE_HAL_NUMERICAL_TYPE_INTEGER_UNSIGNED, 8)"
| "element_type_attrs IREE_HAL_ELEMENT_TYPE_INT_16 =
     (IREE_HAL_NUMERICAL_TYPE_INTEGER, 16)"
| "element_type_attrs IREE_HAL_ELEMENT_TYPE_SINT_16 =
     (IREE_HAL_NUMERICAL_TYPE_INTEGER_SIGNED, 16)"
| "element_type_attrs IREE_HAL_ELEMENT_TYPE_UINT_16 =
     (IREE_HAL_NUMERICAL_TYPE_INTEGER_UNSIGNED, 16)"
| "element_type_attrs IREE_HAL_ELEMENT_TYPE_INT_32 =
     (IREE_HAL_NUMERICAL_TYPE_INTEGER, 32)"
| "element_type_attrs IREE_HAL_ELEMENT_TYPE_SINT_32 =
     (IREE_HAL_NUMERICAL_TYPE_INTEGER_SIGNED, 32)"
| "element_type_attrs IREE_HAL_ELEMENT_TYPE_UINT_32 =
     (IREE_HAL_NUMERICAL_TYPE_INTEGER_UNSIGNED, 32)"
| "element_type_attrs IREE_HAL_ELEMENT_TYPE_INT_64 =
     (IREE_HAL_NUMERICAL_TYPE_INTEGER, 64)"
| "element_type_attrs IREE_HAL_ELEMENT_TYPE_SINT_64 =
     (IREE_HAL_NUMERICAL_TYPE_INTEGER_SIGNED, 64)"
| "element_type_attrs IREE_HAL_ELEMENT_TYPE_UINT_64 =
     (IREE_HAL_NUMERICAL_TYPE_INTEGER_UNSIGNED, 64)"
| "element_type_attrs IREE_HAL_ELEMENT_TYPE_FLOAT_16 =
     (IREE_HAL_NUMERICAL_TYPE_FLOAT_IEEE, 16)"
| "element_type_attrs IREE_HAL_ELEMENT_TYPE_FLOAT_32 =
     (IREE_HAL_NUMERICAL_TYPE_FLOAT_IEEE, 32)"
| "element_type_attrs IREE_HAL_ELEMENT_TYPE_FLOAT_64 =
     (IREE_HAL_NUMERICAL_TYPE_FLOAT_IEEE, 64)"
| "element_type_attrs IREE_HAL_ELEMENT_TYPE_BFLOAT_16 =
     (IREE_HAL_NUMERICAL_TYPE_FLOAT_BRAIN, 16)"
| "element_type_attrs IREE_HAL_ELEMENT_TYPE_COMPLEX_FLOAT_64 =
     (IREE_HAL_NUMERICAL_TYPE_FLOAT_COMPLEX, 64)"
| "element_type_attrs IREE_HAL_ELEMENT_TYPE_COMPLEX_FLOAT_128 =
     (IREE_HAL_NUMERICAL_TYPE_FLOAT_COMPLEX, 128)"

definition element_type_code :: "iree_hal_element_types_t \<Rightarrow> iree_hal_element_type_t" where
  "element_type_code t =
     (case element_type_attrs t of (n, b) \<Rightarrow> IREE_HAL_ELEMENT_TYPE_VALUE (numerical_type_bits n) b)"

lemmas hal_type_defs [c_defs] =
  IREE_HAL_ELEMENT_TYPE_VALUE_def iree_hal_element_numerical_type_def iree_all_bits_set_def
  iree_hal_element_bit_count_def iree_hal_element_dense_byte_count_def
  iree_hal_element_is_byte_aligned_def

section \<open>Packing and unpacking\<close>

lemma numerical_type_of_value:
  assumes "b AND 0xFF = b"
  shows "iree_hal_element_numerical_type (IREE_HAL_ELEMENT_TYPE_VALUE n b) = n"
proof (rule bit_word_eqI)
  fix i :: nat
  assume i: "i < LENGTH(8)"
  have "\<not> bit (b AND mask 8) (24 + i)" by (simp add: bit_simps)
  then have "\<not> bit b (24 + i)" using assms by (simp add: mask_eq_exp_minus_1)
  then show "bit (iree_hal_element_numerical_type (IREE_HAL_ELEMENT_TYPE_VALUE n b)) i = bit n i"
    using i by (simp add: c_defs bit_simps)
qed

lemma bit_count_of_value:
  assumes "b AND 0xFF = b"
  shows "iree_hal_element_bit_count (IREE_HAL_ELEMENT_TYPE_VALUE n b) = ucast b"
proof -
  have "push_bit 24 (ucast n :: u32) AND mask 8 = 0"
    by (rule bit_word_eqI) (auto simp: bit_simps)
  then have "(push_bit 24 (ucast n) OR b) AND mask 8 = b AND mask 8"
    by (simp add: bit.conj_disj_distrib2)
  then show ?thesis using assms by (simp add: c_defs mask_eq_exp_minus_1)
qed

lemma attrs_bit_count [simp]:
  "snd (element_type_attrs t) AND 0xFF = snd (element_type_attrs t)"
  by (cases t) simp_all

lemma element_type_code_unpack:
  "iree_hal_element_numerical_type (element_type_code t) =
     numerical_type_bits (fst (element_type_attrs t))"
  "iree_hal_element_bit_count (element_type_code t) = ucast (snd (element_type_attrs t))"
  by (simp_all add: element_type_code_def case_prod_beta numerical_type_of_value
      bit_count_of_value)

lemma numerical_type_bits_inj: "numerical_type_bits m = numerical_type_bits n \<longleftrightarrow> m = n"
  by (cases m; cases n) simp_all

lemma element_type_attrs_inj: "element_type_attrs s = element_type_attrs t \<longleftrightarrow> s = t"
  by (cases s; cases t) simp_all

lemma snd_attrs_ucast_inj:
  "(ucast (snd (element_type_attrs s)) :: u64) = ucast (snd (element_type_attrs t)) \<longleftrightarrow>
     snd (element_type_attrs s) = snd (element_type_attrs t)"
  by (cases s; cases t) simp_all

lemma element_type_code_inj [simp]: "element_type_code s = element_type_code t \<longleftrightarrow> s = t"
proof
  assume eq: "element_type_code s = element_type_code t"
  have "fst (element_type_attrs s) = fst (element_type_attrs t)"
    using element_type_code_unpack(1) [of s] element_type_code_unpack(1) [of t]
    by (simp add: eq numerical_type_bits_inj)
  moreover have "snd (element_type_attrs s) = snd (element_type_attrs t)"
    using element_type_code_unpack(2) [of s] element_type_code_unpack(2) [of t]
    by (simp add: eq snd_attrs_ucast_inj)
  ultimately show "s = t"
    by (simp add: prod_eq_iff flip: element_type_attrs_inj)
qed simp

lemma dense_byte_count_code:
  "unat (iree_hal_element_dense_byte_count (element_type_code t)) =
     (unat (snd (element_type_attrs t)) + 7) div 8"
  unfolding iree_hal_element_dense_byte_count_def element_type_code_unpack
  by (cases t) simp_all

end
