(* ===== verification/Nx_Api.thy ===== *)
theory Nx_Api
  imports Iree_Status Hal_Types
begin

text \<open>
  What the library calls and does not define: the IREE runtime and the C allocator, as a
  record of functions over an opaque world \<open>'w\<close>. A pointer-valued out-parameter is passed in
  with its current value and handed back, so a function that fails may leave it untouched;
  \<open>None\<close> is a variable that was never initialised. Below it, the state of the library's own
  objects: the heap of tensors and devices made with \<open>new\<close>, and the log of ownership events
  the code performs on library objects.
\<close>

section \<open>The IREE runtime and the C allocator\<close>

record driver_info =
  di_driver_name :: string
  di_full_name :: string

record device_info =
  dev_path :: string
  dev_id :: u64

record 'w iree_api =
  api_malloc :: "u64 \<Rightarrow> 'w \<Rightarrow> u8 list option \<times> 'w"
  api_operator_new :: "u64 \<Rightarrow> 'w \<Rightarrow> u8 list option \<times> 'w"
  iree_make_status :: "iree_status_code_t \<Rightarrow> string \<Rightarrow> 'w \<Rightarrow> iree_status_t \<times> 'w"
  iree_status_to_string :: "iree_status_t \<Rightarrow> 'w \<Rightarrow> string option \<times> 'w"
  iree_vm_instance_create :: "ptr \<Rightarrow> 'w \<Rightarrow> iree_status_t \<times> ptr \<times> 'w"
  iree_hal_module_register_all_types :: "ptr \<Rightarrow> 'w \<Rightarrow> iree_status_t \<times> 'w"
  iree_vm_instance_release :: "ptr \<Rightarrow> 'w \<Rightarrow> 'w"
  iree_hal_available_driver_registry :: "'w \<Rightarrow> ptr"
  iree_hal_register_all_available_drivers :: "ptr \<Rightarrow> 'w \<Rightarrow> iree_status_t \<times> 'w"
  iree_hal_driver_registry_enumerate ::
    "ptr \<Rightarrow> 'w \<Rightarrow> iree_status_t \<times> driver_info list option \<times> 'w"
  iree_hal_driver_registry_try_create ::
    "ptr \<Rightarrow> string \<Rightarrow> 'w \<Rightarrow> iree_status_t \<times> ptr option \<times> 'w"
  iree_hal_driver_query_available_devices ::
    "ptr \<Rightarrow> 'w \<Rightarrow> iree_status_t \<times> device_info list option \<times> 'w"
  iree_hal_driver_release :: "ptr \<Rightarrow> 'w \<Rightarrow> 'w"
  iree_hal_create_device :: "ptr \<Rightarrow> string \<Rightarrow> ptr option \<Rightarrow> 'w \<Rightarrow> iree_status_t \<times> ptr option \<times> 'w"
  iree_hal_device_release :: "ptr \<Rightarrow> 'w \<Rightarrow> 'w"
  iree_hal_device_id :: "ptr \<Rightarrow> 'w \<Rightarrow> string"
  iree_hal_device_transfer_d2h ::
    "ptr \<Rightarrow> ptr \<Rightarrow> u64 \<Rightarrow> u8 list \<Rightarrow> u64 \<Rightarrow> 'w \<Rightarrow> iree_status_t \<times> u8 list \<times> 'w"
  iree_hal_buffer_byte_length :: "ptr \<Rightarrow> 'w \<Rightarrow> u64"
  iree_hal_buffer_view_buffer :: "ptr \<Rightarrow> 'w \<Rightarrow> ptr"
  iree_hal_buffer_view_byte_length :: "ptr \<Rightarrow> 'w \<Rightarrow> u64"
  iree_hal_buffer_view_shape_rank :: "ptr \<Rightarrow> 'w \<Rightarrow> u64"
  iree_hal_buffer_view_shape_dims :: "ptr \<Rightarrow> 'w \<Rightarrow> u64 list"
  iree_hal_buffer_view_element_type :: "ptr \<Rightarrow> 'w \<Rightarrow> iree_hal_element_type_t"
  iree_hal_buffer_view_release :: "ptr \<Rightarrow> 'w \<Rightarrow> 'w"
  iree_hal_buffer_view_allocate_buffer_copy ::
    "ptr \<Rightarrow> u64 list \<Rightarrow> iree_hal_element_type_t \<Rightarrow> u8 list \<Rightarrow> ptr \<Rightarrow> 'w \<Rightarrow> iree_status_t \<times> ptr \<times> 'w"
  iree_hal_module_create :: "ptr \<Rightarrow> ptr list \<Rightarrow> ptr \<Rightarrow> 'w \<Rightarrow> iree_status_t \<times> ptr \<times> 'w"
  iree_vm_bytecode_module_create :: "ptr \<Rightarrow> u8 list \<Rightarrow> ptr \<Rightarrow> 'w \<Rightarrow> iree_status_t \<times> ptr \<times> 'w"
  iree_vm_context_create_with_modules ::
    "ptr \<Rightarrow> ptr list \<Rightarrow> ptr \<Rightarrow> 'w \<Rightarrow> iree_status_t \<times> ptr \<times> 'w"
  iree_vm_context_release :: "ptr \<Rightarrow> 'w \<Rightarrow> 'w"
  iree_vm_context_resolve_function ::
    "ptr \<Rightarrow> string \<Rightarrow> u64 option \<Rightarrow> 'w \<Rightarrow> iree_status_t \<times> u64 option \<times> 'w"
  iree_vm_list_create :: "u64 \<Rightarrow> ptr \<Rightarrow> 'w \<Rightarrow> iree_status_t \<times> ptr \<times> 'w"
  iree_vm_list_push_ref_move :: "ptr \<Rightarrow> ptr \<Rightarrow> 'w \<Rightarrow> iree_status_t \<times> ptr \<times> 'w"
  iree_vm_list_get_buffer_view_retain :: "ptr \<Rightarrow> nat \<Rightarrow> 'w \<Rightarrow> ptr \<times> 'w"
  iree_vm_list_release :: "ptr \<Rightarrow> 'w \<Rightarrow> 'w"
  iree_vm_function_call_get_cconv_fragments ::
    "u64 \<Rightarrow> (string \<times> string) option \<Rightarrow> 'w \<Rightarrow> iree_status_t \<times> (string \<times> string) option \<times> 'w"
  iree_vm_invoke :: "ptr \<Rightarrow> u64 \<Rightarrow> ptr \<Rightarrow> ptr \<Rightarrow> 'w \<Rightarrow> iree_status_t \<times> 'w"

text \<open>
  A reference passed to \<open>iree_vm_list_push_ref_move\<close> is the object it points to; the second
  component of the result is what the reference variable holds afterwards. A function
  handle is the word that identifies it. Only builds without CUDA are modelled, where
  \<open>RUN_IF_CUDA_ENABLED\<close> expands to an empty statement.
\<close>

section \<open>Objects of the library\<close>

record iree_tensor =
  t_data :: "u8 list option"
  t_size :: u64
  t_dims :: "u64 list"
  t_type :: iree_hal_element_type_t
  t_buffer_view :: ptr
  t_device :: "ptr option"

record device_obj =
  d_uri :: string
  d_ref :: "ptr option"
  d_driver_name :: string
  d_id :: "u64 option"

record driver_obj =
  drv_name :: string
  drv_full_name :: string

datatype own_event =
    InstanceReleased ptr
  | DeviceReleased ptr
  | DriverReleased ptr
  | BufferViewReleased ptr
  | ContextReleased ptr
  | ListReleased ptr
  | InfosFreed
  | DataFreed
  | RefMoved ptr
  | StatusFreed iree_status_t
  | AllocatorReleased ptr
  | LoaderReleased ptr
  | RegistryFreed ptr

record 'w rt =
  rt_world :: 'w
  rt_tensors :: "iree_tensor option list"
  rt_devices :: "device_obj option list"
  rt_log :: "own_event list"

type_synonym tensor_ref = nat
type_synonym device_ref = nat

definition log_event :: "own_event \<Rightarrow> 'w rt \<Rightarrow> 'w rt" where
  "log_event e s = s\<lparr>rt_log := rt_log s @ [e]\<rparr>"

text \<open>Calling a function that changes the world, and one that only reads it.\<close>

definition api_call :: "('w \<Rightarrow> 'a \<times> 'w) \<Rightarrow> ('w rt, 'a) sm" where
  "api_call f s = (case f (rt_world s) of (x, w) \<Rightarrow> Inr (x, s\<lparr>rt_world := w\<rparr>))"

definition api_call2 :: "('w \<Rightarrow> 'a \<times> 'b \<times> 'w) \<Rightarrow> ('w rt, 'a \<times> 'b) sm" where
  "api_call2 f s = (case f (rt_world s) of (x, y, w) \<Rightarrow> Inr ((x, y), s\<lparr>rt_world := w\<rparr>))"

definition api_do :: "('w \<Rightarrow> 'w) \<Rightarrow> own_event \<Rightarrow> ('w rt, unit) sm" where
  "api_do f e s = Inr ((), log_event e (s\<lparr>rt_world := f (rt_world s)\<rparr>))"

definition api_get :: "('w \<Rightarrow> 'a) \<Rightarrow> ('w rt, 'a) sm" where
  "api_get f s = Inr (f (rt_world s), s)"

lemma api_run_simps [simp]:
  "api_call f s = Inr (fst (f (rt_world s)), s\<lparr>rt_world := snd (f (rt_world s))\<rparr>)"
  "api_call2 g s = Inr ((fst (g (rt_world s)), fst (snd (g (rt_world s)))),
     s\<lparr>rt_world := snd (snd (g (rt_world s)))\<rparr>)"
  "api_do h e s = Inr ((), log_event e (s\<lparr>rt_world := h (rt_world s)\<rparr>))"
  "api_get q s = Inr (q (rt_world s), s)"
  by (simp_all add: api_call_def api_call2_def api_do_def api_get_def case_prod_beta)

lemma api_bind_simps [simp]:
  "bind_sm (api_call f) k s = k (fst (f (rt_world s))) (s\<lparr>rt_world := snd (f (rt_world s))\<rparr>)"
  "bind_sm (api_call2 g) k2 s = k2 (fst (g (rt_world s)), fst (snd (g (rt_world s))))
     (s\<lparr>rt_world := snd (snd (g (rt_world s)))\<rparr>)"
  "bind_sm (api_do h e) k3 s = k3 () (log_event e (s\<lparr>rt_world := h (rt_world s)\<rparr>))"
  "bind_sm (api_get q) k4 s = k4 (q (rt_world s)) s"
  by (simp_all add: bind_sm_def)

lemma log_event_simps [simp]:
  "rt_world (log_event e s) = rt_world s"
  "rt_tensors (log_event e s) = rt_tensors s"
  "rt_devices (log_event e s) = rt_devices s"
  "rt_log (log_event e s) = rt_log s @ [e]"
  by (simp_all add: log_event_def)

text \<open>A normal form for updates of different fields of the state.\<close>

lemma rt_update_order [simp]:
  "rt_world_update f (rt_log_update l s) = rt_log_update l (rt_world_update f s)"
  "rt_world_update f (rt_tensors_update t s) = rt_tensors_update t (rt_world_update f s)"
  "rt_world_update f (rt_devices_update d s) = rt_devices_update d (rt_world_update f s)"
  "rt_tensors_update t (rt_log_update l s) = rt_log_update l (rt_tensors_update t s)"
  "rt_devices_update d (rt_log_update l s) = rt_log_update l (rt_devices_update d s)"
  "rt_tensors_update t (rt_devices_update d s) = rt_devices_update d (rt_tensors_update t s)"
  by (cases s; simp)+

text \<open>The heap of tensors: \<open>new\<close>, member access through a pointer, and assignment.\<close>

definition new_tensor :: "iree_tensor \<Rightarrow> ('w rt, tensor_ref) sm" where
  "new_tensor t s = Inr (length (rt_tensors s), s\<lparr>rt_tensors := rt_tensors s @ [Some t]\<rparr>)"

definition get_tensor :: "tensor_ref \<Rightarrow> ('w rt, iree_tensor) sm" where
  "get_tensor p s =
     (if p < length (rt_tensors s)
      then case rt_tensors s ! p of None \<Rightarrow> Inl UseAfterFree | Some t \<Rightarrow> Inr (t, s)
      else Inl OutOfBounds)"

definition put_tensor :: "tensor_ref \<Rightarrow> iree_tensor \<Rightarrow> ('w rt, unit) sm" where
  "put_tensor p t s =
     (if p < length (rt_tensors s)
      then case rt_tensors s ! p of
             None \<Rightarrow> Inl UseAfterFree
           | Some _ \<Rightarrow> Inr ((), s\<lparr>rt_tensors := (rt_tensors s)[p := Some t]\<rparr>)
      else Inl OutOfBounds)"

definition tensor_at :: "'w rt \<Rightarrow> tensor_ref \<Rightarrow> iree_tensor \<Rightarrow> bool" where
  "tensor_at s p t \<longleftrightarrow> p < length (rt_tensors s) \<and> rt_tensors s ! p = Some t"

lemma get_tensor_at: "tensor_at s p t \<Longrightarrow> get_tensor p s = Inr (t, s)"
  by (simp add: tensor_at_def get_tensor_def)

lemma get_tensor_Inr: "get_tensor p s = Inr (t, s') \<longleftrightarrow> tensor_at s p t \<and> s' = s"
  by (auto simp: tensor_at_def get_tensor_def split: option.splits)

lemma bind_get_tensor: "tensor_at s p t \<Longrightarrow> bind_sm (get_tensor p) k s = k t s"
  by (simp add: get_tensor_at bind_sm_Inr)

lemma put_tensor_at:
  "tensor_at s p t \<Longrightarrow>
     put_tensor p t' s = Inr ((), s\<lparr>rt_tensors := (rt_tensors s)[p := Some t']\<rparr>)"
  by (simp add: tensor_at_def put_tensor_def)

lemma tensor_at_new:
  "new_tensor t s = Inr (p, s') \<Longrightarrow>
     tensor_at s' p t \<and> (\<forall>q u. tensor_at s q u \<longrightarrow> tensor_at s' q u \<and> q \<noteq> p)"
  by (auto simp: new_tensor_def tensor_at_def nth_append)

lemma tensor_at_world [simp]:
  "tensor_at (s\<lparr>rt_world := w\<rparr>) p t \<longleftrightarrow> tensor_at s p t"
  "tensor_at (s\<lparr>rt_devices := d\<rparr>) p t \<longleftrightarrow> tensor_at s p t"
  "tensor_at (s\<lparr>rt_log := l\<rparr>) p t \<longleftrightarrow> tensor_at s p t"
  "tensor_at (log_event e s) p t \<longleftrightarrow> tensor_at s p t"
  by (simp_all add: tensor_at_def)

text \<open>The bytes of a C string up to its terminator.\<close>

definition c_str :: "string \<Rightarrow> string" where
  "c_str s = takeWhile (\<lambda>c. c \<noteq> CHR 0x00) s"

lemma c_str_no_nul [simp]: "CHR 0x00 \<notin> set s \<Longrightarrow> c_str s = s"
  by (auto simp: c_str_def takeWhile_eq_all_conv)

end
