(* ===== verification/Nx_Tensor.thy ===== *)
theory Nx_Tensor
  imports Nx_Api
begin

text \<open>
  The class \<open>IREETensor\<close> of \<open>cmake/src/runtime.h\<close> and \<open>runtime.cc\<close>: its three constructors,
  \<open>deallocate\<close>, \<open>serialize\<close>, and \<open>read_buffer\<close>, which \<open>serialize\<close> calls. A pointer
  argument is the block of bytes it points into, read and written with its bounds checked.
\<close>

section \<open>Definitions\<close>

definition read_buffer ::
  "'w iree_api \<Rightarrow> ptr \<Rightarrow> ptr \<Rightarrow> u8 list \<Rightarrow> u64 \<Rightarrow> ('w rt, iree_status_t \<times> u8 list) sm" where
  "read_buffer api device buffer_view output_buffer num_bytes =
     (if buffer_view = nullptr
      then bind_sm (api_call (iree_make_status api IREE_STATUS_OK [])) (\<lambda>st.
           ret_sm (st, output_buffer))
      else bind_sm (api_get (iree_hal_buffer_view_buffer api buffer_view)) (\<lambda>buffer.
           bind_sm (api_get (iree_hal_buffer_byte_length api buffer)) (\<lambda>len.
           bind_sm (api_get (iree_hal_device_id api device)) (\<lambda>device_id_str.
           let num_bytes_actual = (if num_bytes = -1 then len else num_bytes)
           in api_call2 (iree_hal_device_transfer_d2h api device buffer 0 output_buffer
                num_bytes_actual)))))"

text \<open>
  The loop \<open>for (int i = 0; i < shape_rank; i++) dims.push_back(hal_dims[i])\<close>: the index is an
  \<open>int\<close>, so its increment overflows at \<open>INT_MAX\<close>, and an index past the shape is out of bounds.
\<close>

function push_dims :: "u64 list \<Rightarrow> u64 \<Rightarrow> nat \<Rightarrow> u64 list \<Rightarrow> u64 list res" where
  "push_dims hal_dims shape_rank i dims =
     (if i < unat shape_rank
      then if i < length hal_dims
           then if i + 1 < 2 ^ 31 then push_dims hal_dims shape_rank (i + 1) (dims @ [hal_dims ! i])
                else Inl SignedOverflow
           else Inl OutOfBounds
      else Inr dims)"
  by pat_completeness auto
termination
  by (relation "measure (\<lambda>(_, r, i, _). unat r - i)") auto

declare push_dims.simps [simp del]

definition IREETensor_of_view ::
  "'w iree_api \<Rightarrow> ptr \<Rightarrow> iree_hal_element_type_t \<Rightarrow> ptr \<Rightarrow> ('w rt, iree_tensor) sm" where
  "IREETensor_of_view api buffer_view type device =
     bind_sm (api_get (iree_hal_buffer_view_byte_length api buffer_view)) (\<lambda>size.
     bind_sm (api_get (iree_hal_buffer_view_shape_rank api buffer_view)) (\<lambda>shape_rank.
     bind_sm (api_get (iree_hal_buffer_view_shape_dims api buffer_view)) (\<lambda>hal_dims.
     bind_sm (lift_sm (push_dims hal_dims shape_rank 0 [])) (\<lambda>dims.
     ret_sm \<lparr>t_data = None, t_size = size, t_dims = dims, t_type = type,
       t_buffer_view = buffer_view, t_device = Some device\<rparr>))))"

definition IREETensor_of_data ::
  "'w iree_api \<Rightarrow> u8 list \<Rightarrow> u64 \<Rightarrow> int list \<Rightarrow> iree_hal_element_type_t \<Rightarrow> ('w rt, iree_tensor) sm"
where
  "IREETensor_of_data api data sz in_dims type =
     bind_sm (api_call (api_malloc api sz)) (\<lambda>block.
     case block of
       None \<Rightarrow> fail_sm NullDeref
     | Some _ \<Rightarrow>
         bind_sm (lift_sm (read_bytes data 0 (unat sz))) (\<lambda>bytes.
         ret_sm \<lparr>t_data = Some bytes, t_size = sz, t_dims = map word_of_int in_dims,
           t_type = type, t_buffer_view = nullptr, t_device = None\<rparr>))"

text \<open>
  \<open>dims.resize\<close> throws \<open>length_error\<close> above \<open>max_size\<close> (\<open>PTRDIFF_MAX\<close> bytes) and \<open>bad_alloc\<close>
  when the allocation fails, as \<open>operator new\<close> does.
\<close>

definition vector_resize :: "'w iree_api \<Rightarrow> u64 \<Rightarrow> ('w rt, unit) sm" where
  "vector_resize api n =
     (if n = 0 then ret_sm ()
      else if unat n * 8 > 2 ^ 63 - 1 then fail_sm (Thrown ''length_error'')
      else bind_sm (api_call (api_operator_new api (n * 8))) (\<lambda>block.
           case block of None \<Rightarrow> fail_sm BadAlloc | Some _ \<Rightarrow> ret_sm ()))"

fun words_of_le :: "nat \<Rightarrow> u8 list \<Rightarrow> u64 list" where
  "words_of_le 0 bs = []"
| "words_of_le (Suc n) bs = of_le (take 8 bs) # words_of_le n (drop 8 bs)"

definition IREETensor_of_buffer :: "'w iree_api \<Rightarrow> u8 list \<Rightarrow> ('w rt, iree_tensor) sm" where
  "IREETensor_of_buffer api buffer =
     (let offset0 = (0 :: u64)
      in bind_sm (lift_sm (read_bytes buffer (unat offset0) 4)) (\<lambda>type_bytes.
     let offset1 = offset0 + 4
      in bind_sm (lift_sm (read_bytes buffer (unat offset1) 8)) (\<lambda>size_bytes.
     let size = (of_le size_bytes :: u64); offset2 = offset1 + 8
      in bind_sm (api_call (api_operator_new api size)) (\<lambda>block.
     case block of
       None \<Rightarrow> fail_sm BadAlloc
     | Some _ \<Rightarrow>
         bind_sm (lift_sm (read_bytes buffer (unat offset2) (unat size))) (\<lambda>data.
         let offset3 = offset2 + size
         in bind_sm (lift_sm (read_bytes buffer (unat offset3) 8)) (\<lambda>num_bytes.
         let num_dims = (of_le num_bytes :: u64); offset4 = offset3 + 8
         in bind_sm (vector_resize api num_dims) (\<lambda>_.
         bind_sm (lift_sm (read_bytes buffer (unat offset4) (unat (num_dims * 8)))) (\<lambda>dim_bytes.
         ret_sm \<lparr>t_data = Some data, t_size = size, t_dims = words_of_le (unat num_dims) dim_bytes,
           t_type = of_le type_bytes, t_buffer_view = nullptr, t_device = None\<rparr>))))))))"

definition deallocate :: "'w iree_api \<Rightarrow> tensor_ref \<Rightarrow> ('w rt, unit) sm" where
  "deallocate api p =
     bind_sm (get_tensor p) (\<lambda>t.
     bind_sm (if t_data t \<noteq> None
              then bind_sm (modify_sm (log_event DataFreed)) (\<lambda>_. put_tensor p (t\<lparr>t_data := None\<rparr>))
              else ret_sm ()) (\<lambda>_.
     bind_sm (get_tensor p) (\<lambda>t.
     if t_buffer_view t \<noteq> nullptr
     then bind_sm (api_do (iree_hal_buffer_view_release api (t_buffer_view t))
                    (BufferViewReleased (t_buffer_view t))) (\<lambda>_.
          put_tensor p (t\<lparr>t_buffer_view := nullptr\<rparr>))
     else ret_sm ())))"

text \<open>\<open>delete\<close> runs the destructor, which deallocates, and frees the object.\<close>

definition delete_tensor :: "'w iree_api \<Rightarrow> tensor_ref \<Rightarrow> ('w rt, unit) sm" where
  "delete_tensor api p =
     bind_sm (deallocate api p) (\<lambda>_.
     modify_sm (\<lambda>s. s\<lparr>rt_tensors := (rt_tensors s)[p := None]\<rparr>))"

definition serialize :: "'w iree_api \<Rightarrow> tensor_ref \<Rightarrow> ('w rt, u8 list option) sm" where
  "serialize api p =
     bind_sm (get_tensor p) (\<lambda>t.
     let buffer = le_bytes 4 (t_type t) @ le_bytes 8 (t_size t);
         finish = (\<lambda>data.
           bind_sm (lift_sm (read_bytes data 0 (unat (t_size t)))) (\<lambda>bytes.
           ret_sm (Some (buffer @ bytes @ le_bytes 8 (of_nat (length (t_dims t)) :: u64) @
             concat (map (le_bytes 8) (t_dims t))))))
     in case t_data t of
          Some data \<Rightarrow> finish data
        | None \<Rightarrow>
            bind_sm (api_call (api_malloc api (t_size t))) (\<lambda>block.
            case block of
              None \<Rightarrow> ret_sm None
            | Some data \<Rightarrow>
                (case t_device t of
                   None \<Rightarrow> fail_sm UninitRead
                 | Some device \<Rightarrow>
                     bind_sm (read_buffer api device (t_buffer_view t) data (t_size t))
                       (\<lambda>(status, data).
                     bind_sm (put_tensor p (t\<lparr>t_data := Some data\<rparr>)) (\<lambda>_.
                     if \<not> iree_status_is_ok status then ret_sm None else finish data)))))"

section \<open>Shape loops\<close>

lemma push_dims_from:
  assumes "unat r \<le> length hs" and "unat r < 2 ^ 31" and "i \<le> unat r"
  shows "push_dims hs r i acc = Inr (acc @ take (unat r - i) (drop i hs))"
  using assms
proof (induction hs r i acc rule: push_dims.induct)
  case (1 hs r i acc)
  show ?case
  proof (cases "i < unat r")
    case True
    then have "take (unat r - i) (drop i hs) = hs ! i # take (unat r - (i + 1)) (drop (i + 1) hs)"
      using "1.prems" by (metis Cons_nth_drop_Suc Suc_eq_plus1 diff_Suc_Suc Suc_diff_Suc less_le_trans take_Suc_Cons)
    then show ?thesis
      using True 1 by (subst push_dims.simps) simp
  next
    case False
    then show ?thesis using "1.prems" by (subst push_dims.simps) simp
  qed
qed

lemma push_dims_eq:
  "unat r \<le> length hs \<Longrightarrow> unat r < 2 ^ 31 \<Longrightarrow> push_dims hs r 0 [] = Inr (take (unat r) hs)"
  by (simp add: push_dims_from)

section \<open>The serialized form\<close>

definition tensor_image :: "u32 \<Rightarrow> u64 \<Rightarrow> u8 list \<Rightarrow> u64 list \<Rightarrow> u8 list" where
  "tensor_image ty sz data dims =
     le_bytes 4 ty @ le_bytes 8 sz @ data @ le_bytes 8 (of_nat (length dims) :: u64) @
     concat (map (le_bytes 8) dims)"

lemma length_concat_le8 [simp, width_simps]:
  "length (concat (map (le_bytes 8) (ds :: u64 list))) = 8 * length ds"
  by (induction ds) simp_all

lemma length_tensor_image [simp, width_simps]:
  "length (tensor_image ty sz data dims) = 20 + length data + 8 * length dims"
  by (simp add: tensor_image_def)

lemma words_of_le_concat [simp]:
  "words_of_le (length ds) (concat (map (le_bytes 8) ds)) = ds"
proof (induction ds)
  case (Cons d ds)
  have "take 8 (le_bytes 8 d @ xs) = le_bytes 8 d" "drop 8 (le_bytes 8 d @ xs) = xs" for xs
    by simp_all
  then show ?case
    using Cons of_le_le_bytes [of 8 d] by simp
qed simp

lemma concat_words_of_le:
  "length bs = 8 * n \<Longrightarrow> concat (map (le_bytes 8) (words_of_le n bs)) = bs"
proof (induction n arbitrary: bs)
  case (Suc n)
  have "le_bytes 8 (of_le (take 8 bs) :: u64) = take 8 bs"
    using le_bytes_of_le [of "take 8 bs", where ?'a = 64] Suc.prems by simp
  then show ?case using Suc by simp
qed simp

lemma length_words_of_le [simp]: "length (words_of_le n bs) = n"
  by (induction n arbitrary: bs) simp_all

section \<open>Serializing\<close>

lemma serialize_with_data:
  assumes "tensor_at s p t" and "t_data t = Some data" and "unat (t_size t) \<le> length data"
  shows "serialize api p s =
    Inr (Some (tensor_image (t_type t) (t_size t) (take (unat (t_size t)) data) (t_dims t)), s)"
  using assms
  by (simp add: serialize_def bind_get_tensor read_bytes_def tensor_image_def Let_def)

section \<open>Deserializing\<close>

definition new_ok :: "'w iree_api \<Rightarrow> u64 \<Rightarrow> bool" where
  "new_ok api n \<longleftrightarrow> (\<forall>w. fst (api_operator_new api n w) \<noteq> None)"

lemma bind_new_ok:
  "new_ok api n \<Longrightarrow>
   \<exists>b w. bind_sm (api_call (api_operator_new api n))
     (\<lambda>block. case block of None \<Rightarrow> fail_sm BadAlloc | Some x \<Rightarrow> f x) s = f b (s\<lparr>rt_world := w\<rparr>)"
  by (auto simp: new_ok_def split: option.split) (metis not_None_eq option.sel)

lemma vector_resize_ok:
  assumes "unat n * 8 < 2 ^ 63" and "n \<noteq> 0 \<Longrightarrow> new_ok api (n * 8)"
  shows "\<exists>w. vector_resize api n s = Inr ((), s\<lparr>rt_world := w\<rparr>)"
proof (cases "n = 0")
  case True
  then show ?thesis by (auto simp: vector_resize_def intro: exI [of _ "rt_world s"])
next
  case False
  have "\<exists>b w. bind_sm (api_call (api_operator_new api (n * 8)))
     (\<lambda>block. case block of None \<Rightarrow> fail_sm BadAlloc | Some x \<Rightarrow> ret_sm ()) s
      = ret_sm () (s\<lparr>rt_world := w\<rparr>)"
    using bind_new_ok [of api "n * 8" "\<lambda>_. ret_sm ()"] assms(2) False by blast
  then show ?thesis using assms(1) False by (simp add: vector_resize_def)
qed

lemma unat_small_times_8: "unat (n :: u64) * 8 < 2 ^ 63 \<Longrightarrow> unat (n * 8) = unat n * 8"
  by (simp add: unat_mult_lem [of n 8, THEN iffD1])

text \<open>
  A buffer that starts with the image of a tensor is read back as that tensor, whatever
  follows the image.
\<close>

lemma deserialize_image:
  assumes len: "length data = unat sz"
    and rank: "8 * length dims < 2 ^ 63"
    and fits: "20 + unat sz < 2 ^ 64"
    and new: "new_ok api sz" "dims \<noteq> [] \<Longrightarrow> new_ok api (of_nat (length dims) * 8)"
  shows "\<exists>w. IREETensor_of_buffer api (tensor_image ty sz data dims @ rest) s =
    Inr (\<lparr>t_data = Some data, t_size = sz, t_dims = dims, t_type = ty,
      t_buffer_view = nullptr, t_device = None\<rparr>, s\<lparr>rt_world := w\<rparr>)"
proof -
  let ?n = "of_nat (length dims) :: u64"
  let ?buf = "tensor_image ty sz data dims @ rest"
  have n: "unat ?n = length dims"
    using rank by (simp add: unat_of_nat)
  have n8: "unat (?n * 8) = length dims * 8"
    using unat_small_times_8 [of ?n] rank n by simp
  have o2: "unat (0 + 4 + 8 + sz :: u64) = 12 + unat sz"
    using fits by (simp add: unat_plus_if')
  have o3: "unat (0 + 4 + 8 + sz + 8 :: u64) = 20 + unat sz"
    using fits by (simp add: unat_plus_if' [of 20 sz])
  have r0: "read_bytes ?buf (unat (0 :: u64)) 4 = Inr (le_bytes 4 ty)"
    by (simp add: read_bytes_def tensor_image_def)
  have r1: "read_bytes ?buf (unat (0 + 4 :: u64)) 8 = Inr (le_bytes 8 sz)"
    by (simp add: read_bytes_def tensor_image_def)
  have r2: "read_bytes ?buf (unat (0 + 4 + 8 :: u64)) (unat sz) = Inr data"
    by (simp add: read_bytes_def tensor_image_def len)
  have r3: "read_bytes ?buf (unat (0 + 4 + 8 + sz :: u64)) 8 = Inr (le_bytes 8 ?n)"
    unfolding o2 by (simp add: read_bytes_def tensor_image_def len)
  have r4: "read_bytes ?buf (unat (0 + 4 + 8 + sz + 8 :: u64)) (unat (?n * 8)) =
      Inr (concat (map (le_bytes 8) dims))"
    unfolding o3 n8 by (simp add: read_bytes_def tensor_image_def len)
  let ?rest = "\<lambda>_ :: u8 list.
         bind_sm (lift_sm (read_bytes ?buf (unat (0 + 4 + 8 :: u64)) (unat sz))) (\<lambda>data.
         bind_sm (lift_sm (read_bytes ?buf (unat (0 + 4 + 8 + sz)) 8)) (\<lambda>num_bytes.
         bind_sm (vector_resize api (of_le num_bytes)) (\<lambda>_.
         bind_sm (lift_sm (read_bytes ?buf (unat (0 + 4 + 8 + sz + 8))
           (unat ((of_le num_bytes :: u64) * 8)))) (\<lambda>dim_bytes.
         ret_sm \<lparr>t_data = Some data, t_size = sz,
           t_dims = words_of_le (unat (of_le num_bytes :: u64)) dim_bytes,
           t_type = ty, t_buffer_view = nullptr, t_device = None\<rparr>))))"
  have ty: "of_le (le_bytes 4 ty) = ty" and sz: "of_le (le_bytes 8 sz) = sz"
    and nn: "of_le (le_bytes 8 ?n) = ?n"
    by (simp_all add: of_le_le_bytes)
  have "\<exists>b w. IREETensor_of_buffer api ?buf s = ?rest b (s\<lparr>rt_world := w\<rparr>)"
    using bind_new_ok [OF new(1), of ?rest s]
    unfolding IREETensor_of_buffer_def Let_def r0 r1 sm_simps sz ty .
  then obtain w where w: "IREETensor_of_buffer api ?buf s = ?rest [] (s\<lparr>rt_world := w\<rparr>)"
    by blast
  obtain w' where "vector_resize api ?n (s\<lparr>rt_world := w\<rparr>) = Inr ((), s\<lparr>rt_world := w'\<rparr>)"
    using vector_resize_ok [of ?n api "s\<lparr>rt_world := w\<rparr>"] rank n new(2) by fastforce
  then show ?thesis
    unfolding w r2 r3 sm_simps nn r4
    by (auto simp: bind_sm_Inr r4 n)
qed

text \<open>
  Conversely, what is read is what the buffer starts with: every byte of the prefix is
  accounted for by the fields of the tensor.
\<close>

lemma read_bytes_Inr:
  "read_bytes m off n = Inr bs \<longleftrightarrow> off + n \<le> length m \<and> bs = take n (drop off m)"
  by (auto simp: read_bytes_def)

lemma take_chunks:
  "take a xs @ take b (drop a xs) @ take c (drop (a + b) xs) @ take d (drop (a + b + c) xs) @
     take e (drop (a + b + c + d) xs) = take (a + b + c + d + e) xs"
  by (simp add: take_add)

lemma bind_new_Inr:
  "bind_sm (api_call (api_operator_new api n))
     (\<lambda>block. case block of None \<Rightarrow> fail_sm BadAlloc | Some x \<Rightarrow> f x) s = Inr r \<Longrightarrow>
   \<exists>b w. f b (s\<lparr>rt_world := w\<rparr>) = Inr r"
  by (auto split: option.splits)

lemma vector_resize_Inr:
  "vector_resize api n s = Inr ((), s') \<Longrightarrow> unat n * 8 < 2 ^ 63 \<and> (\<exists>w. s' = s\<lparr>rt_world := w\<rparr>)"
  by (auto simp: vector_resize_def split: if_splits option.splits
      intro: exI [of _ "rt_world s"])

lemma deserialize_reads_prefix:
  assumes ok: "IREETensor_of_buffer api buffer s = Inr (t, s')"
    and fits: "length buffer < 2 ^ 64"
  shows "\<exists>data. t_data t = Some data \<and> length data = unat (t_size t) \<and>
    t_buffer_view t = nullptr \<and> t_device t = None \<and>
    tensor_image (t_type t) (t_size t) data (t_dims t) =
      take (20 + unat (t_size t) + 8 * length (t_dims t)) buffer \<and>
    20 + unat (t_size t) + 8 * length (t_dims t) \<le> length buffer"
proof -
  define tyb where "tyb = take 4 buffer"
  define szb where "szb = take 8 (drop 4 buffer)"
  define sz where "sz = (of_le szb :: u64)"
  from ok obtain data numb dimb w w' where
    b: "4 + 8 \<le> length buffer"
    and data: "read_bytes buffer (unat (0 + 4 + 8 :: u64)) (unat sz) = Inr data"
    and numb: "read_bytes buffer (unat (0 + 4 + 8 + sz)) 8 = Inr numb"
    and vr: "vector_resize api (of_le numb) w = Inr ((), w')"
    and dimb: "read_bytes buffer (unat (0 + 4 + 8 + sz + 8)) (unat ((of_le numb :: u64) * 8)) = Inr dimb"
    and t: "t = \<lparr>t_data = Some data, t_size = sz,
           t_dims = words_of_le (unat (of_le numb :: u64)) dimb,
           t_type = of_le tyb, t_buffer_view = nullptr, t_device = None\<rparr>"
    unfolding IREETensor_of_buffer_def Let_def bind_lift_eq_Inr tyb_def szb_def sz_def
    by (auto simp: bind_lift_eq_Inr bind_sm_eq_Inr [of "vector_resize _ _"] read_bytes_Inr
        split: option.splits)
  let ?n = "of_le numb :: u64"
  have n8: "unat (?n * 8) = unat ?n * 8"
    using vector_resize_Inr [OF vr] by (intro unat_small_times_8) simp
  have l1: "12 + unat sz \<le> length buffer" and d: "data = take (unat sz) (drop 12 buffer)"
    using data by (simp_all add: read_bytes_Inr)
  have o2: "unat (0 + 4 + 8 + sz :: u64) = 12 + unat sz"
    using fits l1 by (simp add: unat_plus_if')
  have l2: "20 + unat sz \<le> length buffer" and nb: "numb = take 8 (drop (12 + unat sz) buffer)"
    using numb unfolding o2 by (simp_all add: read_bytes_Inr)
  have o3: "unat (0 + 4 + 8 + sz + 8 :: u64) = 20 + unat sz"
    using fits l2 by (simp add: unat_plus_if' [of 20 sz])
  have l3: "20 + unat sz + unat ?n * 8 \<le> length buffer"
    and db: "dimb = take (unat ?n * 8) (drop (20 + unat sz) buffer)"
    using dimb unfolding o3 n8 by (simp_all add: read_bytes_Inr)
  have f1: "le_bytes 4 (of_le tyb :: u32) = tyb"
    using le_bytes_of_le [of tyb, where ?'a = 32] b by (simp add: tyb_def)
  have f2: "le_bytes 8 sz = szb"
    using le_bytes_of_le [of szb, where ?'a = 64] b by (simp add: szb_def sz_def)
  have f3: "le_bytes 8 ?n = numb"
    using le_bytes_of_le [of numb, where ?'a = 64] l2 by (simp add: nb)
  have f4: "concat (map (le_bytes 8) (words_of_le (unat ?n) dimb)) = dimb"
    using l3 by (intro concat_words_of_le) (simp add: db)
  have "tensor_image (of_le tyb) sz data (words_of_le (unat ?n) dimb) = tyb @ szb @ data @ numb @ dimb"
    by (simp add: tensor_image_def f1 f2 f3 f4)
  also have "\<dots> = take (20 + unat sz + unat ?n * 8) buffer"
    using take_chunks [of 4 buffer 8 "unat sz" 8 "unat ?n * 8"]
    by (simp add: tyb_def szb_def d nb db add.commute)
  finally show ?thesis
    using l1 l3 by (simp add: t d mult.commute)
qed

text \<open>
  A strict prefix of an image is read past its end: the constructor takes no length, so a
  truncated buffer is undefined behaviour and never an error value.
\<close>

lemma deserialize_truncated:
  assumes len: "length data = unat sz"
    and rank: "8 * length dims < 2 ^ 63"
    and fits: "20 + unat sz + 8 * length dims < 2 ^ 64"
    and k: "k < length (tensor_image ty sz data dims)"
  shows "\<nexists>r. IREETensor_of_buffer api (take k (tensor_image ty sz data dims)) s = Inr r"
proof
  let ?im = "tensor_image ty sz data dims" and ?buf = "take k (tensor_image ty sz data dims)"
  assume "\<exists>r. IREETensor_of_buffer api ?buf s = Inr r"
  then obtain t s' where ok: "IREETensor_of_buffer api ?buf s = Inr (t, s')" by force
  have kl: "length ?buf = k" using k by simp
  obtain data' where pre: "tensor_image (t_type t) (t_size t) data' (t_dims t) =
      take (20 + unat (t_size t) + 8 * length (t_dims t)) ?buf"
    and le: "20 + unat (t_size t) + 8 * length (t_dims t) \<le> k"
    and len': "length data' = unat (t_size t)"
    using deserialize_reads_prefix [OF ok] fits k kl len by auto
  let ?N = "20 + unat (t_size t) + 8 * length (t_dims t)"
  have eq: "tensor_image (t_type t) (t_size t) data' (t_dims t) = take ?N ?im"
    using pre le by (simp add: min_def)
  have "take 8 (drop 4 (take ?N ?im)) = le_bytes 8 sz"
    using le by (simp add: tensor_image_def take_drop)
  then have sz: "t_size t = sz"
    unfolding eq [symmetric] by (simp add: tensor_image_def le_bytes_inj)
  have "take 8 (drop (12 + unat sz) (take ?N ?im)) = le_bytes 8 (of_nat (length dims) :: u64)"
    using le sz len by (simp add: tensor_image_def take_drop)
  then have "(of_nat (length (t_dims t)) :: u64) = of_nat (length dims)"
    unfolding eq [symmetric] using sz len' by (simp add: tensor_image_def le_bytes_inj)
  then have "length (t_dims t) = length dims"
    using le k fits len by (subst (asm) of_nat_word_inj) simp_all
  then show False using le sz k len by simp
qed

section \<open>Deallocation\<close>

lemma put_get_tensor [simp]:
  "p < length (rt_tensors s) \<Longrightarrow> rt_tensors s ! p = Some t0 \<Longrightarrow>
     bind_sm (put_tensor p t) k s = k () (s\<lparr>rt_tensors := (rt_tensors s)[p := Some t]\<rparr>)"
  by (simp add: put_tensor_def bind_sm_def)

definition dealloc_log :: "iree_tensor \<Rightarrow> own_event list" where
  "dealloc_log t =
     (if t_data t \<noteq> None then [DataFreed] else []) @
     (if t_buffer_view t \<noteq> nullptr then [BufferViewReleased (t_buffer_view t)] else [])"

lemma deallocate_effect:
  assumes "tensor_at s p t"
  shows "deallocate api p s = Inr ((), s\<lparr>
    rt_world := (if t_buffer_view t \<noteq> nullptr
      then iree_hal_buffer_view_release api (t_buffer_view t) (rt_world s) else rt_world s),
    rt_tensors := (rt_tensors s)[p := Some (t\<lparr>t_data := None, t_buffer_view := nullptr\<rparr>)],
    rt_log := rt_log s @ dealloc_log t\<rparr>)"
  using assms
  by (cases s; cases t; cases "t_data t")
    (auto simp: deallocate_def tensor_at_def get_tensor_def put_tensor_def bind_sm_def
      dealloc_log_def log_event_def intro: list_update_same_value)

lemma deallocate_twice:
  assumes "deallocate api p s = Inr ((), s')"
  shows "deallocate api p s' = Inr ((), s')"
proof -
  obtain t where t: "tensor_at s p t"
    using assms by (auto simp: deallocate_def bind_sm_eq_Inr get_tensor_Inr)
  have "tensor_at s' p (t\<lparr>t_data := None, t_buffer_view := nullptr\<rparr>)"
    using deallocate_effect [OF t, of api] assms t by (auto simp: tensor_at_def)
  then show ?thesis
    by (simp add: deallocate_def bind_get_tensor)
qed

section \<open>Serializing a tensor that lives on a device\<close>

lemma read_buffer_view:
  "buffer_view \<noteq> nullptr \<Longrightarrow>
   read_buffer api device buffer_view out n s =
     (let buffer = iree_hal_buffer_view_buffer api buffer_view (rt_world s);
          r = iree_hal_device_transfer_d2h api device buffer 0 out
                (if n = -1 then iree_hal_buffer_byte_length api buffer (rt_world s) else n)
                (rt_world s)
      in Inr ((fst r, fst (snd r)), s\<lparr>rt_world := snd (snd r)\<rparr>))"
  by (simp add: read_buffer_def Let_def)

lemma serialize_from_device:
  assumes t: "tensor_at s p t" "t_data t = None" "t_device t = Some device"
    and block: "api_malloc api (t_size t) (rt_world s) = (Some block, w)"
    and rd: "read_buffer api device (t_buffer_view t) block (t_size t) (s\<lparr>rt_world := w\<rparr>) =
      Inr ((status, data), s\<lparr>rt_world := w'\<rparr>)"
  shows "serialize api p s =
    (let s' = s\<lparr>rt_world := w', rt_tensors := (rt_tensors s)[p := Some (t\<lparr>t_data := Some data\<rparr>)]\<rparr>
     in if \<not> iree_status_is_ok status then Inr (None, s')
        else if unat (t_size t) \<le> length data
        then Inr (Some (tensor_image (t_type t) (t_size t) (take (unat (t_size t)) data) (t_dims t)), s')
        else Inl OutOfBounds)"
  using t block rd
  by (simp add: serialize_def Let_def bind_get_tensor bind_sm_Inr tensor_at_def
      read_bytes_def tensor_image_def)

text \<open>
  After the transfer the bytes stay in the tensor: serializing again gives the same image
  and calls nothing. The same cache makes a failed transfer final: the block that
  \<open>malloc\<close> returned is kept and the next call serializes it.
\<close>

lemma serialize_again:
  assumes t: "tensor_at s p t" "t_data t = None" "t_device t = Some device"
    and block: "api_malloc api (t_size t) (rt_world s) = (Some block, w)"
    and rd: "read_buffer api device (t_buffer_view t) block (t_size t) (s\<lparr>rt_world := w\<rparr>) =
      Inr ((status, data), s\<lparr>rt_world := w'\<rparr>)"
    and len: "unat (t_size t) \<le> length data"
    and first: "serialize api p s = Inr (r, s')"
  shows "serialize api p s' =
    Inr (Some (tensor_image (t_type t) (t_size t) (take (unat (t_size t)) data) (t_dims t)), s')"
proof -
  have "s' = s\<lparr>rt_world := w', rt_tensors := (rt_tensors s)[p := Some (t\<lparr>t_data := Some data\<rparr>)]\<rparr>"
    using first len unfolding serialize_from_device [OF t block rd] Let_def
    by (auto split: if_splits)
  then have "tensor_at s' p (t\<lparr>t_data := Some data\<rparr>)"
    using t(1) by (simp add: tensor_at_def)
  then show ?thesis using len by (simp add: serialize_with_data)
qed

section \<open>Life cycle of tensors\<close>

text \<open>
  What the allocator and the transfer are relied on for: a block has the size asked for, and
  a transfer writes into the block without changing its size.
\<close>

definition block_laws :: "'w iree_api \<Rightarrow> bool" where
  "block_laws api \<longleftrightarrow>
     (\<forall>n w b. fst (api_malloc api n w) = Some b \<longrightarrow> length b = unat n) \<and>
     (\<forall>d b off blk n w.
        length (fst (snd (iree_hal_device_transfer_d2h api d b off blk n w))) = length blk)"

definition tensor_wf :: "iree_tensor \<Rightarrow> bool" where
  "tensor_wf t \<longleftrightarrow> (\<forall>bs \<in> set_option (t_data t). length bs = unat (t_size t))"

definition heap_wf :: "'w rt \<Rightarrow> bool" where
  "heap_wf s \<longleftrightarrow> (\<forall>p t. tensor_at s p t \<longrightarrow> tensor_wf t)"

text \<open>
  One step: a constructor followed by \<open>new\<close>, \<open>serialize\<close> or \<open>deallocate\<close>. The label is the
  buffer view a step takes ownership of.
\<close>

inductive tensor_step :: "'w iree_api \<Rightarrow> 'w rt \<Rightarrow> ptr option \<Rightarrow> 'w rt \<Rightarrow> bool"
  for api where
  step_data:
    "bind_sm (IREETensor_of_data api data sz in_dims ty) new_tensor s = Inr (p, s') \<Longrightarrow>
     tensor_step api s None s'"
| step_buffer:
    "bind_sm (IREETensor_of_buffer api buffer) new_tensor s = Inr (p, s') \<Longrightarrow>
     length buffer < 2 ^ 64 \<Longrightarrow> tensor_step api s None s'"
| step_view:
    "bind_sm (IREETensor_of_view api view ty dev) new_tensor s = Inr (p, s') \<Longrightarrow>
     tensor_step api s (Some view) s'"
| step_serialize:
    "serialize api p s = Inr (r, s') \<Longrightarrow> tensor_step api s None s'"
| step_deallocate:
    "deallocate api p s = Inr ((), s') \<Longrightarrow> tensor_step api s None s'"

inductive tensor_steps :: "'w iree_api \<Rightarrow> 'w rt \<Rightarrow> ptr option list \<Rightarrow> 'w rt \<Rightarrow> bool"
  for api where
  steps_refl: "tensor_steps api s [] s"
| steps_step: "tensor_steps api s ls s' \<Longrightarrow> tensor_step api s' l s'' \<Longrightarrow> tensor_steps api s (ls @ [l]) s''"

text \<open>The effect of each step on the heap of tensors and on the log.\<close>

definition heap_adds :: "'w rt \<Rightarrow> iree_tensor \<Rightarrow> 'w rt \<Rightarrow> bool" where
  "heap_adds s t s' \<longleftrightarrow> rt_tensors s' = rt_tensors s @ [Some t] \<and> rt_log s' = rt_log s"

lemma new_tensor_Inr:
  "new_tensor t s = Inr (p, s') \<longleftrightarrow>
     p = length (rt_tensors s) \<and> s' = s\<lparr>rt_tensors := rt_tensors s @ [Some t]\<rparr>"
  by (auto simp: new_tensor_def)

lemma of_data_effect:
  assumes "bind_sm (IREETensor_of_data api data sz in_dims ty) new_tensor s = Inr (p, s')"
  shows "\<exists>t. heap_adds s t s' \<and> tensor_wf t \<and> t_buffer_view t = nullptr"
  using assms
  by (auto simp: IREETensor_of_data_def bind_lift_eq_Inr read_bytes_Inr new_tensor_Inr
      heap_adds_def tensor_wf_def split: option.splits)

lemma of_buffer_effect:
  assumes "bind_sm (IREETensor_of_buffer api buffer) new_tensor s = Inr (p, s')"
    and "length buffer < 2 ^ 64"
  shows "\<exists>t. heap_adds s t s' \<and> tensor_wf t \<and> t_buffer_view t = nullptr"
proof -
  obtain t s1 where ok: "IREETensor_of_buffer api buffer s = Inr (t, s1)"
    and s': "s' = s1\<lparr>rt_tensors := rt_tensors s1 @ [Some t]\<rparr>"
    using assms(1) by (auto simp: bind_sm_eq_Inr new_tensor_Inr)
  have "\<exists>w. s1 = s\<lparr>rt_world := w\<rparr>"
    using ok unfolding IREETensor_of_buffer_def Let_def bind_lift_eq_Inr
    by (auto simp: bind_lift_eq_Inr bind_sm_eq_Inr [of "vector_resize _ _"]
        dest!: vector_resize_Inr split: option.splits)
  then show ?thesis
    using deserialize_reads_prefix [OF ok assms(2)] s'
    by (auto simp: heap_adds_def tensor_wf_def)
qed

lemma of_view_effect:
  assumes "bind_sm (IREETensor_of_view api view ty dev) new_tensor s = Inr (p, s')"
  shows "\<exists>t. heap_adds s t s' \<and> tensor_wf t \<and> t_buffer_view t = view"
  using assms
  by (auto simp: IREETensor_of_view_def bind_lift_eq_Inr new_tensor_Inr heap_adds_def
      tensor_wf_def)

lemma serialize_effect:
  assumes "serialize api p s = Inr (r, s')"
  shows "rt_log s' = rt_log s \<and> (\<exists>t d. tensor_at s p t \<and>
    (rt_tensors s' = rt_tensors s \<or> rt_tensors s' = (rt_tensors s)[p := Some (t\<lparr>t_data := d\<rparr>)]) \<and>
    (block_laws api \<longrightarrow> tensor_wf t \<longrightarrow> tensor_wf (t\<lparr>t_data := d\<rparr>)))"
proof -
  obtain t where t: "tensor_at s p t"
    using assms by (auto simp: serialize_def bind_sm_eq_Inr get_tensor_Inr)
  show ?thesis
  proof (cases "t_data t")
    case (Some bs)
    then show ?thesis
      using assms t
      by (auto simp: serialize_def bind_get_tensor Let_def bind_lift_eq_Inr
          tensor_wf_def intro!: exI [of _ t] exI [of _ "t_data t"])
  next
    case None
    show ?thesis
    proof (cases "fst (api_malloc api (t_size t) (rt_world s))")
      case none: None
      then show ?thesis
        using assms t None
        by (auto simp: serialize_def bind_get_tensor Let_def tensor_wf_def
            intro!: exI [of _ t] exI [of _ "t_data t"])
    next
      case (Some block)
      then obtain w where block: "api_malloc api (t_size t) (rt_world s) = (Some block, w)"
        by (metis prod.collapse)
      obtain dev where dev: "t_device t = Some dev"
        using assms t None block
        by (cases "t_device t") (auto simp: serialize_def bind_get_tensor Let_def)
      obtain st data w' where rd: "read_buffer api dev (t_buffer_view t) block (t_size t)
          (s\<lparr>rt_world := w\<rparr>) = Inr ((st, data), s\<lparr>rt_world := w'\<rparr>)"
        and len: "block_laws api \<Longrightarrow> length data = length block"
        by (cases "t_buffer_view t = nullptr")
          (auto simp: read_buffer_def Let_def block_laws_def)
      have "length block = unat (t_size t)" if "block_laws api"
        using that block by (metis block_laws_def fst_conv)
      then show ?thesis
        using assms t len
        unfolding serialize_from_device [OF t None dev block rd] Let_def
        by (auto simp: tensor_wf_def split: if_splits
            intro!: exI [of _ t] exI [of _ "Some data"])
    qed
  qed
qed

lemma tensor_step_cases_effect:
  assumes "tensor_step api s l s'"
  shows "(\<exists>t. heap_adds s t s' \<and> tensor_wf t \<and>
      t_buffer_view t = (case l of None \<Rightarrow> nullptr | Some v \<Rightarrow> v)) \<or>
    (l = None \<and> rt_log s' = rt_log s \<and> rt_tensors s' = rt_tensors s) \<or>
    (\<exists>p t d. l = None \<and> rt_log s' = rt_log s \<and> tensor_at s p t \<and>
      rt_tensors s' = (rt_tensors s)[p := Some (t\<lparr>t_data := d\<rparr>)] \<and>
      (block_laws api \<longrightarrow> tensor_wf t \<longrightarrow> tensor_wf (t\<lparr>t_data := d\<rparr>))) \<or>
    (\<exists>p t. l = None \<and> tensor_at s p t \<and> rt_log s' = rt_log s @ dealloc_log t \<and>
      rt_tensors s' = (rt_tensors s)[p := Some (t\<lparr>t_data := None, t_buffer_view := nullptr\<rparr>)])"
  using assms
proof (cases rule: tensor_step.cases)
  case (step_data data sz in_dims ty p)
  then show ?thesis using of_data_effect by fastforce
next
  case (step_buffer buffer p)
  then show ?thesis using of_buffer_effect by fastforce
next
  case (step_view view ty dev p)
  then show ?thesis using of_view_effect by fastforce
next
  case (step_serialize p r)
  then show ?thesis using serialize_effect [of api p s r s'] by blast
next
  case (step_deallocate p)
  then obtain t where t: "tensor_at s p t"
    by (auto simp: deallocate_def bind_sm_eq_Inr get_tensor_Inr)
  have "rt_log s' = rt_log s @ dealloc_log t"
    "rt_tensors s' = (rt_tensors s)[p := Some (t\<lparr>t_data := None, t_buffer_view := nullptr\<rparr>)]"
    using step_deallocate(2) deallocate_effect [OF t, of api] by auto
  with t step_deallocate(1) show ?thesis by blast
qed

lemma heap_wf_list: "heap_wf s \<longleftrightarrow> (\<forall>t. Some t \<in> set (rt_tensors s) \<longrightarrow> tensor_wf t)"
  by (auto simp: heap_wf_def tensor_at_def in_set_conv_nth)

lemma tensor_step_wf:
  assumes "tensor_step api s l s'" and "block_laws api" and "heap_wf s"
  shows "heap_wf s'"
proof -
  have upd: "heap_wf s'"
    if "tensor_at s p t" "rt_tensors s' = (rt_tensors s)[p := Some u]" "tensor_wf u" for p t u
    using that assms(3) by (auto simp: heap_wf_list dest!: subsetD [OF set_update_subset_insert])
  from tensor_step_cases_effect [OF assms(1)] show ?thesis
  proof (elim disjE exE conjE)
    fix t assume "heap_adds s t s'" "tensor_wf t"
    then show ?thesis using assms(3) by (auto simp: heap_wf_list heap_adds_def)
  next
    assume "rt_tensors s' = rt_tensors s"
    then show ?thesis using assms(3) by (simp add: heap_wf_list)
  next
    fix p t d
    assume at: "tensor_at s p t" and "rt_tensors s' = (rt_tensors s)[p := Some (t\<lparr>t_data := d\<rparr>)]"
      and wf: "block_laws api \<longrightarrow> tensor_wf t \<longrightarrow> tensor_wf (t\<lparr>t_data := d\<rparr>)"
    moreover have "tensor_wf t" using at assms(3) by (simp add: heap_wf_def)
    ultimately show ?thesis using upd assms(2) by blast
  next
    fix p t
    assume "tensor_at s p t"
      "rt_tensors s' = (rt_tensors s)[p := Some (t\<lparr>t_data := None, t_buffer_view := nullptr\<rparr>)]"
    then show ?thesis by (rule upd) (simp add: tensor_wf_def)
  qed
qed

text \<open>Ownership of a buffer view: the releases performed and the tensors that still hold it.\<close>

definition holders :: "ptr \<Rightarrow> 'w rt \<Rightarrow> nat" where
  "holders v s = length (filter (\<lambda>x. \<exists>t. x = Some t \<and> t_buffer_view t = v) (rt_tensors s))"

definition releases :: "ptr \<Rightarrow> 'w rt \<Rightarrow> nat" where
  "releases v s = count_list (rt_log s) (BufferViewReleased v)"

lemma length_filter_update:
  assumes "p < length xs"
  shows "length (filter P (xs[p := y])) + (if P (xs ! p) then 1 else 0) =
    length (filter P xs) + (if P y then 1 else 0)"
  using assms
proof (induction xs arbitrary: p)
  case (Cons x xs)
  then show ?case by (cases p) auto
qed simp

lemma tensor_step_balance:
  assumes step: "tensor_step api s l s'" and v: "v \<noteq> nullptr"
  shows "releases v s' + holders v s' =
    releases v s + holders v s + (if l = Some v then 1 else 0)"
  using tensor_step_cases_effect [OF step]
proof (elim disjE exE conjE)
  fix t
  assume "heap_adds s t s'" "t_buffer_view t = (case l of None \<Rightarrow> nullptr | Some v \<Rightarrow> v)"
  then show ?thesis
    using v by (auto simp: heap_adds_def releases_def holders_def split: option.splits)
next
  assume "l = None" "rt_log s' = rt_log s" "rt_tensors s' = rt_tensors s"
  then show ?thesis by (simp add: releases_def holders_def)
next
  fix p t d
  assume "l = None" "rt_log s' = rt_log s" "tensor_at s p t"
    "rt_tensors s' = (rt_tensors s)[p := Some (t\<lparr>t_data := d\<rparr>)]"
  then show ?thesis
    using length_filter_update [of p "rt_tensors s" "\<lambda>x. \<exists>t. x = Some t \<and> t_buffer_view t = v"
        "Some (t\<lparr>t_data := d\<rparr>)"]
    by (auto simp: releases_def holders_def tensor_at_def split: if_splits)
next
  fix p t
  assume "l = None" "tensor_at s p t" "rt_log s' = rt_log s @ dealloc_log t"
    "rt_tensors s' = (rt_tensors s)[p := Some (t\<lparr>t_data := None, t_buffer_view := nullptr\<rparr>)]"
  then show ?thesis
    using v length_filter_update [of p "rt_tensors s" "\<lambda>x. \<exists>t. x = Some t \<and> t_buffer_view t = v"
        "Some (t\<lparr>t_data := None, t_buffer_view := nullptr\<rparr>)"]
    by (auto simp: releases_def holders_def tensor_at_def dealloc_log_def split: if_splits)
qed

definition rt_init :: "'w \<Rightarrow> 'w rt" where
  "rt_init w = \<lparr>rt_world = w, rt_tensors = [], rt_devices = [], rt_log = []\<rparr>"

lemma tensor_steps_wf:
  "tensor_steps api s ls s' \<Longrightarrow> block_laws api \<Longrightarrow> heap_wf s \<Longrightarrow> heap_wf s'"
  by (induction rule: tensor_steps.induct) (auto intro: tensor_step_wf)

lemma tensor_steps_balance:
  "tensor_steps api s ls s' \<Longrightarrow> v \<noteq> nullptr \<Longrightarrow>
     releases v s' + holders v s' = releases v s + holders v s + count_list ls (Some v)"
  by (induction rule: tensor_steps.induct) (auto simp: tensor_step_balance)

end
