(* ===== verification/Nx_Types.thy ===== *)
theory Nx_Types
  imports Hal_Types
begin

text \<open>
  The two conversions between Nx type names and IREE element types:
  \<open>nx_type_to_iree_type\<close> of \<open>cmake/src/runtime.cc\<close> and \<open>iree_type_to_nx_type\<close> of
  \<open>c_src/nx_iree.cc\<close>. The message printed for an unknown name is not modelled.
\<close>

section \<open>Definitions\<close>

definition nx_type_to_iree_type :: "string \<Rightarrow> iree_hal_element_type_t" where
  "nx_type_to_iree_type ty =
     (if ty = ''s8'' then element_type_code IREE_HAL_ELEMENT_TYPE_INT_8
      else if ty = ''s16'' then element_type_code IREE_HAL_ELEMENT_TYPE_INT_16
      else if ty = ''s32'' then element_type_code IREE_HAL_ELEMENT_TYPE_INT_32
      else if ty = ''s64'' then element_type_code IREE_HAL_ELEMENT_TYPE_INT_64
      else if ty = ''u8'' then element_type_code IREE_HAL_ELEMENT_TYPE_UINT_8
      else if ty = ''u16'' then element_type_code IREE_HAL_ELEMENT_TYPE_UINT_16
      else if ty = ''u32'' then element_type_code IREE_HAL_ELEMENT_TYPE_UINT_32
      else if ty = ''u64'' then element_type_code IREE_HAL_ELEMENT_TYPE_UINT_64
      else if ty = ''bf16'' then element_type_code IREE_HAL_ELEMENT_TYPE_BFLOAT_16
      else if ty = ''f16'' then element_type_code IREE_HAL_ELEMENT_TYPE_FLOAT_16
      else if ty = ''f32'' then element_type_code IREE_HAL_ELEMENT_TYPE_FLOAT_32
      else if ty = ''f64'' then element_type_code IREE_HAL_ELEMENT_TYPE_FLOAT_64
      else if ty = ''c64'' then element_type_code IREE_HAL_ELEMENT_TYPE_COMPLEX_FLOAT_64
      else if ty = ''c128'' then element_type_code IREE_HAL_ELEMENT_TYPE_COMPLEX_FLOAT_128
      else element_type_code IREE_HAL_ELEMENT_TYPE_NONE)"

definition iree_type_to_nx_type :: "iree_hal_element_type_t \<Rightarrow> string" where
  "iree_type_to_nx_type ty =
     (if ty = element_type_code IREE_HAL_ELEMENT_TYPE_INT_8 then ''i8''
      else if ty = element_type_code IREE_HAL_ELEMENT_TYPE_INT_16 then ''i16''
      else if ty = element_type_code IREE_HAL_ELEMENT_TYPE_INT_32 then ''i32''
      else if ty = element_type_code IREE_HAL_ELEMENT_TYPE_INT_64 then ''i64''
      else if ty = element_type_code IREE_HAL_ELEMENT_TYPE_UINT_8 then ''u8''
      else if ty = element_type_code IREE_HAL_ELEMENT_TYPE_UINT_16 then ''u16''
      else if ty = element_type_code IREE_HAL_ELEMENT_TYPE_UINT_32 then ''u32''
      else if ty = element_type_code IREE_HAL_ELEMENT_TYPE_UINT_64 then ''u64''
      else if ty = element_type_code IREE_HAL_ELEMENT_TYPE_BFLOAT_16 then ''bf16''
      else if ty = element_type_code IREE_HAL_ELEMENT_TYPE_FLOAT_16 then ''f16''
      else if ty = element_type_code IREE_HAL_ELEMENT_TYPE_FLOAT_32 then ''f32''
      else if ty = element_type_code IREE_HAL_ELEMENT_TYPE_FLOAT_64 then ''f64''
      else if ty = element_type_code IREE_HAL_ELEMENT_TYPE_COMPLEX_FLOAT_64 then ''c64''
      else if ty = element_type_code IREE_HAL_ELEMENT_TYPE_COMPLEX_FLOAT_128 then ''c128''
      else ''invalid_type'')"

section \<open>The names that convert\<close>

definition nx_types :: "string list" where
  "nx_types = [''s8'', ''s16'', ''s32'', ''s64'', ''u8'', ''u16'', ''u32'', ''u64'', ''bf16'', ''f16'', ''f32'', ''f64'', ''c64'', ''c128'']"

definition nx_signed_types :: "string list" where
  "nx_signed_types = [''s8'', ''s16'', ''s32'', ''s64'']"

lemma nx_type_to_iree_type_none_iff:
  "nx_type_to_iree_type ty = element_type_code IREE_HAL_ELEMENT_TYPE_NONE \<longleftrightarrow> ty \<notin> set nx_types"
  by (simp add: nx_type_to_iree_type_def nx_types_def)

lemma nx_type_to_iree_type_inj: "inj_on nx_type_to_iree_type (set nx_types)"
  unfolding inj_on_def nx_types_def by (simp add: nx_type_to_iree_type_def)

lemma nx_type_round_trip:
  "ty \<in> set nx_types \<Longrightarrow> ty \<notin> set nx_signed_types \<Longrightarrow>
     iree_type_to_nx_type (nx_type_to_iree_type ty) = ty"
  unfolding nx_types_def nx_signed_types_def
  by (auto simp: nx_type_to_iree_type_def iree_type_to_nx_type_def)

lemma nx_signed_type_names:
  "n \<in> {''8'', ''16'', ''32'', ''64''} \<Longrightarrow>
     iree_type_to_nx_type (nx_type_to_iree_type (CHR ''s'' # n)) = CHR ''i'' # n \<and>
     nx_type_to_iree_type (CHR ''i'' # n) = element_type_code IREE_HAL_ELEMENT_TYPE_NONE"
  by (auto simp: nx_type_to_iree_type_def iree_type_to_nx_type_def)

text \<open>The width in the name is the width of the element in memory.\<close>

fun nx_type_bits :: "string \<Rightarrow> nat" where
  "nx_type_bits ty =
     (if ty \<in> {''s8'', ''u8''} then 8
      else if ty \<in> {''s16'', ''u16'', ''bf16'', ''f16''} then 16
      else if ty \<in> {''s32'', ''u32'', ''f32''} then 32
      else if ty \<in> {''s64'', ''u64'', ''f64'', ''c64''} then 64
      else 128)"

lemma nx_type_dense_bytes:
  "ty \<in> set nx_types \<Longrightarrow>
     unat (iree_hal_element_dense_byte_count (nx_type_to_iree_type ty)) = nx_type_bits ty div 8"
  unfolding nx_types_def
  by (auto simp: nx_type_to_iree_type_def dense_byte_count_code)

end
