(* ===== verification/Nx_Runtime.thy ===== *)
theory Nx_Runtime
  imports Nx_Tensor Nx_Types
begin

text \<open>
  The free functions of \<open>cmake/src/runtime.cc\<close>: instance creation, driver and device
  enumeration, \<open>create_device\<close>, \<open>call\<close> and \<open>get_status_message\<close>. Objects made with \<open>new\<close> live
  in the heaps of \<open>rt\<close>; every release the code performs is logged.
\<close>

section \<open>Definitions\<close>

subsection \<open>Instance and registry\<close>

definition create_instance :: "'w iree_api \<Rightarrow> ('w rt, ptr) sm" where
  "create_instance api =
     bind_sm (api_call2 (iree_vm_instance_create api nullptr)) (\<lambda>(status, instance).
     if \<not> iree_status_is_ok status then ret_sm nullptr
     else bind_sm (api_call (iree_hal_module_register_all_types api instance)) (\<lambda>status.
          if \<not> iree_status_is_ok status
          then bind_sm (api_do (iree_vm_instance_release api instance) (InstanceReleased instance))
                 (\<lambda>_. ret_sm nullptr)
          else ret_sm instance))"

definition register_all_drivers :: "'w iree_api \<Rightarrow> ptr \<Rightarrow> ('w rt, iree_status_t) sm" where
  "register_all_drivers api registry = api_call (iree_hal_register_all_available_drivers api registry)"

definition get_driver_registry :: "'w iree_api \<Rightarrow> ('w rt, ptr) sm" where
  "get_driver_registry api = api_get (iree_hal_available_driver_registry api)"

definition is_ok :: "iree_status_t \<Rightarrow> bool" where
  "is_ok status = iree_status_is_ok status"

definition get_status_message :: "'w iree_api \<Rightarrow> iree_status_t \<Rightarrow> ('w rt, string) sm" where
  "get_status_message api status =
     bind_sm (api_call (iree_status_to_string api status)) (\<lambda>status_string.
     case status_string of
       None \<Rightarrow> fail_sm NullDeref
     | Some str \<Rightarrow>
         bind_sm (modify_sm (log_event (StatusFreed status))) (\<lambda>_.
         ret_sm (''Failed to execute IREE runtime due to error: '' @ c_str str)))"

subsection \<open>Drivers and devices\<close>

definition Driver :: "string \<Rightarrow> string \<Rightarrow> driver_obj" where
  "Driver name full_name = \<lparr>drv_name = name, drv_full_name = full_name\<rparr>"

fun push_drivers :: "driver_info list \<Rightarrow> driver_obj list \<Rightarrow> driver_obj list" where
  "push_drivers [] drivers = drivers"
| "push_drivers (info # infos) drivers =
     (let driver = Driver (di_driver_name info) (di_full_name info)
      in if drv_name driver = ''hip'' then push_drivers infos drivers
         else push_drivers infos (drivers @ [driver]))"

definition list_drivers ::
  "'w iree_api \<Rightarrow> ptr \<Rightarrow> ('w rt, iree_status_t \<times> driver_obj list) sm" where
  "list_drivers api registry =
     bind_sm (api_call2 (iree_hal_driver_registry_enumerate api registry)) (\<lambda>(status, driver_infos).
     case driver_infos of
       None \<Rightarrow> fail_sm UninitRead
     | Some infos \<Rightarrow>
         if \<not> iree_status_is_ok status
         then bind_sm (modify_sm (log_event InfosFreed)) (\<lambda>_. ret_sm (status, []))
         else bind_sm (modify_sm (log_event InfosFreed)) (\<lambda>_.
              ret_sm (iree_ok_status, push_drivers infos [])))"

text \<open>\<open>Device(std::string)\<close> leaves \<open>ref\<close> and \<open>id\<close> uninitialised.\<close>

definition new_device :: "device_obj \<Rightarrow> ('w rt, device_ref) sm" where
  "new_device d s = Inr (length (rt_devices s), s\<lparr>rt_devices := rt_devices s @ [Some d]\<rparr>)"

definition get_device :: "device_ref \<Rightarrow> ('w rt, device_obj) sm" where
  "get_device p s =
     (if p < length (rt_devices s)
      then case rt_devices s ! p of None \<Rightarrow> Inl UseAfterFree | Some d \<Rightarrow> Inr (d, s)
      else Inl OutOfBounds)"

definition set_device :: "device_ref \<Rightarrow> device_obj option \<Rightarrow> ('w rt, unit) sm" where
  "set_device p d = modify_sm (\<lambda>s. s\<lparr>rt_devices := (rt_devices s)[p := d]\<rparr>)"

definition delete_device :: "'w iree_api \<Rightarrow> device_ref \<Rightarrow> ('w rt, unit) sm" where
  "delete_device api p =
     bind_sm (get_device p) (\<lambda>d.
     case d_ref d of
       None \<Rightarrow> fail_sm UninitRead
     | Some ref \<Rightarrow>
         bind_sm (if ref \<noteq> nullptr
                  then api_do (iree_hal_device_release api ref) (DeviceReleased ref)
                  else ret_sm ()) (\<lambda>_.
         set_device p None))"

fun delete_devices :: "'w iree_api \<Rightarrow> device_ref list \<Rightarrow> ('w rt, unit) sm" where
  "delete_devices api [] = ret_sm ()"
| "delete_devices api (d # ds) = bind_sm (delete_device api d) (\<lambda>_. delete_devices api ds)"

text \<open>The clean-up loop \<open>for (j = 0; j <= i; j++) delete devices[i]\<close>, run \<open>n\<close> more times.\<close>

fun delete_at :: "'w iree_api \<Rightarrow> device_ref list \<Rightarrow> nat \<Rightarrow> nat \<Rightarrow> ('w rt, unit) sm" where
  "delete_at api devices i 0 = ret_sm ()"
| "delete_at api devices i (Suc n) =
     (if i < length devices
      then bind_sm (delete_device api (devices ! i)) (\<lambda>_. delete_at api devices i n)
      else fail_sm OutOfBounds)"

definition device_uri :: "string \<Rightarrow> device_info \<Rightarrow> string" where
  "device_uri driver_name info = driver_name @ ''://'' @ dev_path info"

fun push_devices ::
  "'w iree_api \<Rightarrow> ptr \<Rightarrow> string \<Rightarrow> ptr \<Rightarrow> device_info list \<Rightarrow> nat \<Rightarrow> device_ref list \<Rightarrow>
   ('w rt, iree_status_t \<times> device_ref list) sm" where
  "push_devices api registry driver_name driver [] i devices =
     bind_sm (modify_sm (log_event InfosFreed)) (\<lambda>_.
     bind_sm (api_do (iree_hal_driver_release api driver) (DriverReleased driver)) (\<lambda>_.
     ret_sm (iree_ok_status, devices)))"
| "push_devices api registry driver_name driver (info # infos) i devices =
     bind_sm (new_device \<lparr>d_uri = device_uri driver_name info, d_ref = None,
       d_driver_name = driver_name, d_id = Some (dev_id info)\<rparr>) (\<lambda>device.
     bind_sm (api_call2 (iree_hal_create_device api registry
       (c_str (device_uri driver_name info)) None)) (\<lambda>(status, ref).
     bind_sm (set_device device (Some \<lparr>d_uri = device_uri driver_name info, d_ref = ref,
       d_driver_name = driver_name, d_id = Some (dev_id info)\<rparr>)) (\<lambda>_.
     if \<not> iree_status_is_ok status
     then bind_sm (delete_at api devices i (i + 1)) (\<lambda>_.
          bind_sm (api_do (iree_hal_driver_release api driver) (DriverReleased driver)) (\<lambda>_.
          bind_sm (modify_sm (log_event InfosFreed)) (\<lambda>_.
          ret_sm (status, devices))))
     else push_devices api registry driver_name driver infos (i + 1) (devices @ [device]))))"

definition list_driver_devices ::
  "'w iree_api \<Rightarrow> ptr \<Rightarrow> string \<Rightarrow> device_ref list \<Rightarrow> ('w rt, iree_status_t \<times> device_ref list) sm"
where
  "list_driver_devices api registry driver_name devices =
     bind_sm (api_call2 (iree_hal_driver_registry_try_create api registry (c_str driver_name)))
       (\<lambda>(status, driver).
     case driver of
       None \<Rightarrow> fail_sm UninitRead
     | Some driver \<Rightarrow>
         if \<not> iree_status_is_ok status
         then bind_sm (api_do (iree_hal_driver_release api driver) (DriverReleased driver)) (\<lambda>_.
              ret_sm (status, devices))
         else bind_sm (api_call2 (iree_hal_driver_query_available_devices api driver))
                (\<lambda>(status, device_infos).
              case device_infos of
                None \<Rightarrow> fail_sm UninitRead
              | Some infos \<Rightarrow>
                  if \<not> iree_status_is_ok status
                  then bind_sm (modify_sm (log_event InfosFreed)) (\<lambda>_.
                       bind_sm (api_do (iree_hal_driver_release api driver) (DriverReleased driver))
                         (\<lambda>_. ret_sm (status, devices)))
                  else push_devices api registry driver_name driver infos 0 devices))"

fun list_devices_of ::
  "'w iree_api \<Rightarrow> ptr \<Rightarrow> driver_obj list \<Rightarrow> device_ref list \<Rightarrow>
   ('w rt, iree_status_t \<times> device_ref list) sm" where
  "list_devices_of api registry [] devices = ret_sm (iree_ok_status, devices)"
| "list_devices_of api registry (driver # drivers) devices =
     bind_sm (list_driver_devices api registry (drv_name driver) []) (\<lambda>(status, driver_devices).
     if \<not> iree_status_is_ok status
     then bind_sm (delete_devices api devices) (\<lambda>_. ret_sm (status, []))
     else list_devices_of api registry drivers (devices @ driver_devices))"

definition list_devices ::
  "'w iree_api \<Rightarrow> ptr \<Rightarrow> device_ref list \<Rightarrow> ('w rt, iree_status_t \<times> device_ref list) sm" where
  "list_devices api registry devices =
     bind_sm (list_drivers api registry) (\<lambda>(status, drivers).
     if \<not> iree_status_is_ok status then ret_sm (status, devices)
     else list_devices_of api registry drivers devices)"

definition create_device :: "'w iree_api \<Rightarrow> ptr \<Rightarrow> string \<Rightarrow> ('w rt, ptr) sm" where
  "create_device api registry uri =
     bind_sm (api_call2 (iree_hal_create_device api registry (c_str uri) (Some nullptr)))
       (\<lambda>(status, out).
     let device = (case out of None \<Rightarrow> nullptr | Some d \<Rightarrow> d)
     in if \<not> iree_status_is_ok status
        then bind_sm (api_do (iree_hal_device_release api device) (DeviceReleased device)) (\<lambda>_.
             ret_sm nullptr)
        else ret_sm device)"

subsection \<open>Calling a compiled module\<close>

type_synonym call_result = "iree_status_t \<times> tensor_ref list option"

text \<open>
  The macro names its argument twice: when the expression fails it is evaluated again to
  compute the returned status. The local variable the expression writes is threaded through
  both evaluations.
\<close>

definition RETURN_PAIR_IF_ERROR ::
  "('l \<Rightarrow> ('s, iree_status_t \<times> 'l) sm) \<Rightarrow> 'l \<Rightarrow> ('l \<Rightarrow> ('s, iree_status_t \<times> 'r option) sm) \<Rightarrow>
   ('s, iree_status_t \<times> 'r option) sm" where
  "RETURN_PAIR_IF_ERROR expr l k =
     bind_sm (expr l) (\<lambda>(status, l).
     if \<not> iree_status_is_ok status
     then bind_sm (expr l) (\<lambda>(status, l). ret_sm (status, None))
     else k l)"

definition data_byte_span :: "iree_tensor \<Rightarrow> u8 list res" where
  "data_byte_span t =
     (case t_data t of
        None \<Rightarrow> if t_size t = 0 then Inr [] else Inl NullDeref
      | Some bs \<Rightarrow> read_bytes bs 0 (unat (t_size t)))"

definition push_input_ref ::
  "'w iree_api \<Rightarrow> ptr \<Rightarrow> ptr \<Rightarrow> ('w rt, call_result) sm \<Rightarrow> ('w rt, call_result) sm" where
  "push_input_ref api inputs ref k =
     RETURN_PAIR_IF_ERROR
       (\<lambda>ref. bind_sm (modify_sm (log_event (RefMoved ref))) (\<lambda>_.
          api_call2 (iree_vm_list_push_ref_move api inputs ref)))
       ref (\<lambda>_. k)"

fun push_inputs ::
  "'w iree_api \<Rightarrow> ptr \<Rightarrow> ptr \<Rightarrow> tensor_ref list \<Rightarrow> ('w rt, call_result) sm \<Rightarrow>
   ('w rt, call_result) sm" where
  "push_inputs api device inputs [] k = k"
| "push_inputs api device inputs (p # ps) k =
     bind_sm (get_tensor p) (\<lambda>input.
     if t_buffer_view input \<noteq> nullptr
     then push_input_ref api inputs (t_buffer_view input) (push_inputs api device inputs ps k)
     else bind_sm (lift_sm (data_byte_span input)) (\<lambda>span.
          RETURN_PAIR_IF_ERROR
            (\<lambda>view. api_call2 (iree_hal_buffer_view_allocate_buffer_copy api device
               (t_dims input) (t_type input) span view))
            nullptr
            (\<lambda>view. push_input_ref api inputs view (push_inputs api device inputs ps k))))"

function collect_outputs ::
  "'w iree_api \<Rightarrow> ptr \<Rightarrow> ptr \<Rightarrow> nat \<Rightarrow> nat \<Rightarrow> tensor_ref list \<Rightarrow>
   (tensor_ref list \<Rightarrow> ('w rt, call_result) sm) \<Rightarrow> ('w rt, call_result) sm" where
  "collect_outputs api device outputs n i results k =
     (if i < n
      then bind_sm (api_call (iree_vm_list_get_buffer_view_retain api outputs i)) (\<lambda>view.
        if view = nullptr
        then bind_sm (api_call (iree_make_status api IREE_STATUS_NOT_FOUND
               ''can't get output buffer view [index=%d]'')) (\<lambda>st. ret_sm (st, None))
        else
          bind_sm (api_get (iree_hal_buffer_view_shape_rank api view)) (\<lambda>out_shape_rank.
          bind_sm (api_get (iree_hal_buffer_view_shape_dims api view)) (\<lambda>out_shape.
          bind_sm (api_get (iree_hal_buffer_view_element_type api view)) (\<lambda>out_type.
          bind_sm (IREETensor_of_view api view out_type device) (\<lambda>tensor.
          bind_sm (new_tensor tensor) (\<lambda>p.
          bind_sm (lift_sm (push_dims out_shape out_shape_rank 0 [])) (\<lambda>dims.
          bind_sm (put_tensor p (tensor\<lparr>t_dims := dims\<rparr>)) (\<lambda>_.
          if i + 1 < 2 ^ 31
          then collect_outputs api device outputs n (i + 1) (results @ [p]) k
          else fail_sm SignedOverflow))))))))
      else k results)"
  by pat_completeness auto
termination
  by (relation "measure (\<lambda>(_, _, _, n, i, _, _). n - i)") auto

declare collect_outputs.simps [simp del]

definition call_release :: "'w iree_api \<Rightarrow> ptr \<Rightarrow> ptr \<Rightarrow> ptr \<Rightarrow> ('w rt, unit) sm" where
  "call_release api inputs outputs ctx =
     bind_sm (api_do (iree_vm_list_release api inputs) (ListReleased inputs)) (\<lambda>_.
     bind_sm (api_do (iree_vm_list_release api outputs) (ListReleased outputs)) (\<lambda>_.
     if ctx \<noteq> nullptr then api_do (iree_vm_context_release api ctx) (ContextReleased ctx)
     else ret_sm ()))"

definition call_invoke ::
  "'w iree_api \<Rightarrow> ptr \<Rightarrow> ptr \<Rightarrow> u64 option \<Rightarrow> ptr \<Rightarrow> ('w rt, call_result) sm" where
  "call_invoke api device ctx main_function inputs =
     (case main_function of
        None \<Rightarrow> fail_sm UninitRead
      | Some fn \<Rightarrow>
          RETURN_PAIR_IF_ERROR (\<lambda>sg. api_call2 (iree_vm_function_call_get_cconv_fragments api fn sg))
            None (\<lambda>signatures.
          case signatures of
            None \<Rightarrow> fail_sm UninitRead
          | Some (input_signature, output_signature) \<Rightarrow>
              RETURN_PAIR_IF_ERROR
                (\<lambda>out. api_call2 (iree_vm_list_create api (of_nat (length output_signature)) out))
                nullptr (\<lambda>outputs.
              RETURN_PAIR_IF_ERROR
                (\<lambda>u. bind_sm (api_call (iree_vm_invoke api ctx fn inputs outputs)) (\<lambda>st. ret_sm (st, u)))
                () (\<lambda>_.
              collect_outputs api device outputs (length output_signature) 0 [] (\<lambda>results.
              bind_sm (call_release api inputs outputs ctx) (\<lambda>_.
              ret_sm (iree_ok_status, Some results)))))))"

definition call ::
  "'w iree_api \<Rightarrow> ptr \<Rightarrow> ptr \<Rightarrow> string \<Rightarrow> u8 list \<Rightarrow> tensor_ref list \<Rightarrow> ('w rt, call_result) sm" where
  "call api instance device driver_name bytecode exla_inputs =
     RETURN_PAIR_IF_ERROR (\<lambda>m. api_call2 (iree_hal_module_create api instance [device] m))
       nullptr (\<lambda>hal_module.
     RETURN_PAIR_IF_ERROR (\<lambda>m. api_call2 (iree_vm_bytecode_module_create api instance bytecode m))
       nullptr (\<lambda>bytecode_module.
     RETURN_PAIR_IF_ERROR
       (\<lambda>c. api_call2 (iree_vm_context_create_with_modules api instance [hal_module, bytecode_module] c))
       nullptr (\<lambda>ctx.
     RETURN_PAIR_IF_ERROR
       (\<lambda>f. api_call2 (iree_vm_context_resolve_function api ctx ''module.main'' f))
       None (\<lambda>main_function.
     RETURN_PAIR_IF_ERROR
       (\<lambda>l. api_call2 (iree_vm_list_create api (of_nat (length exla_inputs)) l))
       nullptr (\<lambda>inputs.
     push_inputs api device inputs exla_inputs
       (call_invoke api device ctx main_function inputs))))))"

section \<open>Instance creation\<close>

lemma create_instance_cases:
  assumes "create_instance api s = Inr (p, s')"
  shows "rt_log s' = rt_log s \<or> (\<exists>i. p = nullptr \<and> rt_log s' = rt_log s @ [InstanceReleased i])"
  using assms by (auto simp: create_instance_def split: if_splits)

section \<open>Enumeration of drivers and devices\<close>

lemma push_drivers_eq:
  "push_drivers infos drivers =
     drivers @ map (\<lambda>info. Driver (di_driver_name info) (di_full_name info))
       (filter (\<lambda>info. di_driver_name info \<noteq> ''hip'') infos)"
  by (induction infos arbitrary: drivers) (simp_all add: Driver_def Let_def)

lemma list_drivers_eq:
  assumes "iree_hal_driver_registry_enumerate api registry (rt_world s) = (status, Some infos, w)"
  shows "list_drivers api registry s =
    (if iree_status_is_ok status
     then Inr ((iree_ok_status, map (\<lambda>info. Driver (di_driver_name info) (di_full_name info))
       (filter (\<lambda>info. di_driver_name info \<noteq> ''hip'') infos)), log_event InfosFreed (s\<lparr>rt_world := w\<rparr>))
     else Inr ((status, []), log_event InfosFreed (s\<lparr>rt_world := w\<rparr>)))"
  using assms by (simp add: list_drivers_def push_drivers_eq)

definition device_of :: "string \<Rightarrow> device_info \<Rightarrow> ptr option \<Rightarrow> device_obj" where
  "device_of driver_name info ref =
     \<lparr>d_uri = device_uri driver_name info, d_ref = ref, d_driver_name = driver_name,
      d_id = Some (dev_id info)\<rparr>"

lemma bind_new_device [simp]:
  "bind_sm (new_device d) k s = k (length (rt_devices s)) (s\<lparr>rt_devices := rt_devices s @ [Some d]\<rparr>)"
  by (simp add: bind_sm_def new_device_def)

lemma bind_set_device [simp]:
  "bind_sm (set_device p d) k s = k () (s\<lparr>rt_devices := (rt_devices s)[p := d]\<rparr>)"
  by (simp add: set_device_def)

lemma push_devices_step:
  "push_devices api registry dn driver (info # infos) i devices s =
     (let r = iree_hal_create_device api registry (c_str (device_uri dn info)) None (rt_world s);
          s1 = s\<lparr>rt_world := snd (snd r),
                rt_devices := rt_devices s @ [Some (device_of dn info (fst (snd r)))]\<rparr>
      in if iree_status_is_ok (fst r)
         then push_devices api registry dn driver infos (i + 1)
                (devices @ [length (rt_devices s)]) s1
         else bind_sm (delete_at api devices i (i + 1)) (\<lambda>_.
              bind_sm (api_do (iree_hal_driver_release api driver) (DriverReleased driver)) (\<lambda>_.
              bind_sm (modify_sm (log_event InfosFreed)) (\<lambda>_.
              ret_sm (fst r, devices)))) s1)"
  by (cases s) (simp add: Let_def device_of_def)

lemma push_devices_ok:
  assumes "push_devices api registry dn driver infos i devices s = Inr ((st, devices'), s')"
    and "iree_status_is_ok st"
  shows "devices' = devices @ [length (rt_devices s) ..< length (rt_devices s) + length infos] \<and>
    (\<exists>refs. length refs = length infos \<and>
      rt_devices s' = rt_devices s @ map (\<lambda>(info, ref). Some (device_of dn info ref)) (zip infos refs)) \<and>
    rt_log s' = rt_log s @ [InfosFreed, DriverReleased driver] \<and> rt_tensors s' = rt_tensors s"
  using assms
proof (induction infos arbitrary: i devices s)
  case Nil
  then show ?case by auto
next
  case (Cons info infos)
  define r where "r = iree_hal_create_device api registry (c_str (device_uri dn info)) None (rt_world s)"
  define s1 where "s1 = s\<lparr>rt_world := snd (snd r),
                rt_devices := rt_devices s @ [Some (device_of dn info (fst (snd r)))]\<rparr>"
  have "iree_status_is_ok (fst r)"
    using Cons.prems unfolding push_devices_step
    by (auto simp: Let_def r_def bind_sm_eq_Inr split: if_splits)
  then have "push_devices api registry dn driver infos (i + 1) (devices @ [length (rt_devices s)]) s1 =
      Inr ((st, devices'), s')"
    using Cons.prems(1) unfolding push_devices_step by (simp add: Let_def r_def s1_def)
  from Cons.IH [OF this Cons.prems(2)] obtain refs where
    d: "devices' = (devices @ [length (rt_devices s)]) @
      [length (rt_devices s1) ..< length (rt_devices s1) + length infos]"
    and refs: "length refs = length infos"
      "rt_devices s' = rt_devices s1 @ map (\<lambda>(info, ref). Some (device_of dn info ref)) (zip infos refs)"
    and rest: "rt_log s' = rt_log s1 @ [InfosFreed, DriverReleased driver]" "rt_tensors s' = rt_tensors s1"
    by auto
  have "devices' = devices @ [length (rt_devices s) ..< length (rt_devices s) + length (info # infos)]"
    using d upt_Cons_Suc [of "length (rt_devices s)" "length infos"]
    by (simp add: s1_def del: upt_Suc)
  moreover have "rt_devices s' = rt_devices s @
      map (\<lambda>(info, ref). Some (device_of dn info ref)) (zip (info # infos) (fst (snd r) # refs))"
    using refs by (simp add: s1_def)
  ultimately show ?case
    using refs(1) rest by (fastforce simp: s1_def intro!: exI [of _ "fst (snd r) # refs"])
qed

text \<open>
  The clean-up after a failed creation indexes the vector at the position of the device that
  was never pushed. With as many devices as iterations so far this is one past the end.
\<close>

lemma push_devices_no_error_status:
  assumes "push_devices api registry dn driver infos (length devices) devices s = Inr ((st, devices'), s')"
  shows "iree_status_is_ok st"
  using assms
proof (induction infos arbitrary: devices s)
  case Nil
  then show ?case by auto
next
  case (Cons info infos)
  then show ?case
    unfolding push_devices_step
    by (auto simp: Let_def bind_sm_eq_Inr split: if_splits dest: Cons.IH [where devices = "_ @ [_]", simplified])
qed

text \<open>
  A successful enumeration of a driver appends fresh devices that carry its name; over all
  drivers the groups come in the order of the drivers.
\<close>

definition driver_group :: "string \<Rightarrow> device_obj list \<Rightarrow> bool" where
  "driver_group dn g \<longleftrightarrow>
     (\<forall>d \<in> set g. d_driver_name d = dn \<and> (\<exists>path. d_uri d = dn @ ''://'' @ path))"

lemma list_driver_devices_ok:
  assumes "list_driver_devices api registry dn devices s = Inr ((st, devices'), s')"
    and "iree_status_is_ok st"
  shows "\<exists>g. rt_devices s' = rt_devices s @ map Some g \<and> driver_group dn g \<and>
    devices' = devices @ [length (rt_devices s) ..< length (rt_devices s')] \<and>
    rt_tensors s' = rt_tensors s"
proof -
  obtain driver infos w where
    ok: "push_devices api registry dn driver infos 0 devices (s\<lparr>rt_world := w\<rparr>) = Inr ((st, devices'), s')"
    using assms by (auto simp: list_driver_devices_def split: if_splits option.splits)
  obtain refs where refs: "length refs = length infos"
    and "rt_devices s' = rt_devices s @ map (\<lambda>(info, ref). Some (device_of dn info ref)) (zip infos refs)"
    and "devices' = devices @ [length (rt_devices s) ..< length (rt_devices s) + length infos]"
    "rt_tensors s' = rt_tensors s"
    using push_devices_ok [OF ok assms(2)] by auto
  moreover have "driver_group dn (map (\<lambda>(info, ref). device_of dn info ref) (zip infos refs))"
    by (auto simp: driver_group_def device_of_def device_uri_def)
  ultimately show ?thesis
    by (intro exI [of _ "map (\<lambda>(info, ref). device_of dn info ref) (zip infos refs)"])
      (auto simp: comp_def case_prod_beta)
qed

lemma list_devices_of_ok:
  assumes "list_devices_of api registry drivers devices s = Inr ((st, devices'), s')"
    and "iree_status_is_ok st"
  shows "\<exists>gs. list_all2 (\<lambda>drv g. driver_group (drv_name drv) g) drivers gs \<and>
    rt_devices s' = rt_devices s @ map Some (concat gs) \<and>
    devices' = devices @ [length (rt_devices s) ..< length (rt_devices s')] \<and>
    rt_tensors s' = rt_tensors s"
  using assms
proof (induction drivers arbitrary: devices s)
  case Nil
  then show ?case by auto
next
  case (Cons drv drivers)
  obtain st1 ds s1 where first: "list_driver_devices api registry (drv_name drv) [] s = Inr ((st1, ds), s1)"
    and ok1: "iree_status_is_ok st1"
    and rest: "list_devices_of api registry drivers (devices @ ds) s1 = Inr ((st, devices'), s')"
    using Cons.prems by (auto simp: bind_sm_eq_Inr split: if_splits)
  obtain g where g: "rt_devices s1 = rt_devices s @ map Some g" "driver_group (drv_name drv) g"
    "ds = [length (rt_devices s) ..< length (rt_devices s1)]" "rt_tensors s1 = rt_tensors s"
    using list_driver_devices_ok [OF first ok1] by auto
  obtain gs where gs: "list_all2 (\<lambda>drv g. driver_group (drv_name drv) g) drivers gs"
    "rt_devices s' = rt_devices s1 @ map Some (concat gs)"
    "devices' = (devices @ ds) @ [length (rt_devices s1) ..< length (rt_devices s')]"
    "rt_tensors s' = rt_tensors s1"
    using Cons.IH [OF rest Cons.prems(2)] by auto
  have "[length (rt_devices s) ..< length (rt_devices s')] =
      ds @ [length (rt_devices s1) ..< length (rt_devices s')]"
    using g(1,3) gs(2) by (simp add: upt_glue)
  then show ?case
    using g gs by (intro exI [of _ "g # gs"]) simp
qed

section \<open>Calling a module\<close>

text \<open>What a piece of \<open>call\<close> that returns early leaves behind: more tensors, moved references.\<close>

definition grows :: "'w rt \<Rightarrow> 'w rt \<Rightarrow> bool" where
  "grows s s' \<longleftrightarrow> rt_devices s' = rt_devices s \<and> (\<exists>ts. rt_tensors s' = rt_tensors s @ ts) \<and>
     (\<exists>ms. rt_log s' = rt_log s @ map RefMoved ms)"

lemma growsI:
  "rt_devices s' = rt_devices s \<Longrightarrow> rt_tensors s' = rt_tensors s @ ts \<Longrightarrow>
     rt_log s' = rt_log s @ map RefMoved ms \<Longrightarrow> grows s s'"
  by (auto simp: grows_def)

lemma grows_refl [simp, intro]: "grows s s"
  by (rule growsI [of _ _ "[]" "[]"]) simp_all

lemma grows_trans: "grows s s' \<Longrightarrow> grows s' s'' \<Longrightarrow> grows s s''"
  by (auto simp: grows_def intro: exI [of _ "_ @ _"] map_append [symmetric])

lemma grows_world [simp]:
  "grows s (s\<lparr>rt_world := w\<rparr>)"
  "grows (s\<lparr>rt_world := w\<rparr>) s' \<longleftrightarrow> grows s s'"
  by (auto simp: grows_def)

lemma return_pair_Inr:
  "RETURN_PAIR_IF_ERROR expr l k s = Inr r \<longleftrightarrow>
     (\<exists>st l1 s1. expr l s = Inr ((st, l1), s1) \<and>
       (if iree_status_is_ok st then k l1 s1 = Inr r
        else \<exists>st2 l2 s2. expr l1 s1 = Inr ((st2, l2), s2) \<and> r = ((st2, None), s2)))"
  by (auto simp: RETURN_PAIR_IF_ERROR_def bind_sm_eq_Inr split: if_splits)

lemma return_pair_api:
  assumes "RETURN_PAIR_IF_ERROR (\<lambda>l. api_call2 (f l)) l k s = Inr (r, s')"
  shows "(snd r = None \<and> grows s s') \<or> (\<exists>l1 w. k l1 (s\<lparr>rt_world := w\<rparr>) = Inr (r, s'))"
  using assms by (auto simp: return_pair_Inr split: if_splits)

definition world_eq :: "'w rt \<Rightarrow> 'w rt \<Rightarrow> bool" where
  "world_eq s s' \<longleftrightarrow> (\<exists>w. s' = s\<lparr>rt_world := w\<rparr>)"

lemma world_eq_refl: "world_eq s s"
  by (auto simp: world_eq_def intro!: exI [of _ "rt_world s"])

lemma return_pair_apiE:
  assumes "RETURN_PAIR_IF_ERROR (\<lambda>l. api_call2 (f l)) l k s = Inr (r, s')"
    and "\<not> (snd r = None \<and> grows s0 s')" and "world_eq s0 s"
  obtains l1 s1 where "k l1 s1 = Inr (r, s')" and "world_eq s0 s1"
proof -
  obtain w0 where s: "s = s0\<lparr>rt_world := w0\<rparr>" using assms(3) by (auto simp: world_eq_def)
  then obtain l1 w where k: "k l1 (s\<lparr>rt_world := w\<rparr>) = Inr (r, s')"
    using return_pair_api [OF assms(1)] assms(2) by auto
  have "world_eq s0 (s\<lparr>rt_world := w\<rparr>)" by (auto simp: world_eq_def s)
  with k that show ?thesis by blast
qed

lemma push_input_ref_Inr:
  assumes "push_input_ref api inputs ref k s = Inr (r, s')"
  shows "(snd r = None \<and> grows s s') \<or>
    (\<exists>w. k (s\<lparr>rt_world := w, rt_log := rt_log s @ [RefMoved ref]\<rparr>) = Inr (r, s'))"
  using assms
  by (auto simp: push_input_ref_def return_pair_Inr log_event_def grows_def split: if_splits
      intro: exI [of _ "[_, _]"])

text \<open>The reference pushed for an input: its own view, if it has one.\<close>

definition input_ref :: "'w rt \<Rightarrow> tensor_ref \<Rightarrow> ptr \<Rightarrow> bool" where
  "input_ref s p m \<longleftrightarrow> (\<exists>t. tensor_at s p t \<and> (t_buffer_view t \<noteq> nullptr \<longrightarrow> m = t_buffer_view t))"

lemma input_ref_update [simp]:
  "input_ref (s\<lparr>rt_world := w\<rparr>) = input_ref s"
  "input_ref (s\<lparr>rt_log := l\<rparr>) = input_ref s"
  by (simp_all add: input_ref_def fun_eq_iff)

lemma push_inputs_Inr:
  assumes "push_inputs api device inputs ps k s = Inr (r, s')"
  shows "(snd r = None \<and> grows s s') \<or>
    (\<exists>w ms. list_all2 (input_ref s) ps ms \<and>
      k (s\<lparr>rt_world := w, rt_log := rt_log s @ map RefMoved ms\<rparr>) = Inr (r, s'))"
  using assms
proof (induction ps arbitrary: s)
  case Nil
  then show ?case by (auto intro!: exI [of _ "rt_world s"])
next
  case (Cons p ps)
  obtain t where t: "tensor_at s p t"
    using Cons.prems by (auto simp: bind_sm_eq_Inr get_tensor_Inr)
  have "(snd r = None \<and> grows s s') \<or> (\<exists>view w. (t_buffer_view t \<noteq> nullptr \<longrightarrow> view = t_buffer_view t) \<and>
      push_input_ref api inputs view (push_inputs api device inputs ps k) (s\<lparr>rt_world := w\<rparr>) = Inr (r, s'))"
  proof (cases "t_buffer_view t = nullptr")
    case True
    then show ?thesis
      using Cons.prems t by (auto simp: bind_get_tensor bind_lift_eq_Inr dest!: return_pair_api)
  next
    case False
    then have "push_input_ref api inputs (t_buffer_view t) (push_inputs api device inputs ps k)
        (s\<lparr>rt_world := rt_world s\<rparr>) = Inr (r, s')"
      using Cons.prems t by (simp add: bind_get_tensor)
    then show ?thesis by blast
  qed
  then show ?case
  proof (elim disjE exE conjE)
    fix view w
    assume view: "t_buffer_view t \<noteq> nullptr \<longrightarrow> view = t_buffer_view t"
      and push: "push_input_ref api inputs view (push_inputs api device inputs ps k)
        (s\<lparr>rt_world := w\<rparr>) = Inr (r, s')"
    from push_input_ref_Inr [OF push] show ?thesis
    proof (elim disjE exE conjE)
      fix w'
      let ?s1 = "s\<lparr>rt_world := w', rt_log := rt_log s @ [RefMoved view]\<rparr>"
      assume "push_inputs api device inputs ps k (s\<lparr>rt_world := w, rt_world := w',
          rt_log := rt_log (s\<lparr>rt_world := w\<rparr>) @ [RefMoved view]\<rparr>) = Inr (r, s')"
      then have "push_inputs api device inputs ps k ?s1 = Inr (r, s')" by simp
      from Cons.IH [OF this] show ?thesis
      proof (elim disjE exE conjE)
        assume "snd r = None" "grows ?s1 s'"
        moreover have "grows s ?s1" by (rule growsI [of _ _ "[]" "[view]"]) simp_all
        ultimately show ?thesis using grows_trans by blast
      next
        fix w2 ms
        assume "list_all2 (input_ref ?s1) ps ms"
          and k: "k (?s1\<lparr>rt_world := w2, rt_log := rt_log ?s1 @ map RefMoved ms\<rparr>) = Inr (r, s')"
        then have "list_all2 (input_ref s) (p # ps) (view # ms)"
          using view t by (auto simp: input_ref_def [of s p])
        moreover have "k (s\<lparr>rt_world := w2, rt_log := rt_log s @ map RefMoved (view # ms)\<rparr>) = Inr (r, s')"
          using k by simp
        ultimately show ?thesis by blast
      qed
    qed simp
  qed simp
qed

text \<open>An output: a tensor on the device that wraps the view it was retained from.\<close>

definition output_tensor :: "ptr \<Rightarrow> iree_tensor \<Rightarrow> bool" where
  "output_tensor device t \<longleftrightarrow>
     t_data t = None \<and> t_device t = Some device \<and> t_buffer_view t \<noteq> nullptr"

definition output_of :: "'w iree_api \<Rightarrow> ptr \<Rightarrow> ptr \<Rightarrow> u64 list \<Rightarrow> 'w \<Rightarrow> iree_tensor" where
  "output_of api device view dims w =
     \<lparr>t_data = None, t_size = iree_hal_buffer_view_byte_length api view w, t_dims = dims,
      t_type = iree_hal_buffer_view_element_type api view w, t_buffer_view = view,
      t_device = Some device\<rparr>"

lemma output_tensor_of: "view \<noteq> nullptr \<Longrightarrow> \<forall>dims w. output_tensor device (output_of api device view dims w)"
  by (simp add: output_tensor_def output_of_def)

lemma collect_outputs_step:
  assumes "i < n"
  shows "collect_outputs api device outputs n i results k s =
    (let r = iree_vm_list_get_buffer_view_retain api outputs i (rt_world s);
         view = fst r; w = snd r
     in if view = nullptr
        then bind_sm (api_call (iree_make_status api IREE_STATUS_NOT_FOUND
               ''can't get output buffer view [index=%d]'')) (\<lambda>st. ret_sm (st, None)) (s\<lparr>rt_world := w\<rparr>)
        else case push_dims (iree_hal_buffer_view_shape_dims api view w)
               (iree_hal_buffer_view_shape_rank api view w) 0 [] of
               Inl e \<Rightarrow> Inl e
             | Inr dims \<Rightarrow>
                 if i + 1 < 2 ^ 31
                 then collect_outputs api device outputs n (i + 1) (results @ [length (rt_tensors s)]) k
                   (s\<lparr>rt_world := w, rt_tensors := rt_tensors s @ [Some (output_of api device view dims w)]\<rparr>)
                 else Inl SignedOverflow)"
  using assms
  by (subst collect_outputs.simps)
    (simp add: Let_def IREETensor_of_view_def new_tensor_def bind_sm_def put_tensor_def lift_sm_def
      nth_append output_of_def split: sum.split)

lemma collect_outputs_Inr:
  assumes "collect_outputs api device outputs n i results k s = Inr (r, s')" and "i \<le> n"
  shows "(snd r = None \<and> grows s s') \<or>
    (\<exists>w ts. length ts = n - i \<and> (\<forall>t \<in> set ts. output_tensor device t) \<and>
      k (results @ [length (rt_tensors s) ..< length (rt_tensors s) + (n - i)])
        (s\<lparr>rt_world := w, rt_tensors := rt_tensors s @ map Some ts\<rparr>) = Inr (r, s'))"
  using assms
proof (induction "n - i" arbitrary: i results s)
  case 0
  then have "n = i" by simp
  with 0 show ?case
    by (auto simp: collect_outputs.simps [of api device outputs i i]
        intro!: exI [of _ "rt_world s"])
next
  case (Suc m)
  then have i: "i < n" by simp
  show ?case
  proof (cases "snd r = None \<and> grows s s'")
    case False
    then obtain w t where t: "output_tensor device t"
      and k: "collect_outputs api device outputs n (i + 1) (results @ [length (rt_tensors s)]) k
        (s\<lparr>rt_world := w, rt_tensors := rt_tensors s @ [Some t]\<rparr>) = Inr (r, s')"
      using Suc.prems(1) unfolding collect_outputs_step [OF i] Let_def
      by (auto split: if_splits sum.splits dest!: output_tensor_of [of _ device api])
    let ?s1 = "s\<lparr>rt_world := w, rt_tensors := rt_tensors s @ [Some t]\<rparr>"
    have "m = n - (i + 1)" "i + 1 \<le> n" using Suc.hyps(2) i by simp_all
    from Suc.hyps(1) [OF this(1) k this(2)] show ?thesis
    proof (elim disjE exE conjE)
      assume "snd r = None" "grows ?s1 s'"
      moreover have "grows s ?s1" by (rule growsI [of _ _ "[Some t]" "[]"]) simp_all
      ultimately show ?thesis using grows_trans by blast
    next
      fix w2 ts
      assume ts: "length ts = n - (i + 1)" "\<forall>t \<in> set ts. output_tensor device t"
        and k2: "k ((results @ [length (rt_tensors s)]) @
            [length (rt_tensors ?s1) ..< length (rt_tensors ?s1) + (n - (i + 1))])
          (?s1\<lparr>rt_world := w2, rt_tensors := rt_tensors ?s1 @ map Some ts\<rparr>) = Inr (r, s')"
      have n: "n - i = Suc (n - (i + 1))" using i by simp
      have "k (results @ [length (rt_tensors s) ..< length (rt_tensors s) + (n - i)])
          (s\<lparr>rt_world := w2, rt_tensors := rt_tensors s @ map Some (t # ts)\<rparr>) = Inr (r, s')"
        using k2 upt_Cons_Suc [of "length (rt_tensors s)" "n - (i + 1)"]
        unfolding n by (simp del: upt_Suc)
      moreover have "length (t # ts) = n - i" using ts(1) n by simp
      ultimately show ?thesis using ts(2) t by fastforce
    qed
  qed simp
qed

lemma call_release_effect:
  "\<exists>w. call_release api inputs outputs ctx s = Inr ((), s\<lparr>rt_world := w, rt_log := rt_log s @
     [ListReleased inputs, ListReleased outputs] @
     (if ctx \<noteq> nullptr then [ContextReleased ctx] else [])\<rparr>)"
  by (auto simp: call_release_def log_event_def)

text \<open>
  The outcome of a call that returns: either no result, with nothing released, or one output
  tensor per character of the output signature, with the argument list, the result list and
  the context released. The argument references moved are the inputs' own views.
\<close>

definition call_post ::
  "ptr \<Rightarrow> tensor_ref list \<Rightarrow> 'w rt \<Rightarrow> call_result \<Rightarrow> 'w rt \<Rightarrow> bool" where
  "call_post device ps s r s' \<longleftrightarrow>
     (snd r = None \<and> grows s s') \<or>
     (\<exists>ts ms inputs outputs ctx.
        r = (iree_ok_status, Some [length (rt_tensors s) ..< length (rt_tensors s) + length ts]) \<and>
        (\<forall>t \<in> set ts. output_tensor device t) \<and> list_all2 (input_ref s) ps ms \<and>
        rt_tensors s' = rt_tensors s @ map Some ts \<and> rt_devices s' = rt_devices s \<and>
        rt_log s' = rt_log s @ map RefMoved ms @ [ListReleased inputs, ListReleased outputs] @
          (if ctx \<noteq> nullptr then [ContextReleased ctx] else []))"

lemma call_post_world: "call_post device ps (s\<lparr>rt_world := w\<rparr>) r s' = call_post device ps s r s'"
  by (simp add: call_post_def)

lemma call_invoke_Inr:
  assumes "call_invoke api device ctx fn inputs s = Inr (r, s')"
  shows "(snd r = None \<and> grows s s') \<or>
    (\<exists>ts outputs.
      r = (iree_ok_status, Some [length (rt_tensors s) ..< length (rt_tensors s) + length ts]) \<and>
      (\<forall>t \<in> set ts. output_tensor device t) \<and>
      rt_tensors s' = rt_tensors s @ map Some ts \<and> rt_devices s' = rt_devices s \<and>
      rt_log s' = rt_log s @ [ListReleased inputs, ListReleased outputs] @
        (if ctx \<noteq> nullptr then [ContextReleased ctx] else []))"
proof (cases "snd r = None \<and> grows s s'")
  case False
  let ?fin = "\<lambda>outputs results. bind_sm (call_release api inputs outputs ctx) (\<lambda>_.
    ret_sm (iree_ok_status, Some results))"
  obtain outputs n w where
    c: "collect_outputs api device outputs n 0 [] (?fin outputs) (s\<lparr>rt_world := w\<rparr>) = Inr (r, s')"
    using assms False
    by (auto simp: call_invoke_def return_pair_Inr split: option.splits if_splits)
  obtain w2 ts where ts: "length ts = n" "\<forall>t \<in> set ts. output_tensor device t"
    and f: "?fin outputs [length (rt_tensors s) ..< length (rt_tensors s) + n]
      (s\<lparr>rt_world := w2, rt_tensors := rt_tensors s @ map Some ts\<rparr>) = Inr (r, s')"
    using collect_outputs_Inr [OF c] False by auto
  obtain w3 where "call_release api inputs outputs ctx
      (s\<lparr>rt_world := w2, rt_tensors := rt_tensors s @ map Some ts\<rparr>) =
      Inr ((), s\<lparr>rt_world := w3, rt_tensors := rt_tensors s @ map Some ts, rt_log := rt_log s @
        [ListReleased inputs, ListReleased outputs] @
        (if ctx \<noteq> nullptr then [ContextReleased ctx] else [])\<rparr>)"
    using call_release_effect [of api inputs outputs ctx
        "s\<lparr>rt_world := w2, rt_tensors := rt_tensors s @ map Some ts\<rparr>"] by auto
  with f ts show ?thesis
    by (intro disjI2 exI [of _ ts] exI [of _ outputs]) (auto simp: bind_sm_Inr)
qed simp

lemma call_Inr:
  assumes "call api instance device dn bytecode ps s = Inr (r, s')"
  shows "call_post device ps s r s'"
proof (cases "snd r = None \<and> grows s s'")
  case False
  obtain inputs ctx fn s0 where
    p0: "push_inputs api device inputs ps (call_invoke api device ctx fn inputs) s0 = Inr (r, s')"
    and s0: "world_eq s s0"
    using assms [unfolded call_def] False world_eq_refl [of s]
    by (elim return_pair_apiE) assumption
  then obtain w where
    p: "push_inputs api device inputs ps (call_invoke api device ctx fn inputs) (s\<lparr>rt_world := w\<rparr>) =
      Inr (r, s')"
    by (auto simp: world_eq_def)
  obtain w2 ms where ms: "list_all2 (input_ref s) ps ms"
    and inv: "call_invoke api device ctx fn inputs
      (s\<lparr>rt_world := w2, rt_log := rt_log s @ map RefMoved ms\<rparr>) = Inr (r, s')"
    using push_inputs_Inr [OF p] False by auto
  let ?s1 = "s\<lparr>rt_world := w2, rt_log := rt_log s @ map RefMoved ms\<rparr>"
  have g: "grows s ?s1" by (rule growsI [of _ _ "[]" ms]) simp_all
  have "\<not> (snd r = None \<and> grows ?s1 s')" using False grows_trans [OF g] by blast
  then obtain ts outputs where
    "r = (iree_ok_status, Some [length (rt_tensors ?s1) ..< length (rt_tensors ?s1) + length ts])"
    "\<forall>t \<in> set ts. output_tensor device t" "rt_tensors s' = rt_tensors ?s1 @ map Some ts"
    "rt_devices s' = rt_devices ?s1"
    "rt_log s' = rt_log ?s1 @ [ListReleased inputs, ListReleased outputs] @
        (if ctx \<noteq> nullptr then [ContextReleased ctx] else [])"
    using call_invoke_Inr [OF inv] by blast
  with ms show ?thesis
    unfolding call_post_def
    by (intro disjI2 exI [of _ ts] exI [of _ ms] exI [of _ inputs] exI [of _ outputs] exI [of _ ctx])
      simp
qed (simp add: call_post_def)

lemma call_keeps_tensors:
  assumes "call api instance device dn bytecode ps s = Inr (r, s')" and "tensor_at s p t"
  shows "tensor_at s' p t"
  using call_Inr [OF assms(1)] assms(2)
  by (auto simp: call_post_def grows_def tensor_at_def nth_append)

lemma call_status_ok_of_result:
  "call api instance device dn bytecode ps s = Inr ((st, Some rs), s') \<Longrightarrow> iree_status_is_ok st"
  by (drule call_Inr) (auto simp: call_post_def)

end
