(* ===== verification/Nx_Nif.thy ===== *)
theory Nx_Nif
  imports Nx_Runtime
begin

text \<open>
  The Erlang NIF library \<open>c_src/nx_iree.cc\<close>: resource handling, decoding of arguments and the
  handlers registered in \<open>funcs\<close>. The NIF interface of the virtual machine (\<open>erl_nif.h\<close>) is
  a parameter: a record of decoders and constructors over an abstract type \<open>'t\<close> of terms.
\<close>

section \<open>Definitions\<close>

subsection \<open>The NIF interface and the state of the library\<close>

record ('t, 'w) enif_api =
  enif_make_atom :: "string \<Rightarrow> 't"
  enif_make_string :: "string \<Rightarrow> 't"
  enif_make_tuple :: "'t list \<Rightarrow> 't"
  enif_make_list_from_array :: "'t list \<Rightarrow> 't"
  enif_make_int64 :: "int \<Rightarrow> 't"
  enif_make_uint64 :: "u64 \<Rightarrow> 't"
  enif_make_binary :: "u8 list \<Rightarrow> 't"
  enif_alloc_binary :: "u64 \<Rightarrow> 'w \<Rightarrow> u8 list option \<times> 'w"
  enif_inspect_binary :: "'t \<Rightarrow> u8 list option"
  enif_get_int64 :: "'t \<Rightarrow> int option"
  enif_get_list_length :: "'t \<Rightarrow> nat option"
  enif_get_list_cell :: "'t \<Rightarrow> ('t \<times> 't) option"
  enif_get_string :: "'t \<Rightarrow> nat \<Rightarrow> int \<times> string"
  enif_open_resource_type :: "string \<Rightarrow> string \<Rightarrow> 'w \<Rightarrow> ptr \<times> 'w"
  enif_alloc_resource :: "ptr \<Rightarrow> u64 \<Rightarrow> 'w \<Rightarrow> ptr \<times> 'w"
  enif_make_resource :: "ptr \<Rightarrow> 't"
  enif_release_resource :: "ptr \<Rightarrow> 'w \<Rightarrow> 'w"
  enif_get_resource :: "'t \<Rightarrow> ptr \<Rightarrow> ptr option"

datatype res_kind = K_instance | K_device | K_registry | K_tensor

text \<open>What the memory of a resource holds: a library pointer, or a pointer to a tensor.\<close>

datatype res_val = RvPtr ptr | RvTensor tensor_ref

record 'w nif =
  ns_rt :: "'w rt"
  ns_type :: "res_kind \<Rightarrow> ptr"
  ns_mem :: "ptr \<Rightarrow> res_val option"

definition on_rt :: "('w rt, 'a) sm \<Rightarrow> ('w nif, 'a) sm" where
  "on_rt m s = (case m (ns_rt s) of Inl e \<Rightarrow> Inl e | Inr (x, r) \<Rightarrow> Inr (x, s\<lparr>ns_rt := r\<rparr>))"

definition nif_arg :: "'t list \<Rightarrow> nat \<Rightarrow> ('s, 't) sm" where
  "nif_arg argv i = (if i < length argv then ret_sm (argv ! i) else fail_sm OutOfBounds)"

definition nif_error :: "('t, 'w) enif_api \<Rightarrow> string \<Rightarrow> 't" where
  "nif_error E msg = enif_make_tuple E [enif_make_atom E ''error'', enif_make_string E (c_str msg)]"

definition nif_ok :: "('t, 'w) enif_api \<Rightarrow> 't" where
  "nif_ok E = enif_make_atom E ''ok''"

definition nif_ok_term :: "('t, 'w) enif_api \<Rightarrow> 't \<Rightarrow> 't" where
  "nif_ok_term E trm = enif_make_tuple E [enif_make_atom E ''ok'', trm]"

subsection \<open>Resources\<close>

definition open_resource ::
  "('t, 'w) enif_api \<Rightarrow> res_kind \<Rightarrow> string \<Rightarrow> string \<Rightarrow> ('w nif, int) sm" where
  "open_resource E kind md name =
     bind_sm (on_rt (api_call (enif_open_resource_type E md name))) (\<lambda>type.
     if type = nullptr
     then bind_sm (modify_sm (\<lambda>s. s\<lparr>ns_type := (ns_type s)(kind := nullptr)\<rparr>)) (\<lambda>_. ret_sm (-1))
     else bind_sm (modify_sm (\<lambda>s. s\<lparr>ns_type := (ns_type s)(kind := type)\<rparr>)) (\<lambda>_. ret_sm 1))"

text \<open>
  The destructor of a resource runs \<open>~T()\<close> for a pointer type \<open>T\<close>, which does nothing, and
  assigns a local variable.
\<close>

definition default_dtor :: "res_kind \<Rightarrow> ptr \<Rightarrow> 'w nif \<Rightarrow> 'w nif" where
  "default_dtor kind obj s = s"

definition make :: "('t, 'w) enif_api \<Rightarrow> res_kind \<Rightarrow> res_val \<Rightarrow> ('w nif, 't) sm" where
  "make E kind var =
     bind_sm (gets_sm (\<lambda>s. ns_type s kind)) (\<lambda>type.
     bind_sm (on_rt (api_call (enif_alloc_resource E type 8))) (\<lambda>p.
     if p = nullptr then fail_sm NullDeref
     else bind_sm (modify_sm (\<lambda>s. s\<lparr>ns_mem := (ns_mem s)(p := Some var)\<rparr>)) (\<lambda>_.
          let ret = enif_make_resource E p
          in bind_sm (on_rt (api_call (\<lambda>w. ((), enif_release_resource E p w)))) (\<lambda>_.
             ret_sm ret))))"

text \<open>\<open>get\<close> yields the address of the resource, or nothing when the term is not one of its kind.\<close>

definition get_res :: "('t, 'w) enif_api \<Rightarrow> res_kind \<Rightarrow> 't \<Rightarrow> ('w nif, ptr option) sm" where
  "get_res E kind trm = gets_sm (\<lambda>s. enif_get_resource E trm (ns_type s kind))"

definition deref_ptr :: "ptr \<Rightarrow> ('w nif, ptr) sm" where
  "deref_ptr p = bind_sm (gets_sm (\<lambda>s. ns_mem s p)) (\<lambda>v.
     case v of Some (RvPtr x) \<Rightarrow> ret_sm x | _ \<Rightarrow> fail_sm OutOfBounds)"

definition deref_tensor :: "ptr \<Rightarrow> ('w nif, tensor_ref) sm" where
  "deref_tensor p = bind_sm (gets_sm (\<lambda>s. ns_mem s p)) (\<lambda>v.
     case v of Some (RvTensor x) \<Rightarrow> ret_sm x | _ \<Rightarrow> fail_sm OutOfBounds)"

definition open_resources :: "('t, 'w) enif_api \<Rightarrow> ('w nif, int) sm" where
  "open_resources E =
     bind_sm (open_resource E K_instance ''NxIREE'' ''iree_vm_instance_t'') (\<lambda>r.
     if r = 0 then ret_sm (-1) else
     bind_sm (open_resource E K_device ''NxIREE'' ''iree_hal_device_t'') (\<lambda>r.
     if r = 0 then ret_sm (-1) else
     bind_sm (open_resource E K_registry ''NxIREE'' ''iree_hal_driver_registry_t'') (\<lambda>r.
     if r = 0 then ret_sm (-1) else
     bind_sm (open_resource E K_tensor ''NxIREE'' ''iree::runtime::IREETensor'') (\<lambda>r.
     if r = 0 then ret_sm (-1) else
     ret_sm 1))))"

definition nif_load :: "('t, 'w) enif_api \<Rightarrow> ('w nif, int) sm" where
  "nif_load E = bind_sm (open_resources E) (\<lambda>r. if r = -1 then ret_sm (-1) else ret_sm 0)"

definition nif_upgrade :: "('w nif, int) sm" where
  "nif_upgrade = ret_sm 0"

subsection \<open>Decoding arguments\<close>

text \<open>
  The loops over list cells run while the term has a cell. The fuel is one more than the
  length the term reported; running out of it is \<open>Diverges\<close>. A result \<open>None\<close> is the return
  value 0.
\<close>

fun get_list_loop :: "('t, 'w) enif_api \<Rightarrow> nat \<Rightarrow> 't \<Rightarrow> int list \<Rightarrow> int list option res" where
  "get_list_loop E 0 l var = Inl Diverges"
| "get_list_loop E (Suc n) l var =
     (case enif_get_list_cell E l of
        None \<Rightarrow> Inr (Some var)
      | Some (head, tail) \<Rightarrow>
          (case enif_get_int64 E head of
             None \<Rightarrow> Inr None
           | Some elem \<Rightarrow> get_list_loop E n tail (var @ [elem])))"

definition get_list :: "('t, 'w) enif_api \<Rightarrow> 't \<Rightarrow> int list option res" where
  "get_list E l =
     (case enif_get_list_length E l of
        None \<Rightarrow> Inr None
      | Some len \<Rightarrow> get_list_loop E (Suc len) l [])"

fun get_tensor_list_loop ::
  "('t, 'w) enif_api \<Rightarrow> nat \<Rightarrow> 't \<Rightarrow> tensor_ref list \<Rightarrow> ('w nif, tensor_ref list option) sm" where
  "get_tensor_list_loop E 0 l var = fail_sm Diverges"
| "get_tensor_list_loop E (Suc n) l var =
     (case enif_get_list_cell E l of
        None \<Rightarrow> ret_sm (Some var)
      | Some (head, tail) \<Rightarrow>
          bind_sm (get_res E K_tensor head) (\<lambda>elem.
          case elem of
            None \<Rightarrow> ret_sm None
          | Some p \<Rightarrow> bind_sm (deref_tensor p) (\<lambda>x. get_tensor_list_loop E n tail (var @ [x]))))"

definition get_tensor_list ::
  "('t, 'w) enif_api \<Rightarrow> 't \<Rightarrow> ('w nif, tensor_ref list option) sm" where
  "get_tensor_list E l =
     (case enif_get_list_length E l of
        None \<Rightarrow> ret_sm None
      | Some len \<Rightarrow> get_tensor_list_loop E (Suc len) l [])"

definition string_of_bytes :: "u8 list \<Rightarrow> string" where
  "string_of_bytes bs = map (\<lambda>b. char_of (unat b)) bs"

definition get_string :: "('t, 'w) enif_api \<Rightarrow> 't \<Rightarrow> int \<times> string" where
  "get_string E trm =
     (case enif_get_list_length E trm of
        None \<Rightarrow>
          (case enif_inspect_binary E trm of
             None \<Rightarrow> (0, [])
           | Some bin \<Rightarrow> (1, string_of_bytes bin))
      | Some len \<Rightarrow>
          (let (ret, buf) = enif_get_string E trm (len + 1)
           in if ret > 0 then (ret, take (nat (ret - 1)) buf)
              else if ret = 0 then (ret, [])
              else (ret, buf)))"

subsection \<open>Handlers\<close>

type_synonym ('t, 'w) handler = "'t list \<Rightarrow> ('w nif, 't) sm"

definition create_instance_nif :: "'w iree_api \<Rightarrow> ('t, 'w) enif_api \<Rightarrow> ('t, 'w) handler" where
  "create_instance_nif api E argv =
     bind_sm (on_rt (create_instance api)) (\<lambda>vm_instance.
     bind_sm (make E K_instance (RvPtr vm_instance)) (\<lambda>r.
     ret_sm (nif_ok_term E r)))"

definition create_device_nif :: "'w iree_api \<Rightarrow> ('t, 'w) enif_api \<Rightarrow> ('t, 'w) handler" where
  "create_device_nif api E argv =
     bind_sm (nif_arg argv 0) (\<lambda>a0.
     bind_sm (get_res E K_registry a0) (\<lambda>registry.
     if registry = None then ret_sm (nif_error E ''invalid driver registry'')
     else ret_sm (enif_make_atom E ''ok'')))"

definition get_driver_registry_nif :: "'w iree_api \<Rightarrow> ('t, 'w) enif_api \<Rightarrow> ('t, 'w) handler" where
  "get_driver_registry_nif api E argv =
     bind_sm (on_rt (get_driver_registry api)) (\<lambda>registry.
     bind_sm (make E K_registry (RvPtr registry)) (\<lambda>r.
     ret_sm (nif_ok_term E r)))"

definition status_error :: "'w iree_api \<Rightarrow> ('t, 'w) enif_api \<Rightarrow> iree_status_t \<Rightarrow> ('w nif, 't) sm" where
  "status_error api E status =
     bind_sm (on_rt (get_status_message api status)) (\<lambda>msg. ret_sm (nif_error E msg))"

definition device_term :: "('t, 'w) enif_api \<Rightarrow> device_ref \<Rightarrow> ('w nif, 't) sm" where
  "device_term E dev =
     bind_sm (on_rt (get_device dev)) (\<lambda>device.
     case d_ref device of
       None \<Rightarrow> fail_sm UninitRead
     | Some ref \<Rightarrow>
         bind_sm (make E K_device (RvPtr ref)) (\<lambda>ref_term.
         case d_id device of
           None \<Rightarrow> fail_sm UninitRead
         | Some ident \<Rightarrow>
             ret_sm (enif_make_tuple E
               [ref_term, enif_make_string E (c_str (d_driver_name device)),
                enif_make_string E (c_str (d_uri device)), enif_make_uint64 E ident])))"

definition list_devices_nif :: "'w iree_api \<Rightarrow> ('t, 'w) enif_api \<Rightarrow> ('t, 'w) handler" where
  "list_devices_nif api E argv =
     bind_sm (nif_arg argv 0) (\<lambda>a0.
     bind_sm (get_res E K_registry a0) (\<lambda>registry.
     case registry of
       None \<Rightarrow> ret_sm (nif_error E ''invalid driver registry'')
     | Some rp \<Rightarrow>
         let finish = (\<lambda>(status, devices).
               if \<not> is_ok status then status_error api E status
               else bind_sm (mapM_sm (device_term E) devices) (\<lambda>device_terms.
                    ret_sm (nif_ok_term E (enif_make_list_from_array E device_terms))))
         in if length argv = 1
            then bind_sm (deref_ptr rp) (\<lambda>reg.
                 bind_sm (on_rt (list_devices api reg [])) finish)
            else bind_sm (nif_arg argv 1) (\<lambda>a1.
                 if fst (get_string E a1) = 0 then ret_sm (nif_error E ''invalid driver name'')
                 else bind_sm (deref_ptr rp) (\<lambda>reg.
                      bind_sm (on_rt (list_driver_devices api reg (snd (get_string E a1)) []))
                        finish))))"

definition driver_term :: "('t, 'w) enif_api \<Rightarrow> driver_obj \<Rightarrow> 't" where
  "driver_term E driver =
     enif_make_tuple E [enif_make_string E (c_str (drv_name driver)),
       enif_make_string E (c_str (drv_full_name driver))]"

definition list_drivers_nif :: "'w iree_api \<Rightarrow> ('t, 'w) enif_api \<Rightarrow> ('t, 'w) handler" where
  "list_drivers_nif api E argv =
     bind_sm (nif_arg argv 0) (\<lambda>a0.
     bind_sm (get_res E K_registry a0) (\<lambda>registry.
     case registry of
       None \<Rightarrow> ret_sm (nif_error E ''invalid driver registry'')
     | Some rp \<Rightarrow>
         bind_sm (deref_ptr rp) (\<lambda>reg.
         bind_sm (on_rt (list_drivers api reg)) (\<lambda>(status, drivers).
         if \<not> is_ok status then status_error api E status
         else ret_sm (nif_ok_term E
                (enif_make_list_from_array E (map (driver_term E) drivers)))))))"

definition read_buffer_nif :: "'w iree_api \<Rightarrow> ('t, 'w) enif_api \<Rightarrow> ('t, 'w) handler" where
  "read_buffer_nif api E argv =
     bind_sm (nif_arg argv 0) (\<lambda>a0. bind_sm (nif_arg argv 1) (\<lambda>a1. bind_sm (nif_arg argv 2) (\<lambda>a2.
     bind_sm (get_res E K_device a0) (\<lambda>device.
     case device of None \<Rightarrow> ret_sm (nif_error E ''invalid device'') | Some dp \<Rightarrow>
     bind_sm (get_res E K_tensor a1) (\<lambda>input.
     case input of None \<Rightarrow> ret_sm (nif_error E ''invalid input'') | Some ip \<Rightarrow>
     case enif_get_int64 E a2 of None \<Rightarrow> ret_sm (nif_error E ''invalid num_bytes'') | Some n \<Rightarrow>
     bind_sm (deref_tensor ip) (\<lambda>p.
     bind_sm (on_rt (get_tensor p)) (\<lambda>t.
     let num_bytes = (if n = -1 then t_size t else word_of_int n)
     in bind_sm (on_rt (api_call (enif_alloc_binary E num_bytes))) (\<lambda>binary.
     case binary of
       None \<Rightarrow> ret_sm (nif_error E ''unable to allocate binary'')
     | Some blk \<Rightarrow>
         if t_buffer_view t = nullptr
         then case t_data t of
                None \<Rightarrow> fail_sm NullDeref
              | Some data \<Rightarrow>
                  bind_sm (lift_sm (read_bytes data 0 (unat num_bytes))) (\<lambda>bytes.
                  ret_sm (nif_ok_term E (enif_make_binary E bytes)))
         else bind_sm (deref_ptr dp) (\<lambda>dev.
              bind_sm (on_rt (read_buffer api dev (t_buffer_view t) blk num_bytes)) (\<lambda>(status, blk).
              if \<not> is_ok status then status_error api E status
              else ret_sm (nif_ok_term E (enif_make_binary E blk))))))))))))"

definition allocate_buffer_nif :: "'w iree_api \<Rightarrow> ('t, 'w) enif_api \<Rightarrow> ('t, 'w) handler" where
  "allocate_buffer_nif api E argv =
     (if length argv \<noteq> 4 then ret_sm (nif_error E ''invalid number of arguments'') else
     bind_sm (nif_arg argv 0) (\<lambda>a0. bind_sm (nif_arg argv 1) (\<lambda>a1.
     bind_sm (nif_arg argv 2) (\<lambda>a2. bind_sm (nif_arg argv 3) (\<lambda>a3.
     case enif_inspect_binary E a0 of
       None \<Rightarrow> ret_sm (nif_error E ''unable to read input data'')
     | Some binary \<Rightarrow>
         bind_sm (get_res E K_device a1) (\<lambda>device.
         if device = None then ret_sm (nif_error E ''unable to read device'') else
         bind_sm (lift_sm (get_list E a2)) (\<lambda>dims.
         case dims of
           None \<Rightarrow> ret_sm (nif_error E ''unable to read dimensions'')
         | Some dims \<Rightarrow>
             if fst (get_string E a3) = 0 then ret_sm (nif_error E ''unable to read type'') else
             let type = nx_type_to_iree_type (snd (get_string E a3))
             in if type = element_type_code IREE_HAL_ELEMENT_TYPE_NONE
                then ret_sm (nif_error E ''invalid type'')
                else bind_sm (on_rt (bind_sm (IREETensor_of_data api binary
                       (of_nat (length binary)) dims type) new_tensor)) (\<lambda>input.
                     bind_sm (make E K_tensor (RvTensor input)) (\<lambda>r.
                     ret_sm (nif_ok_term E r))))))))))"

definition deallocate_buffer_nif :: "'w iree_api \<Rightarrow> ('t, 'w) enif_api \<Rightarrow> ('t, 'w) handler" where
  "deallocate_buffer_nif api E argv =
     (if length argv \<noteq> 1 then ret_sm (nif_error E ''invalid number of arguments'') else
     bind_sm (nif_arg argv 0) (\<lambda>a0.
     bind_sm (get_res E K_tensor a0) (\<lambda>input.
     case input of
       None \<Rightarrow> ret_sm (nif_error E ''invalid input'')
     | Some ip \<Rightarrow>
         bind_sm (deref_tensor ip) (\<lambda>p.
         bind_sm (on_rt (deallocate api p)) (\<lambda>_.
         ret_sm (nif_ok E))))))"

definition serialize_tensor_nif :: "'w iree_api \<Rightarrow> ('t, 'w) enif_api \<Rightarrow> ('t, 'w) handler" where
  "serialize_tensor_nif api E argv =
     (if length argv \<noteq> 1 then ret_sm (nif_error E ''invalid number of arguments'') else
     bind_sm (nif_arg argv 0) (\<lambda>a0.
     bind_sm (get_res E K_tensor a0) (\<lambda>input.
     case input of
       None \<Rightarrow> ret_sm (nif_error E ''invalid input'')
     | Some ip \<Rightarrow>
         bind_sm (deref_tensor ip) (\<lambda>p.
         bind_sm (on_rt (serialize api p)) (\<lambda>serialized.
         case serialized of
           None \<Rightarrow> fail_sm NullDeref
         | Some bytes \<Rightarrow>
             bind_sm (on_rt (api_call (enif_alloc_binary E (of_nat (length bytes))))) (\<lambda>binary.
             if binary = None then ret_sm (nif_error E ''unable to allocate binary'')
             else ret_sm (nif_ok_term E (enif_make_binary E bytes))))))))"

definition deserialize_tensor_nif :: "'w iree_api \<Rightarrow> ('t, 'w) enif_api \<Rightarrow> ('t, 'w) handler" where
  "deserialize_tensor_nif api E argv =
     (if length argv \<noteq> 1 then ret_sm (nif_error E ''invalid number of arguments'') else
     bind_sm (nif_arg argv 0) (\<lambda>a0.
     case enif_inspect_binary E a0 of
       None \<Rightarrow> ret_sm (nif_error E ''invalid input'')
     | Some input \<Rightarrow>
         bind_sm (on_rt (bind_sm (IREETensor_of_buffer api input) new_tensor)) (\<lambda>tensor.
         bind_sm (make E K_tensor (RvTensor tensor)) (\<lambda>r.
         ret_sm (nif_ok_term E r)))))"

definition output_term :: "('t, 'w) enif_api \<Rightarrow> tensor_ref \<Rightarrow> ('w nif, 't) sm" where
  "output_term E p =
     bind_sm (make E K_tensor (RvTensor p)) (\<lambda>tensor_term.
     bind_sm (on_rt (get_tensor p)) (\<lambda>t.
     let dims_term = enif_make_list_from_array E (map (\<lambda>d. enif_make_int64 E (sint d)) (t_dims t));
         type_term = enif_make_string E (c_str (iree_type_to_nx_type (t_type t)))
     in ret_sm (enif_make_tuple E [tensor_term, dims_term, type_term])))"

definition call_nif :: "'w iree_api \<Rightarrow> ('t, 'w) enif_api \<Rightarrow> ('t, 'w) handler" where
  "call_nif api E argv =
     bind_sm (nif_arg argv 0) (\<lambda>a0. bind_sm (nif_arg argv 1) (\<lambda>a1. bind_sm (nif_arg argv 2) (\<lambda>a2.
     bind_sm (nif_arg argv 3) (\<lambda>a3. bind_sm (nif_arg argv 4) (\<lambda>a4.
     bind_sm (get_res E K_instance a0) (\<lambda>instance.
     case instance of None \<Rightarrow> ret_sm (nif_error E ''invalid instance'') | Some ip \<Rightarrow>
     bind_sm (get_res E K_device a1) (\<lambda>device.
     case device of None \<Rightarrow> ret_sm (nif_error E ''invalid device'') | Some dp \<Rightarrow>
     if fst (get_string E a2) = 0 then ret_sm (nif_error E ''invalid device'') else
     case enif_inspect_binary E a3 of None \<Rightarrow> ret_sm (nif_error E ''invalid bytecode'') | Some bytecode \<Rightarrow>
     bind_sm (get_tensor_list E a4) (\<lambda>inputs.
     case inputs of None \<Rightarrow> ret_sm (nif_error E ''invalid inputs'') | Some inputs \<Rightarrow>
     bind_sm (deref_ptr ip) (\<lambda>inst.
     bind_sm (deref_ptr dp) (\<lambda>dev.
     bind_sm (on_rt (call api inst dev (snd (get_string E a2)) bytecode inputs))
       (\<lambda>(status, result_tensors).
     if \<not> is_ok status then status_error api E status
     else case result_tensors of
            None \<Rightarrow> fail_sm BadOptionalAccess
          | Some ps \<Rightarrow>
              bind_sm (mapM_sm (output_term E) ps) (\<lambda>output_terms.
              ret_sm (nif_ok_term E (enif_make_list_from_array E output_terms))))))))))))))"

definition funcs ::
  "'w iree_api \<Rightarrow> ('t, 'w) enif_api \<Rightarrow> (string \<times> nat \<times> ('t, 'w) handler) list" where
  "funcs api E =
     [(''create_instance'', 0, create_instance_nif api E),
      (''get_driver_registry'', 0, get_driver_registry_nif api E),
      (''create_device'', 2, create_device_nif api E),
      (''list_devices'', 1, list_devices_nif api E),
      (''list_devices'', 2, list_devices_nif api E),
      (''list_drivers'', 1, list_drivers_nif api E),
      (''deallocate_buffer'', 1, deallocate_buffer_nif api E),
      (''allocate_buffer'', 4, allocate_buffer_nif api E),
      (''serialize_tensor'', 1, serialize_tensor_nif api E),
      (''deserialize_tensor'', 1, deserialize_tensor_nif api E),
      (''read_buffer'', 3, read_buffer_nif api E),
      (''call_io'', 5, call_nif api E),
      (''call_cpu'', 5, call_nif api E)]"

section \<open>Running parts of the state\<close>

lemma bind_on_rt:
  "bind_sm (on_rt m) f s =
     (case m (ns_rt s) of Inl e \<Rightarrow> Inl e | Inr (x, r) \<Rightarrow> f x (s\<lparr>ns_rt := r\<rparr>))"
  by (auto simp: bind_sm_def on_rt_def split: sum.split)

lemma bind_on_rt_api [simp]:
  "bind_sm (on_rt (api_call g)) f s =
     f (fst (g (rt_world (ns_rt s))))
       (s\<lparr>ns_rt := (ns_rt s)\<lparr>rt_world := snd (g (rt_world (ns_rt s)))\<rparr>\<rparr>)"
  by (simp add: bind_on_rt)

lemma bind_nif_arg [simp]: "i < length argv \<Longrightarrow> bind_sm (nif_arg argv i) f s = f (argv ! i) s"
  by (simp add: nif_arg_def)

lemma bind_get_res [simp]:
  "bind_sm (get_res E k t) f s = f (enif_get_resource E t (ns_type s k)) s"
  by (simp add: get_res_def)

lemma bind_deref_ptr [simp]:
  "ns_mem s p = Some (RvPtr x) \<Longrightarrow> bind_sm (deref_ptr p) f s = f x s"
  by (simp add: deref_ptr_def)

lemma bind_deref_tensor [simp]:
  "ns_mem s p = Some (RvTensor x) \<Longrightarrow> bind_sm (deref_tensor p) f s = f x s"
  by (simp add: deref_tensor_def)

lemma make_effect:
  assumes "enif_alloc_resource E (ns_type s kind) 8 (rt_world (ns_rt s)) = (p, w)" and "p \<noteq> nullptr"
  shows "bind_sm (make E kind v) f s = f (enif_make_resource E p)
    (s\<lparr>ns_rt := (ns_rt s)\<lparr>rt_world := enif_release_resource E p w\<rparr>,
       ns_mem := (ns_mem s)(p := Some v)\<rparr>)"
  using assms by (cases s) (simp add: make_def Let_def)

section \<open>Loading\<close>

lemma open_resource_nonzero:
  "\<exists>r s'. open_resource E k m n s = Inr (r, s') \<and> r \<noteq> 0"
  by (auto simp: open_resource_def)

lemma open_resource_step:
  "\<exists>s1. \<forall>f. bind_sm (open_resource E k m n) (\<lambda>r. if r = 0 then ret_sm (-1) else f) s = f s1"
  using open_resource_nonzero [of E k m n s] by (auto simp: bind_sm_Inr)

lemma open_resources_1: "\<exists>s'. open_resources E s = Inr (1, s')"
proof -
  obtain s1 where s1: "\<forall>f. bind_sm (open_resource E K_instance ''NxIREE'' ''iree_vm_instance_t'')
      (\<lambda>r. if r = 0 then ret_sm (-1 :: int) else f) s = f s1"
    using open_resource_step by blast
  obtain s2 where s2: "\<forall>f. bind_sm (open_resource E K_device ''NxIREE'' ''iree_hal_device_t'')
      (\<lambda>r. if r = 0 then ret_sm (-1 :: int) else f) s1 = f s2"
    using open_resource_step by blast
  obtain s3 where s3: "\<forall>f. bind_sm (open_resource E K_registry ''NxIREE'' ''iree_hal_driver_registry_t'')
      (\<lambda>r. if r = 0 then ret_sm (-1 :: int) else f) s2 = f s3"
    using open_resource_step by blast
  obtain s4 where s4: "\<forall>f. bind_sm (open_resource E K_tensor ''NxIREE'' ''iree::runtime::IREETensor'')
      (\<lambda>r. if r = 0 then ret_sm (-1 :: int) else f) s3 = f s4"
    using open_resource_step by blast
  have "open_resources E s = ret_sm 1 s4"
    unfolding open_resources_def s1 [rule_format] s2 [rule_format] s3 [rule_format] s4 [rule_format] ..
  then show ?thesis by simp
qed

lemma nif_load_0: "\<exists>s'. nif_load E s = Inr (0, s')"
  using open_resources_1 [of E s] by (auto simp: nif_load_def bind_sm_Inr)

section \<open>Lists of arguments\<close>

text \<open>A term that is the list of the terms \<open>ts\<close>, as its cells show it.\<close>

fun is_list :: "('t, 'w) enif_api \<Rightarrow> 't \<Rightarrow> 't list \<Rightarrow> bool" where
  "is_list E l [] \<longleftrightarrow> enif_get_list_cell E l = None"
| "is_list E l (t # ts) \<longleftrightarrow> (\<exists>tl. enif_get_list_cell E l = Some (t, tl) \<and> is_list E tl ts)"

fun decode_all :: "('a \<Rightarrow> 'b option) \<Rightarrow> 'a list \<Rightarrow> 'b list option" where
  "decode_all f [] = Some []"
| "decode_all f (x # xs) =
     (case f x of None \<Rightarrow> None | Some y \<Rightarrow> map_option (\<lambda>ys. y # ys) (decode_all f xs))"

lemma get_list_loop_eq:
  "is_list E l ts \<Longrightarrow> get_list_loop E (Suc (length ts)) l acc =
     Inr (map_option (\<lambda>xs. acc @ xs) (decode_all (enif_get_int64 E) ts))"
proof (induction ts arbitrary: l acc)
  case (Cons t ts)
  then obtain tl where "enif_get_list_cell E l = Some (t, tl)" "is_list E tl ts" by auto
  then show ?case
    using Cons.IH [of tl]
    by (cases "decode_all (enif_get_int64 E) ts") (auto split: option.split)
qed simp

lemma get_list_eq:
  assumes "is_list E l ts" and "enif_get_list_length E l = Some (length ts)"
  shows "get_list E l = Inr (decode_all (enif_get_int64 E) ts)"
  using get_list_loop_eq [OF assms(1), of "[]"] assms(2)
  by (simp add: get_list_def option.map_ident)

section \<open>Allocating a buffer\<close>

lemma allocate_buffer_ok:
  assumes bin: "enif_inspect_binary E b = Some binary" "length binary < 2 ^ 64"
    and dev: "enif_get_resource E d (ns_type s K_device) = Some dp"
    and dims: "get_list E dl = Inr (Some dims)"
    and ty: "get_string E ty = (r, tyname)" "r \<noteq> 0" "tyname \<in> set nx_types"
    and mal: "api_malloc api (of_nat (length binary)) (rt_world (ns_rt s)) = (Some blk, w1)"
    and res: "enif_alloc_resource E (ns_type s K_tensor) 8 w1 = (p, w2)" "p \<noteq> nullptr"
  shows "allocate_buffer_nif api E [b, d, dl, ty] s =
    Inr (nif_ok_term E (enif_make_resource E p),
      s\<lparr>ns_rt := (ns_rt s)\<lparr>rt_world := enif_release_resource E p w2,
           rt_tensors := rt_tensors (ns_rt s) @
             [Some \<lparr>t_data = Some binary, t_size = of_nat (length binary),
                t_dims = map word_of_int dims, t_type = nx_type_to_iree_type tyname,
                t_buffer_view = nullptr, t_device = None\<rparr>]\<rparr>,
         ns_mem := (ns_mem s)(p := Some (RvTensor (length (rt_tensors (ns_rt s)))))\<rparr>)"
proof -
  have "nx_type_to_iree_type tyname \<noteq> element_type_code IREE_HAL_ELEMENT_TYPE_NONE"
    using ty(3) nx_type_to_iree_type_none_iff by blast
  moreover have "unat (of_nat (length binary) :: u64) = length binary"
    using bin(2) by (simp add: unat_of_nat)
  ultimately show ?thesis
    using assms
    by (simp add: allocate_buffer_nif_def IREETensor_of_data_def new_tensor_def bind_on_rt
        read_bytes_def make_effect nif_arg_def)
qed

lemma allocate_buffer_bad_type:
  assumes bin: "enif_inspect_binary E b = Some binary"
    and dev: "enif_get_resource E d (ns_type s K_device) = Some dp"
    and dims: "get_list E dl = Inr (Some dims)"
    and ty: "get_string E ty = (r, tyname)" "r \<noteq> 0" "tyname \<notin> set nx_types"
  shows "allocate_buffer_nif api E [b, d, dl, ty] s = Inr (nif_error E ''invalid type'', s)"
  using assms nx_type_to_iree_type_none_iff [of tyname]
  by (simp add: allocate_buffer_nif_def nif_arg_def)

section \<open>Reading and serializing buffers\<close>

text \<open>A term that denotes the tensor \<open>t\<close>: a tensor resource that points to it.\<close>

definition tensor_term :: "('t, 'w) enif_api \<Rightarrow> 'w nif \<Rightarrow> 't \<Rightarrow> iree_tensor \<Rightarrow> bool" where
  "tensor_term E s trm t \<longleftrightarrow>
     (\<exists>ip p. enif_get_resource E trm (ns_type s K_tensor) = Some ip \<and>
        ns_mem s ip = Some (RvTensor p) \<and> tensor_at (ns_rt s) p t)"

lemma read_buffer_host:
  assumes "enif_get_resource E d (ns_type s K_device) = Some dp"
    and "tensor_term E s trm t" and "t_buffer_view t = nullptr" and "t_data t = Some data"
    and "enif_get_int64 E nt = Some n"
    and "enif_alloc_binary E (if n = -1 then t_size t else word_of_int n) (rt_world (ns_rt s)) = (Some blk, w)"
  shows "read_buffer_nif api E [d, trm, nt] s =
    (let k = unat (if n = -1 then t_size t else word_of_int n)
     in if k \<le> length data
        then Inr (nif_ok_term E (enif_make_binary E (take k data)), s\<lparr>ns_rt := (ns_rt s)\<lparr>rt_world := w\<rparr>\<rparr>)
        else Inl OutOfBounds)"
  using assms
  by (auto simp: read_buffer_nif_def nif_arg_def tensor_term_def bind_on_rt get_tensor_at
      read_bytes_def Let_def)

lemma serialize_tensor_host:
  assumes "tensor_term E s trm t" and "t_data t = Some data" and "length data = unat (t_size t)"
    and "enif_alloc_binary E (of_nat (length (tensor_image (t_type t) (t_size t) data (t_dims t))))
      (rt_world (ns_rt s)) = (Some blk, w)"
  shows "serialize_tensor_nif api E [trm] s =
    Inr (nif_ok_term E (enif_make_binary E (tensor_image (t_type t) (t_size t) data (t_dims t))),
      s\<lparr>ns_rt := (ns_rt s)\<lparr>rt_world := w\<rparr>\<rparr>)"
  using assms
  by (auto simp: serialize_tensor_nif_def nif_arg_def tensor_term_def bind_on_rt
      serialize_with_data simp del: length_tensor_image)

text \<open>
  Resources as the virtual machine documents them: a fresh resource is found again through
  the term made for it, and allocation of a resource does not fail.
\<close>

definition resource_laws :: "('t, 'w) enif_api \<Rightarrow> bool" where
  "resource_laws E \<longleftrightarrow>
     (\<forall>ty p w w'. enif_alloc_resource E ty 8 w = (p, w') \<longrightarrow>
        p \<noteq> nullptr \<and> enif_get_resource E (enif_make_resource E p) ty = Some p)"

lemma deserialize_tensor_image:
  assumes laws: "resource_laws E"
    and bin: "enif_inspect_binary E b = Some (tensor_image ty sz data dims)"
    and len: "length data = unat sz" "8 * length dims < 2 ^ 63" "20 + unat sz < 2 ^ 64"
    and new: "new_ok api sz" "dims \<noteq> [] \<Longrightarrow> new_ok api (of_nat (length dims) * 8)"
  shows "\<exists>trm s'. deserialize_tensor_nif api E [b] s = Inr (nif_ok_term E trm, s') \<and>
    tensor_term E s' trm \<lparr>t_data = Some data, t_size = sz, t_dims = dims, t_type = ty,
      t_buffer_view = nullptr, t_device = None\<rparr>"
proof -
  let ?t = "\<lparr>t_data = Some data, t_size = sz, t_dims = dims, t_type = ty,
      t_buffer_view = nullptr, t_device = None\<rparr>"
  obtain w where d: "IREETensor_of_buffer api (tensor_image ty sz data dims) (ns_rt s) =
      Inr (?t, (ns_rt s)\<lparr>rt_world := w\<rparr>)"
    using deserialize_image [OF len new, of ty "[]" "ns_rt s"] by auto
  obtain p w' where p: "enif_alloc_resource E (ns_type s K_tensor) 8 w = (p, w')"
    by (cases "enif_alloc_resource E (ns_type s K_tensor) 8 w")
  then have p0: "p \<noteq> nullptr" and get: "enif_get_resource E (enif_make_resource E p) (ns_type s K_tensor) = Some p"
    using laws by (auto simp: resource_laws_def)
  show ?thesis
    using bin p p0 get
    by (simp add: deserialize_tensor_nif_def bind_on_rt bind_sm_Inr d new_tensor_def make_effect
        tensor_term_def tensor_at_def)
      (auto intro!: exI [of _ "enif_make_resource E p"] exI [of _ p])
qed

section \<open>Calling\<close>

text \<open>
  The handler unwraps the optional result whenever the status is ok, so a call that returns
  an ok status with no result ends in \<open>bad_optional_access\<close>.
\<close>

lemma call_nif_runs:
  assumes "enif_get_resource E a0 (ns_type s K_instance) = Some ip" "ns_mem s ip = Some (RvPtr inst)"
    and "enif_get_resource E a1 (ns_type s K_device) = Some dp" "ns_mem s dp = Some (RvPtr dev)"
    and "get_string E a2 = (r, dn)" "r \<noteq> 0"
    and "enif_inspect_binary E a3 = Some bytecode"
    and "get_tensor_list E a4 s = Inr (Some inputs, s)"
  shows "call_nif api E [a0, a1, a2, a3, a4] s =
    bind_sm (on_rt (call api inst dev dn bytecode inputs)) (\<lambda>(status, result_tensors).
     if \<not> is_ok status then status_error api E status
     else case result_tensors of
            None \<Rightarrow> fail_sm BadOptionalAccess
          | Some ps \<Rightarrow>
              bind_sm (mapM_sm (output_term E) ps) (\<lambda>output_terms.
              ret_sm (nif_ok_term E (enif_make_list_from_array E output_terms)))) s"
  using assms by (simp add: call_nif_def nif_arg_def bind_sm_Inr)

lemma call_second_evaluation:
  assumes "iree_hal_module_create api inst [dev] nullptr w = (st1, m1, w1)" "st1 \<noteq> 0"
    and "iree_hal_module_create api inst [dev] m1 w1 = (0, m2, w2)"
    and "rt_world s = w"
  shows "call api inst dev dn bytecode ps s = Inr ((iree_ok_status, None), s\<lparr>rt_world := w2\<rparr>)"
  using assms by (simp add: call_def RETURN_PAIR_IF_ERROR_def)

end
