(* ===== verification/Nx_Instance.thy ===== *)
theory Nx_Instance
  imports Nx_Nif
begin

text \<open>
  A concrete instance of the two parameters, to evaluate the model on: terms as a datatype,
  and a runtime with one driver and one device whose buffers hold zeros. The world is a
  counter: it numbers the addresses handed out, and an instance can make the outcome of a
  call depend on how many calls came before.
\<close>

datatype eterm =
    EAtom string
  | EInt int
  | EString string
  | ETuple "eterm list"
  | EList "eterm list"
  | EBinary "u8 list"
  | EResource ptr

fun e_length :: "eterm \<Rightarrow> nat option" where
  "e_length (EString s) = Some (length s)"
| "e_length (EList ts) = Some (length ts)"
| "e_length _ = None"

fun e_cell :: "eterm \<Rightarrow> (eterm \<times> eterm) option" where
  "e_cell (EString (c # s)) = Some (EInt (int (of_char c)), EString s)"
| "e_cell (EList (t # ts)) = Some (t, EList ts)"
| "e_cell _ = None"

fun e_string :: "eterm \<Rightarrow> nat \<Rightarrow> int \<times> string" where
  "e_string (EString s) n =
     (if length s < n then (int (length s) + 1, s @ replicate (n - length s) (CHR 0x00)) else (- int n, take n s))"
| "e_string _ n = (0, replicate n (CHR 0x00))"

definition sample_enif :: "(eterm, nat) enif_api" where
  "sample_enif =
     \<lparr>enif_make_atom = EAtom, enif_make_string = EString, enif_make_tuple = ETuple,
      enif_make_list_from_array = EList, enif_make_int64 = EInt,
      enif_make_uint64 = (\<lambda>v. EInt (uint v)), enif_make_binary = EBinary,
      enif_alloc_binary = (\<lambda>n w. (Some (replicate (unat n) 0), w)),
      enif_inspect_binary = (\<lambda>t. case t of EBinary b \<Rightarrow> Some b | _ \<Rightarrow> None),
      enif_get_int64 = (\<lambda>t. case t of EInt i \<Rightarrow> Some i | _ \<Rightarrow> None),
      enif_get_list_length = e_length, enif_get_list_cell = e_cell, enif_get_string = e_string,
      enif_open_resource_type = (\<lambda>m n w. (of_nat (length n), w)),
      enif_alloc_resource = (\<lambda>ty n w. (1 + push_bit 1 (of_nat w), Suc w)),
      enif_make_resource = EResource,
      enif_release_resource = (\<lambda>p w. w),
      enif_get_resource = (\<lambda>t ty. case t of EResource p \<Rightarrow> Some p | _ \<Rightarrow> None)\<rparr>"

definition sample_api :: "nat iree_api" where
  "sample_api =
     \<lparr>api_malloc = (\<lambda>n w. (Some (replicate (unat n) 0), w)),
      api_operator_new = (\<lambda>n w. (Some (replicate (unat n) 0), w)),
      iree_make_status = (\<lambda>c m w. (iree_status_code_value c, w)),
      iree_status_to_string = (\<lambda>st w. (Some ''status'', w)),
      iree_vm_instance_create = (\<lambda>out w. (0, 100, w)),
      iree_hal_module_register_all_types = (\<lambda>i w. (0, w)),
      iree_vm_instance_release = (\<lambda>p w. w),
      iree_hal_available_driver_registry = (\<lambda>w. 200),
      iree_hal_register_all_available_drivers = (\<lambda>r w. (0, w)),
      iree_hal_driver_registry_enumerate = (\<lambda>r w.
        (0, Some [\<lparr>di_driver_name = ''hip'', di_full_name = ''HIP''\<rparr>,
                  \<lparr>di_driver_name = ''local-sync'', di_full_name = ''Local''\<rparr>], w)),
      iree_hal_driver_registry_try_create = (\<lambda>r n w. (0, Some 300, w)),
      iree_hal_driver_query_available_devices = (\<lambda>d w. (0, Some [\<lparr>dev_path = ''0'', dev_id = 7\<rparr>], w)),
      iree_hal_driver_release = (\<lambda>p w. w),
      iree_hal_create_device = (\<lambda>r n out w. (0, Some 400, w)),
      iree_hal_device_release = (\<lambda>p w. w),
      iree_hal_device_id = (\<lambda>p w. ''local''),
      iree_hal_device_transfer_d2h = (\<lambda>d b off blk n w. (0, blk, w)),
      iree_hal_buffer_byte_length = (\<lambda>p w. 4),
      iree_hal_buffer_view_buffer = (\<lambda>p w. p + 1),
      iree_hal_buffer_view_byte_length = (\<lambda>p w. 4),
      iree_hal_buffer_view_shape_rank = (\<lambda>p w. 1),
      iree_hal_buffer_view_shape_dims = (\<lambda>p w. [1]),
      iree_hal_buffer_view_element_type = (\<lambda>p w. element_type_code IREE_HAL_ELEMENT_TYPE_FLOAT_32),
      iree_hal_buffer_view_release = (\<lambda>p w. w),
      iree_hal_buffer_view_allocate_buffer_copy = (\<lambda>d ds ty bs out w. (0, 500, w)),
      iree_hal_module_create = (\<lambda>i ds out w. (0, 600, w)),
      iree_vm_bytecode_module_create = (\<lambda>i bs out w. (0, 601, w)),
      iree_vm_context_create_with_modules = (\<lambda>i ms out w. (0, 602, w)),
      iree_vm_context_release = (\<lambda>p w. w),
      iree_vm_context_resolve_function = (\<lambda>c n out w. (0, Some 1, w)),
      iree_vm_list_create = (\<lambda>n out w. (0, 700 + of_nat w, Suc w)),
      iree_vm_list_push_ref_move = (\<lambda>l r w. (0, 0, w)),
      iree_vm_list_get_buffer_view_retain = (\<lambda>l i w. (800 + of_nat i, w)),
      iree_vm_list_release = (\<lambda>p w. w),
      iree_vm_function_call_get_cconv_fragments = (\<lambda>f out w. (0, Some (''r'', ''r''), w)),
      iree_vm_invoke = (\<lambda>c f i out w. (0, w))\<rparr>"

lemma sample_enif_sel [simp]:
  "enif_alloc_resource sample_enif = (\<lambda>ty n w. (1 + push_bit 1 (of_nat w), Suc w))"
  "enif_get_resource sample_enif = (\<lambda>t ty. case t of EResource p \<Rightarrow> Some p | _ \<Rightarrow> None)"
  "enif_make_resource sample_enif = EResource"
  by (simp_all add: sample_enif_def)

lemma sample_resource_laws: "resource_laws sample_enif"
proof -
  have "(1 + push_bit 1 (of_nat w) :: u64) \<noteq> 0" for w
  proof -
    have "odd (1 + push_bit 1 (of_nat w) :: u64)" by (simp add: push_bit_eq_mult)
    then show ?thesis by (metis even_zero)
  qed
  then show ?thesis by (auto simp: resource_laws_def)
qed

lemma sample_new_ok [simp]: "new_ok sample_api n"
  by (simp add: new_ok_def sample_api_def)

lemma sample_block_laws: "block_laws sample_api"
  by (simp add: block_laws_def sample_api_def)

end
