(* ===== verification/Nx_Swift.thy ===== *)
theory Nx_Swift
  imports Nx_Runtime
begin

text \<open>
  The C interface used by the Swift client,
  \<open>embedded_devices/live_nx_iree/native/swiftui/LiveNxIREE/c_src/nx_iree.cpp\<close>. The buffer for
  the error message and the output arrays are blocks of bytes; a byte that the code never
  writes is \<open>None\<close>.
\<close>

section \<open>Definitions\<close>

definition nx_iree_release_device :: "ptr \<Rightarrow> ('w rt, unit) sm" where
  "nx_iree_release_device device = ret_sm ()"

definition nx_iree_create_device :: "'w iree_api \<Rightarrow> string \<Rightarrow> ('w rt, ptr) sm" where
  "nx_iree_create_device api uri =
     bind_sm (get_driver_registry api) (\<lambda>driver_registry.
     bind_sm (register_all_drivers api driver_registry) (\<lambda>_.
     create_device api driver_registry (c_str uri)))"

definition nx_iree_create_instance :: "'w iree_api \<Rightarrow> ('w rt, ptr) sm" where
  "nx_iree_create_instance api = create_instance api"

text \<open>\<open>strncpy(dst, msg.c_str(), msg.length())\<close>: the characters, and no terminator.\<close>

definition strncpy_block :: "char option list \<Rightarrow> string \<Rightarrow> char option list res" where
  "strncpy_block dst str =
     (if length str \<le> length dst
      then Inr (map Some (c_str str @ replicate (length str - length (c_str str)) (CHR 0x00)) @
             drop (length str) dst)
      else Inl OutOfBounds)"

definition report_error ::
  "'w iree_api \<Rightarrow> iree_status_t \<Rightarrow> char option list \<Rightarrow> ('w rt, char option list) sm" where
  "report_error api status error_message =
     bind_sm (get_status_message api status) (\<lambda>msg. lift_sm (strncpy_block error_message msg))"

fun deserialize_inputs ::
  "'w iree_api \<Rightarrow> u8 list list \<Rightarrow> nat \<Rightarrow> nat \<Rightarrow> tensor_ref list \<Rightarrow> ('w rt, tensor_ref list) sm" where
  "deserialize_inputs api serialized_inputs 0 i inputs = ret_sm inputs"
| "deserialize_inputs api serialized_inputs (Suc n) i inputs =
     (if i < length serialized_inputs
      then bind_sm (IREETensor_of_buffer api (serialized_inputs ! i)) (\<lambda>t.
           bind_sm (new_tensor t) (\<lambda>p.
           deserialize_inputs api serialized_inputs n (i + 1) (inputs @ [p])))
      else fail_sm OutOfBounds)"

fun serialize_outputs ::
  "'w iree_api \<Rightarrow> tensor_ref list \<Rightarrow> nat \<Rightarrow> nat \<Rightarrow> u8 list list \<Rightarrow> ('w rt, u8 list list) sm" where
  "serialize_outputs api result 0 i outs = ret_sm outs"
| "serialize_outputs api result (Suc n) i outs =
     (if i < length result
      then bind_sm (serialize api (result ! i)) (\<lambda>serialized.
           case serialized of
             None \<Rightarrow> fail_sm NullDeref
           | Some bytes \<Rightarrow>
               bind_sm (delete_tensor api (result ! i)) (\<lambda>_.
               serialize_outputs api result n (i + 1) (outs @ [bytes])))
      else fail_sm OutOfBounds)"

text \<open>
  The result pairs the returned array (with the sizes written to \<open>output_byte_sizes\<close>, one per
  output) or \<open>None\<close> for \<open>nullptr\<close>, with the contents of the error buffer.
\<close>

definition nx_iree_call ::
  "'w iree_api \<Rightarrow> ptr \<Rightarrow> ptr \<Rightarrow> u8 list \<Rightarrow> nat \<Rightarrow> u8 list list \<Rightarrow> nat \<Rightarrow> char option list \<Rightarrow>
   ('w rt, (u8 list list \<times> u64 list) option \<times> char option list) sm" where
  "nx_iree_call api vm_instance device bytecode num_inputs serialized_inputs num_outputs error_message =
     bind_sm (deserialize_inputs api serialized_inputs num_inputs 0 []) (\<lambda>inputs.
     bind_sm (call api vm_instance device ''not_cuda'' bytecode inputs) (\<lambda>(status, optional_result).
     case optional_result of
       None \<Rightarrow>
         bind_sm (report_error api status error_message) (\<lambda>err. ret_sm (None, err))
     | Some result \<Rightarrow>
         if \<not> is_ok status
         then bind_sm (report_error api status error_message) (\<lambda>err. ret_sm (None, err))
         else bind_sm (serialize_outputs api result num_outputs 0 []) (\<lambda>outs.
              ret_sm (Some (outs, map (\<lambda>b. of_nat (length b)) outs), error_message))))"

definition image_size :: "u64 list \<Rightarrow> u64 res" where
  "image_size input_dims =
     (if 3 \<le> length input_dims
      then Inr (1 * input_dims ! 0 * input_dims ! 1 * input_dims ! 2) else Inl OutOfBounds)"

definition free_input :: "'w iree_api \<Rightarrow> tensor_ref \<Rightarrow> ('w rt, unit) sm" where
  "free_input api p =
     bind_sm (get_tensor p) (\<lambda>t.
     bind_sm (modify_sm (log_event DataFreed)) (\<lambda>_.
     modify_sm (\<lambda>s. s\<lparr>rt_tensors := (rt_tensors s)[p := None]\<rparr>)))"

text \<open>
  \<open>nx_iree_image_call\<close>: the image, the seed and the noise amount as tensors, the call, and the
  first result read back into a new block. The noise tensor is built with a size of 8 bytes
  from the address of a 4-byte \<open>float\<close>.
\<close>

definition nx_iree_image_call ::
  "'w iree_api \<Rightarrow> ptr \<Rightarrow> ptr \<Rightarrow> u8 list \<Rightarrow> u64 list \<Rightarrow> u8 list option \<Rightarrow> char option list \<Rightarrow> u32 \<Rightarrow> u32 \<Rightarrow>
   ('w rt, u8 list option \<times> char option list) sm" where
  "nx_iree_image_call api vm_instance device bytecode input_dims input_data error_message seed noise_amount =
     (case input_data of
        None \<Rightarrow> ret_sm (None, error_message)
      | Some input_data \<Rightarrow>
     bind_sm (lift_sm (image_size input_dims)) (\<lambda>input_size.
     bind_sm (IREETensor_of_data api input_data input_size (map uint (take 3 input_dims))
       (element_type_code IREE_HAL_ELEMENT_TYPE_UINT_8)) (\<lambda>t0.
     bind_sm (new_tensor t0) (\<lambda>p0.
     bind_sm (IREETensor_of_data api (le_bytes 4 seed) 4 []
       (element_type_code IREE_HAL_ELEMENT_TYPE_UINT_32)) (\<lambda>t1.
     bind_sm (new_tensor t1) (\<lambda>p1.
     bind_sm (IREETensor_of_data api (le_bytes 4 noise_amount) 8 []
       (element_type_code IREE_HAL_ELEMENT_TYPE_FLOAT_32)) (\<lambda>t2.
     bind_sm (new_tensor t2) (\<lambda>p2.
     bind_sm (call api vm_instance device ''not_cuda'' bytecode [p0, p1, p2]) (\<lambda>(status, optional_result).
     bind_sm (mapM_sm (free_input api) [p0, p1, p2]) (\<lambda>_.
     case optional_result of
       None \<Rightarrow> bind_sm (report_error api status error_message) (\<lambda>err. ret_sm (None, err))
     | Some result \<Rightarrow>
         if \<not> is_ok status
         then bind_sm (report_error api status error_message) (\<lambda>err. ret_sm (None, err))
         else (case result of
                 [] \<Rightarrow> fail_sm OutOfBounds
               | p # _ \<Rightarrow>
                   bind_sm (get_tensor p) (\<lambda>tensor.
                   bind_sm (api_call (api_operator_new api (t_size tensor))) (\<lambda>block.
                   case block of
                     None \<Rightarrow> fail_sm BadAlloc
                   | Some output \<Rightarrow>
                       bind_sm (read_buffer api device (t_buffer_view tensor) output input_size)
                         (\<lambda>(status, output).
                       if \<not> iree_status_is_ok status
                       then bind_sm (report_error api status error_message) (\<lambda>err. ret_sm (None, err))
                       else bind_sm (modify_sm (\<lambda>s. s\<lparr>rt_tensors := (rt_tensors s)[p := None]\<rparr>)) (\<lambda>_.
                            bind_sm (get_status_message api status) (\<lambda>_.
                            ret_sm (Some output, error_message)))))))))))))))))"

text \<open>
  \<open>new char[length + 1]\<close> followed by \<open>strncpy\<close> of \<open>length\<close> characters. On failure the
  assignment \<open>count = 0\<close> changes the local pointer; the caller's count keeps its value.
\<close>

fun uri_blocks :: "device_ref list \<Rightarrow> char option list list \<Rightarrow> ('w rt, char option list list) sm" where
  "uri_blocks [] out = ret_sm out"
| "uri_blocks (d # ds) out =
     bind_sm (get_device d) (\<lambda>device.
     bind_sm (lift_sm (strncpy_block (replicate (length (d_uri device) + 1) None) (d_uri device))) (\<lambda>b.
     uri_blocks ds (out @ [b])))"

definition nx_iree_list_all_devices ::
  "'w iree_api \<Rightarrow> u64 \<Rightarrow> ('w rt, char option list list option \<times> u64) sm" where
  "nx_iree_list_all_devices api count =
     bind_sm (get_driver_registry api) (\<lambda>registry.
     bind_sm (list_devices api registry []) (\<lambda>(status, devices).
     if \<not> iree_status_is_ok status then ret_sm (None, count)
     else let count = of_nat (length devices) :: u64
          in bind_sm (api_call (api_malloc api (8 * count))) (\<lambda>output.
             if output = None \<and> devices \<noteq> [] then fail_sm NullDeref
             else bind_sm (uri_blocks devices []) (\<lambda>out. ret_sm (Some out, count)))))"

section \<open>Errors and outputs\<close>

lemma strncpy_block_unterminated:
  assumes "CHR 0x00 \<notin> set str"
  shows "strncpy_block (replicate (length str + 1) None) str = Inr (map Some str @ [None])"
  using assms replicate_Suc [of 0 None]
  by (simp add: strncpy_block_def drop_replicate del: replicate_Suc)

lemma uri_blocks_eq:
  assumes "list_all2 (\<lambda>p d. p < length (rt_devices s) \<and> rt_devices s ! p = Some d) ds objs"
    and "\<forall>d \<in> set objs. CHR 0x00 \<notin> set (d_uri d)"
  shows "uri_blocks ds out s = Inr (out @ map (\<lambda>d. map Some (d_uri d) @ [None]) objs, s)"
  using assms
proof (induction ds objs arbitrary: out rule: list_all2_induct)
  case Nil
  then show ?case by simp
next
  case (Cons p ps d ds)
  then have "get_device p s = Inr (d, s)" by (simp add: get_device_def)
  then show ?case
    using Cons strncpy_block_unterminated [of "d_uri d"] by (simp add: bind_sm_Inr)
qed

lemma image_call_noise_out_of_bounds:
  assumes "image_size input_dims = Inr n" and "unat n \<le> length img"
    and "\<And>n w. fst (api_malloc api n w) \<noteq> None"
  shows "nx_iree_image_call api inst dev bytecode input_dims (Some img) err seed noise s = Inl OutOfBounds"
proof -
  have of_data: "\<exists>t w. IREETensor_of_data api bs sz ds ty s = Inr (t, s\<lparr>rt_world := w\<rparr>)"
    if "unat sz \<le> length bs" for bs sz ds ty s
    using that assms(3) [of sz "rt_world s"]
    by (auto simp: IREETensor_of_data_def read_bytes_def)
  have noise: "IREETensor_of_data api (le_bytes 4 noise) 8 [] ty s = Inl OutOfBounds" for ty s
    using assms(3) [of 8 "rt_world s"] by (auto simp: IREETensor_of_data_def read_bytes_def)
  obtain t0 w0 where t0: "IREETensor_of_data api img n (map uint (take 3 input_dims))
      (element_type_code IREE_HAL_ELEMENT_TYPE_UINT_8) s = Inr (t0, s\<lparr>rt_world := w0\<rparr>)"
    using of_data [OF assms(2)] by blast
  let ?s1 = "s\<lparr>rt_world := w0, rt_tensors := rt_tensors s @ [Some t0]\<rparr>"
  obtain t1 w1 where t1: "IREETensor_of_data api (le_bytes 4 seed) 4 []
      (element_type_code IREE_HAL_ELEMENT_TYPE_UINT_32) ?s1 = Inr (t1, ?s1\<lparr>rt_world := w1\<rparr>)"
    using of_data [of 4 "le_bytes 4 seed" "[]" "element_type_code IREE_HAL_ELEMENT_TYPE_UINT_32" ?s1]
    by auto
  show ?thesis
    using assms(1) t0 t1
    by (simp add: nx_iree_image_call_def new_tensor_def bind_sm_def noise)
qed

lemma length_serialize_outputs:
  "serialize_outputs api result n i outs s = Inr (outs', s') \<Longrightarrow>
     i + n \<le> length result \<or> n = 0"
  "serialize_outputs api result n i outs s = Inr (outs', s') \<Longrightarrow> length outs' = length outs + n"
  by (induction n arbitrary: i outs s)
    (auto simp: bind_sm_eq_Inr split: if_splits option.splits, fastforce+)

lemma nx_iree_call_outputs:
  assumes "nx_iree_call api inst dev bytecode ni sers no err s = Inr ((Some (outs, sizes), err'), s')"
  shows "length outs = no \<and> sizes = map (\<lambda>b. of_nat (length b)) outs \<and> err' = err"
  using assms
  by (auto simp: nx_iree_call_def bind_sm_eq_Inr dest!: length_serialize_outputs(2)
      split: option.splits if_splits)

end
