(* ===== verification/Nx_Emscripten.thy ===== *)
theory Nx_Emscripten
  imports Nx_Runtime
begin

text \<open>
  The WebAssembly interface, \<open>cmake/src/emscripten_api.cc\<close> and \<open>emscripten_api.h\<close>: tensors
  built from JavaScript arrays, data buffers, the creation of a local device with its loaders,
  and the wrappers around \<open>call\<close> and \<open>read_buffer\<close>. A shared pointer is the object it points to.
  A JavaScript typed array is what the code reads of it: its byte length, and the bytes of the
  vector that the conversion to each element type yields.
\<close>

section \<open>Definitions\<close>

record js_array =
  js_byteLength :: u64
  js_convert :: "iree_hal_element_type_t \<Rightarrow> u8 list"

record 'w sync_api =
  iree_hal_executable_plugin_manager_create :: "ptr \<Rightarrow> 'w \<Rightarrow> iree_status_t \<times> ptr \<times> 'w"
  iree_hal_system_library_loader_create :: "ptr \<Rightarrow> ptr \<Rightarrow> 'w \<Rightarrow> iree_status_t \<times> ptr \<times> 'w"
  iree_hal_vmvx_module_loader_create_isolated :: "ptr \<Rightarrow> 'w \<Rightarrow> iree_status_t \<times> ptr \<times> 'w"
  iree_hal_allocator_create_heap :: "string \<Rightarrow> ptr \<Rightarrow> 'w \<Rightarrow> iree_status_t \<times> ptr \<times> 'w"
  iree_hal_sync_device_create ::
    "string \<Rightarrow> ptr list \<Rightarrow> ptr \<Rightarrow> ptr option \<Rightarrow> 'w \<Rightarrow> iree_status_t \<times> ptr option \<times> 'w"
  iree_hal_allocator_release :: "ptr \<Rightarrow> 'w \<Rightarrow> 'w"
  iree_hal_executable_loader_release :: "ptr \<Rightarrow> 'w \<Rightarrow> 'w"

definition js_element_types :: "iree_hal_element_type_t list" where
  "js_element_types = map element_type_code
     [IREE_HAL_ELEMENT_TYPE_INT_8, IREE_HAL_ELEMENT_TYPE_UINT_8, IREE_HAL_ELEMENT_TYPE_INT_16,
      IREE_HAL_ELEMENT_TYPE_UINT_16, IREE_HAL_ELEMENT_TYPE_INT_32, IREE_HAL_ELEMENT_TYPE_UINT_32,
      IREE_HAL_ELEMENT_TYPE_INT_64, IREE_HAL_ELEMENT_TYPE_UINT_64, IREE_HAL_ELEMENT_TYPE_FLOAT_32,
      IREE_HAL_ELEMENT_TYPE_FLOAT_64]"

definition IREETensor_of_js ::
  "'w iree_api \<Rightarrow> js_array \<Rightarrow> int list \<Rightarrow> string \<Rightarrow> device_ref \<Rightarrow> ('w rt, iree_tensor) sm" where
  "IREETensor_of_js api input_data in_dims type_string device =
     bind_sm (api_call (api_malloc api (js_byteLength input_data))) (\<lambda>block.
     if block = None then fail_sm (Thrown ''Failed to allocate memory for tensor data'')
     else let type = nx_type_to_iree_type type_string
     in if type = element_type_code IREE_HAL_ELEMENT_TYPE_NONE
        then fail_sm (Thrown (''Invalid type string: '' @ type_string))
        else if type \<in> set js_element_types
        then bind_sm (lift_sm (read_bytes (js_convert input_data type) 0
               (unat (js_byteLength input_data)))) (\<lambda>bytes.
             bind_sm (Nx_Runtime.get_device device) (\<lambda>dev.
             case d_ref dev of
               None \<Rightarrow> fail_sm UninitRead
             | Some ref \<Rightarrow>
                 ret_sm \<lparr>t_data = Some bytes, t_size = js_byteLength input_data,
                   t_dims = map word_of_int in_dims, t_type = type, t_buffer_view = nullptr,
                   t_device = Some ref\<rparr>))
        else fail_sm (Thrown ''Unsupported element type''))"

definition serialize_iree_tensor :: "'w iree_api \<Rightarrow> tensor_ref \<Rightarrow> ('w rt, u8 list) sm" where
  "serialize_iree_tensor api p =
     bind_sm (serialize api p) (\<lambda>serialized.
     case serialized of None \<Rightarrow> fail_sm NullDeref | Some bytes \<Rightarrow> ret_sm bytes)"

record nx_iree_data_buffer_t =
  db_data :: "u8 list"
  db_size :: u64

definition data_buffer_of_size :: "'w iree_api \<Rightarrow> u64 \<Rightarrow> ('w rt, nx_iree_data_buffer_t) sm" where
  "data_buffer_of_size api n =
     bind_sm (api_call (api_malloc api n)) (\<lambda>block.
     case block of
       None \<Rightarrow> fail_sm (Thrown ''Failed to allocate memory.'')
     | Some data \<Rightarrow> ret_sm \<lparr>db_data = data, db_size = n\<rparr>)"

text \<open>\<open>HEAPU8.set(array, data)\<close> copies the bytes of the JavaScript array into the block.\<close>

definition data_buffer_of_array ::
  "'w iree_api \<Rightarrow> u8 list \<Rightarrow> ('w rt, nx_iree_data_buffer_t) sm" where
  "data_buffer_of_array api array =
     bind_sm (api_call (api_malloc api (of_nat (length array)))) (\<lambda>block.
     case block of
       None \<Rightarrow> fail_sm (Thrown ''Failed to allocate memory.'')
     | Some data \<Rightarrow>
         bind_sm (lift_sm (write_bytes data 0 array)) (\<lambda>data.
         ret_sm \<lparr>db_data = data, db_size = of_nat (length array)\<rparr>))"

definition data_buffer_get_data :: "nx_iree_data_buffer_t \<Rightarrow> u8 list res" where
  "data_buffer_get_data b = read_bytes (db_data b) 0 (unat (db_size b))"

text \<open>A step of the device creation: it runs only while the status is ok.\<close>

definition if_ok ::
  "iree_status_t \<Rightarrow> 'l \<Rightarrow> ('l \<Rightarrow> ('s, iree_status_t \<times> 'l) sm) \<Rightarrow> ('s, iree_status_t \<times> 'l) sm" where
  "if_ok status l m = (if iree_status_is_ok status then m l else ret_sm (status, l))"

fun release_loaders :: "'w sync_api \<Rightarrow> ptr list \<Rightarrow> ('w rt, unit) sm" where
  "release_loaders S [] = ret_sm ()"
| "release_loaders S (l # ls) =
     bind_sm (api_do (iree_hal_executable_loader_release S l) (LoaderReleased l)) (\<lambda>_.
     release_loaders S ls)"

definition create_device_with_loaders ::
  "'w sync_api \<Rightarrow> ptr option \<Rightarrow> ('w rt, iree_status_t \<times> ptr option) sm" where
  "create_device_with_loaders S out_device =
     bind_sm (if_ok iree_ok_status nullptr (\<lambda>m. api_call2 (iree_hal_executable_plugin_manager_create S m)))
       (\<lambda>(status, plugin_manager).
     bind_sm (if_ok status [] (\<lambda>ls.
         bind_sm (api_call2 (iree_hal_system_library_loader_create S plugin_manager nullptr))
           (\<lambda>(st, l). ret_sm (st, ls @ [l])))) (\<lambda>(status, loaders).
     bind_sm (if_ok status loaders (\<lambda>ls.
         bind_sm (api_call2 (iree_hal_vmvx_module_loader_create_isolated S nullptr))
           (\<lambda>(st, l). ret_sm (st, ls @ [l])))) (\<lambda>(status, loaders).
     bind_sm (if_ok status nullptr (\<lambda>a. api_call2 (iree_hal_allocator_create_heap S ''local-sync'' a)))
       (\<lambda>(status, device_allocator).
     bind_sm (if_ok status out_device (\<lambda>d.
         api_call2 (iree_hal_sync_device_create S ''local-sync'' loaders device_allocator d)))
       (\<lambda>(status, out_device).
     bind_sm (api_do (iree_hal_allocator_release S device_allocator) (AllocatorReleased device_allocator)) (\<lambda>_.
     bind_sm (release_loaders S loaders) (\<lambda>_.
     ret_sm (status, out_device))))))))"

definition nx_iree_create_local_sync_device ::
  "'w iree_api \<Rightarrow> 'w sync_api \<Rightarrow> ('w rt, device_ref option) sm" where
  "nx_iree_create_local_sync_device api S =
     bind_sm (create_device_with_loaders S None) (\<lambda>(status, raw_device).
     if \<not> iree_status_is_ok status
     then bind_sm (get_status_message api status) (\<lambda>msg. ret_sm None)
     else case raw_device of
            None \<Rightarrow> fail_sm UninitRead
          | Some raw \<Rightarrow>
              if raw = nullptr then ret_sm None
              else bind_sm (api_get (iree_hal_device_id api raw)) (\<lambda>device_id.
                   bind_sm (new_device \<lparr>d_uri = ''local-sync://'' @ device_id, d_ref = Some raw,
                     d_driver_name = ''local-sync'', d_id = None\<rparr>) (\<lambda>device.
                   ret_sm (Some device))))"

text \<open>
  Reading the outputs back: the size of the underlying buffer, a new block, and the transfer,
  whose status is dropped.
\<close>

fun read_outputs :: "'w iree_api \<Rightarrow> ptr \<Rightarrow> tensor_ref list \<Rightarrow> ('w rt, unit) sm" where
  "read_outputs api device [] = ret_sm ()"
| "read_outputs api device (p # ps) =
     bind_sm (get_tensor p) (\<lambda>entry.
     bind_sm (api_get (iree_hal_buffer_view_buffer api (t_buffer_view entry))) (\<lambda>buffer.
     bind_sm (api_get (iree_hal_buffer_byte_length api buffer)) (\<lambda>sz.
     bind_sm (api_call (api_malloc api sz)) (\<lambda>block.
     case block of
       None \<Rightarrow> fail_sm NullDeref
     | Some data \<Rightarrow>
         bind_sm (read_buffer api device (t_buffer_view entry) data sz) (\<lambda>(status, data).
         bind_sm (put_tensor p (entry\<lparr>t_size := sz, t_data := Some data\<rparr>)) (\<lambda>_.
         read_outputs api device ps))))))"

definition nx_iree_call_wrapped ::
  "'w iree_api \<Rightarrow> ptr \<Rightarrow> device_ref \<Rightarrow> nx_iree_data_buffer_t \<Rightarrow> tensor_ref list \<Rightarrow>
   ('w rt, iree_status_t \<times> tensor_ref list) sm" where
  "nx_iree_call_wrapped api instance device bytecode inputs =
     bind_sm (Nx_Runtime.get_device device) (\<lambda>dev.
     case d_ref dev of
       None \<Rightarrow> fail_sm UninitRead
     | Some ref \<Rightarrow>
         bind_sm (lift_sm (data_buffer_get_data bytecode)) (\<lambda>bytes.
         bind_sm (call api instance ref (d_driver_name dev) bytes inputs) (\<lambda>(status, opt_outputs).
         case opt_outputs of
           None \<Rightarrow> ret_sm (status, [])
         | Some outputs \<Rightarrow>
             bind_sm (read_outputs api ref outputs) (\<lambda>_. ret_sm (status, outputs)))))"

definition nx_iree_read_buffer ::
  "'w iree_api \<Rightarrow> device_ref \<Rightarrow> tensor_ref \<Rightarrow> u64 \<Rightarrow>
   ('w rt, iree_status_t \<times> nx_iree_data_buffer_t option) sm" where
  "nx_iree_read_buffer api device tensor num_bytes =
     bind_sm (data_buffer_of_size api num_bytes) (\<lambda>data_buffer.
     bind_sm (Nx_Runtime.get_device device) (\<lambda>dev.
     case d_ref dev of
       None \<Rightarrow> fail_sm UninitRead
     | Some ref \<Rightarrow>
         bind_sm (get_tensor tensor) (\<lambda>t.
         bind_sm (read_buffer api ref (t_buffer_view t) (db_data data_buffer) num_bytes)
           (\<lambda>(status, data).
         if \<not> is_ok status then ret_sm (status, None)
         else ret_sm (status, Some (data_buffer\<lparr>db_data := data\<rparr>))))))"

datatype js_view = JsView string u64 "u8 list"

text \<open>
  The typed array for each element type: its constructor and the width of its elements.
\<close>

definition js_view_of :: "iree_tensor \<Rightarrow> u8 list \<Rightarrow> js_view res" where
  "js_view_of t data =
     (let view = (\<lambda>name width. bind_res (read_bytes data 0 (unat (t_size t div width * width)))
            (\<lambda>bytes. Inr (JsView name (t_size t div width) bytes)))
      in if t_type t = element_type_code IREE_HAL_ELEMENT_TYPE_INT_8 then view ''Int8Array'' 1
      else if t_type t = element_type_code IREE_HAL_ELEMENT_TYPE_UINT_8 then view ''Uint8Array'' 1
      else if t_type t = element_type_code IREE_HAL_ELEMENT_TYPE_INT_16 then view ''Int16Array'' 2
      else if t_type t = element_type_code IREE_HAL_ELEMENT_TYPE_UINT_16 then view ''Uint16Array'' 2
      else if t_type t = element_type_code IREE_HAL_ELEMENT_TYPE_INT_32 then view ''Int32Array'' 4
      else if t_type t = element_type_code IREE_HAL_ELEMENT_TYPE_UINT_32 then view ''Uint32Array'' 4
      else if t_type t = element_type_code IREE_HAL_ELEMENT_TYPE_INT_64 then view ''BigInt64Array'' 8
      else if t_type t = element_type_code IREE_HAL_ELEMENT_TYPE_UINT_64 then view ''BigUint64Array'' 8
      else if t_type t = element_type_code IREE_HAL_ELEMENT_TYPE_FLOAT_32 then view ''Float32Array'' 4
      else if t_type t = element_type_code IREE_HAL_ELEMENT_TYPE_FLOAT_64 then view ''Float64Array'' 8
      else Inl (Thrown ''Unsupported element type''))"

text \<open>
  When the tensor has no data on the host, the read is given \<open>tensor->data\<close>, which is null, as
  its target: a transfer of any byte writes through a null pointer.
\<close>

definition iree_tensor_to_flat_js_array ::
  "'w iree_api \<Rightarrow> tensor_ref \<Rightarrow> ('w rt, js_view) sm" where
  "iree_tensor_to_flat_js_array api p =
     bind_sm (get_tensor p) (\<lambda>t.
     case t_data t of
       Some data \<Rightarrow> lift_sm (js_view_of t data)
     | None \<Rightarrow>
         (case t_device t of
            None \<Rightarrow> fail_sm UninitRead
          | Some device \<Rightarrow>
              if device = nullptr then fail_sm (Thrown ''Tensor does not have a device.'')
              else if t_buffer_view t = nullptr
              then fail_sm (Thrown ''Tensor does not have a buffer_view.'')
              else if t_size t \<noteq> 0 then fail_sm NullDeref
              else bind_sm (read_buffer api device (t_buffer_view t) [] 0) (\<lambda>(status, _).
                   if \<not> iree_status_is_ok status
                   then bind_sm (get_status_message api status) (\<lambda>msg.
                        fail_sm (Thrown (''Failed to read buffer: '' @ msg)))
                   else lift_sm (js_view_of t []))))"

section \<open>JavaScript arrays\<close>

definition js_width :: "iree_hal_element_type_t \<Rightarrow> u64" where
  "js_width ty = iree_hal_element_dense_byte_count ty"

lemma js_view_of_ok:
  assumes "t_type t \<in> set js_element_types"
    and "unat (t_size t div js_width (t_type t) * js_width (t_type t)) \<le> length data"
  shows "\<exists>name. js_view_of t data =
    Inr (JsView name (t_size t div js_width (t_type t))
      (take (unat (t_size t div js_width (t_type t) * js_width (t_type t))) data))"
proof -
  have w: "js_width (element_type_code ty) = (ucast (snd (element_type_attrs ty)) + 8 - 1) div 8" for ty
    by (simp add: js_width_def iree_hal_element_dense_byte_count_def element_type_code_unpack)
  show ?thesis
    using assms unfolding js_element_types_def
    by (auto simp: js_view_of_def Let_def read_bytes_def w)
qed

lemma iree_tensor_to_flat_js_array_host:
  assumes "tensor_at s p t" and "t_data t = Some data"
  shows "iree_tensor_to_flat_js_array api p s = lift_sm (js_view_of t data) s"
  using assms by (simp add: iree_tensor_to_flat_js_array_def bind_get_tensor)

lemma iree_tensor_to_flat_js_array_device:
  assumes "tensor_at s p t" and "t_data t = None" and "t_size t \<noteq> 0"
  shows "\<exists>e. iree_tensor_to_flat_js_array api p s = Inl e"
  using assms
  by (auto simp: iree_tensor_to_flat_js_array_def bind_get_tensor split: option.split)

lemma IREETensor_of_js_ok:
  assumes "nx_type_to_iree_type ty \<in> set js_element_types"
    and "length (js_convert a (nx_type_to_iree_type ty)) = unat (js_byteLength a)"
    and "api_malloc api (js_byteLength a) (rt_world s) = (Some blk, w)"
    and "dev < length (rt_devices s)" "rt_devices s ! dev = Some d" "d_ref d = Some ref"
  shows "IREETensor_of_js api a dims ty dev s =
    Inr (\<lparr>t_data = Some (js_convert a (nx_type_to_iree_type ty)), t_size = js_byteLength a,
      t_dims = map word_of_int dims, t_type = nx_type_to_iree_type ty, t_buffer_view = nullptr,
      t_device = Some ref\<rparr>, s\<lparr>rt_world := w\<rparr>)"
proof -
  have "nx_type_to_iree_type ty \<noteq> element_type_code IREE_HAL_ELEMENT_TYPE_NONE"
    using assms(1) by (auto simp: js_element_types_def)
  then show ?thesis
    using assms by (simp add: IREETensor_of_js_def Let_def read_bytes_def get_device_def bind_sm_def)
qed

section \<open>Creation of the local device\<close>

lemma bind_release_loaders:
  "\<exists>w. bind_sm (release_loaders S ls) k s =
     k () (s\<lparr>rt_world := w, rt_log := rt_log s @ map LoaderReleased ls\<rparr>)"
proof (induction ls arbitrary: s)
  case Nil
  show ?case by (rule exI [of _ "rt_world s"]) (simp add: bind_sm_def)
next
  case (Cons l ls)
  let ?s1 = "log_event (LoaderReleased l) (s\<lparr>rt_world := iree_hal_executable_loader_release S l (rt_world s)\<rparr>)"
  obtain w where "bind_sm (release_loaders S ls) k ?s1 =
      k () (?s1\<lparr>rt_world := w, rt_log := rt_log ?s1 @ map LoaderReleased ls\<rparr>)"
    using Cons.IH by blast
  then show ?case by (auto simp: log_event_def bind_sm_def)
qed

text \<open>
  Whatever step fails, the loaders created so far and the allocator variable are released
  once each, and nothing else; the plugin manager is never released.
\<close>

lemma create_device_with_loaders_releases:
  assumes "create_device_with_loaders S out s = Inr ((status, dev), s')"
  shows "\<exists>a ls w. length ls \<le> 2 \<and>
    s' = s\<lparr>rt_world := w, rt_log := rt_log s @ AllocatorReleased a # map LoaderReleased ls\<rparr>"
proof -
  have fin: "\<exists>w. s' = s\<lparr>rt_world := w, rt_log := rt_log s @ AllocatorReleased a # map LoaderReleased ls\<rparr>"
    if "bind_sm (release_loaders S ls) (\<lambda>_. ret_sm (status2, d))
      (log_event (AllocatorReleased a) (s\<lparr>rt_world := w0\<rparr>)) = Inr ((status, dev), s')"
    for ls status2 d a w0
    using that bind_release_loaders [of S ls "\<lambda>_. ret_sm (status2, d)"
        "log_event (AllocatorReleased a) (s\<lparr>rt_world := w0\<rparr>)"]
    by (auto simp: log_event_def)
  show ?thesis
    using assms
    by (auto simp: create_device_with_loaders_def if_ok_def simp del: release_loaders.simps
        split: if_splits dest!: fin intro!: exI)
qed

section \<open>Reading a buffer\<close>

text \<open>
  A tensor that holds its bytes on the host has no view: \<open>readBuffer\<close> reports success and
  returns the block as the allocator gave it.
\<close>

lemma nx_iree_read_buffer_host:
  assumes "tensor_at s p t" and "t_buffer_view t = nullptr"
    and "api_malloc api n (rt_world s) = (Some blk, w)"
    and "dev < length (rt_devices s)" "rt_devices s ! dev = Some d" "d_ref d = Some ref"
    and "iree_make_status api IREE_STATUS_OK [] w = (iree_ok_status, w')"
  shows "nx_iree_read_buffer api dev p n s =
    Inr ((iree_ok_status, Some \<lparr>db_data = blk, db_size = n\<rparr>), s\<lparr>rt_world := w'\<rparr>)"
  using assms
  by (simp add: nx_iree_read_buffer_def data_buffer_of_size_def get_device_def bind_sm_def
      get_tensor_def tensor_at_def read_buffer_def is_ok_def)

end
