(* ===== verification/Nx_Handles.thy ===== *)
theory Nx_Handles
  imports Nx_Emscripten
begin

text \<open>
  The objects the WebAssembly interface hands to JavaScript: \<open>emscripten_api.cc\<close> and
  \<open>emscripten_api.h\<close> wrap instances, statuses, devices, tensors and data buffers in \<open>std::shared_ptr\<close>,
  whose last copy runs the destructor. A handle is the number of a control block, which holds the
  object and the number of shared pointers to it; it is \<open>None\<close> once the object is destroyed. The
  functions below are those the bindings export, on handles, around the functions on the objects
  themselves. A handle of another class is rejected by the bindings.
\<close>

section \<open>Definitions\<close>

datatype shared_obj =
    So_instance ptr
  | So_registry ptr
  | So_driver driver_obj
  | So_status iree_status_t
  | So_device device_ref
  | So_tensor tensor_ref
  | So_buffer nx_iree_data_buffer_t

record 'w wasm =
  wasm_rt :: "'w rt"
  wasm_shared :: "(shared_obj \<times> nat) option list"

type_synonym handle = nat

record 'w registry_api =
  iree_hal_driver_registry_free :: "ptr \<Rightarrow> 'w \<Rightarrow> 'w"

definition on_wasm :: "('w rt, 'a) sm \<Rightarrow> ('w wasm, 'a) sm" where
  "on_wasm m s = (case m (wasm_rt s) of Inl e \<Rightarrow> Inl e | Inr (x, r) \<Rightarrow> Inr (x, s\<lparr>wasm_rt := r\<rparr>))"

subsection \<open>Shared pointers\<close>

definition make_shared :: "shared_obj \<Rightarrow> ('w wasm, handle) sm" where
  "make_shared obj s =
     Inr (length (wasm_shared s), s\<lparr>wasm_shared := wasm_shared s @ [Some (obj, 1)]\<rparr>)"

definition shared_block :: "handle \<Rightarrow> ('w wasm, shared_obj \<times> nat) sm" where
  "shared_block h s =
     (if h < length (wasm_shared s)
      then case wasm_shared s ! h of None \<Rightarrow> Inl UseAfterFree | Some b \<Rightarrow> Inr (b, s)
      else Inl OutOfBounds)"

definition shared_set :: "handle \<Rightarrow> (shared_obj \<times> nat) option \<Rightarrow> ('w wasm, unit) sm" where
  "shared_set h b = modify_sm (\<lambda>s. s\<lparr>wasm_shared := (wasm_shared s)[h := b]\<rparr>)"

definition shared_copy :: "handle \<Rightarrow> ('w wasm, unit) sm" where
  "shared_copy h = bind_sm (shared_block h) (\<lambda>(obj, n). shared_set h (Some (obj, n + 1)))"

text \<open>The destructors of the wrapped objects.\<close>

fun destroy_shared :: "'w iree_api \<Rightarrow> 'w registry_api \<Rightarrow> shared_obj \<Rightarrow> ('w rt, unit) sm" where
  "destroy_shared api R (So_instance p) = api_do (iree_vm_instance_release api p) (InstanceReleased p)"
| "destroy_shared api R (So_registry p) = api_do (iree_hal_driver_registry_free R p) (RegistryFreed p)"
| "destroy_shared api R (So_driver d) = ret_sm ()"
| "destroy_shared api R (So_status st) = modify_sm (log_event (StatusFreed st))"
| "destroy_shared api R (So_device d) = delete_device api d"
| "destroy_shared api R (So_tensor p) = delete_tensor api p"
| "destroy_shared api R (So_buffer b) = modify_sm (log_event DataFreed)"

definition shared_reset :: "'w iree_api \<Rightarrow> 'w registry_api \<Rightarrow> handle \<Rightarrow> ('w wasm, unit) sm" where
  "shared_reset api R h =
     bind_sm (shared_block h) (\<lambda>(obj, n).
     if n > 1 then shared_set h (Some (obj, n - 1))
     else bind_sm (shared_set h None) (\<lambda>_. on_wasm (destroy_shared api R obj)))"

definition shared_get :: "handle \<Rightarrow> ('w wasm, shared_obj) sm" where
  "shared_get h = bind_sm (shared_block h) (\<lambda>(obj, n). ret_sm obj)"

definition binding_error :: "('s, 'a) sm" where
  "binding_error = fail_sm (Thrown ''BindingError'')"

definition get_instance_handle :: "handle \<Rightarrow> ('w wasm, ptr) sm" where
  "get_instance_handle h =
     bind_sm (shared_get h) (\<lambda>obj. case obj of So_instance p \<Rightarrow> ret_sm p | _ \<Rightarrow> binding_error)"

definition get_registry_handle :: "handle \<Rightarrow> ('w wasm, ptr) sm" where
  "get_registry_handle h =
     bind_sm (shared_get h) (\<lambda>obj. case obj of So_registry p \<Rightarrow> ret_sm p | _ \<Rightarrow> binding_error)"

definition get_status_handle :: "handle \<Rightarrow> ('w wasm, iree_status_t) sm" where
  "get_status_handle h =
     bind_sm (shared_get h) (\<lambda>obj. case obj of So_status st \<Rightarrow> ret_sm st | _ \<Rightarrow> binding_error)"

definition get_device_handle :: "handle \<Rightarrow> ('w wasm, device_ref) sm" where
  "get_device_handle h =
     bind_sm (shared_get h) (\<lambda>obj. case obj of So_device d \<Rightarrow> ret_sm d | _ \<Rightarrow> binding_error)"

definition get_tensor_handle :: "handle \<Rightarrow> ('w wasm, tensor_ref) sm" where
  "get_tensor_handle h =
     bind_sm (shared_get h) (\<lambda>obj. case obj of So_tensor p \<Rightarrow> ret_sm p | _ \<Rightarrow> binding_error)"

definition get_buffer_handle :: "handle \<Rightarrow> ('w wasm, nx_iree_data_buffer_t) sm" where
  "get_buffer_handle h =
     bind_sm (shared_get h) (\<lambda>obj. case obj of So_buffer b \<Rightarrow> ret_sm b | _ \<Rightarrow> binding_error)"

subsection \<open>Exported functions\<close>

definition nx_iree_create_vm_instance :: "'w iree_api \<Rightarrow> ('w wasm, handle) sm" where
  "nx_iree_create_vm_instance api =
     bind_sm (on_wasm (create_instance api)) (\<lambda>p. make_shared (So_instance p))"

definition wasm_create_device :: "'w iree_api \<Rightarrow> 'w sync_api \<Rightarrow> ('w wasm, handle option) sm" where
  "wasm_create_device api S =
     bind_sm (on_wasm (nx_iree_create_local_sync_device api S)) (\<lambda>device.
     case device of
       None \<Rightarrow> ret_sm None
     | Some d \<Rightarrow> bind_sm (make_shared (So_device d)) (\<lambda>h. ret_sm (Some h)))"

definition wasm_call ::
  "'w iree_api \<Rightarrow> handle \<Rightarrow> handle \<Rightarrow> handle \<Rightarrow> handle list \<Rightarrow> ('w wasm, handle \<times> handle list) sm" where
  "wasm_call api instance device bytecode wrapped_inputs =
     bind_sm (mapM_sm get_tensor_handle wrapped_inputs) (\<lambda>inputs.
     bind_sm (get_instance_handle instance) (\<lambda>i.
     bind_sm (get_device_handle device) (\<lambda>d.
     bind_sm (get_buffer_handle bytecode) (\<lambda>b.
     bind_sm (on_wasm (nx_iree_call_wrapped api i d b inputs)) (\<lambda>(status, outputs).
     bind_sm (mapM_sm (\<lambda>p. make_shared (So_tensor p)) outputs) (\<lambda>wrapped_outputs.
     bind_sm (make_shared (So_status status)) (\<lambda>status_handle.
     ret_sm (status_handle, wrapped_outputs))))))))"

definition nx_iree_get_status_message :: "'w iree_api \<Rightarrow> handle \<Rightarrow> ('w wasm, string) sm" where
  "nx_iree_get_status_message api status =
     bind_sm (get_status_handle status) (\<lambda>st. on_wasm (get_status_message api st))"

definition nx_iree_status_is_ok :: "handle \<Rightarrow> ('w wasm, bool) sm" where
  "nx_iree_status_is_ok status = bind_sm (get_status_handle status) (\<lambda>st. ret_sm (is_ok st))"

text \<open>
  The data buffer is wrapped before the transfer; when the transfer fails its only shared pointer is
  dropped on return.
\<close>

definition wasm_read_buffer ::
  "'w iree_api \<Rightarrow> 'w registry_api \<Rightarrow> handle \<Rightarrow> handle \<Rightarrow> u64 \<Rightarrow> ('w wasm, handle \<times> handle option) sm" where
  "wasm_read_buffer api R device tensor num_bytes =
     bind_sm (on_wasm (data_buffer_of_size api num_bytes)) (\<lambda>buffer.
     bind_sm (make_shared (So_buffer buffer)) (\<lambda>data_buffer.
     bind_sm (get_device_handle device) (\<lambda>d.
     bind_sm (on_wasm (Nx_Runtime.get_device d)) (\<lambda>dev.
     case d_ref dev of
       None \<Rightarrow> fail_sm UninitRead
     | Some ref \<Rightarrow>
         bind_sm (get_tensor_handle tensor) (\<lambda>p.
         bind_sm (on_wasm (get_tensor p)) (\<lambda>t.
         bind_sm (on_wasm (read_buffer api ref (t_buffer_view t) (db_data buffer) num_bytes)) (\<lambda>(status, data).
         bind_sm (shared_set data_buffer (Some (So_buffer (buffer\<lparr>db_data := data\<rparr>), 1))) (\<lambda>_.
         bind_sm (make_shared (So_status status)) (\<lambda>shared_status.
         bind_sm (nx_iree_status_is_ok shared_status) (\<lambda>ok.
         if \<not> ok then bind_sm (shared_reset api R data_buffer) (\<lambda>_. ret_sm (shared_status, None))
         else ret_sm (shared_status, Some data_buffer)))))))))))"

definition nx_iree_register_all_drivers :: "'w iree_api \<Rightarrow> handle \<Rightarrow> ('w wasm, handle) sm" where
  "nx_iree_register_all_drivers api registry =
     bind_sm (get_registry_handle registry) (\<lambda>r.
     bind_sm (on_wasm (register_all_drivers api r)) (\<lambda>status. make_shared (So_status status)))"

definition nx_iree_list_drivers ::
  "'w iree_api \<Rightarrow> handle \<Rightarrow> ('w wasm, handle \<times> (string \<times> handle) list) sm" where
  "nx_iree_list_drivers api registry =
     bind_sm (get_registry_handle registry) (\<lambda>r.
     bind_sm (on_wasm (list_drivers api r)) (\<lambda>(status, raw_drivers).
     bind_sm (mapM_sm (\<lambda>raw_driver. bind_sm (make_shared (So_driver raw_driver))
       (\<lambda>driver. ret_sm (drv_name raw_driver, driver))) raw_drivers) (\<lambda>drivers.
     bind_sm (make_shared (So_status status)) (\<lambda>status_handle.
     ret_sm (status_handle, drivers)))))"

definition ensure_malloc_free :: "'w iree_api \<Rightarrow> ('w wasm, unit) sm" where
  "ensure_malloc_free api =
     on_wasm (bind_sm (api_call (api_malloc api 1)) (\<lambda>_. modify_sm (log_event DataFreed)))"

definition data_buffer_allocate :: "'w iree_api \<Rightarrow> u64 \<Rightarrow> ('w wasm, handle) sm" where
  "data_buffer_allocate api n =
     bind_sm (on_wasm (data_buffer_of_size api n)) (\<lambda>b. make_shared (So_buffer b))"

definition data_buffer_create :: "'w iree_api \<Rightarrow> u8 list \<Rightarrow> ('w wasm, handle) sm" where
  "data_buffer_create api array =
     bind_sm (on_wasm (data_buffer_of_array api array)) (\<lambda>b. make_shared (So_buffer b))"

definition IREETensor_build ::
  "'w iree_api \<Rightarrow> js_array \<Rightarrow> int list \<Rightarrow> string \<Rightarrow> handle \<Rightarrow> ('w wasm, handle) sm" where
  "IREETensor_build api data in_dims type_string device =
     bind_sm (get_device_handle device) (\<lambda>d.
     bind_sm (on_wasm (bind_sm (IREETensor_of_js api data in_dims type_string d) new_tensor)) (\<lambda>p.
     make_shared (So_tensor p)))"

section \<open>The life of a handle\<close>

definition handle_at :: "'w wasm \<Rightarrow> handle \<Rightarrow> shared_obj \<Rightarrow> nat \<Rightarrow> bool" where
  "handle_at s h obj n \<longleftrightarrow> h < length (wasm_shared s) \<and> wasm_shared s ! h = Some (obj, n)"

lemma bind_shared_block: "handle_at s h obj n \<Longrightarrow> bind_sm (shared_block h) f s = f (obj, n) s"
  by (simp add: bind_sm_def shared_block_def handle_at_def)

lemma handle_at_set [simp]:
  "handle_at s h obj n \<Longrightarrow> handle_at (s\<lparr>wasm_shared := (wasm_shared s)[h := Some (obj', m)]\<rparr>) h obj' m"
  by (simp add: handle_at_def)

lemma handle_at_rt [simp]: "handle_at (s\<lparr>wasm_rt := r\<rparr>) h obj n = handle_at s h obj n"
  by (simp add: handle_at_def)

lemma make_shared_at:
  "make_shared obj s = Inr (h, s') \<Longrightarrow> handle_at s' h obj 1 \<and> wasm_rt s' = wasm_rt s"
  by (auto simp: make_shared_def handle_at_def)

lemma shared_copy_eq:
  "handle_at s h obj n \<Longrightarrow>
    shared_copy h s = Inr ((), s\<lparr>wasm_shared := (wasm_shared s)[h := Some (obj, n + 1)]\<rparr>)"
  by (simp add: shared_copy_def bind_shared_block shared_set_def)

lemma shared_reset_more:
  "handle_at s h obj n \<Longrightarrow> 1 < n \<Longrightarrow>
    shared_reset api R h s = Inr ((), s\<lparr>wasm_shared := (wasm_shared s)[h := Some (obj, n - 1)]\<rparr>)"
  by (simp add: shared_reset_def bind_shared_block shared_set_def)

lemma shared_reset_last:
  "handle_at s h obj n \<Longrightarrow> n \<le> 1 \<Longrightarrow>
    shared_reset api R h s =
      on_wasm (destroy_shared api R obj) (s\<lparr>wasm_shared := (wasm_shared s)[h := None]\<rparr>)"
  by (simp add: shared_reset_def bind_shared_block shared_set_def)

text \<open>Repeating an operation on a handle.\<close>

fun times_sm :: "nat \<Rightarrow> ('s, unit) sm \<Rightarrow> ('s, unit) sm" where
  "times_sm 0 m = ret_sm ()"
| "times_sm (Suc n) m = bind_sm m (\<lambda>_. times_sm n m)"

lemma shared_copies:
  assumes "handle_at s h obj n"
  shows "times_sm k (shared_copy h) s =
    Inr ((), s\<lparr>wasm_shared := (wasm_shared s)[h := Some (obj, n + k)]\<rparr>)"
  using assms
proof (induction k arbitrary: s n)
  case 0
  then have "(wasm_shared s)[h := Some (obj, n)] = wasm_shared s"
    by (metis handle_at_def list_update_id)
  then show ?case by simp
next
  case (Suc k)
  have "times_sm (Suc k) (shared_copy h) s =
      times_sm k (shared_copy h) (s\<lparr>wasm_shared := (wasm_shared s)[h := Some (obj, n + 1)]\<rparr>)"
    using shared_copy_eq [OF Suc.prems] by (simp add: bind_sm_def)
  then show ?case using Suc.IH [of _ "n + 1"] Suc.prems by simp
qed

lemma shared_resets:
  assumes "handle_at s h obj (Suc n + k)"
  shows "times_sm k (shared_reset api R h) s =
    Inr ((), s\<lparr>wasm_shared := (wasm_shared s)[h := Some (obj, Suc n)]\<rparr>)"
  using assms
proof (induction k arbitrary: s)
  case 0
  then have "(wasm_shared s)[h := Some (obj, Suc n)] = wasm_shared s"
    by (metis add_0_right handle_at_def list_update_id)
  then show ?case by simp
next
  case (Suc k)
  have "times_sm (Suc k) (shared_reset api R h) s = times_sm k (shared_reset api R h)
      (s\<lparr>wasm_shared := (wasm_shared s)[h := Some (obj, Suc n + k)]\<rparr>)"
    using shared_reset_more [OF Suc.prems] by (simp add: bind_sm_def)
  then show ?case using Suc.IH Suc.prems by simp
qed

lemma on_wasm_simps [simp]:
  "m (wasm_rt s) = Inl e \<Longrightarrow> on_wasm m s = Inl e"
  "m (wasm_rt s) = Inr (x, r) \<Longrightarrow> on_wasm m s = Inr (x, s\<lparr>wasm_rt := r\<rparr>)"
  by (simp_all add: on_wasm_def)

text \<open>
  Whatever is wrapped: after any number of copies and as many drops the object is untouched, and one
  more drop runs its destructor.
\<close>

lemma shared_life:
  assumes "make_shared obj s = Inr (h, s1)"
  shows "\<exists>s2. bind_sm (times_sm k (shared_copy h)) (\<lambda>_. times_sm k (shared_reset api R h)) s1 = Inr ((), s2) \<and>
    wasm_rt s2 = wasm_rt s \<and> handle_at s2 h obj 1 \<and>
    shared_reset api R h s2 =
      on_wasm (destroy_shared api R obj) (s2\<lparr>wasm_shared := (wasm_shared s2)[h := None]\<rparr>)"
proof -
  have at: "handle_at s1 h obj 1" "wasm_rt s1 = wasm_rt s" using make_shared_at [OF assms] by auto
  let ?s2 = "s1\<lparr>wasm_shared := (wasm_shared s1)[h := Some (obj, 1 + k)]\<rparr>"
  have "handle_at ?s2 h obj (Suc 0 + k)" using at(1) by simp
  then have "bind_sm (times_sm k (shared_copy h)) (\<lambda>_. times_sm k (shared_reset api R h)) s1 =
      Inr ((), ?s2\<lparr>wasm_shared := (wasm_shared ?s2)[h := Some (obj, Suc 0)]\<rparr>)"
    using shared_resets [of ?s2 h obj 0 k api R]
    by (simp add: bind_sm_Inr [where m = "times_sm k (shared_copy h)", OF shared_copies [OF at(1)]])
  moreover have "handle_at (?s2\<lparr>wasm_shared := (wasm_shared ?s2)[h := Some (obj, Suc 0)]\<rparr>) h obj 1"
    using at(1) by simp
  ultimately show ?thesis using at(2) shared_reset_last by fastforce
qed

text \<open>An instance handle, from its creation to its last drop.\<close>

lemma instance_handle_life:
  assumes "create_instance api (wasm_rt s) = Inr (p, r)"
  shows "\<exists>i s1 s2 s3. nx_iree_create_vm_instance api s = Inr (i, s1) \<and>
      bind_sm (times_sm k (shared_copy i)) (\<lambda>_. times_sm k (shared_reset api R i)) s1 = Inr ((), s2) \<and>
      rt_log (wasm_rt s2) = rt_log r \<and> shared_reset api R i s2 = Inr ((), s3) \<and>
      rt_log (wasm_rt s3) = rt_log r @ [InstanceReleased p] \<and> shared_get i s3 = Inl UseAfterFree"
proof -
  obtain i s1 where i: "make_shared (So_instance p) (s\<lparr>wasm_rt := r\<rparr>) = Inr (i, s1)"
    by (simp add: make_shared_def)
  obtain s2 where s2: "bind_sm (times_sm k (shared_copy i)) (\<lambda>_. times_sm k (shared_reset api R i)) s1 = Inr ((), s2)"
    "wasm_rt s2 = r" "handle_at s2 i (So_instance p) 1"
    "shared_reset api R i s2 = on_wasm (destroy_shared api R (So_instance p))
      (s2\<lparr>wasm_shared := (wasm_shared s2)[i := None]\<rparr>)"
    using shared_life [OF i, of k api R] by auto
  let ?s3 = "s2\<lparr>wasm_rt := log_event (InstanceReleased p)
      (r\<lparr>rt_world := iree_vm_instance_release api p (rt_world r)\<rparr>), wasm_shared := (wasm_shared s2)[i := None]\<rparr>"
  have "shared_reset api R i s2 = Inr ((), ?s3)" using s2(2,4) by (simp add: on_wasm_def)
  moreover have "shared_get i ?s3 = Inl UseAfterFree"
    using s2(3) by (simp add: handle_at_def shared_get_def shared_block_def bind_sm_def)
  moreover have "nx_iree_create_vm_instance api s = Inr (i, s1)"
    using assms i by (simp add: nx_iree_create_vm_instance_def bind_sm_def)
  ultimately show ?thesis
    using s2(1,2) by (intro exI [of _ i] exI [of _ s1] exI [of _ s2] exI [of _ ?s3]) simp
qed

text \<open>\<open>get_status_message\<close> frees the status the handle goes on holding.\<close>

lemma status_handle_message:
  assumes "handle_at t h (So_status st) 1"
    and "iree_status_to_string api st (rt_world (wasm_rt t)) = (Some msg, w)"
  shows "\<exists>m t1 t2. nx_iree_get_status_message api h t = Inr (m, t1) \<and> handle_at t1 h (So_status st) 1 \<and>
      shared_reset api R h t1 = Inr ((), t2) \<and>
      rt_log (wasm_rt t2) = rt_log (wasm_rt t) @ [StatusFreed st, StatusFreed st]"
proof -
  let ?t1 = "t\<lparr>wasm_rt := log_event (StatusFreed st) ((wasm_rt t)\<lparr>rt_world := w\<rparr>)\<rparr>"
  have "\<exists>m. nx_iree_get_status_message api h t = Inr (m, ?t1)"
    using assms
    by (simp add: nx_iree_get_status_message_def get_status_handle_def shared_get_def bind_shared_block
        get_status_message_def on_wasm_def)
  moreover have "shared_reset api R h ?t1 = Inr ((), ?t1\<lparr>wasm_shared := (wasm_shared t)[h := None],
      wasm_rt := log_event (StatusFreed st) (wasm_rt ?t1)\<rparr>)"
    using assms(1) by (simp add: shared_reset_last on_wasm_def)
  ultimately show ?thesis using assms(1) by fastforce
qed

end
