(* ===== verification/Spec2Isabelle.thy ===== *)
theory Spec2Isabelle
  imports Iree_Alignment Iree_Prng Intrusive_Sort Ref_Ptr Uk_Common Status_Cc Vm_Buffer Vm_Dispatch Vm_Shims Vm_Ref_Cc
    Vm_Native_Module Vm_Test_Module Uk_Simd Uk_Kernels Base_Time Task_Affinity Base_Span Hal_Allocator Hal_Resource Base_Atomics
    Hal_Plugin Atomic_Slist Vm_Float_Ops Nx_Instance Nx_Swift Nx_Handles
begin

text \<open>
  This library models the native code of \<open>nx_iree\<close>, which compiles and runs numerical programs of the
  Elixir library Nx on the IREE runtime, and proves what its parts do. The native code has three
  faces over one core:

  \<^item> \<open>src/cmake/src/runtime.cc\<close> and \<open>runtime.h\<close>: the class \<open>IREETensor\<close> and the functions that create
    instances and devices, list drivers and devices, and call a compiled module;
  \<^item> \<open>src/c_src/nx_iree.cc\<close>: the NIF library the Erlang VM loads;
  \<^item> \<open>src/cmake/src/emscripten_api.cc\<close> and \<open>.h\<close>: the interface for JavaScript;
  \<^item> \<open>nx_iree.cpp\<close> under \<open>src/embedded_devices\<close>: the C interface for Swift.

  Below it are the headers of the IREE runtime that are bundled with the repository (under
  \<open>.../LiveNxIREE/nx_iree/include/iree\<close>), whose inline code is modelled where it carries logic.

  Foundations.

  \<^item> \<open>Nx_Prelude\<close>: machine integers, undefined behaviour as the left side of a sum (\<open>res\<close>), state
    transformers that may fail (\<open>sm\<close>), little-endian bytes, reads and writes of a block of bytes.
  \<^item> \<open>Iree_Alignment\<close> (\<open>base/alignment.h\<close>): alignment, ceiling division, gcd and lcm, page ranges,
    alignment-safe accesses. The locale \<open>pow2_rounding\<close> holds the laws of rounding and is interpreted
    for the host, device and 64-bit functions; \<open>byte_codec\<close> holds those of loads and stores and is
    interpreted for each width.
  \<^item> \<open>Iree_Math\<close> (\<open>base/internal/math.h\<close>): rotations, bit scanning, powers of two, narrow floats. The
    locales \<open>float_format\<close> and \<open>narrow_float\<close> hold the facts about the fields of a bit pattern and
    the conversions, interpreted for \<open>f32\<close> and for the four narrow formats.
  \<^item> \<open>Iree_Status\<close> (\<open>base/status.h\<close>), \<open>Hal_Types\<close> (\<open>hal/buffer_view.h\<close>): status codes, element types.
  \<^item> \<open>Intrusive_List\<close> (\<open>intrusive_list.h\<close>): the doubly linked list over a heap of links. The relation
    \<open>represents\<close> says which sequence a state holds, one lemma per operation shows its effect, and the
    locale \<open>sequence_container\<close> lifts them to sequences of operations. \<open>Intrusive_Sort\<close> adds the merge
    sort of the same file: \<open>merging\<close> is the state of a pass, and the loops on links are shown to
    compute the merges of \<open>merge_pass\<close>, a function on lists.
  \<^item> \<open>Ref_Ptr\<close> (\<open>ref_ptr.h\<close>): reference-counted pointers. The locale \<open>ref_counted\<close> is what \<open>ref_ptr\<close> asks
    of the type it points to; its lemmas show that every operation keeps counts and owners equal, and
    it is interpreted for \<open>RefObject\<close> and, in \<open>Hal_Resource\<close>, for the objects of the HAL.
  \<^item> \<open>Iree_Prng\<close> (\<open>base/internal/prng.h\<close>): the three pseudo-random generators.
  \<^item> \<open>Status_Cc\<close> (\<open>base/status_cc.h\<close>): the classes \<open>Status\<close> and \<open>StatusOr\<close>. Programs are sequences of
    \<open>cc_op\<close> on numbered objects; \<open>objects_inv\<close> says which object owns the storage of which status.
  \<^item> \<open>Uk_Common\<close> (\<open>builtins/ukernel/common.h\<close>): element types, sizes, copies and float conversions of
    the microkernels, compared with \<open>Iree_Math\<close>.
  \<^item> \<open>Uk_Simd\<close> (\<open>arch/x86_64/common_x86_64.h\<close>, \<open>arch/arm_64/common_arm_64.h\<close>): the vector code that copies
    and transposes tiles. A register is the list of its bytes; the intrinsics are polymorphic in the bytes, so what a
    kernel computes is evaluated once on the matrix of indices and transported to every matrix.
  \<^item> \<open>Uk_Kernels\<close> (\<open>exported_bits.h\<close> and the \<open>*_internal.h\<close> of the microkernels): the flags of a kernel and the element
    types they select.
  \<^item> \<open>Base_Time\<close> (\<open>base/time.h\<close>), \<open>Base_Span\<close> (\<open>base/internal/span.h\<close>, \<open>base/allocator.h\<close>, \<open>base/string_view.h\<close>),
    \<open>Task_Affinity\<close> (\<open>task/affinity_set.h\<close>): timeouts, views of memory and strings, sets of workers. \<open>spans\<close> relates
    a span to the list of its elements.
  \<^item> \<open>Base_Atomics\<close> (\<open>base/internal/atomics_disabled.h\<close>): the operations of builds without threads, compared with the
    wrapping arithmetic of the atomics.
  \<^item> \<open>Atomic_Slist\<close> (\<open>base/internal/atomic_slist.h\<close>): the typed wrapper of the atomic list, over any library that keeps its
    entries in a stack (\<open>stack_library\<close>).

  The hardware abstraction layer of IREE.

  \<^item> \<open>Hal_Buffer\<close> (\<open>hal/buffer.h\<close>, \<open>hal/command_buffer.h\<close>, \<open>hal/buffer_transfer.h\<close>, \<open>hal/semaphore.h\<close>): bit sets of
    memory and usage, parameters of allocations, references to buffers and their resolution in a binding table.
  \<^item> \<open>Hal_Allocator\<close> (\<open>hal/allocator.h\<close>): the statistics, which refine a history of allocations (\<open>shows_history\<close>).
  \<^item> \<open>Hal_Resource\<close> (\<open>hal/resource.h\<close>, \<open>base/internal/atomics.h\<close>): the reference counts of the HAL objects.
  \<^item> \<open>Hal_Plugin\<close> (\<open>hal/local/executable_plugin.h\<close>): status codes, allocator and names of plugins.

  The virtual machine of IREE.

  \<^item> \<open>Vm_Ops\<close> (\<open>vm/ops.h\<close>): the scalar kernels. \<open>vm_signed_int\<close> is the contract the 32-bit and the
    64-bit kernels share.
  \<^item> \<open>Vm_Float_Ops\<close> (\<open>vm/ops.h\<close>): floating-point arithmetic, rounding and conversions, over \<open>Ieee_Float\<close>, the arithmetic
    of IEEE 754 with computed rounding. The locale \<open>float_arithmetic\<close> holds what small integers and exact results need and is
    interpreted for \<open>float\<close> and \<open>double\<close>.
  \<^item> \<open>Vm_Buffer\<close> (\<open>vm/buffer.h\<close>, \<open>vm/ops.h\<close>): checked typed accesses to buffers; \<open>typed_access\<close> is the
    contract of the loads and stores of an element type.
  \<^item> \<open>Vm_Op_Table\<close> (\<open>op_table.h\<close>): the enumerations and tables of opcodes.
  \<^item> \<open>Vm_Dispatch\<close> (\<open>isa.h\<close>, \<open>dispatch_util.h\<close>): decoding of operands, bodies of instructions, and the
    two ways to select an instruction.
  \<^item> \<open>Vm_Value\<close> (\<open>vm/ref.h\<close>, \<open>vm/value.h\<close>, \<open>vm/type_def.h\<close>, \<open>vm/variant.h\<close>): values, references, types and
    variants; \<open>variant_has_type\<close> is the typing relation.
  \<^item> \<open>Vm_Packing\<close> (\<open>vm/native_module_packing.h\<close>): calling conventions, unpacking of parameters and packing
    of results. \<open>packs\<close> relates the values of a caller to the bytes of the buffer, \<open>conv_packs\<close> a
    calling convention to the buffers that fit it; \<open>recording_library\<close> counts references.
  \<^item> \<open>Vm_Shims\<close> (\<open>vm/shims.h\<close>): the packed structures of the native functions, their checked casts and
    the shims, related to the same \<open>conv_packs\<close>.
  \<^item> \<open>Vm_Ref_Cc\<close> (\<open>vm/ref_cc.h\<close>): \<open>ref<T>\<close>, which refines the \<open>ref_ptr\<close> of \<open>Ref_Ptr\<close>.

  \<^item> \<open>Vm_Native_Module\<close> (\<open>vm/native_module_cc.h\<close>, \<open>vm/module.h\<close>): the class template of native modules, which
    composes the table of functions with the dispatch of \<open>Vm_Packing\<close>.
  \<^item> \<open>Vm_Test_Module\<close> (\<open>vm/native_module_test.h\<close>): two modules in C, one importing the other. A session of the second
    refines an accumulator of integers (\<open>accumulate\<close>).

  The program.

  \<^item> \<open>Nx_Types\<close>: the two conversions of type names.
  \<^item> \<open>Nx_Api\<close>: the functions of the IREE library that the program calls, as the record \<open>iree_api\<close> over
    the state of the library's world, and the state of the runtime: that world, the tensors and
    devices allocated so far, and a log of what was freed, released and moved.
  \<^item> \<open>Nx_Tensor\<close>: constructors of \<open>IREETensor\<close>, serialization, deallocation, transfers.
  \<^item> \<open>Nx_Runtime\<close>: instances, drivers, devices and \<open>call\<close>.
  \<^item> \<open>Nx_Nif\<close>: resources, decoding of terms and every handler, over the functions of \<open>erl_nif.h\<close>.
  \<^item> \<open>Nx_Emscripten\<close>, \<open>Nx_Handles\<close>, \<open>Nx_Swift\<close>: the two other interfaces; \<open>Nx_Handles\<close> adds the shared
    pointers, which JavaScript holds, to the functions of \<open>Nx_Emscripten\<close>.
  \<^item> \<open>Nx_Instance\<close>: a concrete library and a concrete Erlang environment, on which the witnesses run.

  This theory states the properties of the program; those of the headers are at the end of the
  theories that model them. The properties are numbered C1, C2 and so on over the whole
  development, in the order of their importance. A theorem whose name ends in \<open>_witness\<close>
  applies a property at a concrete input.

  Bounds and termination. Loops over a list or a count recurse on it. \<open>get_list\<close> recurses on fuel
  given as one more than the length of the Erlang list, and \<open>get_list_decodes\<close> shows that this suffices; searching,
  clearing and sorting an intrusive list take fuel, and more than the number of elements is enough. The
  tensors and handlers work with 64-bit sizes; a precondition of the form \<open>< 2 ^ 64\<close> or \<open>< 2 ^ 63\<close>
  says that an object fits the address space.

  Not modelled. The IREE library itself has no source in the repository: it is the parameter
  \<open>iree_api\<close>. So are \<open>erl_nif.h\<close> and the JavaScript values of embind. Builds with CUDA enabled, tracing
  zones, console output and the 32-bit \<open>size_t\<close> of WebAssembly are left out, and so is
  the interpreter loop, which the repository does not contain. Those functions of \<open>math.h\<close> whose results the C standard leaves
  open are arguments. The Elixir, Swift and JavaScript code and the build scripts are in other languages.

  The remaining headers of IREE declare functions of the library or describe data: the structures and tables of functions of
  devices, executables, semaphores, modules and tasks, the drivers, the generated flatbuffer readers and builders, and the headers of
  CUDA and Vulkan. They hold no code to model beyond what the theories above cover; where the program calls these functions, they are
  in \<open>iree_api\<close> or are arguments of the definitions.
\<close>

section \<open>Tensors\<close>

definition sample_tensor :: iree_tensor where
  "sample_tensor =
     \<lparr>t_data = Some [1, 2, 3, 4], t_size = 4, t_dims = [2, 2],
      t_type = element_type_code IREE_HAL_ELEMENT_TYPE_UINT_8, t_buffer_view = 0, t_device = None\<rparr>"

definition sample_rt :: "nat rt" where
  "sample_rt = \<lparr>rt_world = 0, rt_tensors = [Some sample_tensor], rt_devices = [], rt_log = []\<rparr>"

lemma sample_tensor_at: "tensor_at sample_rt 0 sample_tensor"
  by (simp add: tensor_at_def sample_rt_def)

text \<open>
  C1. Serializing a tensor that holds its bytes and reading the result back, whatever bytes
  follow it in memory, gives a tensor with the same element type, size, shape and bytes; only
  the buffer view and the device are not carried over.
\<close>

theorem serialize_round_trip:
  assumes "tensor_at s p t" and "t_data t = Some data" and "length data = unat (t_size t)"
    and "8 * length (t_dims t) < 2 ^ 63" and "20 + unat (t_size t) < 2 ^ 64"
    and "new_ok api (t_size t)" and "t_dims t \<noteq> [] \<Longrightarrow> new_ok api (of_nat (length (t_dims t)) * 8)"
  shows "\<exists>bytes w. serialize api p s = Inr (Some bytes, s) \<and>
    IREETensor_of_buffer api (bytes @ rest) s2 =
      Inr (t\<lparr>t_buffer_view := nullptr, t_device := None\<rparr>, s2\<lparr>rt_world := w\<rparr>)"
proof -
  have "serialize api p s =
      Inr (Some (tensor_image (t_type t) (t_size t) data (t_dims t)), s)"
    using serialize_with_data [OF assms(1,2)] assms(3) by simp
  moreover have "t\<lparr>t_buffer_view := nullptr, t_device := None\<rparr> =
      \<lparr>t_data = Some data, t_size = t_size t, t_dims = t_dims t, t_type = t_type t,
       t_buffer_view = nullptr, t_device = None\<rparr>"
    using assms(2) by (cases t) simp
  ultimately show ?thesis
    using deserialize_image [OF assms(3-7), of "t_type t" rest s2] by auto
qed

theorem serialize_round_trip_witness:
  "\<exists>bytes w. serialize sample_api 0 sample_rt = Inr (Some bytes, sample_rt) \<and>
    IREETensor_of_buffer sample_api (bytes @ [9]) sample_rt =
      Inr (sample_tensor\<lparr>t_buffer_view := nullptr, t_device := None\<rparr>, sample_rt\<lparr>rt_world := w\<rparr>)"
  by (rule serialize_round_trip [OF sample_tensor_at, where data = "[1, 2, 3, 4]"])
    (simp_all add: sample_tensor_def)

text \<open>
  C2. Reading a serialized tensor is exact: the fields of the tensor that is read, written out
  again, are the bytes the buffer starts with, and the data block has the size that was read.
\<close>

theorem deserialize_exact:
  assumes "IREETensor_of_buffer api buffer s = Inr (t, s')" and "length buffer < 2 ^ 64"
  shows "\<exists>data. t_data t = Some data \<and> length data = unat (t_size t) \<and>
    20 + unat (t_size t) + 8 * length (t_dims t) \<le> length buffer \<and>
    tensor_image (t_type t) (t_size t) data (t_dims t) =
      take (20 + unat (t_size t) + 8 * length (t_dims t)) buffer"
  using deserialize_reads_prefix [OF assms] by blast

theorem deserialize_exact_witness:
  "\<exists>t s' data. IREETensor_of_buffer sample_api (tensor_image 7 2 [5, 6] [1, 2] @ [9]) sample_rt =
      Inr (t, s') \<and> t_data t = Some data \<and> length data = unat (t_size t) \<and>
    tensor_image (t_type t) (t_size t) data (t_dims t) =
      take (20 + unat (t_size t) + 8 * length (t_dims t)) (tensor_image 7 2 [5, 6] [1, 2] @ [9])"
proof -
  obtain t s' where r: "IREETensor_of_buffer sample_api (tensor_image 7 2 [5, 6] [1, 2] @ [9]) sample_rt =
      Inr (t, s')"
    using deserialize_image [of "[5, 6]" 2 "[1, 2]" sample_api 7 "[9]" sample_rt] by auto
  show ?thesis using deserialize_exact [OF r] r by auto
qed



text \<open>
  C4. Life cycle: over any sequence of constructions, serializations and deallocations, every
  live tensor that holds bytes holds exactly as many as its size says.
\<close>

theorem tensors_stay_well_formed:
  assumes "tensor_steps api (rt_init w) ls s" and "block_laws api" and "tensor_at s p t"
    and "t_data t = Some bytes"
  shows "length bytes = unat (t_size t)"
proof -
  have "heap_wf (rt_init w)" by (simp add: heap_wf_def tensor_at_def rt_init_def)
  then have "heap_wf s" using tensor_steps_wf [OF assms(1,2)] by blast
  then show ?thesis using assms(3,4) by (simp add: heap_wf_def tensor_wf_def)
qed

lemma sample_steps:
  "\<exists>s. tensor_steps sample_api (rt_init 0) [None] s \<and>
    tensor_at s 0 \<lparr>t_data = Some [7, 8], t_size = 2, t_dims = [2], t_type = 5,
      t_buffer_view = 0, t_device = None\<rparr>"
proof -
  let ?t = "\<lparr>t_data = Some [7, 8], t_size = 2, t_dims = [2], t_type = 5,
      t_buffer_view = 0, t_device = None\<rparr>"
  let ?s = "rt_init (0 :: nat)\<lparr>rt_tensors := [Some ?t]\<rparr>"
  have "bind_sm (IREETensor_of_data sample_api [7, 8, 9] 2 [2] 5) new_tensor (rt_init 0) = Inr (0, ?s)"
    by (simp add: IREETensor_of_data_def sample_api_def read_bytes_def new_tensor_def rt_init_def)
  then have "tensor_step sample_api (rt_init 0) None ?s" by (rule step_data)
  then have "tensor_steps sample_api (rt_init 0) ([] @ [None]) ?s"
    by (rule steps_step [OF steps_refl])
  then show ?thesis by (auto simp: tensor_at_def intro!: exI [of _ ?s])
qed

theorem tensors_stay_well_formed_witness:
  "\<exists>s t bytes. tensor_steps sample_api (rt_init 0) [None] s \<and> tensor_at s 0 t \<and>
    t_data t = Some bytes \<and> bytes = [7, 8] \<and> length bytes = unat (t_size t)"
proof -
  obtain s where s: "tensor_steps sample_api (rt_init 0) [None] s"
    "tensor_at s 0 \<lparr>t_data = Some [7, 8], t_size = 2, t_dims = [2], t_type = 5,
      t_buffer_view = 0, t_device = None\<rparr>"
    using sample_steps by blast
  then show ?thesis
    using tensors_stay_well_formed [OF s(1) sample_block_laws s(2)] by (intro exI conjI) auto
qed

text \<open>
  C5. Ownership of buffer views: starting from no tensors, the number of releases of a view plus
  the number of tensors that still hold it is the number of tensors built from it, so a view
  wrapped once is released at most once, however often its tensor is deallocated or serialized.
\<close>

theorem view_releases_balance:
  assumes "tensor_steps api (rt_init w) ls s" and "v \<noteq> nullptr"
  shows "releases v s + holders v s = count_list ls (Some v)"
  using tensor_steps_balance [OF assms] by (simp add: releases_def holders_def rt_init_def)

theorem view_releases_balance_witness:
  "\<exists>s. tensor_steps sample_api (rt_init 0) [Some 5, None] s \<and> releases 5 s = 1 \<and> holders 5 s = 0 \<and>
    releases 5 s + holders 5 s = count_list [Some 5, None] (Some (5 :: ptr))"
proof -
  let ?t = "\<lparr>t_data = None, t_size = 4, t_dims = [1], t_type = 33, t_buffer_view = 5, t_device = Some 400\<rparr>"
  let ?s1 = "rt_init (0 :: nat)\<lparr>rt_tensors := [Some ?t]\<rparr>"
  let ?s2 = "rt_init (0 :: nat)\<lparr>rt_tensors := [Some (?t\<lparr>t_buffer_view := 0\<rparr>)], rt_log := [BufferViewReleased 5]\<rparr>"
  have "tensor_step sample_api (rt_init 0) (Some 5) ?s1"
    by (rule step_view [where ty = 33 and dev = 400 and p = 0])
      (simp add: IREETensor_of_view_def sample_api_def new_tensor_def rt_init_def push_dims.simps)
  then have s1: "tensor_steps sample_api (rt_init 0) ([] @ [Some 5]) ?s1"
    by (rule steps_step [OF steps_refl])
  have "tensor_step sample_api ?s1 None ?s2"
    by (rule step_deallocate [where p = 0])
      (simp add: deallocate_def get_tensor_def put_tensor_def sample_api_def rt_init_def bind_sm_def log_event_def)
  then have s2: "tensor_steps sample_api (rt_init 0) ([Some 5] @ [None]) ?s2"
    using steps_step [OF s1] by simp
  have "releases 5 ?s2 = 1" "holders 5 ?s2 = 0"
    by (simp_all add: releases_def holders_def rt_init_def)
  then show ?thesis using view_releases_balance [OF s2, of 5] s2 by (intro exI [of _ ?s2]) simp
qed

text \<open>
  C6. Deallocation frees the data block and releases the buffer view, each once and in this
  order, leaves every other tensor alone, and a second deallocation changes nothing.
\<close>

theorem deallocate_once:
  assumes "tensor_at s p t"
  shows "\<exists>s'. deallocate api p s = Inr ((), s') \<and>
    tensor_at s' p (t\<lparr>t_data := None, t_buffer_view := nullptr\<rparr>) \<and>
    rt_log s' = rt_log s @ dealloc_log t \<and>
    (\<forall>q u. q \<noteq> p \<longrightarrow> tensor_at s' q u = tensor_at s q u) \<and>
    deallocate api p s' = Inr ((), s')"
  using deallocate_effect [OF assms, of api] deallocate_twice assms
  by (auto simp: tensor_at_def)

theorem deallocate_once_witness:
  "\<exists>s'. deallocate sample_api 0 sample_rt = Inr ((), s') \<and>
    tensor_at s' 0 (sample_tensor\<lparr>t_data := None, t_buffer_view := nullptr\<rparr>) \<and>
    rt_log s' = [DataFreed] \<and> deallocate sample_api 0 s' = Inr ((), s')"
  using deallocate_once [OF sample_tensor_at, of sample_api]
  by (auto simp: sample_rt_def sample_tensor_def dealloc_log_def)

text \<open>
  C24. Serializing a tensor that lives on a device: a transfer that fails yields no bytes, but
  the block \<open>malloc\<close> returned stays in the tensor, and the next serialization succeeds with
  the contents of that block without asking the device again.
\<close>

theorem failed_transfer_is_cached:
  assumes "tensor_at s p t" and "t_data t = None" and "t_device t = Some device"
    and "api_malloc api (t_size t) (rt_world s) = (Some block, w)"
    and "read_buffer api device (t_buffer_view t) block (t_size t) (s\<lparr>rt_world := w\<rparr>) =
      Inr ((status, data), s\<lparr>rt_world := w'\<rparr>)"
    and "\<not> iree_status_is_ok status" and "unat (t_size t) \<le> length data"
  shows "\<exists>s'. serialize api p s = Inr (None, s') \<and>
    serialize api p s' =
      Inr (Some (tensor_image (t_type t) (t_size t) (take (unat (t_size t)) data) (t_dims t)), s')"
proof -
  obtain s' where first: "serialize api p s = Inr (None, s')"
    using serialize_from_device [OF assms(1-5)] assms(6) by (auto simp: Let_def)
  show ?thesis
    using first serialize_again [OF assms(1-5,7) first] by blast
qed

definition device_tensor :: iree_tensor where
  "device_tensor =
     \<lparr>t_data = None, t_size = 2, t_dims = [2], t_type = 5, t_buffer_view = 800, t_device = Some 400\<rparr>"

definition device_rt :: "nat rt" where
  "device_rt = \<lparr>rt_world = 0, rt_tensors = [Some device_tensor], rt_devices = [], rt_log = []\<rparr>"

theorem failed_transfer_is_cached_witness:
  "\<exists>s'. serialize (sample_api\<lparr>iree_hal_device_transfer_d2h := (\<lambda>d b off blk n w. (13, blk, w))\<rparr>) 0
      device_rt = Inr (None, s') \<and>
    serialize (sample_api\<lparr>iree_hal_device_transfer_d2h := (\<lambda>d b off blk n w. (13, blk, w))\<rparr>) 0 s' =
      Inr (Some (tensor_image 5 2 [0, 0] [2]), s')"
proof -
  let ?api = "sample_api\<lparr>iree_hal_device_transfer_d2h := (\<lambda>d b off blk n w. (13, blk, w))\<rparr>"
  have at: "tensor_at device_rt 0 device_tensor" by (simp add: tensor_at_def device_rt_def)
  have "replicate 2 (0 :: u8) = [0, 0]" by (simp add: numeral_2_eq_2)
  then have m: "api_malloc ?api (t_size device_tensor) (rt_world device_rt) = (Some [0, 0], 0)"
    by (simp add: sample_api_def device_rt_def device_tensor_def)
  have r: "read_buffer ?api 400 (t_buffer_view device_tensor) [0, 0] (t_size device_tensor)
      (device_rt\<lparr>rt_world := 0\<rparr>) = Inr ((13, [0, 0]), device_rt\<lparr>rt_world := 0\<rparr>)"
    by (simp add: read_buffer_def sample_api_def device_rt_def device_tensor_def)
  show ?thesis
    using failed_transfer_is_cached [OF at _ _ m r]
    by (simp add: device_tensor_def)
qed

section \<open>Element types\<close>

text \<open>
  C26. The Nx type names are converted to distinct IREE element types whose dense byte count is
  the width in the name, every other string gives \<open>NONE\<close>, and every name but the signed
  integers is recovered from the element type. The signed integers do not survive the way back:
  the name given for their element type starts with \<open>i\<close> and is not accepted as an Nx type.
\<close>

theorem nx_types_convert:
  "inj_on nx_type_to_iree_type (set nx_types) \<and>
   (\<forall>ty. nx_type_to_iree_type ty = element_type_code IREE_HAL_ELEMENT_TYPE_NONE \<longleftrightarrow> ty \<notin> set nx_types) \<and>
   (\<forall>ty \<in> set nx_types.
      unat (iree_hal_element_dense_byte_count (nx_type_to_iree_type ty)) = nx_type_bits ty div 8) \<and>
   (\<forall>ty \<in> set nx_types - set nx_signed_types. iree_type_to_nx_type (nx_type_to_iree_type ty) = ty) \<and>
   (\<forall>n \<in> {''8'', ''16'', ''32'', ''64''}.
      iree_type_to_nx_type (nx_type_to_iree_type (CHR ''s'' # n)) = CHR ''i'' # n \<and>
      nx_type_to_iree_type (CHR ''i'' # n) = element_type_code IREE_HAL_ELEMENT_TYPE_NONE)"
proof -
  have "iree_type_to_nx_type (nx_type_to_iree_type (CHR ''s'' # n)) = CHR ''i'' # n \<and>
      nx_type_to_iree_type (CHR ''i'' # n) = element_type_code IREE_HAL_ELEMENT_TYPE_NONE"
    if "n \<in> {''8'', ''16'', ''32'', ''64''}" for n
    using nx_signed_type_names [OF that] by simp
  then show ?thesis
    using nx_type_to_iree_type_inj nx_type_to_iree_type_none_iff nx_type_dense_bytes nx_type_round_trip
    by blast
qed

theorem nx_types_convert_witness:
  "iree_type_to_nx_type (nx_type_to_iree_type ''bf16'') = ''bf16'' \<and>
   unat (iree_hal_element_dense_byte_count (nx_type_to_iree_type ''c128'')) = 16 \<and>
   iree_type_to_nx_type (nx_type_to_iree_type ''s32'') = ''i32''"
proof -
  have "''bf16'' \<in> set nx_types - set nx_signed_types" "''c128'' \<in> set nx_types"
    by (simp_all add: nx_types_def nx_signed_types_def)
  moreover have "nx_type_bits ''c128'' = 128" by simp
  moreover have "''32'' \<in> {''8'', ''16'', ''32'', ''64''}" by simp
  ultimately show ?thesis using nx_types_convert by fastforce
qed

section \<open>Drivers, devices and instances\<close>

text \<open>
  \<open>list_drivers\<close> returns the enumerated drivers in order, leaving out those named \<open>hip\<close>, or
  the status of the failed enumeration with no drivers; either way the info block is freed once.
\<close>

theorem list_drivers_spec:
  assumes "iree_hal_driver_registry_enumerate api registry (rt_world s) = (status, Some infos, w)"
  shows "\<exists>s'. rt_log s' = rt_log s @ [InfosFreed] \<and>
    list_drivers api registry s =
      Inr (if iree_status_is_ok status
           then (iree_ok_status, map (\<lambda>info. Driver (di_driver_name info) (di_full_name info))
             (filter (\<lambda>info. di_driver_name info \<noteq> ''hip'') infos))
           else (status, []), s')"
  using list_drivers_eq [OF assms] by (auto intro!: exI [of _ "log_event InfosFreed (s\<lparr>rt_world := w\<rparr>)"])

theorem list_drivers_spec_witness:
  "\<exists>s'. rt_log s' = [InfosFreed] \<and>
    list_drivers sample_api 200 sample_rt =
      Inr ((iree_ok_status, [Driver ''local-sync'' ''Local'']), s')"
  using list_drivers_spec [of sample_api 200 sample_rt 0
      "[\<lparr>di_driver_name = ''hip'', di_full_name = ''HIP''\<rparr>,
        \<lparr>di_driver_name = ''local-sync'', di_full_name = ''Local''\<rparr>]" 0]
  by (simp add: sample_api_def sample_rt_def)

text \<open>
  A successful \<open>list_devices\<close> appends fresh devices, grouped by driver in the order of the
  drivers it listed; each device carries the name of its driver and a URI that starts with it.
\<close>

theorem list_devices_groups:
  assumes "list_devices api registry devices s = Inr ((status, devices'), s')"
    and "iree_status_is_ok status"
  shows "\<exists>drivers s1 gs. list_drivers api registry s = Inr ((iree_ok_status, drivers), s1) \<and>
    list_all2 (\<lambda>drv g. driver_group (drv_name drv) g) drivers gs \<and>
    rt_devices s' = rt_devices s1 @ map Some (concat gs) \<and>
    devices' = devices @ [length (rt_devices s1) ..< length (rt_devices s')]"
proof -
  obtain st drivers s1 where l: "list_drivers api registry s = Inr ((st, drivers), s1)"
    and ok: "iree_status_is_ok st"
    and of: "list_devices_of api registry drivers devices s1 = Inr ((status, devices'), s')"
    using assms by (auto simp: list_devices_def bind_sm_eq_Inr split: if_splits)
  show ?thesis
    using list_devices_of_ok [OF of assms(2)] l ok by auto
qed

theorem list_devices_groups_witness:
  "\<exists>status devices' s'. list_devices sample_api 200 [] sample_rt = Inr ((status, devices'), s') \<and>
    (\<exists>drivers s1 gs. list_drivers sample_api 200 sample_rt = Inr ((iree_ok_status, drivers), s1) \<and>
    list_all2 (\<lambda>drv g. driver_group (drv_name drv) g) drivers gs \<and>
    rt_devices s' = rt_devices s1 @ map Some (concat gs) \<and>
    devices' = [] @ [length (rt_devices s1) ..< length (rt_devices s')])"
proof -
  have "\<exists>devices' s'. list_devices sample_api 200 [] sample_rt = Inr ((0, devices'), s')"
    by (simp add: list_devices_def list_drivers_def list_driver_devices_def sample_api_def
        sample_rt_def Driver_def bind_sm_def new_device_def set_device_def)
  then obtain devices' s' where l: "list_devices sample_api 200 [] sample_rt = Inr ((0, devices'), s')"
    by blast
  show ?thesis using list_devices_groups [OF l] l by fastforce
qed

text \<open>
  When the creation of a device fails, the clean-up of \<open>list_devices\<close> for one driver
  deletes an element past the end of the vector it was given empty: the function never returns
  the error status of a device.
\<close>

theorem list_driver_devices_cleanup_out_of_bounds:
  assumes "iree_hal_driver_registry_try_create api registry (c_str dn) (rt_world s) = (0, Some driver, wa)"
    and "iree_hal_driver_query_available_devices api driver wa = (0, Some (info # infos), wb)"
    and "iree_hal_create_device api registry (c_str (device_uri dn info)) None wb = (status, ref, wc)"
    and "status \<noteq> iree_ok_status"
  shows "list_driver_devices api registry dn [] s = Inl OutOfBounds"
  using assms by (simp add: list_driver_devices_def push_devices_step del: push_devices.simps)

theorem list_driver_devices_cleanup_out_of_bounds_witness:
  "list_driver_devices (sample_api\<lparr>iree_hal_create_device := (\<lambda>r n out w. (5, None, w))\<rparr>) 200
     ''local-sync'' [] sample_rt = Inl OutOfBounds"
  by (rule list_driver_devices_cleanup_out_of_bounds
      [where driver = 300 and info = "\<lparr>dev_path = ''0'', dev_id = 7\<rparr>" and infos = "[]"
        and status = 5 and wa = 0 and wb = 0 and wc = 0 and ref = None])
    (simp_all add: sample_api_def sample_rt_def)

text \<open>
  \<open>create_instance\<close> returns an instance whose types are registered, or null; when the
  registration fails the instance just created is released exactly once, and in no other case.
\<close>

theorem create_instance_spec:
  assumes "iree_vm_instance_create api nullptr (rt_world s) = (st1, inst, w1)"
    and "iree_hal_module_register_all_types api inst w1 = (st2, w2)"
  shows "create_instance api s =
    (if \<not> iree_status_is_ok st1 then Inr (nullptr, s\<lparr>rt_world := w1\<rparr>)
     else if \<not> iree_status_is_ok st2
     then Inr (nullptr, log_event (InstanceReleased inst)
       (s\<lparr>rt_world := iree_vm_instance_release api inst w2\<rparr>))
     else Inr (inst, s\<lparr>rt_world := w2\<rparr>))"
  using assms by (simp add: create_instance_def)

theorem create_instance_spec_witness:
  "create_instance sample_api sample_rt = Inr (100, sample_rt)"
  using create_instance_spec [of sample_api sample_rt 0 100 0 0 0]
  by (simp add: sample_api_def sample_rt_def)

section \<open>Calling a compiled module\<close>

text \<open>
  C7. Outcome of \<open>call\<close>. With results: the status is ok, the results are fresh tensors on the
  device, one per position, each wrapping a view and holding no host data; the references
  moved into the argument list are one per input, an input's own view where it has one; the two
  lists and the context are released, in this order, and no module. Without results: nothing
  is released.
\<close>

theorem call_outcome:
  assumes "call api instance device driver_name bytecode inputs s = Inr ((status, result), s')"
  shows "case result of
      None \<Rightarrow> \<exists>ms ts. rt_log s' = rt_log s @ map RefMoved ms \<and> rt_tensors s' = rt_tensors s @ ts
    | Some rs \<Rightarrow> status = iree_ok_status \<and>
        (\<exists>ts. rs = [length (rt_tensors s) ..< length (rt_tensors s) + length ts] \<and>
          rt_tensors s' = rt_tensors s @ map Some ts \<and> (\<forall>t \<in> set ts. output_tensor device t)) \<and>
        (\<exists>ms l1 l2 ctx. list_all2 (input_ref s) inputs ms \<and>
          rt_log s' = rt_log s @ map RefMoved ms @ [ListReleased l1, ListReleased l2] @
            (if ctx \<noteq> nullptr then [ContextReleased ctx] else []))"
proof (cases result)
  case None
  then show ?thesis using call_Inr [OF assms] by (auto simp: call_post_def grows_def)
next
  case (Some rs)
  with call_Inr [OF assms] obtain ts ms l1 l2 ctx where
    "(status, result) = (iree_ok_status, Some [length (rt_tensors s) ..< length (rt_tensors s) + length ts])"
    "\<forall>t \<in> set ts. output_tensor device t" "list_all2 (input_ref s) inputs ms"
    "rt_tensors s' = rt_tensors s @ map Some ts"
    "rt_log s' = rt_log s @ map RefMoved ms @ [ListReleased l1, ListReleased l2] @
          (if ctx \<noteq> nullptr then [ContextReleased ctx] else [])"
    unfolding call_post_def by auto
  with Some show ?thesis by auto
qed

lemma sample_call:
  "call sample_api 100 400 ''local'' [0] [0] sample_rt =
     Inr ((0, Some [1]), sample_rt\<lparr>rt_world := 2,
       rt_tensors := [Some sample_tensor,
         Some \<lparr>t_data = None, t_size = 4, t_dims = [1],
           t_type = element_type_code IREE_HAL_ELEMENT_TYPE_FLOAT_32, t_buffer_view = 800,
           t_device = Some 400\<rparr>],
       rt_log := [RefMoved 500, ListReleased 700, ListReleased 701, ContextReleased 602]\<rparr>)"
  by (simp add: call_def RETURN_PAIR_IF_ERROR_def push_input_ref_def bind_get_tensor
      sample_tensor_at sample_rt_def tensor_at_def get_tensor_def bind_sm_def sample_tensor_def
      data_byte_span_def read_bytes_def call_invoke_def sample_api_def collect_outputs_step
      collect_outputs.simps [of _ _ _ "Suc 0" "Suc 0"] push_dims_eq output_of_def call_release_def
      log_event_def)

theorem call_outcome_witness:
  "\<exists>ts. [1] = [length (rt_tensors sample_rt) ..< length (rt_tensors sample_rt) + length ts] \<and>
    (\<forall>t \<in> set ts. output_tensor 400 t)"
  using call_outcome [OF sample_call] by auto

text \<open>
  The error macro evaluates its argument a second time to compute the status it returns. A
  module creation that fails once and then succeeds makes \<open>call\<close> return ok with no result, and
  the NIF handler then unwraps the missing result.
\<close>

theorem call_nif_bad_optional_access:
  assumes "enif_get_resource E a0 (ns_type s K_instance) = Some ip" and "ns_mem s ip = Some (RvPtr inst)"
    and "enif_get_resource E a1 (ns_type s K_device) = Some dp" and "ns_mem s dp = Some (RvPtr dev)"
    and "get_string E a2 = (r, dn)" and "r \<noteq> 0"
    and "enif_inspect_binary E a3 = Some bytecode"
    and "get_tensor_list E a4 s = Inr (Some inputs, s)"
    and "iree_hal_module_create api inst [dev] nullptr (rt_world (ns_rt s)) = (sta, ma, wa)"
    and "sta \<noteq> iree_ok_status"
    and "iree_hal_module_create api inst [dev] ma wa = (iree_ok_status, mb, wb)"
  shows "call_nif api E [a0, a1, a2, a3, a4] s = Inl BadOptionalAccess"
  using assms(9-11) call_second_evaluation [of api inst dev "rt_world (ns_rt s)" sta ma wa mb wb "ns_rt s"]
  unfolding call_nif_runs [OF assms(1-8)]
  by (simp add: bind_on_rt is_ok_def)

definition sample_nif :: "nat nif" where
  "sample_nif =
     \<lparr>ns_rt = sample_rt, ns_type = (\<lambda>k. 1),
      ns_mem = (\<lambda>p. if p = 11 then Some (RvPtr 100) else if p = 12 then Some (RvPtr 400)
                    else if p = 13 then Some (RvTensor 0) else None)\<rparr>"

theorem call_nif_bad_optional_access_witness:
  "call_nif (sample_api\<lparr>iree_hal_module_create := (\<lambda>i ds out w. (if w = 0 then 13 else 0, 600, Suc w))\<rparr>)
     sample_enif [EResource 11, EResource 12, EString ''x'', EBinary [0], EList []] sample_nif =
   Inl BadOptionalAccess"
  by (rule call_nif_bad_optional_access [where ip = 11 and inst = 100 and dp = 12 and dev = 400
        and r = 2 and dn = "''x''" and bytecode = "[0]" and inputs = "[]"
        and sta = 13 and ma = 600 and wa = 1 and mb = 600 and wb = 2])
    (simp_all add: sample_nif_def sample_rt_def sample_enif_def get_string_def get_tensor_list_def)

text \<open>
  C25. An input that already has a buffer view is moved into the argument list without a retain
  and without clearing the tensor: after a successful call the view is owned by the list and
  still held by the tensor, whose deallocation releases it once more.
\<close>

theorem call_moves_view_it_keeps:
  assumes "call api instance device driver_name bytecode inputs s = Inr ((status, Some rs), s')"
    and "p \<in> set inputs" and "tensor_at s p t" and "t_buffer_view t \<noteq> nullptr"
  shows "RefMoved (t_buffer_view t) \<in> set (rt_log s') \<and> tensor_at s' p t \<and>
    (\<exists>s''. deallocate api p s' = Inr ((), s'') \<and>
      BufferViewReleased (t_buffer_view t) \<in> set (rt_log s''))"
proof -
  have at: "tensor_at s' p t" by (rule call_keeps_tensors [OF assms(1,3)])
  obtain ms rest where all: "list_all2 (input_ref s) inputs ms"
    and log: "rt_log s' = rt_log s @ map RefMoved ms @ rest"
    using call_Inr [OF assms(1)] unfolding call_post_def by auto
  then obtain m where "m \<in> set ms" "input_ref s p m"
    using assms(2) by (metis in_set_conv_nth list_all2_conv_all_nth)
  then have "RefMoved (t_buffer_view t) \<in> set (rt_log s')"
    using log assms(3,4) by (auto simp: input_ref_def tensor_at_def)
  moreover have "\<exists>s''. deallocate api p s' = Inr ((), s'') \<and>
      BufferViewReleased (t_buffer_view t) \<in> set (rt_log s'')"
    using deallocate_effect [OF at, of api] assms(4) by (auto simp: dealloc_log_def)
  ultimately show ?thesis using at by blast
qed

lemma device_call:
  "\<exists>s'. call sample_api 100 400 ''local'' [0] [0] device_rt = Inr ((0, Some [1]), s')"
  by (simp add: call_def RETURN_PAIR_IF_ERROR_def push_input_ref_def
      device_rt_def get_tensor_def bind_sm_def device_tensor_def call_invoke_def sample_api_def
      collect_outputs_step collect_outputs.simps [of _ _ _ "Suc 0" "Suc 0"] push_dims_eq
      output_of_def call_release_def log_event_def)

theorem call_moves_view_it_keeps_witness:
  "\<exists>s'. call sample_api 100 400 ''local'' [0] [0] device_rt = Inr ((0, Some [1]), s') \<and>
    RefMoved 800 \<in> set (rt_log s') \<and> tensor_at s' 0 device_tensor"
proof -
  obtain s' where c: "call sample_api 100 400 ''local'' [0] [0] device_rt = Inr ((0, Some [1]), s')"
    using device_call by blast
  have "tensor_at device_rt 0 device_tensor" by (simp add: tensor_at_def device_rt_def)
  from call_moves_view_it_keeps [OF c _ this] show ?thesis
    using c by (auto simp: device_tensor_def)
qed

section \<open>The NIF library\<close>

text \<open>
  \<open>load\<close> reports success whatever happens to the resource types: \<open>open_resource\<close> returns -1
  on failure, which the caller's test for zero does not see.
\<close>

theorem nif_load_never_fails: "\<exists>s'. nif_load E s = Inr (0, s')"
  by (rule nif_load_0)

text \<open>
  A buffer allocated from a binary is read back as that binary: \<open>allocate_buffer\<close> with valid
  arguments returns a tensor resource, and \<open>read_buffer\<close> of it with \<open>num_bytes\<close> = -1 returns the
  same bytes.
\<close>

theorem allocate_then_read:
  assumes "resource_laws E"
    and "enif_inspect_binary E b = Some binary" and "length binary < 2 ^ 64"
    and "enif_get_resource E d (ns_type s K_device) = Some dp"
    and "get_list E dl = Inr (Some dims)"
    and "get_string E ty = (r, tyname)" and "r \<noteq> 0" and "tyname \<in> set nx_types"
    and "api_malloc api (of_nat (length binary)) (rt_world (ns_rt s)) = (Some blk, w)"
    and "enif_get_int64 E nt = Some (-1)"
    and "\<And>w. fst (enif_alloc_binary E (of_nat (length binary)) w) \<noteq> None"
  shows "\<exists>trm s1 s2. allocate_buffer_nif api E [b, d, dl, ty] s = Inr (nif_ok_term E trm, s1) \<and>
    read_buffer_nif api E [d, trm, nt] s1 = Inr (nif_ok_term E (enif_make_binary E binary), s2)"
proof -
  obtain p w2 where p: "enif_alloc_resource E (ns_type s K_tensor) 8 w = (p, w2)"
    by (cases "enif_alloc_resource E (ns_type s K_tensor) 8 w")
  then have p0: "p \<noteq> nullptr" and get: "enif_get_resource E (enif_make_resource E p) (ns_type s K_tensor) = Some p"
    using assms(1) by (auto simp: resource_laws_def)
  obtain s1 where alloc: "allocate_buffer_nif api E [b, d, dl, ty] s = Inr (nif_ok_term E (enif_make_resource E p), s1)"
    and trm: "tensor_term E s1 (enif_make_resource E p)
      \<lparr>t_data = Some binary, t_size = of_nat (length binary), t_dims = map word_of_int dims,
       t_type = nx_type_to_iree_type tyname, t_buffer_view = nullptr, t_device = None\<rparr>"
    and ty1: "ns_type s1 = ns_type s"
    using allocate_buffer_ok [OF assms(2-9) p p0] get
    by (auto simp: tensor_term_def tensor_at_def)
  obtain blk' w' where bin: "enif_alloc_binary E (of_nat (length binary)) (rt_world (ns_rt s1)) = (Some blk', w')"
    using assms(11) [of "rt_world (ns_rt s1)"]
    by (cases "enif_alloc_binary E (of_nat (length binary)) (rt_world (ns_rt s1))") auto
  have "unat (of_nat (length binary) :: u64) = length binary"
    using assms(3) by (simp add: unat_of_nat)
  then have "\<exists>s2. read_buffer_nif api E [d, enif_make_resource E p, nt] s1 =
      Inr (nif_ok_term E (enif_make_binary E binary), s2)"
    using read_buffer_host [where d = d and dp = dp and api = api and blk = blk' and w = w', OF _ trm _ _ assms(10)] assms(4) ty1 bin
    by (simp add: Let_def)
  with alloc show ?thesis by blast
qed

theorem allocate_then_read_witness:
  "\<exists>trm s1 s2. allocate_buffer_nif sample_api sample_enif
      [EBinary [1, 2], EResource 12, EList [EInt 2], EString ''u8''] sample_nif =
      Inr (nif_ok_term sample_enif trm, s1) \<and>
    read_buffer_nif sample_api sample_enif [EResource 12, trm, EInt (-1)] s1 =
      Inr (nif_ok_term sample_enif (EBinary [1, 2]), s2)"
proof -
  have mk: "enif_make_binary sample_enif [1, 2] = EBinary [1, 2]" by (simp add: sample_enif_def)
  show ?thesis
    unfolding mk [symmetric]
    by (rule allocate_then_read [OF sample_resource_laws, where binary = "[1, 2]" and dp = 12
          and dims = "[2]" and r = 3 and tyname = "''u8''" and blk = "replicate 2 0" and w = 0])
      (simp_all add: sample_enif_def sample_nif_def sample_rt_def sample_api_def get_list_def
        get_string_def nx_types_def)
qed

text \<open>
  C27. At the level of terms, \<open>serialize_tensor\<close> followed by \<open>deserialize_tensor\<close> of the binary it
  returns gives a resource for a tensor with the same element type, size, shape and bytes.
\<close>

theorem nif_serialize_round_trip:
  assumes "resource_laws E" and "\<And>bs. enif_inspect_binary E (enif_make_binary E bs) = Some bs"
    and "tensor_term E s trm t" and "t_data t = Some data" and "length data = unat (t_size t)"
    and "8 * length (t_dims t) < 2 ^ 63" and "20 + unat (t_size t) < 2 ^ 64"
    and "new_ok api (t_size t)" and "t_dims t \<noteq> [] \<Longrightarrow> new_ok api (of_nat (length (t_dims t)) * 8)"
    and "\<And>n w. fst (enif_alloc_binary E n w) \<noteq> None"
  shows "\<exists>b s1 trm2 s2. serialize_tensor_nif api E [trm] s = Inr (nif_ok_term E b, s1) \<and>
    deserialize_tensor_nif api E [b] s1 = Inr (nif_ok_term E trm2, s2) \<and>
    tensor_term E s2 trm2 (t\<lparr>t_buffer_view := nullptr, t_device := None\<rparr>)"
proof -
  let ?im = "tensor_image (t_type t) (t_size t) data (t_dims t)"
  obtain blk w where "enif_alloc_binary E (of_nat (length ?im)) (rt_world (ns_rt s)) = (Some blk, w)"
    using assms(10) [of "of_nat (length ?im)" "rt_world (ns_rt s)"]
    by (cases "enif_alloc_binary E (of_nat (length ?im)) (rt_world (ns_rt s))") auto
  from serialize_tensor_host [OF assms(3,4,5) this]
  obtain s1 where ser: "serialize_tensor_nif api E [trm] s = Inr (nif_ok_term E (enif_make_binary E ?im), s1)"
    by blast
  have t: "t\<lparr>t_buffer_view := nullptr, t_device := None\<rparr> =
      \<lparr>t_data = Some data, t_size = t_size t, t_dims = t_dims t, t_type = t_type t,
       t_buffer_view = nullptr, t_device = None\<rparr>"
    using assms(4) by (cases t) simp
  show ?thesis
    using ser deserialize_tensor_image [where s = s1 and ty = "t_type t", OF assms(1) assms(2) assms(5-9)]
    unfolding t by blast
qed

theorem nif_serialize_round_trip_witness:
  "\<exists>b s1 trm2 s2. serialize_tensor_nif sample_api sample_enif [EResource 13] sample_nif =
      Inr (nif_ok_term sample_enif b, s1) \<and>
    deserialize_tensor_nif sample_api sample_enif [b] s1 = Inr (nif_ok_term sample_enif trm2, s2) \<and>
    tensor_term sample_enif s2 trm2 (sample_tensor\<lparr>t_buffer_view := nullptr, t_device := None\<rparr>)"
proof (rule nif_serialize_round_trip [OF sample_resource_laws, where data = "[1, 2, 3, 4]"])
  show "tensor_term sample_enif sample_nif (EResource 13) sample_tensor"
    using sample_tensor_at by (simp add: tensor_term_def sample_nif_def)
qed (simp_all add: sample_enif_def sample_tensor_def)

text \<open>
  C28. Decoding a list of dimensions terminates and returns all the integers of the list in
  order, or fails when one of its elements is not an integer.
\<close>

theorem get_list_decodes:
  assumes "is_list E l ts" and "enif_get_list_length E l = Some (length ts)"
  shows "get_list E l = Inr (decode_all (enif_get_int64 E) ts)"
  by (rule get_list_eq [OF assms])

theorem get_list_decodes_witness:
  "get_list sample_enif (EList [EInt 3, EInt 4]) =
     Inr (decode_all (enif_get_int64 sample_enif) [EInt 3, EInt 4]) \<and>
   decode_all (enif_get_int64 sample_enif) [EInt 3, EInt 4] = Some [3, 4]"
  using get_list_decodes [of sample_enif "EList [EInt 3, EInt 4]" "[EInt 3, EInt 4]"]
  by (simp add: sample_enif_def)

section \<open>The WebAssembly interface\<close>

text \<open>
  Creating the local device: whichever step fails, the allocator variable and every loader
  created so far (at most two) are released exactly once, and nothing else is released.
\<close>

theorem create_device_with_loaders_balanced:
  assumes "create_device_with_loaders S out s = Inr ((status, dev), s')"
  shows "\<exists>a ls. length ls \<le> 2 \<and>
    rt_log s' = rt_log s @ AllocatorReleased a # map LoaderReleased ls \<and>
    rt_tensors s' = rt_tensors s \<and> rt_devices s' = rt_devices s"
proof -
  obtain a ls w where "length ls \<le> 2"
    "s' = s\<lparr>rt_world := w, rt_log := rt_log s @ AllocatorReleased a # map LoaderReleased ls\<rparr>"
    using create_device_with_loaders_releases [OF assms] by blast
  then show ?thesis by (intro exI [of _ a] exI [of _ ls]) simp
qed

definition sample_sync :: "nat sync_api" where
  "sample_sync =
     \<lparr>iree_hal_executable_plugin_manager_create = (\<lambda>out w. (0, 31, w)),
      iree_hal_system_library_loader_create = (\<lambda>m out w. (0, 32, w)),
      iree_hal_vmvx_module_loader_create_isolated = (\<lambda>out w. (5, 0, w)),
      iree_hal_allocator_create_heap = (\<lambda>n out w. (0, 34, w)),
      iree_hal_sync_device_create = (\<lambda>n ls a out w. (0, Some 35, w)),
      iree_hal_allocator_release = (\<lambda>a w. w),
      iree_hal_executable_loader_release = (\<lambda>l w. w)\<rparr>"

lemma sample_sync_run:
  "create_device_with_loaders sample_sync None sample_rt =
     Inr ((5, None), sample_rt\<lparr>rt_log := [AllocatorReleased 0, LoaderReleased 32, LoaderReleased 0]\<rparr>)"
  by (simp add: create_device_with_loaders_def if_ok_def sample_sync_def sample_rt_def log_event_def
      bind_sm_def)

theorem create_device_with_loaders_balanced_witness:
  "\<exists>a ls. length ls \<le> 2 \<and>
    [AllocatorReleased 0, LoaderReleased 32, LoaderReleased 0] = AllocatorReleased a # map LoaderReleased ls"
proof -
  have "rt_log (sample_rt\<lparr>rt_log := x\<rparr>) = x" "rt_log sample_rt = []" for x
    by (simp_all add: sample_rt_def)
  then show ?thesis
    using create_device_with_loaders_balanced [OF sample_sync_run] by auto
qed

text \<open>
  C31. A tensor built from a JavaScript typed array of a supported type is turned back into a
  typed array with the same bytes and as many elements as the byte length holds.
\<close>

theorem js_round_trip:
  assumes "nx_type_to_iree_type ty \<in> set js_element_types"
    and "length (js_convert a (nx_type_to_iree_type ty)) = unat (js_byteLength a)"
    and "js_byteLength a mod js_width (nx_type_to_iree_type ty) = 0"
    and "api_malloc api (js_byteLength a) (rt_world s) = (Some blk, w)"
    and "dev < length (rt_devices s)" and "rt_devices s ! dev = Some d" and "d_ref d = Some ref"
  shows "\<exists>p s' name. bind_sm (IREETensor_of_js api a dims ty dev) new_tensor s = Inr (p, s') \<and>
    iree_tensor_to_flat_js_array api p s' =
      Inr (JsView name (js_byteLength a div js_width (nx_type_to_iree_type ty))
        (js_convert a (nx_type_to_iree_type ty)), s')"
proof -
  let ?ty = "nx_type_to_iree_type ty"
  let ?t = "\<lparr>t_data = Some (js_convert a ?ty), t_size = js_byteLength a,
      t_dims = map word_of_int dims, t_type = ?ty, t_buffer_view = nullptr, t_device = Some ref\<rparr>"
  let ?s = "s\<lparr>rt_world := w, rt_tensors := rt_tensors s @ [Some ?t]\<rparr>"
  have new: "bind_sm (IREETensor_of_js api a dims ty dev) new_tensor s = Inr (length (rt_tensors s), ?s)"
    using IREETensor_of_js_ok [OF assms(1,2,4-7), of dims] by (simp add: bind_sm_Inr new_tensor_def)
  have at: "tensor_at ?s (length (rt_tensors s)) ?t" by (simp add: tensor_at_def)
  have whole: "js_byteLength a div js_width ?ty * js_width ?ty = js_byteLength a"
    using assms(3) div_mult_mod_eq [of "js_byteLength a" "js_width ?ty"] by simp
  obtain name where "js_view_of ?t (js_convert a ?ty) =
      Inr (JsView name (js_byteLength a div js_width ?ty) (js_convert a ?ty))"
    using js_view_of_ok [of ?t "js_convert a ?ty"] assms(1,2) whole by auto
  then have "iree_tensor_to_flat_js_array api (length (rt_tensors s)) ?s =
      Inr (JsView name (js_byteLength a div js_width ?ty) (js_convert a ?ty), ?s)"
    using iree_tensor_to_flat_js_array_host [OF at, of "js_convert a ?ty" api] by simp
  with new show ?thesis by blast
qed

definition sample_js_rt :: "nat rt" where
  "sample_js_rt = \<lparr>rt_world = 0, rt_tensors = [],
     rt_devices = [Some \<lparr>d_uri = ''u'', d_ref = Some 400, d_driver_name = ''d'', d_id = None\<rparr>],
     rt_log = []\<rparr>"

theorem js_round_trip_witness:
  "\<exists>p s' name. bind_sm (IREETensor_of_js sample_api \<lparr>js_byteLength = 4, js_convert = (\<lambda>t. [1, 2, 3, 4])\<rparr>
      [2] ''s16'' 0) new_tensor sample_js_rt = Inr (p, s') \<and>
    iree_tensor_to_flat_js_array sample_api p s' = Inr (JsView name 2 [1, 2, 3, 4], s')"
proof -
  let ?a = "\<lparr>js_byteLength = 4, js_convert = (\<lambda>t. [1, 2, 3, 4])\<rparr>"
  have ty: "nx_type_to_iree_type ''s16'' = element_type_code IREE_HAL_ELEMENT_TYPE_INT_16"
    by (simp add: nx_type_to_iree_type_def)
  have wd: "js_width (element_type_code IREE_HAL_ELEMENT_TYPE_INT_16) = 2"
    by (simp add: js_width_def iree_hal_element_dense_byte_count_def element_type_code_unpack)
  show ?thesis
    using js_round_trip [of "''s16''" ?a sample_api sample_js_rt "replicate 4 0" 0 0
        "\<lparr>d_uri = ''u'', d_ref = Some 400, d_driver_name = ''d'', d_id = None\<rparr>" 400 "[2]"]
    by (simp add: ty wd js_element_types_def sample_api_def sample_js_rt_def)
qed

text \<open>
  \<open>readBuffer\<close> of a tensor that holds its bytes on the host reports success and returns the
  fresh block as the allocator left it, not the bytes of the tensor.
\<close>

theorem read_buffer_of_host_tensor_uninitialised:
  assumes "tensor_at s p t" and "t_buffer_view t = nullptr"
    and "api_malloc api n (rt_world s) = (Some blk, w)"
    and "dev < length (rt_devices s)" and "rt_devices s ! dev = Some d" and "d_ref d = Some ref"
    and "iree_make_status api IREE_STATUS_OK [] w = (iree_ok_status, w')"
  shows "nx_iree_read_buffer api dev p n s =
    Inr ((iree_ok_status, Some \<lparr>db_data = blk, db_size = n\<rparr>), s\<lparr>rt_world := w'\<rparr>)"
  by (rule nx_iree_read_buffer_host [OF assms])

theorem read_buffer_of_host_tensor_uninitialised_witness:
  "nx_iree_read_buffer sample_api 0 0 4 (sample_js_rt\<lparr>rt_tensors := [Some sample_tensor]\<rparr>) =
    Inr ((iree_ok_status, Some \<lparr>db_data = replicate 4 0, db_size = 4\<rparr>),
      sample_js_rt\<lparr>rt_tensors := [Some sample_tensor], rt_world := 0\<rparr>)"
  by (rule read_buffer_of_host_tensor_uninitialised [where t = sample_tensor and ref = 400 and w = 0
        and d = "\<lparr>d_uri = ''u'', d_ref = Some 400, d_driver_name = ''d'', d_id = None\<rparr>"])
    (simp_all add: tensor_at_def sample_js_rt_def sample_tensor_def sample_api_def)

text \<open>
  C32. Handles: the instance made by \<open>createVMInstance\<close> survives any number of copies and as many drops
  of its handle, and the last drop releases it once and ends the handle. A status whose message is read
  is freed by \<open>getStatusMessage\<close>, the handle still holds it, and its last drop frees it again.
\<close>

theorem handles_release_once_statuses_twice:
  assumes "create_instance api (wasm_rt s) = Inr (p, r)"
    and "handle_at t h (So_status st) 1"
    and "iree_status_to_string api st (rt_world (wasm_rt t)) = (Some msg, w)"
  shows "(\<exists>i s1 s2 s3. nx_iree_create_vm_instance api s = Inr (i, s1) \<and>
      bind_sm (times_sm k (shared_copy i)) (\<lambda>_. times_sm k (shared_reset api R i)) s1 = Inr ((), s2) \<and>
      rt_log (wasm_rt s2) = rt_log r \<and> shared_reset api R i s2 = Inr ((), s3) \<and>
      rt_log (wasm_rt s3) = rt_log r @ [InstanceReleased p] \<and> shared_get i s3 = Inl UseAfterFree) \<and>
    (\<exists>m t1 t2. nx_iree_get_status_message api h t = Inr (m, t1) \<and> handle_at t1 h (So_status st) 1 \<and>
      shared_reset api R h t1 = Inr ((), t2) \<and>
      rt_log (wasm_rt t2) = rt_log (wasm_rt t) @ [StatusFreed st, StatusFreed st])"
  using instance_handle_life [OF assms(1)] status_handle_message [OF assms(2,3)] by blast

definition sample_registry :: "nat registry_api" where
  "sample_registry = \<lparr>iree_hal_driver_registry_free = (\<lambda>p w. w)\<rparr>"

definition sample_wasm :: "shared_obj \<Rightarrow> nat wasm" where
  "sample_wasm obj = \<lparr>wasm_rt = rt_init 0, wasm_shared = [Some (obj, 1)]\<rparr>"

theorem handles_release_once_statuses_twice_witness:
  "(\<exists>i s1 s2 s3. nx_iree_create_vm_instance sample_api (sample_wasm (So_status 0)) = Inr (i, s1) \<and>
      bind_sm (times_sm 2 (shared_copy i)) (\<lambda>_. times_sm 2 (shared_reset sample_api sample_registry i)) s1 =
        Inr ((), s2) \<and>
      shared_reset sample_api sample_registry i s2 = Inr ((), s3) \<and>
      rt_log (wasm_rt s3) = [InstanceReleased 100]) \<and>
    (\<exists>m t1 t2. nx_iree_get_status_message sample_api 0 (sample_wasm (So_status 37)) = Inr (m, t1) \<and>
      shared_reset sample_api sample_registry 0 t1 = Inr ((), t2) \<and>
      rt_log (wasm_rt t2) = [StatusFreed 37, StatusFreed 37])"
proof -
  have "create_instance sample_api (wasm_rt (sample_wasm (So_status 0))) = Inr (100, rt_init 0)"
    by (simp add: create_instance_def sample_api_def sample_wasm_def rt_init_def)
  moreover have "handle_at (sample_wasm (So_status 37)) 0 (So_status 37) 1"
    by (simp add: handle_at_def sample_wasm_def)
  moreover have "iree_status_to_string sample_api 37 (rt_world (wasm_rt (sample_wasm (So_status 37)))) =
      (Some ''status'', 0)"
    by (simp add: sample_api_def sample_wasm_def rt_init_def)
  ultimately have
    "(\<exists>i s1 s2 s3. nx_iree_create_vm_instance sample_api (sample_wasm (So_status 0)) = Inr (i, s1) \<and>
      bind_sm (times_sm 2 (shared_copy i)) (\<lambda>_. times_sm 2 (shared_reset sample_api sample_registry i)) s1 =
        Inr ((), s2) \<and>
      rt_log (wasm_rt s2) = rt_log (rt_init 0 :: nat rt) \<and>
      shared_reset sample_api sample_registry i s2 = Inr ((), s3) \<and>
      rt_log (wasm_rt s3) = rt_log (rt_init 0 :: nat rt) @ [InstanceReleased 100] \<and>
      shared_get i s3 = Inl UseAfterFree) \<and>
    (\<exists>m t1 t2. nx_iree_get_status_message sample_api 0 (sample_wasm (So_status 37)) = Inr (m, t1) \<and>
      handle_at t1 0 (So_status 37) 1 \<and> shared_reset sample_api sample_registry 0 t1 = Inr ((), t2) \<and>
      rt_log (wasm_rt t2) = rt_log (wasm_rt (sample_wasm (So_status 37))) @ [StatusFreed 37, StatusFreed 37])"
    by (rule handles_release_once_statuses_twice)
  then show ?thesis by (simp add: rt_init_def sample_wasm_def) blast
qed

section \<open>The Swift interface\<close>

text \<open>
  \<open>nx_iree_image_call\<close> on a valid image always reads out of bounds: the noise amount is
  copied as eight bytes from a four-byte \<open>float\<close>.
\<close>

theorem image_call_reads_past_noise:
  assumes "image_size input_dims = Inr n" and "unat n \<le> length img"
    and "\<And>n w. fst (api_malloc api n w) \<noteq> None"
  shows "nx_iree_image_call api inst dev bytecode input_dims (Some img) err seed noise s = Inl OutOfBounds"
  by (rule image_call_noise_out_of_bounds [OF assms])

theorem image_call_reads_past_noise_witness:
  "nx_iree_image_call sample_api 100 400 [] [1, 1, 2] (Some [5, 6]) [] 3 4 sample_rt = Inl OutOfBounds"
  by (rule image_call_reads_past_noise [where n = 2]) (simp_all add: image_size_def sample_api_def)

text \<open>
  \<open>nx_iree_call\<close> that returns an array returns exactly the requested number of serialized
  outputs, with the size of each in \<open>output_byte_sizes\<close>, and leaves the error buffer alone.
\<close>

theorem swift_call_outputs:
  assumes "nx_iree_call api inst dev bytecode ni sers no err s = Inr ((Some (outs, sizes), err'), s')"
  shows "length outs = no \<and> sizes = map (\<lambda>b. of_nat (length b)) outs \<and> err' = err"
  by (rule nx_iree_call_outputs [OF assms])

theorem swift_call_outputs_witness:
  "\<exists>outs sizes err' s'. nx_iree_call sample_api 100 400 [] 0 [] 0 [] sample_rt =
      Inr ((Some (outs, sizes), err'), s') \<and> length outs = 0"
proof -
  have "\<exists>outs sizes err' s'. nx_iree_call sample_api 100 400 [] 0 [] 0 [] sample_rt =
      Inr ((Some (outs, sizes), err'), s')"
    by (simp add: nx_iree_call_def call_def RETURN_PAIR_IF_ERROR_def bind_sm_def sample_rt_def
        call_invoke_def sample_api_def collect_outputs_step is_ok_def
        collect_outputs.simps [of _ _ _ "Suc 0" "Suc 0"] push_dims_eq output_of_def
        call_release_def log_event_def)
  then show ?thesis using swift_call_outputs by blast
qed

end
